(* ===== verification/Prelude.thy ===== *)
theory Prelude
  imports Main "HOL-Library.Word"
begin

text \<open>
  Shared vocabulary of the development: the machine types of the Go code, its error values and
  panics, byte readers, little-endian integers, and the theorem collections the component
  theories extend.

  A Go \<open>[]byte\<close> is a list of 8-bit words and a Go \<open>string\<close> a list of characters (bytes).
  An \<open>io.Reader\<close> over a buffer is the list of bytes still to be read: a reading operation takes
  it and returns the value, the error (\<open>None\<close> is Go's \<open>nil\<close>) and what is left.
  A function that may return an error or panic returns a value of type \<open>res\<close>.
  Go's signed integers \<open>int32\<close> and \<open>int64\<close> are words as well, read with \<open>sint\<close> where the code
  compares or indexes with them.
\<close>

unbundle bit_operations_syntax

type_synonym byte = "8 word"
type_synonym bytes = "byte list"
type_synonym u8 = "8 word"
type_synonym u16 = "16 word"
type_synonym u32 = "32 word"
type_synonym u64 = "64 word"
type_synonym i16 = "16 word"
type_synonym i32 = "32 word"
type_synonym i64 = "64 word"

named_theorems codec_simps \<open>reading back what was written, sizes of encodings\<close>
named_theorems wire_defs \<open>definitions of the wire layouts\<close>

section \<open>Errors, panics, results\<close>

datatype go_err =
    EOF
  | UnexpectedEOF
  | ErrSyntax
  | ErrRange
  | GoErr string

datatype 'a res =
    Ok 'a
  | Err go_err
  | Panic string

fun bind_res :: "'a res \<Rightarrow> ('a \<Rightarrow> 'b res) \<Rightarrow> 'b res" where
  "bind_res (Ok x) f = f x"
| "bind_res (Err e) f = Err e"
| "bind_res (Panic p) f = Panic p"

fun map_res :: "('a \<Rightarrow> 'b) \<Rightarrow> 'a res \<Rightarrow> 'b res" where
  "map_res f (Ok x) = Ok (f x)"
| "map_res f (Err e) = Err e"
| "map_res f (Panic p) = Panic p"

fun is_Ok :: "'a res \<Rightarrow> bool" where
  "is_Ok (Ok x) = True"
| "is_Ok (Err e) = False"
| "is_Ok (Panic p) = False"

fun panics :: "'a res \<Rightarrow> bool" where
  "panics (Ok x) = False"
| "panics (Err e) = False"
| "panics (Panic p) = True"

lemma bind_res_Ok_iff: "bind_res m f = Ok y \<longleftrightarrow> (\<exists>x. m = Ok x \<and> f x = Ok y)"
  by (cases m) auto

lemma bind_res_assoc [simp]: "bind_res (bind_res m f) g = bind_res m (\<lambda>x. bind_res (f x) g)"
  by (cases m) auto

lemma map_res_Ok_iff: "map_res f m = Ok y \<longleftrightarrow> (\<exists>x. m = Ok x \<and> y = f x)"
  by (cases m) auto

section \<open>Pointers to optional protobuf fields\<close>

text \<open>
  The generated getters all have the shape
  \<^verbatim>\<open>if x != nil && x.F != nil { return *x.F }; return default\<close>.
\<close>

fun get_or :: "'a \<Rightarrow> 'a option \<Rightarrow> 'a" where
  "get_or d None = d"
| "get_or d (Some x) = x"

section \<open>Bytes and strings\<close>

definition bytes_of :: "string \<Rightarrow> bytes" where
  "bytes_of s = map (\<lambda>c. word_of_nat (of_char c)) s"

definition string_of :: "bytes \<Rightarrow> string" where
  "string_of bs = map (\<lambda>b. char_of (unat b)) bs"

lemma string_of_bytes_of [simp]: "string_of (bytes_of s) = s"
proof -
  have "char_of (unat (word_of_nat (of_char c) :: byte)) = c" for c
  proof -
    have "(of_char c :: nat) < 256" by (rule nat_of_char_less_256)
    then have "unat (word_of_nat (of_char c) :: byte) = of_char c"
      by (simp add: unat_of_nat take_bit_nat_eq_self)
    then show ?thesis by simp
  qed
  then show ?thesis by (simp add: string_of_def bytes_of_def comp_def)
qed

lemma bytes_of_string_of [simp]: "bytes_of (string_of bs) = bs"
proof -
  have "word_of_nat (of_char (char_of (unat b) :: char)) = b" for b :: byte
  proof -
    have "unat b < 256" using unsigned_less [of b] by simp
    then show ?thesis by (simp add: of_char_of)
  qed
  then show ?thesis by (simp add: string_of_def bytes_of_def comp_def)
qed

lemma length_bytes_of [simp]: "length (bytes_of s) = length s"
  by (simp add: bytes_of_def)

lemma length_string_of [simp]: "length (string_of bs) = length bs"
  by (simp add: string_of_def)

lemma bytes_of_append [simp]: "bytes_of (s @ t) = bytes_of s @ bytes_of t"
  by (simp add: bytes_of_def)

lemma bytes_of_inj [simp]: "bytes_of s = bytes_of t \<longleftrightarrow> s = t"
  by (metis string_of_bytes_of)

section \<open>Little-endian and big-endian integers\<close>

text \<open>\<open>le_bytes n w\<close> is \<open>binary.Write\<close> of an \<open>n\<close>-byte integer, \<open>le_word\<close> reads it back.\<close>

definition le_bytes :: "nat \<Rightarrow> 'a::len word \<Rightarrow> bytes" where
  "le_bytes n w = map (\<lambda>i. ucast (drop_bit (8 * i) w)) [0..<n]"

fun le_word :: "bytes \<Rightarrow> 'a::len word" where
  "le_word [] = 0"
| "le_word (b # bs) = ucast b OR push_bit 8 (le_word bs)"

definition be_bytes :: "nat \<Rightarrow> 'a::len word \<Rightarrow> bytes" where
  "be_bytes n w = rev (le_bytes n w)"

definition be_word :: "bytes \<Rightarrow> 'a::len word" where
  "be_word bs = le_word (rev bs)"

lemma length_le_bytes [simp, codec_simps]: "length (le_bytes n w) = n"
  by (simp add: le_bytes_def)

lemma length_be_bytes [simp, codec_simps]: "length (be_bytes n w) = n"
  by (simp add: be_bytes_def)

lemma bit_le_word:
  "bit (le_word bs :: 'a::len word) k \<longleftrightarrow>
     k < LENGTH('a) \<and> k div 8 < length bs \<and> bit (bs ! (k div 8)) (k mod 8)"
proof (induction bs arbitrary: k)
  case Nil
  then show ?case by simp
next
  case (Cons b bs)
  show ?case
  proof (cases "k < 8")
    case True
    then show ?thesis by (auto simp: bit_simps)
  next
    case False
    then obtain j where j: "k = j + 8" by (metis add.commute le_iff_add not_less)
    have "(j + 8) div 8 = Suc (j div 8)" and "(j + 8) mod 8 = j mod 8"
      by simp_all
    moreover have "\<not> bit b (j + 8)"
      using bit_imp_le_length [of b "j + 8"] by auto
    ultimately show ?thesis
      using Cons.IH [of j] by (simp add: j bit_simps) auto
  qed
qed

lemma le_word_le_bytes [simp, codec_simps]:
  fixes w :: "'a::len word"
  assumes "LENGTH('a) \<le> 8 * n"
  shows "le_word (le_bytes n w) = w"
proof (rule bit_word_eqI)
  fix k
  assume k: "k < LENGTH('a)"
  then have "k div 8 < n" using assms by auto
  with k show "bit (le_word (le_bytes n w) :: 'a word) k \<longleftrightarrow> bit w k"
    by (simp add: bit_le_word) (simp add: le_bytes_def bit_simps)
qed

lemma be_word_be_bytes [simp, codec_simps]:
  fixes w :: "'a::len word"
  assumes "LENGTH('a) \<le> 8 * n"
  shows "be_word (be_bytes n w) = w"
  using assms by (simp add: be_word_def be_bytes_def)

section \<open>Readers\<close>

type_synonym 'a rdr = "bytes \<Rightarrow> 'a \<times> go_err option \<times> bytes"

text \<open>\<open>io.ReadFull\<close> into a buffer of \<open>n\<close> bytes: all of it, or an error and everything consumed.\<close>

definition ReadFull :: "nat \<Rightarrow> bytes rdr" where
  "ReadFull n r =
     (if n \<le> length r then (take n r, None, drop n r)
      else if r = [] then ([], Some EOF, [])
      else ([], Some UnexpectedEOF, []))"

text \<open>
  \<open>binary.Read(r, binary.LittleEndian, &c)\<close> of an integer: on an error the variable keeps its
  zero value.
\<close>

definition read_le :: "nat \<Rightarrow> ('a::len word) rdr" where
  "read_le n r = (case ReadFull n r of
       (bs, None, r') \<Rightarrow> (le_word bs, None, r')
     | (bs, Some e, r') \<Rightarrow> (0, Some e, r'))"

lemma ReadFull_append [simp, codec_simps]: "length bs = n \<Longrightarrow> ReadFull n (bs @ r) = (bs, None, r)"
  by (simp add: ReadFull_def)

lemma read_le_append [simp, codec_simps]:
  fixes w :: "'a::len word"
  shows "LENGTH('a) \<le> 8 * n \<Longrightarrow> read_le n (le_bytes n w @ r) = (w, None, r)"
  by (simp add: read_le_def)

lemma ReadFull_short: "length r < n \<Longrightarrow> ReadFull n r = ([], Some (if r = [] then EOF else UnexpectedEOF), [])"
  by (simp add: ReadFull_def)

lemma ReadFull_long: "n \<le> length r \<Longrightarrow> ReadFull n r = (take n r, None, drop n r)"
  by (simp add: ReadFull_def)

section \<open>Association-free helper facts on lists\<close>

lemma prefix_append_unique:
  assumes "length a = length b" and "a @ r = b @ s"
  shows "a = b \<and> r = s"
  using assms by simp

lemma foldl_append_collect: "foldl (\<lambda>acc x. acc @ f x) acc xs = acc @ concat (map f xs)"
  by (induction xs arbitrary: acc) auto

end
