(* ===== verification/Go_Std.thy ===== *)
theory Go_Std
  imports Prelude "HOL-Library.Char_ord"
begin

text \<open>
  The part of Go's standard library the program relies on, as the source uses it: decimal
  formatting and parsing (\<open>strconv\<close>), splitting and deleting substrings (\<open>strings\<close>), hexadecimal and
  base64 text (\<open>encoding/hex\<close>, \<open>encoding/base64\<close>), a substring search (\<open>regexp\<close> with a pattern
  of fixed length) and CRC-32 (\<open>hash/crc32\<close>).
  The locale \<open>text_codec\<close> is the contract of every printer that has a parser.
\<close>

section \<open>The contract of a printer and its parser\<close>

locale text_codec =
  fixes enc :: "'a \<Rightarrow> string"
    and dec :: "string \<Rightarrow> 'a res"
    and valid :: "'a \<Rightarrow> bool"
  assumes dec_enc: "valid x \<Longrightarrow> dec (enc x) = Ok x"
begin

lemma enc_inj: "valid x \<Longrightarrow> valid y \<Longrightarrow> enc x = enc y \<Longrightarrow> x = y"
  by (metis dec_enc res.inject(1))

lemma enc_inj_on: "inj_on enc {x. valid x}"
  by (auto intro: inj_onI enc_inj)

lemma dec_not_panics: "valid x \<Longrightarrow> \<not> panics (dec (enc x))"
  by (simp add: dec_enc)

lemma enc_keys_distinct:
  assumes "\<forall>x \<in> set xs. valid x" and "distinct xs"
  shows "distinct (map enc xs)"
  using assms enc_inj by (simp add: distinct_map inj_on_def)

end

section \<open>Decimal numbers\<close>

definition digit_char :: "nat \<Rightarrow> char" where
  "digit_char d = char_of (48 + d)"

definition is_digit :: "char \<Rightarrow> bool" where
  "is_digit c \<longleftrightarrow> 48 \<le> (of_char c :: nat) \<and> (of_char c :: nat) \<le> 57"

definition digit_val :: "char \<Rightarrow> nat" where
  "digit_val c = of_char c - 48"

text \<open>\<open>strconv.FormatUint(n, 10)\<close>.\<close>

fun FormatUint :: "nat \<Rightarrow> string" where
  "FormatUint n = (if n < 10 then [digit_char n] else FormatUint (n div 10) @ [digit_char (n mod 10)])"

declare FormatUint.simps [simp del]

text \<open>
  \<open>strconv.ParseUint(s, 10, bits)\<close>: the value and the error. A character that is no digit gives 0 and
  a syntax error, a number above the maximum the maximum and a range error, whichever comes
  first.
\<close>

fun parse_uint_loop :: "nat \<Rightarrow> nat \<Rightarrow> string \<Rightarrow> nat \<times> go_err option" where
  "parse_uint_loop m n [] = (n, None)"
| "parse_uint_loop m n (c # cs) =
     (if \<not> is_digit c then (0, Some ErrSyntax)
      else if m < 10 * n + digit_val c then (m, Some ErrRange)
      else parse_uint_loop m (10 * n + digit_val c) cs)"

definition ParseUint :: "string \<Rightarrow> nat \<Rightarrow> nat \<times> go_err option" where
  "ParseUint s bits = (if s = [] then (0, Some ErrSyntax) else parse_uint_loop (2 ^ bits - 1) 0 s)"

text \<open>\<open>strconv.ParseInt(s, 10, bits)\<close>.\<close>

definition ParseInt :: "string \<Rightarrow> nat \<Rightarrow> int \<times> go_err option" where
  "ParseInt s bits =
     (if s = [] then (0, Some ErrSyntax)
      else
        let neg = (hd s = CHR ''-'');
            ds = (if hd s = CHR ''+'' \<or> neg then tl s else s)
        in (case ParseUint ds bits of
             (un, e) \<Rightarrow>
               if e = Some ErrSyntax then (0, e)
               else if \<not> neg \<and> 2 ^ (bits - 1) \<le> un then (2 ^ (bits - 1) - 1, Some ErrRange)
               else if neg \<and> 2 ^ (bits - 1) < un then (- (2 ^ (bits - 1)), Some ErrRange)
               else (if neg then - int un else int un, None)))"

lemma digit_char_props [simp]:
  assumes "d < 10"
  shows "is_digit (digit_char d)" and "digit_val (digit_char d) = d"
    and "(of_char (digit_char d) :: nat) = 48 + d"
proof -
  have "(of_char (digit_char d) :: nat) = 48 + d"
    using assms by (simp add: digit_char_def of_char_of)
  with assms show "is_digit (digit_char d)" and "digit_val (digit_char d) = d"
    and "(of_char (digit_char d) :: nat) = 48 + d"
    by (simp_all add: is_digit_def digit_val_def)
qed

lemma digit_char_literals [simp]:
  "digit_char 0 = CHR ''0''" "digit_char 1 = CHR ''1''" "digit_char (Suc 0) = CHR ''1''"
  "digit_char 2 = CHR ''2''" "digit_char 3 = CHR ''3''" "digit_char 4 = CHR ''4''"
  "digit_char 5 = CHR ''5''" "digit_char 6 = CHR ''6''" "digit_char 7 = CHR ''7''"
  "digit_char 8 = CHR ''8''" "digit_char 9 = CHR ''9''"
  by code_simp+

lemma FormatUint_not_Nil [simp]: "FormatUint n \<noteq> []"
  by (subst FormatUint.simps) simp

lemma FormatUint_digits: "c \<in> set (FormatUint n) \<Longrightarrow> is_digit c"
proof (induction n rule: FormatUint.induct)
  case (1 n)
  then show ?case
    by (subst (asm) FormatUint.simps) (auto split: if_splits)
qed

lemma parse_uint_loop_append:
  assumes "\<forall>c \<in> set xs. is_digit c" and "parse_uint_loop m n xs = (v, None)"
  shows "parse_uint_loop m n (xs @ ys) = parse_uint_loop m v ys"
  using assms
  by (induction xs arbitrary: n) (auto split: if_splits)

lemma parse_FormatUint: "n \<le> m \<Longrightarrow> parse_uint_loop m 0 (FormatUint n) = (n, None)"
proof (induction n rule: FormatUint.induct)
  case (1 n)
  show ?case
  proof (cases "n < 10")
    case True
    with "1.prems" show ?thesis by (subst FormatUint.simps) simp
  next
    case False
    have "n div 10 \<le> m" using "1.prems" by linarith
    with "1.IH" False have ih: "parse_uint_loop m 0 (FormatUint (n div 10)) = (n div 10, None)"
      by simp
    have "parse_uint_loop m 0 (FormatUint (n div 10) @ [digit_char (n mod 10)])
        = parse_uint_loop m (n div 10) [digit_char (n mod 10)]"
      by (rule parse_uint_loop_append) (auto simp: ih FormatUint_digits)
    also have "\<dots> = (n, None)" using "1.prems" by simp
    finally show ?thesis using False by (subst FormatUint.simps) simp
  qed
qed

lemma ParseUint_FormatUint [simp]:
  "n < 2 ^ bits \<Longrightarrow> ParseUint (FormatUint n) bits = (n, None)"
  by (simp add: ParseUint_def parse_FormatUint)

lemma parse_uint_loop_bound:
  "n \<le> m \<Longrightarrow> fst (parse_uint_loop m n s) \<le> m"
  by (induction m n s rule: parse_uint_loop.induct) auto

lemma ParseUint_bound: "fst (ParseUint s bits) < 2 ^ bits"
proof -
  have "fst (parse_uint_loop (2 ^ bits - 1) 0 s) \<le> 2 ^ bits - 1"
    by (rule parse_uint_loop_bound) simp
  also have "\<dots> < 2 ^ bits" by simp
  finally show ?thesis by (simp add: ParseUint_def)
qed

lemma hd_FormatUint_digit [simp]: "is_digit (hd (FormatUint n))"
  by (rule FormatUint_digits [OF hd_in_set]) simp

lemma not_digit_sign [simp]:
  "\<not> is_digit CHR ''-''" "\<not> is_digit CHR ''+''" "\<not> is_digit CHR '':''" "\<not> is_digit CHR ''S''"
  by (simp_all add: is_digit_def)

lemma ParseInt_FormatUint [simp]:
  assumes "n < 2 ^ (bits - 1)"
  shows "ParseInt (FormatUint n) bits = (int n, None)"
proof -
  have "hd (FormatUint n) \<noteq> CHR ''-''" "hd (FormatUint n) \<noteq> CHR ''+''"
    using hd_FormatUint_digit [of n] by force+
  moreover have "n < 2 ^ bits"
    using assms by (rule less_le_trans) (simp add: power_increasing)
  ultimately show ?thesis using assms by (simp add: ParseInt_def)
qed

text \<open>The decimal text of a 64-bit integer, as a printer with a parser.\<close>

definition u64_text :: "u64 \<Rightarrow> string" where
  "u64_text w = FormatUint (unat w)"

definition u64_parse :: "string \<Rightarrow> u64 res" where
  "u64_parse s = (case ParseUint s 64 of (n, None) \<Rightarrow> Ok (word_of_nat n) | (n, Some e) \<Rightarrow> Err e)"

lemma unat_lt_pow [simp]: "unat (w :: 'a::len word) < 2 ^ LENGTH('a)"
  by (rule unsigned_less)

interpretation u64_decimal: text_codec u64_text u64_parse "\<lambda>_. True"
proof
  fix w :: u64
  have "unat w < 2 ^ 64" using unat_lt_pow [of w] by simp
  then show "u64_parse (u64_text w) = Ok w" by (simp add: u64_parse_def u64_text_def)
qed

section \<open>Splitting, deleting, searching\<close>

text \<open>\<open>strings.Split(s, sep)\<close> for a separator of one character: always at least one piece.\<close>

fun split_on :: "char \<Rightarrow> string \<Rightarrow> string list" where
  "split_on sep [] = [[]]"
| "split_on sep (c # cs) =
     (if c = sep then [] # split_on sep cs
      else (case split_on sep cs of
              [] \<Rightarrow> [[c]]
            | p # ps \<Rightarrow> (c # p) # ps))"

text \<open>\<open>strings.Replace(s, pat, "", -1)\<close>: every occurrence, from the left, without overlaps.\<close>

lemma length_drop_matched:
  assumes "pat \<noteq> []" and "take (length pat) s = pat"
  shows "length s - length pat < length s"
proof -
  have "length pat = min (length s) (length pat)" using assms(2) by (metis length_take min.commute)
  then show ?thesis using assms(1) by (cases "length pat") auto
qed

function remove_all :: "string \<Rightarrow> string \<Rightarrow> string" where
  "remove_all pat s =
     (if pat \<noteq> [] \<and> take (length pat) s = pat then remove_all pat (drop (length pat) s)
      else (case s of [] \<Rightarrow> [] | c # cs \<Rightarrow> c # remove_all pat cs))"
  by pat_completeness auto
termination
  by (relation "measure (\<lambda>(pat, s). length s)") (auto intro: length_drop_matched)

declare remove_all.simps [simp del]

text \<open>An unanchored match of a pattern that a prefix test decides.\<close>

fun search :: "(string \<Rightarrow> bool) \<Rightarrow> string \<Rightarrow> bool" where
  "search p [] = p []"
| "search p (c # cs) = (p (c # cs) \<or> search p cs)"

lemma split_on_not_Nil [simp]: "split_on sep s \<noteq> []"
  by (induction s) (auto split: list.splits)

lemma length_split_on: "length (split_on sep s) = Suc (count_list s sep)"
proof (induction s)
  case Nil
  then show ?case by simp
next
  case (Cons c cs)
  then show ?case by (cases "split_on sep cs") auto
qed

lemma split_on_no_sep: "sep \<notin> set s \<Longrightarrow> split_on sep s = [s]"
  by (induction s) auto

lemma split_on_append: "sep \<notin> set s \<Longrightarrow> split_on sep (s @ sep # t) = s # split_on sep t"
  by (induction s) auto

lemma count_list_remove_all:
  "x \<notin> set pat \<Longrightarrow> count_list (remove_all pat s) x = count_list s x"
proof (induction pat s rule: remove_all.induct)
  case (1 pat s)
  show ?case
  proof (cases "pat \<noteq> [] \<and> take (length pat) s = pat")
    case True
    have "count_list s x = count_list (take (length pat) s) x + count_list (drop (length pat) s) x"
      by (metis append_take_drop_id count_list_append)
    also have "count_list (take (length pat) s) x = 0"
      using True "1.prems" by (simp add: count_list_0_iff)
    finally show ?thesis
      using "1.IH"(1) [OF True "1.prems"] True by (subst remove_all.simps) simp
  next
    case False
    then show ?thesis
      using "1.IH"(2) [OF False] "1.prems"
      by (subst remove_all.simps) (auto split: list.splits)
  qed
qed

lemma remove_all_prefix [simp]: "pat \<noteq> [] \<Longrightarrow> remove_all pat (pat @ s) = remove_all pat s"
  by (subst remove_all.simps) simp

lemma remove_all_no_hd:
  "pat \<noteq> [] \<Longrightarrow> hd pat \<notin> set s \<Longrightarrow> remove_all pat s = s"
proof (induction s)
  case Nil
  then show ?case by (subst remove_all.simps) simp
next
  case (Cons c cs)
  then have "take (length pat) (c # cs) \<noteq> pat" by (cases pat) auto
  with Cons show ?case by (subst remove_all.simps) auto
qed

lemma search_prefix: "p s \<Longrightarrow> search p s"
  by (cases s) auto

lemma search_iff: "search p s \<longleftrightarrow> (\<exists>a b. s = a @ b \<and> p b)"
proof (induction s)
  case Nil
  then show ?case by simp
next
  case (Cons c cs)
  then show ?case by (auto simp: Cons_eq_append_conv)
qed

lemma digit_not_in_FormatUint: "\<not> is_digit c \<Longrightarrow> c \<notin> set (FormatUint n)"
  using FormatUint_digits by blast

section \<open>Hexadecimal text\<close>

definition hex_char :: "nat \<Rightarrow> char" where
  "hex_char d = (if d < 10 then char_of (48 + d) else char_of (87 + d))"

definition hex_val :: "char \<Rightarrow> nat option" where
  "hex_val c =
     (let n = of_char c :: nat in
      if 48 \<le> n \<and> n \<le> 57 then Some (n - 48)
      else if 97 \<le> n \<and> n \<le> 102 then Some (n - 87)
      else if 65 \<le> n \<and> n \<le> 70 then Some (n - 55)
      else None)"

text \<open>\<open>hex.EncodeToString\<close> and \<open>hex.DecodeString\<close>.\<close>

definition hex_encode :: "bytes \<Rightarrow> string" where
  "hex_encode bs = concat (map (\<lambda>b. [hex_char (unat b div 16), hex_char (unat b mod 16)]) bs)"

fun hex_decode :: "string \<Rightarrow> bytes res" where
  "hex_decode [] = Ok []"
| "hex_decode [c] = (case hex_val c of
       None \<Rightarrow> Err (GoErr ''encoding/hex: invalid byte'')
     | Some _ \<Rightarrow> Err (GoErr ''encoding/hex: odd length hex string''))"
| "hex_decode (a # b # cs) = (case (hex_val a, hex_val b) of
       (Some x, Some y) \<Rightarrow> map_res (\<lambda>bs. word_of_nat (16 * x + y) # bs) (hex_decode cs)
     | _ \<Rightarrow> Err (GoErr ''encoding/hex: invalid byte''))"

lemma hex_val_hex_char [simp]: "d < 16 \<Longrightarrow> hex_val (hex_char d) = Some d"
  by (auto simp: hex_val_def hex_char_def of_char_of Let_def)

lemma hex_decode_encode [simp]: "hex_decode (hex_encode bs) = Ok bs"
proof (induction bs)
  case Nil
  then show ?case by (simp add: hex_encode_def)
next
  case (Cons b bs)
  have lt: "unat b < 256" using unat_lt_pow [of b] by simp
  have "hex_val (hex_char (unat b div 16)) = Some (unat b div 16)"
    and "hex_val (hex_char (unat b mod 16)) = Some (unat b mod 16)"
    using lt by simp_all
  moreover have "16 * (unat b div 16) + unat b mod 16 = unat b" by simp
  ultimately show ?case using Cons by (simp add: hex_encode_def)
qed

lemma length_hex_encode [simp]: "length (hex_encode bs) = 2 * length bs"
  by (induction bs) (auto simp: hex_encode_def)

definition is_hex_char :: "char \<Rightarrow> bool" where
  "is_hex_char c \<longleftrightarrow> c \<in> set ''0123456789abcdef''"

lemma hex_char_is_hex: "d < 16 \<Longrightarrow> is_hex_char (hex_char d)"
proof -
  assume "d < 16"
  moreover have "list_all (\<lambda>d. is_hex_char (hex_char d)) [0..<16]" by code_simp
  ultimately show ?thesis by (simp add: list_all_iff)
qed

interpretation hex_text: text_codec hex_encode hex_decode "\<lambda>_. True"
  by unfold_locales simp

end
