(* ===== verification/Go_Crypto.thy ===== *)
theory Go_Crypto
  imports Go_Std
begin

text \<open>
  The parts of Go's standard library that the repository computes with: \<open>crypto/sha1\<close>, \<open>crypto/hmac\<close>,
  \<open>hash/crc32\<close> (the IEEE polynomial) and \<open>encoding/base64\<close> (the standard encoding), written from
  their specifications (FIPS 180-4, RFC 2104, RFC 4648).
\<close>

section \<open>crypto/sha1\<close>

type_synonym sha_state = "u32 \<times> u32 \<times> u32 \<times> u32 \<times> u32"

definition sha1_init :: sha_state where
  "sha1_init = (0x67452301, 0xEFCDAB89, 0x98BADCFE, 0x10325476, 0xC3D2E1F0)"

definition rotl :: "nat \<Rightarrow> u32 \<Rightarrow> u32" where
  "rotl n w = push_bit n w OR drop_bit (32 - n) w"

definition sha1_pad :: "bytes \<Rightarrow> bytes" where
  "sha1_pad m = m @ [0x80] @ replicate ((119 - length m mod 64) mod 64) 0 @ be_bytes 8 (word_of_nat (8 * length m) :: u64)"

fun chunks :: "nat \<Rightarrow> 'a list \<Rightarrow> 'a list list" where
  "chunks n [] = []"
| "chunks n (x # xs) = (if n = 0 then [] else take n (x # xs) # chunks n (drop n (x # xs)))"

text \<open>The message schedule, kept newest first.\<close>

fun sha1_schedule :: "nat \<Rightarrow> u32 list \<Rightarrow> u32 list" where
  "sha1_schedule 0 ws = ws"
| "sha1_schedule (Suc k) ws =
     sha1_schedule k (rotl 1 (ws ! 2 XOR ws ! 7 XOR ws ! 13 XOR ws ! 15) # ws)"

definition sha1_f :: "nat \<Rightarrow> u32 \<Rightarrow> u32 \<Rightarrow> u32 \<Rightarrow> u32" where
  "sha1_f t b c d = (if t < 20 then (b AND c) OR (NOT b AND d)
     else if t < 40 then b XOR c XOR d
     else if t < 60 then (b AND c) OR (b AND d) OR (c AND d)
     else b XOR c XOR d)"

definition sha1_k :: "nat \<Rightarrow> u32" where
  "sha1_k t = (if t < 20 then 0x5A827999 else if t < 40 then 0x6ED9EBA1
     else if t < 60 then 0x8F1BBCDC else 0xCA62C1D6)"

fun sha1_rounds :: "nat \<Rightarrow> u32 list \<Rightarrow> sha_state \<Rightarrow> sha_state" where
  "sha1_rounds t [] s = s"
| "sha1_rounds t (w # ws) (a, b, c, d, e) =
     sha1_rounds (Suc t) ws (rotl 5 a + sha1_f t b c d + e + sha1_k t + w, a, rotl 30 b, c, d)"

definition sha1_block :: "sha_state \<Rightarrow> bytes \<Rightarrow> sha_state" where
  "sha1_block s blk =
     (let ws = rev (sha1_schedule 64 (rev (map be_word (chunks 4 blk))))
      in case (s, sha1_rounds 0 ws s) of ((a, b, c, d, e), (a', b', c', d', e')) \<Rightarrow>
           (a + a', b + b', c + c', d + d', e + e'))"

definition sha1_Sum :: "bytes \<Rightarrow> bytes" where
  "sha1_Sum m = (case foldl sha1_block sha1_init (chunks 64 (sha1_pad m)) of
     (a, b, c, d, e) \<Rightarrow> be_bytes 4 a @ be_bytes 4 b @ be_bytes 4 c @ be_bytes 4 d @ be_bytes 4 e)"

lemma length_sha1_Sum [simp]: "length (sha1_Sum m) = 20"
  by (simp add: sha1_Sum_def split: prod.split)

lemma length_sha1_pad: "length (sha1_pad m) mod 64 = 0"
proof -
  define k where "k = length m mod 64"
  have "k < 64" by (simp add: k_def)
  then have "(119 - k) mod 64 = (if k \<le> 55 then 55 - k else 119 - k)"
    by (simp add: mod_if)
  then have "(k + 9 + (119 - k) mod 64) mod 64 = 0" using \<open>k < 64\<close> by auto
  moreover have "length (sha1_pad m) = length m + (9 + (119 - k) mod 64)"
    by (simp add: sha1_pad_def k_def)
  ultimately show ?thesis
    by (metis (no_types, lifting) add.assoc k_def mod_add_left_eq)
qed

section \<open>crypto/hmac over SHA-1\<close>

definition hmac_key :: "bytes \<Rightarrow> bytes" where
  "hmac_key key =
     (let k = (if length key > 64 then sha1_Sum key else key) in k @ replicate (64 - length k) 0)"

definition hmac_sha1 :: "bytes \<Rightarrow> bytes \<Rightarrow> bytes" where
  "hmac_sha1 key msg =
     sha1_Sum (map (\<lambda>b. b XOR 0x5c) (hmac_key key) @ sha1_Sum (map (\<lambda>b. b XOR 0x36) (hmac_key key) @ msg))"

lemma length_hmac_sha1 [simp]: "length (hmac_sha1 key msg) = 20"
  by (simp add: hmac_sha1_def)

lemma length_hmac_key: "length (hmac_key key) = 64"
  by (simp add: hmac_key_def Let_def)

section \<open>hash/crc32\<close>

fun crc_bits :: "nat \<Rightarrow> u32 \<Rightarrow> u32" where
  "crc_bits 0 c = c"
| "crc_bits (Suc k) c = crc_bits k (if bit c 0 then drop_bit 1 c XOR 0xEDB88320 else drop_bit 1 c)"

definition crc32_ChecksumIEEE :: "bytes \<Rightarrow> u32" where
  "crc32_ChecksumIEEE bs = NOT (foldl (\<lambda>c b. crc_bits 8 (c XOR ucast b)) (NOT 0) bs)"

section \<open>encoding/base64\<close>

definition b64_char :: "nat \<Rightarrow> char" where
  "b64_char i = (if i < 26 then char_of (65 + i) else if i < 52 then char_of (71 + i)
     else if i < 62 then char_of (i - 4) else if i = 62 then CHR ''+'' else CHR ''/'')"

definition b64_val :: "char \<Rightarrow> nat option" where
  "b64_val c =
     (let n = of_char c :: nat in
      if 65 \<le> n \<and> n \<le> 90 then Some (n - 65)
      else if 97 \<le> n \<and> n \<le> 122 then Some (n - 71)
      else if 48 \<le> n \<and> n \<le> 57 then Some (n + 4)
      else if c = CHR ''+'' then Some 62 else if c = CHR ''/'' then Some 63 else None)"

fun b64_encode :: "bytes \<Rightarrow> string" where
  "b64_encode [] = []"
| "b64_encode [a] = (let n = unat a * 16 in [b64_char (n div 64), b64_char (n mod 64), CHR ''='', CHR ''=''])"
| "b64_encode [a, b] = (let n = (unat a * 256 + unat b) * 4 in
     [b64_char (n div 4096), b64_char (n div 64 mod 64), b64_char (n mod 64), CHR ''=''])"
| "b64_encode (a # b # c # r) = (let n = unat a * 65536 + unat b * 256 + unat c in
     [b64_char (n div 262144), b64_char (n div 4096 mod 64), b64_char (n div 64 mod 64), b64_char (n mod 64)]
     @ b64_encode r)"

text \<open>
  \<open>DecodeString\<close> of the standard encoding: line breaks are skipped, anything else outside the
  alphabet and every misplaced or missing padding character is an error; the unused low bits of the
  last character are not looked at.
\<close>

fun b64_quads :: "string \<Rightarrow> bytes option" where
  "b64_quads [] = Some []"
| "b64_quads [p, q, r, s] =
     (case (b64_val p, b64_val q, b64_val r, b64_val s) of
        (Some a, Some b, Some c, Some d) \<Rightarrow>
          (let n = a * 262144 + b * 4096 + c * 64 + d in
           Some [word_of_nat (n div 65536), word_of_nat (n div 256), word_of_nat n])
      | (Some a, Some b, Some c, None) \<Rightarrow>
          if s = CHR ''='' then Some [word_of_nat (a * 4 + b div 16), word_of_nat (b * 16 + c div 4)] else None
      | (Some a, Some b, None, None) \<Rightarrow>
          if r = CHR ''='' \<and> s = CHR ''='' then Some [word_of_nat (a * 4 + b div 16)] else None
      | _ \<Rightarrow> None)"
| "b64_quads (p # q # r # s # t) =
     (case (b64_val p, b64_val q, b64_val r, b64_val s) of
        (Some a, Some b, Some c, Some d) \<Rightarrow>
          (let n = a * 262144 + b * 4096 + c * 64 + d in
           map_option (\<lambda>x. [word_of_nat (n div 65536), word_of_nat (n div 256), word_of_nat n] @ x) (b64_quads t))
      | _ \<Rightarrow> None)"
| "b64_quads s = None"

definition b64_decode :: "string \<Rightarrow> bytes res" where
  "b64_decode s = (case b64_quads (filter (\<lambda>c. c \<noteq> CHR 0x0A \<and> c \<noteq> CHR 0x0D) s) of
     Some bs \<Rightarrow> Ok bs | None \<Rightarrow> Err (GoErr ''illegal base64 data''))"

lemma b64_val_char [simp]: "d < 64 \<Longrightarrow> b64_val (b64_char d) = Some d"
  by (auto simp: b64_val_def b64_char_def of_char_of Let_def)

lemma b64_val_pad [simp]: "b64_val CHR ''='' = None"
  by (simp add: b64_val_def)

lemma b64_char_no_break: "d < 64 \<Longrightarrow> b64_char d \<noteq> CHR 0x0A \<and> b64_char d \<noteq> CHR 0x0D"
proof -
  assume d: "d < 64"
  have "b64_val CHR 0x0A = None" "b64_val CHR 0x0D = None"
    by (simp_all add: b64_val_def)
  then show ?thesis using b64_val_char [OF d] by auto
qed

lemma unat_byte_less [simp]: "unat (b :: byte) < 256"
  using unsigned_less [of b] by simp

lemma byte_of_nat_high: "word_of_nat (256 * k + n) = (word_of_nat n :: byte)"
  unfolding word_unat_eq_iff unat_of_nat take_bit_eq_mod by simp

lemma pack_div: "b < m \<Longrightarrow> (a * m + b) div m = (a :: nat)"
  and pack_mod: "b < m \<Longrightarrow> (a * m + b) mod m = (b :: nat)"
  by simp_all

lemma base64_digits:
  "n div 262144 * 262144 + n div 4096 mod 64 * 4096 + n div 64 mod 64 * 64 + n mod 64 = (n :: nat)"
proof -
  define q1 q2 q3 where "q1 = n div 64" and "q2 = q1 div 64" and "q3 = q2 div 64"
  have "n div 4096 = q2" "n div 262144 = q3" "n div 64 = q1"
    by (simp_all add: q1_def q2_def q3_def div_mult2_eq [symmetric])
  moreover have "n = 64 * q1 + n mod 64" "q1 = 64 * q2 + q1 mod 64" "q2 = 64 * q3 + q2 mod 64"
    by (simp_all add: q1_def q2_def q3_def)
  ultimately show ?thesis by simp
qed

lemma three_bytes:
  fixes a b c :: byte
  defines "n \<equiv> unat a * 65536 + unat b * 256 + unat c"
  shows "word_of_nat (n div 65536) = a" "word_of_nat (n div 256) = b" "word_of_nat n = c"
    and "n div 262144 < 64"
proof -
  have bounds: "unat a < 256" "unat b < 256" "unat c < 256" by simp_all
  have n: "n = (unat a * 256 + unat b) * 256 + unat c" by (simp add: n_def)
  have d2: "n div 256 = unat a * 256 + unat b"
    unfolding n by (rule pack_div) (rule bounds)
  have "n div 65536 = n div 256 div 256" by (simp add: div_mult2_eq [symmetric])
  also have "\<dots> = unat a" unfolding d2 by (rule pack_div) (rule bounds)
  finally show "word_of_nat (n div 65536) = a" by simp
  have "n div 256 = 256 * unat a + unat b" by (simp add: d2)
  then show "word_of_nat (n div 256) = b" by (simp only: byte_of_nat_high) simp
  have "n = 256 * (unat a * 256 + unat b) + unat c" by (simp add: n)
  then show "word_of_nat n = c" by (simp only: byte_of_nat_high) simp
  have "n < 64 * 262144" using bounds unfolding n_def by linarith
  then show "n div 262144 < 64" by (simp add: div_less_iff_less_mult)
qed

lemma two_bytes:
  fixes a b :: byte
  defines "n \<equiv> (unat a * 256 + unat b) * 4"
  shows "word_of_nat (n div 4096 * 4 + n div 64 mod 64 div 16) = a"
    and "word_of_nat (n div 64 mod 64 * 16 + n mod 64 div 4) = b"
    and "n div 4096 < 64"
proof -
  define xq xr yq yr where "xq = unat a div 4" and "xr = unat a mod 4"
    and "yq = unat b div 16" and "yr = unat b mod 16"
  have "unat a < 256" "unat b < 256" by simp_all
  then have bounds: "xq < 64" "xr < 4" "yq < 16" "yr < 16"
    by (simp_all add: xq_def xr_def yq_def yr_def div_less_iff_less_mult)
  have x: "unat a = xq * 4 + xr" and y: "unat b = yq * 16 + yr"
    by (simp_all add: xq_def xr_def yq_def yr_def)
  have n: "n = (xq * 64 + (xr * 16 + yq)) * 64 + yr * 4"
    by (simp add: n_def x y algebra_simps)
  have d1: "n div 64 = xq * 64 + (xr * 16 + yq)" and m: "n mod 64 = yr * 4"
    unfolding n using bounds by (simp_all only: pack_div pack_mod)
  have d2: "n div 64 mod 64 = xr * 16 + yq"
    unfolding d1 using bounds by (intro pack_mod) linarith
  have "n div 4096 = n div 64 div 64" by (simp add: div_mult2_eq [symmetric])
  also have "\<dots> = xq" unfolding d1 using bounds by (intro pack_div) linarith
  finally have d3: "n div 4096 = xq" .
  show "n div 4096 < 64" using bounds d3 by simp
  have "(xr * 16 + yq) div 16 = xr" using bounds by (intro pack_div) simp
  then have "n div 4096 * 4 + n div 64 mod 64 div 16 = unat a" by (simp only: d2 d3 x)
  then show "word_of_nat (n div 4096 * 4 + n div 64 mod 64 div 16) = a" by simp
  have "n div 64 mod 64 * 16 + n mod 64 div 4 = 256 * xr + unat b"
    unfolding d2 m y by (simp add: algebra_simps)
  then show "word_of_nat (n div 64 mod 64 * 16 + n mod 64 div 4) = b"
    by (simp only: byte_of_nat_high) simp
qed

lemma one_byte:
  fixes a :: byte
  shows "word_of_nat (unat a * 16 div 64 * 4 + unat a * 16 mod 64 div 16) = a"
    and "unat a * 16 div 64 < 64" and "unat a * 16 mod 64 < 64"
proof -
  define q r where "q = unat a div 4" and "r = unat a mod 4"
  have "unat a = q * 4 + r" and r: "r < 4" by (simp_all add: q_def r_def)
  then have x: "unat a * 16 = q * 64 + r * 16" by (simp add: algebra_simps)
  have "unat a * 16 div 64 = q" "unat a * 16 mod 64 = r * 16"
    unfolding x using r by (simp_all only: pack_div pack_mod)
  moreover have "q * 4 + r * 16 div 16 = unat a" by (simp add: q_def r_def)
  ultimately show "word_of_nat (unat a * 16 div 64 * 4 + unat a * 16 mod 64 div 16) = a" by simp
  have "unat a * 16 < 64 * 64" using unat_byte_less [of a] by simp
  then show "unat a * 16 div 64 < 64" by (simp only: div_less_iff_less_mult)
  show "unat a * 16 mod 64 < 64" by simp
qed

lemma b64_encode_Nil_iff [simp]: "b64_encode bs = [] \<longleftrightarrow> bs = []"
  by (cases bs rule: b64_encode.cases) (simp_all add: Let_def)

lemma b64_quads_Cons:
  assumes "t \<noteq> []"
  shows "b64_quads (p # q # r # s # t) =
     (case (b64_val p, b64_val q, b64_val r, b64_val s) of
        (Some a, Some b, Some c, Some d) \<Rightarrow>
          (let n = a * 262144 + b * 4096 + c * 64 + d in
           map_option (\<lambda>x. [word_of_nat (n div 65536), word_of_nat (n div 256), word_of_nat n] @ x) (b64_quads t))
      | _ \<Rightarrow> None)"
  using assms by (cases t) auto

lemma b64_quads_encode: "b64_quads (b64_encode bs) = Some bs"
proof (induction bs rule: b64_encode.induct)
  case 1
  then show ?case by simp
next
  case (2 a)
  define n where "n = unat a * 16"
  show ?case
    unfolding b64_encode.simps Let_def n_def [symmetric]
    using one_byte [of a, folded n_def] by (simp add: Let_def)
next
  case (3 a b)
  define n where "n = (unat a * 256 + unat b) * 4"
  show ?case
    unfolding b64_encode.simps Let_def n_def [symmetric]
    using two_bytes [of a b, folded n_def] by (simp add: Let_def)
next
  case (4 a b c r)
  define n where "n = unat a * 65536 + unat b * 256 + unat c"
  note n = three_bytes [of a b c, folded n_def]
  show ?case
  proof (cases "r = []")
    case True
    then show ?thesis using n by (simp add: Let_def n_def [symmetric] base64_digits)
  next
    case False
    then have "b64_encode r \<noteq> []" by simp
    then show ?thesis
      using 4 n by (simp add: Let_def n_def [symmetric] base64_digits b64_quads_Cons)
  qed
qed

lemma b64_encode_no_break: "filter (\<lambda>c. c \<noteq> CHR 0x0A \<and> c \<noteq> CHR 0x0D) (b64_encode bs) = b64_encode bs"
proof (induction bs rule: b64_encode.induct)
  case (2 a)
  then show ?case using one_byte [of a] by (simp only: b64_encode.simps Let_def) (simp add: b64_char_no_break)
next
  case (3 a b)
  then show ?case using two_bytes [of a b] by (simp only: b64_encode.simps Let_def) (simp add: b64_char_no_break)
next
  case (4 a b c r)
  then show ?case using three_bytes(4) [of a b c] by (simp add: Let_def b64_char_no_break)
qed simp

interpretation b64_text: text_codec b64_encode b64_decode "\<lambda>_. True"
  by unfold_locales (simp add: b64_decode_def b64_encode_no_break b64_quads_encode)

end
