(* ===== verification/Machine_Id.thy ===== *)
theory Machine_Id
  imports Go_Crypto
begin

text \<open>
  \<open>machineid.go\<close>: the machine fingerprint sent with a log-on, derived from the account name.
  The reference of \<open>generateMachineID\<close> is the parser \<open>parse_machine_id\<close> of the binary KeyValues format
  that the comment of the Go function describes.
\<close>

definition writeKVCString :: "bytes \<Rightarrow> string \<Rightarrow> bytes" where
  "writeKVCString buf s = buf @ bytes_of s @ [0]"

definition writeMachineIDValue :: "bytes \<Rightarrow> string \<Rightarrow> string \<Rightarrow> bytes" where
  "writeMachineIDValue buf key username =
     (let buf = buf @ [1];
          buf = writeKVCString buf key;
          sum = sha1_Sum (bytes_of (''SteamMachineID|'' @ key @ ''|'' @ username))
      in writeKVCString buf (hex_encode sum))"

definition generateMachineID :: "string \<Rightarrow> bytes" where
  "generateMachineID username =
     (let buf = [0];
          buf = writeKVCString buf ''MessageObject'';
          buf = writeMachineIDValue buf ''BB3'' username;
          buf = writeMachineIDValue buf ''FF2'' username;
          buf = writeMachineIDValue buf ''3B3'' username
      in buf @ [8] @ [8])"

definition steamPrivateIPMagic :: u32 where "steamPrivateIPMagic = 0xBAADF00D"

definition obfuscatedPrivateIP :: "string \<Rightarrow> u32" where
  "obfuscatedPrivateIP username =
     (let sum = sha1_Sum (bytes_of (''SteamPrivateIP|'' @ username));
          ip = push_bit 24 192 OR push_bit 16 168 OR push_bit 8 (ucast (sum ! 0)) OR ucast (sum ! 1 OR 1)
      in ip XOR steamPrivateIPMagic)"

definition name_alphabet :: string where
  "name_alphabet = ''ABCDEFGHIJKLMNOPQRSTUVWXYZ0123456789''"

definition machineName :: "string \<Rightarrow> string" where
  "machineName username =
     (let sum = sha1_Sum (bytes_of (''SteamMachineName|'' @ username))
      in ''DESKTOP-'' @ map (\<lambda>i. name_alphabet ! (unat (sum ! i) mod length name_alphabet)) [0..<7])"

section \<open>Binary KeyValues, read back\<close>

definition take_cstring :: "bytes \<Rightarrow> (string \<times> bytes) option" where
  "take_cstring bs = (case dropWhile (\<lambda>b. b \<noteq> 0) bs of
     [] \<Rightarrow> None | _ # r \<Rightarrow> Some (string_of (takeWhile (\<lambda>b. b \<noteq> 0) bs), r))"

fun parse_values :: "nat \<Rightarrow> bytes \<Rightarrow> ((string \<times> string) list \<times> bytes) option" where
  "parse_values 0 bs = Some ([], bs)"
| "parse_values (Suc n) bs = (case bs of
     [] \<Rightarrow> None
   | t # r \<Rightarrow> if t \<noteq> 1 then None else
       (case take_cstring r of None \<Rightarrow> None | Some (k, r) \<Rightarrow>
       (case take_cstring r of None \<Rightarrow> None | Some (v, r) \<Rightarrow>
          map_option (\<lambda>(kvs, r). ((k, v) # kvs, r)) (parse_values n r))))"

definition parse_machine_id :: "bytes \<Rightarrow> (string \<times> (string \<times> string) list) option" where
  "parse_machine_id bs = (case bs of
     [] \<Rightarrow> None
   | t # r \<Rightarrow> if t \<noteq> 0 then None else
       (case take_cstring r of None \<Rightarrow> None | Some (name, r) \<Rightarrow>
       (case parse_values 3 r of None \<Rightarrow> None | Some (kvs, r) \<Rightarrow>
          if r = [8, 8] then Some (name, kvs) else None)))"

lemma take_cstring_append:
  assumes "0 \<notin> set (bytes_of s)"
  shows "take_cstring (bytes_of s @ 0 # r) = Some (s, r)"
proof -
  have "\<forall>b \<in> set (bytes_of s). b \<noteq> 0" using assms by auto
  then have "dropWhile (\<lambda>b. b \<noteq> 0) (bytes_of s @ 0 # r) = 0 # r"
    and "takeWhile (\<lambda>b. b \<noteq> 0) (bytes_of s @ 0 # r) = bytes_of s"
    by (simp_all add: dropWhile_append2 takeWhile_append2)
  then show ?thesis by (simp add: take_cstring_def)
qed

lemma hex_char_not_0: "d < 16 \<Longrightarrow> word_of_nat (of_char (hex_char d)) \<noteq> (0 :: byte)"
  by (auto simp: hex_char_def word_unat_eq_iff unat_of_nat of_char_of take_bit_nat_eq_self)

lemma nibbles: "unat (b :: byte) div 16 < 16" "unat b mod 16 < 16"
  using unat_byte_less [of b] by (simp_all add: div_less_iff_less_mult)

lemma hex_encode_no_zero: "0 \<notin> set (bytes_of (hex_encode bs))"
  using hex_char_not_0 nibbles by (force simp: bytes_of_def hex_encode_def)

definition machine_id_value :: "string \<Rightarrow> string \<Rightarrow> string" where
  "machine_id_value key username = hex_encode (sha1_Sum (bytes_of (''SteamMachineID|'' @ key @ ''|'' @ username)))"

lemma generateMachineID_eq:
  "generateMachineID u = 0 # bytes_of ''MessageObject'' @ 0 #
     1 # bytes_of ''BB3'' @ 0 # bytes_of (machine_id_value ''BB3'' u) @ 0 #
     1 # bytes_of ''FF2'' @ 0 # bytes_of (machine_id_value ''FF2'' u) @ 0 #
     1 # bytes_of ''3B3'' @ 0 # bytes_of (machine_id_value ''3B3'' u) @ 0 # [8, 8]"
  unfolding generateMachineID_def writeMachineIDValue_def writeKVCString_def Let_def machine_id_value_def
  by (simp only: append.simps append_assoc)

lemma key_bytes_no_zero:
  "0 \<notin> set (bytes_of ''MessageObject'')" "0 \<notin> set (bytes_of ''BB3'')"
  "0 \<notin> set (bytes_of ''FF2'')" "0 \<notin> set (bytes_of ''3B3'')"
  by (simp_all add: bytes_of_def)

text \<open>
  C37: the fingerprint is a well-formed KeyValues object of exactly 155 bytes: read back, it is the node
  MessageObject with the keys BB3, FF2 and 3B3 in this order, each with 40 hexadecimal digits that depend
  only on the key and the account name.\<close>

theorem machine_id_wellformed:
  "parse_machine_id (generateMachineID u) = Some (''MessageObject'',
      [(''BB3'', machine_id_value ''BB3'' u), (''FF2'', machine_id_value ''FF2'' u), (''3B3'', machine_id_value ''3B3'' u)])
   \<and> length (generateMachineID u) = 155 \<and> length (machine_id_value k u) = 40
   \<and> list_all is_hex_char (machine_id_value k u)"
proof (intro conjI)
  have v: "0 \<notin> set (bytes_of (machine_id_value k u))" for k
    unfolding machine_id_value_def by (rule hex_encode_no_zero)
  show "parse_machine_id (generateMachineID u) = Some (''MessageObject'',
      [(''BB3'', machine_id_value ''BB3'' u), (''FF2'', machine_id_value ''FF2'' u), (''3B3'', machine_id_value ''3B3'' u)])"
    unfolding generateMachineID_eq parse_machine_id_def numeral_3_eq_3
    by (simp add: take_cstring_append key_bytes_no_zero v)
  show "length (generateMachineID u) = 155"
    unfolding generateMachineID_eq by (simp add: machine_id_value_def)
  show "length (machine_id_value k u) = 40" by (simp add: machine_id_value_def)
  show "list_all is_hex_char (machine_id_value k u)"
    using hex_char_is_hex nibbles by (auto simp: machine_id_value_def hex_encode_def list_all_iff)
qed

text \<open>
  the reported private address, with the obfuscation taken off, lies in 192.168.0.0/16 and its last
  octet is odd, so never zero; the machine name is DESKTOP- and seven upper case letters or digits.\<close>

theorem machine_identity_format:
  "(let ip = obfuscatedPrivateIP u XOR steamPrivateIPMagic in
      drop_bit 16 ip = 0xC0A8 \<and> bit ip 0)
   \<and> (\<exists>w. machineName u = ''DESKTOP-'' @ w \<and> length w = 7 \<and> set w \<subseteq> set name_alphabet)"
proof
  have ip: "obfuscatedPrivateIP u XOR steamPrivateIPMagic =
    (let sum = sha1_Sum (bytes_of (''SteamPrivateIP|'' @ u)) in
     push_bit 24 192 OR push_bit 16 168 OR push_bit 8 (ucast (sum ! 0)) OR ucast (sum ! 1 OR 1))"
    by (simp add: obfuscatedPrivateIP_def Let_def xor.assoc)
  have "drop_bit 16 (push_bit 24 192 OR push_bit 16 168 OR push_bit 8 (ucast a) OR ucast b :: u32) = 0xC0A8"
    for a b :: byte
  proof (rule bit_word_eqI)
    fix n assume "n < LENGTH(32)"
    have "\<not> bit a (8 + n)" "\<not> bit b (16 + n)"
      using bit_imp_le_length [of a "8 + n"] bit_imp_le_length [of b "16 + n"] by auto
    moreover have "push_bit 24 192 OR push_bit 16 168 = (0xC0A80000 :: u32)"
      by simp
    moreover have "drop_bit 16 (0xC0A80000 :: u32) = 0xC0A8" by simp
    ultimately show "bit (drop_bit 16 (push_bit 24 192 OR push_bit 16 168 OR push_bit 8 (ucast a) OR ucast b :: u32)) n
      \<longleftrightarrow> bit (0xC0A8 :: u32) n"
      by (simp add: or.assoc [symmetric]) (simp add: bit_simps)
  qed
  moreover have "bit (push_bit 24 192 OR push_bit 16 168 OR push_bit 8 (ucast a) OR ucast (b OR 1) :: u32) 0"
    for a b :: byte
    by (simp add: bit_simps)
  ultimately show "let ip = obfuscatedPrivateIP u XOR steamPrivateIPMagic in drop_bit 16 ip = 0xC0A8 \<and> bit ip 0"
    unfolding ip by (simp add: Let_def)
  have "name_alphabet ! (n mod length name_alphabet) \<in> set name_alphabet" for n
    by (rule nth_mem) (simp add: name_alphabet_def)
  then have "set (map (\<lambda>i. name_alphabet ! (unat (s ! i) mod length name_alphabet)) [0..<7]) \<subseteq> set name_alphabet"
    for s :: bytes by auto
  then show "\<exists>w. machineName u = ''DESKTOP-'' @ w \<and> length w = 7 \<and> set w \<subseteq> set name_alphabet"
    unfolding machineName_def Let_def by (metis diff_zero length_map length_upt)
qed

end
