(* ===== verification/Totp.thy ===== *)
theory Totp
  imports Go_Crypto
begin

text \<open>
  \<open>totp/totp.go\<close>: the five-character codes of the mobile authenticator. The clock is the Unix time
  in seconds that the structure holds, a signed 64-bit integer.
\<close>

definition totp_chars :: string where "totp_chars = ''23456789BCDFGHJKMNPQRTVWXY''"

definition charsLen :: nat where "charsLen = length totp_chars"

record Totp =
  Totp_sharedSecret :: string
  Totp_Time :: i64

definition NewTimedTotp :: "string \<Rightarrow> i64 \<Rightarrow> Totp" where
  "NewTimedTotp sharedSecret time = \<lparr>Totp_sharedSecret = sharedSecret, Totp_Time = time\<rparr>"

text \<open>The reading of the clock is an argument.\<close>

definition NewTotp :: "i64 \<Rightarrow> string \<Rightarrow> Totp" where
  "NewTotp now sharedSecret = \<lparr>Totp_sharedSecret = sharedSecret, Totp_Time = now\<rparr>"

definition SharedSecret :: "Totp \<Rightarrow> string" where "SharedSecret t = Totp_sharedSecret t"

text \<open>The loop that fills the code with the base-26 digits of \<open>fullcode\<close>, lowest first.\<close>

fun totp_digits :: "nat \<Rightarrow> nat \<Rightarrow> string" where
  "totp_digits 0 fullcode = []"
| "totp_digits (Suc k) fullcode = totp_chars ! (fullcode mod charsLen) # totp_digits k (fullcode div charsLen)"

definition totp_fullcode :: "bytes \<Rightarrow> nat" where
  "totp_fullcode hashcode =
     (let start = unat (hashcode ! 19 AND 0xf);
          fc32 = be_word (take 4 (drop start hashcode)) :: u32;
          fc32 = fc32 AND 0x7fffffff
      in unat fc32)"

definition GenerateTotpCode :: "string \<Rightarrow> i64 \<Rightarrow> string res" where
  "GenerateTotpCode sharedSecret time = (case b64_decode sharedSecret of
       Err _ \<Rightarrow> Err (GoErr ''invalid base64 shared secret'')
     | Panic p \<Rightarrow> Panic p
     | Ok key \<Rightarrow>
         (let ut = time div 30;
              tb = be_bytes 8 ut;
              hashcode = hmac_sha1 key tb
          in Ok (totp_digits 5 (totp_fullcode hashcode))))"

definition GenerateCode :: "Totp \<Rightarrow> string res" where
  "GenerateCode totp = GenerateTotpCode (Totp_sharedSecret totp) (Totp_Time totp)"

section \<open>The digits\<close>

lemma charsLen [simp]: "charsLen = 26"
  by (simp add: charsLen_def totp_chars_def)

lemma distinct_totp_chars: "distinct totp_chars"
  by (simp add: totp_chars_def)

lemma length_totp_chars [simp]: "length totp_chars = 26"
  by (simp add: totp_chars_def)

lemma length_totp_digits [simp]: "length (totp_digits k n) = k"
  by (induction k arbitrary: n) simp_all

lemma set_totp_digits: "set (totp_digits k n) \<subseteq> set totp_chars"
  by (induction k arbitrary: n) (simp_all add: charsLen del: charsLen_def)

text \<open>Two numbers have the same digits exactly when they agree modulo \<open>26 ^ k\<close>.\<close>

lemma totp_digits_eq_iff: "totp_digits k m = totp_digits k n \<longleftrightarrow> m mod 26 ^ k = n mod 26 ^ k"
proof (induction k arbitrary: m n)
  case 0
  then show ?case by simp
next
  case (Suc k)
  have d: "totp_chars ! (m mod 26) = totp_chars ! (n mod 26) \<longleftrightarrow> m mod 26 = n mod 26"
    using nth_eq_iff_index_eq [OF distinct_totp_chars, of "m mod 26" "n mod 26"] by simp
  have e: "x mod 26 ^ Suc k = 26 * (x div 26 mod 26 ^ k) + x mod 26" for x :: nat
    unfolding power_Suc by (rule mod_mult2_eq)
  have f: "26 * a + b = 26 * c + d \<longleftrightarrow> a = c \<and> b = d" if "b < 26" "d < 26" for a b c d :: nat
  proof -
    have "(26 * a + b) mod 26 = b" "(26 * c + d) mod 26 = d" using that by simp_all
    then have "26 * a + b = 26 * c + d \<Longrightarrow> b = d" by metis
    then show ?thesis by auto
  qed
  have "m mod 26 ^ Suc k = n mod 26 ^ Suc k \<longleftrightarrow>
      m div 26 mod 26 ^ k = n div 26 mod 26 ^ k \<and> m mod 26 = n mod 26"
    unfolding e by (rule f) simp_all
  then show ?case unfolding totp_digits.simps charsLen list.inject d Suc.IH by blast
qed

lemma totp_fullcode_bound: "totp_fullcode h < 2 ^ 31"
proof -
  have "unat (w AND 0x7fffffff) < 2 ^ 31" for w :: u32
  proof -
    have "w AND 0x7fffffff \<le> 0x7fffffff" by (rule word_and_le1)
    then have "unat (w AND 0x7fffffff) \<le> unat (0x7fffffff :: u32)" by (simp add: word_le_nat_alt)
    then show ?thesis by simp
  qed
  then show ?thesis by (simp add: totp_fullcode_def Let_def)
qed

lemma totp_window_in_hash:
  fixes hashcode :: bytes
  assumes "length hashcode = 20"
  shows "unat (hashcode ! 19 AND 0xf) + 4 \<le> length hashcode"
proof -
  have "hashcode ! 19 AND 0xf \<le> 0xf" by (rule word_and_le1)
  then have "unat (hashcode ! 19 AND 0xf) \<le> 15" by (simp add: word_le_nat_alt)
  then show ?thesis using assms by simp
qed

section \<open>The code\<close>


text \<open>
  the code depends on the time only through its 30-second window, and on the secret only through
  the key it encodes.\<close>

theorem totp_window:
  assumes "t div 30 = t' div 30" and "b64_decode s = b64_decode s'"
  shows "GenerateTotpCode s t = GenerateTotpCode s' t'"
  by (simp only: GenerateTotpCode_def Let_def assms)

theorem totp_window_witness:
  "GenerateTotpCode ''Zm9vYg=='' 60 = GenerateTotpCode [CHR ''Z'', CHR ''m'', CHR ''9'', CHR ''v'', CHR 0x0A, CHR ''Y'', CHR ''g'', CHR ''='', CHR ''=''] 89"
proof (rule totp_window)
  show "(60 :: i64) div 30 = 89 div 30" by simp
  show "b64_decode ''Zm9vYg=='' = b64_decode [CHR ''Z'', CHR ''m'', CHR ''9'', CHR ''v'', CHR 0x0A, CHR ''Y'', CHR ''g'', CHR ''='', CHR ''='']"
    by (simp add: b64_decode_def)
qed

end
