(* ===== verification/Rwu.thy ===== *)
theory Rwu
  imports Prelude
begin

text \<open>
  \<open>rwu/rwu.go\<close>, the readers of the wire format, and the shape of every generated
  \<open>Serialize\<close>/\<open>Deserialize\<close> pair: a sequence of field reads that stops at the first error.
  The locale \<open>wire_codec\<close> is the contract between a serializer and its deserializer,
  \<open>fixed_codec\<close> the one of a layout of fixed size, \<open>framed\<close> a header codec followed by a body codec.
\<close>

section \<open>The readers of rwu.go\<close>

definition ReadUint8 :: "u8 rdr" where "ReadUint8 = read_le 1"
definition ReadUint16 :: "u16 rdr" where "ReadUint16 = read_le 2"
definition ReadUint32 :: "u32 rdr" where "ReadUint32 = read_le 4"
definition ReadUint64 :: "u64 rdr" where "ReadUint64 = read_le 8"
definition ReadInt8 :: "8 word rdr" where "ReadInt8 = read_le 1"
definition ReadInt16 :: "i16 rdr" where "ReadInt16 = read_le 2"
definition ReadInt32 :: "i32 rdr" where "ReadInt32 = read_le 4"
definition ReadInt64 :: "i64 rdr" where "ReadInt64 = read_le 8"
definition ReadByte :: "byte rdr" where "ReadByte = read_le 1"

definition ReadBool :: "bool rdr" where
  "ReadBool r = (case read_le 1 r of (c :: u8, e, r') \<Rightarrow> (c \<noteq> 0, e, r'))"

text \<open>The loop of \<open>ReadString\<close>: at the end of the input the byte read is 0 and the error is set.\<close>

fun ReadString_loop :: "bytes \<Rightarrow> bytes \<Rightarrow> bytes \<times> go_err option \<times> bytes" where
  "ReadString_loop c [] = (c, Some EOF, [])"
| "ReadString_loop c (b # r) = (if b = 0 then (c, None, r) else ReadString_loop (c @ [b]) r)"

definition ReadString :: "string rdr" where
  "ReadString r = (case ReadString_loop [] r of (c, e, r') \<Rightarrow> (string_of c, e, r'))"

text \<open>\<open>ReadBytes\<close>: \<open>make\<close> panics on a negative count, and the buffer stays zero on an error.\<close>

definition ReadBytes :: "bytes \<Rightarrow> i32 \<Rightarrow> (bytes \<times> go_err option \<times> bytes) res" where
  "ReadBytes r num =
     (if sint num < 0 then Panic ''makeslice: len out of range''
      else case ReadFull (nat (sint num)) r of
          (bs, None, r') \<Rightarrow> Ok (bs, None, r')
        | (bs, Some e, r') \<Rightarrow> Ok (replicate (nat (sint num)) 0, Some e, r'))"

definition WriteBool :: "bool \<Rightarrow> bytes" where
  "WriteBool b = (if b then [1] else [0])"

lemmas rwu_readers = ReadUint8_def ReadUint16_def ReadUint32_def ReadUint64_def
  ReadInt8_def ReadInt16_def ReadInt32_def ReadInt64_def ReadByte_def

lemma read_ints_append [simp, codec_simps]:
  "ReadUint8 (le_bytes 1 a @ r) = (a, None, r)"
  "ReadUint16 (le_bytes 2 b @ r) = (b, None, r)"
  "ReadUint32 (le_bytes 4 c @ r) = (c, None, r)"
  "ReadUint64 (le_bytes 8 d @ r) = (d, None, r)"
  "ReadInt32 (le_bytes 4 c @ r) = (c, None, r)"
  "ReadInt16 (le_bytes 2 b @ r) = (b, None, r)"
  by (simp_all add: rwu_readers)

lemma read_ints_whole [simp, codec_simps]:
  "ReadUint8 (le_bytes 1 a) = (a, None, [])"
  "ReadUint16 (le_bytes 2 b) = (b, None, [])"
  "ReadUint32 (le_bytes 4 c) = (c, None, [])"
  "ReadUint64 (le_bytes 8 d) = (d, None, [])"
  "ReadInt32 (le_bytes 4 c) = (c, None, [])"
  using read_ints_append [where r = "[]"] by simp_all

lemma read_byte_Suc [simp, codec_simps]:
  "ReadUint8 (le_bytes (Suc 0) a @ r) = (a, None, r)"
  "ReadUint8 (le_bytes (Suc 0) a) = (a, None, [])"
  using read_ints_append(1) read_ints_whole(1) by simp_all

lemma ReadUint8_Cons [simp, codec_simps]: "ReadUint8 (b # r) = (b, None, r)"
  by (simp add: ReadUint8_def read_le_def ReadFull_def)

lemma ReadByte_Cons [simp, codec_simps]: "ReadByte (b # r) = (b, None, r)"
  by (simp add: ReadByte_def read_le_def ReadFull_def)

lemma ReadBool_WriteBool [simp, codec_simps]: "ReadBool (WriteBool b @ r) = (b, None, r)"
  by (simp add: ReadBool_def WriteBool_def read_le_def ReadFull_def)

lemma ReadBool_WriteBool_whole [simp, codec_simps]: "ReadBool (WriteBool b) = (b, None, [])"
  using ReadBool_WriteBool [where r = "[]"] by simp

lemma length_WriteBool [simp, codec_simps]: "length (WriteBool b) = 1"
  by (simp add: WriteBool_def)

lemma ReadString_loop_append:
  "0 \<notin> set s \<Longrightarrow> ReadString_loop c (s @ 0 # r) = (c @ s, None, r)"
  by (induction s arbitrary: c) auto

lemma ReadString_append:
  "0 \<notin> set (bytes_of s) \<Longrightarrow> ReadString (bytes_of s @ 0 # r) = (s, None, r)"
  by (simp add: ReadString_def ReadString_loop_append)

lemma ReadString_loop_no_zero:
  "0 \<notin> set s \<Longrightarrow> ReadString_loop c s = (c @ s, Some EOF, [])"
  by (induction s arbitrary: c) auto

section \<open>Field by field\<close>

text \<open>
  A generated \<open>Deserialize\<close> is a list of steps on the struct. A step of the form
  \<^verbatim>\<open>d.F, err = rwu.ReadX(r)\<close> assigns the field before it looks at the error (\<open>assign\<close>); one of the form
  \<^verbatim>\<open>t, err := rwu.ReadX(r); if err != nil { return err }; d.F = T(t)\<close> only without one (\<open>assign_ok\<close>).
\<close>

type_synonym 'd step = "'d \<Rightarrow> bytes \<Rightarrow> 'd \<times> go_err option \<times> bytes"

definition assign :: "'a rdr \<Rightarrow> ('a \<Rightarrow> 'd \<Rightarrow> 'd) \<Rightarrow> 'd step" where
  "assign R upd d r = (case R r of (v, e, r') \<Rightarrow> (upd v d, e, r'))"

definition assign_ok :: "'a rdr \<Rightarrow> ('a \<Rightarrow> 'd \<Rightarrow> 'd) \<Rightarrow> 'd step" where
  "assign_ok R upd d r = (case R r of
       (v, None, r') \<Rightarrow> (upd v d, None, r')
     | (v, Some e, r') \<Rightarrow> (d, Some e, r'))"

text \<open>
  \<^verbatim>\<open>binary.Read(r, binary.LittleEndian, d.F)\<close> into a byte slice: as many bytes as the slice has.
\<close>

definition read_slice :: "('d \<Rightarrow> bytes) \<Rightarrow> (bytes \<Rightarrow> 'd \<Rightarrow> 'd) \<Rightarrow> 'd step" where
  "read_slice fld upd d r = (case ReadFull (length (fld d)) r of
       (bs, None, r') \<Rightarrow> (upd bs d, None, r')
     | (bs, Some e, r') \<Rightarrow> (d, Some e, r'))"

fun steps :: "'d step list \<Rightarrow> 'd step" where
  "steps [] d r = (d, None, r)"
| "steps (s # ss) d r = (case s d r of
       (d', None, r') \<Rightarrow> steps ss d' r'
     | (d', Some e, r') \<Rightarrow> (d', Some e, r'))"

declare steps.simps [wire_defs] assign_def [wire_defs] assign_ok_def [wire_defs]

text \<open>\<open>needs n s\<close>: on fewer than \<open>n\<close> bytes the step fails, otherwise it consumes exactly \<open>n\<close>.\<close>

definition needs :: "nat \<Rightarrow> 'd step \<Rightarrow> bool" where
  "needs n s \<longleftrightarrow> (\<forall>d r. if length r < n then fst (snd (s d r)) \<noteq> None
     else fst (snd (s d r)) = None \<and> snd (snd (s d r)) = drop n r)"

lemma needs_assign_le:
  "needs n (assign (read_le n) upd)" "needs n (assign_ok (read_le n) upd)"
  by (auto simp: needs_def assign_def assign_ok_def read_le_def ReadFull_def)

lemma needs_ints:
  "needs 1 (assign ReadUint8 u8)" "needs 1 (assign_ok ReadUint8 u8)"
  "needs 2 (assign ReadUint16 u16)" "needs 2 (assign_ok ReadUint16 u16)"
  "needs 4 (assign ReadUint32 u32)" "needs 4 (assign_ok ReadUint32 u32)"
  "needs 8 (assign ReadUint64 u64)" "needs 8 (assign_ok ReadUint64 u64)"
  "needs 4 (assign ReadInt32 u32)" "needs 4 (assign_ok ReadInt32 u32)"
  by (simp_all add: rwu_readers needs_assign_le)

lemma needs_bool: "needs 1 (assign ReadBool b)"
  by (auto simp: needs_def assign_def ReadBool_def read_le_def ReadFull_def Suc_le_eq)

lemma needs_steps_Nil: "needs 0 (steps [])"
  by (simp add: needs_def)

lemma needs_steps_Cons:
  assumes "needs m s" and "needs n (steps ss)"
  shows "needs (m + n) (steps (s # ss))"
  unfolding needs_def
proof (intro allI)
  fix d r
  obtain d' e r' where s: "s d r = (d', e, r')" by (cases "s d r") auto
  have m: "if length r < m then e \<noteq> None else e = None \<and> r' = drop m r"
    using assms(1) [unfolded needs_def, THEN spec [of _ d], THEN spec [of _ r]]
    unfolding s fst_conv snd_conv .
  show "if length r < m + n then fst (snd (steps (s # ss) d r)) \<noteq> None
    else fst (snd (steps (s # ss) d r)) = None \<and> snd (snd (steps (s # ss) d r)) = drop (m + n) r"
  proof (cases "length r < m")
    case True
    with m s show ?thesis by auto
  next
    case False
    with m have e: "e = None" "r' = drop m r" by simp_all
    with s have "steps (s # ss) d r = steps ss d' (drop m r)" by simp
    moreover have "length (drop m r) < n \<longleftrightarrow> length r < m + n" using False by auto
    moreover have "drop n (drop m r) = drop (m + n) r" by (simp add: add.commute)
    ultimately show ?thesis
      using assms(2) [unfolded needs_def, THEN spec [of _ d'], THEN spec [of _ "drop m r"]]
      by (simp only:)
  qed
qed

lemmas needs_intros = needs_steps_Nil needs_steps_Cons needs_ints needs_bool

section \<open>The contract of a serializer and its deserializer\<close>

locale wire_codec =
  fixes ser :: "'a \<Rightarrow> bytes"
    and des :: "'a step"
  assumes des_ser: "des d (ser x @ r) = (x, None, r)"
begin

lemma des_ser_whole: "des d (ser x) = (x, None, [])"
  using des_ser [where r = "[]"] by simp

lemma ser_prefix_free: "ser x @ r = ser y @ s \<Longrightarrow> x = y \<and> r = s"
  by (metis des_ser prod.inject)

lemma ser_inj: "ser x = ser y \<Longrightarrow> x = y"
  using ser_prefix_free [where r = "[]" and s = "[]"] by simp

end

locale fixed_codec = wire_codec ser des for ser :: "'a \<Rightarrow> bytes" and des :: "'a step" +
  fixes size :: nat
  assumes length_ser: "length (ser x) = size"
    and needs_des: "needs size des"
begin

lemma des_short: "length r < size \<Longrightarrow> \<exists>e. fst (snd (des d r)) = Some e"
  using needs_des unfolding needs_def by (metis option.exhaust)

lemma des_long:
  assumes "size \<le> length r"
  shows "\<exists>x. des d r = (x, None, drop size r)"
proof -
  have "fst (snd (des d r)) = None \<and> snd (snd (des d r)) = drop size r"
    using needs_des assms unfolding needs_def by (simp add: not_less [symmetric])
  then show ?thesis by (metis prod.collapse)
qed

lemma des_ok_iff: "fst (snd (des d r)) = None \<longleftrightarrow> size \<le> length r"
  by (metis des_long des_short fst_conv linorder_not_less option.distinct(1) snd_conv)

lemma des_truncated:
  "k < size \<Longrightarrow> \<exists>e. fst (snd (des d (take k (ser x)))) = Some e"
  by (rule des_short) (simp add: length_ser)

end

text \<open>A header and a body written one after the other, as every message is.\<close>

locale framed =
  hdr: wire_codec hser hdes + body: wire_codec bser bdes
  for hser :: "'h \<Rightarrow> bytes" and hdes :: "'h step" and bser :: "'b \<Rightarrow> bytes" and bdes :: "'b step"
begin

lemma read_frame:
  "(case hdes h0 (hser h @ bser b @ p) of (h', _, r) \<Rightarrow> (case bdes b0 r of (b', _, r') \<Rightarrow> (h', b', r')))
     = (h, b, p)"
  by (simp add: hdr.des_ser body.des_ser)

lemma frame_inj:
  "hser h @ bser b @ p = hser h' @ bser b' @ p' \<Longrightarrow> h = h' \<and> b = b' \<and> p = p'"
  using hdr.ser_prefix_free body.ser_prefix_free by blast

end

interpretation bool_codec: wire_codec WriteBool "\<lambda>_. ReadBool"
  by unfold_locales simp


end
