(* ===== verification/Steam_Id.thy ===== *)
theory Steam_Id
  imports Go_Std
begin

text \<open>
  \<open>steamid/steamid.go\<close>: the 64-bit Steam identifier, its four bit fields, the textual forms and
  the conversion between clan and chat identifiers.
  The locale \<open>bitfield\<close> states what a getter and setter pair of one field promises,
  \<open>disjoint_fields\<close> that two of them do not disturb each other; both are interpreted on the
  accessors of the code.
\<close>

type_synonym steamid = u64

section \<open>The accessors\<close>

definition Clan :: u64 where "Clan = drop_bit 1 0x100000"
definition Lobby :: u64 where "Lobby = drop_bit 2 0x100000"
definition MMSLobby :: u64 where "MMSLobby = drop_bit 3 0x100000"

definition sid_get :: "steamid \<Rightarrow> nat \<Rightarrow> u64 \<Rightarrow> u64" where
  "sid_get s offset msk = drop_bit offset s AND msk"

definition sid_set :: "steamid \<Rightarrow> nat \<Rightarrow> u64 \<Rightarrow> u64 \<Rightarrow> steamid" where
  "sid_set s offset msk value =
     (s AND NOT (push_bit offset msk)) OR push_bit offset (value AND msk)"

definition GetAccountId :: "steamid \<Rightarrow> u32" where
  "GetAccountId s = ucast (sid_get s 0 0xFFFFFFFF)"

definition SetAccountId :: "steamid \<Rightarrow> u32 \<Rightarrow> steamid" where
  "SetAccountId s v = sid_set s 0 0xFFFFFFFF (ucast v)"

definition GetAccountInstance :: "steamid \<Rightarrow> u32" where
  "GetAccountInstance s = ucast (sid_get s 32 0xFFFFF)"

definition SetAccountInstance :: "steamid \<Rightarrow> u32 \<Rightarrow> steamid" where
  "SetAccountInstance s v = sid_set s 32 0xFFFFF (ucast v)"

definition GetAccountType :: "steamid \<Rightarrow> i32" where
  "GetAccountType s = ucast (sid_get s 52 0xF)"

definition SetAccountType :: "steamid \<Rightarrow> i32 \<Rightarrow> steamid" where
  "SetAccountType s t = sid_set s 52 0xF (scast t)"

definition GetAccountUniverse :: "steamid \<Rightarrow> i32" where
  "GetAccountUniverse s = ucast (sid_get s 56 0xF)"

definition SetAccountUniverse :: "steamid \<Rightarrow> i32 \<Rightarrow> steamid" where
  "SetAccountUniverse s u = sid_set s 56 0xF (scast u)"

definition NewIdAdv :: "u32 \<Rightarrow> u32 \<Rightarrow> i32 \<Rightarrow> i32 \<Rightarrow> steamid" where
  "NewIdAdv accountId instance universe accountType =
     (let s = 0;
          s = SetAccountId s accountId;
          s = SetAccountInstance s instance;
          s = SetAccountUniverse s universe;
          s = SetAccountType s accountType
      in s)"

definition ClanToChat :: "steamid \<Rightarrow> steamid" where
  "ClanToChat s =
     (if GetAccountType s = 7 then SetAccountType (SetAccountInstance s (ucast Clan)) 8 else s)"

definition ChatToClan :: "steamid \<Rightarrow> steamid" where
  "ChatToClan s =
     (if GetAccountType s = 8 then SetAccountType (SetAccountInstance s 0) 7 else s)"

section \<open>The textual forms\<close>

definition ToUint64 :: "steamid \<Rightarrow> u64" where
  "ToUint64 s = s"

definition ToString :: "steamid \<Rightarrow> string" where
  "ToString s = FormatUint (unat s)"

text \<open>The method \<open>String\<close>: account types 0 and 1 are printed as a Steam2 id.\<close>

definition sid_String :: "steamid \<Rightarrow> string" where
  "sid_String s =
     (if GetAccountType s = 0 \<or> GetAccountType s = 1 then
        (if sint (GetAccountUniverse s) \<le> 1 then
           ''STEAM_0:'' @ FormatUint (unat (GetAccountId s AND 1)) @ '':'' @
             FormatUint (unat (drop_bit 1 (GetAccountId s)))
         else
           ''STEAM_'' @ FormatUint (unat (GetAccountUniverse s)) @ '':'' @
             FormatUint (unat (GetAccountId s AND 1)) @ '':'' @
             FormatUint (unat (drop_bit 1 (GetAccountId s))))
      else FormatUint (unat s))"

text \<open>The regular expression \<open>STEAM_[0-5]:[01]:\d+\<close>, which the code matches unanchored.\<close>

definition steam2_prefix :: "string \<Rightarrow> bool" where
  "steam2_prefix s \<longleftrightarrow>
     take 6 s = ''STEAM_'' \<and>
     (case drop 6 s of
        u # c1 # a # c2 # d # _ \<Rightarrow>
          u \<in> set ''012345'' \<and> c1 = CHR '':'' \<and> (a = CHR ''0'' \<or> a = CHR ''1'') \<and>
          c2 = CHR '':'' \<and> is_digit d
      | _ \<Rightarrow> False)"

definition NewId :: "string \<Rightarrow> steamid res" where
  "NewId ident =
     (if search steam2_prefix ident then
        (case split_on CHR '':'' (remove_all ''STEAM_'' ident) of
           a # b # c # _ \<Rightarrow>
             (let universe = fst (ParseInt a 32);
                  universe = (if universe = 0 then 1 else universe);
                  authServer = fst (ParseUint b 32);
                  accId = fst (ParseUint c 32);
                  accountType = 1;
                  accountId = push_bit 1 (word_of_nat accId :: u32) OR word_of_nat authServer
              in Ok (NewIdAdv accountId 1 (word_of_int universe) accountType))
         | _ \<Rightarrow> Panic ''index out of range'')
      else
        (case ParseUint ident 64 of
           (n, None) \<Rightarrow> Ok (word_of_nat n)
         | (n, Some e) \<Rightarrow> Err e))"

section \<open>The contract of a bit field\<close>

text \<open>
  \<open>norm v\<close> is the part of a value the field can hold.
\<close>

locale bitfield =
  fixes get :: "steamid \<Rightarrow> 'v"
    and set :: "steamid \<Rightarrow> 'v \<Rightarrow> steamid"
    and norm :: "'v \<Rightarrow> 'v"
  assumes get_set: "get (set s v) = norm v"
    and set_set: "set (set s v) w = set s w"
    and set_get: "set s (get s) = s"
    and set_norm: "set s (norm v) = set s v"
begin

lemma norm_get: "norm (get s) = get s"
  by (metis get_set set_get)

lemma norm_norm: "norm (norm v) = norm v"
  by (metis get_set set_norm)

lemma set_same_iff: "set s v = s \<longleftrightarrow> get s = norm v"
  by (metis get_set set_get set_norm)

lemma set_eq_iff: "set s v = set s w \<longleftrightarrow> norm v = norm w"
  by (metis get_set set_norm)

lemma get_last_set: "get (foldl set s (vs @ [v])) = norm v"
  by (simp add: get_set)

end

locale disjoint_fields =
  f: bitfield getf setf normf + g: bitfield getg setg normg
  for getf :: "steamid \<Rightarrow> 'v" and setf :: "steamid \<Rightarrow> 'v \<Rightarrow> steamid" and normf :: "'v \<Rightarrow> 'v"
    and getg :: "steamid \<Rightarrow> 'w" and setg :: "steamid \<Rightarrow> 'w \<Rightarrow> steamid" and normg :: "'w \<Rightarrow> 'w" +
  assumes getf_setg: "getf (setg s w) = getf s"
    and getg_setf: "getg (setf s v) = getg s"
    and set_commute: "setf (setg s w) v = setg (setf s v) w"
begin

lemma both_set: "getf (setf (setg s w) v) = normf v" "getg (setf (setg s w) v) = normg w"
  by (simp_all add: f.get_set g.get_set getg_setf)

lemma setg_back: "getg s = normg w \<Longrightarrow> setg (setf s v) w = setf s v"
  by (simp add: g.set_same_iff getg_setf)

end

section \<open>The accessors obey the contract\<close>

text \<open>Bit-level facts for a field of \<open>n\<close> bits at \<open>off\<close>; \<open>mask n\<close> is \<open>2 ^ n - 1\<close>.\<close>

lemma bit_sid_get:
  "bit (sid_get s off (mask n)) k \<longleftrightarrow> k < n \<and> off + k < 64 \<and> bit s (off + k)"
  using bit_imp_le_length [of s "off + k"] by (auto simp: sid_get_def bit_simps)

lemma bit_sid_set:
  assumes "off + n \<le> 64" and "k < 64"
  shows "bit (sid_set s off (mask n) v) k \<longleftrightarrow>
    (if off \<le> k \<and> k < off + n then bit v (k - off) else bit s k)"
  using assms by (auto simp: sid_set_def bit_simps)

lemma masks_as_mask:
  "(0xFFFFFFFF :: u64) = mask 32" "(0xFFFFF :: u64) = mask 20" "(0xF :: u64) = mask 4"
  "(15 :: u64) = mask 4"
  by (simp_all add: mask_eq_exp_minus_1)

lemma masks_as_mask32: "(0xFFFFF :: u32) = mask 20" "(0xF :: u32) = mask 4"
  by (simp_all add: mask_eq_exp_minus_1)

lemmas accessor_defs =
  GetAccountId_def SetAccountId_def GetAccountInstance_def SetAccountInstance_def
  GetAccountType_def SetAccountType_def GetAccountUniverse_def SetAccountUniverse_def

lemmas field_defs = accessor_defs masks_as_mask

lemmas field_bits = bit_sid_get bit_sid_set bit_ucast_iff bit_signed_iff bit_and_iff bit_mask_iff

interpretation accountId: bitfield GetAccountId SetAccountId "\<lambda>v. v"
  by unfold_locales (rule bit_word_eqI; auto simp: field_defs field_bits)+

interpretation accountInstance: bitfield GetAccountInstance SetAccountInstance "\<lambda>v. v AND 0xFFFFF"
  by unfold_locales
    (unfold masks_as_mask32, (rule bit_word_eqI; auto simp: field_defs field_bits)+)

interpretation accountType: bitfield GetAccountType SetAccountType "\<lambda>v. v AND 0xF"
  by unfold_locales
    (unfold masks_as_mask32, (rule bit_word_eqI; auto simp: field_defs field_bits)+)

interpretation accountUniverse: bitfield GetAccountUniverse SetAccountUniverse "\<lambda>v. v AND 0xF"
  by unfold_locales
    (unfold masks_as_mask32, (rule bit_word_eqI; auto simp: field_defs field_bits)+)

interpretation id_instance: disjoint_fields
    GetAccountId SetAccountId "\<lambda>v. v"
    GetAccountInstance SetAccountInstance "\<lambda>v. v AND 0xFFFFF"
  by unfold_locales (rule bit_word_eqI; auto simp: field_defs field_bits)+

interpretation instance_type: disjoint_fields
    GetAccountInstance SetAccountInstance "\<lambda>v. v AND 0xFFFFF"
    GetAccountType SetAccountType "\<lambda>v. v AND 0xF"
  by unfold_locales (rule bit_word_eqI; auto simp: field_defs field_bits)+

interpretation id_type: disjoint_fields
    GetAccountId SetAccountId "\<lambda>v. v"
    GetAccountType SetAccountType "\<lambda>v. v AND 0xF"
  by unfold_locales (rule bit_word_eqI; auto simp: field_defs field_bits)+

interpretation id_universe: disjoint_fields
    GetAccountId SetAccountId "\<lambda>v. v"
    GetAccountUniverse SetAccountUniverse "\<lambda>v. v AND 0xF"
  by unfold_locales (rule bit_word_eqI; auto simp: field_defs field_bits)+

interpretation instance_universe: disjoint_fields
    GetAccountInstance SetAccountInstance "\<lambda>v. v AND 0xFFFFF"
    GetAccountUniverse SetAccountUniverse "\<lambda>v. v AND 0xF"
  by unfold_locales (rule bit_word_eqI; auto simp: field_defs field_bits)+

interpretation universe_type: disjoint_fields
    GetAccountUniverse SetAccountUniverse "\<lambda>v. v AND 0xF"
    GetAccountType SetAccountType "\<lambda>v. v AND 0xF"
  by unfold_locales (rule bit_word_eqI; auto simp: field_defs field_bits)+

lemmas field_laws [simp] =
  accountId.get_set accountInstance.get_set accountType.get_set accountUniverse.get_set
  id_instance.getf_setg id_instance.getg_setf
  instance_type.getf_setg instance_type.getg_setf
  id_type.getf_setg id_type.getg_setf
  id_universe.getf_setg id_universe.getg_setf
  instance_universe.getf_setg instance_universe.getg_setf
  universe_type.getf_setg universe_type.getg_setf

lemma NewIdAdv_fields:
  "GetAccountId (NewIdAdv a i u t) = a"
  "GetAccountInstance (NewIdAdv a i u t) = i AND 0xFFFFF"
  "GetAccountUniverse (NewIdAdv a i u t) = u AND 0xF"
  "GetAccountType (NewIdAdv a i u t) = t AND 0xF"
  by (simp_all add: NewIdAdv_def)

text \<open>
  An identifier below \<open>2 ^ 60\<close> is determined by its four fields: they cover bits 0 to 59.
\<close>

lemma NewIdAdv_rebuild:
  "NewIdAdv (GetAccountId s) (GetAccountInstance s) (GetAccountUniverse s) (GetAccountType s)
     = s AND mask 60"
proof (rule bit_word_eqI)
  fix k
  assume k: "k < LENGTH(64)"
  show "bit (NewIdAdv (GetAccountId s) (GetAccountInstance s) (GetAccountUniverse s)
      (GetAccountType s)) k \<longleftrightarrow> bit (s AND mask 60) k"
    using k by (auto simp: NewIdAdv_def Let_def field_defs field_bits)
qed

lemma GetAccountType_bound: "GetAccountType s AND 0xF = GetAccountType s"
  by (rule accountType.norm_get)

lemma GetAccountUniverse_bound: "GetAccountUniverse s AND 0xF = GetAccountUniverse s"
  by (rule accountUniverse.norm_get)

lemma unat_universe_less: "unat (GetAccountUniverse s) < 16"
proof -
  have "unat (GetAccountUniverse s AND 0xF) \<le> unat (0xF :: i32)"
    by (rule word_and_le1 [THEN word_le_nat_alt [THEN iffD1]])
  then show ?thesis by (simp add: GetAccountUniverse_bound)
qed

lemma sint_universe: "sint (GetAccountUniverse s) = int (unat (GetAccountUniverse s))"
proof -
  have "uint (GetAccountUniverse s) < 16"
    using unat_universe_less [of s] unfolding uint_nat by linarith
  moreover have "0 \<le> uint (GetAccountUniverse s)" by simp
  ultimately have "sint (GetAccountUniverse s) = uint (GetAccountUniverse s)"
    unfolding sint_uint by (intro signed_take_bit_int_eq_self; simp; linarith)
  then show ?thesis by (simp only: uint_nat)
qed

section \<open>Properties\<close>

text \<open>
  The field laws: \<open>NewIdAdv\<close> stores each argument in its own field, cut to the field's width,
  and rebuilding an identifier from its four fields gives it back up to the four unused top bits.
\<close>

text \<open>
  C34: packing and unpacking are inverse. Each field of \<open>NewIdAdv\<close> reads back as the argument cut
  to the field's width (32, 20, 4 and 4 bits), and packing the four fields of any identifier gives
  the identifier with bits 60 to 63 cleared.
\<close>

theorem steamid_pack_unpack:
  "GetAccountId (NewIdAdv a i u t) = a \<and>
   GetAccountInstance (NewIdAdv a i u t) = i AND 0xFFFFF \<and>
   GetAccountUniverse (NewIdAdv a i u t) = u AND 0xF \<and>
   GetAccountType (NewIdAdv a i u t) = t AND 0xF \<and>
   NewIdAdv (GetAccountId s) (GetAccountInstance s) (GetAccountUniverse s) (GetAccountType s)
     = s AND mask 60"
  by (simp add: NewIdAdv_fields NewIdAdv_rebuild)

lemma ClanToChat_type:
  "GetAccountType (ClanToChat s) = (if GetAccountType s = 7 then 8 else GetAccountType s)"
  by (simp add: ClanToChat_def)

lemma ChatToClan_type:
  "GetAccountType (ChatToClan s) = (if GetAccountType s = 8 then 7 else GetAccountType s)"
  by (simp add: ChatToClan_def)

lemma ChatToClan_idem [simp]: "ChatToClan (ChatToClan s) = ChatToClan s"
  by (simp add: ChatToClan_def)

lemma ChatToClan_clan: "GetAccountType s = 7 \<Longrightarrow> ChatToClan s = s"
  by (simp add: ChatToClan_def)

lemma ChatToClan_not_chat: "GetAccountType (ChatToClan s) \<noteq> 8"
  by (simp add: ChatToClan_def)

lemma ClanToChat_back:
  assumes "GetAccountType s = 7"
  shows "ChatToClan (ClanToChat s) = SetAccountInstance s 0"
proof -
  let ?c = "SetAccountInstance s (ucast Clan)"
  have "ChatToClan (ClanToChat s) = SetAccountType (SetAccountInstance (SetAccountType ?c 8) 0) 7"
    using assms by (simp add: ChatToClan_def ClanToChat_def)
  also have "SetAccountInstance (SetAccountType ?c 8) 0 = SetAccountType (SetAccountInstance s 0) 8"
    by (simp add: instance_type.set_commute accountInstance.set_set)
  also have "SetAccountType (SetAccountType (SetAccountInstance s 0) 8) 7 = SetAccountInstance s 0"
    using assms by (simp add: accountType.set_set accountType.set_same_iff)
  finally show ?thesis .
qed

text \<open>
  turning a clan identifier into its chat identifier and back gives the clan identifier with its
  instance cleared, so the identity for the identifiers clans have (instance 0); the account number
  and universe are never touched and an identifier that is not a clan is left alone.
\<close>

theorem clan_chat_roundtrip:
  "ChatToClan (ClanToChat s) =
     (if GetAccountType s = 7 then SetAccountInstance s 0 else ChatToClan s) \<and>
   GetAccountId (ClanToChat s) = GetAccountId s \<and>
   GetAccountUniverse (ClanToChat s) = GetAccountUniverse s \<and>
   ((GetAccountType s = 7 \<and> GetAccountInstance s = 0) = (ChatToClan (ClanToChat s) = s \<and> GetAccountType s = 7))"
proof -
  have "ClanToChat s = s" if "GetAccountType s \<noteq> 7"
    using that by (simp add: ClanToChat_def)
  moreover have "SetAccountInstance s 0 = s \<longleftrightarrow> GetAccountInstance s = 0"
    using accountInstance.set_same_iff [of s 0] by simp
  moreover have "GetAccountId (ClanToChat s) = GetAccountId s"
    and "GetAccountUniverse (ClanToChat s) = GetAccountUniverse s"
    by (simp_all add: ClanToChat_def)
  ultimately show ?thesis using ClanToChat_back [of s] by auto
qed

section \<open>Parsing the textual forms\<close>

lemma steam2_prefix_text:
  "steam2_prefix (''STEAM_'' @ u # CHR '':'' # a # CHR '':'' # d # rest) \<longleftrightarrow>
     u \<in> set ''012345'' \<and> (a = CHR ''0'' \<or> a = CHR ''1'') \<and> is_digit d"
  by (simp add: steam2_prefix_def)

lemma steam2_prefix_colons:
  assumes "steam2_prefix s"
  shows "2 \<le> count_list s CHR '':''"
proof -
  obtain u c1 a c2 d rest where d6: "drop 6 s = u # c1 # a # c2 # d # rest"
    and "c1 = CHR '':''" "c2 = CHR '':''"
    using assms by (auto simp: steam2_prefix_def split: list.splits)
  then have "2 \<le> count_list (drop 6 s) CHR '':''" by simp
  also have "\<dots> \<le> count_list (take 6 s @ drop 6 s) CHR '':''" by (simp only: count_list_append)
  finally show ?thesis by simp
qed

lemma search_steam2_colons:
  assumes "search steam2_prefix s"
  shows "2 \<le> count_list s CHR '':''"
proof -
  obtain a b where "s = a @ b" and "steam2_prefix b"
    using assms by (auto simp: search_iff)
  then show ?thesis using steam2_prefix_colons [of b] by simp
qed

lemma NewId_three_pieces:
  assumes "search steam2_prefix s"
  obtains a b c rest where "split_on CHR '':'' (remove_all ''STEAM_'' s) = a # b # c # rest"
proof -
  have "3 \<le> length (split_on CHR '':'' (remove_all ''STEAM_'' s))"
    using search_steam2_colons [OF assms] by (simp add: length_split_on count_list_remove_all)
  then show thesis
    using that by (auto simp: numeral_3_eq_3 Suc_le_length_iff)
qed

lemma NewId_pieces:
  assumes "search steam2_prefix s"
    and "split_on CHR '':'' (remove_all ''STEAM_'' s) = a # b # c # rest"
  shows "NewId s = Ok (NewIdAdv
      (push_bit 1 (word_of_nat (fst (ParseUint c 32))) OR word_of_nat (fst (ParseUint b 32))) 1
      (word_of_int (if fst (ParseInt a 32) = 0 then 1 else fst (ParseInt a 32))) 1)"
  using assms by (simp add: NewId_def Let_def del: search.simps)

text \<open>
  \<open>NewId\<close> never panics: whenever the pattern matches, the text without \<open>STEAM_\<close> has at least
  the three pieces the code indexes, whatever surrounds the match.
\<close>

theorem NewId_never_panics: "\<not> panics (NewId s)"
proof (cases "search steam2_prefix s")
  case True
  then obtain a b c rest where "split_on CHR '':'' (remove_all ''STEAM_'' s) = a # b # c # rest"
    by (rule NewId_three_pieces)
  with True show ?thesis by (simp add: NewId_def Let_def)
next
  case False
  then show ?thesis by (auto simp: NewId_def split: prod.splits option.splits)
qed

text \<open>
  The identifiers whose text \<open>NewId\<close> reads back: those of a type other than 0 and 1, which are
  printed as plain numbers, and individual accounts of instance 1 in the universes 1 to 5 that the
  pattern admits.
\<close>

definition text_faithful :: "steamid \<Rightarrow> bool" where
  "text_faithful s \<longleftrightarrow>
     (GetAccountType s \<noteq> 0 \<and> GetAccountType s \<noteq> 1) \<or>
     (s = NewIdAdv (GetAccountId s) 1 (GetAccountUniverse s) 1 \<and>
      1 \<le> unat (GetAccountUniverse s) \<and> unat (GetAccountUniverse s) \<le> 5)"

lemma account_halves: "push_bit 1 (drop_bit 1 a) OR (a AND 1) = (a :: u32)"
proof (rule bit_word_eqI)
  fix n
  assume "n < LENGTH(32)"
  moreover have "bit (push_bit 1 (drop_bit 1 a)) n \<longleftrightarrow> n < LENGTH(32) \<and> 1 \<le> n \<and> bit a n"
    by (auto simp only: bit_push_bit_iff possible_bit_word bit_drop_bit_eq o_def le_add_diff_inverse)
  moreover have "bit (a AND 1) n \<longleftrightarrow> n = 0 \<and> bit a n"
    by (auto simp only: bit_and_iff bit_1_iff)
  ultimately show "bit (push_bit 1 (drop_bit 1 a) OR (a AND 1)) n \<longleftrightarrow> bit a n"
    by (auto simp only: bit_or_iff)
qed

lemma unat_and_1: "unat (a AND 1 :: u32) = (if odd a then 1 else 0)"
  by (simp add: and_one_eq mod_2_eq_odd)

lemma FormatUint_bit: "FormatUint (unat (a AND 1 :: u32)) = (if odd a then ''1'' else ''0'')"
  by (simp add: unat_and_1 FormatUint.simps)

lemma FormatUint_small:
  "n \<le> 5 \<Longrightarrow> \<exists>c. FormatUint n = [c] \<and> c \<in> set ''012345''"
proof -
  assume "n \<le> 5"
  then have "n \<in> {0, 1, 2, 3, 4, 5}" by auto
  then show ?thesis by (auto simp: FormatUint.simps)
qed

lemma colon_not_in_FormatUint [simp]: "CHR '':'' \<notin> set (FormatUint n)" "CHR ''S'' \<notin> set (FormatUint n)"
  by (simp_all add: digit_not_in_FormatUint)

lemma NewId_steam2_text:
  assumes "n \<le> 5"
  shows "NewId (''STEAM_'' @ FormatUint n @ '':'' @ FormatUint (unat (a AND 1)) @ '':'' @
      FormatUint (unat (drop_bit 1 a))) = Ok (NewIdAdv a 1 (word_of_nat (if n = 0 then 1 else n)) 1)"
    (is "NewId ?t = _")
proof -
  obtain c where c: "FormatUint n = [c]" "c \<in> set ''012345''"
    using FormatUint_small [OF assms] by blast
  obtain d ds where d: "FormatUint (unat (drop_bit 1 a)) = d # ds" "is_digit d"
    by (metis FormatUint_not_Nil hd_FormatUint_digit list.exhaust_sel)
  define body where "body = FormatUint n @ CHR '':'' # FormatUint (unat (a AND 1)) @ CHR '':'' #
      FormatUint (unat (drop_bit 1 a))"
  have t: "?t = ''STEAM_'' @ body" by (simp add: body_def)
  have "steam2_prefix ?t"
    using c d by (auto simp: FormatUint_bit steam2_prefix_def)
  then have m: "search steam2_prefix ?t" by (rule search_prefix)
  have "remove_all ''STEAM_'' ?t = body"
    unfolding t by (subst remove_all_prefix, simp) (rule remove_all_no_hd; simp add: body_def)
  then have pieces: "split_on CHR '':'' (remove_all ''STEAM_'' ?t) =
      [FormatUint n, FormatUint (unat (a AND 1)), FormatUint (unat (drop_bit 1 a))]"
    by (simp add: body_def split_on_append split_on_no_sep)
  have small: "n < 2 ^ 31" using assms by simp
  have "unat (a AND 1) < 2 ^ 32" "unat (drop_bit 1 a) < 2 ^ 32"
    using unat_lt_pow [of "a AND 1"] unat_lt_pow [of "drop_bit 1 a"] by simp_all
  then show ?thesis
    using small unfolding NewId_pieces [OF m pieces]
    by (simp add: account_halves del: One_nat_def)
qed

lemma NewId_plain_number:
  "NewId (FormatUint (unat s)) = Ok s"
proof -
  have "count_list (FormatUint (unat s)) CHR '':'' = 0"
    by (simp add: count_list_0_iff)
  then have "\<not> search steam2_prefix (FormatUint (unat s))"
    using search_steam2_colons by fastforce
  moreover have "unat s < 2 ^ 64" using unat_lt_pow [of s] by simp
  ultimately show ?thesis by (simp add: NewId_def)
qed

lemma NewId_String: "text_faithful s \<Longrightarrow> NewId (sid_String s) = Ok s"
proof (cases "GetAccountType s \<noteq> 0 \<and> GetAccountType s \<noteq> 1")
  case True
  then show ?thesis by (simp add: sid_String_def NewId_plain_number)
next
  case False
  assume "text_faithful s"
  with False have eq: "NewIdAdv (GetAccountId s) 1 (GetAccountUniverse s) 1 = s"
    and u: "1 \<le> unat (GetAccountUniverse s)" "unat (GetAccountUniverse s) \<le> 5"
    by (auto simp: text_faithful_def)
  have zero: "FormatUint 0 = ''0''" by (simp add: FormatUint.simps)
  show ?thesis
  proof (cases "unat (GetAccountUniverse s) = 1")
    case True
    then have one: "GetAccountUniverse s = 1" by (metis unat_1 word_unat_eq_iff)
    have "NewId (''STEAM_'' @ FormatUint 0 @ '':'' @ FormatUint (unat (GetAccountId s AND 1)) @ '':'' @
        FormatUint (unat (drop_bit 1 (GetAccountId s)))) = Ok s"
      using eq one by (subst NewId_steam2_text) simp_all
    then show ?thesis using False one by (simp add: sid_String_def zero)
  next
    case ne: False
    then have "\<not> sint (GetAccountUniverse s) \<le> 1" using u sint_universe [of s] by linarith
    moreover have "NewId (''STEAM_'' @ FormatUint (unat (GetAccountUniverse s)) @ '':'' @
        FormatUint (unat (GetAccountId s AND 1)) @ '':'' @
        FormatUint (unat (drop_bit 1 (GetAccountId s)))) = Ok s"
      using eq u by (subst NewId_steam2_text) simp_all
    ultimately show ?thesis using False by (simp add: sid_String_def)
  qed
qed

interpretation steam_text: text_codec sid_String NewId text_faithful
  by unfold_locales (rule NewId_String)

text \<open>
  C35: printing an identifier and parsing the text gives the identifier back, for every identifier
  that is printed as a number and for every individual account of instance 1 in universes 1 to 5;
  on these identifiers the printed text is unique.
\<close>

theorem steamid_text_roundtrip:
  assumes "text_faithful s"
  shows "NewId (sid_String s) = Ok s \<and>
    (\<forall>t. text_faithful t \<longrightarrow> sid_String t = sid_String s \<longrightarrow> t = s)"
  using assms steam_text.dec_enc steam_text.enc_inj by blast

theorem steamid_text_roundtrip_witness:
  "text_faithful 76561197960287930 \<and> sid_String 76561197960287930 = ''STEAM_0:0:11101'' \<and>
   NewId ''STEAM_0:0:11101'' = Ok 76561197960287930"
proof -
  let ?s = "76561197960287930 :: steamid"
  have f: "GetAccountId ?s = 22202" "GetAccountUniverse ?s = 1" "GetAccountType ?s = 1"
    by (simp_all add: accessor_defs sid_get_def)
  have "NewIdAdv 22202 1 1 1 = ?s"
    by (simp add: NewIdAdv_def Let_def accessor_defs sid_set_def)
  then have t: "text_faithful ?s" by (simp add: text_faithful_def f)
  have "unat (22202 AND 1 :: u32) = 0" and "unat (drop_bit 1 22202 :: u32) = 11101"
    by simp_all
  moreover have "FormatUint 0 = ''0''" and "FormatUint 11101 = ''11101''"
    by (simp_all add: FormatUint.simps)
  ultimately have x: "sid_String ?s = ''STEAM_0:0:11101''"
    unfolding sid_String_def f by simp
  show ?thesis
    using conjunct1 [OF steamid_text_roundtrip [OF t]] t x by metis
qed

text \<open>
  the pattern is not anchored and the parse errors of the pieces are dropped, so text around a
  match is accepted and changes the result: a suffix of the account number makes it 0, and a
  prefix shifts the pieces. Both inputs are read as the wrong account without an error.
\<close>

theorem NewId_accepts_malformed:
  "NewId ''STEAM_0:1:5x'' = Ok (NewIdAdv 1 1 1 1) \<and>
   NewId ''STEAM_0:1:5'' = Ok (NewIdAdv 11 1 1 1) \<and>
   NewId ''7:STEAM_0:1:5'' = Ok (NewIdAdv 2 1 7 1)"
proof -
  have "NewId ''STEAM_0:1:5x'' = Ok (NewIdAdv 1 1 1 1)"
    by (subst NewId_pieces [where a = "''0''" and b = "''1''" and c = "''5x''" and rest = "[]"])
      (code_simp, code_simp, simp add: ParseUint_def ParseInt_def is_digit_def digit_val_def)
  moreover have "NewId ''STEAM_0:1:5'' = Ok (NewIdAdv 11 1 1 1)"
    by (subst NewId_pieces [where a = "''0''" and b = "''1''" and c = "''5''" and rest = "[]"])
      (code_simp, code_simp, simp add: ParseUint_def ParseInt_def is_digit_def digit_val_def)
  moreover have "NewId ''7:STEAM_0:1:5'' = Ok (NewIdAdv 2 1 7 1)"
    by (subst NewId_pieces [where a = "''7''" and b = "''0''" and c = "''1''" and rest = "[''5'']"])
      (code_simp, code_simp, simp add: ParseUint_def ParseInt_def is_digit_def digit_val_def)
  ultimately show ?thesis by blast
qed

end
