(* ===== verification/Steamlang.thy ===== *)
theory Steamlang
  imports Steam_Id
begin

text \<open>
  \<open>protocol/steamlang\<close>: the protobuf flag of a raw message number (\<open>steamlang.go\<close>) and those constants
  of the generated enums (\<open>enums.go\<close>) that the struct messages and the handlers use.
  The enums are Go integers of the width given; every other value of the width is possible too.
\<close>

section \<open>steamlang.go\<close>

definition ProtoMask :: u32 where "ProtoMask = 0x80000000"

definition EMsgMask :: u32 where "EMsgMask = NOT ProtoMask"

definition NewEMsg :: "u32 \<Rightarrow> i32" where
  "NewEMsg e = e AND EMsgMask"

definition IsProto :: "u32 \<Rightarrow> bool" where
  "IsProto e \<longleftrightarrow> e AND ProtoMask > 0"

lemma ProtoMask_bit: "bit ProtoMask n \<longleftrightarrow> n = 31"
proof -
  have "ProtoMask = push_bit 31 1" by (simp add: ProtoMask_def)
  show ?thesis
    unfolding \<open>ProtoMask = push_bit 31 1\<close> bit_push_bit_iff possible_bit_word bit_1_iff by auto
qed

lemma NewEMsg_bit: "bit (NewEMsg e) n \<longleftrightarrow> n < 31 \<and> bit e n"
  by (auto simp: NewEMsg_def EMsgMask_def bit_and_iff bit_not_iff ProtoMask_bit dest: bit_imp_le_length)

lemma IsProto_bit: "IsProto e \<longleftrightarrow> bit e 31"
proof -
  have "e AND ProtoMask \<noteq> 0 \<longleftrightarrow> (\<exists>n. bit (e AND ProtoMask) n)"
    by (metis bit_eqI bit_0_eq bot_apply bot_bool_def)
  then show ?thesis by (auto simp: IsProto_def word_gt_0 bit_and_iff ProtoMask_bit)
qed

lemma NewEMsg_proto_flag: "NewEMsg (e OR ProtoMask) = NewEMsg e"
  by (rule bit_word_eqI) (auto simp: NewEMsg_bit bit_or_iff ProtoMask_bit)

lemma NewEMsg_idem [simp]: "NewEMsg (NewEMsg e) = NewEMsg e"
  by (rule bit_word_eqI) (auto simp: NewEMsg_bit)

lemma IsProto_flag [simp]: "IsProto (e OR ProtoMask)"
  by (simp add: IsProto_bit bit_or_iff ProtoMask_bit)

lemma not_IsProto_NewEMsg [simp]: "\<not> IsProto (NewEMsg e)"
  by (simp add: IsProto_bit NewEMsg_bit)

lemma below_top_bit: "n < 32 \<Longrightarrow> n < 31 \<or> n = (31 :: nat)"
  by auto

lemma NewEMsg_id: "\<not> IsProto e \<Longrightarrow> NewEMsg e = e"
  by (rule bit_word_eqI) (auto simp: NewEMsg_bit IsProto_bit dest: below_top_bit)

lemma NewEMsg_or_flag: "NewEMsg e OR ProtoMask = e \<longleftrightarrow> IsProto e"
proof
  assume "NewEMsg e OR ProtoMask = e"
  then show "IsProto e" by (metis IsProto_flag)
next
  assume "IsProto e"
  then show "NewEMsg e OR ProtoMask = e"
    by (intro bit_word_eqI)
      (auto simp: NewEMsg_bit IsProto_bit bit_or_iff ProtoMask_bit dest: below_top_bit)
qed

section \<open>The constants of enums.go that the models use\<close>

subsection \<open>\<open>EAccountFlags\<close>\<close>

type_synonym EAccountFlags = i32

subsection \<open>\<open>EAccountType\<close>\<close>

type_synonym EAccountType = i32

definition EAccountType_Individual :: EAccountType where "EAccountType_Individual = 1"
definition EAccountType_AnonGameServer :: EAccountType where "EAccountType_AnonGameServer = 4"
definition EAccountType_Clan :: EAccountType where "EAccountType_Clan = 7"
definition EAccountType_Chat :: EAccountType where "EAccountType_Chat = 8"
definition EAccountType_ConsoleUser :: EAccountType where "EAccountType_ConsoleUser = 9"

lemmas EAccountType_defs =
  EAccountType_Individual_def
  EAccountType_AnonGameServer_def
  EAccountType_Clan_def
  EAccountType_Chat_def
  EAccountType_ConsoleUser_def

subsection \<open>\<open>EAppUsageEvent\<close>\<close>

type_synonym EAppUsageEvent = i32

subsection \<open>\<open>EChatAction\<close>\<close>

type_synonym EChatAction = i32

definition EChatAction_Kick :: EChatAction where "EChatAction_Kick = 2"
definition EChatAction_Ban :: EChatAction where "EChatAction_Ban = 3"
definition EChatAction_UnBan :: EChatAction where "EChatAction_UnBan = 4"

lemmas EChatAction_defs =
  EChatAction_Kick_def
  EChatAction_Ban_def
  EChatAction_UnBan_def

subsection \<open>\<open>EChatActionResult\<close>\<close>

type_synonym EChatActionResult = i32

subsection \<open>\<open>EChatEntryType\<close>\<close>

type_synonym EChatEntryType = i32

definition EChatEntryType_ChatMsg :: EChatEntryType where "EChatEntryType_ChatMsg = 1"

lemmas EChatEntryType_defs =
  EChatEntryType_ChatMsg_def

subsection \<open>\<open>EChatInfoType\<close>\<close>

type_synonym EChatInfoType = i32

definition EChatInfoType_StateChange :: EChatInfoType where "EChatInfoType_StateChange = 1"

lemmas EChatInfoType_defs =
  EChatInfoType_StateChange_def

subsection \<open>\<open>EChatMemberStateChange\<close>\<close>

type_synonym EChatMemberStateChange = i32

definition EChatMemberStateChange_Entered :: EChatMemberStateChange where "EChatMemberStateChange_Entered = 1"
definition EChatMemberStateChange_Left :: EChatMemberStateChange where "EChatMemberStateChange_Left = 2"
definition EChatMemberStateChange_Disconnected :: EChatMemberStateChange where "EChatMemberStateChange_Disconnected = 4"
definition EChatMemberStateChange_Kicked :: EChatMemberStateChange where "EChatMemberStateChange_Kicked = 8"
definition EChatMemberStateChange_Banned :: EChatMemberStateChange where "EChatMemberStateChange_Banned = 16"

lemmas EChatMemberStateChange_defs =
  EChatMemberStateChange_Entered_def
  EChatMemberStateChange_Left_def
  EChatMemberStateChange_Disconnected_def
  EChatMemberStateChange_Kicked_def
  EChatMemberStateChange_Banned_def

subsection \<open>\<open>EChatPermission\<close>\<close>

type_synonym EChatPermission = i32

subsection \<open>\<open>EChatRoomEnterResponse\<close>\<close>

type_synonym EChatRoomEnterResponse = i32

subsection \<open>\<open>EChatRoomType\<close>\<close>

type_synonym EChatRoomType = i32

subsection \<open>\<open>EClanPermission\<close>\<close>

type_synonym EClanPermission = i32

subsection \<open>\<open>EClanRank\<close>\<close>

type_synonym EClanRank = i32

subsection \<open>\<open>EClanRelationship\<close>\<close>

type_synonym EClanRelationship = i32

definition EClanRelationship_None :: EClanRelationship where "EClanRelationship_None = 0"
definition EClanRelationship_Member :: EClanRelationship where "EClanRelationship_Member = 3"

lemmas EClanRelationship_defs =
  EClanRelationship_None_def
  EClanRelationship_Member_def

subsection \<open>\<open>EClientPersonaStateFlag\<close>\<close>

type_synonym EClientPersonaStateFlag = i32

definition EClientPersonaStateFlag_PlayerName :: EClientPersonaStateFlag where "EClientPersonaStateFlag_PlayerName = 2"
definition EClientPersonaStateFlag_SourceID :: EClientPersonaStateFlag where "EClientPersonaStateFlag_SourceID = 8"
definition EClientPersonaStateFlag_Presence :: EClientPersonaStateFlag where "EClientPersonaStateFlag_Presence = 16"
definition EClientPersonaStateFlag_GameExtraInfo :: EClientPersonaStateFlag where "EClientPersonaStateFlag_GameExtraInfo = 256"
definition EClientPersonaStateFlag_GameDataBlob :: EClientPersonaStateFlag where "EClientPersonaStateFlag_GameDataBlob = 512"

lemmas EClientPersonaStateFlag_defs =
  EClientPersonaStateFlag_PlayerName_def
  EClientPersonaStateFlag_SourceID_def
  EClientPersonaStateFlag_Presence_def
  EClientPersonaStateFlag_GameExtraInfo_def
  EClientPersonaStateFlag_GameDataBlob_def

subsection \<open>\<open>EDenyReason\<close>\<close>

type_synonym EDenyReason = i32

subsection \<open>\<open>EEconTradeResponse\<close>\<close>

type_synonym EEconTradeResponse = i32

subsection \<open>\<open>EFriendRelationship\<close>\<close>

type_synonym EFriendRelationship = i32

definition EFriendRelationship_None :: EFriendRelationship where "EFriendRelationship_None = 0"
definition EFriendRelationship_Friend :: EFriendRelationship where "EFriendRelationship_Friend = 3"

lemmas EFriendRelationship_defs =
  EFriendRelationship_None_def
  EFriendRelationship_Friend_def

subsection \<open>\<open>EIntroducerRouting\<close>\<close>

type_synonym EIntroducerRouting = i32

subsection \<open>\<open>EMsg\<close>\<close>

type_synonym EMsg = i32

definition EMsg_Invalid :: EMsg where "EMsg_Invalid = 0"
definition EMsg_Multi :: EMsg where "EMsg_Multi = 1"
definition EMsg_ServiceMethodResponse :: EMsg where "EMsg_ServiceMethodResponse = 147"
definition EMsg_ClientChatAction :: EMsg where "EMsg_ClientChatAction = 597"
definition EMsg_ClientHeartBeat :: EMsg where "EMsg_ClientHeartBeat = 703"
definition EMsg_ClientRemoveFriend :: EMsg where "EMsg_ClientRemoveFriend = 714"
definition EMsg_ClientChangeStatus :: EMsg where "EMsg_ClientChangeStatus = 716"
definition EMsg_ClientFriendMsg :: EMsg where "EMsg_ClientFriendMsg = 718"
definition EMsg_ClientGamesPlayed :: EMsg where "EMsg_ClientGamesPlayed = 742"
definition EMsg_ClientAppUsageEvent :: EMsg where "EMsg_ClientAppUsageEvent = 747"
definition EMsg_ClientLogOnResponse :: EMsg where "EMsg_ClientLogOnResponse = 751"
definition EMsg_ClientLoggedOff :: EMsg where "EMsg_ClientLoggedOff = 757"
definition EMsg_GSApprove :: EMsg where "EMsg_GSApprove = 758"
definition EMsg_GSDeny :: EMsg where "EMsg_GSDeny = 759"
definition EMsg_GSKick :: EMsg where "EMsg_GSKick = 760"
definition EMsg_ClientPersonaState :: EMsg where "EMsg_ClientPersonaState = 766"
definition EMsg_ClientFriendsList :: EMsg where "EMsg_ClientFriendsList = 767"
definition EMsg_ClientAccountInfo :: EMsg where "EMsg_ClientAccountInfo = 768"
definition EMsg_ClientVACBanStatus :: EMsg where "EMsg_ClientVACBanStatus = 782"
definition EMsg_ClientCMList :: EMsg where "EMsg_ClientCMList = 783"
definition EMsg_ClientAddFriend :: EMsg where "EMsg_ClientAddFriend = 791"
definition EMsg_ClientAddFriendResponse :: EMsg where "EMsg_ClientAddFriendResponse = 792"
definition EMsg_ClientUpdateGuestPassesList :: EMsg where "EMsg_ClientUpdateGuestPassesList = 798"
definition EMsg_ClientChatMsg :: EMsg where "EMsg_ClientChatMsg = 799"
definition EMsg_ClientChatInvite :: EMsg where "EMsg_ClientChatInvite = 800"
definition EMsg_ClientJoinChat :: EMsg where "EMsg_ClientJoinChat = 801"
definition EMsg_ClientChatMemberInfo :: EMsg where "EMsg_ClientChatMemberInfo = 802"
definition EMsg_ClientChatEnter :: EMsg where "EMsg_ClientChatEnter = 807"
definition EMsg_ClientCreateChat :: EMsg where "EMsg_ClientCreateChat = 809"
definition EMsg_ClientCreateChatResponse :: EMsg where "EMsg_ClientCreateChatResponse = 810"
definition EMsg_ClientP2PIntroducerMessage :: EMsg where "EMsg_ClientP2PIntroducerMessage = 813"
definition EMsg_ClientChatActionResult :: EMsg where "EMsg_ClientChatActionResult = 814"
definition EMsg_ClientRequestFriendData :: EMsg where "EMsg_ClientRequestFriendData = 815"
definition EMsg_ClientClanState :: EMsg where "EMsg_ClientClanState = 822"
definition EMsg_ClientSessionToken :: EMsg where "EMsg_ClientSessionToken = 850"
definition EMsg_ClientSetIgnoreFriend :: EMsg where "EMsg_ClientSetIgnoreFriend = 855"
definition EMsg_ClientSetIgnoreFriendResponse :: EMsg where "EMsg_ClientSetIgnoreFriendResponse = 856"
definition EMsg_GSGetPlayStatsResponse :: EMsg where "EMsg_GSGetPlayStatsResponse = 919"
definition EMsg_GSGetUserGroupStatus :: EMsg where "EMsg_GSGetUserGroupStatus = 920"
definition EMsg_GSGetUserGroupStatusResponse :: EMsg where "EMsg_GSGetUserGroupStatusResponse = 923"
definition EMsg_GSGetReputationResponse :: EMsg where "EMsg_GSGetReputationResponse = 937"
definition EMsg_ChannelEncryptRequest :: EMsg where "EMsg_ChannelEncryptRequest = 1303"
definition EMsg_ChannelEncryptResponse :: EMsg where "EMsg_ChannelEncryptResponse = 1304"
definition EMsg_ChannelEncryptResult :: EMsg where "EMsg_ChannelEncryptResult = 1305"
definition EMsg_ClientChatRoomInfo :: EMsg where "EMsg_ClientChatRoomInfo = 4026"
definition EMsg_ClientFriendMsgIncoming :: EMsg where "EMsg_ClientFriendMsgIncoming = 5427"
definition EMsg_GSPerformHardwareSurvey :: EMsg where "EMsg_GSPerformHardwareSurvey = 5440"
definition EMsg_ClientToGC :: EMsg where "EMsg_ClientToGC = 5452"
definition EMsg_ClientFromGC :: EMsg where "EMsg_ClientFromGC = 5453"
definition EMsg_ClientEmailAddrInfo :: EMsg where "EMsg_ClientEmailAddrInfo = 5456"
definition EMsg_ClientNewLoginKey :: EMsg where "EMsg_ClientNewLoginKey = 5463"
definition EMsg_ClientNewLoginKeyAccepted :: EMsg where "EMsg_ClientNewLoginKeyAccepted = 5464"
definition EMsg_ClientRequestedClientStats :: EMsg where "EMsg_ClientRequestedClientStats = 5480"
definition EMsg_ClientGetFriendsWhoPlayGame :: EMsg where "EMsg_ClientGetFriendsWhoPlayGame = 5488"
definition EMsg_ClientGetFriendsWhoPlayGameResponse :: EMsg where "EMsg_ClientGetFriendsWhoPlayGameResponse = 5489"
definition EMsg_ClientOGSBeginSession :: EMsg where "EMsg_ClientOGSBeginSession = 5490"
definition EMsg_ClientOGSBeginSessionResponse :: EMsg where "EMsg_ClientOGSBeginSessionResponse = 5491"
definition EMsg_ClientOGSEndSession :: EMsg where "EMsg_ClientOGSEndSession = 5492"
definition EMsg_ClientOGSEndSessionResponse :: EMsg where "EMsg_ClientOGSEndSessionResponse = 5493"
definition EMsg_ClientOGSWriteRow :: EMsg where "EMsg_ClientOGSWriteRow = 5494"
definition EMsg_ClientServerUnavailable :: EMsg where "EMsg_ClientServerUnavailable = 5500"
definition EMsg_ClientMarketingMessageUpdate2 :: EMsg where "EMsg_ClientMarketingMessageUpdate2 = 5510"
definition EMsg_ClientLogon :: EMsg where "EMsg_ClientLogon = 5514"
definition EMsg_ClientFriendProfileInfo :: EMsg where "EMsg_ClientFriendProfileInfo = 5535"
definition EMsg_ClientFriendProfileInfoResponse :: EMsg where "EMsg_ClientFriendProfileInfoResponse = 5536"
definition EMsg_ClientUpdateMachineAuth :: EMsg where "EMsg_ClientUpdateMachineAuth = 5537"
definition EMsg_ClientUpdateMachineAuthResponse :: EMsg where "EMsg_ClientUpdateMachineAuthResponse = 5538"
definition EMsg_ClientRequestWebAPIAuthenticateUserNonce :: EMsg where "EMsg_ClientRequestWebAPIAuthenticateUserNonce = 5585"
definition EMsg_ClientRequestWebAPIAuthenticateUserNonceResponse :: EMsg where "EMsg_ClientRequestWebAPIAuthenticateUserNonceResponse = 5586"
definition EMsg_ClientUserNotifications :: EMsg where "EMsg_ClientUserNotifications = 5599"
definition EMsg_ClientFSGetFriendMessageHistoryResponse :: EMsg where "EMsg_ClientFSGetFriendMessageHistoryResponse = 7526"
definition EMsg_ClientChatGetFriendMessageHistoryForOfflineMessages :: EMsg where "EMsg_ClientChatGetFriendMessageHistoryForOfflineMessages = 7527"
definition EMsg_EconTrading_InitiateTradeRequest :: EMsg where "EMsg_EconTrading_InitiateTradeRequest = 7701"
definition EMsg_EconTrading_InitiateTradeProposed :: EMsg where "EMsg_EconTrading_InitiateTradeProposed = 7702"
definition EMsg_EconTrading_InitiateTradeResponse :: EMsg where "EMsg_EconTrading_InitiateTradeResponse = 7703"
definition EMsg_EconTrading_InitiateTradeResult :: EMsg where "EMsg_EconTrading_InitiateTradeResult = 7704"
definition EMsg_EconTrading_StartSession :: EMsg where "EMsg_EconTrading_StartSession = 7705"
definition EMsg_EconTrading_CancelTradeRequest :: EMsg where "EMsg_EconTrading_CancelTradeRequest = 7706"

lemmas EMsg_defs =
  EMsg_Invalid_def
  EMsg_Multi_def
  EMsg_ServiceMethodResponse_def
  EMsg_ClientChatAction_def
  EMsg_ClientHeartBeat_def
  EMsg_ClientRemoveFriend_def
  EMsg_ClientChangeStatus_def
  EMsg_ClientFriendMsg_def
  EMsg_ClientGamesPlayed_def
  EMsg_ClientAppUsageEvent_def
  EMsg_ClientLogOnResponse_def
  EMsg_ClientLoggedOff_def
  EMsg_GSApprove_def
  EMsg_GSDeny_def
  EMsg_GSKick_def
  EMsg_ClientPersonaState_def
  EMsg_ClientFriendsList_def
  EMsg_ClientAccountInfo_def
  EMsg_ClientVACBanStatus_def
  EMsg_ClientCMList_def
  EMsg_ClientAddFriend_def
  EMsg_ClientAddFriendResponse_def
  EMsg_ClientUpdateGuestPassesList_def
  EMsg_ClientChatMsg_def
  EMsg_ClientChatInvite_def
  EMsg_ClientJoinChat_def
  EMsg_ClientChatMemberInfo_def
  EMsg_ClientChatEnter_def
  EMsg_ClientCreateChat_def
  EMsg_ClientCreateChatResponse_def
  EMsg_ClientP2PIntroducerMessage_def
  EMsg_ClientChatActionResult_def
  EMsg_ClientRequestFriendData_def
  EMsg_ClientClanState_def
  EMsg_ClientSessionToken_def
  EMsg_ClientSetIgnoreFriend_def
  EMsg_ClientSetIgnoreFriendResponse_def
  EMsg_GSGetPlayStatsResponse_def
  EMsg_GSGetUserGroupStatus_def
  EMsg_GSGetUserGroupStatusResponse_def
  EMsg_GSGetReputationResponse_def
  EMsg_ChannelEncryptRequest_def
  EMsg_ChannelEncryptResponse_def
  EMsg_ChannelEncryptResult_def
  EMsg_ClientChatRoomInfo_def
  EMsg_ClientFriendMsgIncoming_def
  EMsg_GSPerformHardwareSurvey_def
  EMsg_ClientToGC_def
  EMsg_ClientFromGC_def
  EMsg_ClientEmailAddrInfo_def
  EMsg_ClientNewLoginKey_def
  EMsg_ClientNewLoginKeyAccepted_def
  EMsg_ClientRequestedClientStats_def
  EMsg_ClientGetFriendsWhoPlayGame_def
  EMsg_ClientGetFriendsWhoPlayGameResponse_def
  EMsg_ClientOGSBeginSession_def
  EMsg_ClientOGSBeginSessionResponse_def
  EMsg_ClientOGSEndSession_def
  EMsg_ClientOGSEndSessionResponse_def
  EMsg_ClientOGSWriteRow_def
  EMsg_ClientServerUnavailable_def
  EMsg_ClientMarketingMessageUpdate2_def
  EMsg_ClientLogon_def
  EMsg_ClientFriendProfileInfo_def
  EMsg_ClientFriendProfileInfoResponse_def
  EMsg_ClientUpdateMachineAuth_def
  EMsg_ClientUpdateMachineAuthResponse_def
  EMsg_ClientRequestWebAPIAuthenticateUserNonce_def
  EMsg_ClientRequestWebAPIAuthenticateUserNonceResponse_def
  EMsg_ClientUserNotifications_def
  EMsg_ClientFSGetFriendMessageHistoryResponse_def
  EMsg_ClientChatGetFriendMessageHistoryForOfflineMessages_def
  EMsg_EconTrading_InitiateTradeRequest_def
  EMsg_EconTrading_InitiateTradeProposed_def
  EMsg_EconTrading_InitiateTradeResponse_def
  EMsg_EconTrading_InitiateTradeResult_def
  EMsg_EconTrading_StartSession_def
  EMsg_EconTrading_CancelTradeRequest_def

subsection \<open>\<open>EPersonaState\<close>\<close>

type_synonym EPersonaState = i32

definition EPersonaState_Online :: EPersonaState where "EPersonaState_Online = 1"

lemmas EPersonaState_defs =
  EPersonaState_Online_def

subsection \<open>\<open>EPersonaStateFlag\<close>\<close>

type_synonym EPersonaStateFlag = i32

subsection \<open>\<open>EResult\<close>\<close>

type_synonym EResult = i32

definition EResult_Invalid :: EResult where "EResult_Invalid = 0"
definition EResult_OK :: EResult where "EResult_OK = 1"
definition EResult_Fail :: EResult where "EResult_Fail = 2"
definition EResult_FileNotFound :: EResult where "EResult_FileNotFound = 9"
definition EResult_ServiceUnavailable :: EResult where "EResult_ServiceUnavailable = 20"
definition EResult_TryAnotherCM :: EResult where "EResult_TryAnotherCM = 48"

lemmas EResult_defs =
  EResult_Invalid_def
  EResult_OK_def
  EResult_Fail_def
  EResult_FileNotFound_def
  EResult_ServiceUnavailable_def
  EResult_TryAnotherCM_def

subsection \<open>\<open>EServerType\<close>\<close>

type_synonym EServerType = i32

subsection \<open>\<open>EUdpPacketType\<close>\<close>

type_synonym EUdpPacketType = u8

definition EUdpPacketType_Invalid :: EUdpPacketType where "EUdpPacketType_Invalid = 0"

lemmas EUdpPacketType_defs =
  EUdpPacketType_Invalid_def

subsection \<open>\<open>EUniverse\<close>\<close>

type_synonym EUniverse = i32

definition EUniverse_Invalid :: EUniverse where "EUniverse_Invalid = 0"
definition EUniverse_Public :: EUniverse where "EUniverse_Public = 1"
definition EUniverse_Beta :: EUniverse where "EUniverse_Beta = 2"
definition EUniverse_Internal :: EUniverse where "EUniverse_Internal = 3"

lemmas EUniverse_defs =
  EUniverse_Invalid_def
  EUniverse_Public_def
  EUniverse_Beta_def
  EUniverse_Internal_def

end
