(* ===== verification/Steamlang_Msgs1.thy ===== *)
theory Steamlang_Msgs1
  imports Rwu Steamlang
begin

text \<open>
  Translated struct by struct: further struct messages of \<open>protocol/steamlang/messages.go\<close>, in the order of the file: UDP, accounts, statistics.
  Each struct is a record, its constructor, its \<open>Serialize\<close> and its \<open>Deserialize\<close>, followed by the
  interpretation that shows the pair to be a codec of fixed size.
\<close>

record UdpHeader =
  UdpHeader_Magic :: u32
  UdpHeader_PayloadSize :: u16
  UdpHeader_PacketType :: EUdpPacketType
  UdpHeader_Flags :: u8
  UdpHeader_SourceConnID :: u32
  UdpHeader_DestConnID :: u32
  UdpHeader_SeqThis :: u32
  UdpHeader_SeqAck :: u32
  UdpHeader_PacketsInMsg :: u32
  UdpHeader_MsgStartSeq :: u32
  UdpHeader_MsgSize :: u32

definition NewUdpHeader :: UdpHeader where
  "NewUdpHeader = \<lparr>
     UdpHeader_Magic = 825250646,
     UdpHeader_PayloadSize = 0,
     UdpHeader_PacketType = EUdpPacketType_Invalid,
     UdpHeader_Flags = 0,
     UdpHeader_SourceConnID = 512,
     UdpHeader_DestConnID = 0,
     UdpHeader_SeqThis = 0,
     UdpHeader_SeqAck = 0,
     UdpHeader_PacketsInMsg = 0,
     UdpHeader_MsgStartSeq = 0,
     UdpHeader_MsgSize = 0\<rparr>"

definition UdpHeader_Serialize :: "UdpHeader \<Rightarrow> bytes" where
  "UdpHeader_Serialize d =
     le_bytes 4 (UdpHeader_Magic d) @
     le_bytes 2 (UdpHeader_PayloadSize d) @
     le_bytes 1 (UdpHeader_PacketType d) @
     le_bytes 1 (UdpHeader_Flags d) @
     le_bytes 4 (UdpHeader_SourceConnID d) @
     le_bytes 4 (UdpHeader_DestConnID d) @
     le_bytes 4 (UdpHeader_SeqThis d) @
     le_bytes 4 (UdpHeader_SeqAck d) @
     le_bytes 4 (UdpHeader_PacketsInMsg d) @
     le_bytes 4 (UdpHeader_MsgStartSeq d) @
     le_bytes 4 (UdpHeader_MsgSize d)"

definition UdpHeader_Deserialize :: "UdpHeader step" where
  "UdpHeader_Deserialize = steps [
     assign ReadUint32 (\<lambda>v d. d\<lparr>UdpHeader_Magic := v\<rparr>),
     assign ReadUint16 (\<lambda>v d. d\<lparr>UdpHeader_PayloadSize := v\<rparr>),
     assign_ok ReadUint8 (\<lambda>v d. d\<lparr>UdpHeader_PacketType := v\<rparr>),
     assign ReadUint8 (\<lambda>v d. d\<lparr>UdpHeader_Flags := v\<rparr>),
     assign ReadUint32 (\<lambda>v d. d\<lparr>UdpHeader_SourceConnID := v\<rparr>),
     assign ReadUint32 (\<lambda>v d. d\<lparr>UdpHeader_DestConnID := v\<rparr>),
     assign ReadUint32 (\<lambda>v d. d\<lparr>UdpHeader_SeqThis := v\<rparr>),
     assign ReadUint32 (\<lambda>v d. d\<lparr>UdpHeader_SeqAck := v\<rparr>),
     assign ReadUint32 (\<lambda>v d. d\<lparr>UdpHeader_PacketsInMsg := v\<rparr>),
     assign ReadUint32 (\<lambda>v d. d\<lparr>UdpHeader_MsgStartSeq := v\<rparr>),
     assign ReadUint32 (\<lambda>v d. d\<lparr>UdpHeader_MsgSize := v\<rparr>)]"

interpretation UdpHeader_codec: fixed_codec UdpHeader_Serialize UdpHeader_Deserialize 36
proof
  fix d x :: UdpHeader and r :: bytes
  show "UdpHeader_Deserialize d (UdpHeader_Serialize x @ r) = (x, None, r)"
    by (simp add: UdpHeader_Serialize_def UdpHeader_Deserialize_def wire_defs)
  show "length (UdpHeader_Serialize x) = 36"
    by (simp add: UdpHeader_Serialize_def)
  have "needs (4 + (2 + (1 + (1 + (4 + (4 + (4 + (4 + (4 + (4 + (4 + 0))))))))))) UdpHeader_Deserialize"
    unfolding UdpHeader_Deserialize_def by (intro needs_intros)
  then show "needs 36 UdpHeader_Deserialize" by simp
qed

record ChallengeData =
  ChallengeData_ChallengeValue :: u32
  ChallengeData_ServerLoad :: u32

definition NewChallengeData :: ChallengeData where
  "NewChallengeData = \<lparr>
     ChallengeData_ChallengeValue = 0,
     ChallengeData_ServerLoad = 0\<rparr>"

definition ChallengeData_Serialize :: "ChallengeData \<Rightarrow> bytes" where
  "ChallengeData_Serialize d =
     le_bytes 4 (ChallengeData_ChallengeValue d) @
     le_bytes 4 (ChallengeData_ServerLoad d)"

definition ChallengeData_Deserialize :: "ChallengeData step" where
  "ChallengeData_Deserialize = steps [
     assign ReadUint32 (\<lambda>v d. d\<lparr>ChallengeData_ChallengeValue := v\<rparr>),
     assign ReadUint32 (\<lambda>v d. d\<lparr>ChallengeData_ServerLoad := v\<rparr>)]"

interpretation ChallengeData_codec: fixed_codec ChallengeData_Serialize ChallengeData_Deserialize 8
proof
  fix d x :: ChallengeData and r :: bytes
  show "ChallengeData_Deserialize d (ChallengeData_Serialize x @ r) = (x, None, r)"
    by (simp add: ChallengeData_Serialize_def ChallengeData_Deserialize_def wire_defs)
  show "length (ChallengeData_Serialize x) = 8"
    by (simp add: ChallengeData_Serialize_def)
  have "needs (4 + (4 + 0)) ChallengeData_Deserialize"
    unfolding ChallengeData_Deserialize_def by (intro needs_intros)
  then show "needs 8 ChallengeData_Deserialize" by simp
qed

record ConnectData =
  ConnectData_ChallengeValue :: u32

definition NewConnectData :: ConnectData where
  "NewConnectData = \<lparr>
     ConnectData_ChallengeValue = 0\<rparr>"

definition ConnectData_Serialize :: "ConnectData \<Rightarrow> bytes" where
  "ConnectData_Serialize d =
     le_bytes 4 (ConnectData_ChallengeValue d)"

definition ConnectData_Deserialize :: "ConnectData step" where
  "ConnectData_Deserialize = steps [
     assign ReadUint32 (\<lambda>v d. d\<lparr>ConnectData_ChallengeValue := v\<rparr>)]"

interpretation ConnectData_codec: fixed_codec ConnectData_Serialize ConnectData_Deserialize 4
proof
  fix d x :: ConnectData and r :: bytes
  show "ConnectData_Deserialize d (ConnectData_Serialize x @ r) = (x, None, r)"
    by (simp add: ConnectData_Serialize_def ConnectData_Deserialize_def wire_defs)
  show "length (ConnectData_Serialize x) = 4"
    by (simp add: ConnectData_Serialize_def)
  have "needs (4 + 0) ConnectData_Deserialize"
    unfolding ConnectData_Deserialize_def by (intro needs_intros)
  then show "needs 4 ConnectData_Deserialize" by simp
qed

text \<open>\<open>Accept\<close> has no fields: it is written as no bytes and reading it consumes nothing.\<close>

type_synonym Accept = unit

definition Accept_Serialize :: "Accept \<Rightarrow> bytes" where
  "Accept_Serialize d = []"

definition Accept_Deserialize :: "Accept step" where
  "Accept_Deserialize = steps []"

interpretation Accept_codec: fixed_codec Accept_Serialize Accept_Deserialize 0
  by unfold_locales (simp_all add: Accept_Serialize_def Accept_Deserialize_def needs_steps_Nil)

text \<open>\<open>Datagram\<close> has no fields: it is written as no bytes and reading it consumes nothing.\<close>

type_synonym Datagram = unit

definition Datagram_Serialize :: "Datagram \<Rightarrow> bytes" where
  "Datagram_Serialize d = []"

definition Datagram_Deserialize :: "Datagram step" where
  "Datagram_Deserialize = steps []"

interpretation Datagram_codec: fixed_codec Datagram_Serialize Datagram_Deserialize 0
  by unfold_locales (simp_all add: Datagram_Serialize_def Datagram_Deserialize_def needs_steps_Nil)

text \<open>\<open>Disconnect\<close> has no fields: it is written as no bytes and reading it consumes nothing.\<close>

type_synonym Disconnect = unit

definition Disconnect_Serialize :: "Disconnect \<Rightarrow> bytes" where
  "Disconnect_Serialize d = []"

definition Disconnect_Deserialize :: "Disconnect step" where
  "Disconnect_Deserialize = steps []"

interpretation Disconnect_codec: fixed_codec Disconnect_Serialize Disconnect_Deserialize 0
  by unfold_locales (simp_all add: Disconnect_Serialize_def Disconnect_Deserialize_def needs_steps_Nil)

text \<open>\<open>MsgClientJustStrings\<close> has no fields: it is written as no bytes and reading it consumes nothing.\<close>

type_synonym MsgClientJustStrings = unit

definition MsgClientJustStrings_Serialize :: "MsgClientJustStrings \<Rightarrow> bytes" where
  "MsgClientJustStrings_Serialize d = []"

definition MsgClientJustStrings_Deserialize :: "MsgClientJustStrings step" where
  "MsgClientJustStrings_Deserialize = steps []"

interpretation MsgClientJustStrings_codec: fixed_codec MsgClientJustStrings_Serialize MsgClientJustStrings_Deserialize 0
  by unfold_locales (simp_all add: MsgClientJustStrings_Serialize_def MsgClientJustStrings_Deserialize_def needs_steps_Nil)

record MsgClientGenericResponse =
  MsgClientGenericResponse_Result :: EResult

definition NewMsgClientGenericResponse :: MsgClientGenericResponse where
  "NewMsgClientGenericResponse = \<lparr>
     MsgClientGenericResponse_Result = 0\<rparr>"

definition MsgClientGenericResponse_Serialize :: "MsgClientGenericResponse \<Rightarrow> bytes" where
  "MsgClientGenericResponse_Serialize d =
     le_bytes 4 (MsgClientGenericResponse_Result d)"

definition MsgClientGenericResponse_Deserialize :: "MsgClientGenericResponse step" where
  "MsgClientGenericResponse_Deserialize = steps [
     assign ReadInt32 (\<lambda>v d. d\<lparr>MsgClientGenericResponse_Result := v\<rparr>)]"

definition MsgClientGenericResponse_GetEMsg :: "MsgClientGenericResponse \<Rightarrow> i32" where
  "MsgClientGenericResponse_GetEMsg d = EMsg_Invalid"

interpretation MsgClientGenericResponse_codec: fixed_codec MsgClientGenericResponse_Serialize MsgClientGenericResponse_Deserialize 4
proof
  fix d x :: MsgClientGenericResponse and r :: bytes
  show "MsgClientGenericResponse_Deserialize d (MsgClientGenericResponse_Serialize x @ r) = (x, None, r)"
    by (simp add: MsgClientGenericResponse_Serialize_def MsgClientGenericResponse_Deserialize_def wire_defs)
  show "length (MsgClientGenericResponse_Serialize x) = 4"
    by (simp add: MsgClientGenericResponse_Serialize_def)
  have "needs (4 + 0) MsgClientGenericResponse_Deserialize"
    unfolding MsgClientGenericResponse_Deserialize_def by (intro needs_intros)
  then show "needs 4 MsgClientGenericResponse_Deserialize" by simp
qed

record MsgClientNewLoginKey =
  MsgClientNewLoginKey_UniqueID :: u32
  MsgClientNewLoginKey_LoginKey :: bytes

definition NewMsgClientNewLoginKey :: MsgClientNewLoginKey where
  "NewMsgClientNewLoginKey = \<lparr>
     MsgClientNewLoginKey_UniqueID = 0,
     MsgClientNewLoginKey_LoginKey = replicate 20 0\<rparr>"

definition MsgClientNewLoginKey_Serialize :: "MsgClientNewLoginKey \<Rightarrow> bytes" where
  "MsgClientNewLoginKey_Serialize d =
     le_bytes 4 (MsgClientNewLoginKey_UniqueID d) @
     MsgClientNewLoginKey_LoginKey d"

definition MsgClientNewLoginKey_Deserialize :: "MsgClientNewLoginKey step" where
  "MsgClientNewLoginKey_Deserialize = steps [
     assign ReadUint32 (\<lambda>v d. d\<lparr>MsgClientNewLoginKey_UniqueID := v\<rparr>),
     read_slice MsgClientNewLoginKey_LoginKey (\<lambda>v d. d\<lparr>MsgClientNewLoginKey_LoginKey := v\<rparr>)]"

definition MsgClientNewLoginKey_GetEMsg :: "MsgClientNewLoginKey \<Rightarrow> i32" where
  "MsgClientNewLoginKey_GetEMsg d = EMsg_ClientNewLoginKey"

record MsgClientNewLoginKeyAccepted =
  MsgClientNewLoginKeyAccepted_UniqueID :: u32

definition NewMsgClientNewLoginKeyAccepted :: MsgClientNewLoginKeyAccepted where
  "NewMsgClientNewLoginKeyAccepted = \<lparr>
     MsgClientNewLoginKeyAccepted_UniqueID = 0\<rparr>"

definition MsgClientNewLoginKeyAccepted_Serialize :: "MsgClientNewLoginKeyAccepted \<Rightarrow> bytes" where
  "MsgClientNewLoginKeyAccepted_Serialize d =
     le_bytes 4 (MsgClientNewLoginKeyAccepted_UniqueID d)"

definition MsgClientNewLoginKeyAccepted_Deserialize :: "MsgClientNewLoginKeyAccepted step" where
  "MsgClientNewLoginKeyAccepted_Deserialize = steps [
     assign ReadUint32 (\<lambda>v d. d\<lparr>MsgClientNewLoginKeyAccepted_UniqueID := v\<rparr>)]"

definition MsgClientNewLoginKeyAccepted_GetEMsg :: "MsgClientNewLoginKeyAccepted \<Rightarrow> i32" where
  "MsgClientNewLoginKeyAccepted_GetEMsg d = EMsg_ClientNewLoginKeyAccepted"

interpretation MsgClientNewLoginKeyAccepted_codec: fixed_codec MsgClientNewLoginKeyAccepted_Serialize MsgClientNewLoginKeyAccepted_Deserialize 4
proof
  fix d x :: MsgClientNewLoginKeyAccepted and r :: bytes
  show "MsgClientNewLoginKeyAccepted_Deserialize d (MsgClientNewLoginKeyAccepted_Serialize x @ r) = (x, None, r)"
    by (simp add: MsgClientNewLoginKeyAccepted_Serialize_def MsgClientNewLoginKeyAccepted_Deserialize_def wire_defs)
  show "length (MsgClientNewLoginKeyAccepted_Serialize x) = 4"
    by (simp add: MsgClientNewLoginKeyAccepted_Serialize_def)
  have "needs (4 + 0) MsgClientNewLoginKeyAccepted_Deserialize"
    unfolding MsgClientNewLoginKeyAccepted_Deserialize_def by (intro needs_intros)
  then show "needs 4 MsgClientNewLoginKeyAccepted_Deserialize" by simp
qed

text \<open>\<open>MsgClientLogon\<close> has no fields: it is written as no bytes and reading it consumes nothing.\<close>

type_synonym MsgClientLogon = unit

definition MsgClientLogon_Serialize :: "MsgClientLogon \<Rightarrow> bytes" where
  "MsgClientLogon_Serialize d = []"

definition MsgClientLogon_Deserialize :: "MsgClientLogon step" where
  "MsgClientLogon_Deserialize = steps []"

interpretation MsgClientLogon_codec: fixed_codec MsgClientLogon_Serialize MsgClientLogon_Deserialize 0
  by unfold_locales (simp_all add: MsgClientLogon_Serialize_def MsgClientLogon_Deserialize_def needs_steps_Nil)

record MsgClientVACBanStatus =
  MsgClientVACBanStatus_NumBans :: u32

definition NewMsgClientVACBanStatus :: MsgClientVACBanStatus where
  "NewMsgClientVACBanStatus = \<lparr>
     MsgClientVACBanStatus_NumBans = 0\<rparr>"

definition MsgClientVACBanStatus_Serialize :: "MsgClientVACBanStatus \<Rightarrow> bytes" where
  "MsgClientVACBanStatus_Serialize d =
     le_bytes 4 (MsgClientVACBanStatus_NumBans d)"

definition MsgClientVACBanStatus_Deserialize :: "MsgClientVACBanStatus step" where
  "MsgClientVACBanStatus_Deserialize = steps [
     assign ReadUint32 (\<lambda>v d. d\<lparr>MsgClientVACBanStatus_NumBans := v\<rparr>)]"

definition MsgClientVACBanStatus_GetEMsg :: "MsgClientVACBanStatus \<Rightarrow> i32" where
  "MsgClientVACBanStatus_GetEMsg d = EMsg_ClientVACBanStatus"

interpretation MsgClientVACBanStatus_codec: fixed_codec MsgClientVACBanStatus_Serialize MsgClientVACBanStatus_Deserialize 4
proof
  fix d x :: MsgClientVACBanStatus and r :: bytes
  show "MsgClientVACBanStatus_Deserialize d (MsgClientVACBanStatus_Serialize x @ r) = (x, None, r)"
    by (simp add: MsgClientVACBanStatus_Serialize_def MsgClientVACBanStatus_Deserialize_def wire_defs)
  show "length (MsgClientVACBanStatus_Serialize x) = 4"
    by (simp add: MsgClientVACBanStatus_Serialize_def)
  have "needs (4 + 0) MsgClientVACBanStatus_Deserialize"
    unfolding MsgClientVACBanStatus_Deserialize_def by (intro needs_intros)
  then show "needs 4 MsgClientVACBanStatus_Deserialize" by simp
qed

record MsgClientAppUsageEvent =
  MsgClientAppUsageEvent_AppUsageEvent :: EAppUsageEvent
  MsgClientAppUsageEvent_GameID :: u64
  MsgClientAppUsageEvent_Offline :: u16

definition NewMsgClientAppUsageEvent :: MsgClientAppUsageEvent where
  "NewMsgClientAppUsageEvent = \<lparr>
     MsgClientAppUsageEvent_AppUsageEvent = 0,
     MsgClientAppUsageEvent_GameID = 0,
     MsgClientAppUsageEvent_Offline = 0\<rparr>"

definition MsgClientAppUsageEvent_Serialize :: "MsgClientAppUsageEvent \<Rightarrow> bytes" where
  "MsgClientAppUsageEvent_Serialize d =
     le_bytes 4 (MsgClientAppUsageEvent_AppUsageEvent d) @
     le_bytes 8 (MsgClientAppUsageEvent_GameID d) @
     le_bytes 2 (MsgClientAppUsageEvent_Offline d)"

definition MsgClientAppUsageEvent_Deserialize :: "MsgClientAppUsageEvent step" where
  "MsgClientAppUsageEvent_Deserialize = steps [
     assign_ok ReadInt32 (\<lambda>v d. d\<lparr>MsgClientAppUsageEvent_AppUsageEvent := v\<rparr>),
     assign ReadUint64 (\<lambda>v d. d\<lparr>MsgClientAppUsageEvent_GameID := v\<rparr>),
     assign ReadUint16 (\<lambda>v d. d\<lparr>MsgClientAppUsageEvent_Offline := v\<rparr>)]"

definition MsgClientAppUsageEvent_GetEMsg :: "MsgClientAppUsageEvent \<Rightarrow> i32" where
  "MsgClientAppUsageEvent_GetEMsg d = EMsg_ClientAppUsageEvent"

interpretation MsgClientAppUsageEvent_codec: fixed_codec MsgClientAppUsageEvent_Serialize MsgClientAppUsageEvent_Deserialize 14
proof
  fix d x :: MsgClientAppUsageEvent and r :: bytes
  show "MsgClientAppUsageEvent_Deserialize d (MsgClientAppUsageEvent_Serialize x @ r) = (x, None, r)"
    by (simp add: MsgClientAppUsageEvent_Serialize_def MsgClientAppUsageEvent_Deserialize_def wire_defs)
  show "length (MsgClientAppUsageEvent_Serialize x) = 14"
    by (simp add: MsgClientAppUsageEvent_Serialize_def)
  have "needs (4 + (8 + (2 + 0))) MsgClientAppUsageEvent_Deserialize"
    unfolding MsgClientAppUsageEvent_Deserialize_def by (intro needs_intros)
  then show "needs 14 MsgClientAppUsageEvent_Deserialize" by simp
qed

record MsgClientEmailAddrInfo =
  MsgClientEmailAddrInfo_PasswordStrength :: u32
  MsgClientEmailAddrInfo_FlagsAccountSecurityPolicy :: u32
  MsgClientEmailAddrInfo_Validated :: bool

definition NewMsgClientEmailAddrInfo :: MsgClientEmailAddrInfo where
  "NewMsgClientEmailAddrInfo = \<lparr>
     MsgClientEmailAddrInfo_PasswordStrength = 0,
     MsgClientEmailAddrInfo_FlagsAccountSecurityPolicy = 0,
     MsgClientEmailAddrInfo_Validated = False\<rparr>"

definition MsgClientEmailAddrInfo_Serialize :: "MsgClientEmailAddrInfo \<Rightarrow> bytes" where
  "MsgClientEmailAddrInfo_Serialize d =
     le_bytes 4 (MsgClientEmailAddrInfo_PasswordStrength d) @
     le_bytes 4 (MsgClientEmailAddrInfo_FlagsAccountSecurityPolicy d) @
     WriteBool (MsgClientEmailAddrInfo_Validated d)"

definition MsgClientEmailAddrInfo_Deserialize :: "MsgClientEmailAddrInfo step" where
  "MsgClientEmailAddrInfo_Deserialize = steps [
     assign ReadUint32 (\<lambda>v d. d\<lparr>MsgClientEmailAddrInfo_PasswordStrength := v\<rparr>),
     assign ReadUint32 (\<lambda>v d. d\<lparr>MsgClientEmailAddrInfo_FlagsAccountSecurityPolicy := v\<rparr>),
     assign ReadBool (\<lambda>v d. d\<lparr>MsgClientEmailAddrInfo_Validated := v\<rparr>)]"

definition MsgClientEmailAddrInfo_GetEMsg :: "MsgClientEmailAddrInfo \<Rightarrow> i32" where
  "MsgClientEmailAddrInfo_GetEMsg d = EMsg_ClientEmailAddrInfo"

interpretation MsgClientEmailAddrInfo_codec: fixed_codec MsgClientEmailAddrInfo_Serialize MsgClientEmailAddrInfo_Deserialize 9
proof
  fix d x :: MsgClientEmailAddrInfo and r :: bytes
  show "MsgClientEmailAddrInfo_Deserialize d (MsgClientEmailAddrInfo_Serialize x @ r) = (x, None, r)"
    by (simp add: MsgClientEmailAddrInfo_Serialize_def MsgClientEmailAddrInfo_Deserialize_def wire_defs)
  show "length (MsgClientEmailAddrInfo_Serialize x) = 9"
    by (simp add: MsgClientEmailAddrInfo_Serialize_def)
  have "needs (4 + (4 + (1 + 0))) MsgClientEmailAddrInfo_Deserialize"
    unfolding MsgClientEmailAddrInfo_Deserialize_def by (intro needs_intros)
  then show "needs 9 MsgClientEmailAddrInfo_Deserialize" by simp
qed

end
