(* ===== verification/Steamlang_Msgs2.thy ===== *)
theory Steamlang_Msgs2
  imports Rwu Steamlang
begin

text \<open>
  Translated struct by struct: further struct messages of \<open>protocol/steamlang/messages.go\<close>, in the order of the file: game statistics, guest passes, game servers.
  Each struct is a record, its constructor, its \<open>Serialize\<close> and its \<open>Deserialize\<close>, followed by the
  interpretation that shows the pair to be a codec of fixed size.
\<close>

record MsgClientUpdateGuestPassesList =
  MsgClientUpdateGuestPassesList_Result :: EResult
  MsgClientUpdateGuestPassesList_CountGuestPassesToGive :: i32
  MsgClientUpdateGuestPassesList_CountGuestPassesToRedeem :: i32

definition NewMsgClientUpdateGuestPassesList :: MsgClientUpdateGuestPassesList where
  "NewMsgClientUpdateGuestPassesList = \<lparr>
     MsgClientUpdateGuestPassesList_Result = 0,
     MsgClientUpdateGuestPassesList_CountGuestPassesToGive = 0,
     MsgClientUpdateGuestPassesList_CountGuestPassesToRedeem = 0\<rparr>"

definition MsgClientUpdateGuestPassesList_Serialize :: "MsgClientUpdateGuestPassesList \<Rightarrow> bytes" where
  "MsgClientUpdateGuestPassesList_Serialize d =
     le_bytes 4 (MsgClientUpdateGuestPassesList_Result d) @
     le_bytes 4 (MsgClientUpdateGuestPassesList_CountGuestPassesToGive d) @
     le_bytes 4 (MsgClientUpdateGuestPassesList_CountGuestPassesToRedeem d)"

definition MsgClientUpdateGuestPassesList_Deserialize :: "MsgClientUpdateGuestPassesList step" where
  "MsgClientUpdateGuestPassesList_Deserialize = steps [
     assign_ok ReadInt32 (\<lambda>v d. d\<lparr>MsgClientUpdateGuestPassesList_Result := v\<rparr>),
     assign ReadInt32 (\<lambda>v d. d\<lparr>MsgClientUpdateGuestPassesList_CountGuestPassesToGive := v\<rparr>),
     assign ReadInt32 (\<lambda>v d. d\<lparr>MsgClientUpdateGuestPassesList_CountGuestPassesToRedeem := v\<rparr>)]"

definition MsgClientUpdateGuestPassesList_GetEMsg :: "MsgClientUpdateGuestPassesList \<Rightarrow> i32" where
  "MsgClientUpdateGuestPassesList_GetEMsg d = EMsg_ClientUpdateGuestPassesList"

interpretation MsgClientUpdateGuestPassesList_codec: fixed_codec MsgClientUpdateGuestPassesList_Serialize MsgClientUpdateGuestPassesList_Deserialize 12
proof
  fix d x :: MsgClientUpdateGuestPassesList and r :: bytes
  show "MsgClientUpdateGuestPassesList_Deserialize d (MsgClientUpdateGuestPassesList_Serialize x @ r) = (x, None, r)"
    by (simp add: MsgClientUpdateGuestPassesList_Serialize_def MsgClientUpdateGuestPassesList_Deserialize_def wire_defs)
  show "length (MsgClientUpdateGuestPassesList_Serialize x) = 12"
    by (simp add: MsgClientUpdateGuestPassesList_Serialize_def)
  have "needs (4 + (4 + (4 + 0))) MsgClientUpdateGuestPassesList_Deserialize"
    unfolding MsgClientUpdateGuestPassesList_Deserialize_def by (intro needs_intros)
  then show "needs 12 MsgClientUpdateGuestPassesList_Deserialize" by simp
qed

record MsgClientRequestedClientStats =
  MsgClientRequestedClientStats_CountStats :: i32

definition NewMsgClientRequestedClientStats :: MsgClientRequestedClientStats where
  "NewMsgClientRequestedClientStats = \<lparr>
     MsgClientRequestedClientStats_CountStats = 0\<rparr>"

definition MsgClientRequestedClientStats_Serialize :: "MsgClientRequestedClientStats \<Rightarrow> bytes" where
  "MsgClientRequestedClientStats_Serialize d =
     le_bytes 4 (MsgClientRequestedClientStats_CountStats d)"

definition MsgClientRequestedClientStats_Deserialize :: "MsgClientRequestedClientStats step" where
  "MsgClientRequestedClientStats_Deserialize = steps [
     assign ReadInt32 (\<lambda>v d. d\<lparr>MsgClientRequestedClientStats_CountStats := v\<rparr>)]"

definition MsgClientRequestedClientStats_GetEMsg :: "MsgClientRequestedClientStats \<Rightarrow> i32" where
  "MsgClientRequestedClientStats_GetEMsg d = EMsg_ClientRequestedClientStats"

interpretation MsgClientRequestedClientStats_codec: fixed_codec MsgClientRequestedClientStats_Serialize MsgClientRequestedClientStats_Deserialize 4
proof
  fix d x :: MsgClientRequestedClientStats and r :: bytes
  show "MsgClientRequestedClientStats_Deserialize d (MsgClientRequestedClientStats_Serialize x @ r) = (x, None, r)"
    by (simp add: MsgClientRequestedClientStats_Serialize_def MsgClientRequestedClientStats_Deserialize_def wire_defs)
  show "length (MsgClientRequestedClientStats_Serialize x) = 4"
    by (simp add: MsgClientRequestedClientStats_Serialize_def)
  have "needs (4 + 0) MsgClientRequestedClientStats_Deserialize"
    unfolding MsgClientRequestedClientStats_Deserialize_def by (intro needs_intros)
  then show "needs 4 MsgClientRequestedClientStats_Deserialize" by simp
qed

record MsgClientP2PIntroducerMessage =
  MsgClientP2PIntroducerMessage_SteamID :: steamid
  MsgClientP2PIntroducerMessage_RoutingType :: EIntroducerRouting
  MsgClientP2PIntroducerMessage_Data :: bytes
  MsgClientP2PIntroducerMessage_DataLen :: u32

definition NewMsgClientP2PIntroducerMessage :: MsgClientP2PIntroducerMessage where
  "NewMsgClientP2PIntroducerMessage = \<lparr>
     MsgClientP2PIntroducerMessage_SteamID = 0,
     MsgClientP2PIntroducerMessage_RoutingType = 0,
     MsgClientP2PIntroducerMessage_Data = replicate 1450 0,
     MsgClientP2PIntroducerMessage_DataLen = 0\<rparr>"

definition MsgClientP2PIntroducerMessage_Serialize :: "MsgClientP2PIntroducerMessage \<Rightarrow> bytes" where
  "MsgClientP2PIntroducerMessage_Serialize d =
     le_bytes 8 (MsgClientP2PIntroducerMessage_SteamID d) @
     le_bytes 4 (MsgClientP2PIntroducerMessage_RoutingType d) @
     MsgClientP2PIntroducerMessage_Data d @
     le_bytes 4 (MsgClientP2PIntroducerMessage_DataLen d)"

definition MsgClientP2PIntroducerMessage_Deserialize :: "MsgClientP2PIntroducerMessage step" where
  "MsgClientP2PIntroducerMessage_Deserialize = steps [
     assign_ok ReadUint64 (\<lambda>v d. d\<lparr>MsgClientP2PIntroducerMessage_SteamID := v\<rparr>),
     assign_ok ReadInt32 (\<lambda>v d. d\<lparr>MsgClientP2PIntroducerMessage_RoutingType := v\<rparr>),
     read_slice MsgClientP2PIntroducerMessage_Data (\<lambda>v d. d\<lparr>MsgClientP2PIntroducerMessage_Data := v\<rparr>),
     assign ReadUint32 (\<lambda>v d. d\<lparr>MsgClientP2PIntroducerMessage_DataLen := v\<rparr>)]"

definition MsgClientP2PIntroducerMessage_GetEMsg :: "MsgClientP2PIntroducerMessage \<Rightarrow> i32" where
  "MsgClientP2PIntroducerMessage_GetEMsg d = EMsg_ClientP2PIntroducerMessage"

record MsgClientOGSBeginSession =
  MsgClientOGSBeginSession_AccountType :: u8
  MsgClientOGSBeginSession_AccountId :: steamid
  MsgClientOGSBeginSession_AppId :: u32
  MsgClientOGSBeginSession_TimeStarted :: u32

definition NewMsgClientOGSBeginSession :: MsgClientOGSBeginSession where
  "NewMsgClientOGSBeginSession = \<lparr>
     MsgClientOGSBeginSession_AccountType = 0,
     MsgClientOGSBeginSession_AccountId = 0,
     MsgClientOGSBeginSession_AppId = 0,
     MsgClientOGSBeginSession_TimeStarted = 0\<rparr>"

definition MsgClientOGSBeginSession_Serialize :: "MsgClientOGSBeginSession \<Rightarrow> bytes" where
  "MsgClientOGSBeginSession_Serialize d =
     le_bytes 1 (MsgClientOGSBeginSession_AccountType d) @
     le_bytes 8 (MsgClientOGSBeginSession_AccountId d) @
     le_bytes 4 (MsgClientOGSBeginSession_AppId d) @
     le_bytes 4 (MsgClientOGSBeginSession_TimeStarted d)"

definition MsgClientOGSBeginSession_Deserialize :: "MsgClientOGSBeginSession step" where
  "MsgClientOGSBeginSession_Deserialize = steps [
     assign ReadUint8 (\<lambda>v d. d\<lparr>MsgClientOGSBeginSession_AccountType := v\<rparr>),
     assign_ok ReadUint64 (\<lambda>v d. d\<lparr>MsgClientOGSBeginSession_AccountId := v\<rparr>),
     assign ReadUint32 (\<lambda>v d. d\<lparr>MsgClientOGSBeginSession_AppId := v\<rparr>),
     assign ReadUint32 (\<lambda>v d. d\<lparr>MsgClientOGSBeginSession_TimeStarted := v\<rparr>)]"

definition MsgClientOGSBeginSession_GetEMsg :: "MsgClientOGSBeginSession \<Rightarrow> i32" where
  "MsgClientOGSBeginSession_GetEMsg d = EMsg_ClientOGSBeginSession"

interpretation MsgClientOGSBeginSession_codec: fixed_codec MsgClientOGSBeginSession_Serialize MsgClientOGSBeginSession_Deserialize 17
proof
  fix d x :: MsgClientOGSBeginSession and r :: bytes
  show "MsgClientOGSBeginSession_Deserialize d (MsgClientOGSBeginSession_Serialize x @ r) = (x, None, r)"
    by (simp add: MsgClientOGSBeginSession_Serialize_def MsgClientOGSBeginSession_Deserialize_def wire_defs)
  show "length (MsgClientOGSBeginSession_Serialize x) = 17"
    by (simp add: MsgClientOGSBeginSession_Serialize_def)
  have "needs (1 + (8 + (4 + (4 + 0)))) MsgClientOGSBeginSession_Deserialize"
    unfolding MsgClientOGSBeginSession_Deserialize_def by (intro needs_intros)
  then show "needs 17 MsgClientOGSBeginSession_Deserialize" by simp
qed

record MsgClientOGSBeginSessionResponse =
  MsgClientOGSBeginSessionResponse_Result :: EResult
  MsgClientOGSBeginSessionResponse_CollectingAny :: bool
  MsgClientOGSBeginSessionResponse_CollectingDetails :: bool
  MsgClientOGSBeginSessionResponse_SessionId :: u64

definition NewMsgClientOGSBeginSessionResponse :: MsgClientOGSBeginSessionResponse where
  "NewMsgClientOGSBeginSessionResponse = \<lparr>
     MsgClientOGSBeginSessionResponse_Result = 0,
     MsgClientOGSBeginSessionResponse_CollectingAny = False,
     MsgClientOGSBeginSessionResponse_CollectingDetails = False,
     MsgClientOGSBeginSessionResponse_SessionId = 0\<rparr>"

definition MsgClientOGSBeginSessionResponse_Serialize :: "MsgClientOGSBeginSessionResponse \<Rightarrow> bytes" where
  "MsgClientOGSBeginSessionResponse_Serialize d =
     le_bytes 4 (MsgClientOGSBeginSessionResponse_Result d) @
     WriteBool (MsgClientOGSBeginSessionResponse_CollectingAny d) @
     WriteBool (MsgClientOGSBeginSessionResponse_CollectingDetails d) @
     le_bytes 8 (MsgClientOGSBeginSessionResponse_SessionId d)"

definition MsgClientOGSBeginSessionResponse_Deserialize :: "MsgClientOGSBeginSessionResponse step" where
  "MsgClientOGSBeginSessionResponse_Deserialize = steps [
     assign_ok ReadInt32 (\<lambda>v d. d\<lparr>MsgClientOGSBeginSessionResponse_Result := v\<rparr>),
     assign ReadBool (\<lambda>v d. d\<lparr>MsgClientOGSBeginSessionResponse_CollectingAny := v\<rparr>),
     assign ReadBool (\<lambda>v d. d\<lparr>MsgClientOGSBeginSessionResponse_CollectingDetails := v\<rparr>),
     assign ReadUint64 (\<lambda>v d. d\<lparr>MsgClientOGSBeginSessionResponse_SessionId := v\<rparr>)]"

definition MsgClientOGSBeginSessionResponse_GetEMsg :: "MsgClientOGSBeginSessionResponse \<Rightarrow> i32" where
  "MsgClientOGSBeginSessionResponse_GetEMsg d = EMsg_ClientOGSBeginSessionResponse"

interpretation MsgClientOGSBeginSessionResponse_codec: fixed_codec MsgClientOGSBeginSessionResponse_Serialize MsgClientOGSBeginSessionResponse_Deserialize 14
proof
  fix d x :: MsgClientOGSBeginSessionResponse and r :: bytes
  show "MsgClientOGSBeginSessionResponse_Deserialize d (MsgClientOGSBeginSessionResponse_Serialize x @ r) = (x, None, r)"
    by (simp add: MsgClientOGSBeginSessionResponse_Serialize_def MsgClientOGSBeginSessionResponse_Deserialize_def wire_defs)
  show "length (MsgClientOGSBeginSessionResponse_Serialize x) = 14"
    by (simp add: MsgClientOGSBeginSessionResponse_Serialize_def)
  have "needs (4 + (1 + (1 + (8 + 0)))) MsgClientOGSBeginSessionResponse_Deserialize"
    unfolding MsgClientOGSBeginSessionResponse_Deserialize_def by (intro needs_intros)
  then show "needs 14 MsgClientOGSBeginSessionResponse_Deserialize" by simp
qed

record MsgClientOGSEndSession =
  MsgClientOGSEndSession_SessionId :: u64
  MsgClientOGSEndSession_TimeEnded :: u32
  MsgClientOGSEndSession_ReasonCode :: i32
  MsgClientOGSEndSession_CountAttributes :: i32

definition NewMsgClientOGSEndSession :: MsgClientOGSEndSession where
  "NewMsgClientOGSEndSession = \<lparr>
     MsgClientOGSEndSession_SessionId = 0,
     MsgClientOGSEndSession_TimeEnded = 0,
     MsgClientOGSEndSession_ReasonCode = 0,
     MsgClientOGSEndSession_CountAttributes = 0\<rparr>"

definition MsgClientOGSEndSession_Serialize :: "MsgClientOGSEndSession \<Rightarrow> bytes" where
  "MsgClientOGSEndSession_Serialize d =
     le_bytes 8 (MsgClientOGSEndSession_SessionId d) @
     le_bytes 4 (MsgClientOGSEndSession_TimeEnded d) @
     le_bytes 4 (MsgClientOGSEndSession_ReasonCode d) @
     le_bytes 4 (MsgClientOGSEndSession_CountAttributes d)"

definition MsgClientOGSEndSession_Deserialize :: "MsgClientOGSEndSession step" where
  "MsgClientOGSEndSession_Deserialize = steps [
     assign ReadUint64 (\<lambda>v d. d\<lparr>MsgClientOGSEndSession_SessionId := v\<rparr>),
     assign ReadUint32 (\<lambda>v d. d\<lparr>MsgClientOGSEndSession_TimeEnded := v\<rparr>),
     assign ReadInt32 (\<lambda>v d. d\<lparr>MsgClientOGSEndSession_ReasonCode := v\<rparr>),
     assign ReadInt32 (\<lambda>v d. d\<lparr>MsgClientOGSEndSession_CountAttributes := v\<rparr>)]"

definition MsgClientOGSEndSession_GetEMsg :: "MsgClientOGSEndSession \<Rightarrow> i32" where
  "MsgClientOGSEndSession_GetEMsg d = EMsg_ClientOGSEndSession"

interpretation MsgClientOGSEndSession_codec: fixed_codec MsgClientOGSEndSession_Serialize MsgClientOGSEndSession_Deserialize 20
proof
  fix d x :: MsgClientOGSEndSession and r :: bytes
  show "MsgClientOGSEndSession_Deserialize d (MsgClientOGSEndSession_Serialize x @ r) = (x, None, r)"
    by (simp add: MsgClientOGSEndSession_Serialize_def MsgClientOGSEndSession_Deserialize_def wire_defs)
  show "length (MsgClientOGSEndSession_Serialize x) = 20"
    by (simp add: MsgClientOGSEndSession_Serialize_def)
  have "needs (8 + (4 + (4 + (4 + 0)))) MsgClientOGSEndSession_Deserialize"
    unfolding MsgClientOGSEndSession_Deserialize_def by (intro needs_intros)
  then show "needs 20 MsgClientOGSEndSession_Deserialize" by simp
qed

record MsgClientOGSEndSessionResponse =
  MsgClientOGSEndSessionResponse_Result :: EResult

definition NewMsgClientOGSEndSessionResponse :: MsgClientOGSEndSessionResponse where
  "NewMsgClientOGSEndSessionResponse = \<lparr>
     MsgClientOGSEndSessionResponse_Result = 0\<rparr>"

definition MsgClientOGSEndSessionResponse_Serialize :: "MsgClientOGSEndSessionResponse \<Rightarrow> bytes" where
  "MsgClientOGSEndSessionResponse_Serialize d =
     le_bytes 4 (MsgClientOGSEndSessionResponse_Result d)"

definition MsgClientOGSEndSessionResponse_Deserialize :: "MsgClientOGSEndSessionResponse step" where
  "MsgClientOGSEndSessionResponse_Deserialize = steps [
     assign ReadInt32 (\<lambda>v d. d\<lparr>MsgClientOGSEndSessionResponse_Result := v\<rparr>)]"

definition MsgClientOGSEndSessionResponse_GetEMsg :: "MsgClientOGSEndSessionResponse \<Rightarrow> i32" where
  "MsgClientOGSEndSessionResponse_GetEMsg d = EMsg_ClientOGSEndSessionResponse"

interpretation MsgClientOGSEndSessionResponse_codec: fixed_codec MsgClientOGSEndSessionResponse_Serialize MsgClientOGSEndSessionResponse_Deserialize 4
proof
  fix d x :: MsgClientOGSEndSessionResponse and r :: bytes
  show "MsgClientOGSEndSessionResponse_Deserialize d (MsgClientOGSEndSessionResponse_Serialize x @ r) = (x, None, r)"
    by (simp add: MsgClientOGSEndSessionResponse_Serialize_def MsgClientOGSEndSessionResponse_Deserialize_def wire_defs)
  show "length (MsgClientOGSEndSessionResponse_Serialize x) = 4"
    by (simp add: MsgClientOGSEndSessionResponse_Serialize_def)
  have "needs (4 + 0) MsgClientOGSEndSessionResponse_Deserialize"
    unfolding MsgClientOGSEndSessionResponse_Deserialize_def by (intro needs_intros)
  then show "needs 4 MsgClientOGSEndSessionResponse_Deserialize" by simp
qed

record MsgClientOGSWriteRow =
  MsgClientOGSWriteRow_SessionId :: u64
  MsgClientOGSWriteRow_CountAttributes :: i32

definition NewMsgClientOGSWriteRow :: MsgClientOGSWriteRow where
  "NewMsgClientOGSWriteRow = \<lparr>
     MsgClientOGSWriteRow_SessionId = 0,
     MsgClientOGSWriteRow_CountAttributes = 0\<rparr>"

definition MsgClientOGSWriteRow_Serialize :: "MsgClientOGSWriteRow \<Rightarrow> bytes" where
  "MsgClientOGSWriteRow_Serialize d =
     le_bytes 8 (MsgClientOGSWriteRow_SessionId d) @
     le_bytes 4 (MsgClientOGSWriteRow_CountAttributes d)"

definition MsgClientOGSWriteRow_Deserialize :: "MsgClientOGSWriteRow step" where
  "MsgClientOGSWriteRow_Deserialize = steps [
     assign ReadUint64 (\<lambda>v d. d\<lparr>MsgClientOGSWriteRow_SessionId := v\<rparr>),
     assign ReadInt32 (\<lambda>v d. d\<lparr>MsgClientOGSWriteRow_CountAttributes := v\<rparr>)]"

definition MsgClientOGSWriteRow_GetEMsg :: "MsgClientOGSWriteRow \<Rightarrow> i32" where
  "MsgClientOGSWriteRow_GetEMsg d = EMsg_ClientOGSWriteRow"

interpretation MsgClientOGSWriteRow_codec: fixed_codec MsgClientOGSWriteRow_Serialize MsgClientOGSWriteRow_Deserialize 12
proof
  fix d x :: MsgClientOGSWriteRow and r :: bytes
  show "MsgClientOGSWriteRow_Deserialize d (MsgClientOGSWriteRow_Serialize x @ r) = (x, None, r)"
    by (simp add: MsgClientOGSWriteRow_Serialize_def MsgClientOGSWriteRow_Deserialize_def wire_defs)
  show "length (MsgClientOGSWriteRow_Serialize x) = 12"
    by (simp add: MsgClientOGSWriteRow_Serialize_def)
  have "needs (8 + (4 + 0)) MsgClientOGSWriteRow_Deserialize"
    unfolding MsgClientOGSWriteRow_Deserialize_def by (intro needs_intros)
  then show "needs 12 MsgClientOGSWriteRow_Deserialize" by simp
qed

record MsgClientGetFriendsWhoPlayGame =
  MsgClientGetFriendsWhoPlayGame_GameId :: u64

definition NewMsgClientGetFriendsWhoPlayGame :: MsgClientGetFriendsWhoPlayGame where
  "NewMsgClientGetFriendsWhoPlayGame = \<lparr>
     MsgClientGetFriendsWhoPlayGame_GameId = 0\<rparr>"

definition MsgClientGetFriendsWhoPlayGame_Serialize :: "MsgClientGetFriendsWhoPlayGame \<Rightarrow> bytes" where
  "MsgClientGetFriendsWhoPlayGame_Serialize d =
     le_bytes 8 (MsgClientGetFriendsWhoPlayGame_GameId d)"

definition MsgClientGetFriendsWhoPlayGame_Deserialize :: "MsgClientGetFriendsWhoPlayGame step" where
  "MsgClientGetFriendsWhoPlayGame_Deserialize = steps [
     assign ReadUint64 (\<lambda>v d. d\<lparr>MsgClientGetFriendsWhoPlayGame_GameId := v\<rparr>)]"

definition MsgClientGetFriendsWhoPlayGame_GetEMsg :: "MsgClientGetFriendsWhoPlayGame \<Rightarrow> i32" where
  "MsgClientGetFriendsWhoPlayGame_GetEMsg d = EMsg_ClientGetFriendsWhoPlayGame"

interpretation MsgClientGetFriendsWhoPlayGame_codec: fixed_codec MsgClientGetFriendsWhoPlayGame_Serialize MsgClientGetFriendsWhoPlayGame_Deserialize 8
proof
  fix d x :: MsgClientGetFriendsWhoPlayGame and r :: bytes
  show "MsgClientGetFriendsWhoPlayGame_Deserialize d (MsgClientGetFriendsWhoPlayGame_Serialize x @ r) = (x, None, r)"
    by (simp add: MsgClientGetFriendsWhoPlayGame_Serialize_def MsgClientGetFriendsWhoPlayGame_Deserialize_def wire_defs)
  show "length (MsgClientGetFriendsWhoPlayGame_Serialize x) = 8"
    by (simp add: MsgClientGetFriendsWhoPlayGame_Serialize_def)
  have "needs (8 + 0) MsgClientGetFriendsWhoPlayGame_Deserialize"
    unfolding MsgClientGetFriendsWhoPlayGame_Deserialize_def by (intro needs_intros)
  then show "needs 8 MsgClientGetFriendsWhoPlayGame_Deserialize" by simp
qed

record MsgClientGetFriendsWhoPlayGameResponse =
  MsgClientGetFriendsWhoPlayGameResponse_Result :: EResult
  MsgClientGetFriendsWhoPlayGameResponse_GameId :: u64
  MsgClientGetFriendsWhoPlayGameResponse_CountFriends :: u32

definition NewMsgClientGetFriendsWhoPlayGameResponse :: MsgClientGetFriendsWhoPlayGameResponse where
  "NewMsgClientGetFriendsWhoPlayGameResponse = \<lparr>
     MsgClientGetFriendsWhoPlayGameResponse_Result = 0,
     MsgClientGetFriendsWhoPlayGameResponse_GameId = 0,
     MsgClientGetFriendsWhoPlayGameResponse_CountFriends = 0\<rparr>"

definition MsgClientGetFriendsWhoPlayGameResponse_Serialize :: "MsgClientGetFriendsWhoPlayGameResponse \<Rightarrow> bytes" where
  "MsgClientGetFriendsWhoPlayGameResponse_Serialize d =
     le_bytes 4 (MsgClientGetFriendsWhoPlayGameResponse_Result d) @
     le_bytes 8 (MsgClientGetFriendsWhoPlayGameResponse_GameId d) @
     le_bytes 4 (MsgClientGetFriendsWhoPlayGameResponse_CountFriends d)"

definition MsgClientGetFriendsWhoPlayGameResponse_Deserialize :: "MsgClientGetFriendsWhoPlayGameResponse step" where
  "MsgClientGetFriendsWhoPlayGameResponse_Deserialize = steps [
     assign_ok ReadInt32 (\<lambda>v d. d\<lparr>MsgClientGetFriendsWhoPlayGameResponse_Result := v\<rparr>),
     assign ReadUint64 (\<lambda>v d. d\<lparr>MsgClientGetFriendsWhoPlayGameResponse_GameId := v\<rparr>),
     assign ReadUint32 (\<lambda>v d. d\<lparr>MsgClientGetFriendsWhoPlayGameResponse_CountFriends := v\<rparr>)]"

definition MsgClientGetFriendsWhoPlayGameResponse_GetEMsg :: "MsgClientGetFriendsWhoPlayGameResponse \<Rightarrow> i32" where
  "MsgClientGetFriendsWhoPlayGameResponse_GetEMsg d = EMsg_ClientGetFriendsWhoPlayGameResponse"

interpretation MsgClientGetFriendsWhoPlayGameResponse_codec: fixed_codec MsgClientGetFriendsWhoPlayGameResponse_Serialize MsgClientGetFriendsWhoPlayGameResponse_Deserialize 16
proof
  fix d x :: MsgClientGetFriendsWhoPlayGameResponse and r :: bytes
  show "MsgClientGetFriendsWhoPlayGameResponse_Deserialize d (MsgClientGetFriendsWhoPlayGameResponse_Serialize x @ r) = (x, None, r)"
    by (simp add: MsgClientGetFriendsWhoPlayGameResponse_Serialize_def MsgClientGetFriendsWhoPlayGameResponse_Deserialize_def wire_defs)
  show "length (MsgClientGetFriendsWhoPlayGameResponse_Serialize x) = 16"
    by (simp add: MsgClientGetFriendsWhoPlayGameResponse_Serialize_def)
  have "needs (4 + (8 + (4 + 0))) MsgClientGetFriendsWhoPlayGameResponse_Deserialize"
    unfolding MsgClientGetFriendsWhoPlayGameResponse_Deserialize_def by (intro needs_intros)
  then show "needs 16 MsgClientGetFriendsWhoPlayGameResponse_Deserialize" by simp
qed

record MsgGSPerformHardwareSurvey =
  MsgGSPerformHardwareSurvey_Flags :: u32

definition NewMsgGSPerformHardwareSurvey :: MsgGSPerformHardwareSurvey where
  "NewMsgGSPerformHardwareSurvey = \<lparr>
     MsgGSPerformHardwareSurvey_Flags = 0\<rparr>"

definition MsgGSPerformHardwareSurvey_Serialize :: "MsgGSPerformHardwareSurvey \<Rightarrow> bytes" where
  "MsgGSPerformHardwareSurvey_Serialize d =
     le_bytes 4 (MsgGSPerformHardwareSurvey_Flags d)"

definition MsgGSPerformHardwareSurvey_Deserialize :: "MsgGSPerformHardwareSurvey step" where
  "MsgGSPerformHardwareSurvey_Deserialize = steps [
     assign ReadUint32 (\<lambda>v d. d\<lparr>MsgGSPerformHardwareSurvey_Flags := v\<rparr>)]"

definition MsgGSPerformHardwareSurvey_GetEMsg :: "MsgGSPerformHardwareSurvey \<Rightarrow> i32" where
  "MsgGSPerformHardwareSurvey_GetEMsg d = EMsg_GSPerformHardwareSurvey"

interpretation MsgGSPerformHardwareSurvey_codec: fixed_codec MsgGSPerformHardwareSurvey_Serialize MsgGSPerformHardwareSurvey_Deserialize 4
proof
  fix d x :: MsgGSPerformHardwareSurvey and r :: bytes
  show "MsgGSPerformHardwareSurvey_Deserialize d (MsgGSPerformHardwareSurvey_Serialize x @ r) = (x, None, r)"
    by (simp add: MsgGSPerformHardwareSurvey_Serialize_def MsgGSPerformHardwareSurvey_Deserialize_def wire_defs)
  show "length (MsgGSPerformHardwareSurvey_Serialize x) = 4"
    by (simp add: MsgGSPerformHardwareSurvey_Serialize_def)
  have "needs (4 + 0) MsgGSPerformHardwareSurvey_Deserialize"
    unfolding MsgGSPerformHardwareSurvey_Deserialize_def by (intro needs_intros)
  then show "needs 4 MsgGSPerformHardwareSurvey_Deserialize" by simp
qed

record MsgGSGetPlayStatsResponse =
  MsgGSGetPlayStatsResponse_Result :: EResult
  MsgGSGetPlayStatsResponse_Rank :: i32
  MsgGSGetPlayStatsResponse_LifetimeConnects :: u32
  MsgGSGetPlayStatsResponse_LifetimeMinutesPlayed :: u32

definition NewMsgGSGetPlayStatsResponse :: MsgGSGetPlayStatsResponse where
  "NewMsgGSGetPlayStatsResponse = \<lparr>
     MsgGSGetPlayStatsResponse_Result = 0,
     MsgGSGetPlayStatsResponse_Rank = 0,
     MsgGSGetPlayStatsResponse_LifetimeConnects = 0,
     MsgGSGetPlayStatsResponse_LifetimeMinutesPlayed = 0\<rparr>"

definition MsgGSGetPlayStatsResponse_Serialize :: "MsgGSGetPlayStatsResponse \<Rightarrow> bytes" where
  "MsgGSGetPlayStatsResponse_Serialize d =
     le_bytes 4 (MsgGSGetPlayStatsResponse_Result d) @
     le_bytes 4 (MsgGSGetPlayStatsResponse_Rank d) @
     le_bytes 4 (MsgGSGetPlayStatsResponse_LifetimeConnects d) @
     le_bytes 4 (MsgGSGetPlayStatsResponse_LifetimeMinutesPlayed d)"

definition MsgGSGetPlayStatsResponse_Deserialize :: "MsgGSGetPlayStatsResponse step" where
  "MsgGSGetPlayStatsResponse_Deserialize = steps [
     assign_ok ReadInt32 (\<lambda>v d. d\<lparr>MsgGSGetPlayStatsResponse_Result := v\<rparr>),
     assign ReadInt32 (\<lambda>v d. d\<lparr>MsgGSGetPlayStatsResponse_Rank := v\<rparr>),
     assign ReadUint32 (\<lambda>v d. d\<lparr>MsgGSGetPlayStatsResponse_LifetimeConnects := v\<rparr>),
     assign ReadUint32 (\<lambda>v d. d\<lparr>MsgGSGetPlayStatsResponse_LifetimeMinutesPlayed := v\<rparr>)]"

definition MsgGSGetPlayStatsResponse_GetEMsg :: "MsgGSGetPlayStatsResponse \<Rightarrow> i32" where
  "MsgGSGetPlayStatsResponse_GetEMsg d = EMsg_GSGetPlayStatsResponse"

interpretation MsgGSGetPlayStatsResponse_codec: fixed_codec MsgGSGetPlayStatsResponse_Serialize MsgGSGetPlayStatsResponse_Deserialize 16
proof
  fix d x :: MsgGSGetPlayStatsResponse and r :: bytes
  show "MsgGSGetPlayStatsResponse_Deserialize d (MsgGSGetPlayStatsResponse_Serialize x @ r) = (x, None, r)"
    by (simp add: MsgGSGetPlayStatsResponse_Serialize_def MsgGSGetPlayStatsResponse_Deserialize_def wire_defs)
  show "length (MsgGSGetPlayStatsResponse_Serialize x) = 16"
    by (simp add: MsgGSGetPlayStatsResponse_Serialize_def)
  have "needs (4 + (4 + (4 + (4 + 0)))) MsgGSGetPlayStatsResponse_Deserialize"
    unfolding MsgGSGetPlayStatsResponse_Deserialize_def by (intro needs_intros)
  then show "needs 16 MsgGSGetPlayStatsResponse_Deserialize" by simp
qed

record MsgGSGetReputationResponse =
  MsgGSGetReputationResponse_Result :: EResult
  MsgGSGetReputationResponse_ReputationScore :: u32
  MsgGSGetReputationResponse_Banned :: bool
  MsgGSGetReputationResponse_BannedIp :: u32
  MsgGSGetReputationResponse_BannedPort :: u16
  MsgGSGetReputationResponse_BannedGameId :: u64
  MsgGSGetReputationResponse_TimeBanExpires :: u32

definition NewMsgGSGetReputationResponse :: MsgGSGetReputationResponse where
  "NewMsgGSGetReputationResponse = \<lparr>
     MsgGSGetReputationResponse_Result = 0,
     MsgGSGetReputationResponse_ReputationScore = 0,
     MsgGSGetReputationResponse_Banned = False,
     MsgGSGetReputationResponse_BannedIp = 0,
     MsgGSGetReputationResponse_BannedPort = 0,
     MsgGSGetReputationResponse_BannedGameId = 0,
     MsgGSGetReputationResponse_TimeBanExpires = 0\<rparr>"

definition MsgGSGetReputationResponse_Serialize :: "MsgGSGetReputationResponse \<Rightarrow> bytes" where
  "MsgGSGetReputationResponse_Serialize d =
     le_bytes 4 (MsgGSGetReputationResponse_Result d) @
     le_bytes 4 (MsgGSGetReputationResponse_ReputationScore d) @
     WriteBool (MsgGSGetReputationResponse_Banned d) @
     le_bytes 4 (MsgGSGetReputationResponse_BannedIp d) @
     le_bytes 2 (MsgGSGetReputationResponse_BannedPort d) @
     le_bytes 8 (MsgGSGetReputationResponse_BannedGameId d) @
     le_bytes 4 (MsgGSGetReputationResponse_TimeBanExpires d)"

definition MsgGSGetReputationResponse_Deserialize :: "MsgGSGetReputationResponse step" where
  "MsgGSGetReputationResponse_Deserialize = steps [
     assign_ok ReadInt32 (\<lambda>v d. d\<lparr>MsgGSGetReputationResponse_Result := v\<rparr>),
     assign ReadUint32 (\<lambda>v d. d\<lparr>MsgGSGetReputationResponse_ReputationScore := v\<rparr>),
     assign ReadBool (\<lambda>v d. d\<lparr>MsgGSGetReputationResponse_Banned := v\<rparr>),
     assign ReadUint32 (\<lambda>v d. d\<lparr>MsgGSGetReputationResponse_BannedIp := v\<rparr>),
     assign ReadUint16 (\<lambda>v d. d\<lparr>MsgGSGetReputationResponse_BannedPort := v\<rparr>),
     assign ReadUint64 (\<lambda>v d. d\<lparr>MsgGSGetReputationResponse_BannedGameId := v\<rparr>),
     assign ReadUint32 (\<lambda>v d. d\<lparr>MsgGSGetReputationResponse_TimeBanExpires := v\<rparr>)]"

definition MsgGSGetReputationResponse_GetEMsg :: "MsgGSGetReputationResponse \<Rightarrow> i32" where
  "MsgGSGetReputationResponse_GetEMsg d = EMsg_GSGetReputationResponse"

interpretation MsgGSGetReputationResponse_codec: fixed_codec MsgGSGetReputationResponse_Serialize MsgGSGetReputationResponse_Deserialize 27
proof
  fix d x :: MsgGSGetReputationResponse and r :: bytes
  show "MsgGSGetReputationResponse_Deserialize d (MsgGSGetReputationResponse_Serialize x @ r) = (x, None, r)"
    by (simp add: MsgGSGetReputationResponse_Serialize_def MsgGSGetReputationResponse_Deserialize_def wire_defs)
  show "length (MsgGSGetReputationResponse_Serialize x) = 27"
    by (simp add: MsgGSGetReputationResponse_Serialize_def)
  have "needs (4 + (4 + (1 + (4 + (2 + (8 + (4 + 0))))))) MsgGSGetReputationResponse_Deserialize"
    unfolding MsgGSGetReputationResponse_Deserialize_def by (intro needs_intros)
  then show "needs 27 MsgGSGetReputationResponse_Deserialize" by simp
qed

record MsgGSDeny =
  MsgGSDeny_SteamId :: steamid
  MsgGSDeny_DenyReason :: EDenyReason

definition NewMsgGSDeny :: MsgGSDeny where
  "NewMsgGSDeny = \<lparr>
     MsgGSDeny_SteamId = 0,
     MsgGSDeny_DenyReason = 0\<rparr>"

definition MsgGSDeny_Serialize :: "MsgGSDeny \<Rightarrow> bytes" where
  "MsgGSDeny_Serialize d =
     le_bytes 8 (MsgGSDeny_SteamId d) @
     le_bytes 4 (MsgGSDeny_DenyReason d)"

definition MsgGSDeny_Deserialize :: "MsgGSDeny step" where
  "MsgGSDeny_Deserialize = steps [
     assign_ok ReadUint64 (\<lambda>v d. d\<lparr>MsgGSDeny_SteamId := v\<rparr>),
     assign ReadInt32 (\<lambda>v d. d\<lparr>MsgGSDeny_DenyReason := v\<rparr>)]"

definition MsgGSDeny_GetEMsg :: "MsgGSDeny \<Rightarrow> i32" where
  "MsgGSDeny_GetEMsg d = EMsg_GSDeny"

interpretation MsgGSDeny_codec: fixed_codec MsgGSDeny_Serialize MsgGSDeny_Deserialize 12
proof
  fix d x :: MsgGSDeny and r :: bytes
  show "MsgGSDeny_Deserialize d (MsgGSDeny_Serialize x @ r) = (x, None, r)"
    by (simp add: MsgGSDeny_Serialize_def MsgGSDeny_Deserialize_def wire_defs)
  show "length (MsgGSDeny_Serialize x) = 12"
    by (simp add: MsgGSDeny_Serialize_def)
  have "needs (8 + (4 + 0)) MsgGSDeny_Deserialize"
    unfolding MsgGSDeny_Deserialize_def by (intro needs_intros)
  then show "needs 12 MsgGSDeny_Deserialize" by simp
qed

end
