(* ===== verification/Steamlang_Msgs3.thy ===== *)
theory Steamlang_Msgs3
  imports Rwu Steamlang
begin

text \<open>
  Translated struct by struct: further struct messages of \<open>protocol/steamlang/messages.go\<close>, in the order of the file: groups, chat creation, marketing.
  Each struct is a record, its constructor, its \<open>Serialize\<close> and its \<open>Deserialize\<close>, followed by the
  interpretation that shows the pair to be a codec of fixed size.
\<close>

record MsgGSApprove =
  MsgGSApprove_SteamId :: steamid

definition NewMsgGSApprove :: MsgGSApprove where
  "NewMsgGSApprove = \<lparr>
     MsgGSApprove_SteamId = 0\<rparr>"

definition MsgGSApprove_Serialize :: "MsgGSApprove \<Rightarrow> bytes" where
  "MsgGSApprove_Serialize d =
     le_bytes 8 (MsgGSApprove_SteamId d)"

definition MsgGSApprove_Deserialize :: "MsgGSApprove step" where
  "MsgGSApprove_Deserialize = steps [
     assign_ok ReadUint64 (\<lambda>v d. d\<lparr>MsgGSApprove_SteamId := v\<rparr>)]"

definition MsgGSApprove_GetEMsg :: "MsgGSApprove \<Rightarrow> i32" where
  "MsgGSApprove_GetEMsg d = EMsg_GSApprove"

interpretation MsgGSApprove_codec: fixed_codec MsgGSApprove_Serialize MsgGSApprove_Deserialize 8
proof
  fix d x :: MsgGSApprove and r :: bytes
  show "MsgGSApprove_Deserialize d (MsgGSApprove_Serialize x @ r) = (x, None, r)"
    by (simp add: MsgGSApprove_Serialize_def MsgGSApprove_Deserialize_def wire_defs)
  show "length (MsgGSApprove_Serialize x) = 8"
    by (simp add: MsgGSApprove_Serialize_def)
  have "needs (8 + 0) MsgGSApprove_Deserialize"
    unfolding MsgGSApprove_Deserialize_def by (intro needs_intros)
  then show "needs 8 MsgGSApprove_Deserialize" by simp
qed

record MsgGSKick =
  MsgGSKick_SteamId :: steamid
  MsgGSKick_DenyReason :: EDenyReason
  MsgGSKick_WaitTilMapChange :: i32

definition NewMsgGSKick :: MsgGSKick where
  "NewMsgGSKick = \<lparr>
     MsgGSKick_SteamId = 0,
     MsgGSKick_DenyReason = 0,
     MsgGSKick_WaitTilMapChange = 0\<rparr>"

definition MsgGSKick_Serialize :: "MsgGSKick \<Rightarrow> bytes" where
  "MsgGSKick_Serialize d =
     le_bytes 8 (MsgGSKick_SteamId d) @
     le_bytes 4 (MsgGSKick_DenyReason d) @
     le_bytes 4 (MsgGSKick_WaitTilMapChange d)"

definition MsgGSKick_Deserialize :: "MsgGSKick step" where
  "MsgGSKick_Deserialize = steps [
     assign_ok ReadUint64 (\<lambda>v d. d\<lparr>MsgGSKick_SteamId := v\<rparr>),
     assign_ok ReadInt32 (\<lambda>v d. d\<lparr>MsgGSKick_DenyReason := v\<rparr>),
     assign ReadInt32 (\<lambda>v d. d\<lparr>MsgGSKick_WaitTilMapChange := v\<rparr>)]"

definition MsgGSKick_GetEMsg :: "MsgGSKick \<Rightarrow> i32" where
  "MsgGSKick_GetEMsg d = EMsg_GSKick"

interpretation MsgGSKick_codec: fixed_codec MsgGSKick_Serialize MsgGSKick_Deserialize 16
proof
  fix d x :: MsgGSKick and r :: bytes
  show "MsgGSKick_Deserialize d (MsgGSKick_Serialize x @ r) = (x, None, r)"
    by (simp add: MsgGSKick_Serialize_def MsgGSKick_Deserialize_def wire_defs)
  show "length (MsgGSKick_Serialize x) = 16"
    by (simp add: MsgGSKick_Serialize_def)
  have "needs (8 + (4 + (4 + 0))) MsgGSKick_Deserialize"
    unfolding MsgGSKick_Deserialize_def by (intro needs_intros)
  then show "needs 16 MsgGSKick_Deserialize" by simp
qed

record MsgGSGetUserGroupStatus =
  MsgGSGetUserGroupStatus_SteamIdUser :: steamid
  MsgGSGetUserGroupStatus_SteamIdGroup :: steamid

definition NewMsgGSGetUserGroupStatus :: MsgGSGetUserGroupStatus where
  "NewMsgGSGetUserGroupStatus = \<lparr>
     MsgGSGetUserGroupStatus_SteamIdUser = 0,
     MsgGSGetUserGroupStatus_SteamIdGroup = 0\<rparr>"

definition MsgGSGetUserGroupStatus_Serialize :: "MsgGSGetUserGroupStatus \<Rightarrow> bytes" where
  "MsgGSGetUserGroupStatus_Serialize d =
     le_bytes 8 (MsgGSGetUserGroupStatus_SteamIdUser d) @
     le_bytes 8 (MsgGSGetUserGroupStatus_SteamIdGroup d)"

definition MsgGSGetUserGroupStatus_Deserialize :: "MsgGSGetUserGroupStatus step" where
  "MsgGSGetUserGroupStatus_Deserialize = steps [
     assign_ok ReadUint64 (\<lambda>v d. d\<lparr>MsgGSGetUserGroupStatus_SteamIdUser := v\<rparr>),
     assign_ok ReadUint64 (\<lambda>v d. d\<lparr>MsgGSGetUserGroupStatus_SteamIdGroup := v\<rparr>)]"

definition MsgGSGetUserGroupStatus_GetEMsg :: "MsgGSGetUserGroupStatus \<Rightarrow> i32" where
  "MsgGSGetUserGroupStatus_GetEMsg d = EMsg_GSGetUserGroupStatus"

interpretation MsgGSGetUserGroupStatus_codec: fixed_codec MsgGSGetUserGroupStatus_Serialize MsgGSGetUserGroupStatus_Deserialize 16
proof
  fix d x :: MsgGSGetUserGroupStatus and r :: bytes
  show "MsgGSGetUserGroupStatus_Deserialize d (MsgGSGetUserGroupStatus_Serialize x @ r) = (x, None, r)"
    by (simp add: MsgGSGetUserGroupStatus_Serialize_def MsgGSGetUserGroupStatus_Deserialize_def wire_defs)
  show "length (MsgGSGetUserGroupStatus_Serialize x) = 16"
    by (simp add: MsgGSGetUserGroupStatus_Serialize_def)
  have "needs (8 + (8 + 0)) MsgGSGetUserGroupStatus_Deserialize"
    unfolding MsgGSGetUserGroupStatus_Deserialize_def by (intro needs_intros)
  then show "needs 16 MsgGSGetUserGroupStatus_Deserialize" by simp
qed

record MsgGSGetUserGroupStatusResponse =
  MsgGSGetUserGroupStatusResponse_SteamIdUser :: steamid
  MsgGSGetUserGroupStatusResponse_SteamIdGroup :: steamid
  MsgGSGetUserGroupStatusResponse_ClanRelationship :: EClanRelationship
  MsgGSGetUserGroupStatusResponse_ClanRank :: EClanRank

definition NewMsgGSGetUserGroupStatusResponse :: MsgGSGetUserGroupStatusResponse where
  "NewMsgGSGetUserGroupStatusResponse = \<lparr>
     MsgGSGetUserGroupStatusResponse_SteamIdUser = 0,
     MsgGSGetUserGroupStatusResponse_SteamIdGroup = 0,
     MsgGSGetUserGroupStatusResponse_ClanRelationship = 0,
     MsgGSGetUserGroupStatusResponse_ClanRank = 0\<rparr>"

definition MsgGSGetUserGroupStatusResponse_Serialize :: "MsgGSGetUserGroupStatusResponse \<Rightarrow> bytes" where
  "MsgGSGetUserGroupStatusResponse_Serialize d =
     le_bytes 8 (MsgGSGetUserGroupStatusResponse_SteamIdUser d) @
     le_bytes 8 (MsgGSGetUserGroupStatusResponse_SteamIdGroup d) @
     le_bytes 4 (MsgGSGetUserGroupStatusResponse_ClanRelationship d) @
     le_bytes 4 (MsgGSGetUserGroupStatusResponse_ClanRank d)"

definition MsgGSGetUserGroupStatusResponse_Deserialize :: "MsgGSGetUserGroupStatusResponse step" where
  "MsgGSGetUserGroupStatusResponse_Deserialize = steps [
     assign_ok ReadUint64 (\<lambda>v d. d\<lparr>MsgGSGetUserGroupStatusResponse_SteamIdUser := v\<rparr>),
     assign_ok ReadUint64 (\<lambda>v d. d\<lparr>MsgGSGetUserGroupStatusResponse_SteamIdGroup := v\<rparr>),
     assign_ok ReadInt32 (\<lambda>v d. d\<lparr>MsgGSGetUserGroupStatusResponse_ClanRelationship := v\<rparr>),
     assign ReadInt32 (\<lambda>v d. d\<lparr>MsgGSGetUserGroupStatusResponse_ClanRank := v\<rparr>)]"

definition MsgGSGetUserGroupStatusResponse_GetEMsg :: "MsgGSGetUserGroupStatusResponse \<Rightarrow> i32" where
  "MsgGSGetUserGroupStatusResponse_GetEMsg d = EMsg_GSGetUserGroupStatusResponse"

interpretation MsgGSGetUserGroupStatusResponse_codec: fixed_codec MsgGSGetUserGroupStatusResponse_Serialize MsgGSGetUserGroupStatusResponse_Deserialize 24
proof
  fix d x :: MsgGSGetUserGroupStatusResponse and r :: bytes
  show "MsgGSGetUserGroupStatusResponse_Deserialize d (MsgGSGetUserGroupStatusResponse_Serialize x @ r) = (x, None, r)"
    by (simp add: MsgGSGetUserGroupStatusResponse_Serialize_def MsgGSGetUserGroupStatusResponse_Deserialize_def wire_defs)
  show "length (MsgGSGetUserGroupStatusResponse_Serialize x) = 24"
    by (simp add: MsgGSGetUserGroupStatusResponse_Serialize_def)
  have "needs (8 + (8 + (4 + (4 + 0)))) MsgGSGetUserGroupStatusResponse_Deserialize"
    unfolding MsgGSGetUserGroupStatusResponse_Deserialize_def by (intro needs_intros)
  then show "needs 24 MsgGSGetUserGroupStatusResponse_Deserialize" by simp
qed

record MsgClientChatRoomInfo =
  MsgClientChatRoomInfo_SteamIdChat :: steamid
  MsgClientChatRoomInfo_Type :: EChatInfoType

definition NewMsgClientChatRoomInfo :: MsgClientChatRoomInfo where
  "NewMsgClientChatRoomInfo = \<lparr>
     MsgClientChatRoomInfo_SteamIdChat = 0,
     MsgClientChatRoomInfo_Type = 0\<rparr>"

definition MsgClientChatRoomInfo_Serialize :: "MsgClientChatRoomInfo \<Rightarrow> bytes" where
  "MsgClientChatRoomInfo_Serialize d =
     le_bytes 8 (MsgClientChatRoomInfo_SteamIdChat d) @
     le_bytes 4 (MsgClientChatRoomInfo_Type d)"

definition MsgClientChatRoomInfo_Deserialize :: "MsgClientChatRoomInfo step" where
  "MsgClientChatRoomInfo_Deserialize = steps [
     assign_ok ReadUint64 (\<lambda>v d. d\<lparr>MsgClientChatRoomInfo_SteamIdChat := v\<rparr>),
     assign ReadInt32 (\<lambda>v d. d\<lparr>MsgClientChatRoomInfo_Type := v\<rparr>)]"

definition MsgClientChatRoomInfo_GetEMsg :: "MsgClientChatRoomInfo \<Rightarrow> i32" where
  "MsgClientChatRoomInfo_GetEMsg d = EMsg_ClientChatRoomInfo"

interpretation MsgClientChatRoomInfo_codec: fixed_codec MsgClientChatRoomInfo_Serialize MsgClientChatRoomInfo_Deserialize 12
proof
  fix d x :: MsgClientChatRoomInfo and r :: bytes
  show "MsgClientChatRoomInfo_Deserialize d (MsgClientChatRoomInfo_Serialize x @ r) = (x, None, r)"
    by (simp add: MsgClientChatRoomInfo_Serialize_def MsgClientChatRoomInfo_Deserialize_def wire_defs)
  show "length (MsgClientChatRoomInfo_Serialize x) = 12"
    by (simp add: MsgClientChatRoomInfo_Serialize_def)
  have "needs (8 + (4 + 0)) MsgClientChatRoomInfo_Deserialize"
    unfolding MsgClientChatRoomInfo_Deserialize_def by (intro needs_intros)
  then show "needs 12 MsgClientChatRoomInfo_Deserialize" by simp
qed

record MsgClientLogOnResponse =
  MsgClientLogOnResponse_Result :: EResult
  MsgClientLogOnResponse_OutOfGameHeartbeatRateSec :: i32
  MsgClientLogOnResponse_InGameHeartbeatRateSec :: i32
  MsgClientLogOnResponse_ClientSuppliedSteamId :: steamid
  MsgClientLogOnResponse_IpPublic :: u32
  MsgClientLogOnResponse_ServerRealTime :: u32

definition NewMsgClientLogOnResponse :: MsgClientLogOnResponse where
  "NewMsgClientLogOnResponse = \<lparr>
     MsgClientLogOnResponse_Result = 0,
     MsgClientLogOnResponse_OutOfGameHeartbeatRateSec = 0,
     MsgClientLogOnResponse_InGameHeartbeatRateSec = 0,
     MsgClientLogOnResponse_ClientSuppliedSteamId = 0,
     MsgClientLogOnResponse_IpPublic = 0,
     MsgClientLogOnResponse_ServerRealTime = 0\<rparr>"

definition MsgClientLogOnResponse_Serialize :: "MsgClientLogOnResponse \<Rightarrow> bytes" where
  "MsgClientLogOnResponse_Serialize d =
     le_bytes 4 (MsgClientLogOnResponse_Result d) @
     le_bytes 4 (MsgClientLogOnResponse_OutOfGameHeartbeatRateSec d) @
     le_bytes 4 (MsgClientLogOnResponse_InGameHeartbeatRateSec d) @
     le_bytes 8 (MsgClientLogOnResponse_ClientSuppliedSteamId d) @
     le_bytes 4 (MsgClientLogOnResponse_IpPublic d) @
     le_bytes 4 (MsgClientLogOnResponse_ServerRealTime d)"

definition MsgClientLogOnResponse_Deserialize :: "MsgClientLogOnResponse step" where
  "MsgClientLogOnResponse_Deserialize = steps [
     assign_ok ReadInt32 (\<lambda>v d. d\<lparr>MsgClientLogOnResponse_Result := v\<rparr>),
     assign ReadInt32 (\<lambda>v d. d\<lparr>MsgClientLogOnResponse_OutOfGameHeartbeatRateSec := v\<rparr>),
     assign ReadInt32 (\<lambda>v d. d\<lparr>MsgClientLogOnResponse_InGameHeartbeatRateSec := v\<rparr>),
     assign_ok ReadUint64 (\<lambda>v d. d\<lparr>MsgClientLogOnResponse_ClientSuppliedSteamId := v\<rparr>),
     assign ReadUint32 (\<lambda>v d. d\<lparr>MsgClientLogOnResponse_IpPublic := v\<rparr>),
     assign ReadUint32 (\<lambda>v d. d\<lparr>MsgClientLogOnResponse_ServerRealTime := v\<rparr>)]"

definition MsgClientLogOnResponse_GetEMsg :: "MsgClientLogOnResponse \<Rightarrow> i32" where
  "MsgClientLogOnResponse_GetEMsg d = EMsg_ClientLogOnResponse"

interpretation MsgClientLogOnResponse_codec: fixed_codec MsgClientLogOnResponse_Serialize MsgClientLogOnResponse_Deserialize 28
proof
  fix d x :: MsgClientLogOnResponse and r :: bytes
  show "MsgClientLogOnResponse_Deserialize d (MsgClientLogOnResponse_Serialize x @ r) = (x, None, r)"
    by (simp add: MsgClientLogOnResponse_Serialize_def MsgClientLogOnResponse_Deserialize_def wire_defs)
  show "length (MsgClientLogOnResponse_Serialize x) = 28"
    by (simp add: MsgClientLogOnResponse_Serialize_def)
  have "needs (4 + (4 + (4 + (8 + (4 + (4 + 0)))))) MsgClientLogOnResponse_Deserialize"
    unfolding MsgClientLogOnResponse_Deserialize_def by (intro needs_intros)
  then show "needs 28 MsgClientLogOnResponse_Deserialize" by simp
qed

record MsgClientServerUnavailable =
  MsgClientServerUnavailable_JobidSent :: u64
  MsgClientServerUnavailable_EMsgSent :: u32
  MsgClientServerUnavailable_EServerTypeUnavailable :: EServerType

definition NewMsgClientServerUnavailable :: MsgClientServerUnavailable where
  "NewMsgClientServerUnavailable = \<lparr>
     MsgClientServerUnavailable_JobidSent = 0,
     MsgClientServerUnavailable_EMsgSent = 0,
     MsgClientServerUnavailable_EServerTypeUnavailable = 0\<rparr>"

definition MsgClientServerUnavailable_Serialize :: "MsgClientServerUnavailable \<Rightarrow> bytes" where
  "MsgClientServerUnavailable_Serialize d =
     le_bytes 8 (MsgClientServerUnavailable_JobidSent d) @
     le_bytes 4 (MsgClientServerUnavailable_EMsgSent d) @
     le_bytes 4 (MsgClientServerUnavailable_EServerTypeUnavailable d)"

definition MsgClientServerUnavailable_Deserialize :: "MsgClientServerUnavailable step" where
  "MsgClientServerUnavailable_Deserialize = steps [
     assign ReadUint64 (\<lambda>v d. d\<lparr>MsgClientServerUnavailable_JobidSent := v\<rparr>),
     assign ReadUint32 (\<lambda>v d. d\<lparr>MsgClientServerUnavailable_EMsgSent := v\<rparr>),
     assign ReadInt32 (\<lambda>v d. d\<lparr>MsgClientServerUnavailable_EServerTypeUnavailable := v\<rparr>)]"

definition MsgClientServerUnavailable_GetEMsg :: "MsgClientServerUnavailable \<Rightarrow> i32" where
  "MsgClientServerUnavailable_GetEMsg d = EMsg_ClientServerUnavailable"

interpretation MsgClientServerUnavailable_codec: fixed_codec MsgClientServerUnavailable_Serialize MsgClientServerUnavailable_Deserialize 16
proof
  fix d x :: MsgClientServerUnavailable and r :: bytes
  show "MsgClientServerUnavailable_Deserialize d (MsgClientServerUnavailable_Serialize x @ r) = (x, None, r)"
    by (simp add: MsgClientServerUnavailable_Serialize_def MsgClientServerUnavailable_Deserialize_def wire_defs)
  show "length (MsgClientServerUnavailable_Serialize x) = 16"
    by (simp add: MsgClientServerUnavailable_Serialize_def)
  have "needs (8 + (4 + (4 + 0))) MsgClientServerUnavailable_Deserialize"
    unfolding MsgClientServerUnavailable_Deserialize_def by (intro needs_intros)
  then show "needs 16 MsgClientServerUnavailable_Deserialize" by simp
qed

record MsgClientCreateChat =
  MsgClientCreateChat_ChatRoomType :: EChatRoomType
  MsgClientCreateChat_GameId :: u64
  MsgClientCreateChat_SteamIdClan :: steamid
  MsgClientCreateChat_PermissionOfficer :: EChatPermission
  MsgClientCreateChat_PermissionMember :: EChatPermission
  MsgClientCreateChat_PermissionAll :: EChatPermission
  MsgClientCreateChat_MembersMax :: u32
  MsgClientCreateChat_ChatFlags :: u8
  MsgClientCreateChat_SteamIdFriendChat :: steamid
  MsgClientCreateChat_SteamIdInvited :: steamid

definition NewMsgClientCreateChat :: MsgClientCreateChat where
  "NewMsgClientCreateChat = \<lparr>
     MsgClientCreateChat_ChatRoomType = 0,
     MsgClientCreateChat_GameId = 0,
     MsgClientCreateChat_SteamIdClan = 0,
     MsgClientCreateChat_PermissionOfficer = 0,
     MsgClientCreateChat_PermissionMember = 0,
     MsgClientCreateChat_PermissionAll = 0,
     MsgClientCreateChat_MembersMax = 0,
     MsgClientCreateChat_ChatFlags = 0,
     MsgClientCreateChat_SteamIdFriendChat = 0,
     MsgClientCreateChat_SteamIdInvited = 0\<rparr>"

definition MsgClientCreateChat_Serialize :: "MsgClientCreateChat \<Rightarrow> bytes" where
  "MsgClientCreateChat_Serialize d =
     le_bytes 4 (MsgClientCreateChat_ChatRoomType d) @
     le_bytes 8 (MsgClientCreateChat_GameId d) @
     le_bytes 8 (MsgClientCreateChat_SteamIdClan d) @
     le_bytes 4 (MsgClientCreateChat_PermissionOfficer d) @
     le_bytes 4 (MsgClientCreateChat_PermissionMember d) @
     le_bytes 4 (MsgClientCreateChat_PermissionAll d) @
     le_bytes 4 (MsgClientCreateChat_MembersMax d) @
     le_bytes 1 (MsgClientCreateChat_ChatFlags d) @
     le_bytes 8 (MsgClientCreateChat_SteamIdFriendChat d) @
     le_bytes 8 (MsgClientCreateChat_SteamIdInvited d)"

definition MsgClientCreateChat_Deserialize :: "MsgClientCreateChat step" where
  "MsgClientCreateChat_Deserialize = steps [
     assign_ok ReadInt32 (\<lambda>v d. d\<lparr>MsgClientCreateChat_ChatRoomType := v\<rparr>),
     assign ReadUint64 (\<lambda>v d. d\<lparr>MsgClientCreateChat_GameId := v\<rparr>),
     assign_ok ReadUint64 (\<lambda>v d. d\<lparr>MsgClientCreateChat_SteamIdClan := v\<rparr>),
     assign_ok ReadInt32 (\<lambda>v d. d\<lparr>MsgClientCreateChat_PermissionOfficer := v\<rparr>),
     assign_ok ReadInt32 (\<lambda>v d. d\<lparr>MsgClientCreateChat_PermissionMember := v\<rparr>),
     assign_ok ReadInt32 (\<lambda>v d. d\<lparr>MsgClientCreateChat_PermissionAll := v\<rparr>),
     assign ReadUint32 (\<lambda>v d. d\<lparr>MsgClientCreateChat_MembersMax := v\<rparr>),
     assign ReadUint8 (\<lambda>v d. d\<lparr>MsgClientCreateChat_ChatFlags := v\<rparr>),
     assign_ok ReadUint64 (\<lambda>v d. d\<lparr>MsgClientCreateChat_SteamIdFriendChat := v\<rparr>),
     assign_ok ReadUint64 (\<lambda>v d. d\<lparr>MsgClientCreateChat_SteamIdInvited := v\<rparr>)]"

definition MsgClientCreateChat_GetEMsg :: "MsgClientCreateChat \<Rightarrow> i32" where
  "MsgClientCreateChat_GetEMsg d = EMsg_ClientCreateChat"

interpretation MsgClientCreateChat_codec: fixed_codec MsgClientCreateChat_Serialize MsgClientCreateChat_Deserialize 53
proof
  fix d x :: MsgClientCreateChat and r :: bytes
  show "MsgClientCreateChat_Deserialize d (MsgClientCreateChat_Serialize x @ r) = (x, None, r)"
    by (simp add: MsgClientCreateChat_Serialize_def MsgClientCreateChat_Deserialize_def wire_defs)
  show "length (MsgClientCreateChat_Serialize x) = 53"
    by (simp add: MsgClientCreateChat_Serialize_def)
  have "needs (4 + (8 + (8 + (4 + (4 + (4 + (4 + (1 + (8 + (8 + 0)))))))))) MsgClientCreateChat_Deserialize"
    unfolding MsgClientCreateChat_Deserialize_def by (intro needs_intros)
  then show "needs 53 MsgClientCreateChat_Deserialize" by simp
qed

record MsgClientCreateChatResponse =
  MsgClientCreateChatResponse_Result :: EResult
  MsgClientCreateChatResponse_SteamIdChat :: steamid
  MsgClientCreateChatResponse_ChatRoomType :: EChatRoomType
  MsgClientCreateChatResponse_SteamIdFriendChat :: steamid

definition NewMsgClientCreateChatResponse :: MsgClientCreateChatResponse where
  "NewMsgClientCreateChatResponse = \<lparr>
     MsgClientCreateChatResponse_Result = 0,
     MsgClientCreateChatResponse_SteamIdChat = 0,
     MsgClientCreateChatResponse_ChatRoomType = 0,
     MsgClientCreateChatResponse_SteamIdFriendChat = 0\<rparr>"

definition MsgClientCreateChatResponse_Serialize :: "MsgClientCreateChatResponse \<Rightarrow> bytes" where
  "MsgClientCreateChatResponse_Serialize d =
     le_bytes 4 (MsgClientCreateChatResponse_Result d) @
     le_bytes 8 (MsgClientCreateChatResponse_SteamIdChat d) @
     le_bytes 4 (MsgClientCreateChatResponse_ChatRoomType d) @
     le_bytes 8 (MsgClientCreateChatResponse_SteamIdFriendChat d)"

definition MsgClientCreateChatResponse_Deserialize :: "MsgClientCreateChatResponse step" where
  "MsgClientCreateChatResponse_Deserialize = steps [
     assign_ok ReadInt32 (\<lambda>v d. d\<lparr>MsgClientCreateChatResponse_Result := v\<rparr>),
     assign_ok ReadUint64 (\<lambda>v d. d\<lparr>MsgClientCreateChatResponse_SteamIdChat := v\<rparr>),
     assign_ok ReadInt32 (\<lambda>v d. d\<lparr>MsgClientCreateChatResponse_ChatRoomType := v\<rparr>),
     assign_ok ReadUint64 (\<lambda>v d. d\<lparr>MsgClientCreateChatResponse_SteamIdFriendChat := v\<rparr>)]"

definition MsgClientCreateChatResponse_GetEMsg :: "MsgClientCreateChatResponse \<Rightarrow> i32" where
  "MsgClientCreateChatResponse_GetEMsg d = EMsg_ClientCreateChatResponse"

interpretation MsgClientCreateChatResponse_codec: fixed_codec MsgClientCreateChatResponse_Serialize MsgClientCreateChatResponse_Deserialize 24
proof
  fix d x :: MsgClientCreateChatResponse and r :: bytes
  show "MsgClientCreateChatResponse_Deserialize d (MsgClientCreateChatResponse_Serialize x @ r) = (x, None, r)"
    by (simp add: MsgClientCreateChatResponse_Serialize_def MsgClientCreateChatResponse_Deserialize_def wire_defs)
  show "length (MsgClientCreateChatResponse_Serialize x) = 24"
    by (simp add: MsgClientCreateChatResponse_Serialize_def)
  have "needs (4 + (8 + (4 + (8 + 0)))) MsgClientCreateChatResponse_Deserialize"
    unfolding MsgClientCreateChatResponse_Deserialize_def by (intro needs_intros)
  then show "needs 24 MsgClientCreateChatResponse_Deserialize" by simp
qed

record MsgClientMarketingMessageUpdate2 =
  MsgClientMarketingMessageUpdate2_MarketingMessageUpdateTime :: u32
  MsgClientMarketingMessageUpdate2_Count :: u32

definition NewMsgClientMarketingMessageUpdate2 :: MsgClientMarketingMessageUpdate2 where
  "NewMsgClientMarketingMessageUpdate2 = \<lparr>
     MsgClientMarketingMessageUpdate2_MarketingMessageUpdateTime = 0,
     MsgClientMarketingMessageUpdate2_Count = 0\<rparr>"

definition MsgClientMarketingMessageUpdate2_Serialize :: "MsgClientMarketingMessageUpdate2 \<Rightarrow> bytes" where
  "MsgClientMarketingMessageUpdate2_Serialize d =
     le_bytes 4 (MsgClientMarketingMessageUpdate2_MarketingMessageUpdateTime d) @
     le_bytes 4 (MsgClientMarketingMessageUpdate2_Count d)"

definition MsgClientMarketingMessageUpdate2_Deserialize :: "MsgClientMarketingMessageUpdate2 step" where
  "MsgClientMarketingMessageUpdate2_Deserialize = steps [
     assign ReadUint32 (\<lambda>v d. d\<lparr>MsgClientMarketingMessageUpdate2_MarketingMessageUpdateTime := v\<rparr>),
     assign ReadUint32 (\<lambda>v d. d\<lparr>MsgClientMarketingMessageUpdate2_Count := v\<rparr>)]"

definition MsgClientMarketingMessageUpdate2_GetEMsg :: "MsgClientMarketingMessageUpdate2 \<Rightarrow> i32" where
  "MsgClientMarketingMessageUpdate2_GetEMsg d = EMsg_ClientMarketingMessageUpdate2"

interpretation MsgClientMarketingMessageUpdate2_codec: fixed_codec MsgClientMarketingMessageUpdate2_Serialize MsgClientMarketingMessageUpdate2_Deserialize 8
proof
  fix d x :: MsgClientMarketingMessageUpdate2 and r :: bytes
  show "MsgClientMarketingMessageUpdate2_Deserialize d (MsgClientMarketingMessageUpdate2_Serialize x @ r) = (x, None, r)"
    by (simp add: MsgClientMarketingMessageUpdate2_Serialize_def MsgClientMarketingMessageUpdate2_Deserialize_def wire_defs)
  show "length (MsgClientMarketingMessageUpdate2_Serialize x) = 8"
    by (simp add: MsgClientMarketingMessageUpdate2_Serialize_def)
  have "needs (4 + (4 + 0)) MsgClientMarketingMessageUpdate2_Deserialize"
    unfolding MsgClientMarketingMessageUpdate2_Deserialize_def by (intro needs_intros)
  then show "needs 8 MsgClientMarketingMessageUpdate2_Deserialize" by simp
qed

end
