(* ===== verification/Pb_Client.thy ===== *)
theory Pb_Client
  imports Steamlang
begin

text \<open>
  The generated protobuf structs of \<open>protocol/protobuf\<close> that the client builds or reads, field by
  field: the header, the envelopes, log-on and account messages, trading.
  An optional field is an \<open>option\<close> (Go's nil pointer is \<open>None\<close>), a repeated one a list, an enum its
  32-bit number. The getters used by the client are defined with the defaults of the \<open>.proto\<close> files.
  How a struct is written to bytes is the protobuf library's business: see theory Protocol.
\<close>

named_theorems pb_get \<open>the generated getters\<close>

datatype CMsgProtoBufHeader_IpAddr =
    CMsgProtoBufHeader_Ip u32
  | CMsgProtoBufHeader_IpV6 bytes

record CMsgProtoBufHeader =
  CMsgProtoBufHeader_Steamid :: "u64 option"
  CMsgProtoBufHeader_ClientSessionid :: "i32 option"
  CMsgProtoBufHeader_RoutingAppid :: "u32 option"
  CMsgProtoBufHeader_JobidSource :: "u64 option"
  CMsgProtoBufHeader_JobidTarget :: "u64 option"
  CMsgProtoBufHeader_TargetJobName :: "string option"
  CMsgProtoBufHeader_SeqNum :: "i32 option"
  CMsgProtoBufHeader_Eresult :: "i32 option"
  CMsgProtoBufHeader_ErrorMessage :: "string option"
  CMsgProtoBufHeader_AuthAccountFlags :: "u32 option"
  CMsgProtoBufHeader_TokenSource :: "u32 option"
  CMsgProtoBufHeader_AdminSpoofingUser :: "bool option"
  CMsgProtoBufHeader_TransportError :: "i32 option"
  CMsgProtoBufHeader_Messageid :: "u64 option"
  CMsgProtoBufHeader_PublisherGroupId :: "u32 option"
  CMsgProtoBufHeader_Sysid :: "u32 option"
  CMsgProtoBufHeader_TraceTag :: "u64 option"
  CMsgProtoBufHeader_WebapiKeyId :: "u32 option"
  CMsgProtoBufHeader_IsFromExternalSource :: "bool option"
  CMsgProtoBufHeader_ForwardToSysid :: "u32 list"
  CMsgProtoBufHeader_CmSysid :: "u32 option"
  CMsgProtoBufHeader_WgToken :: "string option"
  CMsgProtoBufHeader_LauncherType :: "u32 option"
  CMsgProtoBufHeader_Realm :: "u32 option"
  CMsgProtoBufHeader_IpAddr :: "CMsgProtoBufHeader_IpAddr option"

definition NewCMsgProtoBufHeader :: CMsgProtoBufHeader where
  "NewCMsgProtoBufHeader = \<lparr>
     CMsgProtoBufHeader_Steamid = None, CMsgProtoBufHeader_ClientSessionid = None,
     CMsgProtoBufHeader_RoutingAppid = None, CMsgProtoBufHeader_JobidSource = None,
     CMsgProtoBufHeader_JobidTarget = None, CMsgProtoBufHeader_TargetJobName = None,
     CMsgProtoBufHeader_SeqNum = None, CMsgProtoBufHeader_Eresult = None,
     CMsgProtoBufHeader_ErrorMessage = None, CMsgProtoBufHeader_AuthAccountFlags = None,
     CMsgProtoBufHeader_TokenSource = None, CMsgProtoBufHeader_AdminSpoofingUser = None,
     CMsgProtoBufHeader_TransportError = None, CMsgProtoBufHeader_Messageid = None,
     CMsgProtoBufHeader_PublisherGroupId = None, CMsgProtoBufHeader_Sysid = None,
     CMsgProtoBufHeader_TraceTag = None, CMsgProtoBufHeader_WebapiKeyId = None,
     CMsgProtoBufHeader_IsFromExternalSource = None, CMsgProtoBufHeader_ForwardToSysid = [],
     CMsgProtoBufHeader_CmSysid = None, CMsgProtoBufHeader_WgToken = None,
     CMsgProtoBufHeader_LauncherType = None, CMsgProtoBufHeader_Realm = None,
     CMsgProtoBufHeader_IpAddr = None\<rparr>"

definition CMsgProtoBufHeader_GetSteamid :: "CMsgProtoBufHeader \<Rightarrow> u64" where
  "CMsgProtoBufHeader_GetSteamid x = get_or 0 (CMsgProtoBufHeader_Steamid x)"

definition CMsgProtoBufHeader_GetClientSessionid :: "CMsgProtoBufHeader \<Rightarrow> i32" where
  "CMsgProtoBufHeader_GetClientSessionid x = get_or 0 (CMsgProtoBufHeader_ClientSessionid x)"

definition CMsgProtoBufHeader_GetJobidSource :: "CMsgProtoBufHeader \<Rightarrow> u64" where
  "CMsgProtoBufHeader_GetJobidSource x = get_or 18446744073709551615 (CMsgProtoBufHeader_JobidSource x)"

definition CMsgProtoBufHeader_GetJobidTarget :: "CMsgProtoBufHeader \<Rightarrow> u64" where
  "CMsgProtoBufHeader_GetJobidTarget x = get_or 18446744073709551615 (CMsgProtoBufHeader_JobidTarget x)"

definition CMsgProtoBufHeader_GetEresult :: "CMsgProtoBufHeader \<Rightarrow> i32" where
  "CMsgProtoBufHeader_GetEresult x = get_or 2 (CMsgProtoBufHeader_Eresult x)"

record CMsgMulti =
  CMsgMulti_SizeUnzipped :: "u32 option"
  CMsgMulti_MessageBody :: "bytes option"

definition NewCMsgMulti :: CMsgMulti where
  "NewCMsgMulti = \<lparr>
     CMsgMulti_SizeUnzipped = None, CMsgMulti_MessageBody = None\<rparr>"

definition CMsgMulti_GetSizeUnzipped :: "CMsgMulti \<Rightarrow> u32" where
  "CMsgMulti_GetSizeUnzipped x = get_or 0 (CMsgMulti_SizeUnzipped x)"

definition CMsgMulti_GetMessageBody :: "CMsgMulti \<Rightarrow> bytes" where
  "CMsgMulti_GetMessageBody x = get_or [] (CMsgMulti_MessageBody x)"

record CMsgGCClient =
  CMsgGCClient_Appid :: "u32 option"
  CMsgGCClient_Msgtype :: "u32 option"
  CMsgGCClient_Payload :: "bytes option"
  CMsgGCClient_Steamid :: "u64 option"
  CMsgGCClient_Gcname :: "string option"
  CMsgGCClient_Ip :: "u32 option"

definition NewCMsgGCClient :: CMsgGCClient where
  "NewCMsgGCClient = \<lparr>
     CMsgGCClient_Appid = None, CMsgGCClient_Msgtype = None, CMsgGCClient_Payload = None,
     CMsgGCClient_Steamid = None, CMsgGCClient_Gcname = None, CMsgGCClient_Ip = None\<rparr>"

definition CMsgGCClient_GetAppid :: "CMsgGCClient \<Rightarrow> u32" where
  "CMsgGCClient_GetAppid x = get_or 0 (CMsgGCClient_Appid x)"

definition CMsgGCClient_GetMsgtype :: "CMsgGCClient \<Rightarrow> u32" where
  "CMsgGCClient_GetMsgtype x = get_or 0 (CMsgGCClient_Msgtype x)"

definition CMsgGCClient_GetPayload :: "CMsgGCClient \<Rightarrow> bytes" where
  "CMsgGCClient_GetPayload x = get_or [] (CMsgGCClient_Payload x)"

definition CMsgGCClient_GetSteamid :: "CMsgGCClient \<Rightarrow> u64" where
  "CMsgGCClient_GetSteamid x = get_or 0 (CMsgGCClient_Steamid x)"

definition CMsgGCClient_GetGcname :: "CMsgGCClient \<Rightarrow> string" where
  "CMsgGCClient_GetGcname x = get_or '''' (CMsgGCClient_Gcname x)"

type_synonym CMsgClientHeartBeat = unit

definition NewCMsgClientHeartBeat :: CMsgClientHeartBeat where "NewCMsgClientHeartBeat = ()"

datatype CMsgIPAddress_Ip =
    CMsgIPAddress_V4 u32
  | CMsgIPAddress_V6 bytes

record CMsgIPAddress =
  CMsgIPAddress_Ip :: "CMsgIPAddress_Ip option"

definition NewCMsgIPAddress :: CMsgIPAddress where
  "NewCMsgIPAddress = \<lparr>
     CMsgIPAddress_Ip = None\<rparr>"

record CMsgClientSecret =
  CMsgClientSecret_Version :: "u32 option"
  CMsgClientSecret_Appid :: "u32 option"
  CMsgClientSecret_Deviceid :: "u32 option"
  CMsgClientSecret_Nonce :: "u64 option"
  CMsgClientSecret_Hmac :: "bytes option"

definition NewCMsgClientSecret :: CMsgClientSecret where
  "NewCMsgClientSecret = \<lparr>
     CMsgClientSecret_Version = None, CMsgClientSecret_Appid = None,
     CMsgClientSecret_Deviceid = None, CMsgClientSecret_Nonce = None,
     CMsgClientSecret_Hmac = None\<rparr>"

definition CMsgClientSecret_GetAppid :: "CMsgClientSecret \<Rightarrow> u32" where
  "CMsgClientSecret_GetAppid x = get_or 0 (CMsgClientSecret_Appid x)"

record CMsgClientLogon =
  CMsgClientLogon_ProtocolVersion :: "u32 option"
  CMsgClientLogon_DeprecatedObfustucatedPrivateIp :: "u32 option"
  CMsgClientLogon_CellId :: "u32 option"
  CMsgClientLogon_LastSessionId :: "u32 option"
  CMsgClientLogon_ClientPackageVersion :: "u32 option"
  CMsgClientLogon_ClientLanguage :: "string option"
  CMsgClientLogon_ClientOsType :: "u32 option"
  CMsgClientLogon_ShouldRememberPassword :: "bool option"
  CMsgClientLogon_WineVersion :: "string option"
  CMsgClientLogon_Deprecated_10 :: "u32 option"
  CMsgClientLogon_ObfuscatedPrivateIp :: "CMsgIPAddress option"
  CMsgClientLogon_DeprecatedPublicIp :: "u32 option"
  CMsgClientLogon_QosLevel :: "u32 option"
  CMsgClientLogon_ClientSuppliedSteamId :: "u64 option"
  CMsgClientLogon_PublicIp :: "CMsgIPAddress option"
  CMsgClientLogon_MachineId :: "bytes option"
  CMsgClientLogon_LauncherType :: "u32 option"
  CMsgClientLogon_UiMode :: "u32 option"
  CMsgClientLogon_ChatMode :: "u32 option"
  CMsgClientLogon_Steam2AuthTicket :: "bytes option"
  CMsgClientLogon_EmailAddress :: "string option"
  CMsgClientLogon_Rtime32AccountCreation :: "u32 option"
  CMsgClientLogon_AccountName :: "string option"
  CMsgClientLogon_Password :: "string option"
  CMsgClientLogon_GameServerToken :: "string option"
  CMsgClientLogon_LoginKey :: "string option"
  CMsgClientLogon_WasConvertedDeprecatedMsg :: "bool option"
  CMsgClientLogon_AnonUserTargetAccountName :: "string option"
  CMsgClientLogon_ResolvedUserSteamId :: "u64 option"
  CMsgClientLogon_EresultSentryfile :: "i32 option"
  CMsgClientLogon_ShaSentryfile :: "bytes option"
  CMsgClientLogon_AuthCode :: "string option"
  CMsgClientLogon_OtpType :: "i32 option"
  CMsgClientLogon_OtpValue :: "u32 option"
  CMsgClientLogon_OtpIdentifier :: "string option"
  CMsgClientLogon_Steam2TicketRequest :: "bool option"
  CMsgClientLogon_SonyPsnTicket :: "bytes option"
  CMsgClientLogon_SonyPsnServiceId :: "string option"
  CMsgClientLogon_CreateNewPsnLinkedAccountIfNeeded :: "bool option"
  CMsgClientLogon_SonyPsnName :: "string option"
  CMsgClientLogon_GameServerAppId :: "i32 option"
  CMsgClientLogon_SteamguardDontRememberComputer :: "bool option"
  CMsgClientLogon_MachineName :: "string option"
  CMsgClientLogon_MachineNameUserchosen :: "string option"
  CMsgClientLogon_CountryOverride :: "string option"
  CMsgClientLogon_IsSteamBox :: "bool option"
  CMsgClientLogon_ClientInstanceId :: "u64 option"
  CMsgClientLogon_TwoFactorCode :: "string option"
  CMsgClientLogon_SupportsRateLimitResponse :: "bool option"
  CMsgClientLogon_WebLogonNonce :: "string option"
  CMsgClientLogon_PriorityReason :: "i32 option"
  CMsgClientLogon_EmbeddedClientSecret :: "CMsgClientSecret option"
  CMsgClientLogon_DisablePartnerAutogrants :: "bool option"
  CMsgClientLogon_AccessToken :: "string option"

definition NewCMsgClientLogon :: CMsgClientLogon where
  "NewCMsgClientLogon = \<lparr>
     CMsgClientLogon_ProtocolVersion = None,
     CMsgClientLogon_DeprecatedObfustucatedPrivateIp = None, CMsgClientLogon_CellId = None,
     CMsgClientLogon_LastSessionId = None, CMsgClientLogon_ClientPackageVersion = None,
     CMsgClientLogon_ClientLanguage = None, CMsgClientLogon_ClientOsType = None,
     CMsgClientLogon_ShouldRememberPassword = None, CMsgClientLogon_WineVersion = None,
     CMsgClientLogon_Deprecated_10 = None, CMsgClientLogon_ObfuscatedPrivateIp = None,
     CMsgClientLogon_DeprecatedPublicIp = None, CMsgClientLogon_QosLevel = None,
     CMsgClientLogon_ClientSuppliedSteamId = None, CMsgClientLogon_PublicIp = None,
     CMsgClientLogon_MachineId = None, CMsgClientLogon_LauncherType = None,
     CMsgClientLogon_UiMode = None, CMsgClientLogon_ChatMode = None,
     CMsgClientLogon_Steam2AuthTicket = None, CMsgClientLogon_EmailAddress = None,
     CMsgClientLogon_Rtime32AccountCreation = None, CMsgClientLogon_AccountName = None,
     CMsgClientLogon_Password = None, CMsgClientLogon_GameServerToken = None,
     CMsgClientLogon_LoginKey = None, CMsgClientLogon_WasConvertedDeprecatedMsg = None,
     CMsgClientLogon_AnonUserTargetAccountName = None,
     CMsgClientLogon_ResolvedUserSteamId = None, CMsgClientLogon_EresultSentryfile = None,
     CMsgClientLogon_ShaSentryfile = None, CMsgClientLogon_AuthCode = None,
     CMsgClientLogon_OtpType = None, CMsgClientLogon_OtpValue = None,
     CMsgClientLogon_OtpIdentifier = None, CMsgClientLogon_Steam2TicketRequest = None,
     CMsgClientLogon_SonyPsnTicket = None, CMsgClientLogon_SonyPsnServiceId = None,
     CMsgClientLogon_CreateNewPsnLinkedAccountIfNeeded = None,
     CMsgClientLogon_SonyPsnName = None, CMsgClientLogon_GameServerAppId = None,
     CMsgClientLogon_SteamguardDontRememberComputer = None,
     CMsgClientLogon_MachineName = None, CMsgClientLogon_MachineNameUserchosen = None,
     CMsgClientLogon_CountryOverride = None, CMsgClientLogon_IsSteamBox = None,
     CMsgClientLogon_ClientInstanceId = None, CMsgClientLogon_TwoFactorCode = None,
     CMsgClientLogon_SupportsRateLimitResponse = None, CMsgClientLogon_WebLogonNonce = None,
     CMsgClientLogon_PriorityReason = None, CMsgClientLogon_EmbeddedClientSecret = None,
     CMsgClientLogon_DisablePartnerAutogrants = None, CMsgClientLogon_AccessToken = None\<rparr>"

definition CMsgClientLogon_GetCellId :: "CMsgClientLogon \<Rightarrow> u32" where
  "CMsgClientLogon_GetCellId x = get_or 0 (CMsgClientLogon_CellId x)"

definition CMsgClientLogon_GetDeprecatedPublicIp :: "CMsgClientLogon \<Rightarrow> u32" where
  "CMsgClientLogon_GetDeprecatedPublicIp x = get_or 0 (CMsgClientLogon_DeprecatedPublicIp x)"

definition CMsgClientLogon_GetAccountName :: "CMsgClientLogon \<Rightarrow> string" where
  "CMsgClientLogon_GetAccountName x = get_or '''' (CMsgClientLogon_AccountName x)"

definition CMsgClientLogon_GetLoginKey :: "CMsgClientLogon \<Rightarrow> string" where
  "CMsgClientLogon_GetLoginKey x = get_or '''' (CMsgClientLogon_LoginKey x)"

definition CMsgClientLogon_GetAccessToken :: "CMsgClientLogon \<Rightarrow> string" where
  "CMsgClientLogon_GetAccessToken x = get_or '''' (CMsgClientLogon_AccessToken x)"

record CMsgClientLogonResponse =
  CMsgClientLogonResponse_Eresult :: "i32 option"
  CMsgClientLogonResponse_OutOfGameHeartbeatSeconds :: "i32 option"
  CMsgClientLogonResponse_InGameHeartbeatSeconds :: "i32 option"
  CMsgClientLogonResponse_DeprecatedPublicIp :: "u32 option"
  CMsgClientLogonResponse_Rtime32ServerTime :: "u32 option"
  CMsgClientLogonResponse_AccountFlags :: "u32 option"
  CMsgClientLogonResponse_CellId :: "u32 option"
  CMsgClientLogonResponse_EmailDomain :: "string option"
  CMsgClientLogonResponse_Steam2Ticket :: "bytes option"
  CMsgClientLogonResponse_EresultExtended :: "i32 option"
  CMsgClientLogonResponse_WebapiAuthenticateUserNonce :: "string option"
  CMsgClientLogonResponse_CellIdPingThreshold :: "u32 option"
  CMsgClientLogonResponse_DeprecatedUsePics :: "bool option"
  CMsgClientLogonResponse_VanityUrl :: "string option"
  CMsgClientLogonResponse_PublicIp :: "CMsgIPAddress option"
  CMsgClientLogonResponse_ClientSuppliedSteamid :: "u64 option"
  CMsgClientLogonResponse_IpCountryCode :: "string option"
  CMsgClientLogonResponse_ParentalSettings :: "bytes option"
  CMsgClientLogonResponse_ParentalSettingSignature :: "bytes option"
  CMsgClientLogonResponse_CountLoginfailuresToMigrate :: "i32 option"
  CMsgClientLogonResponse_CountDisconnectsToMigrate :: "i32 option"
  CMsgClientLogonResponse_OgsDataReportTimeWindow :: "i32 option"
  CMsgClientLogonResponse_ClientInstanceId :: "u64 option"
  CMsgClientLogonResponse_ForceClientUpdateCheck :: "bool option"

definition NewCMsgClientLogonResponse :: CMsgClientLogonResponse where
  "NewCMsgClientLogonResponse = \<lparr>
     CMsgClientLogonResponse_Eresult = None,
     CMsgClientLogonResponse_OutOfGameHeartbeatSeconds = None,
     CMsgClientLogonResponse_InGameHeartbeatSeconds = None,
     CMsgClientLogonResponse_DeprecatedPublicIp = None,
     CMsgClientLogonResponse_Rtime32ServerTime = None,
     CMsgClientLogonResponse_AccountFlags = None, CMsgClientLogonResponse_CellId = None,
     CMsgClientLogonResponse_EmailDomain = None,
     CMsgClientLogonResponse_Steam2Ticket = None,
     CMsgClientLogonResponse_EresultExtended = None,
     CMsgClientLogonResponse_WebapiAuthenticateUserNonce = None,
     CMsgClientLogonResponse_CellIdPingThreshold = None,
     CMsgClientLogonResponse_DeprecatedUsePics = None,
     CMsgClientLogonResponse_VanityUrl = None, CMsgClientLogonResponse_PublicIp = None,
     CMsgClientLogonResponse_ClientSuppliedSteamid = None,
     CMsgClientLogonResponse_IpCountryCode = None,
     CMsgClientLogonResponse_ParentalSettings = None,
     CMsgClientLogonResponse_ParentalSettingSignature = None,
     CMsgClientLogonResponse_CountLoginfailuresToMigrate = None,
     CMsgClientLogonResponse_CountDisconnectsToMigrate = None,
     CMsgClientLogonResponse_OgsDataReportTimeWindow = None,
     CMsgClientLogonResponse_ClientInstanceId = None,
     CMsgClientLogonResponse_ForceClientUpdateCheck = None\<rparr>"

definition CMsgClientLogonResponse_GetEresult :: "CMsgClientLogonResponse \<Rightarrow> i32" where
  "CMsgClientLogonResponse_GetEresult x = get_or 2 (CMsgClientLogonResponse_Eresult x)"

definition CMsgClientLogonResponse_GetOutOfGameHeartbeatSeconds :: "CMsgClientLogonResponse \<Rightarrow> i32" where
  "CMsgClientLogonResponse_GetOutOfGameHeartbeatSeconds x = get_or 0 (CMsgClientLogonResponse_OutOfGameHeartbeatSeconds x)"

definition CMsgClientLogonResponse_GetInGameHeartbeatSeconds :: "CMsgClientLogonResponse \<Rightarrow> i32" where
  "CMsgClientLogonResponse_GetInGameHeartbeatSeconds x = get_or 0 (CMsgClientLogonResponse_InGameHeartbeatSeconds x)"

definition CMsgClientLogonResponse_GetDeprecatedPublicIp :: "CMsgClientLogonResponse \<Rightarrow> u32" where
  "CMsgClientLogonResponse_GetDeprecatedPublicIp x = get_or 0 (CMsgClientLogonResponse_DeprecatedPublicIp x)"

definition CMsgClientLogonResponse_GetRtime32ServerTime :: "CMsgClientLogonResponse \<Rightarrow> u32" where
  "CMsgClientLogonResponse_GetRtime32ServerTime x = get_or 0 (CMsgClientLogonResponse_Rtime32ServerTime x)"

definition CMsgClientLogonResponse_GetAccountFlags :: "CMsgClientLogonResponse \<Rightarrow> u32" where
  "CMsgClientLogonResponse_GetAccountFlags x = get_or 0 (CMsgClientLogonResponse_AccountFlags x)"

definition CMsgClientLogonResponse_GetCellId :: "CMsgClientLogonResponse \<Rightarrow> u32" where
  "CMsgClientLogonResponse_GetCellId x = get_or 0 (CMsgClientLogonResponse_CellId x)"

definition CMsgClientLogonResponse_GetEmailDomain :: "CMsgClientLogonResponse \<Rightarrow> string" where
  "CMsgClientLogonResponse_GetEmailDomain x = get_or '''' (CMsgClientLogonResponse_EmailDomain x)"

definition CMsgClientLogonResponse_GetSteam2Ticket :: "CMsgClientLogonResponse \<Rightarrow> bytes" where
  "CMsgClientLogonResponse_GetSteam2Ticket x = get_or [] (CMsgClientLogonResponse_Steam2Ticket x)"

definition CMsgClientLogonResponse_GetEresultExtended :: "CMsgClientLogonResponse \<Rightarrow> i32" where
  "CMsgClientLogonResponse_GetEresultExtended x = get_or 0 (CMsgClientLogonResponse_EresultExtended x)"

definition CMsgClientLogonResponse_GetWebapiAuthenticateUserNonce :: "CMsgClientLogonResponse \<Rightarrow> string" where
  "CMsgClientLogonResponse_GetWebapiAuthenticateUserNonce x = get_or '''' (CMsgClientLogonResponse_WebapiAuthenticateUserNonce x)"

definition CMsgClientLogonResponse_GetCellIdPingThreshold :: "CMsgClientLogonResponse \<Rightarrow> u32" where
  "CMsgClientLogonResponse_GetCellIdPingThreshold x = get_or 0 (CMsgClientLogonResponse_CellIdPingThreshold x)"

definition CMsgClientLogonResponse_GetDeprecatedUsePics :: "CMsgClientLogonResponse \<Rightarrow> bool" where
  "CMsgClientLogonResponse_GetDeprecatedUsePics x = get_or False (CMsgClientLogonResponse_DeprecatedUsePics x)"

definition CMsgClientLogonResponse_GetVanityUrl :: "CMsgClientLogonResponse \<Rightarrow> string" where
  "CMsgClientLogonResponse_GetVanityUrl x = get_or '''' (CMsgClientLogonResponse_VanityUrl x)"

definition CMsgClientLogonResponse_GetClientSuppliedSteamid :: "CMsgClientLogonResponse \<Rightarrow> u64" where
  "CMsgClientLogonResponse_GetClientSuppliedSteamid x = get_or 0 (CMsgClientLogonResponse_ClientSuppliedSteamid x)"

definition CMsgClientLogonResponse_GetIpCountryCode :: "CMsgClientLogonResponse \<Rightarrow> string" where
  "CMsgClientLogonResponse_GetIpCountryCode x = get_or '''' (CMsgClientLogonResponse_IpCountryCode x)"

definition CMsgClientLogonResponse_GetCountLoginfailuresToMigrate :: "CMsgClientLogonResponse \<Rightarrow> i32" where
  "CMsgClientLogonResponse_GetCountLoginfailuresToMigrate x = get_or 0 (CMsgClientLogonResponse_CountLoginfailuresToMigrate x)"

definition CMsgClientLogonResponse_GetCountDisconnectsToMigrate :: "CMsgClientLogonResponse \<Rightarrow> i32" where
  "CMsgClientLogonResponse_GetCountDisconnectsToMigrate x = get_or 0 (CMsgClientLogonResponse_CountDisconnectsToMigrate x)"

record CMsgClientNewLoginKey =
  CMsgClientNewLoginKey_UniqueId :: "u32 option"
  CMsgClientNewLoginKey_LoginKey :: "string option"

definition NewCMsgClientNewLoginKey :: CMsgClientNewLoginKey where
  "NewCMsgClientNewLoginKey = \<lparr>
     CMsgClientNewLoginKey_UniqueId = None, CMsgClientNewLoginKey_LoginKey = None\<rparr>"

definition CMsgClientNewLoginKey_GetUniqueId :: "CMsgClientNewLoginKey \<Rightarrow> u32" where
  "CMsgClientNewLoginKey_GetUniqueId x = get_or 0 (CMsgClientNewLoginKey_UniqueId x)"

definition CMsgClientNewLoginKey_GetLoginKey :: "CMsgClientNewLoginKey \<Rightarrow> string" where
  "CMsgClientNewLoginKey_GetLoginKey x = get_or '''' (CMsgClientNewLoginKey_LoginKey x)"

record CMsgClientNewLoginKeyAccepted =
  CMsgClientNewLoginKeyAccepted_UniqueId :: "u32 option"

definition NewCMsgClientNewLoginKeyAccepted :: CMsgClientNewLoginKeyAccepted where
  "NewCMsgClientNewLoginKeyAccepted = \<lparr>
     CMsgClientNewLoginKeyAccepted_UniqueId = None\<rparr>"

definition CMsgClientNewLoginKeyAccepted_GetUniqueId :: "CMsgClientNewLoginKeyAccepted \<Rightarrow> u32" where
  "CMsgClientNewLoginKeyAccepted_GetUniqueId x = get_or 0 (CMsgClientNewLoginKeyAccepted_UniqueId x)"

record CMsgClientLoggedOff =
  CMsgClientLoggedOff_Eresult :: "i32 option"

definition NewCMsgClientLoggedOff :: CMsgClientLoggedOff where
  "NewCMsgClientLoggedOff = \<lparr>
     CMsgClientLoggedOff_Eresult = None\<rparr>"

definition CMsgClientLoggedOff_GetEresult :: "CMsgClientLoggedOff \<Rightarrow> i32" where
  "CMsgClientLoggedOff_GetEresult x = get_or 2 (CMsgClientLoggedOff_Eresult x)"

record CMsgClientUpdateMachineAuth =
  CMsgClientUpdateMachineAuth_Filename :: "string option"
  CMsgClientUpdateMachineAuth_Offset :: "u32 option"
  CMsgClientUpdateMachineAuth_Cubtowrite :: "u32 option"
  CMsgClientUpdateMachineAuth_Bytes :: "bytes option"
  CMsgClientUpdateMachineAuth_OtpType :: "u32 option"
  CMsgClientUpdateMachineAuth_OtpIdentifier :: "string option"
  CMsgClientUpdateMachineAuth_OtpSharedsecret :: "bytes option"
  CMsgClientUpdateMachineAuth_OtpTimedrift :: "u32 option"

definition NewCMsgClientUpdateMachineAuth :: CMsgClientUpdateMachineAuth where
  "NewCMsgClientUpdateMachineAuth = \<lparr>
     CMsgClientUpdateMachineAuth_Filename = None, CMsgClientUpdateMachineAuth_Offset = None,
     CMsgClientUpdateMachineAuth_Cubtowrite = None,
     CMsgClientUpdateMachineAuth_Bytes = None, CMsgClientUpdateMachineAuth_OtpType = None,
     CMsgClientUpdateMachineAuth_OtpIdentifier = None,
     CMsgClientUpdateMachineAuth_OtpSharedsecret = None,
     CMsgClientUpdateMachineAuth_OtpTimedrift = None\<rparr>"

definition CMsgClientUpdateMachineAuth_GetFilename :: "CMsgClientUpdateMachineAuth \<Rightarrow> string" where
  "CMsgClientUpdateMachineAuth_GetFilename x = get_or '''' (CMsgClientUpdateMachineAuth_Filename x)"

definition CMsgClientUpdateMachineAuth_GetOffset :: "CMsgClientUpdateMachineAuth \<Rightarrow> u32" where
  "CMsgClientUpdateMachineAuth_GetOffset x = get_or 0 (CMsgClientUpdateMachineAuth_Offset x)"

definition CMsgClientUpdateMachineAuth_GetCubtowrite :: "CMsgClientUpdateMachineAuth \<Rightarrow> u32" where
  "CMsgClientUpdateMachineAuth_GetCubtowrite x = get_or 0 (CMsgClientUpdateMachineAuth_Cubtowrite x)"

definition CMsgClientUpdateMachineAuth_GetBytes :: "CMsgClientUpdateMachineAuth \<Rightarrow> bytes" where
  "CMsgClientUpdateMachineAuth_GetBytes x = get_or [] (CMsgClientUpdateMachineAuth_Bytes x)"

record CMsgClientUpdateMachineAuthResponse =
  CMsgClientUpdateMachineAuthResponse_Filename :: "string option"
  CMsgClientUpdateMachineAuthResponse_Eresult :: "u32 option"
  CMsgClientUpdateMachineAuthResponse_Filesize :: "u32 option"
  CMsgClientUpdateMachineAuthResponse_ShaFile :: "bytes option"
  CMsgClientUpdateMachineAuthResponse_Getlasterror :: "u32 option"
  CMsgClientUpdateMachineAuthResponse_Offset :: "u32 option"
  CMsgClientUpdateMachineAuthResponse_Cubwrote :: "u32 option"
  CMsgClientUpdateMachineAuthResponse_OtpType :: "i32 option"
  CMsgClientUpdateMachineAuthResponse_OtpValue :: "u32 option"
  CMsgClientUpdateMachineAuthResponse_OtpIdentifier :: "string option"

definition NewCMsgClientUpdateMachineAuthResponse :: CMsgClientUpdateMachineAuthResponse where
  "NewCMsgClientUpdateMachineAuthResponse = \<lparr>
     CMsgClientUpdateMachineAuthResponse_Filename = None,
     CMsgClientUpdateMachineAuthResponse_Eresult = None,
     CMsgClientUpdateMachineAuthResponse_Filesize = None,
     CMsgClientUpdateMachineAuthResponse_ShaFile = None,
     CMsgClientUpdateMachineAuthResponse_Getlasterror = None,
     CMsgClientUpdateMachineAuthResponse_Offset = None,
     CMsgClientUpdateMachineAuthResponse_Cubwrote = None,
     CMsgClientUpdateMachineAuthResponse_OtpType = None,
     CMsgClientUpdateMachineAuthResponse_OtpValue = None,
     CMsgClientUpdateMachineAuthResponse_OtpIdentifier = None\<rparr>"

definition CMsgClientUpdateMachineAuthResponse_GetFilename :: "CMsgClientUpdateMachineAuthResponse \<Rightarrow> string" where
  "CMsgClientUpdateMachineAuthResponse_GetFilename x = get_or '''' (CMsgClientUpdateMachineAuthResponse_Filename x)"

definition CMsgClientUpdateMachineAuthResponse_GetEresult :: "CMsgClientUpdateMachineAuthResponse \<Rightarrow> u32" where
  "CMsgClientUpdateMachineAuthResponse_GetEresult x = get_or 0 (CMsgClientUpdateMachineAuthResponse_Eresult x)"

definition CMsgClientUpdateMachineAuthResponse_GetOffset :: "CMsgClientUpdateMachineAuthResponse \<Rightarrow> u32" where
  "CMsgClientUpdateMachineAuthResponse_GetOffset x = get_or 0 (CMsgClientUpdateMachineAuthResponse_Offset x)"

record CMsgClientAccountInfo =
  CMsgClientAccountInfo_PersonaName :: "string option"
  CMsgClientAccountInfo_IpCountry :: "string option"
  CMsgClientAccountInfo_CountAuthedComputers :: "i32 option"
  CMsgClientAccountInfo_AccountFlags :: "u32 option"
  CMsgClientAccountInfo_FacebookId :: "u64 option"
  CMsgClientAccountInfo_FacebookName :: "string option"
  CMsgClientAccountInfo_SteamguardNotifyNewmachines :: "bool option"
  CMsgClientAccountInfo_SteamguardMachineNameUserChosen :: "string option"
  CMsgClientAccountInfo_IsPhoneVerified :: "bool option"
  CMsgClientAccountInfo_TwoFactorState :: "u32 option"
  CMsgClientAccountInfo_IsPhoneIdentifying :: "bool option"
  CMsgClientAccountInfo_IsPhoneNeedingReverify :: "bool option"

definition NewCMsgClientAccountInfo :: CMsgClientAccountInfo where
  "NewCMsgClientAccountInfo = \<lparr>
     CMsgClientAccountInfo_PersonaName = None, CMsgClientAccountInfo_IpCountry = None,
     CMsgClientAccountInfo_CountAuthedComputers = None,
     CMsgClientAccountInfo_AccountFlags = None, CMsgClientAccountInfo_FacebookId = None,
     CMsgClientAccountInfo_FacebookName = None,
     CMsgClientAccountInfo_SteamguardNotifyNewmachines = None,
     CMsgClientAccountInfo_SteamguardMachineNameUserChosen = None,
     CMsgClientAccountInfo_IsPhoneVerified = None,
     CMsgClientAccountInfo_TwoFactorState = None,
     CMsgClientAccountInfo_IsPhoneIdentifying = None,
     CMsgClientAccountInfo_IsPhoneNeedingReverify = None\<rparr>"

definition CMsgClientAccountInfo_GetPersonaName :: "CMsgClientAccountInfo \<Rightarrow> string" where
  "CMsgClientAccountInfo_GetPersonaName x = get_or '''' (CMsgClientAccountInfo_PersonaName x)"

definition CMsgClientAccountInfo_GetIpCountry :: "CMsgClientAccountInfo \<Rightarrow> string" where
  "CMsgClientAccountInfo_GetIpCountry x = get_or '''' (CMsgClientAccountInfo_IpCountry x)"

definition CMsgClientAccountInfo_GetCountAuthedComputers :: "CMsgClientAccountInfo \<Rightarrow> i32" where
  "CMsgClientAccountInfo_GetCountAuthedComputers x = get_or 0 (CMsgClientAccountInfo_CountAuthedComputers x)"

definition CMsgClientAccountInfo_GetAccountFlags :: "CMsgClientAccountInfo \<Rightarrow> u32" where
  "CMsgClientAccountInfo_GetAccountFlags x = get_or 0 (CMsgClientAccountInfo_AccountFlags x)"

definition CMsgClientAccountInfo_GetFacebookId :: "CMsgClientAccountInfo \<Rightarrow> u64" where
  "CMsgClientAccountInfo_GetFacebookId x = get_or 0 (CMsgClientAccountInfo_FacebookId x)"

definition CMsgClientAccountInfo_GetFacebookName :: "CMsgClientAccountInfo \<Rightarrow> string" where
  "CMsgClientAccountInfo_GetFacebookName x = get_or '''' (CMsgClientAccountInfo_FacebookName x)"

record CMsgClientRequestWebAPIAuthenticateUserNonce =
  CMsgClientRequestWebAPIAuthenticateUserNonce_TokenType :: "i32 option"

definition NewCMsgClientRequestWebAPIAuthenticateUserNonce :: CMsgClientRequestWebAPIAuthenticateUserNonce where
  "NewCMsgClientRequestWebAPIAuthenticateUserNonce = \<lparr>
     CMsgClientRequestWebAPIAuthenticateUserNonce_TokenType = None\<rparr>"

record CMsgClientRequestWebAPIAuthenticateUserNonceResponse =
  CMsgClientRequestWebAPIAuthenticateUserNonceResponse_Eresult :: "i32 option"
  CMsgClientRequestWebAPIAuthenticateUserNonceResponse_WebapiAuthenticateUserNonce :: "string option"
  CMsgClientRequestWebAPIAuthenticateUserNonceResponse_TokenType :: "i32 option"

definition NewCMsgClientRequestWebAPIAuthenticateUserNonceResponse :: CMsgClientRequestWebAPIAuthenticateUserNonceResponse where
  "NewCMsgClientRequestWebAPIAuthenticateUserNonceResponse = \<lparr>
     CMsgClientRequestWebAPIAuthenticateUserNonceResponse_Eresult = None,
     CMsgClientRequestWebAPIAuthenticateUserNonceResponse_WebapiAuthenticateUserNonce = None,
     CMsgClientRequestWebAPIAuthenticateUserNonceResponse_TokenType = None\<rparr>"

definition CMsgClientRequestWebAPIAuthenticateUserNonceResponse_GetEresult :: "CMsgClientRequestWebAPIAuthenticateUserNonceResponse \<Rightarrow> i32" where
  "CMsgClientRequestWebAPIAuthenticateUserNonceResponse_GetEresult x = get_or 2 (CMsgClientRequestWebAPIAuthenticateUserNonceResponse_Eresult x)"

definition CMsgClientRequestWebAPIAuthenticateUserNonceResponse_GetWebapiAuthenticateUserNonce :: "CMsgClientRequestWebAPIAuthenticateUserNonceResponse \<Rightarrow> string" where
  "CMsgClientRequestWebAPIAuthenticateUserNonceResponse_GetWebapiAuthenticateUserNonce x = get_or '''' (CMsgClientRequestWebAPIAuthenticateUserNonceResponse_WebapiAuthenticateUserNonce x)"

record CMsgClientCMList =
  CMsgClientCMList_CmAddresses :: "u32 list"
  CMsgClientCMList_CmPorts :: "u32 list"
  CMsgClientCMList_CmWebsocketAddresses :: "string list"
  CMsgClientCMList_PercentDefaultToWebsocket :: "u32 option"

definition NewCMsgClientCMList :: CMsgClientCMList where
  "NewCMsgClientCMList = \<lparr>
     CMsgClientCMList_CmAddresses = [], CMsgClientCMList_CmPorts = [],
     CMsgClientCMList_CmWebsocketAddresses = [],
     CMsgClientCMList_PercentDefaultToWebsocket = None\<rparr>"

record CMsgClientUserNotifications_Notification =
  CMsgClientUserNotifications_Notification_UserNotificationType :: "u32 option"
  CMsgClientUserNotifications_Notification_Count :: "u32 option"

definition NewCMsgClientUserNotifications_Notification :: CMsgClientUserNotifications_Notification where
  "NewCMsgClientUserNotifications_Notification = \<lparr>
     CMsgClientUserNotifications_Notification_UserNotificationType = None,
     CMsgClientUserNotifications_Notification_Count = None\<rparr>"

record CMsgClientUserNotifications =
  CMsgClientUserNotifications_Notifications :: "CMsgClientUserNotifications_Notification list"

definition NewCMsgClientUserNotifications :: CMsgClientUserNotifications where
  "NewCMsgClientUserNotifications = \<lparr>
     CMsgClientUserNotifications_Notifications = []\<rparr>"

record CMsgTrading_InitiateTradeRequest =
  CMsgTrading_InitiateTradeRequest_TradeRequestId :: "u32 option"
  CMsgTrading_InitiateTradeRequest_OtherSteamid :: "u64 option"
  CMsgTrading_InitiateTradeRequest_OtherName :: "string option"

definition NewCMsgTrading_InitiateTradeRequest :: CMsgTrading_InitiateTradeRequest where
  "NewCMsgTrading_InitiateTradeRequest = \<lparr>
     CMsgTrading_InitiateTradeRequest_TradeRequestId = None,
     CMsgTrading_InitiateTradeRequest_OtherSteamid = None,
     CMsgTrading_InitiateTradeRequest_OtherName = None\<rparr>"

definition CMsgTrading_InitiateTradeRequest_GetTradeRequestId :: "CMsgTrading_InitiateTradeRequest \<Rightarrow> u32" where
  "CMsgTrading_InitiateTradeRequest_GetTradeRequestId x = get_or 0 (CMsgTrading_InitiateTradeRequest_TradeRequestId x)"

definition CMsgTrading_InitiateTradeRequest_GetOtherSteamid :: "CMsgTrading_InitiateTradeRequest \<Rightarrow> u64" where
  "CMsgTrading_InitiateTradeRequest_GetOtherSteamid x = get_or 0 (CMsgTrading_InitiateTradeRequest_OtherSteamid x)"

record CMsgTrading_InitiateTradeResponse =
  CMsgTrading_InitiateTradeResponse_Response :: "u32 option"
  CMsgTrading_InitiateTradeResponse_TradeRequestId :: "u32 option"
  CMsgTrading_InitiateTradeResponse_OtherSteamid :: "u64 option"
  CMsgTrading_InitiateTradeResponse_SteamguardRequiredDays :: "u32 option"
  CMsgTrading_InitiateTradeResponse_NewDeviceCooldownDays :: "u32 option"
  CMsgTrading_InitiateTradeResponse_DefaultPasswordResetProbationDays :: "u32 option"
  CMsgTrading_InitiateTradeResponse_PasswordResetProbationDays :: "u32 option"
  CMsgTrading_InitiateTradeResponse_DefaultEmailChangeProbationDays :: "u32 option"
  CMsgTrading_InitiateTradeResponse_EmailChangeProbationDays :: "u32 option"

definition NewCMsgTrading_InitiateTradeResponse :: CMsgTrading_InitiateTradeResponse where
  "NewCMsgTrading_InitiateTradeResponse = \<lparr>
     CMsgTrading_InitiateTradeResponse_Response = None,
     CMsgTrading_InitiateTradeResponse_TradeRequestId = None,
     CMsgTrading_InitiateTradeResponse_OtherSteamid = None,
     CMsgTrading_InitiateTradeResponse_SteamguardRequiredDays = None,
     CMsgTrading_InitiateTradeResponse_NewDeviceCooldownDays = None,
     CMsgTrading_InitiateTradeResponse_DefaultPasswordResetProbationDays = None,
     CMsgTrading_InitiateTradeResponse_PasswordResetProbationDays = None,
     CMsgTrading_InitiateTradeResponse_DefaultEmailChangeProbationDays = None,
     CMsgTrading_InitiateTradeResponse_EmailChangeProbationDays = None\<rparr>"

definition CMsgTrading_InitiateTradeResponse_GetResponse :: "CMsgTrading_InitiateTradeResponse \<Rightarrow> u32" where
  "CMsgTrading_InitiateTradeResponse_GetResponse x = get_or 0 (CMsgTrading_InitiateTradeResponse_Response x)"

definition CMsgTrading_InitiateTradeResponse_GetTradeRequestId :: "CMsgTrading_InitiateTradeResponse \<Rightarrow> u32" where
  "CMsgTrading_InitiateTradeResponse_GetTradeRequestId x = get_or 0 (CMsgTrading_InitiateTradeResponse_TradeRequestId x)"

definition CMsgTrading_InitiateTradeResponse_GetOtherSteamid :: "CMsgTrading_InitiateTradeResponse \<Rightarrow> u64" where
  "CMsgTrading_InitiateTradeResponse_GetOtherSteamid x = get_or 0 (CMsgTrading_InitiateTradeResponse_OtherSteamid x)"

definition CMsgTrading_InitiateTradeResponse_GetSteamguardRequiredDays :: "CMsgTrading_InitiateTradeResponse \<Rightarrow> u32" where
  "CMsgTrading_InitiateTradeResponse_GetSteamguardRequiredDays x = get_or 0 (CMsgTrading_InitiateTradeResponse_SteamguardRequiredDays x)"

definition CMsgTrading_InitiateTradeResponse_GetNewDeviceCooldownDays :: "CMsgTrading_InitiateTradeResponse \<Rightarrow> u32" where
  "CMsgTrading_InitiateTradeResponse_GetNewDeviceCooldownDays x = get_or 0 (CMsgTrading_InitiateTradeResponse_NewDeviceCooldownDays x)"

definition CMsgTrading_InitiateTradeResponse_GetDefaultPasswordResetProbationDays :: "CMsgTrading_InitiateTradeResponse \<Rightarrow> u32" where
  "CMsgTrading_InitiateTradeResponse_GetDefaultPasswordResetProbationDays x = get_or 0 (CMsgTrading_InitiateTradeResponse_DefaultPasswordResetProbationDays x)"

definition CMsgTrading_InitiateTradeResponse_GetPasswordResetProbationDays :: "CMsgTrading_InitiateTradeResponse \<Rightarrow> u32" where
  "CMsgTrading_InitiateTradeResponse_GetPasswordResetProbationDays x = get_or 0 (CMsgTrading_InitiateTradeResponse_PasswordResetProbationDays x)"

record CMsgTrading_CancelTradeRequest =
  CMsgTrading_CancelTradeRequest_OtherSteamid :: "u64 option"

definition NewCMsgTrading_CancelTradeRequest :: CMsgTrading_CancelTradeRequest where
  "NewCMsgTrading_CancelTradeRequest = \<lparr>
     CMsgTrading_CancelTradeRequest_OtherSteamid = None\<rparr>"

definition CMsgTrading_CancelTradeRequest_GetOtherSteamid :: "CMsgTrading_CancelTradeRequest \<Rightarrow> u64" where
  "CMsgTrading_CancelTradeRequest_GetOtherSteamid x = get_or 0 (CMsgTrading_CancelTradeRequest_OtherSteamid x)"

record CMsgTrading_StartSession =
  CMsgTrading_StartSession_OtherSteamid :: "u64 option"

definition NewCMsgTrading_StartSession :: CMsgTrading_StartSession where
  "NewCMsgTrading_StartSession = \<lparr>
     CMsgTrading_StartSession_OtherSteamid = None\<rparr>"

definition CMsgTrading_StartSession_GetOtherSteamid :: "CMsgTrading_StartSession \<Rightarrow> u64" where
  "CMsgTrading_StartSession_GetOtherSteamid x = get_or 0 (CMsgTrading_StartSession_OtherSteamid x)"

lemmas Pb_Client_getters [pb_get] =
  CMsgProtoBufHeader_GetSteamid_def
  CMsgProtoBufHeader_GetClientSessionid_def
  CMsgProtoBufHeader_GetJobidSource_def
  CMsgProtoBufHeader_GetJobidTarget_def
  CMsgProtoBufHeader_GetEresult_def
  CMsgMulti_GetSizeUnzipped_def
  CMsgMulti_GetMessageBody_def
  CMsgGCClient_GetAppid_def
  CMsgGCClient_GetMsgtype_def
  CMsgGCClient_GetPayload_def
  CMsgGCClient_GetSteamid_def
  CMsgGCClient_GetGcname_def
  CMsgClientSecret_GetAppid_def
  CMsgClientLogon_GetCellId_def
  CMsgClientLogon_GetDeprecatedPublicIp_def
  CMsgClientLogon_GetAccountName_def
  CMsgClientLogon_GetLoginKey_def
  CMsgClientLogon_GetAccessToken_def
  CMsgClientLogonResponse_GetEresult_def
  CMsgClientLogonResponse_GetOutOfGameHeartbeatSeconds_def
  CMsgClientLogonResponse_GetInGameHeartbeatSeconds_def
  CMsgClientLogonResponse_GetDeprecatedPublicIp_def
  CMsgClientLogonResponse_GetRtime32ServerTime_def
  CMsgClientLogonResponse_GetAccountFlags_def
  CMsgClientLogonResponse_GetCellId_def
  CMsgClientLogonResponse_GetEmailDomain_def
  CMsgClientLogonResponse_GetSteam2Ticket_def
  CMsgClientLogonResponse_GetEresultExtended_def
  CMsgClientLogonResponse_GetWebapiAuthenticateUserNonce_def
  CMsgClientLogonResponse_GetCellIdPingThreshold_def
  CMsgClientLogonResponse_GetDeprecatedUsePics_def
  CMsgClientLogonResponse_GetVanityUrl_def
  CMsgClientLogonResponse_GetClientSuppliedSteamid_def
  CMsgClientLogonResponse_GetIpCountryCode_def
  CMsgClientLogonResponse_GetCountLoginfailuresToMigrate_def
  CMsgClientLogonResponse_GetCountDisconnectsToMigrate_def
  CMsgClientNewLoginKey_GetUniqueId_def
  CMsgClientNewLoginKey_GetLoginKey_def
  CMsgClientNewLoginKeyAccepted_GetUniqueId_def
  CMsgClientLoggedOff_GetEresult_def
  CMsgClientUpdateMachineAuth_GetFilename_def
  CMsgClientUpdateMachineAuth_GetOffset_def
  CMsgClientUpdateMachineAuth_GetCubtowrite_def
  CMsgClientUpdateMachineAuth_GetBytes_def
  CMsgClientUpdateMachineAuthResponse_GetFilename_def
  CMsgClientUpdateMachineAuthResponse_GetEresult_def
  CMsgClientUpdateMachineAuthResponse_GetOffset_def
  CMsgClientAccountInfo_GetPersonaName_def
  CMsgClientAccountInfo_GetIpCountry_def
  CMsgClientAccountInfo_GetCountAuthedComputers_def
  CMsgClientAccountInfo_GetAccountFlags_def
  CMsgClientAccountInfo_GetFacebookId_def
  CMsgClientAccountInfo_GetFacebookName_def
  CMsgClientRequestWebAPIAuthenticateUserNonceResponse_GetEresult_def
  CMsgClientRequestWebAPIAuthenticateUserNonceResponse_GetWebapiAuthenticateUserNonce_def
  CMsgTrading_InitiateTradeRequest_GetTradeRequestId_def
  CMsgTrading_InitiateTradeRequest_GetOtherSteamid_def
  CMsgTrading_InitiateTradeResponse_GetResponse_def
  CMsgTrading_InitiateTradeResponse_GetTradeRequestId_def
  CMsgTrading_InitiateTradeResponse_GetOtherSteamid_def
  CMsgTrading_InitiateTradeResponse_GetSteamguardRequiredDays_def
  CMsgTrading_InitiateTradeResponse_GetNewDeviceCooldownDays_def
  CMsgTrading_InitiateTradeResponse_GetDefaultPasswordResetProbationDays_def
  CMsgTrading_InitiateTradeResponse_GetPasswordResetProbationDays_def
  CMsgTrading_CancelTradeRequest_GetOtherSteamid_def
  CMsgTrading_StartSession_GetOtherSteamid_def

end
