(* ===== verification/Pb_Social.thy ===== *)
theory Pb_Social
  imports Pb_Client
begin

text \<open>
  The generated protobuf structs of \<open>protocol/protobuf\<close>, continued: games played, friends and chat,
  and the messages of the credential log-on in \<open>protocol/protobuf/unified\<close>.
\<close>

record CMsgClientGamesPlayed_GamePlayed =
  CMsgClientGamesPlayed_GamePlayed_SteamIdGs :: "u64 option"
  CMsgClientGamesPlayed_GamePlayed_GameId :: "u64 option"
  CMsgClientGamesPlayed_GamePlayed_DeprecatedGameIpAddress :: "u32 option"
  CMsgClientGamesPlayed_GamePlayed_GamePort :: "u32 option"
  CMsgClientGamesPlayed_GamePlayed_IsSecure :: "bool option"
  CMsgClientGamesPlayed_GamePlayed_Token :: "bytes option"
  CMsgClientGamesPlayed_GamePlayed_GameExtraInfo :: "string option"
  CMsgClientGamesPlayed_GamePlayed_GameDataBlob :: "bytes option"
  CMsgClientGamesPlayed_GamePlayed_ProcessId :: "u32 option"
  CMsgClientGamesPlayed_GamePlayed_StreamingProviderId :: "u32 option"
  CMsgClientGamesPlayed_GamePlayed_GameFlags :: "u32 option"
  CMsgClientGamesPlayed_GamePlayed_OwnerId :: "u32 option"
  CMsgClientGamesPlayed_GamePlayed_VrHmdVendor :: "string option"
  CMsgClientGamesPlayed_GamePlayed_VrHmdModel :: "string option"
  CMsgClientGamesPlayed_GamePlayed_LaunchOptionType :: "u32 option"
  CMsgClientGamesPlayed_GamePlayed_PrimaryControllerType :: "i32 option"
  CMsgClientGamesPlayed_GamePlayed_PrimarySteamControllerSerial :: "string option"
  CMsgClientGamesPlayed_GamePlayed_TotalSteamControllerCount :: "u32 option"
  CMsgClientGamesPlayed_GamePlayed_TotalNonSteamControllerCount :: "u32 option"
  CMsgClientGamesPlayed_GamePlayed_ControllerWorkshopFileId :: "u64 option"
  CMsgClientGamesPlayed_GamePlayed_LaunchSource :: "u32 option"
  CMsgClientGamesPlayed_GamePlayed_VrHmdRuntime :: "u32 option"
  CMsgClientGamesPlayed_GamePlayed_GameIpAddress :: "CMsgIPAddress option"
  CMsgClientGamesPlayed_GamePlayed_ControllerConnectionType :: "u32 option"

definition NewCMsgClientGamesPlayed_GamePlayed :: CMsgClientGamesPlayed_GamePlayed where
  "NewCMsgClientGamesPlayed_GamePlayed = \<lparr>
     CMsgClientGamesPlayed_GamePlayed_SteamIdGs = None,
     CMsgClientGamesPlayed_GamePlayed_GameId = None,
     CMsgClientGamesPlayed_GamePlayed_DeprecatedGameIpAddress = None,
     CMsgClientGamesPlayed_GamePlayed_GamePort = None,
     CMsgClientGamesPlayed_GamePlayed_IsSecure = None,
     CMsgClientGamesPlayed_GamePlayed_Token = None,
     CMsgClientGamesPlayed_GamePlayed_GameExtraInfo = None,
     CMsgClientGamesPlayed_GamePlayed_GameDataBlob = None,
     CMsgClientGamesPlayed_GamePlayed_ProcessId = None,
     CMsgClientGamesPlayed_GamePlayed_StreamingProviderId = None,
     CMsgClientGamesPlayed_GamePlayed_GameFlags = None,
     CMsgClientGamesPlayed_GamePlayed_OwnerId = None,
     CMsgClientGamesPlayed_GamePlayed_VrHmdVendor = None,
     CMsgClientGamesPlayed_GamePlayed_VrHmdModel = None,
     CMsgClientGamesPlayed_GamePlayed_LaunchOptionType = None,
     CMsgClientGamesPlayed_GamePlayed_PrimaryControllerType = None,
     CMsgClientGamesPlayed_GamePlayed_PrimarySteamControllerSerial = None,
     CMsgClientGamesPlayed_GamePlayed_TotalSteamControllerCount = None,
     CMsgClientGamesPlayed_GamePlayed_TotalNonSteamControllerCount = None,
     CMsgClientGamesPlayed_GamePlayed_ControllerWorkshopFileId = None,
     CMsgClientGamesPlayed_GamePlayed_LaunchSource = None,
     CMsgClientGamesPlayed_GamePlayed_VrHmdRuntime = None,
     CMsgClientGamesPlayed_GamePlayed_GameIpAddress = None,
     CMsgClientGamesPlayed_GamePlayed_ControllerConnectionType = None\<rparr>"

definition CMsgClientGamesPlayed_GamePlayed_GetGameId :: "CMsgClientGamesPlayed_GamePlayed \<Rightarrow> u64" where
  "CMsgClientGamesPlayed_GamePlayed_GetGameId x = get_or 0 (CMsgClientGamesPlayed_GamePlayed_GameId x)"

definition CMsgClientGamesPlayed_GamePlayed_GetGameDataBlob :: "CMsgClientGamesPlayed_GamePlayed \<Rightarrow> bytes" where
  "CMsgClientGamesPlayed_GamePlayed_GetGameDataBlob x = get_or [] (CMsgClientGamesPlayed_GamePlayed_GameDataBlob x)"

record CMsgClientGamesPlayed =
  CMsgClientGamesPlayed_GamesPlayed :: "CMsgClientGamesPlayed_GamePlayed list"
  CMsgClientGamesPlayed_ClientOsType :: "u32 option"
  CMsgClientGamesPlayed_CloudGamingPlatform :: "u32 option"

definition NewCMsgClientGamesPlayed :: CMsgClientGamesPlayed where
  "NewCMsgClientGamesPlayed = \<lparr>
     CMsgClientGamesPlayed_GamesPlayed = [], CMsgClientGamesPlayed_ClientOsType = None,
     CMsgClientGamesPlayed_CloudGamingPlatform = None\<rparr>"

record CMsgClientChangeStatus =
  CMsgClientChangeStatus_PersonaState :: "u32 option"
  CMsgClientChangeStatus_PlayerName :: "string option"
  CMsgClientChangeStatus_IsAutoGeneratedName :: "bool option"
  CMsgClientChangeStatus_HighPriority :: "bool option"
  CMsgClientChangeStatus_PersonaSetByUser :: "bool option"
  CMsgClientChangeStatus_PersonaStateFlags :: "u32 option"
  CMsgClientChangeStatus_NeedPersonaResponse :: "bool option"
  CMsgClientChangeStatus_IsClientIdle :: "bool option"

definition NewCMsgClientChangeStatus :: CMsgClientChangeStatus where
  "NewCMsgClientChangeStatus = \<lparr>
     CMsgClientChangeStatus_PersonaState = None, CMsgClientChangeStatus_PlayerName = None,
     CMsgClientChangeStatus_IsAutoGeneratedName = None,
     CMsgClientChangeStatus_HighPriority = None,
     CMsgClientChangeStatus_PersonaSetByUser = None,
     CMsgClientChangeStatus_PersonaStateFlags = None,
     CMsgClientChangeStatus_NeedPersonaResponse = None,
     CMsgClientChangeStatus_IsClientIdle = None\<rparr>"

definition CMsgClientChangeStatus_GetPersonaState :: "CMsgClientChangeStatus \<Rightarrow> u32" where
  "CMsgClientChangeStatus_GetPersonaState x = get_or 0 (CMsgClientChangeStatus_PersonaState x)"

definition CMsgClientChangeStatus_GetPlayerName :: "CMsgClientChangeStatus \<Rightarrow> string" where
  "CMsgClientChangeStatus_GetPlayerName x = get_or '''' (CMsgClientChangeStatus_PlayerName x)"

definition CMsgClientChangeStatus_GetPersonaSetByUser :: "CMsgClientChangeStatus \<Rightarrow> bool" where
  "CMsgClientChangeStatus_GetPersonaSetByUser x = get_or False (CMsgClientChangeStatus_PersonaSetByUser x)"

definition CMsgClientChangeStatus_GetPersonaStateFlags :: "CMsgClientChangeStatus \<Rightarrow> u32" where
  "CMsgClientChangeStatus_GetPersonaStateFlags x = get_or 0 (CMsgClientChangeStatus_PersonaStateFlags x)"

record CMsgClientFriendMsg =
  CMsgClientFriendMsg_Steamid :: "u64 option"
  CMsgClientFriendMsg_ChatEntryType :: "i32 option"
  CMsgClientFriendMsg_Message :: "bytes option"
  CMsgClientFriendMsg_Rtime32ServerTimestamp :: "u32 option"
  CMsgClientFriendMsg_EchoToSender :: "bool option"

definition NewCMsgClientFriendMsg :: CMsgClientFriendMsg where
  "NewCMsgClientFriendMsg = \<lparr>
     CMsgClientFriendMsg_Steamid = None, CMsgClientFriendMsg_ChatEntryType = None,
     CMsgClientFriendMsg_Message = None, CMsgClientFriendMsg_Rtime32ServerTimestamp = None,
     CMsgClientFriendMsg_EchoToSender = None\<rparr>"

definition CMsgClientFriendMsg_GetSteamid :: "CMsgClientFriendMsg \<Rightarrow> u64" where
  "CMsgClientFriendMsg_GetSteamid x = get_or 0 (CMsgClientFriendMsg_Steamid x)"

definition CMsgClientFriendMsg_GetChatEntryType :: "CMsgClientFriendMsg \<Rightarrow> i32" where
  "CMsgClientFriendMsg_GetChatEntryType x = get_or 0 (CMsgClientFriendMsg_ChatEntryType x)"

definition CMsgClientFriendMsg_GetMessage :: "CMsgClientFriendMsg \<Rightarrow> bytes" where
  "CMsgClientFriendMsg_GetMessage x = get_or [] (CMsgClientFriendMsg_Message x)"

definition CMsgClientFriendMsg_GetRtime32ServerTimestamp :: "CMsgClientFriendMsg \<Rightarrow> u32" where
  "CMsgClientFriendMsg_GetRtime32ServerTimestamp x = get_or 0 (CMsgClientFriendMsg_Rtime32ServerTimestamp x)"

record CMsgClientAddFriend =
  CMsgClientAddFriend_SteamidToAdd :: "u64 option"
  CMsgClientAddFriend_AccountnameOrEmailToAdd :: "string option"

definition NewCMsgClientAddFriend :: CMsgClientAddFriend where
  "NewCMsgClientAddFriend = \<lparr>
     CMsgClientAddFriend_SteamidToAdd = None,
     CMsgClientAddFriend_AccountnameOrEmailToAdd = None\<rparr>"

record CMsgClientRemoveFriend =
  CMsgClientRemoveFriend_Friendid :: "u64 option"

definition NewCMsgClientRemoveFriend :: CMsgClientRemoveFriend where
  "NewCMsgClientRemoveFriend = \<lparr>
     CMsgClientRemoveFriend_Friendid = None\<rparr>"

definition CMsgClientRemoveFriend_GetFriendid :: "CMsgClientRemoveFriend \<Rightarrow> u64" where
  "CMsgClientRemoveFriend_GetFriendid x = get_or 0 (CMsgClientRemoveFriend_Friendid x)"

record CMsgClientRequestFriendData =
  CMsgClientRequestFriendData_PersonaStateRequested :: "u32 option"
  CMsgClientRequestFriendData_Friends :: "u64 list"

definition NewCMsgClientRequestFriendData :: CMsgClientRequestFriendData where
  "NewCMsgClientRequestFriendData = \<lparr>
     CMsgClientRequestFriendData_PersonaStateRequested = None,
     CMsgClientRequestFriendData_Friends = []\<rparr>"

record CMsgClientFriendProfileInfo =
  CMsgClientFriendProfileInfo_SteamidFriend :: "u64 option"

definition NewCMsgClientFriendProfileInfo :: CMsgClientFriendProfileInfo where
  "NewCMsgClientFriendProfileInfo = \<lparr>
     CMsgClientFriendProfileInfo_SteamidFriend = None\<rparr>"

definition CMsgClientFriendProfileInfo_GetSteamidFriend :: "CMsgClientFriendProfileInfo \<Rightarrow> u64" where
  "CMsgClientFriendProfileInfo_GetSteamidFriend x = get_or 0 (CMsgClientFriendProfileInfo_SteamidFriend x)"

type_synonym CMsgClientChatGetFriendMessageHistoryForOfflineMessages = unit

definition NewCMsgClientChatGetFriendMessageHistoryForOfflineMessages :: CMsgClientChatGetFriendMessageHistoryForOfflineMessages where "NewCMsgClientChatGetFriendMessageHistoryForOfflineMessages = ()"

record CMsgClientFriendsList_Friend =
  CMsgClientFriendsList_Friend_Ulfriendid :: "u64 option"
  CMsgClientFriendsList_Friend_Efriendrelationship :: "u32 option"

definition NewCMsgClientFriendsList_Friend :: CMsgClientFriendsList_Friend where
  "NewCMsgClientFriendsList_Friend = \<lparr>
     CMsgClientFriendsList_Friend_Ulfriendid = None,
     CMsgClientFriendsList_Friend_Efriendrelationship = None\<rparr>"

definition CMsgClientFriendsList_Friend_GetUlfriendid :: "CMsgClientFriendsList_Friend \<Rightarrow> u64" where
  "CMsgClientFriendsList_Friend_GetUlfriendid x = get_or 0 (CMsgClientFriendsList_Friend_Ulfriendid x)"

definition CMsgClientFriendsList_Friend_GetEfriendrelationship :: "CMsgClientFriendsList_Friend \<Rightarrow> u32" where
  "CMsgClientFriendsList_Friend_GetEfriendrelationship x = get_or 0 (CMsgClientFriendsList_Friend_Efriendrelationship x)"

record CMsgClientFriendsList =
  CMsgClientFriendsList_Bincremental :: "bool option"
  CMsgClientFriendsList_Friends :: "CMsgClientFriendsList_Friend list"
  CMsgClientFriendsList_MaxFriendCount :: "u32 option"
  CMsgClientFriendsList_ActiveFriendCount :: "u32 option"
  CMsgClientFriendsList_FriendsLimitHit :: "bool option"

definition NewCMsgClientFriendsList :: CMsgClientFriendsList where
  "NewCMsgClientFriendsList = \<lparr>
     CMsgClientFriendsList_Bincremental = None, CMsgClientFriendsList_Friends = [],
     CMsgClientFriendsList_MaxFriendCount = None,
     CMsgClientFriendsList_ActiveFriendCount = None,
     CMsgClientFriendsList_FriendsLimitHit = None\<rparr>"

definition CMsgClientFriendsList_GetBincremental :: "CMsgClientFriendsList \<Rightarrow> bool" where
  "CMsgClientFriendsList_GetBincremental x = get_or False (CMsgClientFriendsList_Bincremental x)"

record CMsgClientPersonaState_Friend_ClanData =
  CMsgClientPersonaState_Friend_ClanData_OggAppId :: "u32 option"
  CMsgClientPersonaState_Friend_ClanData_ChatGroupId :: "u64 option"

definition NewCMsgClientPersonaState_Friend_ClanData :: CMsgClientPersonaState_Friend_ClanData where
  "NewCMsgClientPersonaState_Friend_ClanData = \<lparr>
     CMsgClientPersonaState_Friend_ClanData_OggAppId = None,
     CMsgClientPersonaState_Friend_ClanData_ChatGroupId = None\<rparr>"

record CMsgClientPersonaState_Friend_KV =
  CMsgClientPersonaState_Friend_KV_Key :: "string option"
  CMsgClientPersonaState_Friend_KV_Value :: "string option"

definition NewCMsgClientPersonaState_Friend_KV :: CMsgClientPersonaState_Friend_KV where
  "NewCMsgClientPersonaState_Friend_KV = \<lparr>
     CMsgClientPersonaState_Friend_KV_Key = None,
     CMsgClientPersonaState_Friend_KV_Value = None\<rparr>"

record CMsgClientPersonaState_Friend =
  CMsgClientPersonaState_Friend_Friendid :: "u64 option"
  CMsgClientPersonaState_Friend_PersonaState :: "u32 option"
  CMsgClientPersonaState_Friend_GamePlayedAppId :: "u32 option"
  CMsgClientPersonaState_Friend_GameServerIp :: "u32 option"
  CMsgClientPersonaState_Friend_GameServerPort :: "u32 option"
  CMsgClientPersonaState_Friend_PersonaStateFlags :: "u32 option"
  CMsgClientPersonaState_Friend_OnlineSessionInstances :: "u32 option"
  CMsgClientPersonaState_Friend_PersonaSetByUser :: "bool option"
  CMsgClientPersonaState_Friend_PlayerName :: "string option"
  CMsgClientPersonaState_Friend_QueryPort :: "u32 option"
  CMsgClientPersonaState_Friend_SteamidSource :: "u64 option"
  CMsgClientPersonaState_Friend_AvatarHash :: "bytes option"
  CMsgClientPersonaState_Friend_LastLogoff :: "u32 option"
  CMsgClientPersonaState_Friend_LastLogon :: "u32 option"
  CMsgClientPersonaState_Friend_LastSeenOnline :: "u32 option"
  CMsgClientPersonaState_Friend_ClanRank :: "u32 option"
  CMsgClientPersonaState_Friend_GameName :: "string option"
  CMsgClientPersonaState_Friend_Gameid :: "u64 option"
  CMsgClientPersonaState_Friend_GameDataBlob :: "bytes option"
  CMsgClientPersonaState_Friend_ClanData :: "CMsgClientPersonaState_Friend_ClanData option"
  CMsgClientPersonaState_Friend_ClanTag :: "string option"
  CMsgClientPersonaState_Friend_RichPresence :: "CMsgClientPersonaState_Friend_KV list"
  CMsgClientPersonaState_Friend_BroadcastId :: "u64 option"
  CMsgClientPersonaState_Friend_GameLobbyId :: "u64 option"
  CMsgClientPersonaState_Friend_WatchingBroadcastAccountid :: "u32 option"
  CMsgClientPersonaState_Friend_WatchingBroadcastAppid :: "u32 option"
  CMsgClientPersonaState_Friend_WatchingBroadcastViewers :: "u32 option"
  CMsgClientPersonaState_Friend_WatchingBroadcastTitle :: "string option"

definition NewCMsgClientPersonaState_Friend :: CMsgClientPersonaState_Friend where
  "NewCMsgClientPersonaState_Friend = \<lparr>
     CMsgClientPersonaState_Friend_Friendid = None,
     CMsgClientPersonaState_Friend_PersonaState = None,
     CMsgClientPersonaState_Friend_GamePlayedAppId = None,
     CMsgClientPersonaState_Friend_GameServerIp = None,
     CMsgClientPersonaState_Friend_GameServerPort = None,
     CMsgClientPersonaState_Friend_PersonaStateFlags = None,
     CMsgClientPersonaState_Friend_OnlineSessionInstances = None,
     CMsgClientPersonaState_Friend_PersonaSetByUser = None,
     CMsgClientPersonaState_Friend_PlayerName = None,
     CMsgClientPersonaState_Friend_QueryPort = None,
     CMsgClientPersonaState_Friend_SteamidSource = None,
     CMsgClientPersonaState_Friend_AvatarHash = None,
     CMsgClientPersonaState_Friend_LastLogoff = None,
     CMsgClientPersonaState_Friend_LastLogon = None,
     CMsgClientPersonaState_Friend_LastSeenOnline = None,
     CMsgClientPersonaState_Friend_ClanRank = None,
     CMsgClientPersonaState_Friend_GameName = None,
     CMsgClientPersonaState_Friend_Gameid = None,
     CMsgClientPersonaState_Friend_GameDataBlob = None,
     CMsgClientPersonaState_Friend_ClanData = None,
     CMsgClientPersonaState_Friend_ClanTag = None,
     CMsgClientPersonaState_Friend_RichPresence = [],
     CMsgClientPersonaState_Friend_BroadcastId = None,
     CMsgClientPersonaState_Friend_GameLobbyId = None,
     CMsgClientPersonaState_Friend_WatchingBroadcastAccountid = None,
     CMsgClientPersonaState_Friend_WatchingBroadcastAppid = None,
     CMsgClientPersonaState_Friend_WatchingBroadcastViewers = None,
     CMsgClientPersonaState_Friend_WatchingBroadcastTitle = None\<rparr>"

definition CMsgClientPersonaState_Friend_GetFriendid :: "CMsgClientPersonaState_Friend \<Rightarrow> u64" where
  "CMsgClientPersonaState_Friend_GetFriendid x = get_or 0 (CMsgClientPersonaState_Friend_Friendid x)"

definition CMsgClientPersonaState_Friend_GetPersonaState :: "CMsgClientPersonaState_Friend \<Rightarrow> u32" where
  "CMsgClientPersonaState_Friend_GetPersonaState x = get_or 0 (CMsgClientPersonaState_Friend_PersonaState x)"

definition CMsgClientPersonaState_Friend_GetGamePlayedAppId :: "CMsgClientPersonaState_Friend \<Rightarrow> u32" where
  "CMsgClientPersonaState_Friend_GetGamePlayedAppId x = get_or 0 (CMsgClientPersonaState_Friend_GamePlayedAppId x)"

definition CMsgClientPersonaState_Friend_GetGameServerIp :: "CMsgClientPersonaState_Friend \<Rightarrow> u32" where
  "CMsgClientPersonaState_Friend_GetGameServerIp x = get_or 0 (CMsgClientPersonaState_Friend_GameServerIp x)"

definition CMsgClientPersonaState_Friend_GetGameServerPort :: "CMsgClientPersonaState_Friend \<Rightarrow> u32" where
  "CMsgClientPersonaState_Friend_GetGameServerPort x = get_or 0 (CMsgClientPersonaState_Friend_GameServerPort x)"

definition CMsgClientPersonaState_Friend_GetPersonaStateFlags :: "CMsgClientPersonaState_Friend \<Rightarrow> u32" where
  "CMsgClientPersonaState_Friend_GetPersonaStateFlags x = get_or 0 (CMsgClientPersonaState_Friend_PersonaStateFlags x)"

definition CMsgClientPersonaState_Friend_GetOnlineSessionInstances :: "CMsgClientPersonaState_Friend \<Rightarrow> u32" where
  "CMsgClientPersonaState_Friend_GetOnlineSessionInstances x = get_or 0 (CMsgClientPersonaState_Friend_OnlineSessionInstances x)"

definition CMsgClientPersonaState_Friend_GetPersonaSetByUser :: "CMsgClientPersonaState_Friend \<Rightarrow> bool" where
  "CMsgClientPersonaState_Friend_GetPersonaSetByUser x = get_or False (CMsgClientPersonaState_Friend_PersonaSetByUser x)"

definition CMsgClientPersonaState_Friend_GetPlayerName :: "CMsgClientPersonaState_Friend \<Rightarrow> string" where
  "CMsgClientPersonaState_Friend_GetPlayerName x = get_or '''' (CMsgClientPersonaState_Friend_PlayerName x)"

definition CMsgClientPersonaState_Friend_GetQueryPort :: "CMsgClientPersonaState_Friend \<Rightarrow> u32" where
  "CMsgClientPersonaState_Friend_GetQueryPort x = get_or 0 (CMsgClientPersonaState_Friend_QueryPort x)"

definition CMsgClientPersonaState_Friend_GetSteamidSource :: "CMsgClientPersonaState_Friend \<Rightarrow> u64" where
  "CMsgClientPersonaState_Friend_GetSteamidSource x = get_or 0 (CMsgClientPersonaState_Friend_SteamidSource x)"

definition CMsgClientPersonaState_Friend_GetAvatarHash :: "CMsgClientPersonaState_Friend \<Rightarrow> bytes" where
  "CMsgClientPersonaState_Friend_GetAvatarHash x = get_or [] (CMsgClientPersonaState_Friend_AvatarHash x)"

definition CMsgClientPersonaState_Friend_GetLastLogoff :: "CMsgClientPersonaState_Friend \<Rightarrow> u32" where
  "CMsgClientPersonaState_Friend_GetLastLogoff x = get_or 0 (CMsgClientPersonaState_Friend_LastLogoff x)"

definition CMsgClientPersonaState_Friend_GetLastLogon :: "CMsgClientPersonaState_Friend \<Rightarrow> u32" where
  "CMsgClientPersonaState_Friend_GetLastLogon x = get_or 0 (CMsgClientPersonaState_Friend_LastLogon x)"

definition CMsgClientPersonaState_Friend_GetClanRank :: "CMsgClientPersonaState_Friend \<Rightarrow> u32" where
  "CMsgClientPersonaState_Friend_GetClanRank x = get_or 0 (CMsgClientPersonaState_Friend_ClanRank x)"

definition CMsgClientPersonaState_Friend_GetGameName :: "CMsgClientPersonaState_Friend \<Rightarrow> string" where
  "CMsgClientPersonaState_Friend_GetGameName x = get_or '''' (CMsgClientPersonaState_Friend_GameName x)"

definition CMsgClientPersonaState_Friend_GetGameid :: "CMsgClientPersonaState_Friend \<Rightarrow> u64" where
  "CMsgClientPersonaState_Friend_GetGameid x = get_or 0 (CMsgClientPersonaState_Friend_Gameid x)"

definition CMsgClientPersonaState_Friend_GetGameDataBlob :: "CMsgClientPersonaState_Friend \<Rightarrow> bytes" where
  "CMsgClientPersonaState_Friend_GetGameDataBlob x = get_or [] (CMsgClientPersonaState_Friend_GameDataBlob x)"

definition CMsgClientPersonaState_Friend_GetClanTag :: "CMsgClientPersonaState_Friend \<Rightarrow> string" where
  "CMsgClientPersonaState_Friend_GetClanTag x = get_or '''' (CMsgClientPersonaState_Friend_ClanTag x)"

record CMsgClientPersonaState =
  CMsgClientPersonaState_StatusFlags :: "u32 option"
  CMsgClientPersonaState_Friends :: "CMsgClientPersonaState_Friend list"

definition NewCMsgClientPersonaState :: CMsgClientPersonaState where
  "NewCMsgClientPersonaState = \<lparr>
     CMsgClientPersonaState_StatusFlags = None, CMsgClientPersonaState_Friends = []\<rparr>"

definition CMsgClientPersonaState_GetStatusFlags :: "CMsgClientPersonaState \<Rightarrow> u32" where
  "CMsgClientPersonaState_GetStatusFlags x = get_or 0 (CMsgClientPersonaState_StatusFlags x)"

record CMsgClientClanState_NameInfo =
  CMsgClientClanState_NameInfo_ClanName :: "string option"
  CMsgClientClanState_NameInfo_ShaAvatar :: "bytes option"

definition NewCMsgClientClanState_NameInfo :: CMsgClientClanState_NameInfo where
  "NewCMsgClientClanState_NameInfo = \<lparr>
     CMsgClientClanState_NameInfo_ClanName = None,
     CMsgClientClanState_NameInfo_ShaAvatar = None\<rparr>"

definition CMsgClientClanState_NameInfo_GetClanName :: "CMsgClientClanState_NameInfo \<Rightarrow> string" where
  "CMsgClientClanState_NameInfo_GetClanName x = get_or '''' (CMsgClientClanState_NameInfo_ClanName x)"

definition CMsgClientClanState_NameInfo_GetShaAvatar :: "CMsgClientClanState_NameInfo \<Rightarrow> bytes" where
  "CMsgClientClanState_NameInfo_GetShaAvatar x = get_or [] (CMsgClientClanState_NameInfo_ShaAvatar x)"

record CMsgClientClanState_UserCounts =
  CMsgClientClanState_UserCounts_Members :: "u32 option"
  CMsgClientClanState_UserCounts_Online :: "u32 option"
  CMsgClientClanState_UserCounts_Chatting :: "u32 option"
  CMsgClientClanState_UserCounts_InGame :: "u32 option"
  CMsgClientClanState_UserCounts_ChatRoomMembers :: "u32 option"

definition NewCMsgClientClanState_UserCounts :: CMsgClientClanState_UserCounts where
  "NewCMsgClientClanState_UserCounts = \<lparr>
     CMsgClientClanState_UserCounts_Members = None,
     CMsgClientClanState_UserCounts_Online = None,
     CMsgClientClanState_UserCounts_Chatting = None,
     CMsgClientClanState_UserCounts_InGame = None,
     CMsgClientClanState_UserCounts_ChatRoomMembers = None\<rparr>"

definition CMsgClientClanState_UserCounts_GetMembers :: "CMsgClientClanState_UserCounts \<Rightarrow> u32" where
  "CMsgClientClanState_UserCounts_GetMembers x = get_or 0 (CMsgClientClanState_UserCounts_Members x)"

definition CMsgClientClanState_UserCounts_GetOnline :: "CMsgClientClanState_UserCounts \<Rightarrow> u32" where
  "CMsgClientClanState_UserCounts_GetOnline x = get_or 0 (CMsgClientClanState_UserCounts_Online x)"

definition CMsgClientClanState_UserCounts_GetChatting :: "CMsgClientClanState_UserCounts \<Rightarrow> u32" where
  "CMsgClientClanState_UserCounts_GetChatting x = get_or 0 (CMsgClientClanState_UserCounts_Chatting x)"

definition CMsgClientClanState_UserCounts_GetInGame :: "CMsgClientClanState_UserCounts \<Rightarrow> u32" where
  "CMsgClientClanState_UserCounts_GetInGame x = get_or 0 (CMsgClientClanState_UserCounts_InGame x)"

record CMsgClientClanState_Event =
  CMsgClientClanState_Event_Gid :: "u64 option"
  CMsgClientClanState_Event_EventTime :: "u32 option"
  CMsgClientClanState_Event_Headline :: "string option"
  CMsgClientClanState_Event_GameId :: "u64 option"
  CMsgClientClanState_Event_JustPosted :: "bool option"

definition NewCMsgClientClanState_Event :: CMsgClientClanState_Event where
  "NewCMsgClientClanState_Event = \<lparr>
     CMsgClientClanState_Event_Gid = None, CMsgClientClanState_Event_EventTime = None,
     CMsgClientClanState_Event_Headline = None, CMsgClientClanState_Event_GameId = None,
     CMsgClientClanState_Event_JustPosted = None\<rparr>"

definition CMsgClientClanState_Event_GetGid :: "CMsgClientClanState_Event \<Rightarrow> u64" where
  "CMsgClientClanState_Event_GetGid x = get_or 0 (CMsgClientClanState_Event_Gid x)"

definition CMsgClientClanState_Event_GetEventTime :: "CMsgClientClanState_Event \<Rightarrow> u32" where
  "CMsgClientClanState_Event_GetEventTime x = get_or 0 (CMsgClientClanState_Event_EventTime x)"

definition CMsgClientClanState_Event_GetHeadline :: "CMsgClientClanState_Event \<Rightarrow> string" where
  "CMsgClientClanState_Event_GetHeadline x = get_or '''' (CMsgClientClanState_Event_Headline x)"

definition CMsgClientClanState_Event_GetGameId :: "CMsgClientClanState_Event \<Rightarrow> u64" where
  "CMsgClientClanState_Event_GetGameId x = get_or 0 (CMsgClientClanState_Event_GameId x)"

definition CMsgClientClanState_Event_GetJustPosted :: "CMsgClientClanState_Event \<Rightarrow> bool" where
  "CMsgClientClanState_Event_GetJustPosted x = get_or False (CMsgClientClanState_Event_JustPosted x)"

record CMsgClientClanState =
  CMsgClientClanState_SteamidClan :: "u64 option"
  CMsgClientClanState_ClanAccountFlags :: "u32 option"
  CMsgClientClanState_NameInfo :: "CMsgClientClanState_NameInfo option"
  CMsgClientClanState_UserCounts :: "CMsgClientClanState_UserCounts option"
  CMsgClientClanState_Events :: "CMsgClientClanState_Event list"
  CMsgClientClanState_Announcements :: "CMsgClientClanState_Event list"
  CMsgClientClanState_ChatRoomPrivate :: "bool option"

definition NewCMsgClientClanState :: CMsgClientClanState where
  "NewCMsgClientClanState = \<lparr>
     CMsgClientClanState_SteamidClan = None, CMsgClientClanState_ClanAccountFlags = None,
     CMsgClientClanState_NameInfo = None, CMsgClientClanState_UserCounts = None,
     CMsgClientClanState_Events = [], CMsgClientClanState_Announcements = [],
     CMsgClientClanState_ChatRoomPrivate = None\<rparr>"

definition CMsgClientClanState_GetSteamidClan :: "CMsgClientClanState \<Rightarrow> u64" where
  "CMsgClientClanState_GetSteamidClan x = get_or 0 (CMsgClientClanState_SteamidClan x)"

definition CMsgClientClanState_GetClanAccountFlags :: "CMsgClientClanState \<Rightarrow> u32" where
  "CMsgClientClanState_GetClanAccountFlags x = get_or 0 (CMsgClientClanState_ClanAccountFlags x)"

record CMsgClientAddFriendResponse =
  CMsgClientAddFriendResponse_Eresult :: "i32 option"
  CMsgClientAddFriendResponse_SteamIdAdded :: "u64 option"
  CMsgClientAddFriendResponse_PersonaNameAdded :: "string option"

definition NewCMsgClientAddFriendResponse :: CMsgClientAddFriendResponse where
  "NewCMsgClientAddFriendResponse = \<lparr>
     CMsgClientAddFriendResponse_Eresult = None,
     CMsgClientAddFriendResponse_SteamIdAdded = None,
     CMsgClientAddFriendResponse_PersonaNameAdded = None\<rparr>"

definition CMsgClientAddFriendResponse_GetEresult :: "CMsgClientAddFriendResponse \<Rightarrow> i32" where
  "CMsgClientAddFriendResponse_GetEresult x = get_or 2 (CMsgClientAddFriendResponse_Eresult x)"

definition CMsgClientAddFriendResponse_GetSteamIdAdded :: "CMsgClientAddFriendResponse \<Rightarrow> u64" where
  "CMsgClientAddFriendResponse_GetSteamIdAdded x = get_or 0 (CMsgClientAddFriendResponse_SteamIdAdded x)"

definition CMsgClientAddFriendResponse_GetPersonaNameAdded :: "CMsgClientAddFriendResponse \<Rightarrow> string" where
  "CMsgClientAddFriendResponse_GetPersonaNameAdded x = get_or '''' (CMsgClientAddFriendResponse_PersonaNameAdded x)"

record CMsgClientFriendMsgIncoming =
  CMsgClientFriendMsgIncoming_SteamidFrom :: "u64 option"
  CMsgClientFriendMsgIncoming_ChatEntryType :: "i32 option"
  CMsgClientFriendMsgIncoming_FromLimitedAccount :: "bool option"
  CMsgClientFriendMsgIncoming_Message :: "bytes option"
  CMsgClientFriendMsgIncoming_Rtime32ServerTimestamp :: "u32 option"

definition NewCMsgClientFriendMsgIncoming :: CMsgClientFriendMsgIncoming where
  "NewCMsgClientFriendMsgIncoming = \<lparr>
     CMsgClientFriendMsgIncoming_SteamidFrom = None,
     CMsgClientFriendMsgIncoming_ChatEntryType = None,
     CMsgClientFriendMsgIncoming_FromLimitedAccount = None,
     CMsgClientFriendMsgIncoming_Message = None,
     CMsgClientFriendMsgIncoming_Rtime32ServerTimestamp = None\<rparr>"

definition CMsgClientFriendMsgIncoming_GetSteamidFrom :: "CMsgClientFriendMsgIncoming \<Rightarrow> u64" where
  "CMsgClientFriendMsgIncoming_GetSteamidFrom x = get_or 0 (CMsgClientFriendMsgIncoming_SteamidFrom x)"

definition CMsgClientFriendMsgIncoming_GetChatEntryType :: "CMsgClientFriendMsgIncoming \<Rightarrow> i32" where
  "CMsgClientFriendMsgIncoming_GetChatEntryType x = get_or 0 (CMsgClientFriendMsgIncoming_ChatEntryType x)"

definition CMsgClientFriendMsgIncoming_GetMessage :: "CMsgClientFriendMsgIncoming \<Rightarrow> bytes" where
  "CMsgClientFriendMsgIncoming_GetMessage x = get_or [] (CMsgClientFriendMsgIncoming_Message x)"

definition CMsgClientFriendMsgIncoming_GetRtime32ServerTimestamp :: "CMsgClientFriendMsgIncoming \<Rightarrow> u32" where
  "CMsgClientFriendMsgIncoming_GetRtime32ServerTimestamp x = get_or 0 (CMsgClientFriendMsgIncoming_Rtime32ServerTimestamp x)"

record CMsgClientChatInvite =
  CMsgClientChatInvite_SteamIdInvited :: "u64 option"
  CMsgClientChatInvite_SteamIdChat :: "u64 option"
  CMsgClientChatInvite_SteamIdPatron :: "u64 option"
  CMsgClientChatInvite_ChatroomType :: "i32 option"
  CMsgClientChatInvite_SteamIdFriendChat :: "u64 option"
  CMsgClientChatInvite_ChatName :: "string option"
  CMsgClientChatInvite_GameId :: "u64 option"

definition NewCMsgClientChatInvite :: CMsgClientChatInvite where
  "NewCMsgClientChatInvite = \<lparr>
     CMsgClientChatInvite_SteamIdInvited = None, CMsgClientChatInvite_SteamIdChat = None,
     CMsgClientChatInvite_SteamIdPatron = None, CMsgClientChatInvite_ChatroomType = None,
     CMsgClientChatInvite_SteamIdFriendChat = None, CMsgClientChatInvite_ChatName = None,
     CMsgClientChatInvite_GameId = None\<rparr>"

definition CMsgClientChatInvite_GetSteamIdInvited :: "CMsgClientChatInvite \<Rightarrow> u64" where
  "CMsgClientChatInvite_GetSteamIdInvited x = get_or 0 (CMsgClientChatInvite_SteamIdInvited x)"

definition CMsgClientChatInvite_GetSteamIdChat :: "CMsgClientChatInvite \<Rightarrow> u64" where
  "CMsgClientChatInvite_GetSteamIdChat x = get_or 0 (CMsgClientChatInvite_SteamIdChat x)"

definition CMsgClientChatInvite_GetSteamIdPatron :: "CMsgClientChatInvite \<Rightarrow> u64" where
  "CMsgClientChatInvite_GetSteamIdPatron x = get_or 0 (CMsgClientChatInvite_SteamIdPatron x)"

definition CMsgClientChatInvite_GetChatroomType :: "CMsgClientChatInvite \<Rightarrow> i32" where
  "CMsgClientChatInvite_GetChatroomType x = get_or 0 (CMsgClientChatInvite_ChatroomType x)"

definition CMsgClientChatInvite_GetSteamIdFriendChat :: "CMsgClientChatInvite \<Rightarrow> u64" where
  "CMsgClientChatInvite_GetSteamIdFriendChat x = get_or 0 (CMsgClientChatInvite_SteamIdFriendChat x)"

definition CMsgClientChatInvite_GetChatName :: "CMsgClientChatInvite \<Rightarrow> string" where
  "CMsgClientChatInvite_GetChatName x = get_or '''' (CMsgClientChatInvite_ChatName x)"

definition CMsgClientChatInvite_GetGameId :: "CMsgClientChatInvite \<Rightarrow> u64" where
  "CMsgClientChatInvite_GetGameId x = get_or 0 (CMsgClientChatInvite_GameId x)"

record CMsgClientFriendProfileInfoResponse =
  CMsgClientFriendProfileInfoResponse_Eresult :: "i32 option"
  CMsgClientFriendProfileInfoResponse_SteamidFriend :: "u64 option"
  CMsgClientFriendProfileInfoResponse_TimeCreated :: "u32 option"
  CMsgClientFriendProfileInfoResponse_RealName :: "string option"
  CMsgClientFriendProfileInfoResponse_CityName :: "string option"
  CMsgClientFriendProfileInfoResponse_StateName :: "string option"
  CMsgClientFriendProfileInfoResponse_CountryName :: "string option"
  CMsgClientFriendProfileInfoResponse_Headline :: "string option"
  CMsgClientFriendProfileInfoResponse_Summary :: "string option"

definition NewCMsgClientFriendProfileInfoResponse :: CMsgClientFriendProfileInfoResponse where
  "NewCMsgClientFriendProfileInfoResponse = \<lparr>
     CMsgClientFriendProfileInfoResponse_Eresult = None,
     CMsgClientFriendProfileInfoResponse_SteamidFriend = None,
     CMsgClientFriendProfileInfoResponse_TimeCreated = None,
     CMsgClientFriendProfileInfoResponse_RealName = None,
     CMsgClientFriendProfileInfoResponse_CityName = None,
     CMsgClientFriendProfileInfoResponse_StateName = None,
     CMsgClientFriendProfileInfoResponse_CountryName = None,
     CMsgClientFriendProfileInfoResponse_Headline = None,
     CMsgClientFriendProfileInfoResponse_Summary = None\<rparr>"

definition CMsgClientFriendProfileInfoResponse_GetEresult :: "CMsgClientFriendProfileInfoResponse \<Rightarrow> i32" where
  "CMsgClientFriendProfileInfoResponse_GetEresult x = get_or 2 (CMsgClientFriendProfileInfoResponse_Eresult x)"

definition CMsgClientFriendProfileInfoResponse_GetSteamidFriend :: "CMsgClientFriendProfileInfoResponse \<Rightarrow> u64" where
  "CMsgClientFriendProfileInfoResponse_GetSteamidFriend x = get_or 0 (CMsgClientFriendProfileInfoResponse_SteamidFriend x)"

definition CMsgClientFriendProfileInfoResponse_GetTimeCreated :: "CMsgClientFriendProfileInfoResponse \<Rightarrow> u32" where
  "CMsgClientFriendProfileInfoResponse_GetTimeCreated x = get_or 0 (CMsgClientFriendProfileInfoResponse_TimeCreated x)"

definition CMsgClientFriendProfileInfoResponse_GetRealName :: "CMsgClientFriendProfileInfoResponse \<Rightarrow> string" where
  "CMsgClientFriendProfileInfoResponse_GetRealName x = get_or '''' (CMsgClientFriendProfileInfoResponse_RealName x)"

definition CMsgClientFriendProfileInfoResponse_GetCityName :: "CMsgClientFriendProfileInfoResponse \<Rightarrow> string" where
  "CMsgClientFriendProfileInfoResponse_GetCityName x = get_or '''' (CMsgClientFriendProfileInfoResponse_CityName x)"

definition CMsgClientFriendProfileInfoResponse_GetStateName :: "CMsgClientFriendProfileInfoResponse \<Rightarrow> string" where
  "CMsgClientFriendProfileInfoResponse_GetStateName x = get_or '''' (CMsgClientFriendProfileInfoResponse_StateName x)"

definition CMsgClientFriendProfileInfoResponse_GetCountryName :: "CMsgClientFriendProfileInfoResponse \<Rightarrow> string" where
  "CMsgClientFriendProfileInfoResponse_GetCountryName x = get_or '''' (CMsgClientFriendProfileInfoResponse_CountryName x)"

definition CMsgClientFriendProfileInfoResponse_GetHeadline :: "CMsgClientFriendProfileInfoResponse \<Rightarrow> string" where
  "CMsgClientFriendProfileInfoResponse_GetHeadline x = get_or '''' (CMsgClientFriendProfileInfoResponse_Headline x)"

definition CMsgClientFriendProfileInfoResponse_GetSummary :: "CMsgClientFriendProfileInfoResponse \<Rightarrow> string" where
  "CMsgClientFriendProfileInfoResponse_GetSummary x = get_or '''' (CMsgClientFriendProfileInfoResponse_Summary x)"

record CMsgClientChatGetFriendMessageHistoryResponse_FriendMessage =
  CMsgClientChatGetFriendMessageHistoryResponse_FriendMessage_Accountid :: "u32 option"
  CMsgClientChatGetFriendMessageHistoryResponse_FriendMessage_Timestamp :: "u32 option"
  CMsgClientChatGetFriendMessageHistoryResponse_FriendMessage_Message :: "string option"
  CMsgClientChatGetFriendMessageHistoryResponse_FriendMessage_Unread :: "bool option"

definition NewCMsgClientChatGetFriendMessageHistoryResponse_FriendMessage :: CMsgClientChatGetFriendMessageHistoryResponse_FriendMessage where
  "NewCMsgClientChatGetFriendMessageHistoryResponse_FriendMessage = \<lparr>
     CMsgClientChatGetFriendMessageHistoryResponse_FriendMessage_Accountid = None,
     CMsgClientChatGetFriendMessageHistoryResponse_FriendMessage_Timestamp = None,
     CMsgClientChatGetFriendMessageHistoryResponse_FriendMessage_Message = None,
     CMsgClientChatGetFriendMessageHistoryResponse_FriendMessage_Unread = None\<rparr>"

definition CMsgClientChatGetFriendMessageHistoryResponse_FriendMessage_GetTimestamp :: "CMsgClientChatGetFriendMessageHistoryResponse_FriendMessage \<Rightarrow> u32" where
  "CMsgClientChatGetFriendMessageHistoryResponse_FriendMessage_GetTimestamp x = get_or 0 (CMsgClientChatGetFriendMessageHistoryResponse_FriendMessage_Timestamp x)"

definition CMsgClientChatGetFriendMessageHistoryResponse_FriendMessage_GetMessage :: "CMsgClientChatGetFriendMessageHistoryResponse_FriendMessage \<Rightarrow> string" where
  "CMsgClientChatGetFriendMessageHistoryResponse_FriendMessage_GetMessage x = get_or '''' (CMsgClientChatGetFriendMessageHistoryResponse_FriendMessage_Message x)"

definition CMsgClientChatGetFriendMessageHistoryResponse_FriendMessage_GetUnread :: "CMsgClientChatGetFriendMessageHistoryResponse_FriendMessage \<Rightarrow> bool" where
  "CMsgClientChatGetFriendMessageHistoryResponse_FriendMessage_GetUnread x = get_or False (CMsgClientChatGetFriendMessageHistoryResponse_FriendMessage_Unread x)"

record CMsgClientChatGetFriendMessageHistoryResponse =
  CMsgClientChatGetFriendMessageHistoryResponse_Steamid :: "u64 option"
  CMsgClientChatGetFriendMessageHistoryResponse_Success :: "u32 option"
  CMsgClientChatGetFriendMessageHistoryResponse_Messages :: "CMsgClientChatGetFriendMessageHistoryResponse_FriendMessage list"

definition NewCMsgClientChatGetFriendMessageHistoryResponse :: CMsgClientChatGetFriendMessageHistoryResponse where
  "NewCMsgClientChatGetFriendMessageHistoryResponse = \<lparr>
     CMsgClientChatGetFriendMessageHistoryResponse_Steamid = None,
     CMsgClientChatGetFriendMessageHistoryResponse_Success = None,
     CMsgClientChatGetFriendMessageHistoryResponse_Messages = []\<rparr>"

definition CMsgClientChatGetFriendMessageHistoryResponse_GetSteamid :: "CMsgClientChatGetFriendMessageHistoryResponse \<Rightarrow> u64" where
  "CMsgClientChatGetFriendMessageHistoryResponse_GetSteamid x = get_or 0 (CMsgClientChatGetFriendMessageHistoryResponse_Steamid x)"

record CMsgClientHello =
  CMsgClientHello_ProtocolVersion :: "u32 option"

definition NewCMsgClientHello :: CMsgClientHello where
  "NewCMsgClientHello = \<lparr>
     CMsgClientHello_ProtocolVersion = None\<rparr>"

record CAuthentication_GetPasswordRSAPublicKey_Request =
  CAuthentication_GetPasswordRSAPublicKey_Request_AccountName :: "string option"

definition NewCAuthentication_GetPasswordRSAPublicKey_Request :: CAuthentication_GetPasswordRSAPublicKey_Request where
  "NewCAuthentication_GetPasswordRSAPublicKey_Request = \<lparr>
     CAuthentication_GetPasswordRSAPublicKey_Request_AccountName = None\<rparr>"

definition CAuthentication_GetPasswordRSAPublicKey_Request_GetAccountName :: "CAuthentication_GetPasswordRSAPublicKey_Request \<Rightarrow> string" where
  "CAuthentication_GetPasswordRSAPublicKey_Request_GetAccountName x = get_or '''' (CAuthentication_GetPasswordRSAPublicKey_Request_AccountName x)"

record CAuthentication_GetPasswordRSAPublicKey_Response =
  CAuthentication_GetPasswordRSAPublicKey_Response_PublickeyMod :: "string option"
  CAuthentication_GetPasswordRSAPublicKey_Response_PublickeyExp :: "string option"
  CAuthentication_GetPasswordRSAPublicKey_Response_Timestamp :: "u64 option"

definition NewCAuthentication_GetPasswordRSAPublicKey_Response :: CAuthentication_GetPasswordRSAPublicKey_Response where
  "NewCAuthentication_GetPasswordRSAPublicKey_Response = \<lparr>
     CAuthentication_GetPasswordRSAPublicKey_Response_PublickeyMod = None,
     CAuthentication_GetPasswordRSAPublicKey_Response_PublickeyExp = None,
     CAuthentication_GetPasswordRSAPublicKey_Response_Timestamp = None\<rparr>"

definition CAuthentication_GetPasswordRSAPublicKey_Response_GetPublickeyMod :: "CAuthentication_GetPasswordRSAPublicKey_Response \<Rightarrow> string" where
  "CAuthentication_GetPasswordRSAPublicKey_Response_GetPublickeyMod x = get_or '''' (CAuthentication_GetPasswordRSAPublicKey_Response_PublickeyMod x)"

definition CAuthentication_GetPasswordRSAPublicKey_Response_GetPublickeyExp :: "CAuthentication_GetPasswordRSAPublicKey_Response \<Rightarrow> string" where
  "CAuthentication_GetPasswordRSAPublicKey_Response_GetPublickeyExp x = get_or '''' (CAuthentication_GetPasswordRSAPublicKey_Response_PublickeyExp x)"

definition CAuthentication_GetPasswordRSAPublicKey_Response_GetTimestamp :: "CAuthentication_GetPasswordRSAPublicKey_Response \<Rightarrow> u64" where
  "CAuthentication_GetPasswordRSAPublicKey_Response_GetTimestamp x = get_or 0 (CAuthentication_GetPasswordRSAPublicKey_Response_Timestamp x)"

record CAuthentication_DeviceDetails =
  CAuthentication_DeviceDetails_DeviceFriendlyName :: "string option"
  CAuthentication_DeviceDetails_PlatformType :: "i32 option"
  CAuthentication_DeviceDetails_OsType :: "i32 option"
  CAuthentication_DeviceDetails_GamingDeviceType :: "u32 option"
  CAuthentication_DeviceDetails_ClientCount :: "u32 option"
  CAuthentication_DeviceDetails_MachineId :: "bytes option"

definition NewCAuthentication_DeviceDetails :: CAuthentication_DeviceDetails where
  "NewCAuthentication_DeviceDetails = \<lparr>
     CAuthentication_DeviceDetails_DeviceFriendlyName = None,
     CAuthentication_DeviceDetails_PlatformType = None,
     CAuthentication_DeviceDetails_OsType = None,
     CAuthentication_DeviceDetails_GamingDeviceType = None,
     CAuthentication_DeviceDetails_ClientCount = None,
     CAuthentication_DeviceDetails_MachineId = None\<rparr>"

record CAuthentication_BeginAuthSessionViaCredentials_Request =
  CAuthentication_BeginAuthSessionViaCredentials_Request_DeviceFriendlyName :: "string option"
  CAuthentication_BeginAuthSessionViaCredentials_Request_AccountName :: "string option"
  CAuthentication_BeginAuthSessionViaCredentials_Request_EncryptedPassword :: "string option"
  CAuthentication_BeginAuthSessionViaCredentials_Request_EncryptionTimestamp :: "u64 option"
  CAuthentication_BeginAuthSessionViaCredentials_Request_RememberLogin :: "bool option"
  CAuthentication_BeginAuthSessionViaCredentials_Request_PlatformType :: "i32 option"
  CAuthentication_BeginAuthSessionViaCredentials_Request_Persistence :: "i32 option"
  CAuthentication_BeginAuthSessionViaCredentials_Request_WebsiteId :: "string option"
  CAuthentication_BeginAuthSessionViaCredentials_Request_DeviceDetails :: "CAuthentication_DeviceDetails option"
  CAuthentication_BeginAuthSessionViaCredentials_Request_GuardData :: "string option"
  CAuthentication_BeginAuthSessionViaCredentials_Request_Language :: "u32 option"
  CAuthentication_BeginAuthSessionViaCredentials_Request_QosLevel :: "i32 option"

definition NewCAuthentication_BeginAuthSessionViaCredentials_Request :: CAuthentication_BeginAuthSessionViaCredentials_Request where
  "NewCAuthentication_BeginAuthSessionViaCredentials_Request = \<lparr>
     CAuthentication_BeginAuthSessionViaCredentials_Request_DeviceFriendlyName = None,
     CAuthentication_BeginAuthSessionViaCredentials_Request_AccountName = None,
     CAuthentication_BeginAuthSessionViaCredentials_Request_EncryptedPassword = None,
     CAuthentication_BeginAuthSessionViaCredentials_Request_EncryptionTimestamp = None,
     CAuthentication_BeginAuthSessionViaCredentials_Request_RememberLogin = None,
     CAuthentication_BeginAuthSessionViaCredentials_Request_PlatformType = None,
     CAuthentication_BeginAuthSessionViaCredentials_Request_Persistence = None,
     CAuthentication_BeginAuthSessionViaCredentials_Request_WebsiteId = None,
     CAuthentication_BeginAuthSessionViaCredentials_Request_DeviceDetails = None,
     CAuthentication_BeginAuthSessionViaCredentials_Request_GuardData = None,
     CAuthentication_BeginAuthSessionViaCredentials_Request_Language = None,
     CAuthentication_BeginAuthSessionViaCredentials_Request_QosLevel = None\<rparr>"

definition CAuthentication_BeginAuthSessionViaCredentials_Request_GetAccountName :: "CAuthentication_BeginAuthSessionViaCredentials_Request \<Rightarrow> string" where
  "CAuthentication_BeginAuthSessionViaCredentials_Request_GetAccountName x = get_or '''' (CAuthentication_BeginAuthSessionViaCredentials_Request_AccountName x)"

record CAuthentication_AllowedConfirmation =
  CAuthentication_AllowedConfirmation_ConfirmationType :: "i32 option"
  CAuthentication_AllowedConfirmation_AssociatedMessage :: "string option"

definition NewCAuthentication_AllowedConfirmation :: CAuthentication_AllowedConfirmation where
  "NewCAuthentication_AllowedConfirmation = \<lparr>
     CAuthentication_AllowedConfirmation_ConfirmationType = None,
     CAuthentication_AllowedConfirmation_AssociatedMessage = None\<rparr>"

definition CAuthentication_AllowedConfirmation_GetConfirmationType :: "CAuthentication_AllowedConfirmation \<Rightarrow> i32" where
  "CAuthentication_AllowedConfirmation_GetConfirmationType x = get_or 0 (CAuthentication_AllowedConfirmation_ConfirmationType x)"

record CAuthentication_BeginAuthSessionViaCredentials_Response =
  CAuthentication_BeginAuthSessionViaCredentials_Response_ClientId :: "u64 option"
  CAuthentication_BeginAuthSessionViaCredentials_Response_RequestId :: "bytes option"
  CAuthentication_BeginAuthSessionViaCredentials_Response_Interval :: "u32 option"
  CAuthentication_BeginAuthSessionViaCredentials_Response_AllowedConfirmations :: "CAuthentication_AllowedConfirmation list"
  CAuthentication_BeginAuthSessionViaCredentials_Response_Steamid :: "u64 option"
  CAuthentication_BeginAuthSessionViaCredentials_Response_WeakToken :: "string option"
  CAuthentication_BeginAuthSessionViaCredentials_Response_AgreementSessionUrl :: "string option"
  CAuthentication_BeginAuthSessionViaCredentials_Response_ExtendedErrorMessage :: "string option"

definition NewCAuthentication_BeginAuthSessionViaCredentials_Response :: CAuthentication_BeginAuthSessionViaCredentials_Response where
  "NewCAuthentication_BeginAuthSessionViaCredentials_Response = \<lparr>
     CAuthentication_BeginAuthSessionViaCredentials_Response_ClientId = None,
     CAuthentication_BeginAuthSessionViaCredentials_Response_RequestId = None,
     CAuthentication_BeginAuthSessionViaCredentials_Response_Interval = None,
     CAuthentication_BeginAuthSessionViaCredentials_Response_AllowedConfirmations = [],
     CAuthentication_BeginAuthSessionViaCredentials_Response_Steamid = None,
     CAuthentication_BeginAuthSessionViaCredentials_Response_WeakToken = None,
     CAuthentication_BeginAuthSessionViaCredentials_Response_AgreementSessionUrl = None,
     CAuthentication_BeginAuthSessionViaCredentials_Response_ExtendedErrorMessage = None\<rparr>"

definition CAuthentication_BeginAuthSessionViaCredentials_Response_GetInterval :: "CAuthentication_BeginAuthSessionViaCredentials_Response \<Rightarrow> u32" where
  "CAuthentication_BeginAuthSessionViaCredentials_Response_GetInterval x = get_or 0 (CAuthentication_BeginAuthSessionViaCredentials_Response_Interval x)"

definition CAuthentication_BeginAuthSessionViaCredentials_Response_GetSteamid :: "CAuthentication_BeginAuthSessionViaCredentials_Response \<Rightarrow> u64" where
  "CAuthentication_BeginAuthSessionViaCredentials_Response_GetSteamid x = get_or 0 (CAuthentication_BeginAuthSessionViaCredentials_Response_Steamid x)"

record CAuthentication_PollAuthSessionStatus_Request =
  CAuthentication_PollAuthSessionStatus_Request_ClientId :: "u64 option"
  CAuthentication_PollAuthSessionStatus_Request_RequestId :: "bytes option"
  CAuthentication_PollAuthSessionStatus_Request_TokenToRevoke :: "u64 option"

definition NewCAuthentication_PollAuthSessionStatus_Request :: CAuthentication_PollAuthSessionStatus_Request where
  "NewCAuthentication_PollAuthSessionStatus_Request = \<lparr>
     CAuthentication_PollAuthSessionStatus_Request_ClientId = None,
     CAuthentication_PollAuthSessionStatus_Request_RequestId = None,
     CAuthentication_PollAuthSessionStatus_Request_TokenToRevoke = None\<rparr>"

record CAuthentication_PollAuthSessionStatus_Response =
  CAuthentication_PollAuthSessionStatus_Response_NewClientId :: "u64 option"
  CAuthentication_PollAuthSessionStatus_Response_NewChallengeUrl :: "string option"
  CAuthentication_PollAuthSessionStatus_Response_RefreshToken :: "string option"
  CAuthentication_PollAuthSessionStatus_Response_AccessToken :: "string option"
  CAuthentication_PollAuthSessionStatus_Response_HadRemoteInteraction :: "bool option"
  CAuthentication_PollAuthSessionStatus_Response_AccountName :: "string option"
  CAuthentication_PollAuthSessionStatus_Response_NewGuardData :: "string option"
  CAuthentication_PollAuthSessionStatus_Response_AgreementSessionUrl :: "string option"

definition NewCAuthentication_PollAuthSessionStatus_Response :: CAuthentication_PollAuthSessionStatus_Response where
  "NewCAuthentication_PollAuthSessionStatus_Response = \<lparr>
     CAuthentication_PollAuthSessionStatus_Response_NewClientId = None,
     CAuthentication_PollAuthSessionStatus_Response_NewChallengeUrl = None,
     CAuthentication_PollAuthSessionStatus_Response_RefreshToken = None,
     CAuthentication_PollAuthSessionStatus_Response_AccessToken = None,
     CAuthentication_PollAuthSessionStatus_Response_HadRemoteInteraction = None,
     CAuthentication_PollAuthSessionStatus_Response_AccountName = None,
     CAuthentication_PollAuthSessionStatus_Response_NewGuardData = None,
     CAuthentication_PollAuthSessionStatus_Response_AgreementSessionUrl = None\<rparr>"

definition CAuthentication_PollAuthSessionStatus_Response_GetRefreshToken :: "CAuthentication_PollAuthSessionStatus_Response \<Rightarrow> string" where
  "CAuthentication_PollAuthSessionStatus_Response_GetRefreshToken x = get_or '''' (CAuthentication_PollAuthSessionStatus_Response_RefreshToken x)"

definition CAuthentication_PollAuthSessionStatus_Response_GetAccessToken :: "CAuthentication_PollAuthSessionStatus_Response \<Rightarrow> string" where
  "CAuthentication_PollAuthSessionStatus_Response_GetAccessToken x = get_or '''' (CAuthentication_PollAuthSessionStatus_Response_AccessToken x)"

definition CAuthentication_PollAuthSessionStatus_Response_GetAccountName :: "CAuthentication_PollAuthSessionStatus_Response \<Rightarrow> string" where
  "CAuthentication_PollAuthSessionStatus_Response_GetAccountName x = get_or '''' (CAuthentication_PollAuthSessionStatus_Response_AccountName x)"

lemmas Pb_Social_getters [pb_get] =
  CMsgClientGamesPlayed_GamePlayed_GetGameId_def
  CMsgClientGamesPlayed_GamePlayed_GetGameDataBlob_def
  CMsgClientChangeStatus_GetPersonaState_def
  CMsgClientChangeStatus_GetPlayerName_def
  CMsgClientChangeStatus_GetPersonaSetByUser_def
  CMsgClientChangeStatus_GetPersonaStateFlags_def
  CMsgClientFriendMsg_GetSteamid_def
  CMsgClientFriendMsg_GetChatEntryType_def
  CMsgClientFriendMsg_GetMessage_def
  CMsgClientFriendMsg_GetRtime32ServerTimestamp_def
  CMsgClientRemoveFriend_GetFriendid_def
  CMsgClientFriendProfileInfo_GetSteamidFriend_def
  CMsgClientFriendsList_Friend_GetUlfriendid_def
  CMsgClientFriendsList_Friend_GetEfriendrelationship_def
  CMsgClientFriendsList_GetBincremental_def
  CMsgClientPersonaState_Friend_GetFriendid_def
  CMsgClientPersonaState_Friend_GetPersonaState_def
  CMsgClientPersonaState_Friend_GetGamePlayedAppId_def
  CMsgClientPersonaState_Friend_GetGameServerIp_def
  CMsgClientPersonaState_Friend_GetGameServerPort_def
  CMsgClientPersonaState_Friend_GetPersonaStateFlags_def
  CMsgClientPersonaState_Friend_GetOnlineSessionInstances_def
  CMsgClientPersonaState_Friend_GetPersonaSetByUser_def
  CMsgClientPersonaState_Friend_GetPlayerName_def
  CMsgClientPersonaState_Friend_GetQueryPort_def
  CMsgClientPersonaState_Friend_GetSteamidSource_def
  CMsgClientPersonaState_Friend_GetAvatarHash_def
  CMsgClientPersonaState_Friend_GetLastLogoff_def
  CMsgClientPersonaState_Friend_GetLastLogon_def
  CMsgClientPersonaState_Friend_GetClanRank_def
  CMsgClientPersonaState_Friend_GetGameName_def
  CMsgClientPersonaState_Friend_GetGameid_def
  CMsgClientPersonaState_Friend_GetGameDataBlob_def
  CMsgClientPersonaState_Friend_GetClanTag_def
  CMsgClientPersonaState_GetStatusFlags_def
  CMsgClientClanState_NameInfo_GetClanName_def
  CMsgClientClanState_NameInfo_GetShaAvatar_def
  CMsgClientClanState_UserCounts_GetMembers_def
  CMsgClientClanState_UserCounts_GetOnline_def
  CMsgClientClanState_UserCounts_GetChatting_def
  CMsgClientClanState_UserCounts_GetInGame_def
  CMsgClientClanState_Event_GetGid_def
  CMsgClientClanState_Event_GetEventTime_def
  CMsgClientClanState_Event_GetHeadline_def
  CMsgClientClanState_Event_GetGameId_def
  CMsgClientClanState_Event_GetJustPosted_def
  CMsgClientClanState_GetSteamidClan_def
  CMsgClientClanState_GetClanAccountFlags_def
  CMsgClientAddFriendResponse_GetEresult_def
  CMsgClientAddFriendResponse_GetSteamIdAdded_def
  CMsgClientAddFriendResponse_GetPersonaNameAdded_def
  CMsgClientFriendMsgIncoming_GetSteamidFrom_def
  CMsgClientFriendMsgIncoming_GetChatEntryType_def
  CMsgClientFriendMsgIncoming_GetMessage_def
  CMsgClientFriendMsgIncoming_GetRtime32ServerTimestamp_def
  CMsgClientChatInvite_GetSteamIdInvited_def
  CMsgClientChatInvite_GetSteamIdChat_def
  CMsgClientChatInvite_GetSteamIdPatron_def
  CMsgClientChatInvite_GetChatroomType_def
  CMsgClientChatInvite_GetSteamIdFriendChat_def
  CMsgClientChatInvite_GetChatName_def
  CMsgClientChatInvite_GetGameId_def
  CMsgClientFriendProfileInfoResponse_GetEresult_def
  CMsgClientFriendProfileInfoResponse_GetSteamidFriend_def
  CMsgClientFriendProfileInfoResponse_GetTimeCreated_def
  CMsgClientFriendProfileInfoResponse_GetRealName_def
  CMsgClientFriendProfileInfoResponse_GetCityName_def
  CMsgClientFriendProfileInfoResponse_GetStateName_def
  CMsgClientFriendProfileInfoResponse_GetCountryName_def
  CMsgClientFriendProfileInfoResponse_GetHeadline_def
  CMsgClientFriendProfileInfoResponse_GetSummary_def
  CMsgClientChatGetFriendMessageHistoryResponse_FriendMessage_GetTimestamp_def
  CMsgClientChatGetFriendMessageHistoryResponse_FriendMessage_GetMessage_def
  CMsgClientChatGetFriendMessageHistoryResponse_FriendMessage_GetUnread_def
  CMsgClientChatGetFriendMessageHistoryResponse_GetSteamid_def
  CAuthentication_BeginAuthSessionViaCredentials_Request_GetAccountName_def
  CAuthentication_AllowedConfirmation_GetConfirmationType_def
  CAuthentication_BeginAuthSessionViaCredentials_Response_GetInterval_def
  CAuthentication_BeginAuthSessionViaCredentials_Response_GetSteamid_def
  CAuthentication_PollAuthSessionStatus_Response_GetRefreshToken_def
  CAuthentication_PollAuthSessionStatus_Response_GetAccessToken_def
  CAuthentication_PollAuthSessionStatus_Response_GetAccountName_def

end
