(* ===== verification/Steamlang_Hdrs.thy ===== *)
theory Steamlang_Hdrs
  imports Rwu Steamlang
begin

text \<open>
  Translated struct by struct: the plain headers of \<open>protocol/steamlang/messages.go\<close>: \<open>MsgHdr\<close> before the log-on, \<open>ExtendedClientMsgHdr\<close> after it and \<open>MsgGCHdr\<close> towards the game coordinator.
  Each struct is a record, its constructor, its \<open>Serialize\<close> and its \<open>Deserialize\<close>, followed by the
  interpretation that shows the pair to be a codec of fixed size.
\<close>

record MsgHdr =
  MsgHdr_Msg :: EMsg
  MsgHdr_TargetJobID :: u64
  MsgHdr_SourceJobID :: u64

definition NewMsgHdr :: MsgHdr where
  "NewMsgHdr = \<lparr>
     MsgHdr_Msg = EMsg_Invalid,
     MsgHdr_TargetJobID = - 1,
     MsgHdr_SourceJobID = - 1\<rparr>"

definition MsgHdr_Serialize :: "MsgHdr \<Rightarrow> bytes" where
  "MsgHdr_Serialize d =
     le_bytes 4 (MsgHdr_Msg d) @
     le_bytes 8 (MsgHdr_TargetJobID d) @
     le_bytes 8 (MsgHdr_SourceJobID d)"

definition MsgHdr_Deserialize :: "MsgHdr step" where
  "MsgHdr_Deserialize = steps [
     assign_ok ReadInt32 (\<lambda>v d. d\<lparr>MsgHdr_Msg := v\<rparr>),
     assign ReadUint64 (\<lambda>v d. d\<lparr>MsgHdr_TargetJobID := v\<rparr>),
     assign ReadUint64 (\<lambda>v d. d\<lparr>MsgHdr_SourceJobID := v\<rparr>)]"

interpretation MsgHdr_codec: fixed_codec MsgHdr_Serialize MsgHdr_Deserialize 20
proof
  fix d x :: MsgHdr and r :: bytes
  show "MsgHdr_Deserialize d (MsgHdr_Serialize x @ r) = (x, None, r)"
    by (simp add: MsgHdr_Serialize_def MsgHdr_Deserialize_def wire_defs)
  show "length (MsgHdr_Serialize x) = 20"
    by (simp add: MsgHdr_Serialize_def)
  have "needs (4 + (8 + (8 + 0))) MsgHdr_Deserialize"
    unfolding MsgHdr_Deserialize_def by (intro needs_intros)
  then show "needs 20 MsgHdr_Deserialize" by simp
qed

record ExtendedClientMsgHdr =
  ExtendedClientMsgHdr_Msg :: EMsg
  ExtendedClientMsgHdr_HeaderSize :: u8
  ExtendedClientMsgHdr_HeaderVersion :: u16
  ExtendedClientMsgHdr_TargetJobID :: u64
  ExtendedClientMsgHdr_SourceJobID :: u64
  ExtendedClientMsgHdr_HeaderCanary :: u8
  ExtendedClientMsgHdr_SteamID :: steamid
  ExtendedClientMsgHdr_SessionID :: i32

definition NewExtendedClientMsgHdr :: ExtendedClientMsgHdr where
  "NewExtendedClientMsgHdr = \<lparr>
     ExtendedClientMsgHdr_Msg = EMsg_Invalid,
     ExtendedClientMsgHdr_HeaderSize = 36,
     ExtendedClientMsgHdr_HeaderVersion = 2,
     ExtendedClientMsgHdr_TargetJobID = - 1,
     ExtendedClientMsgHdr_SourceJobID = - 1,
     ExtendedClientMsgHdr_HeaderCanary = 239,
     ExtendedClientMsgHdr_SteamID = 0,
     ExtendedClientMsgHdr_SessionID = 0\<rparr>"

definition ExtendedClientMsgHdr_Serialize :: "ExtendedClientMsgHdr \<Rightarrow> bytes" where
  "ExtendedClientMsgHdr_Serialize d =
     le_bytes 4 (ExtendedClientMsgHdr_Msg d) @
     le_bytes 1 (ExtendedClientMsgHdr_HeaderSize d) @
     le_bytes 2 (ExtendedClientMsgHdr_HeaderVersion d) @
     le_bytes 8 (ExtendedClientMsgHdr_TargetJobID d) @
     le_bytes 8 (ExtendedClientMsgHdr_SourceJobID d) @
     le_bytes 1 (ExtendedClientMsgHdr_HeaderCanary d) @
     le_bytes 8 (ExtendedClientMsgHdr_SteamID d) @
     le_bytes 4 (ExtendedClientMsgHdr_SessionID d)"

definition ExtendedClientMsgHdr_Deserialize :: "ExtendedClientMsgHdr step" where
  "ExtendedClientMsgHdr_Deserialize = steps [
     assign_ok ReadInt32 (\<lambda>v d. d\<lparr>ExtendedClientMsgHdr_Msg := v\<rparr>),
     assign ReadUint8 (\<lambda>v d. d\<lparr>ExtendedClientMsgHdr_HeaderSize := v\<rparr>),
     assign ReadUint16 (\<lambda>v d. d\<lparr>ExtendedClientMsgHdr_HeaderVersion := v\<rparr>),
     assign ReadUint64 (\<lambda>v d. d\<lparr>ExtendedClientMsgHdr_TargetJobID := v\<rparr>),
     assign ReadUint64 (\<lambda>v d. d\<lparr>ExtendedClientMsgHdr_SourceJobID := v\<rparr>),
     assign ReadUint8 (\<lambda>v d. d\<lparr>ExtendedClientMsgHdr_HeaderCanary := v\<rparr>),
     assign_ok ReadUint64 (\<lambda>v d. d\<lparr>ExtendedClientMsgHdr_SteamID := v\<rparr>),
     assign ReadInt32 (\<lambda>v d. d\<lparr>ExtendedClientMsgHdr_SessionID := v\<rparr>)]"

interpretation ExtendedClientMsgHdr_codec: fixed_codec ExtendedClientMsgHdr_Serialize ExtendedClientMsgHdr_Deserialize 36
proof
  fix d x :: ExtendedClientMsgHdr and r :: bytes
  show "ExtendedClientMsgHdr_Deserialize d (ExtendedClientMsgHdr_Serialize x @ r) = (x, None, r)"
    by (simp add: ExtendedClientMsgHdr_Serialize_def ExtendedClientMsgHdr_Deserialize_def wire_defs)
  show "length (ExtendedClientMsgHdr_Serialize x) = 36"
    by (simp add: ExtendedClientMsgHdr_Serialize_def)
  have "needs (4 + (1 + (2 + (8 + (8 + (1 + (8 + (4 + 0)))))))) ExtendedClientMsgHdr_Deserialize"
    unfolding ExtendedClientMsgHdr_Deserialize_def by (intro needs_intros)
  then show "needs 36 ExtendedClientMsgHdr_Deserialize" by simp
qed

record MsgGCHdr =
  MsgGCHdr_HeaderVersion :: u16
  MsgGCHdr_TargetJobID :: u64
  MsgGCHdr_SourceJobID :: u64

definition NewMsgGCHdr :: MsgGCHdr where
  "NewMsgGCHdr = \<lparr>
     MsgGCHdr_HeaderVersion = 1,
     MsgGCHdr_TargetJobID = - 1,
     MsgGCHdr_SourceJobID = - 1\<rparr>"

definition MsgGCHdr_Serialize :: "MsgGCHdr \<Rightarrow> bytes" where
  "MsgGCHdr_Serialize d =
     le_bytes 2 (MsgGCHdr_HeaderVersion d) @
     le_bytes 8 (MsgGCHdr_TargetJobID d) @
     le_bytes 8 (MsgGCHdr_SourceJobID d)"

definition MsgGCHdr_Deserialize :: "MsgGCHdr step" where
  "MsgGCHdr_Deserialize = steps [
     assign ReadUint16 (\<lambda>v d. d\<lparr>MsgGCHdr_HeaderVersion := v\<rparr>),
     assign ReadUint64 (\<lambda>v d. d\<lparr>MsgGCHdr_TargetJobID := v\<rparr>),
     assign ReadUint64 (\<lambda>v d. d\<lparr>MsgGCHdr_SourceJobID := v\<rparr>)]"

interpretation MsgGCHdr_codec: fixed_codec MsgGCHdr_Serialize MsgGCHdr_Deserialize 18
proof
  fix d x :: MsgGCHdr and r :: bytes
  show "MsgGCHdr_Deserialize d (MsgGCHdr_Serialize x @ r) = (x, None, r)"
    by (simp add: MsgGCHdr_Serialize_def MsgGCHdr_Deserialize_def wire_defs)
  show "length (MsgGCHdr_Serialize x) = 18"
    by (simp add: MsgGCHdr_Serialize_def)
  have "needs (2 + (8 + (8 + 0))) MsgGCHdr_Deserialize"
    unfolding MsgGCHdr_Deserialize_def by (intro needs_intros)
  then show "needs 18 MsgGCHdr_Deserialize" by simp
qed

end
