(* ===== verification/Protocol_Hdr.thy ===== *)
theory Protocol_Hdr
  imports Pb_Social Steamlang_Hdrs Go_Std
begin

text \<open>
  \<open>protocol/internal.go\<close>, and the two headers of \<open>protocol/steamlang/messages.go\<close> that hold a protobuf
  message: \<open>MsgHdrProtoBuf\<close> and \<open>MsgGCHdrProtoBuf\<close>.

  The protobuf library is not part of the repository: its \<open>proto.Marshal\<close> and \<open>proto.Unmarshal\<close> for one
  message type are a value of type \<open>pbcodec\<close>, an argument of every definition that uses it.
  \<open>Unmarshal\<close> first resets the message it is given, so it is a function of the bytes alone; it
  returns what it has filled in next to its error. The only law ever assumed of it is
  \<open>pb_roundtrip\<close> at the message in question: what was marshalled unmarshals to the same message.
\<close>

section \<open>internal.go\<close>

type_synonym JobId = u64

definition JobId_String :: "JobId \<Rightarrow> string" where
  "JobId_String j = (if j = - 1 then ''(none)'' else FormatUint (unat j))"

definition EClientPersonaStateFlag_DefaultInfoRequest :: EClientPersonaStateFlag where
  "EClientPersonaStateFlag_DefaultInfoRequest =
     EClientPersonaStateFlag_PlayerName OR EClientPersonaStateFlag_Presence OR
     EClientPersonaStateFlag_SourceID OR EClientPersonaStateFlag_GameExtraInfo"

definition DefaultAvatar :: string where
  "DefaultAvatar = ''fef49e7fa7e1997310d705b2a6158ff8dc1cdfeb''"

definition ValidAvatar :: "bytes \<Rightarrow> bool" where
  "ValidAvatar avatar =
     (let str = hex_encode avatar
      in \<not> (str = ''0000000000000000000000000000000000000000'' \<or> length str \<noteq> 40))"

lemma hex_encode_zeros: "hex_encode (replicate 20 0) = ''0000000000000000000000000000000000000000''"
  by code_simp

text \<open>An avatar is accepted when it is a SHA-1 hash of 20 bytes that are not all zero.\<close>

lemma ValidAvatar_iff: "ValidAvatar a \<longleftrightarrow> length a = 20 \<and> a \<noteq> replicate 20 0"
proof -
  have "hex_encode a = hex_encode (replicate 20 0) \<longleftrightarrow> a = replicate 20 0"
    by (metis hex_decode_encode res.inject(1))
  then show ?thesis
    by (auto simp: ValidAvatar_def Let_def hex_encode_zeros [symmetric])
qed

lemma DefaultAvatar_is_valid:
  "case hex_decode DefaultAvatar of Ok a \<Rightarrow> ValidAvatar a | Err e \<Rightarrow> False | Panic p \<Rightarrow> False"
  by code_simp

lemma JobId_String_inj: "JobId_String i = JobId_String j \<Longrightarrow> i = j"
proof -
  assume eq: "JobId_String i = JobId_String j"
  have par: "CHR ''('' \<notin> set (FormatUint n)" for n
    by (rule digit_not_in_FormatUint) (simp add: is_digit_def)
  have ne: "FormatUint n \<noteq> ''(none)''" for n
    using par [of n] by (metis list.set_intros(1))
  show ?thesis
    using eq ne [of "unat i"] ne [of "unat j"] ne [of "unat j", symmetric] u64_decimal.enc_inj [of i j]
    by (auto simp: JobId_String_def u64_text_def split: if_splits)
qed

section \<open>The protobuf library\<close>

record 'm pbcodec =
  Marshal :: "'m \<Rightarrow> bytes res"
  Unmarshal :: "bytes \<Rightarrow> 'm \<times> go_err option"

definition pb_roundtrip :: "'m pbcodec \<Rightarrow> 'm \<Rightarrow> bytes \<Rightarrow> bool" where
  "pb_roundtrip c m bs \<longleftrightarrow> Marshal c m = Ok bs \<and> Unmarshal c bs = (m, None)"

type_synonym hdr_codec = "CMsgProtoBufHeader pbcodec"

lemma pb_roundtripD [simp]:
  "pb_roundtrip c m bs \<Longrightarrow> Marshal c m = Ok bs"
  "pb_roundtrip c m bs \<Longrightarrow> Unmarshal c bs = (m, None)"
  by (auto simp: pb_roundtrip_def)

text \<open>
  A codec for witnesses: it writes the two job ids and reads them back, and refuses headers that
  have anything else in them.
\<close>

definition jobs_header :: "u64 \<Rightarrow> u64 \<Rightarrow> CMsgProtoBufHeader" where
  "jobs_header t s = NewCMsgProtoBufHeader
     \<lparr>CMsgProtoBufHeader_JobidTarget := Some t, CMsgProtoBufHeader_JobidSource := Some s\<rparr>"

definition jobs_codec :: hdr_codec where
  "jobs_codec = \<lparr>
     Marshal = (\<lambda>h. case (CMsgProtoBufHeader_JobidTarget h, CMsgProtoBufHeader_JobidSource h) of
         (Some t, Some s) \<Rightarrow> if h = jobs_header t s then Ok (le_bytes 8 t @ le_bytes 8 s)
                            else Err (GoErr ''unsupported field'')
       | _ \<Rightarrow> Err (GoErr ''unsupported field'')),
     Unmarshal = (\<lambda>bs. if length bs = 16 then (jobs_header (le_word (take 8 bs)) (le_word (drop 8 bs)), None)
                       else (NewCMsgProtoBufHeader, Some UnexpectedEOF))\<rparr>"

lemma jobs_codec_roundtrip:
  "pb_roundtrip jobs_codec (jobs_header t s) (le_bytes 8 t @ le_bytes 8 s)"
  by (simp add: pb_roundtrip_def jobs_codec_def) (simp add: jobs_header_def)

section \<open>MsgHdrProtoBuf\<close>

record MsgHdrProtoBuf =
  MsgHdrProtoBuf_Msg :: EMsg
  MsgHdrProtoBuf_HeaderLength :: i32
  MsgHdrProtoBuf_Proto :: CMsgProtoBufHeader

definition NewMsgHdrProtoBuf :: MsgHdrProtoBuf where
  "NewMsgHdrProtoBuf = \<lparr>
     MsgHdrProtoBuf_Msg = EMsg_Invalid,
     MsgHdrProtoBuf_HeaderLength = 0,
     MsgHdrProtoBuf_Proto = NewCMsgProtoBufHeader\<rparr>"

text \<open>\<open>Serialize\<close> also stores the length of the encoded header in the struct.\<close>

definition MsgHdrProtoBuf_Serialize :: "hdr_codec \<Rightarrow> MsgHdrProtoBuf \<Rightarrow> (MsgHdrProtoBuf \<times> bytes) res" where
  "MsgHdrProtoBuf_Serialize c d = bind_res (Marshal c (MsgHdrProtoBuf_Proto d)) (\<lambda>buf0.
     let d' = d\<lparr>MsgHdrProtoBuf_HeaderLength := word_of_nat (length buf0)\<rparr>
     in Ok (d', le_bytes 4 (MsgHdrProtoBuf_Msg d' OR ProtoMask) @
                le_bytes 4 (MsgHdrProtoBuf_HeaderLength d') @ buf0))"

text \<open>
  The tail shared by both headers: \<^verbatim>\<open>make([]byte, d.HeaderLength)\<close> panics on a negative length, then
  that many bytes are read and unmarshalled.
\<close>

definition read_proto :: "hdr_codec \<Rightarrow> CMsgProtoBufHeader \<Rightarrow> i32 \<Rightarrow> bytes
    \<Rightarrow> (CMsgProtoBufHeader \<times> go_err option \<times> bytes) res" where
  "read_proto c p len r =
     (if sint len < 0 then Panic ''makeslice: len out of range''
      else case ReadFull (nat (sint len)) r of
          (buf1, Some e, r') \<Rightarrow> Ok (p, Some e, r')
        | (buf1, None, r') \<Rightarrow> (case Unmarshal c buf1 of (p', e) \<Rightarrow> Ok (p', e, r')))"

definition MsgHdrProtoBuf_Deserialize :: "hdr_codec \<Rightarrow> MsgHdrProtoBuf \<Rightarrow> bytes
    \<Rightarrow> (MsgHdrProtoBuf \<times> go_err option \<times> bytes) res" where
  "MsgHdrProtoBuf_Deserialize c d r =
     (case assign_ok ReadInt32 (\<lambda>v d. d\<lparr>MsgHdrProtoBuf_Msg := v AND EMsgMask\<rparr>) d r of
        (d, Some e, r) \<Rightarrow> Ok (d, Some e, r)
      | (d, None, r) \<Rightarrow>
     (case assign ReadInt32 (\<lambda>v d. d\<lparr>MsgHdrProtoBuf_HeaderLength := v\<rparr>) d r of
        (d, Some e, r) \<Rightarrow> Ok (d, Some e, r)
      | (d, None, r) \<Rightarrow>
     map_res (\<lambda>(p, e, r). (d\<lparr>MsgHdrProtoBuf_Proto := p\<rparr>, e, r))
       (read_proto c (MsgHdrProtoBuf_Proto d) (MsgHdrProtoBuf_HeaderLength d) r)))"

section \<open>MsgGCHdrProtoBuf\<close>

record MsgGCHdrProtoBuf =
  MsgGCHdrProtoBuf_Msg :: u32
  MsgGCHdrProtoBuf_HeaderLength :: i32
  MsgGCHdrProtoBuf_Proto :: CMsgProtoBufHeader

definition NewMsgGCHdrProtoBuf :: MsgGCHdrProtoBuf where
  "NewMsgGCHdrProtoBuf = \<lparr>
     MsgGCHdrProtoBuf_Msg = 0,
     MsgGCHdrProtoBuf_HeaderLength = 0,
     MsgGCHdrProtoBuf_Proto = NewCMsgProtoBufHeader\<rparr>"

definition MsgGCHdrProtoBuf_Serialize ::
  "hdr_codec \<Rightarrow> MsgGCHdrProtoBuf \<Rightarrow> (MsgGCHdrProtoBuf \<times> bytes) res" where
  "MsgGCHdrProtoBuf_Serialize c d = bind_res (Marshal c (MsgGCHdrProtoBuf_Proto d)) (\<lambda>buf0.
     let d' = d\<lparr>MsgGCHdrProtoBuf_HeaderLength := word_of_nat (length buf0)\<rparr>
     in Ok (d', le_bytes 4 (MsgGCHdrProtoBuf_Msg d' OR ProtoMask) @
                le_bytes 4 (MsgGCHdrProtoBuf_HeaderLength d') @ buf0))"

definition MsgGCHdrProtoBuf_Deserialize :: "hdr_codec \<Rightarrow> MsgGCHdrProtoBuf \<Rightarrow> bytes
    \<Rightarrow> (MsgGCHdrProtoBuf \<times> go_err option \<times> bytes) res" where
  "MsgGCHdrProtoBuf_Deserialize c d r =
     (case assign_ok ReadUint32 (\<lambda>v d. d\<lparr>MsgGCHdrProtoBuf_Msg := v AND EMsgMask\<rparr>) d r of
        (d, Some e, r) \<Rightarrow> Ok (d, Some e, r)
      | (d, None, r) \<Rightarrow>
     (case assign ReadInt32 (\<lambda>v d. d\<lparr>MsgGCHdrProtoBuf_HeaderLength := v\<rparr>) d r of
        (d, Some e, r) \<Rightarrow> Ok (d, Some e, r)
      | (d, None, r) \<Rightarrow>
     map_res (\<lambda>(p, e, r). (d\<lparr>MsgGCHdrProtoBuf_Proto := p\<rparr>, e, r))
       (read_proto c (MsgGCHdrProtoBuf_Proto d) (MsgGCHdrProtoBuf_HeaderLength d) r)))"

section \<open>Reading back, and the panic\<close>

lemma sint_of_small_nat: "n < 2 ^ 31 \<Longrightarrow> sint (word_of_nat n :: 32 word) = int n"
  by (simp add: signed_of_nat signed_take_bit_int_eq_self)

lemma read_proto_append:
  assumes "pb_roundtrip c h bs" and "length bs < 2 ^ 31"
  shows "read_proto c p (word_of_nat (length bs)) (bs @ r) = Ok (h, None, r)"
  using assms by (simp add: read_proto_def sint_of_small_nat)

lemma read_proto_panics_iff: "panics (read_proto c p len r) \<longleftrightarrow> sint len < 0"
  by (auto simp: read_proto_def split: prod.splits option.splits)

definition proto_frame :: "u32 \<Rightarrow> bytes \<Rightarrow> bytes" where
  "proto_frame msg buf = le_bytes 4 (msg OR ProtoMask) @ le_bytes 4 (word_of_nat (length buf) :: i32) @ buf"

lemma MsgHdrProtoBuf_Serialize_frame:
  "pb_roundtrip c (MsgHdrProtoBuf_Proto d) bs \<Longrightarrow>
     MsgHdrProtoBuf_Serialize c d =
       Ok (d\<lparr>MsgHdrProtoBuf_HeaderLength := word_of_nat (length bs)\<rparr>, proto_frame (MsgHdrProtoBuf_Msg d) bs)"
  by (simp add: MsgHdrProtoBuf_Serialize_def Let_def proto_frame_def)

lemma MsgGCHdrProtoBuf_Serialize_frame:
  "pb_roundtrip c (MsgGCHdrProtoBuf_Proto d) bs \<Longrightarrow>
     MsgGCHdrProtoBuf_Serialize c d =
       Ok (d\<lparr>MsgGCHdrProtoBuf_HeaderLength := word_of_nat (length bs)\<rparr>,
           proto_frame (MsgGCHdrProtoBuf_Msg d) bs)"
  by (simp add: MsgGCHdrProtoBuf_Serialize_def Let_def proto_frame_def)

lemma MsgHdrProtoBuf_Deserialize_frame:
  assumes "pb_roundtrip c h bs" and "length bs < 2 ^ 31"
  shows "MsgHdrProtoBuf_Deserialize c d (proto_frame msg bs @ r) =
    Ok (\<lparr>MsgHdrProtoBuf_Msg = NewEMsg msg, MsgHdrProtoBuf_HeaderLength = word_of_nat (length bs),
         MsgHdrProtoBuf_Proto = h\<rparr>, None, r)"
  using read_proto_append [OF assms, of _ r] NewEMsg_proto_flag [of msg]
  by (simp add: MsgHdrProtoBuf_Deserialize_def proto_frame_def wire_defs NewEMsg_def)

lemma MsgGCHdrProtoBuf_Deserialize_frame:
  assumes "pb_roundtrip c h bs" and "length bs < 2 ^ 31"
  shows "MsgGCHdrProtoBuf_Deserialize c d (proto_frame msg bs @ r) =
    Ok (\<lparr>MsgGCHdrProtoBuf_Msg = NewEMsg msg, MsgGCHdrProtoBuf_HeaderLength = word_of_nat (length bs),
         MsgGCHdrProtoBuf_Proto = h\<rparr>, None, r)"
  using read_proto_append [OF assms, of _ r] NewEMsg_proto_flag [of msg]
  by (simp add: MsgGCHdrProtoBuf_Deserialize_def proto_frame_def wire_defs NewEMsg_def)

text \<open>The header length as the code reads it: bytes 4 to 7.\<close>

definition header_length_field :: "bytes \<Rightarrow> i32" where
  "header_length_field r = le_word (take 4 (drop 4 r))"

lemma two_ints:
  assumes "8 \<le> length r"
  shows "ReadInt32 r = (le_word (take 4 r), None, drop 4 r)"
    and "ReadUint32 r = (le_word (take 4 r), None, drop 4 r)"
    and "ReadInt32 (drop 4 r) = (header_length_field r, None, drop 8 r)"
  using assms by (simp_all add: rwu_readers read_le_def ReadFull_def header_length_field_def)

lemma MsgHdrProtoBuf_Deserialize_long:
  assumes "8 \<le> length r"
  shows "MsgHdrProtoBuf_Deserialize c d r =
    map_res (\<lambda>(p, e, r'). (\<lparr>MsgHdrProtoBuf_Msg = NewEMsg (le_word (take 4 r)),
        MsgHdrProtoBuf_HeaderLength = header_length_field r, MsgHdrProtoBuf_Proto = p\<rparr>, e, r'))
      (read_proto c (MsgHdrProtoBuf_Proto d) (header_length_field r) (drop 8 r))"
  using assms by (cases d) (simp add: MsgHdrProtoBuf_Deserialize_def wire_defs two_ints NewEMsg_def)

lemma MsgGCHdrProtoBuf_Deserialize_long:
  assumes "8 \<le> length r"
  shows "MsgGCHdrProtoBuf_Deserialize c d r =
    map_res (\<lambda>(p, e, r'). (\<lparr>MsgGCHdrProtoBuf_Msg = NewEMsg (le_word (take 4 r)),
        MsgGCHdrProtoBuf_HeaderLength = header_length_field r, MsgGCHdrProtoBuf_Proto = p\<rparr>, e, r'))
      (read_proto c (MsgGCHdrProtoBuf_Proto d) (header_length_field r) (drop 8 r))"
  using assms by (cases d) (simp add: MsgGCHdrProtoBuf_Deserialize_def wire_defs two_ints NewEMsg_def)

lemma read_int_short: "length r < 4 \<Longrightarrow> ReadInt32 r = (0, Some (if r = [] then EOF else UnexpectedEOF), [])"
  "length r < 4 \<Longrightarrow> ReadUint32 r = (0, Some (if r = [] then EOF else UnexpectedEOF), [])"
  by (simp_all add: rwu_readers read_le_def ReadFull_def)

lemma read_int_long: "4 \<le> length r \<Longrightarrow> ReadInt32 r = (le_word (take 4 r), None, drop 4 r)"
  "4 \<le> length r \<Longrightarrow> ReadUint32 r = (le_word (take 4 r), None, drop 4 r)"
  by (simp_all add: rwu_readers read_le_def ReadFull_def)

lemma MsgHdrProtoBuf_Deserialize_short:
  assumes "length r < 8"
  shows "\<exists>d' e r'. MsgHdrProtoBuf_Deserialize c d r = Ok (d', Some e, r')"
proof (cases "length r < 4")
  case True
  then show ?thesis by (simp add: MsgHdrProtoBuf_Deserialize_def wire_defs read_int_short)
next
  case False
  then show ?thesis
    using assms by (simp add: MsgHdrProtoBuf_Deserialize_def wire_defs read_int_long read_int_short)
qed

lemma MsgGCHdrProtoBuf_Deserialize_short:
  assumes "length r < 8"
  shows "\<exists>d' e r'. MsgGCHdrProtoBuf_Deserialize c d r = Ok (d', Some e, r')"
proof (cases "length r < 4")
  case True
  then show ?thesis by (simp add: MsgGCHdrProtoBuf_Deserialize_def wire_defs read_int_short)
next
  case False
  then show ?thesis
    using assms by (simp add: MsgGCHdrProtoBuf_Deserialize_def wire_defs read_int_long read_int_short)
qed

lemma panics_map_res [simp]: "panics (map_res f x) \<longleftrightarrow> panics x"
  by (cases x) auto

lemma MsgHdrProtoBuf_Deserialize_panics_iff:
  "panics (MsgHdrProtoBuf_Deserialize c d r) \<longleftrightarrow> 8 \<le> length r \<and> sint (header_length_field r) < 0"
proof (cases "8 \<le> length r")
  case True
  then show ?thesis by (simp add: MsgHdrProtoBuf_Deserialize_long read_proto_panics_iff)
next
  case False
  then show ?thesis
    using MsgHdrProtoBuf_Deserialize_short [of r c d] by auto
qed

lemma MsgGCHdrProtoBuf_Deserialize_panics_iff:
  "panics (MsgGCHdrProtoBuf_Deserialize c d r) \<longleftrightarrow> 8 \<le> length r \<and> sint (header_length_field r) < 0"
proof (cases "8 \<le> length r")
  case True
  then show ?thesis by (simp add: MsgGCHdrProtoBuf_Deserialize_long read_proto_panics_iff)
next
  case False
  then show ?thesis
    using MsgGCHdrProtoBuf_Deserialize_short [of r c d] by auto
qed

end
