(* ===== verification/Steamlang_Chat.thy ===== *)
theory Steamlang_Chat
  imports Rwu Steamlang
begin

text \<open>
  Translated struct by struct: the struct messages of \<open>protocol/steamlang/messages.go\<close> that the client reads or writes itself: channel encryption, chat rooms, ignoring friends, logging off.
  Each struct is a record, its constructor, its \<open>Serialize\<close> and its \<open>Deserialize\<close>, followed by the
  interpretation that shows the pair to be a codec of fixed size.
\<close>

record MsgChannelEncryptRequest =
  MsgChannelEncryptRequest_ProtocolVersion :: u32
  MsgChannelEncryptRequest_Universe :: EUniverse

definition NewMsgChannelEncryptRequest :: MsgChannelEncryptRequest where
  "NewMsgChannelEncryptRequest = \<lparr>
     MsgChannelEncryptRequest_ProtocolVersion = 1,
     MsgChannelEncryptRequest_Universe = EUniverse_Invalid\<rparr>"

definition MsgChannelEncryptRequest_Serialize :: "MsgChannelEncryptRequest \<Rightarrow> bytes" where
  "MsgChannelEncryptRequest_Serialize d =
     le_bytes 4 (MsgChannelEncryptRequest_ProtocolVersion d) @
     le_bytes 4 (MsgChannelEncryptRequest_Universe d)"

definition MsgChannelEncryptRequest_Deserialize :: "MsgChannelEncryptRequest step" where
  "MsgChannelEncryptRequest_Deserialize = steps [
     assign ReadUint32 (\<lambda>v d. d\<lparr>MsgChannelEncryptRequest_ProtocolVersion := v\<rparr>),
     assign ReadInt32 (\<lambda>v d. d\<lparr>MsgChannelEncryptRequest_Universe := v\<rparr>)]"

definition MsgChannelEncryptRequest_GetEMsg :: "MsgChannelEncryptRequest \<Rightarrow> i32" where
  "MsgChannelEncryptRequest_GetEMsg d = EMsg_ChannelEncryptRequest"

interpretation MsgChannelEncryptRequest_codec: fixed_codec MsgChannelEncryptRequest_Serialize MsgChannelEncryptRequest_Deserialize 8
proof
  fix d x :: MsgChannelEncryptRequest and r :: bytes
  show "MsgChannelEncryptRequest_Deserialize d (MsgChannelEncryptRequest_Serialize x @ r) = (x, None, r)"
    by (simp add: MsgChannelEncryptRequest_Serialize_def MsgChannelEncryptRequest_Deserialize_def wire_defs)
  show "length (MsgChannelEncryptRequest_Serialize x) = 8"
    by (simp add: MsgChannelEncryptRequest_Serialize_def)
  have "needs (4 + (4 + 0)) MsgChannelEncryptRequest_Deserialize"
    unfolding MsgChannelEncryptRequest_Deserialize_def by (intro needs_intros)
  then show "needs 8 MsgChannelEncryptRequest_Deserialize" by simp
qed

record MsgChannelEncryptResponse =
  MsgChannelEncryptResponse_ProtocolVersion :: u32
  MsgChannelEncryptResponse_KeySize :: u32

definition NewMsgChannelEncryptResponse :: MsgChannelEncryptResponse where
  "NewMsgChannelEncryptResponse = \<lparr>
     MsgChannelEncryptResponse_ProtocolVersion = 1,
     MsgChannelEncryptResponse_KeySize = 128\<rparr>"

definition MsgChannelEncryptResponse_Serialize :: "MsgChannelEncryptResponse \<Rightarrow> bytes" where
  "MsgChannelEncryptResponse_Serialize d =
     le_bytes 4 (MsgChannelEncryptResponse_ProtocolVersion d) @
     le_bytes 4 (MsgChannelEncryptResponse_KeySize d)"

definition MsgChannelEncryptResponse_Deserialize :: "MsgChannelEncryptResponse step" where
  "MsgChannelEncryptResponse_Deserialize = steps [
     assign ReadUint32 (\<lambda>v d. d\<lparr>MsgChannelEncryptResponse_ProtocolVersion := v\<rparr>),
     assign ReadUint32 (\<lambda>v d. d\<lparr>MsgChannelEncryptResponse_KeySize := v\<rparr>)]"

definition MsgChannelEncryptResponse_GetEMsg :: "MsgChannelEncryptResponse \<Rightarrow> i32" where
  "MsgChannelEncryptResponse_GetEMsg d = EMsg_ChannelEncryptResponse"

interpretation MsgChannelEncryptResponse_codec: fixed_codec MsgChannelEncryptResponse_Serialize MsgChannelEncryptResponse_Deserialize 8
proof
  fix d x :: MsgChannelEncryptResponse and r :: bytes
  show "MsgChannelEncryptResponse_Deserialize d (MsgChannelEncryptResponse_Serialize x @ r) = (x, None, r)"
    by (simp add: MsgChannelEncryptResponse_Serialize_def MsgChannelEncryptResponse_Deserialize_def wire_defs)
  show "length (MsgChannelEncryptResponse_Serialize x) = 8"
    by (simp add: MsgChannelEncryptResponse_Serialize_def)
  have "needs (4 + (4 + 0)) MsgChannelEncryptResponse_Deserialize"
    unfolding MsgChannelEncryptResponse_Deserialize_def by (intro needs_intros)
  then show "needs 8 MsgChannelEncryptResponse_Deserialize" by simp
qed

record MsgChannelEncryptResult =
  MsgChannelEncryptResult_Result :: EResult

definition NewMsgChannelEncryptResult :: MsgChannelEncryptResult where
  "NewMsgChannelEncryptResult = \<lparr>
     MsgChannelEncryptResult_Result = EResult_Invalid\<rparr>"

definition MsgChannelEncryptResult_Serialize :: "MsgChannelEncryptResult \<Rightarrow> bytes" where
  "MsgChannelEncryptResult_Serialize d =
     le_bytes 4 (MsgChannelEncryptResult_Result d)"

definition MsgChannelEncryptResult_Deserialize :: "MsgChannelEncryptResult step" where
  "MsgChannelEncryptResult_Deserialize = steps [
     assign ReadInt32 (\<lambda>v d. d\<lparr>MsgChannelEncryptResult_Result := v\<rparr>)]"

definition MsgChannelEncryptResult_GetEMsg :: "MsgChannelEncryptResult \<Rightarrow> i32" where
  "MsgChannelEncryptResult_GetEMsg d = EMsg_ChannelEncryptResult"

interpretation MsgChannelEncryptResult_codec: fixed_codec MsgChannelEncryptResult_Serialize MsgChannelEncryptResult_Deserialize 4
proof
  fix d x :: MsgChannelEncryptResult and r :: bytes
  show "MsgChannelEncryptResult_Deserialize d (MsgChannelEncryptResult_Serialize x @ r) = (x, None, r)"
    by (simp add: MsgChannelEncryptResult_Serialize_def MsgChannelEncryptResult_Deserialize_def wire_defs)
  show "length (MsgChannelEncryptResult_Serialize x) = 4"
    by (simp add: MsgChannelEncryptResult_Serialize_def)
  have "needs (4 + 0) MsgChannelEncryptResult_Deserialize"
    unfolding MsgChannelEncryptResult_Deserialize_def by (intro needs_intros)
  then show "needs 4 MsgChannelEncryptResult_Deserialize" by simp
qed

record MsgClientLoggedOff =
  MsgClientLoggedOff_Result :: EResult
  MsgClientLoggedOff_SecMinReconnectHint :: i32
  MsgClientLoggedOff_SecMaxReconnectHint :: i32

definition NewMsgClientLoggedOff :: MsgClientLoggedOff where
  "NewMsgClientLoggedOff = \<lparr>
     MsgClientLoggedOff_Result = 0,
     MsgClientLoggedOff_SecMinReconnectHint = 0,
     MsgClientLoggedOff_SecMaxReconnectHint = 0\<rparr>"

definition MsgClientLoggedOff_Serialize :: "MsgClientLoggedOff \<Rightarrow> bytes" where
  "MsgClientLoggedOff_Serialize d =
     le_bytes 4 (MsgClientLoggedOff_Result d) @
     le_bytes 4 (MsgClientLoggedOff_SecMinReconnectHint d) @
     le_bytes 4 (MsgClientLoggedOff_SecMaxReconnectHint d)"

definition MsgClientLoggedOff_Deserialize :: "MsgClientLoggedOff step" where
  "MsgClientLoggedOff_Deserialize = steps [
     assign_ok ReadInt32 (\<lambda>v d. d\<lparr>MsgClientLoggedOff_Result := v\<rparr>),
     assign ReadInt32 (\<lambda>v d. d\<lparr>MsgClientLoggedOff_SecMinReconnectHint := v\<rparr>),
     assign ReadInt32 (\<lambda>v d. d\<lparr>MsgClientLoggedOff_SecMaxReconnectHint := v\<rparr>)]"

definition MsgClientLoggedOff_GetEMsg :: "MsgClientLoggedOff \<Rightarrow> i32" where
  "MsgClientLoggedOff_GetEMsg d = EMsg_ClientLoggedOff"

interpretation MsgClientLoggedOff_codec: fixed_codec MsgClientLoggedOff_Serialize MsgClientLoggedOff_Deserialize 12
proof
  fix d x :: MsgClientLoggedOff and r :: bytes
  show "MsgClientLoggedOff_Deserialize d (MsgClientLoggedOff_Serialize x @ r) = (x, None, r)"
    by (simp add: MsgClientLoggedOff_Serialize_def MsgClientLoggedOff_Deserialize_def wire_defs)
  show "length (MsgClientLoggedOff_Serialize x) = 12"
    by (simp add: MsgClientLoggedOff_Serialize_def)
  have "needs (4 + (4 + (4 + 0))) MsgClientLoggedOff_Deserialize"
    unfolding MsgClientLoggedOff_Deserialize_def by (intro needs_intros)
  then show "needs 12 MsgClientLoggedOff_Deserialize" by simp
qed

record MsgClientJoinChat =
  MsgClientJoinChat_SteamIdChat :: steamid
  MsgClientJoinChat_IsVoiceSpeaker :: bool

definition NewMsgClientJoinChat :: MsgClientJoinChat where
  "NewMsgClientJoinChat = \<lparr>
     MsgClientJoinChat_SteamIdChat = 0,
     MsgClientJoinChat_IsVoiceSpeaker = False\<rparr>"

definition MsgClientJoinChat_Serialize :: "MsgClientJoinChat \<Rightarrow> bytes" where
  "MsgClientJoinChat_Serialize d =
     le_bytes 8 (MsgClientJoinChat_SteamIdChat d) @
     WriteBool (MsgClientJoinChat_IsVoiceSpeaker d)"

definition MsgClientJoinChat_Deserialize :: "MsgClientJoinChat step" where
  "MsgClientJoinChat_Deserialize = steps [
     assign_ok ReadUint64 (\<lambda>v d. d\<lparr>MsgClientJoinChat_SteamIdChat := v\<rparr>),
     assign ReadBool (\<lambda>v d. d\<lparr>MsgClientJoinChat_IsVoiceSpeaker := v\<rparr>)]"

definition MsgClientJoinChat_GetEMsg :: "MsgClientJoinChat \<Rightarrow> i32" where
  "MsgClientJoinChat_GetEMsg d = EMsg_ClientJoinChat"

interpretation MsgClientJoinChat_codec: fixed_codec MsgClientJoinChat_Serialize MsgClientJoinChat_Deserialize 9
proof
  fix d x :: MsgClientJoinChat and r :: bytes
  show "MsgClientJoinChat_Deserialize d (MsgClientJoinChat_Serialize x @ r) = (x, None, r)"
    by (simp add: MsgClientJoinChat_Serialize_def MsgClientJoinChat_Deserialize_def wire_defs)
  show "length (MsgClientJoinChat_Serialize x) = 9"
    by (simp add: MsgClientJoinChat_Serialize_def)
  have "needs (8 + (1 + 0)) MsgClientJoinChat_Deserialize"
    unfolding MsgClientJoinChat_Deserialize_def by (intro needs_intros)
  then show "needs 9 MsgClientJoinChat_Deserialize" by simp
qed

record MsgClientChatEnter =
  MsgClientChatEnter_SteamIdChat :: steamid
  MsgClientChatEnter_SteamIdFriend :: steamid
  MsgClientChatEnter_ChatRoomType :: EChatRoomType
  MsgClientChatEnter_SteamIdOwner :: steamid
  MsgClientChatEnter_SteamIdClan :: steamid
  MsgClientChatEnter_ChatFlags :: u8
  MsgClientChatEnter_EnterResponse :: EChatRoomEnterResponse
  MsgClientChatEnter_NumMembers :: i32

definition NewMsgClientChatEnter :: MsgClientChatEnter where
  "NewMsgClientChatEnter = \<lparr>
     MsgClientChatEnter_SteamIdChat = 0,
     MsgClientChatEnter_SteamIdFriend = 0,
     MsgClientChatEnter_ChatRoomType = 0,
     MsgClientChatEnter_SteamIdOwner = 0,
     MsgClientChatEnter_SteamIdClan = 0,
     MsgClientChatEnter_ChatFlags = 0,
     MsgClientChatEnter_EnterResponse = 0,
     MsgClientChatEnter_NumMembers = 0\<rparr>"

definition MsgClientChatEnter_Serialize :: "MsgClientChatEnter \<Rightarrow> bytes" where
  "MsgClientChatEnter_Serialize d =
     le_bytes 8 (MsgClientChatEnter_SteamIdChat d) @
     le_bytes 8 (MsgClientChatEnter_SteamIdFriend d) @
     le_bytes 4 (MsgClientChatEnter_ChatRoomType d) @
     le_bytes 8 (MsgClientChatEnter_SteamIdOwner d) @
     le_bytes 8 (MsgClientChatEnter_SteamIdClan d) @
     le_bytes 1 (MsgClientChatEnter_ChatFlags d) @
     le_bytes 4 (MsgClientChatEnter_EnterResponse d) @
     le_bytes 4 (MsgClientChatEnter_NumMembers d)"

definition MsgClientChatEnter_Deserialize :: "MsgClientChatEnter step" where
  "MsgClientChatEnter_Deserialize = steps [
     assign_ok ReadUint64 (\<lambda>v d. d\<lparr>MsgClientChatEnter_SteamIdChat := v\<rparr>),
     assign_ok ReadUint64 (\<lambda>v d. d\<lparr>MsgClientChatEnter_SteamIdFriend := v\<rparr>),
     assign_ok ReadInt32 (\<lambda>v d. d\<lparr>MsgClientChatEnter_ChatRoomType := v\<rparr>),
     assign_ok ReadUint64 (\<lambda>v d. d\<lparr>MsgClientChatEnter_SteamIdOwner := v\<rparr>),
     assign_ok ReadUint64 (\<lambda>v d. d\<lparr>MsgClientChatEnter_SteamIdClan := v\<rparr>),
     assign ReadUint8 (\<lambda>v d. d\<lparr>MsgClientChatEnter_ChatFlags := v\<rparr>),
     assign_ok ReadInt32 (\<lambda>v d. d\<lparr>MsgClientChatEnter_EnterResponse := v\<rparr>),
     assign ReadInt32 (\<lambda>v d. d\<lparr>MsgClientChatEnter_NumMembers := v\<rparr>)]"

definition MsgClientChatEnter_GetEMsg :: "MsgClientChatEnter \<Rightarrow> i32" where
  "MsgClientChatEnter_GetEMsg d = EMsg_ClientChatEnter"

interpretation MsgClientChatEnter_codec: fixed_codec MsgClientChatEnter_Serialize MsgClientChatEnter_Deserialize 45
proof
  fix d x :: MsgClientChatEnter and r :: bytes
  show "MsgClientChatEnter_Deserialize d (MsgClientChatEnter_Serialize x @ r) = (x, None, r)"
    by (simp add: MsgClientChatEnter_Serialize_def MsgClientChatEnter_Deserialize_def wire_defs)
  show "length (MsgClientChatEnter_Serialize x) = 45"
    by (simp add: MsgClientChatEnter_Serialize_def)
  have "needs (8 + (8 + (4 + (8 + (8 + (1 + (4 + (4 + 0)))))))) MsgClientChatEnter_Deserialize"
    unfolding MsgClientChatEnter_Deserialize_def by (intro needs_intros)
  then show "needs 45 MsgClientChatEnter_Deserialize" by simp
qed

record MsgClientChatMsg =
  MsgClientChatMsg_SteamIdChatter :: steamid
  MsgClientChatMsg_SteamIdChatRoom :: steamid
  MsgClientChatMsg_ChatMsgType :: EChatEntryType

definition NewMsgClientChatMsg :: MsgClientChatMsg where
  "NewMsgClientChatMsg = \<lparr>
     MsgClientChatMsg_SteamIdChatter = 0,
     MsgClientChatMsg_SteamIdChatRoom = 0,
     MsgClientChatMsg_ChatMsgType = 0\<rparr>"

definition MsgClientChatMsg_Serialize :: "MsgClientChatMsg \<Rightarrow> bytes" where
  "MsgClientChatMsg_Serialize d =
     le_bytes 8 (MsgClientChatMsg_SteamIdChatter d) @
     le_bytes 8 (MsgClientChatMsg_SteamIdChatRoom d) @
     le_bytes 4 (MsgClientChatMsg_ChatMsgType d)"

definition MsgClientChatMsg_Deserialize :: "MsgClientChatMsg step" where
  "MsgClientChatMsg_Deserialize = steps [
     assign_ok ReadUint64 (\<lambda>v d. d\<lparr>MsgClientChatMsg_SteamIdChatter := v\<rparr>),
     assign_ok ReadUint64 (\<lambda>v d. d\<lparr>MsgClientChatMsg_SteamIdChatRoom := v\<rparr>),
     assign ReadInt32 (\<lambda>v d. d\<lparr>MsgClientChatMsg_ChatMsgType := v\<rparr>)]"

definition MsgClientChatMsg_GetEMsg :: "MsgClientChatMsg \<Rightarrow> i32" where
  "MsgClientChatMsg_GetEMsg d = EMsg_ClientChatMsg"

interpretation MsgClientChatMsg_codec: fixed_codec MsgClientChatMsg_Serialize MsgClientChatMsg_Deserialize 20
proof
  fix d x :: MsgClientChatMsg and r :: bytes
  show "MsgClientChatMsg_Deserialize d (MsgClientChatMsg_Serialize x @ r) = (x, None, r)"
    by (simp add: MsgClientChatMsg_Serialize_def MsgClientChatMsg_Deserialize_def wire_defs)
  show "length (MsgClientChatMsg_Serialize x) = 20"
    by (simp add: MsgClientChatMsg_Serialize_def)
  have "needs (8 + (8 + (4 + 0))) MsgClientChatMsg_Deserialize"
    unfolding MsgClientChatMsg_Deserialize_def by (intro needs_intros)
  then show "needs 20 MsgClientChatMsg_Deserialize" by simp
qed

record MsgClientChatMemberInfo =
  MsgClientChatMemberInfo_SteamIdChat :: steamid
  MsgClientChatMemberInfo_Type :: EChatInfoType

definition NewMsgClientChatMemberInfo :: MsgClientChatMemberInfo where
  "NewMsgClientChatMemberInfo = \<lparr>
     MsgClientChatMemberInfo_SteamIdChat = 0,
     MsgClientChatMemberInfo_Type = 0\<rparr>"

definition MsgClientChatMemberInfo_Serialize :: "MsgClientChatMemberInfo \<Rightarrow> bytes" where
  "MsgClientChatMemberInfo_Serialize d =
     le_bytes 8 (MsgClientChatMemberInfo_SteamIdChat d) @
     le_bytes 4 (MsgClientChatMemberInfo_Type d)"

definition MsgClientChatMemberInfo_Deserialize :: "MsgClientChatMemberInfo step" where
  "MsgClientChatMemberInfo_Deserialize = steps [
     assign_ok ReadUint64 (\<lambda>v d. d\<lparr>MsgClientChatMemberInfo_SteamIdChat := v\<rparr>),
     assign ReadInt32 (\<lambda>v d. d\<lparr>MsgClientChatMemberInfo_Type := v\<rparr>)]"

definition MsgClientChatMemberInfo_GetEMsg :: "MsgClientChatMemberInfo \<Rightarrow> i32" where
  "MsgClientChatMemberInfo_GetEMsg d = EMsg_ClientChatMemberInfo"

interpretation MsgClientChatMemberInfo_codec: fixed_codec MsgClientChatMemberInfo_Serialize MsgClientChatMemberInfo_Deserialize 12
proof
  fix d x :: MsgClientChatMemberInfo and r :: bytes
  show "MsgClientChatMemberInfo_Deserialize d (MsgClientChatMemberInfo_Serialize x @ r) = (x, None, r)"
    by (simp add: MsgClientChatMemberInfo_Serialize_def MsgClientChatMemberInfo_Deserialize_def wire_defs)
  show "length (MsgClientChatMemberInfo_Serialize x) = 12"
    by (simp add: MsgClientChatMemberInfo_Serialize_def)
  have "needs (8 + (4 + 0)) MsgClientChatMemberInfo_Deserialize"
    unfolding MsgClientChatMemberInfo_Deserialize_def by (intro needs_intros)
  then show "needs 12 MsgClientChatMemberInfo_Deserialize" by simp
qed

record MsgClientChatAction =
  MsgClientChatAction_SteamIdChat :: steamid
  MsgClientChatAction_SteamIdUserToActOn :: steamid
  MsgClientChatAction_ChatAction :: EChatAction

definition NewMsgClientChatAction :: MsgClientChatAction where
  "NewMsgClientChatAction = \<lparr>
     MsgClientChatAction_SteamIdChat = 0,
     MsgClientChatAction_SteamIdUserToActOn = 0,
     MsgClientChatAction_ChatAction = 0\<rparr>"

definition MsgClientChatAction_Serialize :: "MsgClientChatAction \<Rightarrow> bytes" where
  "MsgClientChatAction_Serialize d =
     le_bytes 8 (MsgClientChatAction_SteamIdChat d) @
     le_bytes 8 (MsgClientChatAction_SteamIdUserToActOn d) @
     le_bytes 4 (MsgClientChatAction_ChatAction d)"

definition MsgClientChatAction_Deserialize :: "MsgClientChatAction step" where
  "MsgClientChatAction_Deserialize = steps [
     assign_ok ReadUint64 (\<lambda>v d. d\<lparr>MsgClientChatAction_SteamIdChat := v\<rparr>),
     assign_ok ReadUint64 (\<lambda>v d. d\<lparr>MsgClientChatAction_SteamIdUserToActOn := v\<rparr>),
     assign ReadInt32 (\<lambda>v d. d\<lparr>MsgClientChatAction_ChatAction := v\<rparr>)]"

definition MsgClientChatAction_GetEMsg :: "MsgClientChatAction \<Rightarrow> i32" where
  "MsgClientChatAction_GetEMsg d = EMsg_ClientChatAction"

interpretation MsgClientChatAction_codec: fixed_codec MsgClientChatAction_Serialize MsgClientChatAction_Deserialize 20
proof
  fix d x :: MsgClientChatAction and r :: bytes
  show "MsgClientChatAction_Deserialize d (MsgClientChatAction_Serialize x @ r) = (x, None, r)"
    by (simp add: MsgClientChatAction_Serialize_def MsgClientChatAction_Deserialize_def wire_defs)
  show "length (MsgClientChatAction_Serialize x) = 20"
    by (simp add: MsgClientChatAction_Serialize_def)
  have "needs (8 + (8 + (4 + 0))) MsgClientChatAction_Deserialize"
    unfolding MsgClientChatAction_Deserialize_def by (intro needs_intros)
  then show "needs 20 MsgClientChatAction_Deserialize" by simp
qed

record MsgClientChatActionResult =
  MsgClientChatActionResult_SteamIdChat :: steamid
  MsgClientChatActionResult_SteamIdUserActedOn :: steamid
  MsgClientChatActionResult_ChatAction :: EChatAction
  MsgClientChatActionResult_ActionResult :: EChatActionResult

definition NewMsgClientChatActionResult :: MsgClientChatActionResult where
  "NewMsgClientChatActionResult = \<lparr>
     MsgClientChatActionResult_SteamIdChat = 0,
     MsgClientChatActionResult_SteamIdUserActedOn = 0,
     MsgClientChatActionResult_ChatAction = 0,
     MsgClientChatActionResult_ActionResult = 0\<rparr>"

definition MsgClientChatActionResult_Serialize :: "MsgClientChatActionResult \<Rightarrow> bytes" where
  "MsgClientChatActionResult_Serialize d =
     le_bytes 8 (MsgClientChatActionResult_SteamIdChat d) @
     le_bytes 8 (MsgClientChatActionResult_SteamIdUserActedOn d) @
     le_bytes 4 (MsgClientChatActionResult_ChatAction d) @
     le_bytes 4 (MsgClientChatActionResult_ActionResult d)"

definition MsgClientChatActionResult_Deserialize :: "MsgClientChatActionResult step" where
  "MsgClientChatActionResult_Deserialize = steps [
     assign_ok ReadUint64 (\<lambda>v d. d\<lparr>MsgClientChatActionResult_SteamIdChat := v\<rparr>),
     assign_ok ReadUint64 (\<lambda>v d. d\<lparr>MsgClientChatActionResult_SteamIdUserActedOn := v\<rparr>),
     assign_ok ReadInt32 (\<lambda>v d. d\<lparr>MsgClientChatActionResult_ChatAction := v\<rparr>),
     assign ReadInt32 (\<lambda>v d. d\<lparr>MsgClientChatActionResult_ActionResult := v\<rparr>)]"

definition MsgClientChatActionResult_GetEMsg :: "MsgClientChatActionResult \<Rightarrow> i32" where
  "MsgClientChatActionResult_GetEMsg d = EMsg_ClientChatActionResult"

interpretation MsgClientChatActionResult_codec: fixed_codec MsgClientChatActionResult_Serialize MsgClientChatActionResult_Deserialize 24
proof
  fix d x :: MsgClientChatActionResult and r :: bytes
  show "MsgClientChatActionResult_Deserialize d (MsgClientChatActionResult_Serialize x @ r) = (x, None, r)"
    by (simp add: MsgClientChatActionResult_Serialize_def MsgClientChatActionResult_Deserialize_def wire_defs)
  show "length (MsgClientChatActionResult_Serialize x) = 24"
    by (simp add: MsgClientChatActionResult_Serialize_def)
  have "needs (8 + (8 + (4 + (4 + 0)))) MsgClientChatActionResult_Deserialize"
    unfolding MsgClientChatActionResult_Deserialize_def by (intro needs_intros)
  then show "needs 24 MsgClientChatActionResult_Deserialize" by simp
qed

record MsgClientSetIgnoreFriend =
  MsgClientSetIgnoreFriend_MySteamId :: steamid
  MsgClientSetIgnoreFriend_SteamIdFriend :: steamid
  MsgClientSetIgnoreFriend_Ignore :: u8

definition NewMsgClientSetIgnoreFriend :: MsgClientSetIgnoreFriend where
  "NewMsgClientSetIgnoreFriend = \<lparr>
     MsgClientSetIgnoreFriend_MySteamId = 0,
     MsgClientSetIgnoreFriend_SteamIdFriend = 0,
     MsgClientSetIgnoreFriend_Ignore = 0\<rparr>"

definition MsgClientSetIgnoreFriend_Serialize :: "MsgClientSetIgnoreFriend \<Rightarrow> bytes" where
  "MsgClientSetIgnoreFriend_Serialize d =
     le_bytes 8 (MsgClientSetIgnoreFriend_MySteamId d) @
     le_bytes 8 (MsgClientSetIgnoreFriend_SteamIdFriend d) @
     le_bytes 1 (MsgClientSetIgnoreFriend_Ignore d)"

definition MsgClientSetIgnoreFriend_Deserialize :: "MsgClientSetIgnoreFriend step" where
  "MsgClientSetIgnoreFriend_Deserialize = steps [
     assign_ok ReadUint64 (\<lambda>v d. d\<lparr>MsgClientSetIgnoreFriend_MySteamId := v\<rparr>),
     assign_ok ReadUint64 (\<lambda>v d. d\<lparr>MsgClientSetIgnoreFriend_SteamIdFriend := v\<rparr>),
     assign ReadUint8 (\<lambda>v d. d\<lparr>MsgClientSetIgnoreFriend_Ignore := v\<rparr>)]"

definition MsgClientSetIgnoreFriend_GetEMsg :: "MsgClientSetIgnoreFriend \<Rightarrow> i32" where
  "MsgClientSetIgnoreFriend_GetEMsg d = EMsg_ClientSetIgnoreFriend"

interpretation MsgClientSetIgnoreFriend_codec: fixed_codec MsgClientSetIgnoreFriend_Serialize MsgClientSetIgnoreFriend_Deserialize 17
proof
  fix d x :: MsgClientSetIgnoreFriend and r :: bytes
  show "MsgClientSetIgnoreFriend_Deserialize d (MsgClientSetIgnoreFriend_Serialize x @ r) = (x, None, r)"
    by (simp add: MsgClientSetIgnoreFriend_Serialize_def MsgClientSetIgnoreFriend_Deserialize_def wire_defs)
  show "length (MsgClientSetIgnoreFriend_Serialize x) = 17"
    by (simp add: MsgClientSetIgnoreFriend_Serialize_def)
  have "needs (8 + (8 + (1 + 0))) MsgClientSetIgnoreFriend_Deserialize"
    unfolding MsgClientSetIgnoreFriend_Deserialize_def by (intro needs_intros)
  then show "needs 17 MsgClientSetIgnoreFriend_Deserialize" by simp
qed

record MsgClientSetIgnoreFriendResponse =
  MsgClientSetIgnoreFriendResponse_FriendId :: steamid
  MsgClientSetIgnoreFriendResponse_Result :: EResult

definition NewMsgClientSetIgnoreFriendResponse :: MsgClientSetIgnoreFriendResponse where
  "NewMsgClientSetIgnoreFriendResponse = \<lparr>
     MsgClientSetIgnoreFriendResponse_FriendId = 0,
     MsgClientSetIgnoreFriendResponse_Result = 0\<rparr>"

definition MsgClientSetIgnoreFriendResponse_Serialize :: "MsgClientSetIgnoreFriendResponse \<Rightarrow> bytes" where
  "MsgClientSetIgnoreFriendResponse_Serialize d =
     le_bytes 8 (MsgClientSetIgnoreFriendResponse_FriendId d) @
     le_bytes 4 (MsgClientSetIgnoreFriendResponse_Result d)"

definition MsgClientSetIgnoreFriendResponse_Deserialize :: "MsgClientSetIgnoreFriendResponse step" where
  "MsgClientSetIgnoreFriendResponse_Deserialize = steps [
     assign_ok ReadUint64 (\<lambda>v d. d\<lparr>MsgClientSetIgnoreFriendResponse_FriendId := v\<rparr>),
     assign ReadInt32 (\<lambda>v d. d\<lparr>MsgClientSetIgnoreFriendResponse_Result := v\<rparr>)]"

definition MsgClientSetIgnoreFriendResponse_GetEMsg :: "MsgClientSetIgnoreFriendResponse \<Rightarrow> i32" where
  "MsgClientSetIgnoreFriendResponse_GetEMsg d = EMsg_ClientSetIgnoreFriendResponse"

interpretation MsgClientSetIgnoreFriendResponse_codec: fixed_codec MsgClientSetIgnoreFriendResponse_Serialize MsgClientSetIgnoreFriendResponse_Deserialize 12
proof
  fix d x :: MsgClientSetIgnoreFriendResponse and r :: bytes
  show "MsgClientSetIgnoreFriendResponse_Deserialize d (MsgClientSetIgnoreFriendResponse_Serialize x @ r) = (x, None, r)"
    by (simp add: MsgClientSetIgnoreFriendResponse_Serialize_def MsgClientSetIgnoreFriendResponse_Deserialize_def wire_defs)
  show "length (MsgClientSetIgnoreFriendResponse_Serialize x) = 12"
    by (simp add: MsgClientSetIgnoreFriendResponse_Serialize_def)
  have "needs (8 + (4 + 0)) MsgClientSetIgnoreFriendResponse_Deserialize"
    unfolding MsgClientSetIgnoreFriendResponse_Deserialize_def by (intro needs_intros)
  then show "needs 12 MsgClientSetIgnoreFriendResponse_Deserialize" by simp
qed

end
