(* ===== verification/Protocol.thy ===== *)
theory Protocol
  imports Protocol_Hdr Steamlang_Chat
begin

text \<open>
  Messages and packets: \<open>protocol/msg.go\<close> and \<open>protocol/packet.go\<close>.
  The Go interfaces \<open>IMsg\<close> and \<open>IClientMsg\<close> are the locales \<open>imsg\<close> and \<open>iclient_msg\<close>, interpreted on
  the three message types. The records of messages are polymorphic in the body; \<open>IMsg\<close> is the
  type of everything the client can put into its send queue.
\<close>

section \<open>The interfaces IMsg and IClientMsg\<close>

locale imsg =
  fixes msg_type :: "'m \<Rightarrow> i32"
    and get_target :: "'m \<Rightarrow> JobId" and set_target :: "JobId \<Rightarrow> 'm \<Rightarrow> 'm"
    and get_source :: "'m \<Rightarrow> JobId" and set_source :: "JobId \<Rightarrow> 'm \<Rightarrow> 'm"
  assumes target_same: "get_target (set_target j m) = j"
    and source_same: "get_source (set_source j m) = j"
    and target_source: "get_target (set_source j m) = get_target m"
    and source_target: "get_source (set_target j m) = get_source m"
    and type_jobs: "msg_type (set_target j m) = msg_type m" "msg_type (set_source j m) = msg_type m"
begin

lemma jobs_set:
  "get_target (set_source s (set_target t m)) = t \<and> get_source (set_source s (set_target t m)) = s
    \<and> msg_type (set_source s (set_target t m)) = msg_type m"
  by (simp add: target_same source_same target_source type_jobs)

end

locale iclient_msg = imsg +
  fixes get_session :: "'a \<Rightarrow> i32" and set_session :: "i32 \<Rightarrow> 'a \<Rightarrow> 'a"
    and get_steamid :: "'a \<Rightarrow> steamid" and set_steamid :: "steamid \<Rightarrow> 'a \<Rightarrow> 'a"
  assumes session_same: "get_session (set_session i m) = i"
    and steamid_same: "get_steamid (set_steamid s m) = s"
    and session_steamid: "get_session (set_steamid s m) = get_session m"
    and stamps_jobs: "get_target (set_session i m) = get_target m" "get_target (set_steamid s m) = get_target m"
      "get_source (set_session i m) = get_source m" "get_source (set_steamid s m) = get_source m"
    and stamps_type: "msg_type (set_session i m) = msg_type m" "msg_type (set_steamid s m) = msg_type m"
begin

lemma stamped:
  "get_session (set_steamid s (set_session i m)) = i
    \<and> get_steamid (set_steamid s (set_session i m)) = s
    \<and> get_target (set_steamid s (set_session i m)) = get_target m
    \<and> get_source (set_steamid s (set_session i m)) = get_source m
    \<and> msg_type (set_steamid s (set_session i m)) = msg_type m"
  by (simp add: session_same steamid_same session_steamid stamps_jobs stamps_type)

end

section \<open>ClientMsgProtobuf\<close>

record 'b ClientMsgProtobuf =
  CMP_Header :: MsgHdrProtoBuf
  CMP_Body :: 'b

definition NewClientMsgProtobuf :: "EMsg \<Rightarrow> 'b \<Rightarrow> 'b ClientMsgProtobuf" where
  "NewClientMsgProtobuf eMsg body =
     (let hdr = NewMsgHdrProtoBuf\<lparr>MsgHdrProtoBuf_Msg := eMsg\<rparr>
      in \<lparr>CMP_Header = hdr, CMP_Body = body\<rparr>)"

definition CMP_proto :: "'b ClientMsgProtobuf \<Rightarrow> CMsgProtoBufHeader" where
  "CMP_proto c = MsgHdrProtoBuf_Proto (CMP_Header c)"

definition CMP_upd :: "(CMsgProtoBufHeader \<Rightarrow> CMsgProtoBufHeader) \<Rightarrow> 'b ClientMsgProtobuf \<Rightarrow> 'b ClientMsgProtobuf" where
  "CMP_upd f c = c\<lparr>CMP_Header := (CMP_Header c)\<lparr>MsgHdrProtoBuf_Proto := f (CMP_proto c)\<rparr>\<rparr>"

definition CMP_IsProto :: "'b ClientMsgProtobuf \<Rightarrow> bool" where "CMP_IsProto c = True"

definition CMP_GetMsgType :: "'b ClientMsgProtobuf \<Rightarrow> EMsg" where
  "CMP_GetMsgType c = NewEMsg (MsgHdrProtoBuf_Msg (CMP_Header c))"

definition CMP_GetSessionId :: "'b ClientMsgProtobuf \<Rightarrow> i32" where
  "CMP_GetSessionId c = CMsgProtoBufHeader_GetClientSessionid (CMP_proto c)"

definition CMP_SetSessionId :: "i32 \<Rightarrow> 'b ClientMsgProtobuf \<Rightarrow> 'b ClientMsgProtobuf" where
  "CMP_SetSessionId session c = CMP_upd (\<lambda>h. h\<lparr>CMsgProtoBufHeader_ClientSessionid := Some session\<rparr>) c"

definition CMP_GetSteamId :: "'b ClientMsgProtobuf \<Rightarrow> steamid" where
  "CMP_GetSteamId c = CMsgProtoBufHeader_GetSteamid (CMP_proto c)"

definition CMP_SetSteamId :: "steamid \<Rightarrow> 'b ClientMsgProtobuf \<Rightarrow> 'b ClientMsgProtobuf" where
  "CMP_SetSteamId s c = CMP_upd (\<lambda>h. h\<lparr>CMsgProtoBufHeader_Steamid := Some s\<rparr>) c"

definition CMP_GetTargetJobId :: "'b ClientMsgProtobuf \<Rightarrow> JobId" where
  "CMP_GetTargetJobId c = CMsgProtoBufHeader_GetJobidTarget (CMP_proto c)"

definition CMP_SetTargetJobId :: "JobId \<Rightarrow> 'b ClientMsgProtobuf \<Rightarrow> 'b ClientMsgProtobuf" where
  "CMP_SetTargetJobId job c = CMP_upd (\<lambda>h. h\<lparr>CMsgProtoBufHeader_JobidTarget := Some job\<rparr>) c"

definition CMP_GetSourceJobId :: "'b ClientMsgProtobuf \<Rightarrow> JobId" where
  "CMP_GetSourceJobId c = CMsgProtoBufHeader_GetJobidSource (CMP_proto c)"

definition CMP_SetSourceJobId :: "JobId \<Rightarrow> 'b ClientMsgProtobuf \<Rightarrow> 'b ClientMsgProtobuf" where
  "CMP_SetSourceJobId job c = CMP_upd (\<lambda>h. h\<lparr>CMsgProtoBufHeader_JobidSource := Some job\<rparr>) c"

text \<open>\<open>Serialize\<close>: the header as it is afterwards, and the bytes written.\<close>

definition CMP_Serialize ::
  "hdr_codec \<Rightarrow> ('b \<Rightarrow> bytes res) \<Rightarrow> 'b ClientMsgProtobuf \<Rightarrow> ('b ClientMsgProtobuf \<times> bytes) res" where
  "CMP_Serialize c marshal m = bind_res (MsgHdrProtoBuf_Serialize c (CMP_Header m)) (\<lambda>(hdr, w).
     bind_res (marshal (CMP_Body m)) (\<lambda>body. Ok (m\<lparr>CMP_Header := hdr\<rparr>, w @ body)))"

lemmas CMP_defs = CMP_proto_def CMP_upd_def CMP_GetMsgType_def CMP_GetSessionId_def CMP_SetSessionId_def
  CMP_GetSteamId_def CMP_SetSteamId_def CMP_GetTargetJobId_def CMP_SetTargetJobId_def
  CMP_GetSourceJobId_def CMP_SetSourceJobId_def

interpretation CMP_msg: iclient_msg CMP_GetMsgType CMP_GetTargetJobId CMP_SetTargetJobId
  CMP_GetSourceJobId CMP_SetSourceJobId CMP_GetSessionId CMP_SetSessionId CMP_GetSteamId CMP_SetSteamId
  by unfold_locales (simp_all add: CMP_defs pb_get)

section \<open>ClientMsg and Msg\<close>

record 'b ClientMsg =
  CM_Header :: ExtendedClientMsgHdr
  CM_Body :: 'b
  CM_Payload :: bytes

definition NewClientMsg :: "('b \<Rightarrow> EMsg) \<Rightarrow> 'b \<Rightarrow> bytes \<Rightarrow> 'b ClientMsg" where
  "NewClientMsg emsg body payload =
     (let hdr = NewExtendedClientMsgHdr\<lparr>ExtendedClientMsgHdr_Msg := emsg body\<rparr>
      in \<lparr>CM_Header = hdr, CM_Body = body, CM_Payload = payload\<rparr>)"

definition CM_upd :: "(ExtendedClientMsgHdr \<Rightarrow> ExtendedClientMsgHdr) \<Rightarrow> 'b ClientMsg \<Rightarrow> 'b ClientMsg" where
  "CM_upd f c = c\<lparr>CM_Header := f (CM_Header c)\<rparr>"

text \<open>As in the code, \<open>IsProto\<close> of a struct backed client message is true.\<close>

definition CM_IsProto :: "'b ClientMsg \<Rightarrow> bool" where "CM_IsProto c = True"

definition CM_GetMsgType :: "'b ClientMsg \<Rightarrow> EMsg" where
  "CM_GetMsgType c = ExtendedClientMsgHdr_Msg (CM_Header c)"

definition CM_GetSessionId :: "'b ClientMsg \<Rightarrow> i32" where
  "CM_GetSessionId c = ExtendedClientMsgHdr_SessionID (CM_Header c)"

definition CM_SetSessionId :: "i32 \<Rightarrow> 'b ClientMsg \<Rightarrow> 'b ClientMsg" where
  "CM_SetSessionId session c = CM_upd (\<lambda>h. h\<lparr>ExtendedClientMsgHdr_SessionID := session\<rparr>) c"

definition CM_GetSteamId :: "'b ClientMsg \<Rightarrow> steamid" where
  "CM_GetSteamId c = ExtendedClientMsgHdr_SteamID (CM_Header c)"

definition CM_SetSteamId :: "steamid \<Rightarrow> 'b ClientMsg \<Rightarrow> 'b ClientMsg" where
  "CM_SetSteamId s c = CM_upd (\<lambda>h. h\<lparr>ExtendedClientMsgHdr_SteamID := s\<rparr>) c"

definition CM_GetTargetJobId :: "'b ClientMsg \<Rightarrow> JobId" where
  "CM_GetTargetJobId c = ExtendedClientMsgHdr_TargetJobID (CM_Header c)"

definition CM_SetTargetJobId :: "JobId \<Rightarrow> 'b ClientMsg \<Rightarrow> 'b ClientMsg" where
  "CM_SetTargetJobId job c = CM_upd (\<lambda>h. h\<lparr>ExtendedClientMsgHdr_TargetJobID := job\<rparr>) c"

definition CM_GetSourceJobId :: "'b ClientMsg \<Rightarrow> JobId" where
  "CM_GetSourceJobId c = ExtendedClientMsgHdr_SourceJobID (CM_Header c)"

definition CM_SetSourceJobId :: "JobId \<Rightarrow> 'b ClientMsg \<Rightarrow> 'b ClientMsg" where
  "CM_SetSourceJobId job c = CM_upd (\<lambda>h. h\<lparr>ExtendedClientMsgHdr_SourceJobID := job\<rparr>) c"

definition CM_Serialize :: "('b \<Rightarrow> bytes) \<Rightarrow> 'b ClientMsg \<Rightarrow> bytes" where
  "CM_Serialize ser c = ExtendedClientMsgHdr_Serialize (CM_Header c) @ ser (CM_Body c) @ CM_Payload c"

lemmas CM_defs = CM_upd_def CM_GetMsgType_def CM_GetSessionId_def CM_SetSessionId_def
  CM_GetSteamId_def CM_SetSteamId_def CM_GetTargetJobId_def CM_SetTargetJobId_def
  CM_GetSourceJobId_def CM_SetSourceJobId_def

interpretation CM_msg: iclient_msg CM_GetMsgType CM_GetTargetJobId CM_SetTargetJobId
  CM_GetSourceJobId CM_SetSourceJobId CM_GetSessionId CM_SetSessionId CM_GetSteamId CM_SetSteamId
  by unfold_locales (simp_all add: CM_defs)

record 'b Msg =
  M_Header :: MsgHdr
  M_Body :: 'b
  M_Payload :: bytes

definition NewMsg :: "('b \<Rightarrow> EMsg) \<Rightarrow> 'b \<Rightarrow> bytes \<Rightarrow> 'b Msg" where
  "NewMsg emsg body payload =
     (let hdr = NewMsgHdr\<lparr>MsgHdr_Msg := emsg body\<rparr>
      in \<lparr>M_Header = hdr, M_Body = body, M_Payload = payload\<rparr>)"

definition M_upd :: "(MsgHdr \<Rightarrow> MsgHdr) \<Rightarrow> 'b Msg \<Rightarrow> 'b Msg" where
  "M_upd f c = c\<lparr>M_Header := f (M_Header c)\<rparr>"

definition M_IsProto :: "'b Msg \<Rightarrow> bool" where "M_IsProto m = False"
definition M_GetMsgType :: "'b Msg \<Rightarrow> EMsg" where "M_GetMsgType m = MsgHdr_Msg (M_Header m)"
definition M_GetTargetJobId :: "'b Msg \<Rightarrow> JobId" where
  "M_GetTargetJobId m = MsgHdr_TargetJobID (M_Header m)"
definition M_SetTargetJobId :: "JobId \<Rightarrow> 'b Msg \<Rightarrow> 'b Msg" where
  "M_SetTargetJobId job m = M_upd (\<lambda>h. h\<lparr>MsgHdr_TargetJobID := job\<rparr>) m"
definition M_GetSourceJobId :: "'b Msg \<Rightarrow> JobId" where
  "M_GetSourceJobId m = MsgHdr_SourceJobID (M_Header m)"
definition M_SetSourceJobId :: "JobId \<Rightarrow> 'b Msg \<Rightarrow> 'b Msg" where
  "M_SetSourceJobId job m = M_upd (\<lambda>h. h\<lparr>MsgHdr_SourceJobID := job\<rparr>) m"

definition M_Serialize :: "('b \<Rightarrow> bytes) \<Rightarrow> 'b Msg \<Rightarrow> bytes" where
  "M_Serialize ser m = MsgHdr_Serialize (M_Header m) @ ser (M_Body m) @ M_Payload m"

lemmas M_defs = M_upd_def M_GetMsgType_def M_GetTargetJobId_def M_SetTargetJobId_def
  M_GetSourceJobId_def M_SetSourceJobId_def

interpretation M_msg: imsg M_GetMsgType M_GetTargetJobId M_SetTargetJobId M_GetSourceJobId M_SetSourceJobId
  by unfold_locales (simp_all add: M_defs)

text \<open>The wire format of a struct message is a framed one: header, body, payload.\<close>

interpretation encrypt_request_frame: framed MsgHdr_Serialize MsgHdr_Deserialize
  MsgChannelEncryptRequest_Serialize MsgChannelEncryptRequest_Deserialize
  by unfold_locales

interpretation chat_msg_frame: framed ExtendedClientMsgHdr_Serialize ExtendedClientMsgHdr_Deserialize
  MsgClientChatMsg_Serialize MsgClientChatMsg_Deserialize
  by unfold_locales

section \<open>Packets\<close>

record Packet =
  Packet_EMsg :: EMsg
  Packet_IsProto :: bool
  Packet_TargetJobId :: JobId
  Packet_SourceJobId :: JobId
  Packet_Data :: bytes

definition NewPacket :: "hdr_codec \<Rightarrow> bytes \<Rightarrow> Packet res" where
  "NewPacket c data =
     (case ReadUint32 data of (rawEMsg, Some err, _) \<Rightarrow> Err err | (rawEMsg, None, _) \<Rightarrow>
      let eMsg = NewEMsg rawEMsg in
      if eMsg = EMsg_ChannelEncryptRequest \<or> eMsg = EMsg_ChannelEncryptResult then
        (case MsgHdr_Deserialize (NewMsgHdr\<lparr>MsgHdr_Msg := eMsg\<rparr>) data of
            (header, Some err, _) \<Rightarrow> Err err
          | (header, None, _) \<Rightarrow> Ok \<lparr>Packet_EMsg = eMsg, Packet_IsProto = False,
              Packet_TargetJobId = MsgHdr_TargetJobID header,
              Packet_SourceJobId = MsgHdr_SourceJobID header, Packet_Data = data\<rparr>)
      else if IsProto rawEMsg then
        bind_res (MsgHdrProtoBuf_Deserialize c (NewMsgHdrProtoBuf\<lparr>MsgHdrProtoBuf_Msg := eMsg\<rparr>) data)
          (\<lambda>(header, err, _). case err of
             Some err \<Rightarrow> Err err
           | None \<Rightarrow> Ok \<lparr>Packet_EMsg = eMsg, Packet_IsProto = True,
               Packet_TargetJobId = CMsgProtoBufHeader_GetJobidTarget (MsgHdrProtoBuf_Proto header),
               Packet_SourceJobId = CMsgProtoBufHeader_GetJobidSource (MsgHdrProtoBuf_Proto header),
               Packet_Data = data\<rparr>)
      else
        (case ExtendedClientMsgHdr_Deserialize (NewExtendedClientMsgHdr\<lparr>ExtendedClientMsgHdr_Msg := eMsg\<rparr>) data of
            (header, Some err, _) \<Rightarrow> Err err
          | (header, None, _) \<Rightarrow> Ok \<lparr>Packet_EMsg = eMsg, Packet_IsProto = False,
              Packet_TargetJobId = ExtendedClientMsgHdr_TargetJobID header,
              Packet_SourceJobId = ExtendedClientMsgHdr_SourceJobID header, Packet_Data = data\<rparr>))"

text \<open>
  The \<open>Read\<close> methods drop every error: of the header, of \<open>Unmarshal\<close> and of the body's
  \<open>Deserialize\<close>. \<open>ReadProtoMsg\<close> may panic in the header like \<open>NewPacket\<close>.
\<close>

definition ReadProtoMsg ::
  "hdr_codec \<Rightarrow> (bytes \<Rightarrow> 'b \<times> go_err option) \<Rightarrow> Packet \<Rightarrow> 'b ClientMsgProtobuf res" where
  "ReadProtoMsg c unmarshal p =
     map_res (\<lambda>(header, _, buf). \<lparr>CMP_Header = header, CMP_Body = fst (unmarshal buf)\<rparr>)
       (MsgHdrProtoBuf_Deserialize c NewMsgHdrProtoBuf (Packet_Data p))"

definition ReadClientMsg :: "'b step \<Rightarrow> 'b \<Rightarrow> Packet \<Rightarrow> 'b ClientMsg" where
  "ReadClientMsg des body p =
     (case ExtendedClientMsgHdr_Deserialize NewExtendedClientMsgHdr (Packet_Data p) of (header, _, buf) \<Rightarrow>
     (case des body buf of (body, _, buf) \<Rightarrow>
        \<lparr>CM_Header = header, CM_Body = body, CM_Payload = buf\<rparr>))"

definition ReadMsg :: "'b step \<Rightarrow> 'b \<Rightarrow> Packet \<Rightarrow> 'b Msg" where
  "ReadMsg des body p =
     (case MsgHdr_Deserialize NewMsgHdr (Packet_Data p) of (header, _, buf) \<Rightarrow>
     (case des body buf of (body, _, buf) \<Rightarrow>
        \<lparr>M_Header = header, M_Body = body, M_Payload = buf\<rparr>))"

section \<open>What NewPacket accepts\<close>

definition encrypt_type :: "EMsg \<Rightarrow> bool" where
  "encrypt_type e \<longleftrightarrow> e = EMsg_ChannelEncryptRequest \<or> e = EMsg_ChannelEncryptResult"

definition raw_emsg :: "bytes \<Rightarrow> u32" where
  "raw_emsg data = le_word (take 4 data)"

lemma NewPacket_short:
  "length data < 4 \<Longrightarrow> NewPacket c data = Err (if data = [] then EOF else UnexpectedEOF)"
  by (simp add: NewPacket_def read_int_short)

lemma NewPacket_enc:
  "4 \<le> length data \<Longrightarrow> encrypt_type (NewEMsg (raw_emsg data)) \<Longrightarrow>
   NewPacket c data =
     (case MsgHdr_Deserialize (NewMsgHdr\<lparr>MsgHdr_Msg := NewEMsg (raw_emsg data)\<rparr>) data of
        (header, Some err, _) \<Rightarrow> Err err
      | (header, None, _) \<Rightarrow> Ok \<lparr>Packet_EMsg = NewEMsg (raw_emsg data), Packet_IsProto = False,
          Packet_TargetJobId = MsgHdr_TargetJobID header,
          Packet_SourceJobId = MsgHdr_SourceJobID header, Packet_Data = data\<rparr>)"
  unfolding NewPacket_def Let_def raw_emsg_def encrypt_type_def by (simp add: read_int_long)

lemma NewPacket_pb:
  "4 \<le> length data \<Longrightarrow> \<not> encrypt_type (NewEMsg (raw_emsg data)) \<Longrightarrow> IsProto (raw_emsg data) \<Longrightarrow>
   NewPacket c data =
     bind_res (MsgHdrProtoBuf_Deserialize c (NewMsgHdrProtoBuf\<lparr>MsgHdrProtoBuf_Msg := NewEMsg (raw_emsg data)\<rparr>) data)
       (\<lambda>(header, err, _). case err of
          Some err \<Rightarrow> Err err
        | None \<Rightarrow> Ok \<lparr>Packet_EMsg = NewEMsg (raw_emsg data), Packet_IsProto = True,
            Packet_TargetJobId = CMsgProtoBufHeader_GetJobidTarget (MsgHdrProtoBuf_Proto header),
            Packet_SourceJobId = CMsgProtoBufHeader_GetJobidSource (MsgHdrProtoBuf_Proto header),
            Packet_Data = data\<rparr>)"
  unfolding NewPacket_def Let_def raw_emsg_def encrypt_type_def by (simp add: read_int_long)

lemma NewPacket_ext:
  "4 \<le> length data \<Longrightarrow> \<not> encrypt_type (NewEMsg (raw_emsg data)) \<Longrightarrow> \<not> IsProto (raw_emsg data) \<Longrightarrow>
   NewPacket c data =
     (case ExtendedClientMsgHdr_Deserialize
             (NewExtendedClientMsgHdr\<lparr>ExtendedClientMsgHdr_Msg := NewEMsg (raw_emsg data)\<rparr>) data of
        (header, Some err, _) \<Rightarrow> Err err
      | (header, None, _) \<Rightarrow> Ok \<lparr>Packet_EMsg = NewEMsg (raw_emsg data), Packet_IsProto = False,
          Packet_TargetJobId = ExtendedClientMsgHdr_TargetJobID header,
          Packet_SourceJobId = ExtendedClientMsgHdr_SourceJobID header, Packet_Data = data\<rparr>)"
  unfolding NewPacket_def Let_def raw_emsg_def encrypt_type_def by (simp add: read_int_long)

lemmas NewPacket_cases = NewPacket_enc NewPacket_pb NewPacket_ext

lemma panics_bind_res:
  "panics (bind_res m f) \<longleftrightarrow> panics m \<or> (\<exists>x. m = Ok x \<and> panics (f x))"
  by (cases m) auto

lemma NewPacket_panics_iff_long:
  assumes "4 \<le> length data"
  shows "panics (NewPacket c data) \<longleftrightarrow> 8 \<le> length data \<and> \<not> encrypt_type (NewEMsg (raw_emsg data)) \<and>
     IsProto (raw_emsg data) \<and> sint (header_length_field data) < 0"
  using assms NewPacket_cases [OF assms, of c]
  by (cases "encrypt_type (NewEMsg (raw_emsg data))"; cases "IsProto (raw_emsg data)")
    (auto simp: panics_bind_res MsgHdrProtoBuf_Deserialize_panics_iff split: prod.splits option.splits)

text \<open>What it accepts is what was sent, and never more than what was sent.\<close>

lemma NewPacket_ok_long:
  assumes ok: "NewPacket c data = Ok p" and len: "4 \<le> length data"
  shows "Packet_Data p = data \<and> Packet_EMsg p = NewEMsg (raw_emsg data)
    \<and> (Packet_IsProto p \<longleftrightarrow> IsProto (raw_emsg data) \<and> \<not> encrypt_type (Packet_EMsg p))
    \<and> (encrypt_type (Packet_EMsg p) \<longrightarrow> 20 \<le> length data)
    \<and> (Packet_IsProto p \<longrightarrow> 0 \<le> sint (header_length_field data)
          \<and> 8 + nat (sint (header_length_field data)) \<le> length data)
    \<and> (\<not> Packet_IsProto p \<and> \<not> encrypt_type (Packet_EMsg p) \<longrightarrow> 36 \<le> length data)"
proof -
  let ?e = "NewEMsg (raw_emsg data)"
  consider (enc) "encrypt_type ?e" | (pb) "\<not> encrypt_type ?e" "IsProto (raw_emsg data)"
    | (ext) "\<not> encrypt_type ?e" "\<not> IsProto (raw_emsg data)" by blast
  then show ?thesis
  proof cases
    case enc
    then have "fst (snd (MsgHdr_Deserialize (NewMsgHdr\<lparr>MsgHdr_Msg := ?e\<rparr>) data)) = None"
      using ok NewPacket_cases [OF len, of c] by (auto split: prod.splits option.splits)
    then show ?thesis
      using ok enc MsgHdr_codec.des_ok_iff
        NewPacket_cases [OF len, of c]
      by (auto split: prod.splits option.splits)
  next
    case pb
    then obtain h r where d: "MsgHdrProtoBuf_Deserialize c (NewMsgHdrProtoBuf\<lparr>MsgHdrProtoBuf_Msg := ?e\<rparr>) data
        = Ok (h, None, r)"
      using ok NewPacket_pb [OF len, of c] by (auto simp: bind_res_Ok_iff split: prod.splits option.splits)
    then have len8: "8 \<le> length data"
      using MsgHdrProtoBuf_Deserialize_short [of data c] by (metis Pair_inject linorder_not_less option.distinct(1) res.inject(1))
    then have "0 \<le> sint (header_length_field data) \<and> nat (sint (header_length_field data)) \<le> length (drop 8 data)"
      using d by (auto simp: MsgHdrProtoBuf_Deserialize_long map_res_Ok_iff read_proto_def ReadFull_def
          split: if_splits prod.splits option.splits)
    then show ?thesis
      using ok pb len8 NewPacket_pb [OF len, of c]
      by (auto simp: bind_res_Ok_iff split: prod.splits option.splits)
  next
    case ext
    then have "fst (snd (ExtendedClientMsgHdr_Deserialize (NewExtendedClientMsgHdr\<lparr>ExtendedClientMsgHdr_Msg := ?e\<rparr>) data)) = None"
      using ok NewPacket_cases [OF len, of c] by (auto split: prod.splits option.splits)
    then show ?thesis
      using ok ext ExtendedClientMsgHdr_codec.des_ok_iff
        NewPacket_cases [OF len, of c]
      by (auto split: prod.splits option.splits)
  qed
qed

lemma NewPacket_ok_length: "NewPacket c data = Ok p \<Longrightarrow> 4 \<le> length data"
  using NewPacket_short [of data c] by (cases "4 \<le> length data") auto

section \<open>Round trips\<close>

lemma raw_emsg_le [simp]: "raw_emsg (le_bytes 4 e @ r) = e"
  by (simp add: raw_emsg_def)

lemma raw_emsg_proto_frame [simp]: "raw_emsg (proto_frame e b @ r) = e OR ProtoMask"
  by (simp add: proto_frame_def)

lemma raw_emsg_ext [simp]:
  "raw_emsg (ExtendedClientMsgHdr_Serialize h @ r) = ExtendedClientMsgHdr_Msg h"
  by (simp add: ExtendedClientMsgHdr_Serialize_def)

lemma raw_emsg_hdr [simp]: "raw_emsg (MsgHdr_Serialize h @ r) = MsgHdr_Msg h"
  by (simp add: MsgHdr_Serialize_def)

lemma NewPacket_proto_frame:
  assumes "pb_roundtrip c h hs" and "length hs < 2 ^ 31" and "\<not> encrypt_type (NewEMsg e)"
  shows "NewPacket c (proto_frame e hs @ r) = Ok \<lparr>Packet_EMsg = NewEMsg e, Packet_IsProto = True,
    Packet_TargetJobId = CMsgProtoBufHeader_GetJobidTarget h,
    Packet_SourceJobId = CMsgProtoBufHeader_GetJobidSource h, Packet_Data = proto_frame e hs @ r\<rparr>"
proof -
  have "4 \<le> length (proto_frame e hs @ r)" by (simp add: proto_frame_def)
  from NewPacket_pb [OF this, of c] show ?thesis
    using assms by (simp add: MsgHdrProtoBuf_Deserialize_frame NewEMsg_proto_flag)
qed

lemma CMP_Serialize_ok:
  assumes "pb_roundtrip c (CMP_proto m) hs" and "marshal (CMP_Body m) = Ok bs"
  shows "CMP_Serialize c marshal m =
    Ok (m\<lparr>CMP_Header := (CMP_Header m)\<lparr>MsgHdrProtoBuf_HeaderLength := word_of_nat (length hs)\<rparr>\<rparr>,
        proto_frame (MsgHdrProtoBuf_Msg (CMP_Header m)) hs @ bs)"
  using assms by (simp add: CMP_Serialize_def CMP_proto_def MsgHdrProtoBuf_Serialize_frame)

text \<open>
  C19: a protobuf message that is serialized, cut out as a packet and read back arrives with the type,
  job ids, header and body it was sent with, whatever its fields are, provided that the protobuf
  library reads back what it writes for this header and this body.\<close>

theorem proto_message_roundtrip:
  assumes "pb_roundtrip c (CMP_proto m) hs" and "length hs < 2 ^ 31"
    and "pb_roundtrip bc (CMP_Body m) bs"
    and "CMP_GetMsgType m \<notin> {EMsg_ChannelEncryptRequest, EMsg_ChannelEncryptResult}"
  shows "\<exists>m' w p m2. CMP_Serialize c (Marshal bc) m = Ok (m', w) \<and> NewPacket c w = Ok p \<and>
    Packet_EMsg p = CMP_GetMsgType m \<and> Packet_IsProto p \<and> Packet_Data p = w \<and>
    Packet_TargetJobId p = CMP_GetTargetJobId m \<and> Packet_SourceJobId p = CMP_GetSourceJobId m \<and>
    ReadProtoMsg c (Unmarshal bc) p = Ok m2 \<and>
    CMP_Body m2 = CMP_Body m \<and> CMP_proto m2 = CMP_proto m \<and> CMP_GetMsgType m2 = CMP_GetMsgType m"
proof -
  let ?e = "MsgHdrProtoBuf_Msg (CMP_Header m)"
  have "\<not> encrypt_type (NewEMsg ?e)"
    using assms(4) by (simp add: encrypt_type_def CMP_GetMsgType_def)
  from NewPacket_proto_frame [OF assms(1,2) this, of bs] show ?thesis
    using assms(3) MsgHdrProtoBuf_Deserialize_frame [OF assms(1,2), of NewMsgHdrProtoBuf ?e bs]
    by (simp add: CMP_Serialize_ok [OF assms(1), of "Marshal bc" bs] ReadProtoMsg_def CMP_defs)
qed

definition demo_msg :: "u32 ClientMsgProtobuf" where
  "demo_msg = CMP_SetSourceJobId 7 (CMP_SetTargetJobId 9 (NewClientMsgProtobuf EMsg_ClientHeartBeat 42))"

definition demo_codec :: "u32 pbcodec" where
  "demo_codec = \<lparr>Marshal = (\<lambda>x. Ok (le_bytes 4 x)), Unmarshal = (\<lambda>bs. (le_word bs, None))\<rparr>"

lemma demo_codec_roundtrip: "pb_roundtrip demo_codec x (le_bytes 4 x)"
  by (simp add: pb_roundtrip_def demo_codec_def)

lemma demo_msg_proto: "CMP_proto demo_msg = jobs_header 9 7"
  by (simp add: demo_msg_def CMP_defs NewClientMsgProtobuf_def NewMsgHdrProtoBuf_def jobs_header_def
      NewCMsgProtoBufHeader_def)

lemma demo_msg_type: "CMP_GetMsgType demo_msg = EMsg_ClientHeartBeat"
  by (simp add: demo_msg_def CMP_defs NewClientMsgProtobuf_def NewMsgHdrProtoBuf_def
      NewEMsg_def EMsgMask_def ProtoMask_def EMsg_defs)

theorem proto_message_roundtrip_witness:
  "\<exists>m' w p m2. CMP_Serialize jobs_codec (Marshal demo_codec) demo_msg = Ok (m', w) \<and>
    NewPacket jobs_codec w = Ok p \<and>
    Packet_EMsg p = CMP_GetMsgType demo_msg \<and> Packet_IsProto p \<and> Packet_Data p = w \<and>
    Packet_TargetJobId p = CMP_GetTargetJobId demo_msg \<and> Packet_SourceJobId p = CMP_GetSourceJobId demo_msg \<and>
    ReadProtoMsg jobs_codec (Unmarshal demo_codec) p = Ok m2 \<and>
    CMP_Body m2 = CMP_Body demo_msg \<and> CMP_proto m2 = CMP_proto demo_msg \<and>
    CMP_GetMsgType m2 = CMP_GetMsgType demo_msg"
proof (rule proto_message_roundtrip)
  show "pb_roundtrip jobs_codec (CMP_proto demo_msg) (le_bytes 8 (9 :: u64) @ le_bytes 8 (7 :: u64))"
    unfolding demo_msg_proto by (rule jobs_codec_roundtrip)
  show "pb_roundtrip demo_codec (CMP_Body demo_msg) (le_bytes 4 (CMP_Body demo_msg))"
    by (rule demo_codec_roundtrip)
  show "CMP_GetMsgType demo_msg \<notin> {EMsg_ChannelEncryptRequest, EMsg_ChannelEncryptResult}"
    by (simp add: demo_msg_type EMsg_defs)
qed simp

lemma NewPacket_CM_Serialize:
  assumes "\<not> IsProto (CM_GetMsgType m)" and "\<not> encrypt_type (CM_GetMsgType m)"
  shows "NewPacket c (CM_Serialize ser m) = Ok \<lparr>Packet_EMsg = CM_GetMsgType m, Packet_IsProto = False,
    Packet_TargetJobId = CM_GetTargetJobId m, Packet_SourceJobId = CM_GetSourceJobId m,
    Packet_Data = CM_Serialize ser m\<rparr>"
proof -
  have "4 \<le> length (CM_Serialize ser m)"
    by (simp add: CM_Serialize_def ExtendedClientMsgHdr_codec.length_ser)
  from NewPacket_ext [OF this, of c] show ?thesis
    using assms by (simp add: CM_Serialize_def ExtendedClientMsgHdr_codec.des_ser CM_defs NewEMsg_id)
qed

lemma encrypt_type_NewEMsg: "encrypt_type e \<Longrightarrow> NewEMsg e = e"
  by (auto simp: encrypt_type_def NewEMsg_def EMsgMask_def ProtoMask_def EMsg_defs)

lemma NewPacket_M_Serialize:
  assumes "encrypt_type (M_GetMsgType n)"
  shows "NewPacket c (M_Serialize ser n) = Ok \<lparr>Packet_EMsg = M_GetMsgType n, Packet_IsProto = False,
    Packet_TargetJobId = M_GetTargetJobId n, Packet_SourceJobId = M_GetSourceJobId n,
    Packet_Data = M_Serialize ser n\<rparr>"
proof -
  have "4 \<le> length (M_Serialize ser n)"
    by (simp add: M_Serialize_def MsgHdr_codec.length_ser)
  from NewPacket_enc [OF this, of c] show ?thesis
    using assms encrypt_type_NewEMsg [OF assms]
    by (simp add: M_Serialize_def MsgHdr_codec.des_ser M_defs)
qed

lemma ReadClientMsg_CM_Serialize:
  "wire_codec ser des \<Longrightarrow> Packet_Data p = CM_Serialize ser m \<Longrightarrow> ReadClientMsg des b p = m"
  by (simp add: ReadClientMsg_def CM_Serialize_def ExtendedClientMsgHdr_codec.des_ser wire_codec.des_ser)

lemma ReadMsg_M_Serialize:
  "wire_codec ser des \<Longrightarrow> Packet_Data p = M_Serialize ser n \<Longrightarrow> ReadMsg des b p = n"
  by (simp add: ReadMsg_def M_Serialize_def MsgHdr_codec.des_ser wire_codec.des_ser)

text \<open>
  C20: a struct message with the extended header and one with the plain header of the encryption
  handshake are read back exactly, payload included, from the packets cut from their bytes; the body
  can be any whose serializer and deserializer are a codec.\<close>

theorem struct_message_roundtrip:
  assumes "wire_codec ser des"
    and "\<not> IsProto (CM_GetMsgType m)"
    and "CM_GetMsgType m \<notin> {EMsg_ChannelEncryptRequest, EMsg_ChannelEncryptResult}"
    and "M_GetMsgType n \<in> {EMsg_ChannelEncryptRequest, EMsg_ChannelEncryptResult}"
  shows "(\<exists>p. NewPacket c (CM_Serialize ser m) = Ok p \<and> ReadClientMsg des b p = m \<and>
      Packet_EMsg p = CM_GetMsgType m \<and> \<not> Packet_IsProto p \<and>
      Packet_TargetJobId p = CM_GetTargetJobId m \<and> Packet_SourceJobId p = CM_GetSourceJobId m) \<and>
    (\<exists>p. NewPacket c (M_Serialize ser n) = Ok p \<and> ReadMsg des b p = n \<and>
      Packet_EMsg p = M_GetMsgType n \<and> \<not> Packet_IsProto p \<and>
      Packet_TargetJobId p = M_GetTargetJobId n \<and> Packet_SourceJobId p = M_GetSourceJobId n)"
  using assms by (simp add: NewPacket_CM_Serialize NewPacket_M_Serialize encrypt_type_def
      ReadClientMsg_CM_Serialize ReadMsg_M_Serialize)

definition demo_result :: MsgChannelEncryptResult where
  "demo_result = \<lparr>MsgChannelEncryptResult_Result = EResult_OK\<rparr>"

definition demo_client_msg :: "MsgChannelEncryptResult ClientMsg" where
  "demo_client_msg = NewClientMsg (\<lambda>_. EMsg_ClientChatMsg) demo_result [1, 2]"

definition demo_plain_msg :: "MsgChannelEncryptResult Msg" where
  "demo_plain_msg = NewMsg MsgChannelEncryptResult_GetEMsg demo_result [3]"

theorem struct_message_roundtrip_witness:
  "(\<exists>p. NewPacket jobs_codec (CM_Serialize MsgChannelEncryptResult_Serialize demo_client_msg) = Ok p \<and>
      ReadClientMsg MsgChannelEncryptResult_Deserialize demo_result p = demo_client_msg \<and>
      Packet_EMsg p = CM_GetMsgType demo_client_msg \<and> \<not> Packet_IsProto p \<and>
      Packet_TargetJobId p = CM_GetTargetJobId demo_client_msg \<and>
      Packet_SourceJobId p = CM_GetSourceJobId demo_client_msg) \<and>
    (\<exists>p. NewPacket jobs_codec (M_Serialize MsgChannelEncryptResult_Serialize demo_plain_msg) = Ok p \<and>
      ReadMsg MsgChannelEncryptResult_Deserialize demo_result p = demo_plain_msg \<and>
      Packet_EMsg p = M_GetMsgType demo_plain_msg \<and> \<not> Packet_IsProto p \<and>
      Packet_TargetJobId p = M_GetTargetJobId demo_plain_msg \<and>
      Packet_SourceJobId p = M_GetSourceJobId demo_plain_msg)"
proof (rule struct_message_roundtrip)
  show "wire_codec MsgChannelEncryptResult_Serialize MsgChannelEncryptResult_Deserialize"
    by (rule MsgChannelEncryptResult_codec.wire_codec_axioms)
  have "CM_GetMsgType demo_client_msg = EMsg_ClientChatMsg"
    by (simp add: demo_client_msg_def NewClientMsg_def CM_defs)
  then show "\<not> IsProto (CM_GetMsgType demo_client_msg)"
    and "CM_GetMsgType demo_client_msg \<notin> {EMsg_ChannelEncryptRequest, EMsg_ChannelEncryptResult}"
    by (simp_all add: IsProto_def ProtoMask_def EMsg_defs)
  show "M_GetMsgType demo_plain_msg \<in> {EMsg_ChannelEncryptRequest, EMsg_ChannelEncryptResult}"
    by (simp add: demo_plain_msg_def NewMsg_def M_defs MsgChannelEncryptResult_GetEMsg_def)
qed

section \<open>Malformed and mistyped packets\<close>

text \<open>
  C25: \<open>NewPacket\<close> panics on exactly the protobuf packets whose header length, read as a signed
  integer, is negative; on every other input it returns a packet or an error.\<close>

theorem NewPacket_panics_iff:
  "panics (NewPacket c data) \<longleftrightarrow> 8 \<le> length data \<and> \<not> encrypt_type (NewEMsg (raw_emsg data)) \<and>
     IsProto (raw_emsg data) \<and> sint (header_length_field data) < 0"
proof (cases "4 \<le> length data")
  case True
  then show ?thesis by (rule NewPacket_panics_iff_long)
next
  case False
  then show ?thesis using NewPacket_short [of data c] by simp
qed

text \<open>
  a packet that \<open>NewPacket\<close> returns holds the bytes it was given and their message number without
  the protobuf flag, and those bytes are long enough for the header of its kind: 20 bytes for the
  encryption handshake, the length the protobuf header declares, or 36 bytes.\<close>

theorem NewPacket_accepts:
  assumes "NewPacket c data = Ok p"
  shows "Packet_Data p = data \<and> Packet_EMsg p = NewEMsg (raw_emsg data)
    \<and> (Packet_IsProto p \<longleftrightarrow> IsProto (raw_emsg data) \<and> \<not> encrypt_type (Packet_EMsg p))
    \<and> (encrypt_type (Packet_EMsg p) \<longrightarrow> 20 \<le> length data)
    \<and> (Packet_IsProto p \<longrightarrow> 0 \<le> sint (header_length_field data)
          \<and> 8 + nat (sint (header_length_field data)) \<le> length data)
    \<and> (\<not> Packet_IsProto p \<and> \<not> encrypt_type (Packet_EMsg p) \<longrightarrow> 36 \<le> length data)"
  using NewPacket_ok_long [OF assms NewPacket_ok_length [OF assms]] .

theorem NewPacket_accepts_witness:
  "let data = M_Serialize MsgChannelEncryptResult_Serialize demo_plain_msg;
       p = \<lparr>Packet_EMsg = EMsg_ChannelEncryptResult, Packet_IsProto = False, Packet_TargetJobId = - 1,
              Packet_SourceJobId = - 1, Packet_Data = data\<rparr>
   in Packet_Data p = data \<and> Packet_EMsg p = NewEMsg (raw_emsg data)
    \<and> (Packet_IsProto p \<longleftrightarrow> IsProto (raw_emsg data) \<and> \<not> encrypt_type (Packet_EMsg p))
    \<and> (encrypt_type (Packet_EMsg p) \<longrightarrow> 20 \<le> length data)
    \<and> (Packet_IsProto p \<longrightarrow> 0 \<le> sint (header_length_field data)
          \<and> 8 + nat (sint (header_length_field data)) \<le> length data)
    \<and> (\<not> Packet_IsProto p \<and> \<not> encrypt_type (Packet_EMsg p) \<longrightarrow> 36 \<le> length data)"
  unfolding Let_def
proof (rule NewPacket_accepts)
  have "M_GetMsgType demo_plain_msg = EMsg_ChannelEncryptResult"
    and "M_GetTargetJobId demo_plain_msg = - 1" and "M_GetSourceJobId demo_plain_msg = - 1"
    by (simp_all add: demo_plain_msg_def NewMsg_def NewMsgHdr_def M_defs MsgChannelEncryptResult_GetEMsg_def)
  with NewPacket_M_Serialize [of demo_plain_msg jobs_codec MsgChannelEncryptResult_Serialize]
  show "NewPacket jobs_codec (M_Serialize MsgChannelEncryptResult_Serialize demo_plain_msg) =
    Ok \<lparr>Packet_EMsg = EMsg_ChannelEncryptResult, Packet_IsProto = False, Packet_TargetJobId = - 1,
      Packet_SourceJobId = - 1, Packet_Data = M_Serialize MsgChannelEncryptResult_Serialize demo_plain_msg\<rparr>"
    by (simp add: encrypt_type_def)
qed

text \<open>
  The handlers choose how to read a packet by its type alone. In a struct message the bytes that
  \<open>ReadProtoMsg\<close> takes for the length of the protobuf header are the header size, the version and
  the lowest byte of the target job id.
\<close>

lemma header_length_field_CM:
  "header_length_field (CM_Serialize ser m) =
     le_word [ExtendedClientMsgHdr_HeaderSize (CM_Header m),
              ucast (ExtendedClientMsgHdr_HeaderVersion (CM_Header m)),
              ucast (drop_bit 8 (ExtendedClientMsgHdr_HeaderVersion (CM_Header m))),
              ucast (CM_GetTargetJobId m)]"
  by (simp add: header_length_field_def CM_Serialize_def ExtendedClientMsgHdr_Serialize_def
      CM_GetTargetJobId_def le_bytes_def upt_rec)

lemma sint_neg_iff_bit: "sint (w :: 32 word) < 0 \<longleftrightarrow> bit w 31"
  using bit_last_iff [of w] by simp

text \<open>
  reading a struct message as a protobuf message panics exactly when bit 7 of its target job id
  is set; it is set in the value that stands for no job, so every struct message with the
  default job id and the type of a protobuf message stops the reading goroutine.\<close>

theorem ReadProtoMsg_of_struct_panics:
  "(panics (ReadProtoMsg c unmarshal \<lparr>Packet_EMsg = e, Packet_IsProto = False, Packet_TargetJobId = t,
      Packet_SourceJobId = s, Packet_Data = CM_Serialize ser m\<rparr>) \<longleftrightarrow> bit (CM_GetTargetJobId m) 7)
   \<and> bit (CM_GetTargetJobId (NewClientMsg emsg body payload)) 7"
proof -
  have "sint (header_length_field (CM_Serialize ser m)) < 0 \<longleftrightarrow> bit (CM_GetTargetJobId m) 7"
  proof -
    have "bit (le_word [a, b, d, ucast j] :: 32 word) 31 \<longleftrightarrow> bit j 7" for a b d :: byte and j :: u64
      unfolding bit_le_word by (simp add: nth_Cons' bit_ucast_iff)
    then show ?thesis unfolding sint_neg_iff_bit header_length_field_CM .
  qed
  moreover have "8 \<le> length (CM_Serialize ser m)"
    by (simp add: CM_Serialize_def ExtendedClientMsgHdr_codec.length_ser)
  moreover have "bit (CM_GetTargetJobId (NewClientMsg emsg body payload)) 7"
    by (simp add: NewClientMsg_def CM_defs NewExtendedClientMsgHdr_def)
  ultimately show ?thesis
    by (simp add: ReadProtoMsg_def MsgHdrProtoBuf_Deserialize_panics_iff)
qed

end
