(* ===== verification/Socialcache.thy ===== *)
theory Socialcache
  imports Steamlang "HOL-Library.Mapping"
begin

text \<open>
  \<open>socialcache\<close>: the lists of friends, groups and chats that the client keeps (\<open>friends.go\<close>,
  \<open>groups.go\<close>, \<open>chats.go\<close>). A Go map is a \<open>mapping\<close>; each method runs under the list's mutex, so it is
  one step. The entries of the friends and groups lists are never shared, so they are values.
  The member maps of a chat are shared with the copies that \<open>GetCopy\<close> and \<open>ById\<close> hand out, so they
  live in an explicit store.

  The locale \<open>keyed_cache\<close> is the contract the three lists share.
\<close>

section \<open>The contract\<close>

locale keyed_cache =
  fixes key :: "'v \<Rightarrow> steamid"
    and find :: "'m \<Rightarrow> steamid \<Rightarrow> 'v option"
    and add :: "'v \<Rightarrow> 'm \<Rightarrow> 'm" and remove :: "steamid \<Rightarrow> 'm \<Rightarrow> 'm"
  assumes find_add: "find (add v m) k = (if k = key v \<and> find m k = None then Some v else find m k)"
    and find_remove: "find (remove id' m) k = (if k = id' then None else find m k)"
begin

definition keyed :: "'m \<Rightarrow> bool" where
  "keyed m \<longleftrightarrow> (\<forall>k v. find m k = Some v \<longrightarrow> key v = k)"

lemma keyed_add: "keyed m \<Longrightarrow> keyed (add v m)"
  by (auto simp: keyed_def find_add split: if_splits)

lemma keyed_remove: "keyed m \<Longrightarrow> keyed (remove id' m)"
  by (auto simp: keyed_def find_remove split: if_splits)

lemma add_existing: "find m (key v) = Some w \<Longrightarrow> find (add v m) = find m"
  by (rule ext) (auto simp: find_add)

lemma add_twice: "key v = key w \<Longrightarrow> find (add w (add v m)) = find (add v m)"
  by (rule ext) (auto simp: find_add)

lemma remove_add: "find m (key v) = None \<Longrightarrow> find (remove (key v) (add v m)) = find m"
  by (rule ext) (auto simp: find_add find_remove)

lemma add_after_remove: "find (add v (remove (key v) m)) (key v) = Some v"
  by (simp add: find_add find_remove)

end

text \<open>A cache whose entries are also updated in place, under a key that is first normalised.\<close>

locale updatable_cache = keyed_cache key find add remove
  for key :: "'v \<Rightarrow> steamid" and find :: "'m \<Rightarrow> steamid \<Rightarrow> 'v option"
    and add :: "'v \<Rightarrow> 'm \<Rightarrow> 'm" and remove :: "steamid \<Rightarrow> 'm \<Rightarrow> 'm" +
  fixes norm :: "steamid \<Rightarrow> steamid" and upd :: "steamid \<Rightarrow> ('v \<Rightarrow> 'v) \<Rightarrow> 'm \<Rightarrow> 'm"
  assumes find_upd: "find (upd i f m) k = (if k = norm i then map_option f (find m k) else find m k)"
begin

lemma keyed_upd: "keyed m \<Longrightarrow> (\<And>v. key (f v) = key v) \<Longrightarrow> keyed (upd i f m)"
  by (auto simp: keyed_def find_upd split: if_splits)

lemma upd_missing: "find m (norm i) = None \<Longrightarrow> find (upd i f m) = find m"
  by (rule ext) (auto simp: find_upd)

lemma upd_domain: "(find (upd i f m) k = None) = (find m k = None)"
  by (simp add: find_upd)

lemma upd_upd: "find (upd i g (upd i f m)) = find (upd i (g \<circ> f) m)"
  by (rule ext) (simp add: find_upd option.map_comp)

lemma upd_commute: "norm i \<noteq> norm j \<Longrightarrow> find (upd i f (upd j g m)) = find (upd j g (upd i f m))"
  by (rule ext) (simp add: find_upd)

end

section \<open>Go maps\<close>

text \<open>\<^verbatim>\<open>if val, ok := m[id]; ok { val.F = x }\<close>\<close>

definition set_field :: "'k \<Rightarrow> ('v \<Rightarrow> 'v) \<Rightarrow> ('k, 'v) mapping \<Rightarrow> ('k, 'v) mapping" where
  "set_field i f m = (case Mapping.lookup m i of None \<Rightarrow> m | Some val \<Rightarrow> Mapping.update i (f val) m)"

definition add_new :: "'k \<Rightarrow> 'v \<Rightarrow> ('k, 'v) mapping \<Rightarrow> ('k, 'v) mapping" where
  "add_new k v m = (case Mapping.lookup m k of Some _ \<Rightarrow> m | None \<Rightarrow> Mapping.update k v m)"

lemma lookup_set_field [simp]:
  "Mapping.lookup (set_field i f m) k = (if k = i then map_option f (Mapping.lookup m k) else Mapping.lookup m k)"
  by (auto simp: set_field_def lookup_update' split: option.split)

lemma lookup_add_new [simp]:
  "Mapping.lookup (add_new i v m) k = (if k = i \<and> Mapping.lookup m k = None then Some v else Mapping.lookup m k)"
  by (auto simp: add_new_def lookup_update' split: option.split)

lemma lookup_delete_if [simp]:
  "Mapping.lookup (Mapping.delete i m) k = (if k = i then None else Mapping.lookup m k)"
  by (cases "k = i") (simp_all add: lookup_delete_neq)

lemma keys_add_new [simp]: "Mapping.keys (add_new i v m) = insert i (Mapping.keys m)"
  by (auto simp: keys_dom_lookup dom_def split: if_splits)

section \<open>friends.go\<close>

record Friend =
  Friend_SteamId :: steamid
  Friend_Name :: string
  Friend_Avatar :: bytes
  Friend_Relationship :: EFriendRelationship
  Friend_PersonaState :: EPersonaState
  Friend_PersonaStateFlags :: EPersonaStateFlag
  Friend_GameAppId :: u32
  Friend_GameId :: u64
  Friend_GameName :: string

type_synonym FriendsList = "(steamid, Friend) mapping"

definition NewFriendsList :: FriendsList where "NewFriendsList = Mapping.empty"

definition Friends_Add :: "Friend \<Rightarrow> FriendsList \<Rightarrow> FriendsList" where
  "Friends_Add friend list = add_new (Friend_SteamId friend) friend list"

definition Friends_Remove :: "steamid \<Rightarrow> FriendsList \<Rightarrow> FriendsList" where
  "Friends_Remove i list = Mapping.delete i list"

text \<open>The copies are values of their own: nothing in a \<open>Friend\<close> is modified in place.\<close>

definition Friends_GetCopy :: "FriendsList \<Rightarrow> (steamid, Friend) mapping" where
  "Friends_GetCopy list = list"

definition Friends_ById :: "FriendsList \<Rightarrow> steamid \<Rightarrow> Friend res" where
  "Friends_ById list i = (case Mapping.lookup list i of
     Some val \<Rightarrow> Ok val | None \<Rightarrow> Err (GoErr ''Friend not found''))"

definition Friends_Count :: "FriendsList \<Rightarrow> nat" where "Friends_Count list = Mapping.size list"

definition Friends_SetName :: "steamid \<Rightarrow> string \<Rightarrow> FriendsList \<Rightarrow> FriendsList" where
  "Friends_SetName i name = set_field i (\<lambda>val. val\<lparr>Friend_Name := name\<rparr>)"
definition Friends_SetAvatar :: "steamid \<Rightarrow> bytes \<Rightarrow> FriendsList \<Rightarrow> FriendsList" where
  "Friends_SetAvatar i hash = set_field i (\<lambda>val. val\<lparr>Friend_Avatar := hash\<rparr>)"
definition Friends_SetRelationship :: "steamid \<Rightarrow> EFriendRelationship \<Rightarrow> FriendsList \<Rightarrow> FriendsList" where
  "Friends_SetRelationship i rel = set_field i (\<lambda>val. val\<lparr>Friend_Relationship := rel\<rparr>)"
definition Friends_SetPersonaState :: "steamid \<Rightarrow> EPersonaState \<Rightarrow> FriendsList \<Rightarrow> FriendsList" where
  "Friends_SetPersonaState i state = set_field i (\<lambda>val. val\<lparr>Friend_PersonaState := state\<rparr>)"
definition Friends_SetPersonaStateFlags :: "steamid \<Rightarrow> EPersonaStateFlag \<Rightarrow> FriendsList \<Rightarrow> FriendsList" where
  "Friends_SetPersonaStateFlags i flags = set_field i (\<lambda>val. val\<lparr>Friend_PersonaStateFlags := flags\<rparr>)"
definition Friends_SetGameAppId :: "steamid \<Rightarrow> u32 \<Rightarrow> FriendsList \<Rightarrow> FriendsList" where
  "Friends_SetGameAppId i app = set_field i (\<lambda>val. val\<lparr>Friend_GameAppId := app\<rparr>)"
definition Friends_SetGameId :: "steamid \<Rightarrow> u64 \<Rightarrow> FriendsList \<Rightarrow> FriendsList" where
  "Friends_SetGameId i game = set_field i (\<lambda>val. val\<lparr>Friend_GameId := game\<rparr>)"
definition Friends_SetGameName :: "steamid \<Rightarrow> string \<Rightarrow> FriendsList \<Rightarrow> FriendsList" where
  "Friends_SetGameName i name = set_field i (\<lambda>val. val\<lparr>Friend_GameName := name\<rparr>)"

lemmas Friends_setters = Friends_SetName_def Friends_SetAvatar_def Friends_SetRelationship_def
  Friends_SetPersonaState_def Friends_SetPersonaStateFlags_def Friends_SetGameAppId_def
  Friends_SetGameId_def Friends_SetGameName_def

interpretation friends_cache: updatable_cache Friend_SteamId Mapping.lookup Friends_Add Friends_Remove "\<lambda>i. i" set_field
  by unfold_locales (simp_all add: Friends_Add_def Friends_Remove_def)

section \<open>groups.go\<close>

text \<open>\<open>Add\<close> and \<open>Remove\<close> use the identifier as it is, the other methods the clan of a chat identifier.\<close>

record Group =
  Group_SteamId :: steamid
  Group_Name :: string
  Group_Avatar :: bytes
  Group_Relationship :: EClanRelationship
  Group_MemberTotalCount :: u32
  Group_MemberOnlineCount :: u32
  Group_MemberChattingCount :: u32
  Group_MemberInGameCount :: u32

type_synonym GroupsList = "(steamid, Group) mapping"

definition NewGroupsList :: GroupsList where "NewGroupsList = Mapping.empty"

definition Groups_Add :: "Group \<Rightarrow> GroupsList \<Rightarrow> GroupsList" where
  "Groups_Add g list = add_new (Group_SteamId g) g list"

definition Groups_Remove :: "steamid \<Rightarrow> GroupsList \<Rightarrow> GroupsList" where
  "Groups_Remove i list = Mapping.delete i list"

definition Groups_GetCopy :: "GroupsList \<Rightarrow> (steamid, Group) mapping" where
  "Groups_GetCopy list = list"

definition Groups_ById :: "GroupsList \<Rightarrow> steamid \<Rightarrow> Group res" where
  "Groups_ById list i = (case Mapping.lookup list (ChatToClan i) of
     Some val \<Rightarrow> Ok val | None \<Rightarrow> Err (GoErr ''Group not found''))"

definition Groups_Count :: "GroupsList \<Rightarrow> nat" where "Groups_Count list = Mapping.size list"

definition set_group :: "steamid \<Rightarrow> (Group \<Rightarrow> Group) \<Rightarrow> GroupsList \<Rightarrow> GroupsList" where
  "set_group i f = set_field (ChatToClan i) f"

definition Groups_SetName :: "steamid \<Rightarrow> string \<Rightarrow> GroupsList \<Rightarrow> GroupsList" where
  "Groups_SetName i name = set_group i (\<lambda>val. val\<lparr>Group_Name := name\<rparr>)"
definition Groups_SetAvatar :: "steamid \<Rightarrow> bytes \<Rightarrow> GroupsList \<Rightarrow> GroupsList" where
  "Groups_SetAvatar i hash = set_group i (\<lambda>val. val\<lparr>Group_Avatar := hash\<rparr>)"
definition Groups_SetRelationship :: "steamid \<Rightarrow> EClanRelationship \<Rightarrow> GroupsList \<Rightarrow> GroupsList" where
  "Groups_SetRelationship i rel = set_group i (\<lambda>val. val\<lparr>Group_Relationship := rel\<rparr>)"
definition Groups_SetMemberTotalCount :: "steamid \<Rightarrow> u32 \<Rightarrow> GroupsList \<Rightarrow> GroupsList" where
  "Groups_SetMemberTotalCount i count = set_group i (\<lambda>val. val\<lparr>Group_MemberTotalCount := count\<rparr>)"
definition Groups_SetMemberOnlineCount :: "steamid \<Rightarrow> u32 \<Rightarrow> GroupsList \<Rightarrow> GroupsList" where
  "Groups_SetMemberOnlineCount i count = set_group i (\<lambda>val. val\<lparr>Group_MemberOnlineCount := count\<rparr>)"
definition Groups_SetMemberChattingCount :: "steamid \<Rightarrow> u32 \<Rightarrow> GroupsList \<Rightarrow> GroupsList" where
  "Groups_SetMemberChattingCount i count = set_group i (\<lambda>val. val\<lparr>Group_MemberChattingCount := count\<rparr>)"
definition Groups_SetMemberInGameCount :: "steamid \<Rightarrow> u32 \<Rightarrow> GroupsList \<Rightarrow> GroupsList" where
  "Groups_SetMemberInGameCount i count = set_group i (\<lambda>val. val\<lparr>Group_MemberInGameCount := count\<rparr>)"

lemmas Groups_setters = Groups_SetName_def Groups_SetAvatar_def Groups_SetRelationship_def
  Groups_SetMemberTotalCount_def Groups_SetMemberOnlineCount_def Groups_SetMemberChattingCount_def
  Groups_SetMemberInGameCount_def

interpretation groups_cache: updatable_cache Group_SteamId Mapping.lookup Groups_Add Groups_Remove ChatToClan set_group
  by unfold_locales (simp_all add: Groups_Add_def Groups_Remove_def set_group_def)

section \<open>chats.go\<close>

text \<open>
  \<open>Chat.ChatMembers\<close> is a Go map, a reference: \<open>None\<close> is nil, \<open>Some r\<close> the map at address \<open>r\<close> of the
  store. The copies of a chat that \<open>GetCopy\<close> and \<open>ById\<close> return hold the same reference.
\<close>

record ChatMember =
  ChatMember_SteamId :: steamid
  ChatMember_ChatPermissions :: EChatPermission
  ChatMember_ClanPermissions :: EClanPermission

type_synonym member_map = "(steamid, ChatMember) mapping"

record Chat =
  Chat_SteamId :: steamid
  Chat_GroupId :: steamid
  Chat_ChatMembers :: "nat option"

record ChatsList =
  Chats_byId :: "(steamid, Chat) mapping"
  Chats_store :: "member_map list"

definition NewChatsList :: ChatsList where
  "NewChatsList = \<lparr>Chats_byId = Mapping.empty, Chats_store = []\<rparr>"

definition Chats_Add :: "Chat \<Rightarrow> ChatsList \<Rightarrow> ChatsList" where
  "Chats_Add chat list = list\<lparr>Chats_byId := add_new (Chat_SteamId chat) chat (Chats_byId list)\<rparr>"

definition Chats_Remove :: "steamid \<Rightarrow> ChatsList \<Rightarrow> ChatsList" where
  "Chats_Remove i list = list\<lparr>Chats_byId := Mapping.delete i (Chats_byId list)\<rparr>"

definition new_chat :: "steamid \<Rightarrow> Chat" where
  "new_chat i = \<lparr>Chat_SteamId = i, Chat_GroupId = 0, Chat_ChatMembers = None\<rparr>"

definition AddChatMember :: "steamid \<Rightarrow> ChatMember \<Rightarrow> ChatsList \<Rightarrow> ChatsList" where
  "AddChatMember i member list =
     (let chat = (case Mapping.lookup (Chats_byId list) i of Some chat \<Rightarrow> chat | None \<Rightarrow> new_chat i);
          (chat, store) = (case Chat_ChatMembers chat of
              None \<Rightarrow> (chat\<lparr>Chat_ChatMembers := Some (length (Chats_store list))\<rparr>, Chats_store list @ [Mapping.empty])
            | Some r \<Rightarrow> (chat, Chats_store list));
          r = the (Chat_ChatMembers chat)
      in list\<lparr>Chats_byId := Mapping.update i chat (Chats_byId list),
              Chats_store := store[r := Mapping.update (ChatMember_SteamId member) member (store ! r)]\<rparr>)"

definition RemoveChatMember :: "steamid \<Rightarrow> steamid \<Rightarrow> ChatsList \<Rightarrow> ChatsList" where
  "RemoveChatMember i member list = (case Mapping.lookup (Chats_byId list) i of
       None \<Rightarrow> list
     | Some chat \<Rightarrow> (case Chat_ChatMembers chat of
           None \<Rightarrow> list
         | Some r \<Rightarrow> list\<lparr>Chats_store := (Chats_store list)[r := Mapping.delete member (Chats_store list ! r)]\<rparr>))"

definition Chats_GetCopy :: "ChatsList \<Rightarrow> (steamid, Chat) mapping" where
  "Chats_GetCopy list = Chats_byId list"

definition Chats_ById :: "ChatsList \<Rightarrow> steamid \<Rightarrow> Chat res" where
  "Chats_ById list i = (case Mapping.lookup (Chats_byId list) i of
     Some val \<Rightarrow> Ok val | None \<Rightarrow> Err (GoErr ''Chat not found''))"

definition Chats_Count :: "ChatsList \<Rightarrow> nat" where "Chats_Count list = Mapping.size (Chats_byId list)"

text \<open>What reading \<^verbatim>\<open>chat.ChatMembers[id]\<close> gives in the present store.\<close>

definition chat_member :: "ChatsList \<Rightarrow> Chat \<Rightarrow> steamid \<Rightarrow> ChatMember option" where
  "chat_member list chat i = (case Chat_ChatMembers chat of
     None \<Rightarrow> None | Some r \<Rightarrow> Mapping.lookup (Chats_store list ! r) i)"

definition room_member :: "ChatsList \<Rightarrow> steamid \<Rightarrow> steamid \<Rightarrow> ChatMember option" where
  "room_member list room i = (case Mapping.lookup (Chats_byId list) room of
     None \<Rightarrow> None | Some chat \<Rightarrow> chat_member list chat i)"

interpretation chats_cache: keyed_cache Chat_SteamId "\<lambda>l. Mapping.lookup (Chats_byId l)" Chats_Add Chats_Remove
  by unfold_locales (simp_all add: Chats_Add_def Chats_Remove_def)

text \<open>Every reference points into the store, and no two rooms share a member map.\<close>

definition chats_wf :: "ChatsList \<Rightarrow> bool" where
  "chats_wf l \<longleftrightarrow> chats_cache.keyed l
    \<and> (\<forall>i c r. Mapping.lookup (Chats_byId l) i = Some c \<longrightarrow> Chat_ChatMembers c = Some r \<longrightarrow> r < length (Chats_store l))
    \<and> (\<forall>i j c d r. Mapping.lookup (Chats_byId l) i = Some c \<longrightarrow> Mapping.lookup (Chats_byId l) j = Some d \<longrightarrow>
         Chat_ChatMembers c = Some r \<longrightarrow> Chat_ChatMembers d = Some r \<longrightarrow> i = j)"

lemma chats_wf_new: "chats_wf NewChatsList"
  by (simp add: chats_wf_def NewChatsList_def chats_cache.keyed_def)

lemma chats_wf_add: "chats_wf l \<Longrightarrow> Chat_ChatMembers c = None \<Longrightarrow> chats_wf (Chats_Add c l)"
  unfolding chats_wf_def
  by (intro conjI chats_cache.keyed_add) (auto simp: Chats_Add_def split: if_splits; blast)+

lemma chats_wf_remove: "chats_wf l \<Longrightarrow> chats_wf (Chats_Remove i l)"
  unfolding chats_wf_def
  by (intro conjI chats_cache.keyed_remove) (auto simp: Chats_Remove_def split: if_splits; blast)+

lemma AddChatMember_ref:
  assumes "Mapping.lookup (Chats_byId l) i = Some c" and "Chat_ChatMembers c = Some r"
  shows "AddChatMember i m l = l\<lparr>Chats_byId := Mapping.update i c (Chats_byId l),
    Chats_store := (Chats_store l)[r := Mapping.update (ChatMember_SteamId m) m (Chats_store l ! r)]\<rparr>"
  using assms by (simp add: AddChatMember_def Let_def)

text \<open>The chat that \<open>AddChatMember\<close> finds or makes when there are no members yet.\<close>

definition memberless :: "ChatsList \<Rightarrow> steamid \<Rightarrow> Chat \<Rightarrow> bool" where
  "memberless l i c \<longleftrightarrow> Chat_ChatMembers c = None \<and>
     (Mapping.lookup (Chats_byId l) i = Some c \<or> Mapping.lookup (Chats_byId l) i = None \<and> c = new_chat i)"

lemma AddChatMember_fresh:
  assumes "memberless l i c"
  shows "AddChatMember i m l = l\<lparr>
    Chats_byId := Mapping.update i (c\<lparr>Chat_ChatMembers := Some (length (Chats_store l))\<rparr>) (Chats_byId l),
    Chats_store := Chats_store l @ [Mapping.update (ChatMember_SteamId m) m Mapping.empty]\<rparr>"
  using assms by (auto simp: memberless_def AddChatMember_def Let_def new_chat_def)

lemma AddChatMember_cases:
  obtains (ref) c r where "Mapping.lookup (Chats_byId l) i = Some c" "Chat_ChatMembers c = Some r"
    | (fresh) c where "memberless l i c"
proof (cases "Mapping.lookup (Chats_byId l) i")
  case None
  then have "memberless l i (new_chat i)" by (simp add: memberless_def new_chat_def)
  then show ?thesis by (rule fresh)
next
  case (Some c)
  then show ?thesis
    using ref fresh by (cases "Chat_ChatMembers c") (auto simp: memberless_def)
qed

lemma chats_wfD:
  assumes "chats_wf l"
  shows "Mapping.lookup (Chats_byId l) i = Some c \<Longrightarrow> Chat_SteamId c = i"
    and "Mapping.lookup (Chats_byId l) i = Some c \<Longrightarrow> Chat_ChatMembers c = Some r \<Longrightarrow> r < length (Chats_store l)"
    and "Mapping.lookup (Chats_byId l) i = Some c \<Longrightarrow> Mapping.lookup (Chats_byId l) j = Some d \<Longrightarrow>
      Chat_ChatMembers c = Some r \<Longrightarrow> Chat_ChatMembers d = Some r \<Longrightarrow> i = j"
  using assms unfolding chats_wf_def chats_cache.keyed_def by blast+

lemma chats_wf_AddChatMember:
  assumes wf: "chats_wf l"
  shows "chats_wf (AddChatMember i m l)"
proof (cases rule: AddChatMember_cases [of l i])
  case (ref c r)
  have "Mapping.lookup (Mapping.update i c (Chats_byId l)) = Mapping.lookup (Chats_byId l)"
    using ref(1) by (simp add: fun_eq_iff lookup_update')
  then show ?thesis
    using wf unfolding chats_wf_def chats_cache.keyed_def AddChatMember_ref [OF ref] by simp
next
  case (fresh c)
  have "Chat_SteamId c = i"
    using fresh chats_wfD(1) [OF wf] by (auto simp: memberless_def new_chat_def)
  moreover have "\<And>j d r. Mapping.lookup (Chats_byId l) j = Some d \<Longrightarrow> Chat_ChatMembers d = Some r \<Longrightarrow> r < length (Chats_store l)"
    by (rule chats_wfD(2) [OF wf])
  ultimately show ?thesis
    using chats_wfD(1,3) [OF wf] unfolding chats_wf_def chats_cache.keyed_def AddChatMember_fresh [OF fresh]
    by (auto simp: lookup_update' less_Suc_eq split: if_splits)
qed

lemma chats_wf_RemoveChatMember: "chats_wf l \<Longrightarrow> chats_wf (RemoveChatMember i k l)"
  unfolding chats_wf_def chats_cache.keyed_def RemoveChatMember_def
  by (auto split: option.split)

lemma room_member_AddChatMember:
  assumes wf: "chats_wf l"
  shows "room_member (AddChatMember i m l) room k =
    (if room = i \<and> k = ChatMember_SteamId m then Some m else room_member l room k)"
proof (cases rule: AddChatMember_cases [of l i])
  case (ref c r)
  have r: "r < length (Chats_store l)" using wf ref by (rule chats_wfD(2))
  have "r' \<noteq> r" if "Mapping.lookup (Chats_byId l) room = Some d" "Chat_ChatMembers d = Some r'" "room \<noteq> i" for d r'
    using chats_wfD(3) [OF wf that(1) ref(1) that(2)] ref(2) that(3) by blast
  then show ?thesis
    unfolding AddChatMember_ref [OF ref] room_member_def chat_member_def
    using ref r by (auto simp: lookup_update' nth_list_update split: option.splits)
next
  case (fresh c)
  have "\<And>d r. Mapping.lookup (Chats_byId l) room = Some d \<Longrightarrow> Chat_ChatMembers d = Some r \<Longrightarrow> r < length (Chats_store l)"
    by (rule chats_wfD(2) [OF wf])
  then show ?thesis
    using fresh unfolding AddChatMember_fresh [OF fresh] room_member_def chat_member_def memberless_def
    by (auto simp: lookup_update' nth_append new_chat_def split: option.splits)
qed

lemma room_member_RemoveChatMember:
  assumes wf: "chats_wf l"
  shows "room_member (RemoveChatMember i m l) room k =
    (if room = i \<and> k = m then None else room_member l room k)"
proof (cases "\<exists>c r. Mapping.lookup (Chats_byId l) i = Some c \<and> Chat_ChatMembers c = Some r")
  case True
  then obtain c r where ref: "Mapping.lookup (Chats_byId l) i = Some c" "Chat_ChatMembers c = Some r" by blast
  have r: "r < length (Chats_store l)" using wf ref by (rule chats_wfD(2))
  have "r' \<noteq> r" if "Mapping.lookup (Chats_byId l) room = Some d" "Chat_ChatMembers d = Some r'" "room \<noteq> i" for d r'
    using chats_wfD(3) [OF wf that(1) ref(1) that(2)] ref(2) that(3) by blast
  then show ?thesis
    unfolding RemoveChatMember_def room_member_def chat_member_def
    using ref r by (auto simp: nth_list_update split: option.splits)
next
  case False
  then show ?thesis
    by (auto simp: RemoveChatMember_def room_member_def chat_member_def split: option.splits)
qed

text \<open>A copy handed out earlier shows members added later: the map is shared, not copied.\<close>

lemma chat_copies_are_live:
  assumes "chats_wf l" and "Chats_ById l i = Ok c" and "Chat_ChatMembers c = Some r"
  shows "chat_member (AddChatMember i m l) c (ChatMember_SteamId m) = Some m"
proof -
  have ref: "Mapping.lookup (Chats_byId l) i = Some c"
    using assms(2) by (auto simp: Chats_ById_def split: option.splits)
  then have "r < length (Chats_store l)" using assms(1,3) by (metis chats_wfD(2))
  then show ?thesis
    using assms(3) by (simp add: AddChatMember_ref [OF ref assms(3)] chat_member_def)
qed

text \<open>
  adding and removing a chat member changes the membership of that room at that member and nothing
  else, in every room of the list, whether the room and its member map existed or not, and keeps
  the list well-formed: rooms filed under their own id, no member map shared by two rooms.\<close>

theorem chat_membership:
  assumes "chats_wf l"
  shows "chats_wf (AddChatMember i m l) \<and> chats_wf (RemoveChatMember i u l)
    \<and> room_member (AddChatMember i m l) room k =
        (if room = i \<and> k = ChatMember_SteamId m then Some m else room_member l room k)
    \<and> room_member (RemoveChatMember i u l) room k =
        (if room = i \<and> k = u then None else room_member l room k)"
  using assms by (simp add: chats_wf_AddChatMember chats_wf_RemoveChatMember
      room_member_AddChatMember room_member_RemoveChatMember)

definition demo_member :: ChatMember where
  "demo_member = \<lparr>ChatMember_SteamId = 7, ChatMember_ChatPermissions = 1, ChatMember_ClanPermissions = 2\<rparr>"

theorem chat_membership_witness:
  "chats_wf (AddChatMember 5 demo_member NewChatsList) \<and> chats_wf (RemoveChatMember 5 7 NewChatsList)
    \<and> room_member (AddChatMember 5 demo_member NewChatsList) 5 7 =
        (if 5 = (5 :: steamid) \<and> 7 = ChatMember_SteamId demo_member then Some demo_member else room_member NewChatsList 5 7)
    \<and> room_member (RemoveChatMember 5 7 NewChatsList) 5 7 =
        (if 5 = (5 :: steamid) \<and> 7 = (7 :: steamid) then None else room_member NewChatsList 5 7)"
  by (rule chat_membership [OF chats_wf_new])

end
