(* ===== verification/Netutil.thy ===== *)
theory Netutil
  imports Go_Std
begin

text \<open>
  \<open>netutil\<close> and the lists of connection managers: addresses with a port (\<open>addr.go\<close>), form values
  (\<open>url.go\<close>), the built-in servers (\<open>servers.go\<close>) and the Steam directory (\<open>steam_directory.go\<close>).
  Random choices are arguments, and so is what the HTTP request returns.
\<close>

section \<open>net.IP\<close>

text \<open>
  \<open>net.ParseIP\<close> of a text without a colon: four decimal fields without leading zeros, giving the
  16-byte form of the address. (With a colon it would be an IPv6 address; \<open>ParsePortAddr\<close>
  splits at the colons first.)
\<close>

type_synonym IP = bytes

definition v4_prefix :: bytes where "v4_prefix = replicate 10 0 @ [0xff, 0xff]"

definition ip4_field :: "string \<Rightarrow> byte option" where
  "ip4_field s =
     (if length s > 1 \<and> hd s = CHR ''0'' then None
      else case ParseUint s 8 of (v, None) \<Rightarrow> Some (word_of_nat v) | (v, Some e) \<Rightarrow> None)"

definition ParseIP :: "string \<Rightarrow> IP option" where
  "ParseIP s = (case split_on CHR ''.'' s of
       [a, b, c, d] \<Rightarrow> (case (ip4_field a, ip4_field b, ip4_field c, ip4_field d) of
           (Some a, Some b, Some c, Some d) \<Rightarrow> Some (v4_prefix @ [a, b, c, d])
         | _ \<Rightarrow> None)
     | _ \<Rightarrow> None)"

text \<open>\<open>IP.String\<close>: dotted for an IPv4 address in either form, RFC 5952 for any other of 16 bytes.\<close>

definition To4 :: "IP \<Rightarrow> bytes option" where
  "To4 ip = (if length ip = 4 then Some ip
     else if length ip = 16 \<and> take 12 ip = v4_prefix then Some (drop 12 ip) else None)"

definition ip4_text :: "bytes \<Rightarrow> string" where
  "ip4_text b = FormatUint (unat (b ! 0)) @ ''.'' @ FormatUint (unat (b ! 1)) @ ''.'' @
     FormatUint (unat (b ! 2)) @ ''.'' @ FormatUint (unat (b ! 3))"

fun drop_zeros :: "string \<Rightarrow> string" where
  "drop_zeros [c] = [c]"
| "drop_zeros (c # cs) = (if c = CHR ''0'' then drop_zeros cs else c # cs)"
| "drop_zeros [] = []"

fun ip6_groups :: "bytes \<Rightarrow> string list" where
  "ip6_groups (a # b # r) = drop_zeros (hex_encode [a, b]) # ip6_groups r"
| "ip6_groups r = []"

definition zero_run :: "string list \<Rightarrow> nat" where
  "zero_run gs = length (takeWhile (\<lambda>g. g = ''0'') gs)"

definition longest_run :: "string list \<Rightarrow> nat \<times> nat" where
  "longest_run gs = foldl (\<lambda>(i, n) j. if n < zero_run (drop j gs) then (j, zero_run (drop j gs)) else (i, n))
     (0, 0) [0..<length gs]"

fun join :: "string \<Rightarrow> string list \<Rightarrow> string" where
  "join sep [] = []"
| "join sep [x] = x"
| "join sep (x # xs) = x @ sep @ join sep xs"

definition ip6_text :: "bytes \<Rightarrow> string" where
  "ip6_text b = (let gs = ip6_groups b in case longest_run gs of (i, n) \<Rightarrow>
     if n < 2 then join '':'' gs else join '':'' (take i gs) @ ''::'' @ join '':'' (drop (i + n) gs))"

definition IP_String :: "IP \<Rightarrow> string" where
  "IP_String ip = (if ip = [] then ''<nil>'' else case To4 ip of
       Some b \<Rightarrow> ip4_text b
     | None \<Rightarrow> if length ip = 16 then ip6_text ip else ''?'' @ hex_encode ip)"

section \<open>addr.go\<close>

record PortAddr =
  PortAddr_IP :: IP
  PortAddr_Port :: u16

definition ParsePortAddr :: "string \<Rightarrow> PortAddr option" where
  "ParsePortAddr addr = (case split_on CHR '':'' addr of
       [host, port] \<Rightarrow> (case ParseIP host of
           None \<Rightarrow> None
         | Some ip \<Rightarrow> (case ParseUint port 16 of
               (v, Some err) \<Rightarrow> None
             | (v, None) \<Rightarrow> Some \<lparr>PortAddr_IP = ip, PortAddr_Port = word_of_nat v\<rparr>))
     | _ \<Rightarrow> None)"

record TCPAddr =
  TCPAddr_IP :: IP
  TCPAddr_Port :: int
  TCPAddr_Zone :: string

definition ToTCPAddr :: "PortAddr \<Rightarrow> TCPAddr" where
  "ToTCPAddr p = \<lparr>TCPAddr_IP = PortAddr_IP p, TCPAddr_Port = uint (PortAddr_Port p), TCPAddr_Zone = []\<rparr>"

text \<open>\<open>net.UDPAddr\<close> has the same fields.\<close>

definition ToUDPAddr :: "PortAddr \<Rightarrow> TCPAddr" where
  "ToUDPAddr p = \<lparr>TCPAddr_IP = PortAddr_IP p, TCPAddr_Port = uint (PortAddr_Port p), TCPAddr_Zone = []\<rparr>"

definition PortAddr_String :: "PortAddr \<Rightarrow> string" where
  "PortAddr_String p = IP_String (PortAddr_IP p) @ '':'' @ FormatUint (unat (PortAddr_Port p))"

section \<open>url.go\<close>

text \<open>
  \<open>url.Values\<close> is a map to lists of strings; the argument lists the entries of the Go map in the
  order in which \<open>range\<close> happens to visit them.
\<close>

type_synonym Values = "string \<Rightarrow> string list"

definition Values_Add :: "string \<Rightarrow> string \<Rightarrow> Values \<Rightarrow> Values" where
  "Values_Add k v r = r(k := r k @ [v])"

definition ToUrlValues :: "(string \<times> string) list \<Rightarrow> Values" where
  "ToUrlValues m = fold (\<lambda>(k, v) r. Values_Add k v r) m (\<lambda>_. [])"

section \<open>servers.go\<close>

definition CMServers :: "string list" where
  "CMServers = [
    ''155.133.248.52:27018'', ''162.254.197.40:27018'', ''162.254.197.180:27019'',
    ''155.133.248.50:27019'', ''162.254.197.181:27017'', ''162.254.197.42:27019'',
    ''162.254.197.180:27017'', ''162.254.197.181:27018'', ''162.254.197.42:27018'',
    ''155.133.248.50:27017'', ''155.133.248.52:27019'', ''155.133.248.51:27019'',
    ''155.133.248.53:27019'', ''155.133.248.51:27017'', ''155.133.248.53:27017'',
    ''155.133.248.52:27017'', ''155.133.248.50:27018'', ''162.254.197.180:27018'',
    ''162.254.197.40:27017'', ''162.254.197.40:27019'', ''162.254.197.42:27017'',
    ''162.254.197.181:27019'', ''155.133.248.53:27018'', ''155.133.248.51:27018'',
    ''146.66.152.11:27017'', ''146.66.152.10:27019'', ''146.66.152.10:27017'',
    ''146.66.152.10:27018'', ''146.66.152.11:27019'', ''162.254.198.133:27017'',
    ''162.254.198.133:27018'', ''162.254.198.130:27019'', ''162.254.198.130:27017'',
    ''162.254.198.132:27018'', ''162.254.198.130:27018'', ''162.254.198.132:27017'',
    ''162.254.198.132:27019'', ''162.254.198.131:27019'', ''162.254.198.131:27017'',
    ''146.66.152.11:27018'', ''162.254.198.131:27018'', ''162.254.198.133:27019'',
    ''185.25.182.77:27017'', ''185.25.182.76:27018'', ''185.25.182.76:27019'',
    ''185.25.182.77:27018'', ''185.25.182.76:27017'', ''185.25.182.77:27019'',
    ''162.254.196.67:27019'', ''162.254.196.67:27018'', ''162.254.196.83:27018'',
    ''162.254.196.84:27018'', ''162.254.196.83:27017'', ''162.254.196.84:27017'',
    ''162.254.196.68:27019'', ''162.254.196.68:27017'', ''162.254.196.84:27019'',
    ''162.254.196.67:27017'', ''162.254.196.83:27019'', ''162.254.196.68:27018'',
    ''146.66.155.101:27017'', ''146.66.155.101:27018'', ''146.66.155.100:27017'',
    ''146.66.155.100:27018'', ''146.66.155.101:27019'', ''146.66.155.100:27019'',
    ''155.133.230.50:27017'', ''155.133.230.34:27018'', ''155.133.230.34:27017'',
    ''155.133.230.50:27019'', ''155.133.230.34:27019'', ''155.133.230.50:27018'',
    ''162.254.192.100:27017'', ''162.254.192.108:27017'', ''155.133.246.68:27017'',
    ''155.133.246.68:27018'', ''155.133.246.68:27019'', ''155.133.246.69:27019'',
    ''155.133.246.69:27017'', ''155.133.246.69:27018'', ''162.254.192.108:27018'',
    ''162.254.192.101:27018'', ''162.254.192.101:27019'', ''162.254.192.109:27018'',
    ''162.254.192.100:27018'', ''162.254.192.109:27017'', ''162.254.192.109:27019'',
    ''162.254.192.108:27019'', ''162.254.192.101:27017'', ''162.254.192.100:27019'',
    ''162.254.193.46:27019'', ''162.254.193.6:27018'', ''162.254.193.47:27018'',
    ''162.254.193.6:27019'', ''162.254.193.7:27018'', ''162.254.193.7:27017'',
    ''162.254.193.7:27019'', ''162.254.193.47:27017'', ''162.254.193.47:27019'',
    ''162.254.193.46:27018'']"

definition GetRandomCM :: "nat \<Rightarrow> PortAddr res" where
  "GetRandomCM rng = (case ParsePortAddr (CMServers ! (rng mod length CMServers)) of
       None \<Rightarrow> Panic ''invalid address in CMServers slice''
     | Some addr \<Rightarrow> Ok addr)"

section \<open>steam_directory.go\<close>

record steamDirectory =
  sd_servers :: "string list"
  sd_isInitialized :: bool

definition new_steamDirectory :: steamDirectory where
  "new_steamDirectory = \<lparr>sd_servers = [], sd_isInitialized = False\<rparr>"

text \<open>The decoded answer of the web API, or the error of the request or of the decoder.\<close>

record DirectoryResponse =
  dr_ServerList :: "string list"
  dr_Result :: u32
  dr_Message :: string

definition sd_Initialize :: "(DirectoryResponse, go_err) sum \<Rightarrow> steamDirectory \<Rightarrow> steamDirectory \<times> go_err option" where
  "sd_Initialize answer sd = (case answer of
       Inr err \<Rightarrow> (sd, Some err)
     | Inl r \<Rightarrow>
         if dr_Result r \<noteq> 1 then (sd, Some (GoErr ''Failed to get steam directory''))
         else if length (dr_ServerList r) = 0
         then (sd, Some (GoErr ''Steam returned zero servers for steam directory request''))
         else (sd\<lparr>sd_servers := dr_ServerList r, sd_isInitialized := True\<rparr>, None))"

definition sd_IsInitialized :: "steamDirectory \<Rightarrow> bool" where
  "sd_IsInitialized sd = sd_isInitialized sd"

text \<open>The address may be nil (\<open>None\<close>): the directory's text is not checked.\<close>

definition sd_GetRandomCM :: "nat \<Rightarrow> steamDirectory \<Rightarrow> PortAddr option res" where
  "sd_GetRandomCM rng sd =
     (if \<not> sd_isInitialized sd then Panic ''steam directory is not initialized''
      else if sd_servers sd = [] then Panic ''invalid argument to Int31n''
      else Ok (ParsePortAddr (sd_servers sd ! (rng mod length (sd_servers sd)))))"

record CMServer =
  CMServer_Endpoint :: string
  CMServer_LegacyEndpoint :: string
  CMServer_Type :: string
  CMServer_DC :: string
  CMServer_Load :: int
  CMServer_WeightedLoad :: u64

text \<open>An entry of the decoded answer of \<open>GetCMListForConnect\<close>; the load is a float64, kept as its bits.\<close>

record ListedServer =
  ls_Endpoint :: string
  ls_LegacyEndpoint :: string
  ls_Type :: string
  ls_DC :: string
  ls_Realm :: string
  ls_Load :: int
  ls_WtdLoad :: u64

definition FetchCMListForConnect ::
  "(ListedServer list, go_err) sum \<Rightarrow> (CMServer list) res" where
  "FetchCMListForConnect answer = (case answer of
       Inr err \<Rightarrow> Err err
     | Inl l \<Rightarrow>
         if length l = 0 then Err (GoErr ''GetCMListForConnect returned zero servers'')
         else Ok (foldl (\<lambda>out s. out @ [\<lparr>CMServer_Endpoint = ls_Endpoint s,
             CMServer_LegacyEndpoint = ls_LegacyEndpoint s, CMServer_Type = ls_Type s,
             CMServer_DC = ls_DC s, CMServer_Load = ls_Load s, CMServer_WeightedLoad = ls_WtdLoad s\<rparr>]) [] l))"

definition FilterByType :: "CMServer list \<Rightarrow> string \<Rightarrow> CMServer list" where
  "FilterByType servers t = foldl (\<lambda>out s. if CMServer_Type s = t then out @ [s] else out) [] servers"

definition zero_CMServer :: CMServer where
  "zero_CMServer = \<lparr>CMServer_Endpoint = [], CMServer_LegacyEndpoint = [], CMServer_Type = [],
     CMServer_DC = [], CMServer_Load = 0, CMServer_WeightedLoad = 0\<rparr>"

definition PickRandom :: "nat \<Rightarrow> CMServer list \<Rightarrow> CMServer" where
  "PickRandom rng servers =
     (if length servers = 0 then zero_CMServer else servers ! (rng mod length servers))"

section \<open>Addresses as text\<close>

lemma ip4_field_FormatUint: "n < 256 \<Longrightarrow> ip4_field (FormatUint n) = Some (word_of_nat n)"
proof -
  assume n: "n < 256"
  have "hd (FormatUint m) \<noteq> CHR ''0''" if "0 < m" for m
    using that
  proof (induction m rule: FormatUint.induct)
    case (1 m)
    show ?case
    proof (cases "m < 10")
      case True
      have "digit_char m \<noteq> digit_char 0"
        using True \<open>0 < m\<close> by (metis digit_char_props(2) less_numeral_extra(3) zero_less_numeral)
      then show ?thesis using True by (subst FormatUint.simps) simp
    next
      case False
      then have "0 < m div 10" by (simp add: div_greater_zero_iff)
      then show ?thesis using "1.IH" False by (subst FormatUint.simps) simp
    qed
  qed
  moreover have "length (FormatUint 0) = 1" by (subst FormatUint.simps) simp
  ultimately have "\<not> (length (FormatUint n) > 1 \<and> hd (FormatUint n) = CHR ''0'')"
    by (cases "n = 0") auto
  then show "ip4_field (FormatUint n) = Some (word_of_nat n)"
    using n ParseUint_FormatUint [of n 8] by (simp add: ip4_field_def)
qed

lemma not_in_FormatUint:
  "CHR ''.'' \<notin> set (FormatUint n)" "CHR '':'' \<notin> set (FormatUint n)"
  by (rule digit_not_in_FormatUint, simp add: is_digit_def)+

lemma split_on_dots:
  assumes "CHR ''.'' \<notin> set a" "CHR ''.'' \<notin> set b" "CHR ''.'' \<notin> set c" "CHR ''.'' \<notin> set d"
  shows "split_on CHR ''.'' (a @ ''.'' @ b @ ''.'' @ c @ ''.'' @ d) = [a, b, c, d]"
  using assms by (simp add: split_on_append split_on_no_sep)

lemma ParseIP_ip4_text:
  assumes "length b = 4"
  shows "ParseIP (ip4_text b) = Some (v4_prefix @ b)"
proof -
  obtain p q r s where b: "b = [p, q, r, s]"
    using assms by (auto simp: length_Suc_conv numeral_eq_Suc)
  have "ip4_field (FormatUint (unat x)) = Some x" for x :: byte
    using ip4_field_FormatUint [of "unat x"] unsigned_less [of x] by simp
  then show ?thesis
    unfolding ParseIP_def ip4_text_def
    by (subst split_on_dots) (simp_all add: not_in_FormatUint b)
qed

lemma colon_not_in_ip4_text: "CHR '':'' \<notin> set (ip4_text b)"
  by (simp add: ip4_text_def not_in_FormatUint)

definition to16 :: "IP \<Rightarrow> IP" where
  "to16 ip = (case To4 ip of Some b \<Rightarrow> v4_prefix @ b | None \<Rightarrow> ip)"

text \<open>
  the text of an address with an IPv4 address, in either of its forms, is parsed back to the same
  address in the 16-byte form and the same port; so the text determines the address.\<close>

theorem PortAddr_text_roundtrip:
  assumes "To4 (PortAddr_IP p) \<noteq> None"
  shows "ParsePortAddr (PortAddr_String p) = Some (p\<lparr>PortAddr_IP := to16 (PortAddr_IP p)\<rparr>)"
proof -
  obtain b where b: "To4 (PortAddr_IP p) = Some b" using assms by auto
  then have len: "length b = 4" and ne: "PortAddr_IP p \<noteq> []"
    by (auto simp: To4_def split: if_splits)
  have "split_on CHR '':'' (PortAddr_String p) = [ip4_text b, FormatUint (unat (PortAddr_Port p))]"
    unfolding PortAddr_String_def IP_String_def using b ne
    by (simp add: split_on_append split_on_no_sep colon_not_in_ip4_text not_in_FormatUint)
  moreover have "ParseUint (FormatUint (unat (PortAddr_Port p))) 16 = (unat (PortAddr_Port p), None)"
    by (rule ParseUint_FormatUint) (use unsigned_less [of "PortAddr_Port p"] in simp)
  ultimately show ?thesis
    using ParseIP_ip4_text [OF len] b by (simp add: ParsePortAddr_def to16_def)
qed

theorem PortAddr_text_roundtrip_witness:
  "ParsePortAddr (PortAddr_String \<lparr>PortAddr_IP = [155, 133, 248, 52], PortAddr_Port = 27018\<rparr>) =
     Some (\<lparr>PortAddr_IP = [155, 133, 248, 52], PortAddr_Port = 27018\<rparr>\<lparr>PortAddr_IP := to16 [155, 133, 248, 52]\<rparr>)"
  using PortAddr_text_roundtrip [of "\<lparr>PortAddr_IP = [155, 133, 248, 52], PortAddr_Port = 27018\<rparr>"]
  by (simp add: To4_def)

section \<open>Choosing a server\<close>

lemmas parse_addr_simps = ParsePortAddr_def ParseIP_def ip4_field_def ParseUint_def is_digit_def digit_val_def

lemma CMServers_parse: "list_all (\<lambda>s. ParsePortAddr s \<noteq> None) CMServers"
  by (simp add: CMServers_def parse_addr_simps)

lemma FilterByType_eq: "FilterByType servers t = filter (\<lambda>s. CMServer_Type s = t) servers"
proof -
  have "foldl (\<lambda>out s. if CMServer_Type s = t then out @ [s] else out) acc servers
      = acc @ filter (\<lambda>s. CMServer_Type s = t) servers" for acc
    by (induction servers arbitrary: acc) auto
  then show ?thesis by (simp add: FilterByType_def)
qed

text \<open>
  choosing among the built-in servers never panics, whatever the random number is: every one of them
  is a valid address; a directory that has answered gives one of its own entries, and an answer
  without servers or with another result leaves the directory as it was.\<close>

theorem random_server_choice:
  "(\<exists>a. GetRandomCM rng = Ok a)
   \<and> (case sd_Initialize answer sd of
        (sd', None) \<Rightarrow> sd_IsInitialized sd' \<and> sd_servers sd' \<noteq> [] \<and>
          (\<exists>s \<in> set (sd_servers sd'). sd_GetRandomCM rng sd' = Ok (ParsePortAddr s))
      | (sd', Some e) \<Rightarrow> sd' = sd)"
proof
  have "CMServers ! (rng mod length CMServers) \<in> set CMServers"
    by (rule nth_mem) (simp add: CMServers_def)
  then have "ParsePortAddr (CMServers ! (rng mod length CMServers)) \<noteq> None"
    using CMServers_parse by (simp add: list_all_iff)
  then show "\<exists>a. GetRandomCM rng = Ok a"
    by (auto simp: GetRandomCM_def)
  show "case sd_Initialize answer sd of
        (sd', None) \<Rightarrow> sd_IsInitialized sd' \<and> sd_servers sd' \<noteq> [] \<and>
          (\<exists>s \<in> set (sd_servers sd'). sd_GetRandomCM rng sd' = Ok (ParsePortAddr s))
      | (sd', Some e) \<Rightarrow> sd' = sd"
    by (auto simp: sd_Initialize_def sd_IsInitialized_def sd_GetRandomCM_def split: sum.split)
qed

text \<open>\<open>PickRandom\<close> after \<open>FilterByType\<close> returns a listed server of that type, or the zero value.\<close>

lemma PickRandom_FilterByType:
  "PickRandom rng (FilterByType servers t) = zero_CMServer \<and> (\<forall>s \<in> set servers. CMServer_Type s \<noteq> t) \<or>
   PickRandom rng (FilterByType servers t) \<in> set servers \<and> CMServer_Type (PickRandom rng (FilterByType servers t)) = t"
proof (cases "FilterByType servers t = []")
  case True
  then show ?thesis by (auto simp: PickRandom_def FilterByType_eq filter_empty_conv)
next
  case False
  then have "PickRandom rng (FilterByType servers t) \<in> set (FilterByType servers t)"
    by (auto simp: PickRandom_def intro: nth_mem)
  then show ?thesis by (auto simp: FilterByType_eq)
qed

lemma FetchCMListForConnect_ok:
  "FetchCMListForConnect (Inl l) = Ok out \<Longrightarrow>
     map CMServer_Endpoint out = map ls_Endpoint l \<and> map CMServer_Type out = map ls_Type l"
  by (auto simp: FetchCMListForConnect_def foldl_append_collect comp_def split: if_splits)

end
