(* ===== verification/Events.thy ===== *)
theory Events
  imports Pb_Social Netutil
begin

text \<open>
  The events of the client, record by record (\<open>auth_events.go\<close>, \<open>client_events.go\<close>, \<open>social_events.go\<close>,
  \<open>trading_events.go\<close>, \<open>notifications_events.go\<close>, \<open>web_events.go\<close>, and the ready event of \<open>tf2\<close>), and
  \<open>Event\<close>, the type of what is sent on the channel of events. A \<open>time.Time\<close> is its Unix time in
  seconds, \<open>None\<close> where the code leaves the zero value; Go's \<open>uint\<close> has 64 bits.
\<close>

record ClanEventDetails =
  ClanEventDetails_Id :: u64
  ClanEventDetails_EventTime :: u32
  ClanEventDetails_Headline :: string
  ClanEventDetails_GameId :: u64
  ClanEventDetails_JustPosted :: bool

record StateChangeDetails =
  StateChangeDetails_ChatterActedOn :: steamid
  StateChangeDetails_StateChange :: EChatMemberStateChange
  StateChangeDetails_ChatterActedBy :: steamid

record LoggedOnEvent =
  LoggedOnEvent_Result :: EResult
  LoggedOnEvent_ExtendedResult :: EResult
  LoggedOnEvent_OutOfGameSecsPerHeartbeat :: i32
  LoggedOnEvent_InGameSecsPerHeartbeat :: i32
  LoggedOnEvent_PublicIp :: u32
  LoggedOnEvent_ServerTime :: u32
  LoggedOnEvent_AccountFlags :: EAccountFlags
  LoggedOnEvent_ClientSteamId :: steamid
  LoggedOnEvent_EmailDomain :: string
  LoggedOnEvent_CellId :: u32
  LoggedOnEvent_CellIdPingThreshold :: u32
  LoggedOnEvent_Steam2Ticket :: bytes
  LoggedOnEvent_UsePics :: bool
  LoggedOnEvent_WebApiUserNonce :: string
  LoggedOnEvent_IpCountryCode :: string
  LoggedOnEvent_VanityUrl :: string
  LoggedOnEvent_NumLoginFailuresToMigrate :: i32
  LoggedOnEvent_NumDisconnectsToMigrate :: i32

record LogOnFailedEvent =
  LogOnFailedEvent_Result :: EResult
  LogOnFailedEvent_ExtendedResult :: EResult

record LoginKeyEvent =
  LoginKeyEvent_UniqueId :: u32
  LoginKeyEvent_LoginKey :: string

record LoggedOffEvent =
  LoggedOffEvent_Result :: EResult

record MachineAuthUpdateEvent =
  MachineAuthUpdateEvent_Hash :: bytes

record AccountInfoEvent =
  AccountInfoEvent_PersonaName :: string
  AccountInfoEvent_Country :: string
  AccountInfoEvent_CountAuthedComputers :: i32
  AccountInfoEvent_AccountFlags :: EAccountFlags
  AccountInfoEvent_FacebookId :: u64
  AccountInfoEvent_FacebookName :: string

record ClientCMListEvent =
  ClientCMListEvent_Addresses :: "PortAddr list"

record NotificationEvent =
  NotificationEvent_Type :: u64
  NotificationEvent_Count :: u64

record FriendStateEvent =
  FriendStateEvent_SteamId :: steamid
  FriendStateEvent_Relationship :: EFriendRelationship

record GroupStateEvent =
  GroupStateEvent_SteamId :: steamid
  GroupStateEvent_Relationship :: EClanRelationship

record PersonaStateEvent =
  PersonaStateEvent_StatusFlags :: EClientPersonaStateFlag
  PersonaStateEvent_FriendId :: steamid
  PersonaStateEvent_State :: EPersonaState
  PersonaStateEvent_StateFlags :: EPersonaStateFlag
  PersonaStateEvent_GameAppId :: u32
  PersonaStateEvent_GameId :: u64
  PersonaStateEvent_GameName :: string
  PersonaStateEvent_GameServerIp :: u32
  PersonaStateEvent_GameServerPort :: u32
  PersonaStateEvent_QueryPort :: u32
  PersonaStateEvent_SourceSteamId :: steamid
  PersonaStateEvent_GameDataBlob :: bytes
  PersonaStateEvent_Name :: string
  PersonaStateEvent_Avatar :: bytes
  PersonaStateEvent_LastLogOff :: u32
  PersonaStateEvent_LastLogOn :: u32
  PersonaStateEvent_ClanRank :: u32
  PersonaStateEvent_ClanTag :: string
  PersonaStateEvent_OnlineSessionInstances :: u32
  PersonaStateEvent_PersonaSetByUser :: bool
  PersonaStateEvent_RichPresence :: "CMsgClientPersonaState_Friend_KV list"

record ClanStateEvent =
  ClanStateEvent_ClanId :: steamid
  ClanStateEvent_AccountFlags :: EAccountFlags
  ClanStateEvent_ClanName :: string
  ClanStateEvent_Avatar :: bytes
  ClanStateEvent_MemberTotalCount :: u32
  ClanStateEvent_MemberOnlineCount :: u32
  ClanStateEvent_MemberChattingCount :: u32
  ClanStateEvent_MemberInGameCount :: u32
  ClanStateEvent_Events :: "ClanEventDetails list"
  ClanStateEvent_Announcements :: "ClanEventDetails list"

record FriendAddedEvent =
  FriendAddedEvent_Result :: EResult
  FriendAddedEvent_SteamId :: steamid
  FriendAddedEvent_PersonaName :: string

record ChatMsgEvent =
  ChatMsgEvent_ChatRoomId :: steamid
  ChatMsgEvent_ChatterId :: steamid
  ChatMsgEvent_Message :: string
  ChatMsgEvent_EntryType :: EChatEntryType
  ChatMsgEvent_Timestamp :: "i64 option"
  ChatMsgEvent_Offline :: bool

record ChatEnterEvent =
  ChatEnterEvent_ChatRoomId :: steamid
  ChatEnterEvent_FriendId :: steamid
  ChatEnterEvent_ChatRoomType :: EChatRoomType
  ChatEnterEvent_OwnerId :: steamid
  ChatEnterEvent_ClanId :: steamid
  ChatEnterEvent_ChatFlags :: byte
  ChatEnterEvent_EnterResponse :: EChatRoomEnterResponse
  ChatEnterEvent_Name :: string

record ChatMemberInfoEvent =
  ChatMemberInfoEvent_ChatRoomId :: steamid
  ChatMemberInfoEvent_Type :: EChatInfoType
  ChatMemberInfoEvent_StateChangeInfo :: StateChangeDetails

record ChatActionResultEvent =
  ChatActionResultEvent_ChatRoomId :: steamid
  ChatActionResultEvent_ChatterId :: steamid
  ChatActionResultEvent_Action :: EChatAction
  ChatActionResultEvent_Result :: EChatActionResult

record ChatInviteEvent =
  ChatInviteEvent_InvitedId :: steamid
  ChatInviteEvent_ChatRoomId :: steamid
  ChatInviteEvent_PatronId :: steamid
  ChatInviteEvent_ChatRoomType :: EChatRoomType
  ChatInviteEvent_FriendChatId :: steamid
  ChatInviteEvent_ChatRoomName :: string
  ChatInviteEvent_GameId :: u64

record IgnoreFriendEvent =
  IgnoreFriendEvent_Result :: EResult

record ProfileInfoEvent =
  ProfileInfoEvent_Result :: EResult
  ProfileInfoEvent_SteamId :: steamid
  ProfileInfoEvent_TimeCreated :: u32
  ProfileInfoEvent_RealName :: string
  ProfileInfoEvent_CityName :: string
  ProfileInfoEvent_StateName :: string
  ProfileInfoEvent_CountryName :: string
  ProfileInfoEvent_Headline :: string
  ProfileInfoEvent_Summary :: string

record TradeProposedEvent =
  TradeProposedEvent_RequestId :: u32
  TradeProposedEvent_Other :: steamid

record TradeResultEvent =
  TradeResultEvent_RequestId :: u32
  TradeResultEvent_Response :: EEconTradeResponse
  TradeResultEvent_Other :: steamid
  TradeResultEvent_NumDaysSteamGuardRequired :: u32
  TradeResultEvent_NumDaysNewDeviceCooldown :: u32
  TradeResultEvent_DefaultNumDaysPasswordResetProbation :: u32
  TradeResultEvent_NumDaysPasswordResetProbation :: u32

record TradeSessionStartEvent =
  TradeSessionStartEvent_Other :: steamid

datatype Event =
    Ev_Error go_err
  | Ev_FatalError go_err
  | Ev_WebLogOnError go_err
  | Ev_LoggedOn LoggedOnEvent
  | Ev_LogOnFailed LogOnFailedEvent
  | Ev_LoginKey LoginKeyEvent
  | Ev_LoggedOff LoggedOffEvent
  | Ev_MachineAuthUpdate MachineAuthUpdateEvent
  | Ev_AccountInfo AccountInfoEvent
  | Ev_Connected
  | Ev_Disconnected
  | Ev_ClientCMList ClientCMListEvent
  | Ev_Notification NotificationEvent
  | Ev_FriendsList
  | Ev_FriendState FriendStateEvent
  | Ev_GroupState GroupStateEvent
  | Ev_PersonaState PersonaStateEvent
  | Ev_ClanState ClanStateEvent
  | Ev_FriendAdded FriendAddedEvent
  | Ev_ChatMsg ChatMsgEvent
  | Ev_ChatEnter ChatEnterEvent
  | Ev_ChatMemberInfo ChatMemberInfoEvent
  | Ev_ChatActionResult ChatActionResultEvent
  | Ev_ChatInvite ChatInviteEvent
  | Ev_IgnoreFriend IgnoreFriendEvent
  | Ev_ProfileInfo ProfileInfoEvent
  | Ev_TradeProposed TradeProposedEvent
  | Ev_TradeResult TradeResultEvent
  | Ev_TradeSessionStart TradeSessionStartEvent
  | Ev_WebLoggedOn
  | Ev_WebSessionId
  | Ev_GCReady

definition IsFriend :: "FriendStateEvent \<Rightarrow> bool" where
  "IsFriend f \<longleftrightarrow> FriendStateEvent_Relationship f = EFriendRelationship_Friend"

definition IsMember :: "GroupStateEvent \<Rightarrow> bool" where
  "IsMember g \<longleftrightarrow> GroupStateEvent_Relationship g = EClanRelationship_Member"

text \<open>Whether the type is ChatMsg.\<close>

definition IsMessage :: "ChatMsgEvent \<Rightarrow> bool" where
  "IsMessage c \<longleftrightarrow> ChatMsgEvent_EntryType c = EChatEntryType_ChatMsg"

end
