(* ===== verification/Aes.thy ===== *)
theory Aes
  imports Prelude
begin

text \<open>
  The block cipher that Go's \<open>crypto/aes\<close> provides (FIPS 197), and the locale \<open>block_cipher\<close>, the part of
  the interface \<open>cipher.Block\<close> that \<open>cryptoutil\<close> relies on: decryption undoes encryption of a full
  block of 16 bytes. The state of the cipher is kept as the 16 bytes of the block, column by column.
\<close>

section \<open>The interface\<close>

locale block_cipher =
  fixes enc :: "bytes \<Rightarrow> bytes" and dec :: "bytes \<Rightarrow> bytes"
  assumes length_enc: "length b = 16 \<Longrightarrow> length (enc b) = 16"
    and length_dec: "length b = 16 \<Longrightarrow> length (dec b) = 16"
    and dec_enc: "length b = 16 \<Longrightarrow> dec (enc b) = b"
begin

lemma enc_inj: "length a = 16 \<Longrightarrow> length b = 16 \<Longrightarrow> enc a = enc b \<Longrightarrow> a = b"
  by (metis dec_enc)

end

record Block =
  Block_Encrypt :: "bytes \<Rightarrow> bytes"
  Block_Decrypt :: "bytes \<Rightarrow> bytes"

section \<open>The round functions\<close>

definition aes_sbox_table :: "int list" where
  "aes_sbox_table = [
     0x63, 0x7c, 0x77, 0x7b, 0xf2, 0x6b, 0x6f, 0xc5, 0x30, 0x01, 0x67, 0x2b, 0xfe, 0xd7, 0xab, 0x76,
     0xca, 0x82, 0xc9, 0x7d, 0xfa, 0x59, 0x47, 0xf0, 0xad, 0xd4, 0xa2, 0xaf, 0x9c, 0xa4, 0x72, 0xc0,
     0xb7, 0xfd, 0x93, 0x26, 0x36, 0x3f, 0xf7, 0xcc, 0x34, 0xa5, 0xe5, 0xf1, 0x71, 0xd8, 0x31, 0x15,
     0x04, 0xc7, 0x23, 0xc3, 0x18, 0x96, 0x05, 0x9a, 0x07, 0x12, 0x80, 0xe2, 0xeb, 0x27, 0xb2, 0x75,
     0x09, 0x83, 0x2c, 0x1a, 0x1b, 0x6e, 0x5a, 0xa0, 0x52, 0x3b, 0xd6, 0xb3, 0x29, 0xe3, 0x2f, 0x84,
     0x53, 0xd1, 0x00, 0xed, 0x20, 0xfc, 0xb1, 0x5b, 0x6a, 0xcb, 0xbe, 0x39, 0x4a, 0x4c, 0x58, 0xcf,
     0xd0, 0xef, 0xaa, 0xfb, 0x43, 0x4d, 0x33, 0x85, 0x45, 0xf9, 0x02, 0x7f, 0x50, 0x3c, 0x9f, 0xa8,
     0x51, 0xa3, 0x40, 0x8f, 0x92, 0x9d, 0x38, 0xf5, 0xbc, 0xb6, 0xda, 0x21, 0x10, 0xff, 0xf3, 0xd2,
     0xcd, 0x0c, 0x13, 0xec, 0x5f, 0x97, 0x44, 0x17, 0xc4, 0xa7, 0x7e, 0x3d, 0x64, 0x5d, 0x19, 0x73,
     0x60, 0x81, 0x4f, 0xdc, 0x22, 0x2a, 0x90, 0x88, 0x46, 0xee, 0xb8, 0x14, 0xde, 0x5e, 0x0b, 0xdb,
     0xe0, 0x32, 0x3a, 0x0a, 0x49, 0x06, 0x24, 0x5c, 0xc2, 0xd3, 0xac, 0x62, 0x91, 0x95, 0xe4, 0x79,
     0xe7, 0xc8, 0x37, 0x6d, 0x8d, 0xd5, 0x4e, 0xa9, 0x6c, 0x56, 0xf4, 0xea, 0x65, 0x7a, 0xae, 0x08,
     0xba, 0x78, 0x25, 0x2e, 0x1c, 0xa6, 0xb4, 0xc6, 0xe8, 0xdd, 0x74, 0x1f, 0x4b, 0xbd, 0x8b, 0x8a,
     0x70, 0x3e, 0xb5, 0x66, 0x48, 0x03, 0xf6, 0x0e, 0x61, 0x35, 0x57, 0xb9, 0x86, 0xc1, 0x1d, 0x9e,
     0xe1, 0xf8, 0x98, 0x11, 0x69, 0xd9, 0x8e, 0x94, 0x9b, 0x1e, 0x87, 0xe9, 0xce, 0x55, 0x28, 0xdf,
     0x8c, 0xa1, 0x89, 0x0d, 0xbf, 0xe6, 0x42, 0x68, 0x41, 0x99, 0x2d, 0x0f, 0xb0, 0x54, 0xbb, 0x16]"

definition aes_sbox :: "byte list" where
  "aes_sbox = map word_of_int aes_sbox_table"

definition sub_byte :: "byte \<Rightarrow> byte" where
  "sub_byte b = aes_sbox ! unat b"

text \<open>The inverse S-box maps an entry of the table to its position.\<close>

definition inv_sub_byte :: "byte \<Rightarrow> byte" where
  "inv_sub_byte b = word_of_nat (length (takeWhile (\<lambda>s. s \<noteq> b) aes_sbox))"

definition xtime :: "byte \<Rightarrow> byte" where
  "xtime b = push_bit 1 b XOR (if bit b 7 then 0x1b else 0)"

definition gf2 :: "byte \<Rightarrow> byte" where "gf2 b = xtime b"
definition gf3 :: "byte \<Rightarrow> byte" where "gf3 b = xtime b XOR b"
definition gf9 :: "byte \<Rightarrow> byte" where "gf9 b = xtime (xtime (xtime b)) XOR b"
definition gf11 :: "byte \<Rightarrow> byte" where "gf11 b = xtime (xtime (xtime b)) XOR xtime b XOR b"
definition gf13 :: "byte \<Rightarrow> byte" where "gf13 b = xtime (xtime (xtime b)) XOR xtime (xtime b) XOR b"
definition gf14 :: "byte \<Rightarrow> byte" where "gf14 b = xtime (xtime (xtime b)) XOR xtime (xtime b) XOR xtime b"

fun mix_columns :: "bytes \<Rightarrow> bytes" where
  "mix_columns (a # b # c # d # s) =
     [gf2 a XOR gf3 b XOR c XOR d, a XOR gf2 b XOR gf3 c XOR d,
      a XOR b XOR gf2 c XOR gf3 d, gf3 a XOR b XOR c XOR gf2 d] @ mix_columns s"
| "mix_columns s = s"

fun inv_mix_columns :: "bytes \<Rightarrow> bytes" where
  "inv_mix_columns (a # b # c # d # s) =
     [gf14 a XOR gf11 b XOR gf13 c XOR gf9 d, gf9 a XOR gf14 b XOR gf11 c XOR gf13 d,
      gf13 a XOR gf9 b XOR gf14 c XOR gf11 d, gf11 a XOR gf13 b XOR gf9 c XOR gf14 d] @ inv_mix_columns s"
| "inv_mix_columns s = s"

definition shift_rows :: "bytes \<Rightarrow> bytes" where
  "shift_rows s = map (\<lambda>i. s ! ((i + 4 * (i mod 4)) mod 16)) [0..<16]"

definition inv_shift_rows :: "bytes \<Rightarrow> bytes" where
  "inv_shift_rows s = map (\<lambda>i. s ! ((i + 12 * (i mod 4)) mod 16)) [0..<16]"

definition xor_bytes :: "bytes \<Rightarrow> bytes \<Rightarrow> bytes" where
  "xor_bytes k s = map2 (\<lambda>a b. a XOR b) k s"

section \<open>Key expansion\<close>

fun aes_rcon :: "nat \<Rightarrow> byte" where
  "aes_rcon 0 = 1"
| "aes_rcon (Suc n) = xtime (aes_rcon n)"

text \<open>\<open>ws\<close> holds the words so far, the newest first, \<open>i\<close> their number.\<close>

definition aes_next_word :: "nat \<Rightarrow> nat \<Rightarrow> bytes list \<Rightarrow> bytes" where
  "aes_next_word nk i ws =
     (let temp = hd ws;
          temp = (if i mod nk = 0
                  then xor_bytes [aes_rcon (i div nk - 1), 0, 0, 0] (map sub_byte (rotate1 temp))
                  else if nk > 6 \<and> i mod nk = 4 then map sub_byte temp
                  else temp)
      in xor_bytes (ws ! (nk - 1)) temp)"

fun aes_expand :: "nat \<Rightarrow> nat \<Rightarrow> nat \<Rightarrow> bytes list \<Rightarrow> bytes list" where
  "aes_expand nk i 0 ws = ws"
| "aes_expand nk i (Suc k) ws = aes_expand nk (Suc i) k (aes_next_word nk i ws # ws)"

fun words_of :: "bytes \<Rightarrow> bytes list" where
  "words_of (a # b # c # d # r) = [a, b, c, d] # words_of r"
| "words_of r = []"

fun round_keys_of :: "bytes list \<Rightarrow> bytes list" where
  "round_keys_of (a # b # c # d # r) = (a @ b @ c @ d) # round_keys_of r"
| "round_keys_of r = []"

definition aes_round_keys :: "bytes \<Rightarrow> bytes list" where
  "aes_round_keys key =
     (let nk = length key div 4; ws = words_of key
      in round_keys_of (rev (aes_expand nk nk (4 * (nk + 7) - nk) (rev ws))))"

section \<open>Encryption and decryption of a block\<close>

fun aes_enc_rounds :: "bytes list \<Rightarrow> bytes \<Rightarrow> bytes" where
  "aes_enc_rounds [] s = s"
| "aes_enc_rounds [k] s = xor_bytes k (shift_rows (map sub_byte s))"
| "aes_enc_rounds (k # k' # ks) s =
     aes_enc_rounds (k' # ks) (xor_bytes k (mix_columns (shift_rows (map sub_byte s))))"

fun aes_dec_rounds :: "bytes list \<Rightarrow> bytes \<Rightarrow> bytes" where
  "aes_dec_rounds [] s = s"
| "aes_dec_rounds [k] s = map inv_sub_byte (inv_shift_rows (xor_bytes k s))"
| "aes_dec_rounds (k # k' # ks) s =
     map inv_sub_byte (inv_shift_rows (inv_mix_columns (xor_bytes k (aes_dec_rounds (k' # ks) s))))"

definition aes_encrypt :: "bytes \<Rightarrow> bytes \<Rightarrow> bytes" where
  "aes_encrypt key b = (case aes_round_keys key of [] \<Rightarrow> b | k # ks \<Rightarrow> aes_enc_rounds ks (xor_bytes k b))"

definition aes_decrypt :: "bytes \<Rightarrow> bytes \<Rightarrow> bytes" where
  "aes_decrypt key b = (case aes_round_keys key of [] \<Rightarrow> b | k # ks \<Rightarrow> xor_bytes k (aes_dec_rounds ks b))"

definition aes_NewCipher :: "bytes \<Rightarrow> Block res" where
  "aes_NewCipher key =
     (if length key \<in> {16, 24, 32}
      then Ok \<lparr>Block_Encrypt = aes_encrypt key, Block_Decrypt = aes_decrypt key\<rparr>
      else Err (GoErr ''crypto/aes: invalid key size''))"

section \<open>Decryption undoes encryption\<close>

lemma length_aes_sbox: "length aes_sbox = 256"
  by (simp add: aes_sbox_def aes_sbox_table_def)

lemma aes_sbox_table_distinct: "distinct aes_sbox_table"
  by (simp add: aes_sbox_table_def)

lemma aes_sbox_table_range: "list_all (\<lambda>i. 0 \<le> i \<and> i < 256) aes_sbox_table"
  by code_simp

lemma distinct_aes_sbox: "distinct aes_sbox"
proof -
  have "inj_on (word_of_int :: int \<Rightarrow> byte) (set aes_sbox_table)"
  proof (rule inj_onI)
    fix x y
    assume "x \<in> set aes_sbox_table" and "y \<in> set aes_sbox_table"
      and eq: "word_of_int x = (word_of_int y :: byte)"
    then have "0 \<le> x \<and> x < 256" and "0 \<le> y \<and> y < 256"
      using aes_sbox_table_range by (auto simp: list_all_iff)
    with eq show "x = y" by (simp add: word_of_int_eq_iff take_bit_int_eq_self_iff take_bit_int_eq_self)
  qed
  then show ?thesis
    by (simp add: aes_sbox_def distinct_map aes_sbox_table_distinct)
qed

lemma inv_sub_byte_sub_byte: "inv_sub_byte (sub_byte b) = b"
proof -
  have i: "unat b < length aes_sbox"
    using unsigned_less [of b] by (simp add: length_aes_sbox)
  have "takeWhile (\<lambda>s. s \<noteq> aes_sbox ! unat b) aes_sbox = take (unat b) aes_sbox"
  proof (rule takeWhile_eq_take_P_nth)
    fix j assume "j < unat b" and "j < length aes_sbox"
    then show "aes_sbox ! j \<noteq> aes_sbox ! unat b"
      using i distinct_aes_sbox by (simp add: nth_eq_iff_index_eq)
  qed simp
  then show ?thesis using i by (simp add: inv_sub_byte_def sub_byte_def min_def)
qed

lemma xtime_xor [simp]: "xtime (a XOR b) = xtime a XOR xtime b"
  by (rule bit_word_eqI) (auto simp: xtime_def bit_simps)

lemma map_inv_sub_byte: "map inv_sub_byte (map sub_byte s) = s"
  by (simp add: comp_def inv_sub_byte_sub_byte)

lemma xor_cancel_word: "(a :: 'a::len word) XOR (a XOR b) = b" "(a :: 'a::len word) XOR (b XOR a) = b"
  by (simp_all add: xor.assoc [symmetric] xor.commute)

lemma mix_columns_column:
  "[gf14 (gf2 a XOR gf3 b XOR c XOR d) XOR gf11 (a XOR gf2 b XOR gf3 c XOR d) XOR
      gf13 (a XOR b XOR gf2 c XOR gf3 d) XOR gf9 (gf3 a XOR b XOR c XOR gf2 d),
    gf9 (gf2 a XOR gf3 b XOR c XOR d) XOR gf14 (a XOR gf2 b XOR gf3 c XOR d) XOR
      gf11 (a XOR b XOR gf2 c XOR gf3 d) XOR gf13 (gf3 a XOR b XOR c XOR gf2 d),
    gf13 (gf2 a XOR gf3 b XOR c XOR d) XOR gf9 (a XOR gf2 b XOR gf3 c XOR d) XOR
      gf14 (a XOR b XOR gf2 c XOR gf3 d) XOR gf11 (gf3 a XOR b XOR c XOR gf2 d),
    gf11 (gf2 a XOR gf3 b XOR c XOR d) XOR gf13 (a XOR gf2 b XOR gf3 c XOR d) XOR
      gf9 (a XOR b XOR gf2 c XOR gf3 d) XOR gf14 (gf3 a XOR b XOR c XOR gf2 d)] = [a, b, c, d]"
  by (simp add: gf2_def gf3_def gf9_def gf11_def gf13_def gf14_def
      xor.assoc xor.commute xor.left_commute xor_cancel_word)

lemma inv_mix_mix: "inv_mix_columns (mix_columns s) = s"
proof (induction s rule: mix_columns.induct)
  case (1 a b c d s)
  then show ?case using mix_columns_column [of a b c d] by simp
qed simp_all

lemma length_mix_columns [simp]: "length (mix_columns s) = length s"
  by (induction s rule: mix_columns.induct) simp_all

lemma length_inv_mix_columns [simp]: "length (inv_mix_columns s) = length s"
  by (induction s rule: inv_mix_columns.induct) simp_all

lemma length_shift_rows [simp]: "length (shift_rows s) = 16" "length (inv_shift_rows s) = 16"
  by (simp_all add: shift_rows_def inv_shift_rows_def)

lemma shift_index:
  "list_all (\<lambda>i. ((i + 12 * (i mod 4)) mod 16 + 4 * ((i + 12 * (i mod 4)) mod 16 mod 4)) mod 16 = i) [0..<16]"
  by code_simp

lemma inv_shift_shift:
  assumes "length s = 16"
  shows "inv_shift_rows (shift_rows s) = s"
proof (rule nth_equalityI)
  fix i assume "i < length (inv_shift_rows (shift_rows s))"
  then have i: "i < 16" by simp
  then have "((i + 12 * (i mod 4)) mod 16 + 4 * ((i + 12 * (i mod 4)) mod 16 mod 4)) mod 16 = i"
    using shift_index unfolding list_all_iff set_upt by (meson atLeastLessThan_iff zero_le)
  then show "inv_shift_rows (shift_rows s) ! i = s ! i"
    using i by (simp add: inv_shift_rows_def shift_rows_def)
qed (simp add: assms)

lemma length_xor_bytes [simp]: "length (xor_bytes k s) = min (length k) (length s)"
  by (simp add: xor_bytes_def)

lemma xor_bytes_twice: "length k = length s \<Longrightarrow> xor_bytes k (xor_bytes k s) = s"
  unfolding xor_bytes_def by (induction k s rule: list_induct2) (simp_all add: xor_cancel_word)

lemma length_aes_rounds [simp]:
  "\<lbrakk>length s = 16; \<forall>k \<in> set ks. length k = 16\<rbrakk> \<Longrightarrow> length (aes_enc_rounds ks s) = 16"
  "\<lbrakk>length s = 16; \<forall>k \<in> set ks. length k = 16\<rbrakk> \<Longrightarrow> length (aes_dec_rounds ks s) = 16"
  by (induction ks s rule: aes_enc_rounds.induct) simp_all

lemma aes_dec_enc_rounds:
  "\<lbrakk>length s = 16; \<forall>k \<in> set ks. length k = 16\<rbrakk> \<Longrightarrow> aes_dec_rounds ks (aes_enc_rounds ks s) = s"
proof (induction ks s rule: aes_enc_rounds.induct)
  case (2 k s)
  then show ?case by (simp add: xor_bytes_twice inv_shift_shift comp_def inv_sub_byte_sub_byte)
next
  case (3 k k' ks s)
  then show ?case by (simp add: xor_bytes_twice inv_shift_shift inv_mix_mix comp_def inv_sub_byte_sub_byte)
qed simp

section \<open>The cipher satisfies the interface\<close>

lemma length_aes_next_word:
  assumes "\<forall>w \<in> set ws. length w = 4" and "0 < nk" and "nk \<le> length ws"
  shows "length (aes_next_word nk i ws) = 4"
proof -
  have "nk - 1 < length ws" and "ws \<noteq> []" using assms(2,3) by auto
  then have "length (ws ! (nk - 1)) = 4" and "length (hd ws) = 4"
    using assms(1) by simp_all
  then show ?thesis unfolding aes_next_word_def Let_def by auto
qed

lemma aes_expand_words:
  assumes "\<forall>w \<in> set ws. length w = 4" and "0 < nk" and "nk \<le> length ws"
  shows "\<forall>w \<in> set (aes_expand nk i k ws). length w = 4"
  using assms
proof (induction nk i k ws rule: aes_expand.induct)
  case (2 nk i k ws)
  have "length (aes_next_word nk i ws) = 4"
    using "2.prems" by (rule length_aes_next_word)
  then show ?case
    unfolding aes_expand.simps using "2.prems" by (intro "2.IH") simp_all
qed simp

lemma words_of_words: "\<forall>w \<in> set (words_of r). length w = 4"
  by (induction r rule: words_of.induct) simp_all

lemma length_words_of: "length (words_of r) = length r div 4"
  by (induction r rule: words_of.induct) simp_all

lemma round_keys_of_blocks: "\<forall>w \<in> set ws. length w = 4 \<Longrightarrow> \<forall>k \<in> set (round_keys_of ws). length k = 16"
  by (induction ws rule: round_keys_of.induct) simp_all

lemma aes_round_keys_blocks:
  "4 \<le> length key \<Longrightarrow> \<forall>k \<in> set (aes_round_keys key). length k = 16"
  unfolding aes_round_keys_def Let_def
  by (intro round_keys_of_blocks) (simp only: set_rev,
    intro aes_expand_words, simp_all add: words_of_words length_words_of)

text \<open>Every key of at least one word gives a cipher; \<open>aes.NewCipher\<close> accepts only three lengths.\<close>

definition key_or_zero :: "bytes \<Rightarrow> bytes" where
  "key_or_zero key = (if length key \<in> {16, 24, 32} then key else replicate 32 0)"

lemma aes_is_block_cipher:
  assumes "4 \<le> length key"
  shows "block_cipher (aes_encrypt key) (aes_decrypt key)"
proof
  fix b :: bytes
  assume b: "length b = 16"
  note ks = aes_round_keys_blocks [OF assms]
  show "length (aes_encrypt key b) = 16" and "length (aes_decrypt key b) = 16"
    using ks b by (auto simp: aes_encrypt_def aes_decrypt_def split: list.split)
  show "aes_decrypt key (aes_encrypt key b) = b"
    using ks b by (auto simp: aes_encrypt_def aes_decrypt_def aes_dec_enc_rounds xor_bytes_twice split: list.split)
qed

interpretation aes_block: block_cipher "aes_encrypt (key_or_zero key)" "aes_decrypt (key_or_zero key)" for key
  by (rule aes_is_block_cipher) (auto simp: key_or_zero_def)

lemma aes_NewCipher_block_cipher:
  "aes_NewCipher key = Ok c \<Longrightarrow> block_cipher (Block_Encrypt c) (Block_Decrypt c)"
  by (auto simp: aes_NewCipher_def aes_is_block_cipher split: if_splits)

end
