(* ===== verification/Cryptoutil.thy ===== *)
theory Cryptoutil
  imports Aes Go_Std
begin

text \<open>
  \<open>cryptoutil\<close>: PKCS#7 padding (\<open>pkcs7.go\<close>), the electronic code book mode (\<open>ecb.go\<close>) and the
  symmetric encryption of the connection (\<open>cryptoutil.go\<close>): the random initialisation vector,
  encrypted by itself, followed by the padded message in cipher block chaining mode.
  The vector read from \<open>crypto/rand\<close> is an argument of the encryption.
  Slices are taken to have the capacity of their length, as the buffers the callers pass have.
\<close>

definition BlockSize :: nat where "BlockSize = 16"

section \<open>pkcs7.go\<close>

text \<open>Go's \<open>copy\<close> into a slice from an offset on.\<close>

definition copy_at :: "nat \<Rightarrow> 'a list \<Rightarrow> 'a list \<Rightarrow> 'a list" where
  "copy_at off src dest =
     take off dest @ take (length dest - off) src @ drop (off + length src) dest"

fun fill_loop :: "nat \<Rightarrow> nat \<Rightarrow> byte \<Rightarrow> bytes \<Rightarrow> bytes" where
  "fill_loop i 0 padding dest = dest"
| "fill_loop i (Suc k) padding dest = fill_loop (Suc i) k padding (dest[i := padding])"

definition padPKCS7WithIV :: "bytes \<Rightarrow> bytes" where
  "padPKCS7WithIV src =
     (let missing = BlockSize - length src mod BlockSize;
          newSize = length src + BlockSize + missing;
          dest = copy_at BlockSize src (replicate newSize 0);
          padding = word_of_nat missing
      in fill_loop (newSize - missing) missing padding dest)"

definition unpadPKCS7 :: "bytes \<Rightarrow> bytes res" where
  "unpadPKCS7 src =
     (if src = [] then Panic ''index out of range''
      else let padLen = src ! (length src - 1) in
        if length src < unat padLen then Panic ''slice bounds out of range''
        else Ok (take (length src - unat padLen) src))"

section \<open>Modes of operation\<close>

text \<open>\<open>ecbEncrypter.CryptBlocks\<close> and \<open>ecbDecrypter.CryptBlocks\<close>, with \<open>dst\<close> as long as \<open>src\<close>.\<close>

function crypt_loop :: "(bytes \<Rightarrow> bytes) \<Rightarrow> bytes \<Rightarrow> bytes" where
  "crypt_loop f src = (if src = [] then [] else f (take BlockSize src) @ crypt_loop f (drop BlockSize src))"
  by pat_completeness auto
termination
  by (relation "measure (\<lambda>(f, src). length src)") (auto simp: BlockSize_def)

declare crypt_loop.simps [simp del]

definition ecb_encrypt :: "Block \<Rightarrow> bytes \<Rightarrow> bytes res" where
  "ecb_encrypt b src =
     (if length src mod BlockSize \<noteq> 0 then Panic ''cryptoutil/ecb: input not full blocks''
      else Ok (crypt_loop (Block_Encrypt b) src))"

definition ecb_decrypt :: "Block \<Rightarrow> bytes \<Rightarrow> bytes res" where
  "ecb_decrypt b src =
     (if length src mod BlockSize \<noteq> 0 then Panic ''cryptoutil/ecb: input not full blocks''
      else Ok (crypt_loop (Block_Decrypt b) src))"

text \<open>\<open>cipher.NewCBCEncrypter(b, iv).CryptBlocks\<close> and its inverse, of the standard library.\<close>

definition xor_block :: "bytes \<Rightarrow> bytes \<Rightarrow> bytes" where
  "xor_block a b = map2 (\<lambda>x y. x XOR y) a b"

fun cbc_enc_blocks :: "Block \<Rightarrow> bytes \<Rightarrow> bytes list \<Rightarrow> bytes list" where
  "cbc_enc_blocks b iv [] = []"
| "cbc_enc_blocks b iv (p # ps) =
     (let c = Block_Encrypt b (xor_block iv p) in c # cbc_enc_blocks b c ps)"

fun cbc_dec_blocks :: "Block \<Rightarrow> bytes \<Rightarrow> bytes list \<Rightarrow> bytes list" where
  "cbc_dec_blocks b iv [] = []"
| "cbc_dec_blocks b iv (c # cs) = xor_block iv (Block_Decrypt b c) # cbc_dec_blocks b c cs"

function blocks_of :: "bytes \<Rightarrow> bytes list" where
  "blocks_of src = (if src = [] then [] else take BlockSize src # blocks_of (drop BlockSize src))"
  by pat_completeness auto
termination
  by (relation "measure length") (auto simp: BlockSize_def)

declare blocks_of.simps [simp del]

definition cbc_encrypt :: "Block \<Rightarrow> bytes \<Rightarrow> bytes \<Rightarrow> bytes res" where
  "cbc_encrypt b iv src =
     (if length iv \<noteq> BlockSize then Panic ''cipher.NewCBCEncrypter: IV length must equal block size''
      else if length src mod BlockSize \<noteq> 0 then Panic ''crypto/cipher: input not full blocks''
      else Ok (concat (cbc_enc_blocks b iv (blocks_of src))))"

definition cbc_decrypt :: "Block \<Rightarrow> bytes \<Rightarrow> bytes \<Rightarrow> bytes res" where
  "cbc_decrypt b iv src =
     (if length iv \<noteq> BlockSize then Panic ''cipher.NewCBCDecrypter: IV length must equal block size''
      else if length src mod BlockSize \<noteq> 0 then Panic ''crypto/cipher: input not full blocks''
      else Ok (concat (cbc_dec_blocks b iv (blocks_of src))))"

section \<open>cryptoutil.go\<close>

definition SymmetricEncrypt :: "bytes \<Rightarrow> Block \<Rightarrow> bytes \<Rightarrow> bytes res" where
  "SymmetricEncrypt iv ciph src =
     bind_res (ecb_encrypt ciph iv) (\<lambda>encryptedIv.
     let encrypted = copy_at 0 encryptedIv (padPKCS7WithIV src) in
     bind_res (cbc_encrypt ciph iv (drop BlockSize encrypted)) (\<lambda>body.
     Ok (take BlockSize encrypted @ body)))"

definition SymmetricDecrypt :: "Block \<Rightarrow> bytes \<Rightarrow> bytes res" where
  "SymmetricDecrypt ciph src =
     (if length src < BlockSize then Panic ''slice bounds out of range''
      else bind_res (ecb_decrypt ciph (take BlockSize src)) (\<lambda>iv.
           bind_res (cbc_decrypt ciph iv (drop BlockSize src)) unpadPKCS7))"

section \<open>Padding\<close>

lemma fill_loop_eq:
  "i + k = length dest \<Longrightarrow> fill_loop i k p dest = take i dest @ replicate k p"
proof (induction k arbitrary: i dest)
  case (Suc k)
  then have "fill_loop i (Suc k) p dest = take (Suc i) (dest[i := p]) @ replicate k p"
    by simp
  also have "take (Suc i) (dest[i := p]) = take i dest @ [p]"
    using Suc.prems by (simp add: take_Suc_conv_app_nth)
  finally show ?case by (simp add: replicate_app_Cons_same)
qed simp

definition missing_of :: "nat \<Rightarrow> nat" where
  "missing_of n = BlockSize - n mod BlockSize"

lemma missing_bounds: "0 < missing_of n" "missing_of n \<le> 16" "(n + missing_of n) mod 16 = 0"
proof -
  have "n mod 16 < 16" by simp
  then show "0 < missing_of n" "missing_of n \<le> 16"
    by (simp_all add: missing_of_def BlockSize_def)
  have "n + (16 - n mod 16) = n div 16 * 16 + 16"
    using \<open>n mod 16 < 16\<close> div_mult_mod_eq [of n 16] by linarith
  then show "(n + missing_of n) mod 16 = 0"
    by (simp add: missing_of_def BlockSize_def)
qed

lemma padded_at_least: "16 \<le> n + missing_of n"
proof -
  have "n + missing_of n > 0" and "(n + missing_of n) mod 16 = 0"
    using missing_bounds [of n] by auto
  then show ?thesis by (metis mod_less not_less not_less_zero)
qed

lemma padPKCS7WithIV_eq:
  "padPKCS7WithIV src = replicate 16 0 @ src @ replicate (missing_of (length src)) (word_of_nat (missing_of (length src)))"
proof -
  let ?m = "missing_of (length src)"
  have d: "copy_at 16 src (replicate (length src + 16 + ?m) 0) = replicate 16 0 @ src @ replicate ?m 0"
    by (simp add: copy_at_def)
  have "fill_loop (length src + 16) ?m (word_of_nat ?m) (replicate 16 0 @ src @ replicate ?m 0) =
      take (length src + 16) (replicate 16 0 @ src @ replicate ?m 0) @ replicate ?m (word_of_nat ?m)"
    by (rule fill_loop_eq) simp
  then show ?thesis
    unfolding padPKCS7WithIV_def Let_def missing_of_def [symmetric]
    unfolding BlockSize_def using d by simp
qed

lemma unpad_padded:
  assumes "0 < k" and "k \<le> 16"
  shows "unpadPKCS7 (src @ replicate k (word_of_nat k)) = Ok src"
proof -
  have "unat (word_of_nat k :: byte) = k"
    using assms by (simp add: unat_of_nat take_bit_nat_eq_self)
  moreover have "(src @ replicate k p) ! (length src + k - 1) = p" for p :: byte
    using assms by (cases k) (simp_all add: nth_append del: replicate_Suc)
  ultimately show ?thesis using assms by (simp add: unpadPKCS7_def Let_def)
qed

section \<open>Blocks\<close>

lemma concat_blocks_of [simp]: "concat (blocks_of src) = src"
proof (induction src rule: blocks_of.induct)
  case (1 src)
  then show ?case by (subst blocks_of.simps) simp
qed

lemma blocks_of_full:
  "length src mod 16 = 0 \<Longrightarrow> \<forall>b \<in> set (blocks_of src). length b = 16"
proof (induction src rule: blocks_of.induct)
  case (1 src)
  show ?case
  proof (cases "src = []")
    case True
    then show ?thesis by (simp add: blocks_of.simps)
  next
    case False
    then have len: "16 \<le> length src" using "1.prems" by (metis length_0_conv mod_less not_less)
    then have m: "length (drop 16 src) mod 16 = 0"
      using "1.prems" by (simp add: le_mod_geq)
    have "\<forall>b \<in> set (blocks_of (drop 16 src)). length b = 16"
      using "1.IH" [OF False, unfolded BlockSize_def, OF m] .
    moreover have "length (take 16 src) = 16" using len by simp
    moreover have "blocks_of src = take 16 src # blocks_of (drop 16 src)"
      using False by (subst blocks_of.simps) (simp add: BlockSize_def)
    ultimately show ?thesis by (simp only: list.set(2) ball_simps(7) simp_thms)
  qed
qed

lemma blocks_of_concat:
  "\<forall>b \<in> set bs. length b = 16 \<Longrightarrow> blocks_of (concat bs) = bs"
proof (induction bs)
  case Nil
  then show ?case by (simp add: blocks_of.simps)
next
  case (Cons b bs)
  then have "b @ concat bs \<noteq> []" by auto
  then show ?case using Cons by (subst blocks_of.simps) (simp add: BlockSize_def)
qed

lemma length_concat_blocks: "\<forall>b \<in> set bs. length b = 16 \<Longrightarrow> length (concat bs) = 16 * length bs"
  by (induction bs) simp_all

lemma length_blocks_of: "length src mod 16 = 0 \<Longrightarrow> length (blocks_of src) = length src div 16"
  using length_concat_blocks [OF blocks_of_full, of src] by simp

lemma crypt_loop_one: "length b = 16 \<Longrightarrow> crypt_loop f b = f b"
  by (subst crypt_loop.simps, subst crypt_loop.simps) (auto simp: BlockSize_def)

lemma length_xor_block [simp]: "length (xor_block a b) = min (length a) (length b)"
  by (simp add: xor_block_def)

lemma xor_block_twice: "length a = length b \<Longrightarrow> xor_block a (xor_block a b) = b"
  unfolding xor_block_def
  by (induction a b rule: list_induct2) (simp_all add: xor.assoc [symmetric])

abbreviation good_cipher :: "Block \<Rightarrow> bool" where
  "good_cipher c \<equiv> block_cipher (Block_Encrypt c) (Block_Decrypt c)"

lemma cbc_enc_lengths:
  assumes "good_cipher c" and "length iv = 16" and "\<forall>b \<in> set ps. length b = 16"
  shows "(\<forall>b \<in> set (cbc_enc_blocks c iv ps). length b = 16) \<and> length (cbc_enc_blocks c iv ps) = length ps"
  using assms(2,3)
proof (induction ps arbitrary: iv)
  case (Cons p ps)
  then have "length (Block_Encrypt c (xor_block iv p)) = 16"
    using block_cipher.length_enc [OF assms(1)] by simp
  then show ?case using Cons.IH [of "Block_Encrypt c (xor_block iv p)"] Cons.prems(2) by (simp add: Let_def)
qed simp

lemma cbc_dec_lengths:
  assumes "good_cipher c" and "length iv = 16" and "\<forall>b \<in> set ps. length b = 16"
  shows "(\<forall>b \<in> set (cbc_dec_blocks c iv ps). length b = 16) \<and> length (cbc_dec_blocks c iv ps) = length ps"
  using assms(2,3)
proof (induction ps arbitrary: iv)
  case (Cons p ps)
  have "length p = 16" using Cons.prems by simp
  then have "length (Block_Decrypt c p) = 16"
    by (rule block_cipher.length_dec [OF assms(1)])
  then have x: "length (xor_block iv (Block_Decrypt c p)) = 16"
    using Cons.prems(1) by simp
  have "\<forall>b \<in> set ps. length b = 16" using Cons.prems(2) by simp
  note ih = Cons.IH [OF \<open>length p = 16\<close> this]
  show ?case
    using x ih unfolding cbc_dec_blocks.simps list.set(2) ball_simps(7) list.size(4) by metis
qed simp

lemma cbc_dec_enc:
  assumes "good_cipher c" and "length iv = 16" and "\<forall>b \<in> set ps. length b = 16"
  shows "cbc_dec_blocks c iv (cbc_enc_blocks c iv ps) = ps"
  using assms(2,3)
proof (induction ps arbitrary: iv)
  case (Cons p ps)
  then have "length (xor_block iv p) = 16" by simp
  then have "length (Block_Encrypt c (xor_block iv p)) = 16"
    and "Block_Decrypt c (Block_Encrypt c (xor_block iv p)) = xor_block iv p"
    using block_cipher.length_enc [OF assms(1)] block_cipher.dec_enc [OF assms(1)] by simp_all
  then show ?case using Cons by (simp add: Let_def xor_block_twice)
qed simp

section \<open>The symmetric encryption\<close>

lemma SymmetricEncrypt_eq:
  fixes c :: Block and iv src :: bytes
  assumes "good_cipher c" and "length iv = 16"
  defines "padded \<equiv> drop 16 (padPKCS7WithIV src)"
  shows "SymmetricEncrypt iv c src =
      Ok (Block_Encrypt c iv @ concat (cbc_enc_blocks c iv (blocks_of padded)))"
    and "length padded mod 16 = 0"
    and "length padded = length src + missing_of (length src)"
proof -
  have p: "padPKCS7WithIV src = replicate 16 0 @ padded" and l: "length padded = length src + missing_of (length src)"
    by (simp_all add: padded_def padPKCS7WithIV_eq)
  show "length padded = length src + missing_of (length src)" by (rule l)
  show m: "length padded mod 16 = 0" using l missing_bounds(3) by simp
  have e: "length (Block_Encrypt c iv) = 16" using assms(1,2) by (rule block_cipher.length_enc)
  then have "copy_at 0 (Block_Encrypt c iv) (padPKCS7WithIV src) = Block_Encrypt c iv @ padded"
    by (simp add: copy_at_def p)
  then show "SymmetricEncrypt iv c src =
      Ok (Block_Encrypt c iv @ concat (cbc_enc_blocks c iv (blocks_of padded)))"
    using assms(2) e m
    by (simp add: SymmetricEncrypt_def ecb_encrypt_def cbc_encrypt_def crypt_loop_one BlockSize_def)
qed

lemma SymmetricDecrypt_eq:
  assumes "16 \<le> length src" and "length src mod 16 = 0" and "good_cipher c"
  shows "SymmetricDecrypt c src =
    unpadPKCS7 (concat (cbc_dec_blocks c (Block_Decrypt c (take 16 src)) (blocks_of (drop 16 src))))"
proof -
  have "length (Block_Decrypt c (take 16 src)) = 16"
    using block_cipher.length_dec [OF assms(3)] assms(1) by simp
  moreover have "length (drop 16 src) mod 16 = 0"
    using assms by (simp add: le_mod_geq)
  ultimately show ?thesis
    using assms by (simp add: SymmetricDecrypt_def ecb_decrypt_def cbc_decrypt_def crypt_loop_one BlockSize_def)
qed

lemma unpadPKCS7_panics_iff:
  "panics (unpadPKCS7 src) \<longleftrightarrow> src = [] \<or> length src < unat (last src)"
  by (simp add: unpadPKCS7_def Let_def last_conv_nth)

lemma decrypted_length:
  assumes "16 \<le> length src" and "length src mod 16 = 0" and "good_cipher c"
  shows "length (concat (cbc_dec_blocks c (Block_Decrypt c (take 16 src)) (blocks_of (drop 16 src)))) = length src - 16"
proof -
  define iv where "iv = Block_Decrypt c (take 16 src)"
  have iv: "length iv = 16"
    using block_cipher.length_dec [OF assms(3)] assms(1) by (simp add: iv_def)
  have m: "length (drop 16 src) mod 16 = 0"
    using assms by (simp add: le_mod_geq)
  note full = blocks_of_full [OF m]
  note d = cbc_dec_lengths [OF assms(3) iv full]
  show ?thesis
    using length_concat_blocks [OF conjunct1 [OF d]] conjunct2 [OF d] length_concat_blocks [OF full]
    unfolding iv_def [symmetric] by (simp del: length_concat)
qed

lemma decrypt_encrypt:
  assumes "good_cipher c" and "length iv = 16"
  shows "\<exists>e. SymmetricEncrypt iv c src = Ok e \<and> SymmetricDecrypt c e = Ok src \<and> length e mod 16 = 0
    \<and> length e = 16 + length src + missing_of (length src) \<and> 32 \<le> length e \<and> length e \<le> length src + 32"
proof -
  note g = assms(1)
  note enc = SymmetricEncrypt_eq [OF g assms(2), of src]
  define padded where "padded = drop 16 (padPKCS7WithIV src)"
  define bs where "bs = cbc_enc_blocks c iv (blocks_of padded)"
  define e where "e = Block_Encrypt c iv @ concat bs"
  note enc = enc [folded padded_def, folded bs_def, folded e_def]
  have iv: "length (Block_Encrypt c iv) = 16" "Block_Decrypt c (Block_Encrypt c iv) = iv"
    using block_cipher.length_enc [OF g assms(2)] block_cipher.dec_enc [OF g assms(2)] .
  note full = blocks_of_full [OF enc(2)]
  have bs: "\<forall>b \<in> set bs. length b = 16" "length bs = length (blocks_of padded)"
    using cbc_enc_lengths [OF g assms(2) full] by (simp_all add: bs_def)
  have len: "length e = 16 + length padded"
    using iv(1) length_concat_blocks [OF bs(1)] bs(2) length_concat_blocks [OF full] by (simp add: e_def)
  have "SymmetricDecrypt c e = unpadPKCS7 padded"
    using SymmetricDecrypt_eq [of e c] g len enc(2) iv cbc_dec_enc [OF g assms(2) full]
    by (simp add: e_def blocks_of_concat [OF bs(1)]) (simp add: bs_def)
  also have "\<dots> = Ok src"
    using unpad_padded [OF missing_bounds(1,2), of src "length src"] by (simp add: padded_def padPKCS7WithIV_eq)
  finally show ?thesis
    using enc len missing_bounds [of "length src"] padded_at_least [of "length src"] by simp
qed

text \<open>
  C6: with any key that \<open>aes.NewCipher\<close> accepts and any initialisation vector of 16 bytes, decrypting an
  encrypted message gives the message back; the encrypted form is a whole number of blocks, at least
  two, and between 17 and 32 bytes longer than the message.\<close>

theorem symmetric_roundtrip:
  assumes "aes_NewCipher key = Ok c" and "length iv = 16"
  shows "\<exists>e. SymmetricEncrypt iv c src = Ok e \<and> SymmetricDecrypt c e = Ok src \<and> length e mod 16 = 0
    \<and> length e = 16 + length src + missing_of (length src) \<and> 32 \<le> length e \<and> length e \<le> length src + 32"
  by (rule decrypt_encrypt [OF aes_NewCipher_block_cipher [OF assms(1)] assms(2)])

theorem symmetric_roundtrip_witness:
  "\<exists>e. SymmetricEncrypt (replicate 16 7) \<lparr>Block_Encrypt = aes_encrypt (replicate 32 1),
        Block_Decrypt = aes_decrypt (replicate 32 1)\<rparr> [72, 105] = Ok e \<and>
     SymmetricDecrypt \<lparr>Block_Encrypt = aes_encrypt (replicate 32 1),
        Block_Decrypt = aes_decrypt (replicate 32 1)\<rparr> e = Ok [72, 105] \<and> length e mod 16 = 0
    \<and> length e = 16 + length [72 :: byte, 105] + missing_of (length [72 :: byte, 105])
    \<and> 32 \<le> length e \<and> length e \<le> length [72 :: byte, 105] + 32"
  by (rule symmetric_roundtrip [where key = "replicate 32 1"]) (simp_all add: aes_NewCipher_def)

text \<open>
  decryption has no error value: it panics exactly on an input shorter than two blocks, on one that is
  not a whole number of blocks, and on one whose last decrypted byte exceeds the decrypted length.\<close>

theorem SymmetricDecrypt_panics_iff:
  assumes "aes_NewCipher key = Ok c"
  shows "panics (SymmetricDecrypt c src) \<longleftrightarrow> length src < 32 \<or> length src mod 16 \<noteq> 0 \<or>
    length src - 16 < unat (last (concat (cbc_dec_blocks c (Block_Decrypt c (take 16 src)) (blocks_of (drop 16 src)))))"
proof -
  note g = aes_NewCipher_block_cipher [OF assms]
  consider (short) "length src < 16" | (ragged) "16 \<le> length src" "length src mod 16 \<noteq> 0"
    | (full) "16 \<le> length src" "length src mod 16 = 0" by linarith
  then show ?thesis
  proof cases
    case short
    then show ?thesis by (simp add: SymmetricDecrypt_def BlockSize_def)
  next
    case ragged
    then have "length (Block_Decrypt c (take 16 src)) = 16" "length (drop 16 src) mod 16 \<noteq> 0"
      using block_cipher.length_dec [OF g] by (simp_all add: le_mod_geq)
    then show ?thesis
      using ragged by (simp add: SymmetricDecrypt_def ecb_decrypt_def cbc_decrypt_def crypt_loop_one BlockSize_def)
  next
    case full
    note len = decrypted_length [OF full g]
    have "length src < 32 \<longleftrightarrow> length src = 16" using full by presburger
    then show ?thesis
      using full len unfolding SymmetricDecrypt_eq [OF full g] unpadPKCS7_panics_iff
      by (simp add: length_0_conv [symmetric] del: length_0_conv length_concat)
  qed
qed

theorem SymmetricDecrypt_panics_iff_witness:
  "panics (SymmetricDecrypt \<lparr>Block_Encrypt = aes_encrypt (replicate 32 1),
      Block_Decrypt = aes_decrypt (replicate 32 1)\<rparr> (replicate 16 0))"
  by (subst SymmetricDecrypt_panics_iff [where key = "replicate 32 1"]) (simp_all add: aes_NewCipher_def)

end
