(* ===== verification/Client_Core.thy ===== *)
theory Client_Core
  imports Protocol Socialcache Events Cryptoutil
begin

text \<open>
  The state of a client (\<open>client.go\<close>: \<open>Client\<close>, with the state of the components it owns) and the operations
  that every handler uses: \<open>Emit\<close>, \<open>Errorf\<close>, \<open>Fatalf\<close>, \<open>Write\<close>, \<open>Disconnect\<close>, \<open>GetNextJobId\<close>.

  A handler is a function on this state that may panic. The channel of events and the send queue are
  the lists of what has been sent to them; that their readers keep up is assumed here, the blocking
  and the closing of the channels being the subject of theory Client_Concurrency.
  A goroutine that a handler starts is recorded in \<open>c_spawned\<close> and run as an operation of its own.
\<close>

section \<open>Messages the client sends\<close>

datatype ProtoBody =
    PB_ClientHeartBeat CMsgClientHeartBeat
  | PB_ClientLogon CMsgClientLogon
  | PB_ClientHello CMsgClientHello
  | PB_ClientNewLoginKeyAccepted CMsgClientNewLoginKeyAccepted
  | PB_ClientUpdateMachineAuthResponse CMsgClientUpdateMachineAuthResponse
  | PB_ClientRequestWebAPIAuthenticateUserNonce CMsgClientRequestWebAPIAuthenticateUserNonce
  | PB_GCClient CMsgGCClient
  | PB_ClientGamesPlayed CMsgClientGamesPlayed
  | PB_ClientChangeStatus CMsgClientChangeStatus
  | PB_ClientFriendMsg CMsgClientFriendMsg
  | PB_ClientAddFriend CMsgClientAddFriend
  | PB_ClientRemoveFriend CMsgClientRemoveFriend
  | PB_ClientRequestFriendData CMsgClientRequestFriendData
  | PB_ClientFriendProfileInfo CMsgClientFriendProfileInfo
  | PB_ClientChatGetFriendMessageHistoryForOfflineMessages CMsgClientChatGetFriendMessageHistoryForOfflineMessages
  | PB_Trading_InitiateTradeRequest CMsgTrading_InitiateTradeRequest
  | PB_Trading_InitiateTradeResponse CMsgTrading_InitiateTradeResponse
  | PB_Trading_CancelTradeRequest CMsgTrading_CancelTradeRequest
  | PB_GetPasswordRSAPublicKey_Request CAuthentication_GetPasswordRSAPublicKey_Request
  | PB_BeginAuthSessionViaCredentials_Request CAuthentication_BeginAuthSessionViaCredentials_Request
  | PB_PollAuthSessionStatus_Request CAuthentication_PollAuthSessionStatus_Request

datatype MessageBody =
    MB_ChannelEncryptResponse MsgChannelEncryptResponse
  | MB_ClientChatMsg MsgClientChatMsg
  | MB_ClientSetIgnoreFriend MsgClientSetIgnoreFriend
  | MB_ClientJoinChat MsgClientJoinChat
  | MB_ClientChatMemberInfo MsgClientChatMemberInfo
  | MB_ClientChatAction MsgClientChatAction

fun MB_Serialize :: "MessageBody \<Rightarrow> bytes" where
  "MB_Serialize (MB_ChannelEncryptResponse d) = MsgChannelEncryptResponse_Serialize d"
| "MB_Serialize (MB_ClientChatMsg d) = MsgClientChatMsg_Serialize d"
| "MB_Serialize (MB_ClientSetIgnoreFriend d) = MsgClientSetIgnoreFriend_Serialize d"
| "MB_Serialize (MB_ClientJoinChat d) = MsgClientJoinChat_Serialize d"
| "MB_Serialize (MB_ClientChatMemberInfo d) = MsgClientChatMemberInfo_Serialize d"
| "MB_Serialize (MB_ClientChatAction d) = MsgClientChatAction_Serialize d"

fun MB_GetEMsg :: "MessageBody \<Rightarrow> EMsg" where
  "MB_GetEMsg (MB_ChannelEncryptResponse d) = MsgChannelEncryptResponse_GetEMsg d"
| "MB_GetEMsg (MB_ClientChatMsg d) = MsgClientChatMsg_GetEMsg d"
| "MB_GetEMsg (MB_ClientSetIgnoreFriend d) = MsgClientSetIgnoreFriend_GetEMsg d"
| "MB_GetEMsg (MB_ClientJoinChat d) = MsgClientJoinChat_GetEMsg d"
| "MB_GetEMsg (MB_ClientChatMemberInfo d) = MsgClientChatMemberInfo_GetEMsg d"
| "MB_GetEMsg (MB_ClientChatAction d) = MsgClientChatAction_GetEMsg d"

datatype IMsg =
    IM_Proto "ProtoBody ClientMsgProtobuf"
  | IM_Client "MessageBody ClientMsg"
  | IM_Plain "MessageBody Msg"

fun IMsg_GetMsgType :: "IMsg \<Rightarrow> EMsg" where
  "IMsg_GetMsgType (IM_Proto m) = CMP_GetMsgType m"
| "IMsg_GetMsgType (IM_Client m) = CM_GetMsgType m"
| "IMsg_GetMsgType (IM_Plain m) = M_GetMsgType m"

fun IMsg_Serialize :: "hdr_codec \<Rightarrow> (ProtoBody \<Rightarrow> bytes res) \<Rightarrow> IMsg \<Rightarrow> bytes res" where
  "IMsg_Serialize c marshal (IM_Proto m) = map_res snd (CMP_Serialize c marshal m)"
| "IMsg_Serialize c marshal (IM_Client m) = Ok (CM_Serialize MB_Serialize m)"
| "IMsg_Serialize c marshal (IM_Plain m) = Ok (M_Serialize MB_Serialize m)"

section \<open>The state\<close>

text \<open>The connection as the client sees it: a TCP connection with its cipher, or a WebSocket.\<close>

datatype connection =
    Conn_tcp "Block option"
  | Conn_ws

record Web =
  Web_SessionId :: string
  Web_SteamLogin :: string
  Web_SteamLoginSecure :: string
  Web_webLoginKey :: string
  Web_relogOnNonce :: u32

record Social =
  Social_name :: string
  Social_avatar :: bytes
  Social_personaState :: EPersonaState
  Social_Friends :: FriendsList
  Social_Groups :: GroupsList
  Social_Chats :: ChatsList

type_synonym NotificationType = u64

text \<open>\<open>Authentication.pending\<close>: the channel of capacity one of each waiting call, with what is in it.\<close>

type_synonym pending_calls = "(JobId, Packet option) mapping"

datatype goroutine =
    G_readLoop
  | G_writeLoop
  | G_heartbeatLoop i32
  | G_webLogOn

record Client =
  c_sessionId :: i32
  c_steamId :: u64
  c_currentJobId :: u64
  c_pending :: pending_calls
  c_Social :: Social
  c_Web :: Web
  c_notifications :: "(NotificationType, u64) mapping"
  c_events :: "Event list"
  c_tempSessionKey :: "bytes option"
  c_conn :: "connection option"
  c_writeChan :: "IMsg list"
  c_heartbeat :: bool
  c_spawned :: "goroutine list"

definition newSocial :: Social where
  "newSocial = \<lparr>Social_name = [], Social_avatar = [], Social_personaState = 0,
     Social_Friends = NewFriendsList, Social_Groups = NewGroupsList, Social_Chats = NewChatsList\<rparr>"

definition newWeb :: Web where
  "newWeb = \<lparr>Web_SessionId = [], Web_SteamLogin = [], Web_SteamLoginSecure = [],
     Web_webLoginKey = [], Web_relogOnNonce = 0\<rparr>"

definition NewClient :: Client where
  "NewClient = \<lparr>c_sessionId = 0, c_steamId = 0, c_currentJobId = 0, c_pending = Mapping.empty,
     c_Social = newSocial, c_Web = newWeb, c_notifications = Mapping.empty, c_events = [],
     c_tempSessionKey = None, c_conn = None, c_writeChan = [], c_heartbeat = False, c_spawned = []\<rparr>"

section \<open>Operations every handler uses\<close>

definition Emit :: "Event \<Rightarrow> Client \<Rightarrow> Client" where
  "Emit event c = c\<lparr>c_events := c_events c @ [event]\<rparr>"

definition Errorf :: "go_err \<Rightarrow> Client \<Rightarrow> Client" where
  "Errorf e c = Emit (Ev_Error e) c"

text \<open>The heartbeat ticker is stopped but stays set.\<close>

definition Disconnect :: "Client \<Rightarrow> Client" where
  "Disconnect c = (case c_conn c of
       None \<Rightarrow> c
     | Some _ \<Rightarrow> Emit Ev_Disconnected (c\<lparr>c_conn := None\<rparr>))"

definition Fatalf :: "go_err \<Rightarrow> Client \<Rightarrow> Client" where
  "Fatalf e c = Disconnect (Emit (Ev_FatalError e) c)"

definition GetNextJobId :: "Client \<Rightarrow> JobId \<times> Client" where
  "GetNextJobId c = (c_currentJobId c + 1, c\<lparr>c_currentJobId := c_currentJobId c + 1\<rparr>)"

definition SteamId :: "Client \<Rightarrow> steamid" where "SteamId c = c_steamId c"
definition SessionId :: "Client \<Rightarrow> i32" where "SessionId c = c_sessionId c"
definition Connected :: "Client \<Rightarrow> bool" where "Connected c \<longleftrightarrow> c_conn c \<noteq> None"

text \<open>Only client messages carry the session: \<^verbatim>\<open>if cm, ok := msg.(protocol.IClientMsg); ok\<close>.\<close>

fun stamp :: "Client \<Rightarrow> IMsg \<Rightarrow> IMsg" where
  "stamp c (IM_Proto m) = IM_Proto (CMP_SetSteamId (SteamId c) (CMP_SetSessionId (SessionId c) m))"
| "stamp c (IM_Client m) = IM_Client (CM_SetSteamId (SteamId c) (CM_SetSessionId (SessionId c) m))"
| "stamp c (IM_Plain m) = IM_Plain m"

definition send :: "IMsg \<Rightarrow> Client \<Rightarrow> Client" where
  "send msg c = (case c_conn c of
       None \<Rightarrow> c
     | Some _ \<Rightarrow> c\<lparr>c_writeChan := c_writeChan c @ [msg]\<rparr>)"

definition Write :: "IMsg \<Rightarrow> Client \<Rightarrow> Client" where
  "Write msg c = send (stamp c msg) c"

definition WriteProto :: "EMsg \<Rightarrow> ProtoBody \<Rightarrow> Client \<Rightarrow> Client" where
  "WriteProto eMsg body = Write (IM_Proto (NewClientMsgProtobuf eMsg body))"

definition WriteStruct :: "MessageBody \<Rightarrow> bytes \<Rightarrow> Client \<Rightarrow> Client" where
  "WriteStruct body payload = Write (IM_Client (NewClientMsg MB_GetEMsg body payload))"

definition spawn :: "goroutine \<Rightarrow> Client \<Rightarrow> Client" where
  "spawn g c = c\<lparr>c_spawned := c_spawned c @ [g]\<rparr>"

definition upd_Social :: "(Social \<Rightarrow> Social) \<Rightarrow> Client \<Rightarrow> Client" where
  "upd_Social f c = c\<lparr>c_Social := f (c_Social c)\<rparr>"

definition upd_Web :: "(Web \<Rightarrow> Web) \<Rightarrow> Client \<Rightarrow> Client" where
  "upd_Web f c = c\<lparr>c_Web := f (c_Web c)\<rparr>"

section \<open>What no handler may undo\<close>

text \<open>
  Events and messages are only ever appended, nothing is queued without a connection, and a closed
  connection stays closed: only \<open>ConnectTo\<close> and \<open>ConnectToWebSocket\<close> open one.
\<close>

definition extends :: "Client \<Rightarrow> Client \<Rightarrow> bool" where
  "extends c c' \<longleftrightarrow> (\<exists>es. c_events c' = c_events c @ es) \<and> (\<exists>ms. c_writeChan c' = c_writeChan c @ ms)
     \<and> (c_conn c = None \<longrightarrow> c_conn c' = None \<and> c_writeChan c' = c_writeChan c)"

named_theorems extends_intros \<open>operations that only extend the client\<close>

lemma extends_refl [simp, extends_intros]: "extends c c"
  by (simp add: extends_def)

lemma extends_trans: "extends a b \<Longrightarrow> extends b c \<Longrightarrow> extends a c"
  unfolding extends_def by (metis append.assoc)

lemma extends_Emit [simp]: "extends c (Emit e c)"
  by (simp add: extends_def Emit_def)

lemma extends_send [simp]: "extends c (send m c)"
  by (simp add: extends_def send_def split: option.split)

lemma extends_Write [simp]: "extends c (Write m c)"
  by (simp add: Write_def)

lemma extends_Disconnect [simp]: "extends c (Disconnect c)"
  by (simp add: extends_def Disconnect_def Emit_def split: option.split)

lemma extends_same:
  "c_events c' = c_events c \<Longrightarrow> c_writeChan c' = c_writeChan c \<Longrightarrow> c_conn c' = c_conn c \<Longrightarrow> extends c c'"
  by (simp add: extends_def)

lemma extends_EmitI [extends_intros]: "extends c c' \<Longrightarrow> extends c (Emit e c')"
  by (erule extends_trans) simp

lemma extends_ErrorfI [extends_intros]: "extends c c' \<Longrightarrow> extends c (Errorf e c')"
  by (simp add: Errorf_def extends_EmitI)

lemma extends_WriteI [extends_intros]: "extends c c' \<Longrightarrow> extends c (Write m c')"
  by (erule extends_trans) simp

lemma extends_WriteProtoI [extends_intros]: "extends c c' \<Longrightarrow> extends c (WriteProto e b c')"
  by (simp add: WriteProto_def extends_WriteI)

lemma extends_WriteStructI [extends_intros]: "extends c c' \<Longrightarrow> extends c (WriteStruct b p c')"
  by (simp add: WriteStruct_def extends_WriteI)

lemma extends_sendI [extends_intros]: "extends c c' \<Longrightarrow> extends c (send m c')"
  by (erule extends_trans) simp

lemma extends_DisconnectI [extends_intros]: "extends c c' \<Longrightarrow> extends c (Disconnect c')"
  by (erule extends_trans) simp

lemma extends_FatalfI [extends_intros]: "extends c c' \<Longrightarrow> extends c (Fatalf e c')"
  by (simp add: Fatalf_def extends_DisconnectI extends_EmitI)

lemma extends_spawnI [extends_intros]: "extends c c' \<Longrightarrow> extends c (spawn g c')"
  by (erule extends_trans) (simp add: extends_same spawn_def)

lemma extends_upd_SocialI [extends_intros]: "extends c c' \<Longrightarrow> extends c (upd_Social f c')"
  by (erule extends_trans) (simp add: extends_same upd_Social_def)

lemma extends_upd_WebI [extends_intros]: "extends c c' \<Longrightarrow> extends c (upd_Web f c')"
  by (erule extends_trans) (simp add: extends_same upd_Web_def)

section \<open>Packet handlers\<close>

type_synonym handler = "Packet \<Rightarrow> Client \<Rightarrow> Client res"

locale packet_handler =
  fixes handle :: "Packet \<Rightarrow> Client \<Rightarrow> Client res"
  assumes handle_extends: "handle p c = Ok c' \<Longrightarrow> extends c c'"
begin

lemma closed_stays_closed: "handle p c = Ok c' \<Longrightarrow> c_conn c = None \<Longrightarrow> c_conn c' = None \<and> c_writeChan c' = c_writeChan c"
  using handle_extends unfolding extends_def by blast

lemma events_kept: "handle p c = Ok c' \<Longrightarrow> set (c_events c) \<subseteq> set (c_events c')"
  using handle_extends unfolding extends_def by fastforce

end

fun run_handlers :: "handler list \<Rightarrow> handler" where
  "run_handlers [] p c = Ok c"
| "run_handlers (h # hs) p c = bind_res (h p c) (run_handlers hs p)"

lemma run_handlers_packet_handler:
  "list_all packet_handler hs \<Longrightarrow> packet_handler (run_handlers hs)"
proof (induction hs)
  case Nil
  show ?case by unfold_locales simp
next
  case (Cons h hs)
  then have "packet_handler h" and "packet_handler (run_handlers hs)" by simp_all
  then show ?case
    by unfold_locales (auto simp: bind_res_Ok_iff dest: packet_handler.handle_extends intro: extends_trans)
qed

section \<open>The stamp\<close>

lemma stamp_keeps_type [simp]: "IMsg_GetMsgType (stamp c m) = IMsg_GetMsgType m"
  by (cases m) (simp_all add: CMP_msg.stamps_type CM_msg.stamps_type)

end
