(* ===== verification/Connection.thy ===== *)
theory Connection
  imports Client_Core
begin

text \<open>
  \<open>connection.go\<close> and \<open>websocket_connection.go\<close>: the two transports. A TCP connection frames messages with their
  length and a magic number and encrypts them once a key is set; a WebSocket sends each as a binary
  message. The network is what arrives at one end and what was written at the other: a list of bytes
  for TCP (the stream ends where the peer closed it), a list of messages for a WebSocket; that a
  write succeeds is assumed here (theory Connection_Net lets writes fail), and what dialling ends in is an argument of \<open>ConnectTo\<close>.

  What both promise is the locale \<open>transport\<close>.
\<close>

section \<open>What a transport promises\<close>

fun get_all :: "('n list \<Rightarrow> 'm \<times> 'n list) \<Rightarrow> nat \<Rightarrow> 'n list \<Rightarrow> 'm list \<times> 'n list" where
  "get_all get 0 s = ([], s)"
| "get_all get (Suc n) s = (case get s of (m, s) \<Rightarrow> case get_all get n s of (ms, s) \<Rightarrow> (m # ms, s))"

text \<open>A message is put on the network with what its sender draws at random for it.\<close>

locale transport =
  fixes put :: "'r \<Rightarrow> bytes \<Rightarrow> 'n list" and get :: "'n list \<Rightarrow> bytes res \<times> 'n list" and fits :: "'r \<Rightarrow> bytes \<Rightarrow> bool"
  assumes get_put: "fits r m \<Longrightarrow> get (put r m @ rest) = (Ok m, rest)"
begin

lemma in_order:
  "\<forall>(r, m) \<in> set ms. fits r m \<Longrightarrow>
     get_all get (length ms) (concat (map (\<lambda>(r, m). put r m) ms) @ rest) = (map (\<lambda>(r, m). Ok m) ms, rest)"
  by (induction ms) (auto simp: get_put)

end

section \<open>TCP\<close>

definition tcpConnectionMagic :: u32 where "tcpConnectionMagic = 0x31305456"

text \<open>\<open>Read\<close> up to the decrypted bytes: their length, the magic number, the bytes.\<close>

definition tcp_receive :: "Block option \<Rightarrow> bytes \<Rightarrow> bytes res \<times> bytes" where
  "tcp_receive ciph conn =
     (case ReadUint32 conn of
        (_, Some err, conn) \<Rightarrow> (Err err, conn)
      | (packetLen, None, conn) \<Rightarrow>
     (case ReadUint32 conn of
        (_, Some err, conn) \<Rightarrow> (Err err, conn)
      | (packetMagic, None, conn) \<Rightarrow>
     if packetMagic \<noteq> tcpConnectionMagic then (Err (GoErr ''Invalid connection magic!''), conn)
     else (case ReadFull (unat packetLen) conn of
        (_, Some err, conn) \<Rightarrow> (Err (if err = UnexpectedEOF then EOF else err), conn)
      | (buf, None, conn) \<Rightarrow>
        (case ciph of Some ciph \<Rightarrow> SymmetricDecrypt ciph buf | None \<Rightarrow> Ok buf, conn))))"

definition tcp_Read :: "hdr_codec \<Rightarrow> Block option \<Rightarrow> bytes \<Rightarrow> Packet res \<times> bytes" where
  "tcp_Read c ciph conn = (case tcp_receive ciph conn of (m, conn) \<Rightarrow> (bind_res m (NewPacket c), conn))"

text \<open>\<open>Write\<close>: what is appended to the stream. \<open>iv\<close> is the random initialisation vector of the encryption.\<close>

definition tcp_Write :: "Block option \<Rightarrow> bytes \<Rightarrow> bytes \<Rightarrow> bytes res" where
  "tcp_Write ciph iv message =
     bind_res (case ciph of Some ciph \<Rightarrow> SymmetricEncrypt iv ciph message | None \<Rightarrow> Ok message) (\<lambda>message.
     Ok (le_bytes 4 (word_of_nat (length message) :: u32) @ le_bytes 4 tcpConnectionMagic @ message))"

definition tcp_SetEncryptionKey :: "bytes option \<Rightarrow> Block option res" where
  "tcp_SetEncryptionKey key = (case key of
     None \<Rightarrow> Ok None
   | Some key \<Rightarrow>
       if length key \<noteq> 32 then Panic ''Connection AES key is not 32 bytes long!''
       else (case aes_NewCipher key of Ok ciph \<Rightarrow> Ok (Some ciph) | Err err \<Rightarrow> Panic ''aes'' | Panic p \<Rightarrow> Panic p))"

definition tcp_IsEncrypted :: "Block option \<Rightarrow> bool" where
  "tcp_IsEncrypted ciph \<longleftrightarrow> ciph \<noteq> None"

section \<open>WebSocket\<close>

datatype ws_message =
    WS_Binary bytes
  | WS_Other nat bytes

text \<open>Messages that are not binary are skipped; after the last message \<open>ReadMessage\<close> fails.\<close>

fun ws_receive :: "ws_message list \<Rightarrow> bytes res \<times> ws_message list" where
  "ws_receive [] = (Err EOF, [])"
| "ws_receive (WS_Binary data # ws) = (Ok data, ws)"
| "ws_receive (WS_Other msgType data # ws) = ws_receive ws"

definition ws_Read :: "hdr_codec \<Rightarrow> ws_message list \<Rightarrow> Packet res \<times> ws_message list" where
  "ws_Read c ws = (case ws_receive ws of (m, ws) \<Rightarrow> (bind_res m (NewPacket c), ws))"

definition ws_Write :: "unit \<Rightarrow> bytes \<Rightarrow> ws_message list" where
  "ws_Write _ message = [WS_Binary message]"

section \<open>Either\<close>

definition conn_SetEncryptionKey :: "bytes option \<Rightarrow> connection \<Rightarrow> connection res" where
  "conn_SetEncryptionKey key conn = (case conn of
     Conn_tcp _ \<Rightarrow> map_res Conn_tcp (tcp_SetEncryptionKey key) | Conn_ws \<Rightarrow> Ok Conn_ws)"

definition conn_IsEncrypted :: "connection \<Rightarrow> bool" where
  "conn_IsEncrypted conn = (case conn of Conn_tcp ciph \<Rightarrow> tcp_IsEncrypted ciph | Conn_ws \<Rightarrow> True)"

section \<open>Both keep the promise\<close>

text \<open>Sender and receiver have the same cipher, and the frame's length fits its field.\<close>

definition cipher_ok :: "Block option \<Rightarrow> bool" where
  "cipher_ok ciph = (case ciph of None \<Rightarrow> True | Some b \<Rightarrow> good_cipher b)"

lemma tcp_Write_receive:
  assumes "cipher_ok ciph" and "length iv = 16" and "length m < 2 ^ 32 - 32"
  shows "\<exists>f. tcp_Write ciph iv m = Ok f \<and> (\<forall>rest. tcp_receive ciph (f @ rest) = (Ok m, rest))"
proof -
  obtain e where e: "(case ciph of Some ciph \<Rightarrow> SymmetricEncrypt iv ciph m | None \<Rightarrow> Ok m) = Ok e"
    "(case ciph of Some ciph \<Rightarrow> SymmetricDecrypt ciph e | None \<Rightarrow> Ok e) = Ok m" "length e \<le> length m + 32"
  proof (cases ciph)
    case None
    with that [of m] show ?thesis by simp
  next
    case (Some b)
    then have "good_cipher b" using assms(1) by (simp add: cipher_ok_def)
    from decrypt_encrypt [OF this assms(2), of m] that Some show ?thesis by auto
  qed
  have "unat (word_of_nat (length e) :: u32) = length e"
    using e(3) assms(3) by (simp add: unat_of_nat take_bit_nat_eq_self)
  then show ?thesis
    using e(1,2) by (simp add: tcp_Write_def tcp_receive_def)
qed

text \<open>The TCP transport with one cipher, where a message comes with the vector its sender draws.\<close>

definition tcp_put :: "Block option \<Rightarrow> bytes \<Rightarrow> bytes \<Rightarrow> bytes" where
  "tcp_put ciph iv m = (case tcp_Write ciph iv m of Ok f \<Rightarrow> f | _ \<Rightarrow> [])"

definition tcp_fits :: "Block option \<Rightarrow> bytes \<Rightarrow> bytes \<Rightarrow> bool" where
  "tcp_fits ciph iv m \<longleftrightarrow> cipher_ok ciph \<and> length iv = 16 \<and> length m < 2 ^ 32 - 32"

interpretation tcp: transport "tcp_put ciph" "tcp_receive ciph" "tcp_fits ciph" for ciph
proof
  fix iv m rest
  assume "tcp_fits ciph iv m"
  then obtain f where "tcp_Write ciph iv m = Ok f" "tcp_receive ciph (f @ rest) = (Ok m, rest)"
    using tcp_Write_receive unfolding tcp_fits_def by blast
  then show "tcp_receive ciph (tcp_put ciph iv m @ rest) = (Ok m, rest)"
    by (simp add: tcp_put_def)
qed

interpretation ws: transport ws_Write ws_receive "\<lambda>_ _. True"
  by unfold_locales (simp add: ws_Write_def)

fun tcp_write_all :: "Block option \<Rightarrow> (bytes \<times> bytes) list \<Rightarrow> bytes res" where
  "tcp_write_all ciph [] = Ok []"
| "tcp_write_all ciph ((iv, m) # ms) =
     bind_res (tcp_Write ciph iv m) (\<lambda>f. bind_res (tcp_write_all ciph ms) (\<lambda>fs. Ok (f @ fs)))"

lemma tcp_write_all_ok:
  "\<forall>(iv, m) \<in> set ms. tcp_fits ciph iv m \<Longrightarrow>
     tcp_write_all ciph ms = Ok (concat (map (\<lambda>(iv, m). tcp_put ciph iv m) ms))"
proof (induction ms)
  case (Cons im ms)
  obtain iv m where im: "im = (iv, m)" by fastforce
  then have "tcp_fits ciph iv m" using Cons.prems by simp
  then obtain f where "tcp_Write ciph iv m = Ok f"
    using tcp_Write_receive [of ciph iv m] by (auto simp: tcp_fits_def)
  with Cons im show ?case by (simp add: tcp_put_def)
qed simp

lemma get_all_tcp_Read:
  "get_all (tcp_Read c ciph) n s =
     (case get_all (tcp_receive ciph) n s of (ms, s) \<Rightarrow> (map (\<lambda>m. bind_res m (NewPacket c)) ms, s))"
  by (induction n arbitrary: s) (simp_all add: tcp_Read_def split: prod.split)

text \<open>
  messages written to a TCP connection, whatever they are and however many, are read at the other end in
  their order, each giving exactly the packet \<open>NewPacket\<close> makes of its bytes, and nothing of what
  follows them in the stream is touched. Both ends have the same cipher (or none), and each message is
  small enough for the 32-bit length field.\<close>

theorem tcp_stream_roundtrip:
  assumes "\<forall>(iv, m) \<in> set ms. tcp_fits ciph iv m"
  shows "\<exists>s. tcp_write_all ciph ms = Ok s \<and>
    (\<forall>rest. get_all (tcp_Read c ciph) (length ms) (s @ rest) = (map (\<lambda>(iv, m). NewPacket c m) ms, rest))"
  using tcp.in_order [OF assms] tcp_write_all_ok [OF assms]
  by (auto simp: get_all_tcp_Read)

definition demo_cipher :: Block where
  "demo_cipher = \<lparr>Block_Encrypt = aes_encrypt (replicate 32 1), Block_Decrypt = aes_decrypt (replicate 32 1)\<rparr>"

lemma demo_cipher_good: "good_cipher demo_cipher"
  by (rule aes_NewCipher_block_cipher [of "replicate 32 1"]) (simp add: aes_NewCipher_def demo_cipher_def)

theorem tcp_stream_roundtrip_witness:
  "\<exists>s. tcp_write_all (Some demo_cipher) [(replicate 16 3, [1, 2]), (replicate 16 4, [])] = Ok s \<and>
    get_all (tcp_Read jobs_codec (Some demo_cipher)) 2 (s @ [9]) = ([NewPacket jobs_codec [1, 2], NewPacket jobs_codec []], [9])"
proof -
  have "\<forall>(iv, m) \<in> set [(replicate 16 3, [1, 2]), (replicate 16 4, [] :: bytes)]. tcp_fits (Some demo_cipher) iv m"
    using demo_cipher_good by (simp add: tcp_fits_def cipher_ok_def)
  from tcp_stream_roundtrip [OF this, of jobs_codec] show ?thesis
    by (fastforce simp: numeral_2_eq_2)
qed

text \<open>
  what \<open>Read\<close> of a TCP connection answers to a stream that does not hold a frame: the end of the stream
  between frames is EOF, a stream that ends within a frame's body is reported as EOF too and one that ends
  within the eight bytes before it as an unexpected end; a wrong magic number is an error whatever the
  length says, and leaves the body unread.\<close>

theorem tcp_read_errors:
  "fst (tcp_Read c ciph []) = Err EOF
   \<and> (0 < length s \<and> length s < 8 \<and> length s \<noteq> 4 \<longrightarrow> fst (tcp_Read c ciph s) = Err UnexpectedEOF)
   \<and> (length b < unat n \<longrightarrow> fst (tcp_Read c ciph (le_bytes 4 (n :: u32) @ le_bytes 4 tcpConnectionMagic @ b)) = Err EOF)
   \<and> (g \<noteq> tcpConnectionMagic \<longrightarrow>
       tcp_Read c ciph (le_bytes 4 n @ le_bytes 4 g @ b) = (Err (GoErr ''Invalid connection magic!''), b))"
proof (intro conjI impI)
  show "fst (tcp_Read c ciph []) = Err EOF"
    by (simp add: tcp_Read_def tcp_receive_def rwu_readers read_le_def ReadFull_def)
  show "fst (tcp_Read c ciph s) = Err UnexpectedEOF" if "0 < length s \<and> length s < 8 \<and> length s \<noteq> 4"
    using that by (auto simp: tcp_Read_def tcp_receive_def rwu_readers read_le_def ReadFull_def)
  show "fst (tcp_Read c ciph (le_bytes 4 n @ le_bytes 4 tcpConnectionMagic @ b)) = Err EOF" if "length b < unat n"
    using that by (simp add: tcp_Read_def tcp_receive_def ReadFull_def)
  show "tcp_Read c ciph (le_bytes 4 n @ le_bytes 4 g @ b) = (Err (GoErr ''Invalid connection magic!''), b)"
    if "g \<noteq> tcpConnectionMagic"
    using that by (simp add: tcp_Read_def tcp_receive_def)
qed

theorem tcp_read_errors_witness:
  "fst (tcp_Read jobs_codec None [1, 2, 3]) = Err UnexpectedEOF"
  using tcp_read_errors [of jobs_codec None "[1, 2, 3]" "[]" 0 0] by simp

end
