(* ===== verification/Client_Env.thy ===== *)
theory Client_Env
  imports Client_Core
begin

text \<open>
  What the handlers take from outside the repository: the protobuf library at each message type they
  build or read, and \<open>compress/gzip\<close>. \<open>env\<close> is an argument of every handler; nothing is assumed of it
  except where a theorem says so.
\<close>

type_synonym 'm decoder = "bytes \<Rightarrow> 'm \<times> go_err option"

record Env =
  env_hdr :: hdr_codec
  env_Marshal :: "ProtoBody \<Rightarrow> bytes res"
  env_gunzip :: "bytes \<Rightarrow> bytes res"
  un_Multi :: "CMsgMulti decoder"
  un_ClientCMList :: "CMsgClientCMList decoder"
  un_ClientLogonResponse :: "CMsgClientLogonResponse decoder"
  un_ClientNewLoginKey :: "CMsgClientNewLoginKey decoder"
  un_ClientLoggedOff :: "CMsgClientLoggedOff decoder"
  un_ClientUpdateMachineAuth :: "CMsgClientUpdateMachineAuth decoder"
  un_ClientAccountInfo :: "CMsgClientAccountInfo decoder"
  un_WebAPINonceResponse :: "CMsgClientRequestWebAPIAuthenticateUserNonceResponse decoder"
  un_ClientUserNotifications :: "CMsgClientUserNotifications decoder"
  un_InitiateTradeRequest :: "CMsgTrading_InitiateTradeRequest decoder"
  un_InitiateTradeResponse :: "CMsgTrading_InitiateTradeResponse decoder"
  un_StartSession :: "CMsgTrading_StartSession decoder"
  un_GCClient :: "CMsgGCClient decoder"
  un_ClientFriendsList :: "CMsgClientFriendsList decoder"
  un_ClientPersonaState :: "CMsgClientPersonaState decoder"
  un_ClientClanState :: "CMsgClientClanState decoder"
  un_ClientAddFriendResponse :: "CMsgClientAddFriendResponse decoder"
  un_ClientFriendMsgIncoming :: "CMsgClientFriendMsgIncoming decoder"
  un_ClientChatInvite :: "CMsgClientChatInvite decoder"
  un_ClientFriendProfileInfoResponse :: "CMsgClientFriendProfileInfoResponse decoder"
  un_FriendMessageHistoryResponse :: "CMsgClientChatGetFriendMessageHistoryResponse decoder"
  un_RSAPublicKey_Response :: "CAuthentication_GetPasswordRSAPublicKey_Response decoder"
  un_BeginAuthSession_Response :: "CAuthentication_BeginAuthSessionViaCredentials_Response decoder"
  un_PollAuthSession_Response :: "CAuthentication_PollAuthSessionStatus_Response decoder"

text \<open>\<^verbatim>\<open>body := new(T); packet.ReadProtoMsg(body)\<close>: the header and the body.\<close>

definition read_proto_msg ::
  "Env \<Rightarrow> (Env \<Rightarrow> 'b decoder) \<Rightarrow> Packet \<Rightarrow> ('b ClientMsgProtobuf \<Rightarrow> 'r res) \<Rightarrow> 'r res" where
  "read_proto_msg env un packet k = bind_res (ReadProtoMsg (env_hdr env) (un env) packet) k"

definition with_body ::
  "Env \<Rightarrow> (Env \<Rightarrow> 'b decoder) \<Rightarrow> Packet \<Rightarrow> ('b \<Rightarrow> 'r res) \<Rightarrow> 'r res" where
  "with_body env un packet k = read_proto_msg env un packet (\<lambda>msg. k (CMP_Body msg))"

lemma with_body_OkE:
  assumes "with_body env un p k = Ok r"
  obtains b where "k b = Ok r"
  using assms by (auto simp: with_body_def read_proto_msg_def bind_res_Ok_iff)

lemma read_proto_msg_OkE:
  assumes "read_proto_msg env un p k = Ok r"
  obtains m where "k m = Ok r"
  using assms by (auto simp: read_proto_msg_def bind_res_Ok_iff)

text \<open>A packet from which the header can be read, and the body its bytes hold.\<close>

definition carries :: "Env \<Rightarrow> (Env \<Rightarrow> 'b decoder) \<Rightarrow> Packet \<Rightarrow> 'b \<Rightarrow> bool" where
  "carries env un p b \<longleftrightarrow> (\<exists>m. ReadProtoMsg (env_hdr env) (un env) p = Ok m \<and> CMP_Body m = b)"

lemma with_body_carries: "carries env un p b \<Longrightarrow> with_body env un p k = k b"
  by (auto simp: carries_def with_body_def read_proto_msg_def)

section \<open>An environment and a packet for witnesses\<close>

definition demo_env :: Env where
  "demo_env = \<lparr>env_hdr = jobs_codec, env_Marshal = (\<lambda>_. Ok []), env_gunzip = Ok,
     un_Multi = (\<lambda>_. (NewCMsgMulti, None)),
     un_ClientCMList = (\<lambda>_. (NewCMsgClientCMList, None)),
     un_ClientLogonResponse = (\<lambda>_. (NewCMsgClientLogonResponse, None)),
     un_ClientNewLoginKey = (\<lambda>_. (NewCMsgClientNewLoginKey, None)),
     un_ClientLoggedOff = (\<lambda>_. (NewCMsgClientLoggedOff, None)),
     un_ClientUpdateMachineAuth = (\<lambda>_. (NewCMsgClientUpdateMachineAuth, None)),
     un_ClientAccountInfo = (\<lambda>_. (NewCMsgClientAccountInfo, None)),
     un_WebAPINonceResponse = (\<lambda>_. (NewCMsgClientRequestWebAPIAuthenticateUserNonceResponse, None)),
     un_ClientUserNotifications = (\<lambda>_. (NewCMsgClientUserNotifications, None)),
     un_InitiateTradeRequest = (\<lambda>_. (NewCMsgTrading_InitiateTradeRequest, None)),
     un_InitiateTradeResponse = (\<lambda>_. (NewCMsgTrading_InitiateTradeResponse, None)),
     un_StartSession = (\<lambda>_. (NewCMsgTrading_StartSession, None)),
     un_GCClient = (\<lambda>_. (NewCMsgGCClient, None)),
     un_ClientFriendsList = (\<lambda>_. (NewCMsgClientFriendsList, None)),
     un_ClientPersonaState = (\<lambda>_. (NewCMsgClientPersonaState, None)),
     un_ClientClanState = (\<lambda>_. (NewCMsgClientClanState, None)),
     un_ClientAddFriendResponse = (\<lambda>_. (NewCMsgClientAddFriendResponse, None)),
     un_ClientFriendMsgIncoming = (\<lambda>_. (NewCMsgClientFriendMsgIncoming, None)),
     un_ClientChatInvite = (\<lambda>_. (NewCMsgClientChatInvite, None)),
     un_ClientFriendProfileInfoResponse = (\<lambda>_. (NewCMsgClientFriendProfileInfoResponse, None)),
     un_FriendMessageHistoryResponse = (\<lambda>_. (NewCMsgClientChatGetFriendMessageHistoryResponse, None)),
     un_RSAPublicKey_Response = (\<lambda>_. (NewCAuthentication_GetPasswordRSAPublicKey_Response, None)),
     un_BeginAuthSession_Response = (\<lambda>_. (NewCAuthentication_BeginAuthSessionViaCredentials_Response, None)),
     un_PollAuthSession_Response = (\<lambda>_. (NewCAuthentication_PollAuthSessionStatus_Response, None))\<rparr>"

text \<open>A protobuf packet with target job 9 and source job 7, whatever its body is.\<close>

definition demo_packet :: "EMsg \<Rightarrow> Packet" where
  "demo_packet e = \<lparr>Packet_EMsg = e, Packet_IsProto = True, Packet_TargetJobId = 9, Packet_SourceJobId = 7,
     Packet_Data = proto_frame e (le_bytes 8 (9 :: u64) @ le_bytes 8 (7 :: u64))\<rparr>"

definition demo_header :: "EMsg \<Rightarrow> MsgHdrProtoBuf" where
  "demo_header e = \<lparr>MsgHdrProtoBuf_Msg = NewEMsg e, MsgHdrProtoBuf_HeaderLength = 16,
     MsgHdrProtoBuf_Proto = jobs_header 9 7\<rparr>"

lemma demo_packet_reads:
  "ReadProtoMsg jobs_codec un (demo_packet e) = Ok \<lparr>CMP_Header = demo_header e, CMP_Body = fst (un [])\<rparr>"
  using MsgHdrProtoBuf_Deserialize_frame [OF jobs_codec_roundtrip [of 9 7], of NewMsgHdrProtoBuf e "[]"]
  by (simp add: ReadProtoMsg_def demo_packet_def demo_header_def)

lemma demo_env_hdr [simp]: "env_hdr demo_env = jobs_codec"
  by (simp add: demo_env_def)

lemma demo_packet_fields [simp]:
  "Packet_EMsg (demo_packet e) = e" "Packet_IsProto (demo_packet e)"
  "Packet_TargetJobId (demo_packet e) = 9" "Packet_SourceJobId (demo_packet e) = 7"
  by (simp_all add: demo_packet_def)

lemma demo_packet_carries: "env_hdr env = jobs_codec \<Longrightarrow> fst (un env []) = b \<Longrightarrow> carries env un (demo_packet e) b"
  by (simp add: carries_def demo_packet_reads)

text \<open>A connected client to start from.\<close>

definition demo_client :: Client where
  "demo_client = NewClient\<lparr>c_conn := Some Conn_ws\<rparr>"

lemma demo_client_connected [simp]: "c_conn demo_client = Some Conn_ws"
  by (simp add: demo_client_def)

end
