(* ===== verification/Auth.thy ===== *)
theory Auth
  imports Client_Env Machine_Id
begin

text \<open>
  \<open>auth.go\<close>: logging on, and the packets that answer it. The state is the client's own
  (\<open>sessionId\<close>, \<open>steamId\<close>) and the web login key.
\<close>

section \<open>Logging on\<close>

definition MsgClientLogon_CurrentProtocol :: u32 where "MsgClientLogon_CurrentProtocol = 65581"

record LogOnDetails =
  Details_Username :: string
  Details_Password :: string
  Details_AuthCode :: string
  Details_TwoFactorCode :: string
  Details_SentryFileHash :: "bytes option"
  Details_LoginKey :: string
  Details_ShouldRememberPassword :: bool
  Details_MachineID :: "bytes option"
  Details_AccessToken :: string

definition if_set :: "string \<Rightarrow> string option" where
  "if_set s = (if s \<noteq> [] then Some s else None)"

definition logon_message :: "LogOnDetails \<Rightarrow> CMsgClientLogon" where
  "logon_message d = NewCMsgClientLogon\<lparr>
     CMsgClientLogon_AccountName := Some (Details_Username d),
     CMsgClientLogon_Password := (if Details_AccessToken d = [] then Some (Details_Password d) else None),
     CMsgClientLogon_AuthCode := if_set (Details_AuthCode d),
     CMsgClientLogon_TwoFactorCode := if_set (Details_TwoFactorCode d),
     CMsgClientLogon_ClientLanguage := Some ''english'',
     CMsgClientLogon_ProtocolVersion := Some MsgClientLogon_CurrentProtocol,
     CMsgClientLogon_ShaSentryfile := Details_SentryFileHash d,
     CMsgClientLogon_LoginKey := if_set (Details_LoginKey d),
     CMsgClientLogon_AccessToken := if_set (Details_AccessToken d),
     CMsgClientLogon_ShouldRememberPassword :=
       (if Details_ShouldRememberPassword d then Some (Details_ShouldRememberPassword d) else None),
     CMsgClientLogon_MachineId := (case Details_MachineID d of
         Some i \<Rightarrow> Some i | None \<Rightarrow> Some (generateMachineID (Details_Username d))),
     CMsgClientLogon_MachineName := Some (machineName (Details_Username d)),
     CMsgClientLogon_ClientPackageVersion := Some 1771,
     CMsgClientLogon_ClientOsType := Some 16,
     CMsgClientLogon_ChatMode := Some 2,
     CMsgClientLogon_ObfuscatedPrivateIp := Some \<lparr>CMsgIPAddress_Ip =
         Some (CMsgIPAddress_V4 (obfuscatedPrivateIP (Details_Username d)))\<rparr>,
     CMsgClientLogon_DeprecatedObfustucatedPrivateIp := Some (obfuscatedPrivateIP (Details_Username d)),
     CMsgClientLogon_EresultSentryfile :=
       (if 0 < length (get_or [] (Details_SentryFileHash d)) then Some EResult_OK else Some EResult_FileNotFound),
     CMsgClientLogon_SupportsRateLimitResponse := Some True\<rparr>"

definition LogOn :: "LogOnDetails \<Rightarrow> Client \<Rightarrow> Client res" where
  "LogOn d c =
     (if Details_Username d = [] then Panic ''Username must be set!''
      else if Details_Password d = [] \<and> Details_LoginKey d = [] \<and> Details_AccessToken d = []
      then Panic ''Password, LoginKey, or AccessToken must be set!''
      else
        let logon = logon_message d;
            c = c\<lparr>c_steamId := NewIdAdv 0 1 EUniverse_Public EAccountType_Individual\<rparr>
        in Ok (WriteProto EMsg_ClientLogon (PB_ClientLogon logon) c))"

definition LogOnAnonymousGS :: "Client \<Rightarrow> Client" where
  "LogOnAnonymousGS c =
     (let logon = NewCMsgClientLogon\<lparr>CMsgClientLogon_ProtocolVersion := Some MsgClientLogon_CurrentProtocol\<rparr>;
          c = c\<lparr>c_steamId := NewIdAdv 0 0 EUniverse_Public EAccountType_AnonGameServer\<rparr>
      in WriteProto EMsg_ClientLogon (PB_ClientLogon logon) c)"

section \<open>The handlers\<close>

definition logged_on_event :: "CMsgClientLogonResponse \<Rightarrow> LoggedOnEvent" where
  "logged_on_event body = \<lparr>
     LoggedOnEvent_Result = CMsgClientLogonResponse_GetEresult body,
     LoggedOnEvent_ExtendedResult = CMsgClientLogonResponse_GetEresultExtended body,
     LoggedOnEvent_OutOfGameSecsPerHeartbeat = CMsgClientLogonResponse_GetOutOfGameHeartbeatSeconds body,
     LoggedOnEvent_InGameSecsPerHeartbeat = CMsgClientLogonResponse_GetInGameHeartbeatSeconds body,
     LoggedOnEvent_PublicIp = CMsgClientLogonResponse_GetDeprecatedPublicIp body,
     LoggedOnEvent_ServerTime = CMsgClientLogonResponse_GetRtime32ServerTime body,
     LoggedOnEvent_AccountFlags = CMsgClientLogonResponse_GetAccountFlags body,
     LoggedOnEvent_ClientSteamId = CMsgClientLogonResponse_GetClientSuppliedSteamid body,
     LoggedOnEvent_EmailDomain = CMsgClientLogonResponse_GetEmailDomain body,
     LoggedOnEvent_CellId = CMsgClientLogonResponse_GetCellId body,
     LoggedOnEvent_CellIdPingThreshold = CMsgClientLogonResponse_GetCellIdPingThreshold body,
     LoggedOnEvent_Steam2Ticket = CMsgClientLogonResponse_GetSteam2Ticket body,
     LoggedOnEvent_UsePics = CMsgClientLogonResponse_GetDeprecatedUsePics body,
     LoggedOnEvent_WebApiUserNonce = CMsgClientLogonResponse_GetWebapiAuthenticateUserNonce body,
     LoggedOnEvent_IpCountryCode = CMsgClientLogonResponse_GetIpCountryCode body,
     LoggedOnEvent_VanityUrl = CMsgClientLogonResponse_GetVanityUrl body,
     LoggedOnEvent_NumLoginFailuresToMigrate = CMsgClientLogonResponse_GetCountLoginfailuresToMigrate body,
     LoggedOnEvent_NumDisconnectsToMigrate = CMsgClientLogonResponse_GetCountDisconnectsToMigrate body\<rparr>"

definition handleLogOnResponse :: "Env \<Rightarrow> handler" where
  "handleLogOnResponse env packet c =
     (if \<not> Packet_IsProto packet then Ok (Fatalf (GoErr ''Got non-proto logon response!'') c)
      else read_proto_msg env un_ClientLogonResponse packet (\<lambda>msg.
        let body = CMP_Body msg;
            result = CMsgClientLogonResponse_GetEresult body in
        if result = EResult_OK then
          (let c = c\<lparr>c_sessionId := CMsgProtoBufHeader_GetClientSessionid (CMP_proto msg)\<rparr>;
               c = c\<lparr>c_steamId := CMsgProtoBufHeader_GetSteamid (CMP_proto msg)\<rparr>;
               c = (case CMsgClientLogonResponse_WebapiAuthenticateUserNonce body of
                      Some nonce \<Rightarrow> upd_Web (\<lambda>w. w\<lparr>Web_webLoginKey := nonce\<rparr>) c
                    | None \<Rightarrow> c);
               c = spawn (G_heartbeatLoop (CMsgClientLogonResponse_GetOutOfGameHeartbeatSeconds body)) c
           in Ok (Emit (Ev_LoggedOn (logged_on_event body)) c))
        else if result = EResult_Fail \<or> result = EResult_ServiceUnavailable \<or> result = EResult_TryAnotherCM
        then Ok c
        else
          Ok (Disconnect (Emit (Ev_LogOnFailed \<lparr>
            LogOnFailedEvent_Result = CMsgClientLogonResponse_GetEresult body,
            LogOnFailedEvent_ExtendedResult = CMsgClientLogonResponse_GetEresultExtended body\<rparr>) c))))"

definition login_key_accepted :: "u32 \<Rightarrow> CMsgClientNewLoginKeyAccepted" where
  "login_key_accepted i = NewCMsgClientNewLoginKeyAccepted\<lparr>CMsgClientNewLoginKeyAccepted_UniqueId := Some i\<rparr>"

definition handleLoginKey :: "Env \<Rightarrow> handler" where
  "handleLoginKey env packet c = with_body env un_ClientNewLoginKey packet (\<lambda>body.
     let c = WriteProto EMsg_ClientNewLoginKeyAccepted
               (PB_ClientNewLoginKeyAccepted (login_key_accepted (CMsgClientNewLoginKey_GetUniqueId body))) c
     in Ok (Emit (Ev_LoginKey \<lparr>
          LoginKeyEvent_UniqueId = CMsgClientNewLoginKey_GetUniqueId body,
          LoginKeyEvent_LoginKey = CMsgClientNewLoginKey_GetLoginKey body\<rparr>) c))"

text \<open>The zero value of the struct, which \<open>new\<close> gives.\<close>

definition zero_MsgClientLoggedOff :: MsgClientLoggedOff where
  "zero_MsgClientLoggedOff = \<lparr>MsgClientLoggedOff_Result = 0,
     MsgClientLoggedOff_SecMinReconnectHint = 0, MsgClientLoggedOff_SecMaxReconnectHint = 0\<rparr>"

definition handleLoggedOff :: "Env \<Rightarrow> handler" where
  "handleLoggedOff env packet c =
     bind_res
       (if Packet_IsProto packet
        then with_body env un_ClientLoggedOff packet (\<lambda>body. Ok (CMsgClientLoggedOff_GetEresult body))
        else Ok (MsgClientLoggedOff_Result (CM_Body (ReadClientMsg MsgClientLoggedOff_Deserialize zero_MsgClientLoggedOff packet))))
       (\<lambda>result. Ok (Emit (Ev_LoggedOff \<lparr>LoggedOffEvent_Result = result\<rparr>) c))"

definition machine_auth_response :: "CMsgClientUpdateMachineAuth \<Rightarrow> CMsgClientUpdateMachineAuthResponse" where
  "machine_auth_response body =
     (let sentry = CMsgClientUpdateMachineAuth_GetBytes body; sha = sha1_Sum sentry in
      NewCMsgClientUpdateMachineAuthResponse\<lparr>
        CMsgClientUpdateMachineAuthResponse_Filename := Some (CMsgClientUpdateMachineAuth_GetFilename body),
        CMsgClientUpdateMachineAuthResponse_Eresult := Some EResult_OK,
        CMsgClientUpdateMachineAuthResponse_Filesize := Some (word_of_nat (length sentry)),
        CMsgClientUpdateMachineAuthResponse_ShaFile := Some sha,
        CMsgClientUpdateMachineAuthResponse_Getlasterror := Some 0,
        CMsgClientUpdateMachineAuthResponse_Offset := Some (CMsgClientUpdateMachineAuth_GetOffset body),
        CMsgClientUpdateMachineAuthResponse_Cubwrote := Some (CMsgClientUpdateMachineAuth_GetCubtowrite body)\<rparr>)"

definition handleUpdateMachineAuth :: "Env \<Rightarrow> handler" where
  "handleUpdateMachineAuth env packet c = with_body env un_ClientUpdateMachineAuth packet (\<lambda>body.
     let sha = sha1_Sum (CMsgClientUpdateMachineAuth_GetBytes body);
         msg = NewClientMsgProtobuf EMsg_ClientUpdateMachineAuthResponse
                 (PB_ClientUpdateMachineAuthResponse (machine_auth_response body));
         msg = CMP_SetTargetJobId (Packet_SourceJobId packet) msg;
         c = Write (IM_Proto msg) c
     in Ok (Emit (Ev_MachineAuthUpdate \<lparr>MachineAuthUpdateEvent_Hash = sha\<rparr>) c))"

definition handleAccountInfo :: "Env \<Rightarrow> handler" where
  "handleAccountInfo env packet c = with_body env un_ClientAccountInfo packet (\<lambda>body.
     Ok (Emit (Ev_AccountInfo \<lparr>
       AccountInfoEvent_PersonaName = CMsgClientAccountInfo_GetPersonaName body,
       AccountInfoEvent_Country = CMsgClientAccountInfo_GetIpCountry body,
       AccountInfoEvent_CountAuthedComputers = CMsgClientAccountInfo_GetCountAuthedComputers body,
       AccountInfoEvent_AccountFlags = CMsgClientAccountInfo_GetAccountFlags body,
       AccountInfoEvent_FacebookId = CMsgClientAccountInfo_GetFacebookId body,
       AccountInfoEvent_FacebookName = CMsgClientAccountInfo_GetFacebookName body\<rparr>) c))"

definition Auth_HandlePacket :: "Env \<Rightarrow> handler" where
  "Auth_HandlePacket env packet c =
     (if Packet_EMsg packet = EMsg_ClientLogOnResponse then handleLogOnResponse env packet c
      else if Packet_EMsg packet = EMsg_ClientNewLoginKey then handleLoginKey env packet c
      else if Packet_EMsg packet = EMsg_ClientSessionToken then Ok c
      else if Packet_EMsg packet = EMsg_ClientLoggedOff then handleLoggedOff env packet c
      else if Packet_EMsg packet = EMsg_ClientUpdateMachineAuth then handleUpdateMachineAuth env packet c
      else if Packet_EMsg packet = EMsg_ClientAccountInfo then handleAccountInfo env packet c
      else Ok c)"

section \<open>The contract of a handler\<close>

lemma extends_session [simp]:
  "extends c c' \<Longrightarrow> extends c (c'\<lparr>c_sessionId := s\<rparr>)" "extends c c' \<Longrightarrow> extends c (c'\<lparr>c_steamId := i\<rparr>)"
  by (simp_all add: extends_def)

declare extends_session [extends_intros]

lemma handleLogOnResponse_extends: "handleLogOnResponse env p c = Ok c' \<Longrightarrow> extends c c'"
  by (auto simp: handleLogOnResponse_def Let_def intro!: extends_intros
      elim!: read_proto_msg_OkE split: if_splits option.splits)

lemma Auth_other_extends:
  "handleLoginKey env p c = Ok c' \<Longrightarrow> extends c c'"
  "handleLoggedOff env p c = Ok c' \<Longrightarrow> extends c c'"
  "handleUpdateMachineAuth env p c = Ok c' \<Longrightarrow> extends c c'"
  "handleAccountInfo env p c = Ok c' \<Longrightarrow> extends c c'"
  by (auto simp: handleLoginKey_def handleLoggedOff_def handleUpdateMachineAuth_def handleAccountInfo_def
      Let_def bind_res_Ok_iff intro!: extends_intros elim!: with_body_OkE split: if_splits)

interpretation Auth_handler: packet_handler "Auth_HandlePacket env" for env
  by unfold_locales (auto simp: Auth_HandlePacket_def dest: handleLogOnResponse_extends Auth_other_extends
      split: if_splits)

section \<open>What logging on does\<close>



lemma logon_message_fields:
  "CMsgClientLogon_Password (logon_message d) = None \<longleftrightarrow> Details_AccessToken d \<noteq> []"
  "CMsgClientLogon_MachineId (logon_message d) \<noteq> None"
  "CMsgClientLogon_SupportsRateLimitResponse (logon_message d) = Some True"
  unfolding logon_message_def by (simp_all split: option.split)


text \<open>
  The answer to a machine authentication request goes to the job that sent it, with the SHA-1 hash of
  exactly the bytes received, their number, and the offset and file name repeated; the event carries the same hash.\<close>

theorem machine_auth_answer:
  assumes "carries env un_ClientUpdateMachineAuth p b" and "c_conn c \<noteq> None"
  shows "\<exists>c' m r. handleUpdateMachineAuth env p c = Ok c' \<and> c_writeChan c' = c_writeChan c @ [IM_Proto m] \<and>
    CMP_Body m = PB_ClientUpdateMachineAuthResponse r \<and> CMP_GetTargetJobId m = Packet_SourceJobId p \<and>
    CMsgClientUpdateMachineAuthResponse_ShaFile r = Some (sha1_Sum (CMsgClientUpdateMachineAuth_GetBytes b)) \<and>
    CMsgClientUpdateMachineAuthResponse_Filesize r = Some (word_of_nat (length (CMsgClientUpdateMachineAuth_GetBytes b))) \<and>
    CMsgClientUpdateMachineAuthResponse_Offset r = Some (CMsgClientUpdateMachineAuth_GetOffset b) \<and>
    CMsgClientUpdateMachineAuthResponse_Filename r = Some (CMsgClientUpdateMachineAuth_GetFilename b) \<and>
    c_events c' = c_events c @ [Ev_MachineAuthUpdate \<lparr>MachineAuthUpdateEvent_Hash = sha1_Sum (CMsgClientUpdateMachineAuth_GetBytes b)\<rparr>]"
proof -
  let ?m = "CMP_SetTargetJobId (Packet_SourceJobId p) (NewClientMsgProtobuf EMsg_ClientUpdateMachineAuthResponse
    (PB_ClientUpdateMachineAuthResponse (machine_auth_response b)))"
  let ?s = "CMP_SetSteamId (c_steamId c) (CMP_SetSessionId (c_sessionId c) ?m)"
  have "CMP_Body ?s = PB_ClientUpdateMachineAuthResponse (machine_auth_response b)"
    by (simp add: CMP_defs NewClientMsgProtobuf_def)
  moreover have "CMP_GetTargetJobId ?s = Packet_SourceJobId p"
    by (simp add: CMP_msg.stamps_jobs CMP_msg.target_same)
  ultimately show ?thesis
    using assms by (auto simp: handleUpdateMachineAuth_def with_body_carries Let_def Write_def send_def Emit_def
        SteamId_def SessionId_def machine_auth_response_def)
qed

theorem machine_auth_answer_witness:
  "\<exists>c' m r. handleUpdateMachineAuth demo_env (demo_packet EMsg_ClientUpdateMachineAuth) demo_client = Ok c' \<and>
    c_writeChan c' = c_writeChan demo_client @ [IM_Proto m] \<and>
    CMP_Body m = PB_ClientUpdateMachineAuthResponse r \<and>
    CMP_GetTargetJobId m = Packet_SourceJobId (demo_packet EMsg_ClientUpdateMachineAuth) \<and>
    CMsgClientUpdateMachineAuthResponse_ShaFile r = Some (sha1_Sum (CMsgClientUpdateMachineAuth_GetBytes NewCMsgClientUpdateMachineAuth)) \<and>
    CMsgClientUpdateMachineAuthResponse_Filesize r = Some (word_of_nat (length (CMsgClientUpdateMachineAuth_GetBytes NewCMsgClientUpdateMachineAuth))) \<and>
    CMsgClientUpdateMachineAuthResponse_Offset r = Some (CMsgClientUpdateMachineAuth_GetOffset NewCMsgClientUpdateMachineAuth) \<and>
    CMsgClientUpdateMachineAuthResponse_Filename r = Some (CMsgClientUpdateMachineAuth_GetFilename NewCMsgClientUpdateMachineAuth) \<and>
    c_events c' = c_events demo_client @ [Ev_MachineAuthUpdate
      \<lparr>MachineAuthUpdateEvent_Hash = sha1_Sum (CMsgClientUpdateMachineAuth_GetBytes NewCMsgClientUpdateMachineAuth)\<rparr>]"
  by (rule machine_auth_answer [OF demo_packet_carries]) (simp_all, simp add: demo_env_def)

end
