(* ===== verification/Keys.thy ===== *)
theory Keys
  imports Go_Crypto Steamlang
begin

text \<open>
  \<open>keys.go\<close>, the public keys of the Steam universes, and \<open>cryptoutil/rsa.go\<close>. What they use of the
  standard library is written out for RSA keys: the DER form of a public key
  (\<open>x509.ParsePKIXPublicKey\<close>) and encryption with OAEP and with PKCS #1 v1.5 padding (\<open>crypto/rsa\<close>,
  RFC 8017), the random bytes being an argument.
\<close>

section \<open>Public keys in DER\<close>

record RSAKey =
  RSA_N :: nat
  RSA_E :: nat

fun be_nat :: "bytes \<Rightarrow> nat" where
  "be_nat bs = foldl (\<lambda>n b. 256 * n + unat b) 0 bs"

text \<open>One element: the tag, its contents and the bytes that follow it; \<open>None\<close> where \<open>asn1\<close> fails.\<close>

definition der_element :: "bytes \<Rightarrow> (byte \<times> bytes \<times> bytes) option" where
  "der_element bs = (case bs of
     t # l # r \<Rightarrow>
       (let k = (if unat l < 128 then 0 else unat l - 128);
            n = (if unat l < 128 then unat l else be_nat (take k r));
            r = drop k r
        in if k \<le> 4 \<and> k \<le> length (drop 2 bs) \<and> n \<le> length r
           then Some (t, take n r, drop n r) else None)
   | _ \<Rightarrow> None)"

definition oid_rsaEncryption :: bytes where
  "oid_rsaEncryption = [0x2a, 0x86, 0x48, 0x86, 0xf7, 0x0d, 0x01, 0x01, 0x01]"

definition der_is :: "byte \<Rightarrow> bytes \<Rightarrow> (bytes \<times> bytes) option" where
  "der_is t bs = (case der_element bs of
     Some (t', c, r) \<Rightarrow> if t' = t then Some (c, r) else None
   | None \<Rightarrow> None)"

definition ParseASN1RSAPublicKey :: "bytes \<Rightarrow> RSAKey res" where
  "ParseASN1RSAPublicKey derBytes =
     (let e = Err (GoErr ''asn1: structure error'') in
      case der_is 0x30 derBytes of None \<Rightarrow> e | Some (spki, rest) \<Rightarrow>
      if rest \<noteq> [] then Err (GoErr ''x509: trailing data after ASN.1 of public-key'') else
      case der_is 0x30 spki of None \<Rightarrow> e | Some (alg, spki) \<Rightarrow>
      case der_is 0x06 alg of None \<Rightarrow> e | Some (oid, _) \<Rightarrow>
      if oid \<noteq> oid_rsaEncryption then Err (GoErr ''not an RSA public key'') else
      case der_is 0x03 spki of None \<Rightarrow> e | Some (bits, _) \<Rightarrow>
      case der_is 0x30 (tl bits) of None \<Rightarrow> e | Some (key, _) \<Rightarrow>
      case der_is 0x02 key of None \<Rightarrow> e | Some (n, key) \<Rightarrow>
      case der_is 0x02 key of None \<Rightarrow> e | Some (ex, _) \<Rightarrow>
      Ok \<lparr>RSA_N = be_nat n, RSA_E = be_nat ex\<rparr>)"

section \<open>keys.go\<close>

definition key_Public :: bytes where
  "key_Public = [
     0x30, 0x81, 0x9d, 0x30, 0x0d, 0x06, 0x09, 0x2a, 0x86, 0x48, 0x86, 0xf7, 0x0d, 0x01, 0x01, 0x01,
     0x05, 0x00, 0x03, 0x81, 0x8b, 0x00, 0x30, 0x81, 0x87, 0x02, 0x81, 0x81, 0x00, 0xdf, 0xec, 0x1a,
     0xd6, 0x2c, 0x10, 0x66, 0x2c, 0x17, 0x35, 0x3a, 0x14, 0xb0, 0x7c, 0x59, 0x11, 0x7f, 0x9d, 0xd3,
     0xd8, 0x2b, 0x7a, 0xe3, 0xe0, 0x15, 0xcd, 0x19, 0x1e, 0x46, 0xe8, 0x7b, 0x87, 0x74, 0xa2, 0x18,
     0x46, 0x31, 0xa9, 0x03, 0x14, 0x79, 0x82, 0x8e, 0xe9, 0x45, 0xa2, 0x49, 0x12, 0xa9, 0x23, 0x68,
     0x73, 0x89, 0xcf, 0x69, 0xa1, 0xb1, 0x61, 0x46, 0xbd, 0xc1, 0xbe, 0xbf, 0xd6, 0x01, 0x1b, 0xd8,
     0x81, 0xd4, 0xdc, 0x90, 0xfb, 0xfe, 0x4f, 0x52, 0x73, 0x66, 0xcb, 0x95, 0x70, 0xd7, 0xc5, 0x8e,
     0xba, 0x1c, 0x7a, 0x33, 0x75, 0xa1, 0x62, 0x34, 0x46, 0xbb, 0x60, 0xb7, 0x80, 0x68, 0xfa, 0x13,
     0xa7, 0x7a, 0x8a, 0x37, 0x4b, 0x9e, 0xc6, 0xf4, 0x5d, 0x5f, 0x3a, 0x99, 0xf9, 0x9e, 0xc4, 0x3a,
     0xe9, 0x63, 0xa2, 0xbb, 0x88, 0x19, 0x28, 0xe0, 0xe7, 0x14, 0xc0, 0x42, 0x89, 0x02, 0x01, 0x11]"

definition key_Beta :: bytes where
  "key_Beta = [
     0x30, 0x81, 0x9d, 0x30, 0x0d, 0x06, 0x09, 0x2a, 0x86, 0x48, 0x86, 0xf7, 0x0d, 0x01, 0x01, 0x01,
     0x05, 0x00, 0x03, 0x81, 0x8b, 0x00, 0x30, 0x81, 0x87, 0x02, 0x81, 0x81, 0x00, 0xae, 0xd1, 0x4b,
     0xc0, 0xa3, 0x36, 0x8b, 0xa0, 0x39, 0x0b, 0x43, 0xdc, 0xed, 0x6a, 0xc8, 0xf2, 0xa3, 0xe4, 0x7e,
     0x09, 0x8c, 0x55, 0x2e, 0xe7, 0xe9, 0x3c, 0xbb, 0xe5, 0x5e, 0x0f, 0x18, 0x74, 0x54, 0x8f, 0xf3,
     0xbd, 0x56, 0x69, 0x5b, 0x13, 0x09, 0xaf, 0xc8, 0xbe, 0xb3, 0xa1, 0x48, 0x69, 0xe9, 0x83, 0x49,
     0x65, 0x8d, 0xd2, 0x93, 0x21, 0x2f, 0xb9, 0x1e, 0xfa, 0x74, 0x3b, 0x55, 0x22, 0x79, 0xbf, 0x85,
     0x18, 0xcb, 0x6d, 0x52, 0x44, 0x4e, 0x05, 0x92, 0x89, 0x6a, 0xa8, 0x99, 0xed, 0x44, 0xae, 0xe2,
     0x66, 0x46, 0x42, 0x0c, 0xfb, 0x6e, 0x4c, 0x30, 0xc6, 0x6c, 0x5c, 0x16, 0xff, 0xba, 0x9c, 0xb9,
     0x78, 0x3f, 0x17, 0x4b, 0xcb, 0xc9, 0x01, 0x5d, 0x3e, 0x37, 0x70, 0xec, 0x67, 0x5a, 0x33, 0x48]"

definition key_Internal :: bytes where
  "key_Internal = [
     0x30, 0x81, 0x9d, 0x30, 0x0d, 0x06, 0x09, 0x2a, 0x86, 0x48, 0x86, 0xf7, 0x0d, 0x01, 0x01, 0x01,
     0x05, 0x00, 0x03, 0x81, 0x8b, 0x00, 0x30, 0x81, 0x87, 0x02, 0x81, 0x81, 0x00, 0xa8, 0xfe, 0x01,
     0x3b, 0xb6, 0xd7, 0x21, 0x4b, 0x53, 0x23, 0x6f, 0xa1, 0xab, 0x4e, 0xf1, 0x07, 0x30, 0xa7, 0xc6,
     0x7e, 0x6a, 0x2c, 0xc2, 0x5d, 0x3a, 0xb8, 0x40, 0xca, 0x59, 0x4d, 0x16, 0x2d, 0x74, 0xeb, 0x0e,
     0x72, 0x46, 0x29, 0xf9, 0xde, 0x9b, 0xce, 0x4b, 0x8c, 0xd0, 0xca, 0xf4, 0x08, 0x94, 0x46, 0xa5,
     0x11, 0xaf, 0x3a, 0xcb, 0xb8, 0x4e, 0xde, 0xc6, 0xd8, 0x85, 0x0a, 0x7d, 0xaa, 0x96, 0x0a, 0xea,
     0x7b, 0x51, 0xd6, 0x22, 0x62, 0x5c, 0x1e, 0x58, 0xd7, 0x46, 0x1e, 0x09, 0xae, 0x43, 0xa7, 0xc4,
     0x34, 0x69, 0xa2, 0xa5, 0xe8, 0x44, 0x76, 0x18, 0xe2, 0x3d, 0xb7, 0xc5, 0xa8, 0x96, 0xfd, 0xe5,
     0xb4, 0x4b, 0xf8, 0x40, 0x12, 0xa6, 0x17, 0x4e, 0xc4, 0xc1, 0x60, 0x0e, 0xb0, 0xc2, 0xb8, 0x40]"

definition publicKeys :: "EUniverse \<Rightarrow> bytes option" where
  "publicKeys = [EUniverse_Public \<mapsto> key_Public, EUniverse_Beta \<mapsto> key_Beta, EUniverse_Internal \<mapsto> key_Internal]"

definition GetPublicKey :: "EUniverse \<Rightarrow> RSAKey option res" where
  "GetPublicKey universe = (case publicKeys universe of
     None \<Rightarrow> Ok None
   | Some bs \<Rightarrow> (case ParseASN1RSAPublicKey bs of
        Ok key \<Rightarrow> Ok (Some key)
      | Err err \<Rightarrow> Panic ''asn1''
      | Panic p \<Rightarrow> Panic p))"

section \<open>crypto/rsa\<close>

fun bit_length :: "nat \<Rightarrow> nat" where
  "bit_length n = (if n = 0 then 0 else Suc (bit_length (n div 2)))"

declare bit_length.simps [simp del]

definition key_size :: "RSAKey \<Rightarrow> nat" where
  "key_size pub = (bit_length (RSA_N pub) + 7) div 8"

fun nat_bytes :: "nat \<Rightarrow> nat \<Rightarrow> bytes" where
  "nat_bytes 0 n = []"
| "nat_bytes (Suc k) n = nat_bytes k (n div 256) @ [word_of_nat n]"

fun pow_mod :: "nat \<Rightarrow> nat \<Rightarrow> nat \<Rightarrow> nat" where
  "pow_mod b e m = (if e = 0 then 1 mod m
     else if even e then pow_mod (b * b mod m) (e div 2) m
     else b * pow_mod b (e - 1) m mod m)"

declare pow_mod.simps [simp del]

definition rsa_raw :: "RSAKey \<Rightarrow> bytes \<Rightarrow> bytes" where
  "rsa_raw pub em = nat_bytes (key_size pub) (pow_mod (be_nat em) (RSA_E pub) (RSA_N pub))"

definition mgf1 :: "bytes \<Rightarrow> nat \<Rightarrow> bytes" where
  "mgf1 seed n = take n (concat (map (\<lambda>i. sha1_Sum (seed @ be_bytes 4 (word_of_nat i :: u32))) [0..<(n + 19) div 20]))"

definition xor_mask :: "bytes \<Rightarrow> bytes \<Rightarrow> bytes" where
  "xor_mask m x = map2 (\<lambda>a b. a XOR b) m x"

definition oaep_encode :: "nat \<Rightarrow> bytes \<Rightarrow> bytes \<Rightarrow> bytes" where
  "oaep_encode k seed msg =
     (let db = sha1_Sum [] @ replicate (k - length msg - 42) 0 @ [1] @ msg;
          maskedDB = xor_mask (mgf1 seed (length db)) db;
          maskedSeed = xor_mask (mgf1 maskedDB 20) seed
      in [0] @ maskedSeed @ maskedDB)"

definition EncryptOAEP :: "bytes \<Rightarrow> RSAKey \<Rightarrow> bytes \<Rightarrow> bytes res" where
  "EncryptOAEP seed pub msg =
     (if key_size pub < length msg + 42 then Err (GoErr ''crypto/rsa: message too long for RSA key size'')
      else Ok (rsa_raw pub (oaep_encode (key_size pub) seed msg)))"

text \<open>\<open>cryptoutil.RSAEncrypt\<close>: an error of the library is a panic, and a nil key is dereferenced.\<close>

definition RSAEncrypt :: "bytes \<Rightarrow> RSAKey option \<Rightarrow> bytes \<Rightarrow> bytes res" where
  "RSAEncrypt seed pub msg = (case pub of
     None \<Rightarrow> Panic ''nil pointer dereference''
   | Some pub \<Rightarrow> (case EncryptOAEP seed pub msg of
        Ok b \<Rightarrow> Ok b | Err err \<Rightarrow> Panic ''crypto/rsa'' | Panic p \<Rightarrow> Panic p))"

text \<open>\<open>rsa.EncryptPKCS1v15\<close>; \<open>ps\<close> are the nonzero padding bytes.\<close>

definition EncryptPKCS1v15 :: "bytes \<Rightarrow> RSAKey \<Rightarrow> bytes \<Rightarrow> bytes res" where
  "EncryptPKCS1v15 ps pub msg =
     (if RSA_E pub < 2 then Err (GoErr ''crypto/rsa: public exponent too small'')
      else if 2 ^ 31 - 1 < RSA_E pub then Err (GoErr ''crypto/rsa: public exponent too large'')
      else if key_size pub < length msg + 11 then Err (GoErr ''crypto/rsa: message too long for RSA key size'')
      else Ok (rsa_raw pub ([0, 2] @ take (key_size pub - length msg - 3) ps @ [0] @ msg)))"

section \<open>The keys of the program\<close>

lemma key_Public_parses:
  "\<exists>n. ParseASN1RSAPublicKey key_Public = Ok \<lparr>RSA_N = n, RSA_E = 17\<rparr>
     \<and> key_size \<lparr>RSA_N = n, RSA_E = 17\<rparr> = 128"
proof -
  have "\<exists>n. ParseASN1RSAPublicKey key_Public = Ok \<lparr>RSA_N = n, RSA_E = 17\<rparr> \<and> (bit_length n + 7) div 8 = 128"
    by (simp add: ParseASN1RSAPublicKey_def der_is_def der_element_def key_Public_def oid_rsaEncryption_def)
      (simp add: bit_length.simps)
  then show ?thesis by (simp add: key_size_def)
qed

lemma truncated_keys:
  "ParseASN1RSAPublicKey key_Beta = Err (GoErr ''asn1: structure error'')"
  "ParseASN1RSAPublicKey key_Internal = Err (GoErr ''asn1: structure error'')"
  by (simp_all add: ParseASN1RSAPublicKey_def der_is_def der_element_def key_Beta_def key_Internal_def)

lemma publicKeys_values:
  "publicKeys EUniverse_Public = Some key_Public" "publicKeys EUniverse_Beta = Some key_Beta"
  "publicKeys EUniverse_Internal = Some key_Internal"
  "u \<notin> {EUniverse_Public, EUniverse_Beta, EUniverse_Internal} \<Longrightarrow> publicKeys u = None"
  by (simp_all add: publicKeys_def EUniverse_defs)

text \<open>
  the key of the public universe parses as a 1024-bit RSA key with exponent 17; the entries of the beta
  and the internal universe are cut off after 144 of the 160 bytes they declare, so asking for either of
  them panics; every other universe has no key.\<close>

theorem GetPublicKey_outcomes:
  "(\<exists>key. GetPublicKey EUniverse_Public = Ok (Some key) \<and> RSA_E key = 17 \<and> key_size key = 128)
   \<and> panics (GetPublicKey EUniverse_Beta) \<and> panics (GetPublicKey EUniverse_Internal)
   \<and> (u \<in> {EUniverse_Public, EUniverse_Beta, EUniverse_Internal} \<or> GetPublicKey u = Ok None)"
proof -
  have "GetPublicKey u = Ok None" if "u \<notin> {EUniverse_Public, EUniverse_Beta, EUniverse_Internal}"
    using publicKeys_values(4) [OF that] by (simp add: GetPublicKey_def)
  moreover have "panics (GetPublicKey EUniverse_Beta)" "panics (GetPublicKey EUniverse_Internal)"
    by (simp_all add: GetPublicKey_def publicKeys_values truncated_keys)
  moreover have "\<exists>key. GetPublicKey EUniverse_Public = Ok (Some key) \<and> RSA_E key = 17 \<and> key_size key = 128"
    using key_Public_parses by (auto simp: GetPublicKey_def publicKeys_values)
  ultimately show ?thesis by blast
qed

section \<open>OAEP\<close>

lemma length_nat_bytes [simp]: "length (nat_bytes k n) = k"
  by (induction k arbitrary: n) simp_all

lemma length_rsa_raw [simp]: "length (rsa_raw pub em) = key_size pub"
  by (simp add: rsa_raw_def)

lemma length_concat_hashes: "(\<forall>x \<in> set xs. length (f x) = 20) \<Longrightarrow> length (concat (map f xs)) = 20 * length xs"
  by (induction xs) simp_all

lemma length_mgf1 [simp]: "length (mgf1 seed n) = n"
proof -
  have "n \<le> 20 * ((n + 19) div 20)"
    using div_mult_mod_eq [of "n + 19" 20] mod_less_divisor [of 20 "n + 19"] by linarith
  then show ?thesis by (simp add: mgf1_def length_concat_hashes del: length_concat)
qed

lemma length_xor_mask [simp]: "length (xor_mask m x) = min (length m) (length x)"
  by (simp add: xor_mask_def)

lemma xor_mask_twice: "length m = length x \<Longrightarrow> xor_mask m (xor_mask m x) = x"
  unfolding xor_mask_def by (induction m x rule: list_induct2) (simp_all add: xor.assoc [symmetric])

text \<open>The receiver's side of RFC 8017, 7.1.2, after the private key operation.\<close>

definition oaep_decode :: "bytes \<Rightarrow> bytes option" where
  "oaep_decode em =
     (let seed = xor_mask (mgf1 (drop 21 em) 20) (take 20 (drop 1 em));
          db = xor_mask (mgf1 seed (length em - 21)) (drop 21 em);
          body = dropWhile (\<lambda>b. b = 0) (drop 20 db)
      in if take 1 em = [0] \<and> take 20 db = sha1_Sum [] \<and> take 1 body = [1] then Some (tl body) else None)"

lemma oaep_decode_encode:
  assumes "length seed = 20" and "length msg + 42 \<le> k"
  shows "oaep_decode (oaep_encode k seed msg) = Some msg \<and> length (oaep_encode k seed msg) = k"
proof -
  define db where "db = sha1_Sum [] @ replicate (k - length msg - 42) 0 @ [1] @ msg"
  define mdb where "mdb = xor_mask (mgf1 seed (length db)) db"
  define ms where "ms = xor_mask (mgf1 mdb 20) seed"
  have enc: "oaep_encode k seed msg = [0] @ ms @ mdb"
    by (simp add: oaep_encode_def Let_def db_def mdb_def ms_def)
  have l: "length db = k - 21" using assms by (simp add: db_def)
  have "length mdb = k - 21" "length ms = 20" using l assms by (simp_all add: mdb_def ms_def)
  note lens = l this
  have s: "xor_mask (mgf1 mdb 20) ms = seed"
    using assms(1) by (simp add: ms_def xor_mask_twice)
  have "xor_mask (mgf1 seed (k - 21)) mdb = db"
    using l by (simp add: mdb_def xor_mask_twice)
  moreover have "dropWhile (\<lambda>b. b = 0) (replicate n 0 @ [1 :: byte] @ msg) = [1] @ msg" for n
    by (induction n) simp_all
  ultimately show ?thesis
    unfolding enc oaep_decode_def Let_def using lens s assms(2)
    by (simp add: db_def)
qed

lemma RSAEncrypt_public:
  assumes "length msg \<le> 86"
  shows "\<exists>b. bind_res (GetPublicKey EUniverse_Public) (\<lambda>k. RSAEncrypt seed k msg) = Ok b \<and> length b = 128"
proof -
  obtain n where "ParseASN1RSAPublicKey key_Public = Ok \<lparr>RSA_N = n, RSA_E = 17\<rparr>"
    and "key_size \<lparr>RSA_N = n, RSA_E = 17\<rparr> = 128"
    using key_Public_parses by blast
  then show ?thesis
    using assms by (simp add: GetPublicKey_def publicKeys_values RSAEncrypt_def EncryptOAEP_def)
qed

end
