(* ===== verification/Authentication.thy ===== *)
theory Authentication
  imports Client_Env Keys Machine_Id Auth
begin

text \<open>
  \<open>authentication.go\<close>: logging on with credentials over service methods. A call registers a channel
  of capacity one under a fresh job id, sends its request and waits; the read loop delivers the response
  with that target job id. \<open>between k\<close> is what the rest of the program does to the client while call number \<open>k\<close>
  waits: when no response is in the channel afterwards, the call has timed out.
  Sleeping and the length of the poll interval are not modelled; error texts keep their fixed part.
\<close>

section \<open>Calls\<close>

definition emsgServiceMethodCallFromClientNonAuthed :: EMsg where "emsgServiceMethodCallFromClientNonAuthed = 9804"
definition emsgClientHello :: EMsg where "emsgClientHello = 9805"

definition upd_pending :: "(pending_calls \<Rightarrow> pending_calls) \<Rightarrow> Client \<Rightarrow> Client" where
  "upd_pending f c = c\<lparr>c_pending := f (c_pending c)\<rparr>"

text \<open>The response is dropped when nobody waits for it, and when one is already in the channel.\<close>

definition Authentication_HandlePacket :: "handler" where
  "Authentication_HandlePacket packet c =
     (if Packet_EMsg packet \<noteq> EMsg_ServiceMethodResponse then Ok c
      else case Mapping.lookup (c_pending c) (Packet_TargetJobId packet) of
          Some None \<Rightarrow> Ok (upd_pending (Mapping.update (Packet_TargetJobId packet) (Some packet)) c)
        | _ \<Rightarrow> Ok c)"

definition sendNoStamp :: "IMsg \<Rightarrow> Client \<Rightarrow> Client" where
  "sendNoStamp msg c = send msg c"

definition call_start :: "string \<Rightarrow> ProtoBody \<Rightarrow> Client \<Rightarrow> JobId \<times> Client" where
  "call_start svc req c =
     (case GetNextJobId c of (jobID, c) \<Rightarrow>
      let c = upd_pending (Mapping.update jobID None) c;
          msg = NewClientMsgProtobuf emsgServiceMethodCallFromClientNonAuthed req;
          msg = CMP_upd (\<lambda>h. h\<lparr>CMsgProtoBufHeader_TargetJobName := Some svc\<rparr>) msg;
          msg = CMP_SetSourceJobId jobID msg
      in (jobID, sendNoStamp (IM_Proto msg) c))"

definition call_finish :: "Env \<Rightarrow> (Env \<Rightarrow> 'b decoder) \<Rightarrow> JobId \<Rightarrow> Client \<Rightarrow> ((go_err + EResult \<times> 'b) \<times> Client) res" where
  "call_finish env un jobID c =
     (let c' = upd_pending (Mapping.delete jobID) c in
      case Mapping.lookup (c_pending c) jobID of
        Some (Some packet) \<Rightarrow> read_proto_msg env un packet (\<lambda>cm.
          Ok (Inr (CMsgProtoBufHeader_GetEresult (CMP_proto cm), CMP_Body cm), c'))
      | _ \<Rightarrow> Ok (Inl (GoErr ''steam: service method timed out''), c'))"

definition call ::
  "Env \<Rightarrow> (Env \<Rightarrow> 'b decoder) \<Rightarrow> string \<Rightarrow> ProtoBody \<Rightarrow> (Client \<Rightarrow> Client) \<Rightarrow> Client
     \<Rightarrow> ((go_err + EResult \<times> 'b) \<times> Client) res" where
  "call env un svc req between c =
     (case call_start svc req c of (jobID, c) \<Rightarrow> call_finish env un jobID (between c))"

text \<open>A call whose result is not OK ends the log-on with an error.\<close>

definition call_ok ::
  "Env \<Rightarrow> (Env \<Rightarrow> 'b decoder) \<Rightarrow> string \<Rightarrow> string \<Rightarrow> ProtoBody \<Rightarrow> (Client \<Rightarrow> Client) \<Rightarrow> Client
     \<Rightarrow> ('b \<Rightarrow> Client \<Rightarrow> ((go_err + 'r) \<times> Client) res) \<Rightarrow> ((go_err + 'r) \<times> Client) res" where
  "call_ok env un svc what req between c k =
     bind_res (call env un svc req between c) (\<lambda>(r, c). case r of
         Inl err \<Rightarrow> Ok (Inl err, c)
       | Inr (res, body) \<Rightarrow> if res \<noteq> EResult_OK then Ok (Inl (GoErr what), c) else k body c)"

section \<open>Logging on with credentials\<close>

record CredentialsAuthResult =
  Result_RefreshToken :: string
  Result_AccessToken :: string
  Result_AccountName :: string
  Result_SteamID :: u64

definition encryptPassword :: "bytes \<Rightarrow> string \<Rightarrow> string \<Rightarrow> string \<Rightarrow> string res" where
  "encryptPassword ps password modHex expHex =
     (case hex_decode modHex of
        Err err \<Rightarrow> Err (GoErr ''decode rsa modulus'') | Panic p \<Rightarrow> Panic p
      | Ok modBytes \<Rightarrow> (case hex_decode expHex of
          Err err \<Rightarrow> Err (GoErr ''decode rsa exponent'') | Panic p \<Rightarrow> Panic p
        | Ok expBytes \<Rightarrow>
            let pub = \<lparr>RSA_N = be_nat modBytes, RSA_E = nat (sint (word_of_nat (be_nat expBytes) :: i64))\<rparr> in
            (case EncryptPKCS1v15 ps pub (bytes_of password) of
               Err err \<Rightarrow> Err (GoErr ''rsa encrypt password'') | Panic p \<Rightarrow> Panic p
             | Ok enc \<Rightarrow> Ok (b64_encode enc))))"

definition begin_request :: "string \<Rightarrow> string \<Rightarrow> u64 option \<Rightarrow> CAuthentication_BeginAuthSessionViaCredentials_Request" where
  "begin_request username encPassword timestamp = NewCAuthentication_BeginAuthSessionViaCredentials_Request\<lparr>
     CAuthentication_BeginAuthSessionViaCredentials_Request_AccountName := Some username,
     CAuthentication_BeginAuthSessionViaCredentials_Request_EncryptedPassword := Some encPassword,
     CAuthentication_BeginAuthSessionViaCredentials_Request_EncryptionTimestamp := timestamp,
     CAuthentication_BeginAuthSessionViaCredentials_Request_Persistence := Some 1,
     CAuthentication_BeginAuthSessionViaCredentials_Request_WebsiteId := Some ''Client'',
     CAuthentication_BeginAuthSessionViaCredentials_Request_DeviceFriendlyName := Some (machineName username),
     CAuthentication_BeginAuthSessionViaCredentials_Request_PlatformType := Some 1,
     CAuthentication_BeginAuthSessionViaCredentials_Request_DeviceDetails := Some (NewCAuthentication_DeviceDetails\<lparr>
        CAuthentication_DeviceDetails_DeviceFriendlyName := Some (machineName username),
        CAuthentication_DeviceDetails_PlatformType := Some 1,
        CAuthentication_DeviceDetails_OsType := Some 16\<rparr>)\<rparr>"

text \<open>Only \<open>None\<close> (1) and \<open>Unknown\<close> (0) confirmations can be met without a person.\<close>

definition guard_free :: "CAuthentication_AllowedConfirmation list \<Rightarrow> bool" where
  "guard_free cs \<longleftrightarrow> list_all (\<lambda>c. CAuthentication_AllowedConfirmation_GetConfirmationType c \<in> {0, 1}) cs"

fun poll_loop ::
  "Env \<Rightarrow> string \<Rightarrow> CAuthentication_BeginAuthSessionViaCredentials_Response \<Rightarrow> (nat \<Rightarrow> Client \<Rightarrow> Client) \<Rightarrow> nat \<Rightarrow> nat
     \<Rightarrow> Client \<Rightarrow> ((go_err + CredentialsAuthResult) \<times> Client) res" where
  "poll_loop env username session between 0 attempt c =
     Ok (Inl (GoErr ''token-auth: timed out waiting for the auth session to be approved''), c)"
| "poll_loop env username session between (Suc n) attempt c =
     call_ok env un_PollAuthSession_Response ''Authentication.PollAuthSessionStatus#1'' ''PollAuthSessionStatus''
       (PB_PollAuthSessionStatus_Request (NewCAuthentication_PollAuthSessionStatus_Request\<lparr>
          CAuthentication_PollAuthSessionStatus_Request_ClientId :=
            CAuthentication_BeginAuthSessionViaCredentials_Response_ClientId session,
          CAuthentication_PollAuthSessionStatus_Request_RequestId :=
            CAuthentication_BeginAuthSessionViaCredentials_Response_RequestId session\<rparr>))
       (between attempt) c
       (\<lambda>poll c.
          if CAuthentication_PollAuthSessionStatus_Response_GetRefreshToken poll \<noteq> [] then
            (let name = CAuthentication_PollAuthSessionStatus_Response_GetAccountName poll;
                 name = (if name = [] then username else name)
             in Ok (Inr \<lparr>
                  Result_RefreshToken = CAuthentication_PollAuthSessionStatus_Response_GetRefreshToken poll,
                  Result_AccessToken = CAuthentication_PollAuthSessionStatus_Response_GetAccessToken poll,
                  Result_AccountName = name,
                  Result_SteamID = CAuthentication_BeginAuthSessionViaCredentials_Response_GetSteamid session\<rparr>, c))
          else poll_loop env username session between n (Suc attempt) c)"

definition hello :: IMsg where
  "hello = IM_Proto (NewClientMsgProtobuf emsgClientHello (PB_ClientHello
     (NewCMsgClientHello\<lparr>CMsgClientHello_ProtocolVersion := Some MsgClientLogon_CurrentProtocol\<rparr>)))"

text \<open>Steps 3 and 4: begin the session with the encrypted password, then poll.\<close>

definition begin_session ::
  "Env \<Rightarrow> (nat \<Rightarrow> Client \<Rightarrow> Client) \<Rightarrow> string \<Rightarrow> u64 option \<Rightarrow> string \<Rightarrow> Client \<Rightarrow> ((go_err + CredentialsAuthResult) \<times> Client) res" where
  "begin_session env between username timestamp encPassword c =
     call_ok env un_BeginAuthSession_Response ''Authentication.BeginAuthSessionViaCredentials#1''
       ''BeginAuthSessionViaCredentials''
       (PB_BeginAuthSessionViaCredentials_Request (begin_request username encPassword timestamp))
       (between 1) c (\<lambda>session c.
     if \<not> guard_free (CAuthentication_BeginAuthSessionViaCredentials_Response_AllowedConfirmations session)
     then Ok (Inl (GoErr ''account requires Steam Guard; token-auth needs a guard-free account''), c)
     else poll_loop env username session between 30 2 c)"

definition LogOnWithCredentials ::
  "Env \<Rightarrow> bytes \<Rightarrow> (nat \<Rightarrow> Client \<Rightarrow> Client) \<Rightarrow> string \<Rightarrow> string \<Rightarrow> Client \<Rightarrow> ((go_err + CredentialsAuthResult) \<times> Client) res" where
  "LogOnWithCredentials env ps between username password c =
     (let c = sendNoStamp hello c in
      call_ok env un_RSAPublicKey_Response ''Authentication.GetPasswordRSAPublicKey#1'' ''GetPasswordRSAPublicKey''
        (PB_GetPasswordRSAPublicKey_Request (NewCAuthentication_GetPasswordRSAPublicKey_Request\<lparr>
           CAuthentication_GetPasswordRSAPublicKey_Request_AccountName := Some username\<rparr>)) (between 0) c (\<lambda>rsaResp c.
      case encryptPassword ps password
          (CAuthentication_GetPasswordRSAPublicKey_Response_GetPublickeyMod rsaResp)
          (CAuthentication_GetPasswordRSAPublicKey_Response_GetPublickeyExp rsaResp) of
        Err err \<Rightarrow> Ok (Inl err, c)
      | Panic p \<Rightarrow> Panic p
      | Ok encPassword \<Rightarrow> begin_session env between username
          (CAuthentication_GetPasswordRSAPublicKey_Response_Timestamp rsaResp) encPassword c))"

section \<open>The contract of a handler\<close>

lemma extends_upd_pendingI [extends_intros]: "extends c c' \<Longrightarrow> extends c (upd_pending f c')"
  by (erule extends_trans) (simp add: extends_same upd_pending_def)

interpretation Authentication_handler: packet_handler Authentication_HandlePacket
  by unfold_locales (auto simp: Authentication_HandlePacket_def split: if_splits option.splits intro!: extends_intros)

section \<open>The response a call gets\<close>

lemma c_pending_ops [simp]:
  "c_pending (upd_pending f c) = f (c_pending c)" "c_pending (sendNoStamp m c) = c_pending c"
  by (simp_all add: upd_pending_def sendNoStamp_def send_def split: option.split)

text \<open>What the read loop does with the packets that arrive while a call waits.\<close>

definition deliver :: "Packet list \<Rightarrow> Client \<Rightarrow> Client" where
  "deliver = fold (\<lambda>p c. case Authentication_HandlePacket p c of Ok c' \<Rightarrow> c' | _ \<Rightarrow> c)"

definition answers :: "JobId \<Rightarrow> Packet \<Rightarrow> bool" where
  "answers job p \<longleftrightarrow> Packet_EMsg p = EMsg_ServiceMethodResponse \<and> Packet_TargetJobId p = job"

lemma deliver_pending:
  "Mapping.lookup (c_pending (deliver ps c)) job =
     (case Mapping.lookup (c_pending c) job of Some None \<Rightarrow> Some (find (answers job) ps) | x \<Rightarrow> x)"
proof (induction ps arbitrary: c)
  case (Cons p ps)
  show ?case
    using Cons.IH by (auto simp: deliver_def Authentication_HandlePacket_def answers_def lookup_update'
        split: option.splits)
qed (simp add: deliver_def split: option.splits)

lemma call_reply:
  fixes ps c
  defines "job \<equiv> c_currentJobId c + 1"
  shows "\<exists>c'. call env un svc req (deliver ps) c =
      (case find (answers job) ps of
         None \<Rightarrow> Ok (Inl (GoErr ''steam: service method timed out''), c')
       | Some p \<Rightarrow> read_proto_msg env un p (\<lambda>cm. Ok (Inr (CMsgProtoBufHeader_GetEresult (CMP_proto cm), CMP_Body cm), c')))
    \<and> Mapping.lookup (c_pending c') = (Mapping.lookup (c_pending (deliver ps c)))(job := None)"
proof -
  obtain c1 where start: "call_start svc req c = (job, c1)"
    and pending: "Mapping.lookup (c_pending c1) = (Mapping.lookup (c_pending c))(job \<mapsto> None)"
    by (simp add: call_start_def GetNextJobId_def Let_def job_def fun_eq_iff lookup_update')
  let ?c' = "upd_pending (Mapping.delete job) (deliver ps c1)"
  have "Mapping.lookup (c_pending ?c') = (Mapping.lookup (c_pending (deliver ps c)))(job := None)"
    by (rule ext) (simp add: lookup_delete_if deliver_pending pending)
  moreover have "Mapping.lookup (c_pending (deliver ps c1)) job = Some (find (answers job) ps)"
    by (simp add: deliver_pending pending)
  ultimately show ?thesis
    by (intro exI [of _ ?c']) (simp add: call_def start call_finish_def Let_def split: option.split)
qed

text \<open>
  C24: a service call gets the first response among the packets that arrive which carries its job id, however many
  follow it and whatever other responses come before; with none it times out. Afterwards its job id is
  not registered any more, and what other calls wait for is what it would be had this call not been made.\<close>

theorem service_call_reply:
  fixes ps c
  defines "job \<equiv> c_currentJobId c + 1"
  shows "\<exists>c'. call env un svc req (deliver ps) c =
      (case find (answers job) ps of
         None \<Rightarrow> Ok (Inl (GoErr ''steam: service method timed out''), c')
       | Some p \<Rightarrow> read_proto_msg env un p (\<lambda>cm. Ok (Inr (CMsgProtoBufHeader_GetEresult (CMP_proto cm), CMP_Body cm), c')))
    \<and> Mapping.lookup (c_pending c') = (Mapping.lookup (c_pending (deliver ps c)))(job := None)"
  unfolding job_def by (rule call_reply)

section \<open>The log-on as a whole\<close>

definition good_result :: "string \<Rightarrow> go_err + CredentialsAuthResult \<Rightarrow> bool" where
  "good_result username r = (case r of Inl _ \<Rightarrow> True
     | Inr t \<Rightarrow> Result_RefreshToken t \<noteq> [] \<and> (username \<noteq> [] \<longrightarrow> Result_AccountName t \<noteq> []))"

definition calls_made :: "nat \<Rightarrow> Client \<Rightarrow> Client \<Rightarrow> bool" where
  "calls_made n c c' \<longleftrightarrow> extends c c' \<and> (\<exists>k \<le> n. c_currentJobId c' = c_currentJobId c + word_of_nat k)"

text \<open>The rest of the program only extends the client while a call waits, and takes no job ids.\<close>

definition quiet :: "(Client \<Rightarrow> Client) \<Rightarrow> bool" where
  "quiet f \<longleftrightarrow> (\<forall>x. extends x (f x) \<and> c_currentJobId (f x) = c_currentJobId x)"

lemma calls_made_0: "calls_made n c c"
  by (auto simp: calls_made_def intro: exI [of _ 0])

lemma calls_made_trans: "calls_made m a b \<Longrightarrow> calls_made n b c \<Longrightarrow> calls_made (m + n) a c"
  unfolding calls_made_def by (force intro: extends_trans simp: add.assoc simp flip: of_nat_add intro!: add_mono)

lemma c_currentJobId_ops [simp]:
  "c_currentJobId (upd_pending f c) = c_currentJobId c" "c_currentJobId (sendNoStamp m c) = c_currentJobId c"
  by (simp_all add: upd_pending_def sendNoStamp_def send_def split: option.split)

lemma extends_sendNoStampI [extends_intros]: "extends c c' \<Longrightarrow> extends c (sendNoStamp m c')"
  by (simp add: sendNoStamp_def extends_sendI)

lemma call_start_made: "call_start svc req c = (job, c') \<Longrightarrow> calls_made 1 c c'"
  by (auto simp: call_start_def GetNextJobId_def Let_def calls_made_def extends_def upd_pending_def sendNoStamp_def send_def
      split: option.splits intro: exI [of _ 1])

lemma call_job:
  assumes "call env un svc req between c = Ok (r, c')" and "quiet between"
  shows "c_currentJobId c' = c_currentJobId c + 1"
proof -
  obtain job c1 where start: "call_start svc req c = (job, c1)" by fastforce
  then have "c_currentJobId c1 = c_currentJobId c + 1"
    by (auto simp: call_start_def GetNextJobId_def Let_def)
  then show ?thesis
    using assms start by (auto simp: call_def call_finish_def Let_def quiet_def elim!: read_proto_msg_OkE split: option.splits)
qed

lemma call_made:
  assumes "call env un svc req between c = Ok (r, c')" and "quiet between"
  shows "calls_made 1 c c'"
proof -
  obtain job c1 where start: "call_start svc req c = (job, c1)" by fastforce
  have "calls_made 0 c1 (upd_pending (Mapping.delete job) (between c1))"
    using assms(2) by (auto simp: calls_made_def quiet_def intro!: extends_intros)
  moreover have "c' = upd_pending (Mapping.delete job) (between c1)"
    using assms(1) start by (auto simp: call_def call_finish_def Let_def elim!: read_proto_msg_OkE split: option.splits)
  ultimately show ?thesis
    using calls_made_trans [OF call_start_made [OF start]] by fastforce
qed

lemma call_ok_made:
  assumes "call_ok env un svc what req between c k = Ok (r, c')" and "quiet between"
    and "\<And>b d. k b d = Ok (r, c') \<Longrightarrow> calls_made n d c' \<and> good_result username r"
  shows "calls_made (Suc n) c c' \<and> good_result username r"
proof -
  obtain r1 c1 where c1: "call env un svc req between c = Ok (r1, c1)"
    and k: "(case r1 of Inl err \<Rightarrow> Ok (Inl err, c1)
       | Inr (res, body) \<Rightarrow> if res \<noteq> EResult_OK then Ok (Inl (GoErr what), c1) else k body c1) = Ok (r, c')"
    using assms(1) by (auto simp: call_ok_def bind_res_Ok_iff)
  have "calls_made n c1 c' \<and> good_result username r"
    using k assms(3) by (auto simp: good_result_def intro: calls_made_0 split: sum.splits if_splits)
  then show ?thesis
    using calls_made_trans [OF call_made [OF c1 assms(2)], of n c'] by simp
qed

lemma poll_loop_made:
  assumes "\<And>i. quiet (between i)"
  shows "poll_loop env username s between n attempt c = Ok (r, c') \<Longrightarrow> calls_made n c c' \<and> good_result username r"
proof (induction n arbitrary: attempt c)
  case 0
  then show ?case by (auto simp: good_result_def intro: calls_made_0)
next
  case (Suc n)
  from Suc.prems show ?case
    unfolding poll_loop.simps
    by (rule call_ok_made [OF _ assms])
      (auto simp: good_result_def Let_def intro: calls_made_0 split: if_splits dest: Suc.IH)
qed

lemma begin_session_made:
  assumes "\<And>i. quiet (between i)" and "begin_session env between username timestamp enc c = Ok (r, c')"
  shows "calls_made 31 c c' \<and> good_result username r"
proof -
  have "calls_made (Suc 30) c c' \<and> good_result username r"
    by (rule call_ok_made [OF assms(2) [unfolded begin_session_def] assms(1)])
      (auto simp: good_result_def intro: calls_made_0 split: if_splits dest: poll_loop_made [OF assms(1)])
  then show ?thesis by simp
qed

text \<open>
  C22: logging on with credentials makes at most 32 service calls, the first message of a connected client being
  ClientHello; it keeps every event and every message, and a result that is not an error has a refresh
  token and an account name. This holds whatever the rest of the program does while it waits, as long as
  it only extends the client and takes no job ids.\<close>

theorem credentials_logon:
  assumes "LogOnWithCredentials env ps between username password c = Ok (r, c')"
    and "\<And>i. quiet (between i)" and "Connected c"
  shows "(\<exists>k \<le> 32. c_currentJobId c' = c_currentJobId c + word_of_nat k)
    \<and> (\<exists>ms. c_writeChan c' = c_writeChan c @ hello # ms) \<and> (\<exists>es. c_events c' = c_events c @ es)
    \<and> good_result username r"
proof -
  have "calls_made (Suc 31) (sendNoStamp hello c) c' \<and> good_result username r"
    by (rule call_ok_made [OF assms(1) [unfolded LogOnWithCredentials_def Let_def] assms(2)])
      (auto dest: begin_session_made [OF assms(2)] simp: good_result_def intro: calls_made_0 split: res.splits)
  then show ?thesis
    using assms(3) by (fastforce simp: calls_made_def extends_def sendNoStamp_def send_def Connected_def)
qed

section \<open>An exchange that succeeds\<close>

definition ok_header :: CMsgProtoBufHeader where
  "ok_header = NewCMsgProtoBufHeader\<lparr>CMsgProtoBufHeader_Eresult := Some EResult_OK\<rparr>"

definition demo_auth_env :: Env where
  "demo_auth_env = demo_env\<lparr>
     env_hdr := \<lparr>Marshal = (\<lambda>_. Ok []), Unmarshal = (\<lambda>_. (ok_header, None))\<rparr>,
     un_RSAPublicKey_Response := (\<lambda>_. (NewCAuthentication_GetPasswordRSAPublicKey_Response\<lparr>
        CAuthentication_GetPasswordRSAPublicKey_Response_PublickeyMod := Some ''ffffffffffffffffffffffff'',
        CAuthentication_GetPasswordRSAPublicKey_Response_PublickeyExp := Some ''03''\<rparr>, None)),
     un_PollAuthSession_Response := (\<lambda>_. (NewCAuthentication_PollAuthSessionStatus_Response\<lparr>
        CAuthentication_PollAuthSessionStatus_Response_RefreshToken := Some ''token''\<rparr>, None))\<rparr>"

definition demo_response :: "nat \<Rightarrow> Packet" where
  "demo_response i = \<lparr>Packet_EMsg = EMsg_ServiceMethodResponse, Packet_IsProto = True,
     Packet_TargetJobId = word_of_nat (Suc i), Packet_SourceJobId = 0, Packet_Data = proto_frame EMsg_ServiceMethodResponse []\<rparr>"

lemma demo_response_reads:
  "\<exists>m. ReadProtoMsg (env_hdr demo_auth_env) un (demo_response i) = Ok m \<and> CMP_Body m = fst (un []) \<and> CMP_proto m = ok_header"
proof -
  let ?c = "\<lparr>Marshal = (\<lambda>_. Ok []), Unmarshal = (\<lambda>_. (ok_header, None))\<rparr> :: hdr_codec"
  have "pb_roundtrip ?c ok_header []" by (simp add: pb_roundtrip_def)
  from MsgHdrProtoBuf_Deserialize_frame [OF this, of NewMsgHdrProtoBuf EMsg_ServiceMethodResponse "[]"]
  show ?thesis by (simp add: ReadProtoMsg_def demo_auth_env_def demo_response_def CMP_proto_def)
qed

lemma quiet_deliver: "quiet (deliver ps)"
proof (induction ps)
  case (Cons p ps)
  let ?step = "\<lambda>x. case Authentication_HandlePacket p x of Ok x' \<Rightarrow> x' | _ \<Rightarrow> x"
  have step: "extends x (?step x) \<and> c_currentJobId (?step x) = c_currentJobId x" for x
    by (auto simp: Authentication_HandlePacket_def intro!: extends_intros split: option.split)
  have "deliver (p # ps) = (\<lambda>x. deliver ps (?step x))"
    by (simp add: deliver_def comp_def)
  moreover have "extends x (deliver ps (?step x)) \<and> c_currentJobId (deliver ps (?step x)) = c_currentJobId x" for x
    using Cons step [of x] extends_trans [of x "?step x" "deliver ps (?step x)"] by (simp only: quiet_def simp_thms)
  ultimately show ?case by (simp only: quiet_def simp_thms)
qed (simp add: quiet_def deliver_def)

lemma demo_call:
  assumes "c_currentJobId c = word_of_nat i"
  shows "\<exists>c'. call demo_auth_env un svc req (deliver [demo_response i]) c = Ok (Inr (EResult_OK, fst (un demo_auth_env [])), c')
    \<and> c_currentJobId c' = word_of_nat (Suc i)"
proof -
  have "find (answers (c_currentJobId c + 1)) [demo_response i] = Some (demo_response i)"
    using assms by (simp add: answers_def demo_response_def add.commute)
  then obtain c' where c': "call demo_auth_env un svc req (deliver [demo_response i]) c =
      Ok (Inr (EResult_OK, fst (un demo_auth_env [])), c')"
    using call_reply [of demo_auth_env un svc req "[demo_response i]" c] demo_response_reads [of "un demo_auth_env" i]
    by (auto simp: read_proto_msg_def ok_header_def pb_get)
  with call_job [OF c' quiet_deliver] assms show ?thesis by (simp add: add.commute)
qed

lemma demo_call_ok:
  assumes "c_currentJobId c = word_of_nat i" and "i' = i"
    and "\<And>c'. c_currentJobId c' = word_of_nat (Suc i) \<Longrightarrow> \<exists>d. k (fst (un demo_auth_env [])) c' = Ok (r, d)"
  shows "\<exists>d. call_ok demo_auth_env un svc what req (deliver [demo_response i']) c k = Ok (r, d)"
  using demo_call [OF assms(1), of un svc req] assms(2,3) by (fastforce simp: call_ok_def)

lemma demo_password: "\<exists>enc. encryptPassword (replicate 20 1) ''p'' ''ffffffffffffffffffffffff'' ''03'' = Ok enc"
  by (simp add: encryptPassword_def EncryptPKCS1v15_def key_size_def hex_val_def Let_def bit_length.simps)

lemma demo_exchange:
  "\<exists>c'. LogOnWithCredentials demo_auth_env (replicate 20 1) (\<lambda>i. deliver [demo_response i]) ''u'' ''p'' demo_client =
     Ok (Inr \<lparr>Result_RefreshToken = ''token'', Result_AccessToken = [], Result_AccountName = ''u'', Result_SteamID = 0\<rparr>, c')"
proof -
  let ?between = "\<lambda>i. deliver [demo_response i]"
  let ?r = "Inr \<lparr>Result_RefreshToken = ''token'', Result_AccessToken = [], Result_AccountName = ''u'', Result_SteamID = 0\<rparr>"
  obtain enc where enc: "encryptPassword (replicate 20 1) ''p'' ''ffffffffffffffffffffffff'' ''03'' = Ok enc"
    using demo_password by blast
  have bodies: "fst (un_RSAPublicKey_Response demo_auth_env []) = NewCAuthentication_GetPasswordRSAPublicKey_Response\<lparr>
        CAuthentication_GetPasswordRSAPublicKey_Response_PublickeyMod := Some ''ffffffffffffffffffffffff'',
        CAuthentication_GetPasswordRSAPublicKey_Response_PublickeyExp := Some ''03''\<rparr>"
    "fst (un_BeginAuthSession_Response demo_auth_env []) = NewCAuthentication_BeginAuthSessionViaCredentials_Response"
    "fst (un_PollAuthSession_Response demo_auth_env []) = NewCAuthentication_PollAuthSessionStatus_Response\<lparr>
        CAuthentication_PollAuthSessionStatus_Response_RefreshToken := Some ''token''\<rparr>"
    by (simp_all add: demo_auth_env_def demo_env_def)
  have poll: "\<exists>d. poll_loop demo_auth_env ''u'' NewCAuthentication_BeginAuthSessionViaCredentials_Response ?between (Suc 29) 2 c
      = Ok (?r, d)" if "c_currentJobId c = word_of_nat 2" for c
    unfolding poll_loop.simps by (rule demo_call_ok [OF that refl])
      (simp add: bodies pb_get NewCAuthentication_PollAuthSessionStatus_Response_def
        NewCAuthentication_BeginAuthSessionViaCredentials_Response_def Let_def)
  have begun: "\<exists>d. begin_session demo_auth_env ?between ''u'' None enc c = Ok (?r, d)"
    if "c_currentJobId c = word_of_nat 1" for c
    unfolding begin_session_def
  proof (rule demo_call_ok [OF that refl])
    fix c' :: Client assume "c_currentJobId c' = word_of_nat (Suc 1)"
    then have "c_currentJobId c' = word_of_nat 2" by simp
    from poll [OF this] show "\<exists>d. (if \<not> guard_free (CAuthentication_BeginAuthSessionViaCredentials_Response_AllowedConfirmations
         (fst (un_BeginAuthSession_Response demo_auth_env [])))
       then Ok (Inl (GoErr ''account requires Steam Guard; token-auth needs a guard-free account''), c')
       else poll_loop demo_auth_env ''u'' (fst (un_BeginAuthSession_Response demo_auth_env [])) ?between 30 2 c') = Ok (?r, d)"
      by (simp add: bodies guard_free_def NewCAuthentication_BeginAuthSessionViaCredentials_Response_def)
  qed
  have keys: "CAuthentication_GetPasswordRSAPublicKey_Response_GetPublickeyMod (fst (un_RSAPublicKey_Response demo_auth_env []))
      = ''ffffffffffffffffffffffff''"
    "CAuthentication_GetPasswordRSAPublicKey_Response_GetPublickeyExp (fst (un_RSAPublicKey_Response demo_auth_env [])) = ''03''"
    "CAuthentication_GetPasswordRSAPublicKey_Response_Timestamp (fst (un_RSAPublicKey_Response demo_auth_env [])) = None"
    unfolding bodies by (simp_all add: CAuthentication_GetPasswordRSAPublicKey_Response_GetPublickeyMod_def
      CAuthentication_GetPasswordRSAPublicKey_Response_GetPublickeyExp_def NewCAuthentication_GetPasswordRSAPublicKey_Response_def)
  have "c_currentJobId (sendNoStamp hello demo_client) = word_of_nat 0"
    by (simp add: demo_client_def NewClient_def)
  then show ?thesis
    unfolding LogOnWithCredentials_def Let_def
    by (rule demo_call_ok [OF _ refl]) (simp only: keys enc res.case One_nat_def [symmetric] begun)
qed

theorem credentials_logon_witness:
  "\<exists>r c'. LogOnWithCredentials demo_auth_env (replicate 20 1) (\<lambda>i. deliver [demo_response i]) ''u'' ''p'' demo_client = Ok (r, c')
    \<and> \<not> (\<exists>err. r = Inl err) \<and> (\<exists>ms. c_writeChan c' = hello # ms)"
proof -
  let ?r = "Inr \<lparr>Result_RefreshToken = ''token'', Result_AccessToken = [], Result_AccountName = ''u'', Result_SteamID = 0\<rparr>"
  obtain c' where c': "LogOnWithCredentials demo_auth_env (replicate 20 1) (\<lambda>i. deliver [demo_response i]) ''u'' ''p'' demo_client =
     Ok (?r, c')"
    using demo_exchange by blast
  moreover have "c_writeChan demo_client = []" "Connected demo_client"
    by (simp_all add: demo_client_def NewClient_def Connected_def)
  ultimately show ?thesis
    using credentials_logon [OF c' quiet_deliver] by (metis append_Nil sum.distinct(1))
qed

end
