(* ===== verification/Social_Ops.thy ===== *)
theory Social_Ops
  imports Client_Env
begin

text \<open>
  \<open>social.go\<close>: what the user can do (change the persona, send messages, join, leave and moderate chat
  rooms, ask for information) and the packets that keep the friends, groups and chats up to date.
  A user operation is a function on the client that queues one message; it never changes the caches.
\<close>

section \<open>The local user\<close>

definition GetAvatar :: "Client \<Rightarrow> bytes" where "GetAvatar c = Social_avatar (c_Social c)"
definition GetPersonaName :: "Client \<Rightarrow> string" where "GetPersonaName c = Social_name (c_Social c)"
definition GetPersonaState :: "Client \<Rightarrow> EPersonaState" where "GetPersonaState c = Social_personaState (c_Social c)"

definition SetPersonaName :: "string \<Rightarrow> Client \<Rightarrow> Client" where
  "SetPersonaName name c =
     (let c = upd_Social (\<lambda>s. s\<lparr>Social_name := name\<rparr>) c in
      WriteProto EMsg_ClientChangeStatus (PB_ClientChangeStatus (NewCMsgClientChangeStatus\<lparr>
        CMsgClientChangeStatus_PersonaState := Some (Social_personaState (c_Social c)),
        CMsgClientChangeStatus_PlayerName := Some name\<rparr>)) c)"

definition SetPersonaState :: "EPersonaState \<Rightarrow> Client \<Rightarrow> Client" where
  "SetPersonaState state c =
     (let c = upd_Social (\<lambda>s. s\<lparr>Social_personaState := state\<rparr>) c in
      WriteProto EMsg_ClientChangeStatus (PB_ClientChangeStatus (NewCMsgClientChangeStatus\<lparr>
        CMsgClientChangeStatus_PersonaState := Some state\<rparr>)) c)"

section \<open>Messages, friends, chat rooms\<close>

definition SendMessage :: "steamid \<Rightarrow> EChatEntryType \<Rightarrow> string \<Rightarrow> Client \<Rightarrow> Client" where
  "SendMessage to entryType message c =
     (if GetAccountType to = EAccountType_Individual \<or> GetAccountType to = EAccountType_ConsoleUser then
        WriteProto EMsg_ClientFriendMsg (PB_ClientFriendMsg (NewCMsgClientFriendMsg\<lparr>
          CMsgClientFriendMsg_Steamid := Some (ToUint64 to),
          CMsgClientFriendMsg_ChatEntryType := Some entryType,
          CMsgClientFriendMsg_Message := Some (bytes_of message)\<rparr>)) c
      else if GetAccountType to = EAccountType_Clan \<or> GetAccountType to = EAccountType_Chat then
        WriteStruct (MB_ClientChatMsg \<lparr>
          MsgClientChatMsg_SteamIdChatter = SteamId c,
          MsgClientChatMsg_SteamIdChatRoom = ClanToChat to,
          MsgClientChatMsg_ChatMsgType = entryType\<rparr>) (bytes_of message) c
      else c)"

definition AddFriend :: "steamid \<Rightarrow> Client \<Rightarrow> Client" where
  "AddFriend i = WriteProto EMsg_ClientAddFriend (PB_ClientAddFriend (NewCMsgClientAddFriend\<lparr>
     CMsgClientAddFriend_SteamidToAdd := Some (ToUint64 i)\<rparr>))"

definition RemoveFriend :: "steamid \<Rightarrow> Client \<Rightarrow> Client" where
  "RemoveFriend i = WriteProto EMsg_ClientRemoveFriend (PB_ClientRemoveFriend (NewCMsgClientRemoveFriend\<lparr>
     CMsgClientRemoveFriend_Friendid := Some (ToUint64 i)\<rparr>))"

definition IgnoreFriend :: "steamid \<Rightarrow> bool \<Rightarrow> Client \<Rightarrow> Client" where
  "IgnoreFriend i setIgnore c =
     (let ignore = (if \<not> setIgnore then 0 else 1) in
      WriteStruct (MB_ClientSetIgnoreFriend \<lparr>
        MsgClientSetIgnoreFriend_MySteamId = SteamId c,
        MsgClientSetIgnoreFriend_SteamIdFriend = i,
        MsgClientSetIgnoreFriend_Ignore = ignore\<rparr>) [] c)"

definition RequestFriendListInfo :: "steamid list \<Rightarrow> EClientPersonaStateFlag \<Rightarrow> Client \<Rightarrow> Client" where
  "RequestFriendListInfo ids requestedInfo =
     WriteProto EMsg_ClientRequestFriendData (PB_ClientRequestFriendData (NewCMsgClientRequestFriendData\<lparr>
       CMsgClientRequestFriendData_PersonaStateRequested := Some requestedInfo,
       CMsgClientRequestFriendData_Friends := map ToUint64 ids\<rparr>))"

definition RequestFriendInfo :: "steamid \<Rightarrow> EClientPersonaStateFlag \<Rightarrow> Client \<Rightarrow> Client" where
  "RequestFriendInfo i requestedInfo = RequestFriendListInfo [i] requestedInfo"

definition RequestProfileInfo :: "steamid \<Rightarrow> Client \<Rightarrow> Client" where
  "RequestProfileInfo i = WriteProto EMsg_ClientFriendProfileInfo (PB_ClientFriendProfileInfo
     (NewCMsgClientFriendProfileInfo\<lparr>CMsgClientFriendProfileInfo_SteamidFriend := Some (ToUint64 i)\<rparr>))"

definition RequestOfflineMessages :: "Client \<Rightarrow> Client" where
  "RequestOfflineMessages = WriteProto EMsg_ClientChatGetFriendMessageHistoryForOfflineMessages
     (PB_ClientChatGetFriendMessageHistoryForOfflineMessages ())"

definition JoinChat :: "steamid \<Rightarrow> Client \<Rightarrow> Client" where
  "JoinChat i = WriteStruct (MB_ClientJoinChat \<lparr>
     MsgClientJoinChat_SteamIdChat = ClanToChat i, MsgClientJoinChat_IsVoiceSpeaker = False\<rparr>) []"

definition LeaveChat :: "steamid \<Rightarrow> Client \<Rightarrow> Client" where
  "LeaveChat i c =
     (let payload = le_bytes 8 (ToUint64 (SteamId c)) @ le_bytes 4 (EChatMemberStateChange_Left :: i32) @
                    le_bytes 8 (ToUint64 (SteamId c)) in
      WriteStruct (MB_ClientChatMemberInfo \<lparr>
        MsgClientChatMemberInfo_SteamIdChat = ClanToChat i,
        MsgClientChatMemberInfo_Type = EChatInfoType_StateChange\<rparr>) payload c)"

definition chat_action :: "EChatAction \<Rightarrow> steamid \<Rightarrow> steamid \<Rightarrow> Client \<Rightarrow> Client" where
  "chat_action a room user = WriteStruct (MB_ClientChatAction \<lparr>
     MsgClientChatAction_SteamIdChat = ClanToChat room,
     MsgClientChatAction_SteamIdUserToActOn = user,
     MsgClientChatAction_ChatAction = a\<rparr>) []"

definition KickChatMember :: "steamid \<Rightarrow> steamid \<Rightarrow> Client \<Rightarrow> Client" where
  "KickChatMember = chat_action EChatAction_Kick"
definition BanChatMember :: "steamid \<Rightarrow> steamid \<Rightarrow> Client \<Rightarrow> Client" where
  "BanChatMember = chat_action EChatAction_Ban"
definition UnbanChatMember :: "steamid \<Rightarrow> steamid \<Rightarrow> Client \<Rightarrow> Client" where
  "UnbanChatMember = chat_action EChatAction_UnBan"

section \<open>Handlers of friends\<close>

definition upd_Friends :: "(FriendsList \<Rightarrow> FriendsList) \<Rightarrow> Client \<Rightarrow> Client" where
  "upd_Friends f = upd_Social (\<lambda>s. s\<lparr>Social_Friends := f (Social_Friends s)\<rparr>)"
definition upd_Groups :: "(GroupsList \<Rightarrow> GroupsList) \<Rightarrow> Client \<Rightarrow> Client" where
  "upd_Groups f = upd_Social (\<lambda>s. s\<lparr>Social_Groups := f (Social_Groups s)\<rparr>)"
definition upd_Chats :: "(ChatsList \<Rightarrow> ChatsList) \<Rightarrow> Client \<Rightarrow> Client" where
  "upd_Chats f = upd_Social (\<lambda>s. s\<lparr>Social_Chats := f (Social_Chats s)\<rparr>)"

definition Social_handleAccountInfo :: "handler" where
  "Social_handleAccountInfo packet c =
     (let flags = EClientPersonaStateFlag_PlayerName OR EClientPersonaStateFlag_Presence OR EClientPersonaStateFlag_SourceID
      in Ok (RequestFriendInfo (SteamId c) flags c))"

definition new_friend :: "steamid \<Rightarrow> EFriendRelationship \<Rightarrow> Friend" where
  "new_friend i rel = \<lparr>Friend_SteamId = i, Friend_Name = [], Friend_Avatar = [], Friend_Relationship = rel,
     Friend_PersonaState = 0, Friend_PersonaStateFlags = 0, Friend_GameAppId = 0, Friend_GameId = 0, Friend_GameName = []\<rparr>"

definition new_group :: "steamid \<Rightarrow> EClanRelationship \<Rightarrow> Group" where
  "new_group i rel = \<lparr>Group_SteamId = i, Group_Name = [], Group_Avatar = [], Group_Relationship = rel,
     Group_MemberTotalCount = 0, Group_MemberOnlineCount = 0, Group_MemberChattingCount = 0, Group_MemberInGameCount = 0\<rparr>"

text \<open>One iteration of the loop over the entries of a friends list.\<close>

definition friends_list_entry :: "bool \<Rightarrow> CMsgClientFriendsList_Friend \<Rightarrow> Client \<Rightarrow> Client" where
  "friends_list_entry incremental friend c =
     (let steamId = CMsgClientFriendsList_Friend_GetUlfriendid friend;
          rel = CMsgClientFriendsList_Friend_GetEfriendrelationship friend;
          isClan = (GetAccountType steamId = EAccountType_Clan) in
      if isClan then
        (let c = (if rel = EClanRelationship_None then upd_Groups (Groups_Remove steamId) c
                  else upd_Groups (Groups_Add (new_group steamId rel)) c) in
         if incremental then Emit (Ev_GroupState \<lparr>GroupStateEvent_SteamId = steamId, GroupStateEvent_Relationship = rel\<rparr>) c
         else c)
      else
        (let c = (if rel = EFriendRelationship_None then upd_Friends (Friends_Remove steamId) c
                  else upd_Friends (Friends_Add (new_friend steamId rel)) c) in
         if incremental then Emit (Ev_FriendState \<lparr>FriendStateEvent_SteamId = steamId, FriendStateEvent_Relationship = rel\<rparr>) c
         else c))"

definition handleFriendsList :: "Env \<Rightarrow> handler" where
  "handleFriendsList env packet c = with_body env un_ClientFriendsList packet (\<lambda>list.
     let incremental = CMsgClientFriendsList_GetBincremental list;
         c = fold (friends_list_entry incremental) (CMsgClientFriendsList_Friends list) c in
     if \<not> incremental then
       (let friends = map CMsgClientFriendsList_Friend_GetUlfriendid (CMsgClientFriendsList_Friends list);
            c = RequestFriendListInfo friends EClientPersonaStateFlag_DefaultInfoRequest c
        in Ok (Emit Ev_FriendsList c))
     else Ok c)"

definition has_flag :: "i32 \<Rightarrow> i32 \<Rightarrow> bool" where
  "has_flag flags f \<longleftrightarrow> flags AND f = f"

definition persona_self :: "CMsgClientPersonaState_Friend \<Rightarrow> Client \<Rightarrow> Client" where
  "persona_self friend c =
     (let c = (if CMsgClientPersonaState_Friend_GetPlayerName friend \<noteq> []
               then upd_Social (\<lambda>s. s\<lparr>Social_name := CMsgClientPersonaState_Friend_GetPlayerName friend\<rparr>) c else c);
          avatar = CMsgClientPersonaState_Friend_GetAvatarHash friend in
      if ValidAvatar avatar then upd_Social (\<lambda>s. s\<lparr>Social_avatar := avatar\<rparr>) c else c)"

definition persona_friend :: "i32 \<Rightarrow> CMsgClientPersonaState_Friend \<Rightarrow> FriendsList \<Rightarrow> FriendsList" where
  "persona_friend flags friend l =
     (let i = CMsgClientPersonaState_Friend_GetFriendid friend;
          name = CMsgClientPersonaState_Friend_GetPlayerName friend;
          avatar = CMsgClientPersonaState_Friend_GetAvatarHash friend;
          l = (if has_flag flags EClientPersonaStateFlag_PlayerName \<and> name \<noteq> [] then Friends_SetName i name l else l);
          l = (if has_flag flags EClientPersonaStateFlag_Presence then
                 (let l = (if ValidAvatar avatar then Friends_SetAvatar i avatar l else l);
                      l = Friends_SetPersonaState i (CMsgClientPersonaState_Friend_GetPersonaState friend) l
                  in Friends_SetPersonaStateFlags i (CMsgClientPersonaState_Friend_GetPersonaStateFlags friend) l)
               else l)
      in if has_flag flags EClientPersonaStateFlag_GameDataBlob then
           (let l = Friends_SetGameAppId i (CMsgClientPersonaState_Friend_GetGamePlayedAppId friend) l;
                l = Friends_SetGameId i (CMsgClientPersonaState_Friend_GetGameid friend) l
            in Friends_SetGameName i (CMsgClientPersonaState_Friend_GetGameName friend) l)
         else l)"

definition persona_group :: "i32 \<Rightarrow> CMsgClientPersonaState_Friend \<Rightarrow> GroupsList \<Rightarrow> GroupsList" where
  "persona_group flags friend l =
     (let i = CMsgClientPersonaState_Friend_GetFriendid friend;
          name = CMsgClientPersonaState_Friend_GetPlayerName friend;
          avatar = CMsgClientPersonaState_Friend_GetAvatarHash friend;
          l = (if has_flag flags EClientPersonaStateFlag_PlayerName \<and> name \<noteq> [] then Groups_SetName i name l else l)
      in if has_flag flags EClientPersonaStateFlag_Presence \<and> ValidAvatar avatar then Groups_SetAvatar i avatar l else l)"

definition persona_event :: "i32 \<Rightarrow> CMsgClientPersonaState_Friend \<Rightarrow> PersonaStateEvent" where
  "persona_event flags friend = \<lparr>
     PersonaStateEvent_StatusFlags = flags,
     PersonaStateEvent_FriendId = CMsgClientPersonaState_Friend_GetFriendid friend,
     PersonaStateEvent_State = CMsgClientPersonaState_Friend_GetPersonaState friend,
     PersonaStateEvent_StateFlags = CMsgClientPersonaState_Friend_GetPersonaStateFlags friend,
     PersonaStateEvent_GameAppId = CMsgClientPersonaState_Friend_GetGamePlayedAppId friend,
     PersonaStateEvent_GameId = CMsgClientPersonaState_Friend_GetGameid friend,
     PersonaStateEvent_GameName = CMsgClientPersonaState_Friend_GetGameName friend,
     PersonaStateEvent_GameServerIp = CMsgClientPersonaState_Friend_GetGameServerIp friend,
     PersonaStateEvent_GameServerPort = CMsgClientPersonaState_Friend_GetGameServerPort friend,
     PersonaStateEvent_QueryPort = CMsgClientPersonaState_Friend_GetQueryPort friend,
     PersonaStateEvent_SourceSteamId = CMsgClientPersonaState_Friend_GetSteamidSource friend,
     PersonaStateEvent_GameDataBlob = CMsgClientPersonaState_Friend_GetGameDataBlob friend,
     PersonaStateEvent_Name = CMsgClientPersonaState_Friend_GetPlayerName friend,
     PersonaStateEvent_Avatar = CMsgClientPersonaState_Friend_GetAvatarHash friend,
     PersonaStateEvent_LastLogOff = CMsgClientPersonaState_Friend_GetLastLogoff friend,
     PersonaStateEvent_LastLogOn = CMsgClientPersonaState_Friend_GetLastLogon friend,
     PersonaStateEvent_ClanRank = CMsgClientPersonaState_Friend_GetClanRank friend,
     PersonaStateEvent_ClanTag = CMsgClientPersonaState_Friend_GetClanTag friend,
     PersonaStateEvent_OnlineSessionInstances = CMsgClientPersonaState_Friend_GetOnlineSessionInstances friend,
     PersonaStateEvent_PersonaSetByUser = CMsgClientPersonaState_Friend_GetPersonaSetByUser friend,
     PersonaStateEvent_RichPresence = CMsgClientPersonaState_Friend_RichPresence friend\<rparr>"

definition persona_entry :: "i32 \<Rightarrow> CMsgClientPersonaState_Friend \<Rightarrow> Client \<Rightarrow> Client" where
  "persona_entry flags friend c =
     (let i = CMsgClientPersonaState_Friend_GetFriendid friend;
          c = (if i = SteamId c then persona_self friend c
               else if GetAccountType i = EAccountType_Individual then upd_Friends (persona_friend flags friend) c
               else if GetAccountType i = EAccountType_Clan then upd_Groups (persona_group flags friend) c
               else c)
      in Emit (Ev_PersonaState (persona_event flags friend)) c)"

definition handlePersonaState :: "Env \<Rightarrow> handler" where
  "handlePersonaState env packet c = with_body env un_ClientPersonaState packet (\<lambda>list.
     let flags = CMsgClientPersonaState_GetStatusFlags list in
     Ok (fold (persona_entry flags) (CMsgClientPersonaState_Friends list) c))"

section \<open>Handlers of clans and messages\<close>

definition clan_event :: "CMsgClientClanState_Event \<Rightarrow> ClanEventDetails" where
  "clan_event e = \<lparr>
     ClanEventDetails_Id = CMsgClientClanState_Event_GetGid e,
     ClanEventDetails_EventTime = CMsgClientClanState_Event_GetEventTime e,
     ClanEventDetails_Headline = CMsgClientClanState_Event_GetHeadline e,
     ClanEventDetails_GameId = CMsgClientClanState_Event_GetGameId e,
     ClanEventDetails_JustPosted = CMsgClientClanState_Event_GetJustPosted e\<rparr>"

definition handleClanState :: "Env \<Rightarrow> handler" where
  "handleClanState env packet c = with_body env un_ClientClanState packet (\<lambda>body.
     let (name, avatar) = (case CMsgClientClanState_NameInfo body of
            None \<Rightarrow> ([], [])
          | Some i \<Rightarrow> (CMsgClientClanState_NameInfo_GetClanName i, CMsgClientClanState_NameInfo_GetShaAvatar i));
         (total, online, chatting, ingame) = (case CMsgClientClanState_UserCounts body of
            None \<Rightarrow> (0, 0, 0, 0)
          | Some u \<Rightarrow> (CMsgClientClanState_UserCounts_GetMembers u, CMsgClientClanState_UserCounts_GetOnline u,
                       CMsgClientClanState_UserCounts_GetChatting u, CMsgClientClanState_UserCounts_GetInGame u));
         clanid = CMsgClientClanState_GetSteamidClan body;
         c = (if CMsgClientClanState_NameInfo body \<noteq> None
              then upd_Groups (Groups_SetAvatar clanid avatar) (upd_Groups (Groups_SetName clanid name) c) else c);
         c = (if CMsgClientClanState_UserCounts body \<noteq> None
              then upd_Groups (\<lambda>l. Groups_SetMemberInGameCount clanid ingame
                     (Groups_SetMemberChattingCount clanid chatting
                     (Groups_SetMemberOnlineCount clanid online
                     (Groups_SetMemberTotalCount clanid total l)))) c else c)
     in Ok (Emit (Ev_ClanState \<lparr>
          ClanStateEvent_ClanId = clanid,
          ClanStateEvent_AccountFlags = CMsgClientClanState_GetClanAccountFlags body,
          ClanStateEvent_ClanName = name, ClanStateEvent_Avatar = avatar,
          ClanStateEvent_MemberTotalCount = total, ClanStateEvent_MemberOnlineCount = online,
          ClanStateEvent_MemberChattingCount = chatting, ClanStateEvent_MemberInGameCount = ingame,
          ClanStateEvent_Events = map clan_event (CMsgClientClanState_Events body),
          ClanStateEvent_Announcements = map clan_event (CMsgClientClanState_Announcements body)\<rparr>) c))"

definition handleFriendResponse :: "Env \<Rightarrow> handler" where
  "handleFriendResponse env packet c = with_body env un_ClientAddFriendResponse packet (\<lambda>body.
     Ok (Emit (Ev_FriendAdded \<lparr>
       FriendAddedEvent_Result = CMsgClientAddFriendResponse_GetEresult body,
       FriendAddedEvent_SteamId = CMsgClientAddFriendResponse_GetSteamIdAdded body,
       FriendAddedEvent_PersonaName = CMsgClientAddFriendResponse_GetPersonaNameAdded body\<rparr>) c))"

text \<open>\<^verbatim>\<open>string(bytes.Split(b, []byte{0x0})[0])\<close>\<close>

definition up_to_zero :: "bytes \<Rightarrow> string" where
  "up_to_zero b = string_of (takeWhile (\<lambda>x. x \<noteq> 0) b)"

definition handleFriendMsg :: "Env \<Rightarrow> handler" where
  "handleFriendMsg env packet c = with_body env un_ClientFriendMsgIncoming packet (\<lambda>body.
     Ok (Emit (Ev_ChatMsg \<lparr>
       ChatMsgEvent_ChatRoomId = 0,
       ChatMsgEvent_ChatterId = CMsgClientFriendMsgIncoming_GetSteamidFrom body,
       ChatMsgEvent_Message = up_to_zero (CMsgClientFriendMsgIncoming_GetMessage body),
       ChatMsgEvent_EntryType = CMsgClientFriendMsgIncoming_GetChatEntryType body,
       ChatMsgEvent_Timestamp = Some (ucast (CMsgClientFriendMsgIncoming_GetRtime32ServerTimestamp body)),
       ChatMsgEvent_Offline = False\<rparr>) c))"

definition handleChatMsg :: "handler" where
  "handleChatMsg packet c =
     (let msg = ReadClientMsg MsgClientChatMsg_Deserialize
            \<lparr>MsgClientChatMsg_SteamIdChatter = 0, MsgClientChatMsg_SteamIdChatRoom = 0, MsgClientChatMsg_ChatMsgType = 0\<rparr> packet;
          body = CM_Body msg; message = up_to_zero (CM_Payload msg)
      in Ok (Emit (Ev_ChatMsg \<lparr>
           ChatMsgEvent_ChatRoomId = MsgClientChatMsg_SteamIdChatRoom body,
           ChatMsgEvent_ChatterId = MsgClientChatMsg_SteamIdChatter body,
           ChatMsgEvent_Message = message,
           ChatMsgEvent_EntryType = MsgClientChatMsg_ChatMsgType body,
           ChatMsgEvent_Timestamp = None, ChatMsgEvent_Offline = False\<rparr>) c))"

section \<open>Handlers of chat rooms\<close>

text \<open>\<open>readChatMember\<close> drops every error, so at the end of the payload it reads zeroes.\<close>

definition readChatMember :: "bytes \<Rightarrow> (steamid \<times> EChatPermission \<times> EClanPermission) \<times> bytes" where
  "readChatMember r =
     (let (_, _, r) = ReadString r; (_, _, r) = ReadByte r; (_, _, r) = ReadString r;
          (i, _, r) = ReadUint64 r; (_, _, r) = ReadByte r; (_, _, r) = ReadString r;
          (chat, _, r) = ReadInt32 r; (_, _, r) = ReadByte r; (_, _, r) = ReadString r;
          (clan, _, r) = ReadInt32 r
      in ((i, chat, clan), r))"

definition chat_member_of :: "steamid \<Rightarrow> EChatPermission \<Rightarrow> EClanPermission \<Rightarrow> ChatMember" where
  "chat_member_of i chat clan =
     \<lparr>ChatMember_SteamId = i, ChatMember_ChatPermissions = chat, ChatMember_ClanPermissions = clan\<rparr>"

definition skip_bytes :: "nat \<Rightarrow> bytes \<Rightarrow> bytes" where
  "skip_bytes n r = (case ReadBytes r (word_of_nat n) of Ok (_, _, r') \<Rightarrow> r' | _ \<Rightarrow> r)"

fun chat_enter_loop :: "steamid \<Rightarrow> nat \<Rightarrow> bytes \<Rightarrow> ChatsList \<Rightarrow> ChatsList" where
  "chat_enter_loop chatId 0 r l = l"
| "chat_enter_loop chatId (Suc n) r l =
     (case readChatMember r of ((i, chatPerm, clanPerm), r) \<Rightarrow>
        chat_enter_loop chatId n (skip_bytes 6 r) (AddChatMember chatId (chat_member_of i chatPerm clanPerm) l))"

definition zero_MsgClientChatEnter :: MsgClientChatEnter where
  "zero_MsgClientChatEnter = \<lparr>MsgClientChatEnter_SteamIdChat = 0, MsgClientChatEnter_SteamIdFriend = 0,
     MsgClientChatEnter_ChatRoomType = 0, MsgClientChatEnter_SteamIdOwner = 0, MsgClientChatEnter_SteamIdClan = 0,
     MsgClientChatEnter_ChatFlags = 0, MsgClientChatEnter_EnterResponse = 0, MsgClientChatEnter_NumMembers = 0\<rparr>"

definition handleChatEnter :: "handler" where
  "handleChatEnter packet c =
     (let msg = ReadClientMsg MsgClientChatEnter_Deserialize zero_MsgClientChatEnter packet;
          body = CM_Body msg;
          (name, _, reader) = ReadString (CM_Payload msg);
          (_, _, reader) = ReadByte reader;
          count = MsgClientChatEnter_NumMembers body;
          chatId = MsgClientChatEnter_SteamIdChat body;
          clanId = MsgClientChatEnter_SteamIdClan body;
          c = upd_Chats (Chats_Add \<lparr>Chat_SteamId = chatId, Chat_GroupId = clanId, Chat_ChatMembers = None\<rparr>) c;
          c = upd_Chats (chat_enter_loop chatId (nat (sint count)) reader) c
      in Ok (Emit (Ev_ChatEnter \<lparr>
           ChatEnterEvent_ChatRoomId = MsgClientChatEnter_SteamIdChat body,
           ChatEnterEvent_FriendId = MsgClientChatEnter_SteamIdFriend body,
           ChatEnterEvent_ChatRoomType = MsgClientChatEnter_ChatRoomType body,
           ChatEnterEvent_OwnerId = MsgClientChatEnter_SteamIdOwner body,
           ChatEnterEvent_ClanId = MsgClientChatEnter_SteamIdClan body,
           ChatEnterEvent_ChatFlags = MsgClientChatEnter_ChatFlags body,
           ChatEnterEvent_EnterResponse = MsgClientChatEnter_EnterResponse body,
           ChatEnterEvent_Name = name\<rparr>) c))"

definition handleChatMemberInfo :: "handler" where
  "handleChatMemberInfo packet c =
     (let msg = ReadClientMsg MsgClientChatMemberInfo_Deserialize
            \<lparr>MsgClientChatMemberInfo_SteamIdChat = 0, MsgClientChatMemberInfo_Type = 0\<rparr> packet;
          body = CM_Body msg;
          chatId = MsgClientChatMemberInfo_SteamIdChat body in
      if MsgClientChatMemberInfo_Type body = EChatInfoType_StateChange then
        (let (actedOn, _, reader) = ReadUint64 (CM_Payload msg);
             (state, _, reader) = ReadInt32 reader;
             (actedBy, _, reader) = ReadUint64 reader;
             (_, _, reader) = ReadByte reader;
             c = (if state = EChatMemberStateChange_Entered then
                    (case readChatMember reader of ((_, chatPerm, clanPerm), _) \<Rightarrow>
                       upd_Chats (AddChatMember chatId (chat_member_of actedOn chatPerm clanPerm)) c)
                  else if state = EChatMemberStateChange_Banned \<or> state = EChatMemberStateChange_Kicked \<or>
                          state = EChatMemberStateChange_Disconnected \<or> state = EChatMemberStateChange_Left
                  then upd_Chats (RemoveChatMember chatId actedOn) c
                  else c)
         in Ok (Emit (Ev_ChatMemberInfo \<lparr>
              ChatMemberInfoEvent_ChatRoomId = MsgClientChatMemberInfo_SteamIdChat body,
              ChatMemberInfoEvent_Type = MsgClientChatMemberInfo_Type body,
              ChatMemberInfoEvent_StateChangeInfo = \<lparr>StateChangeDetails_ChatterActedOn = actedOn,
                StateChangeDetails_StateChange = state, StateChangeDetails_ChatterActedBy = actedBy\<rparr>\<rparr>) c))
      else Ok c)"

definition handleChatActionResult :: "handler" where
  "handleChatActionResult packet c =
     (let body = CM_Body (ReadClientMsg MsgClientChatActionResult_Deserialize
            \<lparr>MsgClientChatActionResult_SteamIdChat = 0, MsgClientChatActionResult_SteamIdUserActedOn = 0,
             MsgClientChatActionResult_ChatAction = 0, MsgClientChatActionResult_ActionResult = 0\<rparr> packet)
      in Ok (Emit (Ev_ChatActionResult \<lparr>
           ChatActionResultEvent_ChatRoomId = MsgClientChatActionResult_SteamIdChat body,
           ChatActionResultEvent_ChatterId = MsgClientChatActionResult_SteamIdUserActedOn body,
           ChatActionResultEvent_Action = MsgClientChatActionResult_ChatAction body,
           ChatActionResultEvent_Result = MsgClientChatActionResult_ActionResult body\<rparr>) c))"

definition handleChatInvite :: "Env \<Rightarrow> handler" where
  "handleChatInvite env packet c = with_body env un_ClientChatInvite packet (\<lambda>body.
     Ok (Emit (Ev_ChatInvite \<lparr>
       ChatInviteEvent_InvitedId = CMsgClientChatInvite_GetSteamIdInvited body,
       ChatInviteEvent_ChatRoomId = CMsgClientChatInvite_GetSteamIdChat body,
       ChatInviteEvent_PatronId = CMsgClientChatInvite_GetSteamIdPatron body,
       ChatInviteEvent_ChatRoomType = CMsgClientChatInvite_GetChatroomType body,
       ChatInviteEvent_FriendChatId = CMsgClientChatInvite_GetSteamIdFriendChat body,
       ChatInviteEvent_ChatRoomName = CMsgClientChatInvite_GetChatName body,
       ChatInviteEvent_GameId = CMsgClientChatInvite_GetGameId body\<rparr>) c))"

definition handleIgnoreFriendResponse :: "handler" where
  "handleIgnoreFriendResponse packet c =
     (let body = CM_Body (ReadClientMsg MsgClientSetIgnoreFriendResponse_Deserialize
            \<lparr>MsgClientSetIgnoreFriendResponse_FriendId = 0, MsgClientSetIgnoreFriendResponse_Result = 0\<rparr> packet)
      in Ok (Emit (Ev_IgnoreFriend \<lparr>IgnoreFriendEvent_Result = MsgClientSetIgnoreFriendResponse_Result body\<rparr>) c))"

definition handleProfileInfoResponse :: "Env \<Rightarrow> handler" where
  "handleProfileInfoResponse env packet c = with_body env un_ClientFriendProfileInfoResponse packet (\<lambda>body.
     Ok (Emit (Ev_ProfileInfo \<lparr>
       ProfileInfoEvent_Result = CMsgClientFriendProfileInfoResponse_GetEresult body,
       ProfileInfoEvent_SteamId = CMsgClientFriendProfileInfoResponse_GetSteamidFriend body,
       ProfileInfoEvent_TimeCreated = CMsgClientFriendProfileInfoResponse_GetTimeCreated body,
       ProfileInfoEvent_RealName = CMsgClientFriendProfileInfoResponse_GetRealName body,
       ProfileInfoEvent_CityName = CMsgClientFriendProfileInfoResponse_GetCityName body,
       ProfileInfoEvent_StateName = CMsgClientFriendProfileInfoResponse_GetStateName body,
       ProfileInfoEvent_CountryName = CMsgClientFriendProfileInfoResponse_GetCountryName body,
       ProfileInfoEvent_Headline = CMsgClientFriendProfileInfoResponse_GetHeadline body,
       ProfileInfoEvent_Summary = CMsgClientFriendProfileInfoResponse_GetSummary body\<rparr>) c))"

definition history_entry ::
  "steamid \<Rightarrow> CMsgClientChatGetFriendMessageHistoryResponse_FriendMessage \<Rightarrow> Client \<Rightarrow> Client" where
  "history_entry i message c =
     (if \<not> CMsgClientChatGetFriendMessageHistoryResponse_FriendMessage_GetUnread message then c
      else Emit (Ev_ChatMsg \<lparr>
        ChatMsgEvent_ChatRoomId = 0, ChatMsgEvent_ChatterId = i,
        ChatMsgEvent_Message = CMsgClientChatGetFriendMessageHistoryResponse_FriendMessage_GetMessage message,
        ChatMsgEvent_EntryType = EChatEntryType_ChatMsg,
        ChatMsgEvent_Timestamp = Some (ucast (CMsgClientChatGetFriendMessageHistoryResponse_FriendMessage_GetTimestamp message)),
        ChatMsgEvent_Offline = True\<rparr>) c)"

definition handleFriendMessageHistoryResponse :: "Env \<Rightarrow> handler" where
  "handleFriendMessageHistoryResponse env packet c = with_body env un_FriendMessageHistoryResponse packet (\<lambda>body.
     Ok (fold (history_entry (CMsgClientChatGetFriendMessageHistoryResponse_GetSteamid body))
           (CMsgClientChatGetFriendMessageHistoryResponse_Messages body) c))"

definition Social_HandlePacket :: "Env \<Rightarrow> handler" where
  "Social_HandlePacket env packet c =
     (let e = Packet_EMsg packet in
      if e = EMsg_ClientPersonaState then handlePersonaState env packet c
      else if e = EMsg_ClientClanState then handleClanState env packet c
      else if e = EMsg_ClientFriendsList then handleFriendsList env packet c
      else if e = EMsg_ClientFriendMsgIncoming then handleFriendMsg env packet c
      else if e = EMsg_ClientAccountInfo then Social_handleAccountInfo packet c
      else if e = EMsg_ClientAddFriendResponse then handleFriendResponse env packet c
      else if e = EMsg_ClientChatEnter then handleChatEnter packet c
      else if e = EMsg_ClientChatMsg then handleChatMsg packet c
      else if e = EMsg_ClientChatMemberInfo then handleChatMemberInfo packet c
      else if e = EMsg_ClientChatActionResult then handleChatActionResult packet c
      else if e = EMsg_ClientChatInvite then handleChatInvite env packet c
      else if e = EMsg_ClientSetIgnoreFriendResponse then handleIgnoreFriendResponse packet c
      else if e = EMsg_ClientFriendProfileInfoResponse then handleProfileInfoResponse env packet c
      else if e = EMsg_ClientFSGetFriendMessageHistoryResponse then handleFriendMessageHistoryResponse env packet c
      else Ok c)"

section \<open>The contract of a handler\<close>

lemma extends_upd_lists [extends_intros]:
  "extends c c' \<Longrightarrow> extends c (upd_Friends f c')" "extends c c' \<Longrightarrow> extends c (upd_Groups g c')"
  "extends c c' \<Longrightarrow> extends c (upd_Chats h c')"
  by (simp_all add: upd_Friends_def upd_Groups_def upd_Chats_def extends_upd_SocialI)

lemma extends_foldI [extends_intros]:
  "(\<And>x d. extends d (f x d)) \<Longrightarrow> extends c c' \<Longrightarrow> extends c (fold f xs c')"
proof (induction xs arbitrary: c')
  case (Cons x xs)
  then show ?case using extends_trans [of c c' "f x c'"] by simp
qed simp

lemma social_entries_extend:
  "extends d (friends_list_entry i f d)" "extends d (persona_entry fl g d)" "extends d (history_entry s m d)"
  by (auto simp: friends_list_entry_def persona_entry_def persona_self_def history_entry_def Let_def
      intro!: extends_intros)

lemma Social_friend_handlers_extend:
  "Social_handleAccountInfo p c = Ok c' \<Longrightarrow> extends c c'"
  "handleFriendsList env p c = Ok c' \<Longrightarrow> extends c c'"
  "handlePersonaState env p c = Ok c' \<Longrightarrow> extends c c'"
  "handleFriendResponse env p c = Ok c' \<Longrightarrow> extends c c'"
  "handleFriendMsg env p c = Ok c' \<Longrightarrow> extends c c'"
  "handleProfileInfoResponse env p c = Ok c' \<Longrightarrow> extends c c'"
  "handleFriendMessageHistoryResponse env p c = Ok c' \<Longrightarrow> extends c c'"
  by (auto simp: Social_handleAccountInfo_def handleFriendsList_def handlePersonaState_def handleFriendResponse_def
      handleFriendMsg_def handleProfileInfoResponse_def handleFriendMessageHistoryResponse_def
      RequestFriendInfo_def RequestFriendListInfo_def Let_def
      intro!: extends_intros social_entries_extend elim!: with_body_OkE split: if_splits)

lemma Social_clan_chat_handlers_extend:
  "handleClanState env p c = Ok c' \<Longrightarrow> extends c c'"
  "handleChatMsg p c = Ok c' \<Longrightarrow> extends c c'"
  "handleChatEnter p c = Ok c' \<Longrightarrow> extends c c'"
  "handleChatMemberInfo p c = Ok c' \<Longrightarrow> extends c c'"
  "handleChatActionResult p c = Ok c' \<Longrightarrow> extends c c'"
  "handleChatInvite env p c = Ok c' \<Longrightarrow> extends c c'"
  "handleIgnoreFriendResponse p c = Ok c' \<Longrightarrow> extends c c'"
  by (auto simp: handleClanState_def handleChatMsg_def handleChatEnter_def handleChatMemberInfo_def
      handleChatActionResult_def handleChatInvite_def handleIgnoreFriendResponse_def Let_def
      intro!: extends_intros elim!: with_body_OkE split: if_splits prod.splits option.splits)

interpretation Social_handler: packet_handler "Social_HandlePacket env" for env
  by unfold_locales (auto simp: Social_HandlePacket_def Let_def
      dest: Social_friend_handlers_extend Social_clan_chat_handlers_extend split: if_splits)

section \<open>The invariant of the caches\<close>

text \<open>
  Friends and groups are filed under their own identifier, a group is a clan and a friend is not, and
  the chat list is well-formed.
\<close>

definition social_wf :: "Social \<Rightarrow> bool" where
  "social_wf s \<longleftrightarrow> friends_cache.keyed (Social_Friends s) \<and> groups_cache.keyed (Social_Groups s) \<and> chats_wf (Social_Chats s)
     \<and> (\<forall>i v. Mapping.lookup (Social_Friends s) i = Some v \<longrightarrow> GetAccountType i \<noteq> EAccountType_Clan)
     \<and> (\<forall>i v. Mapping.lookup (Social_Groups s) i = Some v \<longrightarrow> GetAccountType i = EAccountType_Clan)"

definition client_wf :: "Client \<Rightarrow> bool" where
  "client_wf c \<longleftrightarrow> social_wf (c_Social c)"

named_theorems wf_intros \<open>steps that keep the caches well-formed\<close>

lemma c_Social_ops [simp]:
  "c_Social (Emit e c) = c_Social c" "c_Social (send m c) = c_Social c" "c_Social (Write m c) = c_Social c"
  "c_Social (WriteProto em b c) = c_Social c" "c_Social (WriteStruct mb p c) = c_Social c"
  by (simp_all add: Emit_def send_def Write_def WriteProto_def WriteStruct_def split: option.split)

lemma client_wf_ops [wf_intros]:
  "client_wf c \<Longrightarrow> client_wf (Emit e c)" "client_wf c \<Longrightarrow> client_wf (WriteProto em b c)"
  by (simp_all add: client_wf_def)

lemma client_wf_upd_self [wf_intros]:
  "client_wf c \<Longrightarrow> client_wf (upd_Social (\<lambda>s. s\<lparr>Social_name := n\<rparr>) c)"
  "client_wf c \<Longrightarrow> client_wf (upd_Social (\<lambda>s. s\<lparr>Social_avatar := a\<rparr>) c)"
  by (simp_all add: client_wf_def social_wf_def upd_Social_def)

text \<open>Updates of entries: the identifier of an entry stays, and no entry appears.\<close>

definition friends_le :: "FriendsList \<Rightarrow> FriendsList \<Rightarrow> bool" where
  "friends_le l l' \<longleftrightarrow> (friends_cache.keyed l \<longrightarrow> friends_cache.keyed l')
     \<and> (\<forall>i. Mapping.lookup l i = None \<longrightarrow> Mapping.lookup l' i = None)"

definition groups_le :: "GroupsList \<Rightarrow> GroupsList \<Rightarrow> bool" where
  "groups_le l l' \<longleftrightarrow> (groups_cache.keyed l \<longrightarrow> groups_cache.keyed l')
     \<and> (\<forall>i. Mapping.lookup l i = None \<longrightarrow> Mapping.lookup l' i = None)"

lemma client_wf_updates [wf_intros]:
  "(\<And>l. friends_le l (f l)) \<Longrightarrow> client_wf c \<Longrightarrow> client_wf (upd_Friends f c)"
  "(\<And>l. groups_le l (g l)) \<Longrightarrow> client_wf c \<Longrightarrow> client_wf (upd_Groups g c)"
  by (auto simp: client_wf_def social_wf_def upd_Friends_def upd_Groups_def upd_Social_def friends_le_def groups_le_def)
    (metis option.exhaust)+

lemma le_refl [wf_intros]: "friends_le l l" "groups_le m m"
  by (simp_all add: friends_le_def groups_le_def)

lemma friends_le_set: "(\<And>v. Friend_SteamId (f v) = Friend_SteamId v) \<Longrightarrow> friends_le l l' \<Longrightarrow> friends_le l (set_field i f l')"
  by (auto simp: friends_le_def intro!: friends_cache.keyed_upd)

lemma groups_le_set: "(\<And>v. Group_SteamId (f v) = Group_SteamId v) \<Longrightarrow> groups_le l l' \<Longrightarrow> groups_le l (set_group i f l')"
  by (auto simp: groups_le_def groups_cache.find_upd intro!: groups_cache.keyed_upd)

lemma friends_le_setters [wf_intros]:
  assumes "friends_le l l'"
  shows "friends_le l (Friends_SetName i n l')" "friends_le l (Friends_SetAvatar i a l')"
    "friends_le l (Friends_SetRelationship i r l')" "friends_le l (Friends_SetPersonaState i s l')"
    "friends_le l (Friends_SetPersonaStateFlags i fl l')" "friends_le l (Friends_SetGameAppId i g l')"
    "friends_le l (Friends_SetGameId i gi l')" "friends_le l (Friends_SetGameName i gn l')"
  using assms by (simp_all add: Friends_setters friends_le_set)

lemma groups_le_setters [wf_intros]:
  assumes "groups_le l l'"
  shows "groups_le l (Groups_SetName i n l')" "groups_le l (Groups_SetAvatar i a l')"
    "groups_le l (Groups_SetMemberTotalCount i m l')" "groups_le l (Groups_SetMemberOnlineCount i m l')"
    "groups_le l (Groups_SetMemberChattingCount i m l')" "groups_le l (Groups_SetMemberInGameCount i m l')"
  using assms by (simp_all add: Groups_setters groups_le_set)

lemma le_if:
  "friends_le l x \<Longrightarrow> friends_le l y \<Longrightarrow> friends_le l (if b then x else y)"
  "groups_le m u \<Longrightarrow> groups_le m v \<Longrightarrow> groups_le m (if b then u else v)"
  by simp_all

lemma persona_friend_le [wf_intros]: "friends_le l (persona_friend flags friend l)"
  unfolding persona_friend_def Let_def by (intro le_if friends_le_setters le_refl)

lemma persona_group_le [wf_intros]: "groups_le l (persona_group flags friend l)"
  unfolding persona_group_def Let_def by (intro le_if groups_le_setters le_refl)

text \<open>Entries of a friends list add and remove; chats change as their list allows.\<close>

lemma client_wf_friend [wf_intros]:
  assumes "client_wf c"
  shows "GetAccountType i \<noteq> EAccountType_Clan \<Longrightarrow> client_wf (upd_Friends (Friends_Add (new_friend i r)) c)"
    and "client_wf (upd_Friends (Friends_Remove i) c)"
    and "GetAccountType i = EAccountType_Clan \<Longrightarrow> client_wf (upd_Groups (Groups_Add (new_group i g)) c)"
    and "client_wf (upd_Groups (Groups_Remove i) c)"
  using assms
  by (auto simp: client_wf_def social_wf_def upd_Friends_def upd_Groups_def upd_Social_def new_friend_def new_group_def
      friends_cache.find_add friends_cache.find_remove groups_cache.find_add groups_cache.find_remove
      intro!: friends_cache.keyed_add friends_cache.keyed_remove groups_cache.keyed_add groups_cache.keyed_remove
      split: if_splits)

lemma client_wf_chats [wf_intros]:
  assumes "client_wf c" and "\<And>l. chats_wf l \<Longrightarrow> chats_wf (f l)"
  shows "client_wf (upd_Chats f c)"
  using assms by (simp add: client_wf_def social_wf_def upd_Chats_def upd_Social_def)

lemma chats_wf_chat_enter_loop: "chats_wf l \<Longrightarrow> chats_wf (chat_enter_loop i n r l)"
  by (induction n arbitrary: r l) (auto simp: chats_wf_AddChatMember split: prod.split)

lemma client_wf_fold [wf_intros]:
  "(\<And>x d. client_wf d \<Longrightarrow> client_wf (f x d)) \<Longrightarrow> client_wf c \<Longrightarrow> client_wf (fold f xs c)"
  by (induction xs arbitrary: c) simp_all

lemma client_wf_entries [wf_intros]:
  assumes "client_wf d"
  shows "client_wf (friends_list_entry i f d)" and "client_wf (persona_entry fl g d)" and "client_wf (history_entry s m d)"
  using assms by (auto simp: friends_list_entry_def persona_entry_def persona_self_def history_entry_def Let_def
      intro!: wf_intros)

lemma Social_friend_handlers_wf:
  assumes "client_wf c"
  shows "Social_handleAccountInfo p c = Ok c' \<Longrightarrow> client_wf c'"
    "handleFriendsList env p c = Ok c' \<Longrightarrow> client_wf c'"
    "handlePersonaState env p c = Ok c' \<Longrightarrow> client_wf c'"
    "handleFriendResponse env p c = Ok c' \<Longrightarrow> client_wf c'"
    "handleFriendMsg env p c = Ok c' \<Longrightarrow> client_wf c'"
    "handleProfileInfoResponse env p c = Ok c' \<Longrightarrow> client_wf c'"
    "handleFriendMessageHistoryResponse env p c = Ok c' \<Longrightarrow> client_wf c'"
  using assms by (auto simp: Social_handleAccountInfo_def handleFriendsList_def handlePersonaState_def handleFriendResponse_def
      handleFriendMsg_def handleProfileInfoResponse_def handleFriendMessageHistoryResponse_def
      RequestFriendInfo_def RequestFriendListInfo_def Let_def
      intro!: wf_intros elim!: with_body_OkE split: if_splits)

lemma Social_clan_chat_handlers_wf:
  assumes "client_wf c"
  shows "handleClanState env p c = Ok c' \<Longrightarrow> client_wf c'"
    "handleChatMsg p c = Ok c' \<Longrightarrow> client_wf c'"
    "handleChatEnter p c = Ok c' \<Longrightarrow> client_wf c'"
    "handleChatMemberInfo p c = Ok c' \<Longrightarrow> client_wf c'"
    "handleChatActionResult p c = Ok c' \<Longrightarrow> client_wf c'"
    "handleChatInvite env p c = Ok c' \<Longrightarrow> client_wf c'"
    "handleIgnoreFriendResponse p c = Ok c' \<Longrightarrow> client_wf c'"
  using assms by (auto simp: handleClanState_def handleChatMsg_def handleChatEnter_def handleChatMemberInfo_def
      handleChatActionResult_def handleChatInvite_def handleIgnoreFriendResponse_def Let_def
      chats_wf_AddChatMember chats_wf_RemoveChatMember chats_wf_chat_enter_loop chats_wf_add
      intro!: wf_intros elim!: with_body_OkE split: if_splits prod.splits option.splits)

lemma Social_keeps_wf:
  assumes "client_wf c" and "Social_HandlePacket env p c = Ok c'"
  shows "client_wf c'"
  using assms unfolding Social_HandlePacket_def Let_def
  by (auto split: if_splits dest: Social_friend_handlers_wf Social_clan_chat_handlers_wf)

text \<open>
  whatever packet the social component is given, the caches stay well-formed: every friend and group is
  filed under its own identifier, groups are exactly the clans, no friend is one, and the chat
  rooms keep separate member maps.\<close>

theorem social_invariant:
  assumes "client_wf c" and "Social_HandlePacket env p c = Ok c'"
  shows "client_wf c'"
  by (rule Social_keeps_wf [OF assms])

lemma client_wf_NewClient: "client_wf NewClient" "client_wf demo_client"
  by (simp_all add: client_wf_def social_wf_def demo_client_def NewClient_def newSocial_def NewFriendsList_def
      NewGroupsList_def chats_wf_new friends_cache.keyed_def groups_cache.keyed_def)

theorem social_invariant_witness:
  "client_wf (Emit (Ev_FriendAdded \<lparr>
       FriendAddedEvent_Result = CMsgClientAddFriendResponse_GetEresult NewCMsgClientAddFriendResponse,
       FriendAddedEvent_SteamId = CMsgClientAddFriendResponse_GetSteamIdAdded NewCMsgClientAddFriendResponse,
       FriendAddedEvent_PersonaName = CMsgClientAddFriendResponse_GetPersonaNameAdded NewCMsgClientAddFriendResponse\<rparr>) demo_client)"
proof (rule social_invariant [OF client_wf_NewClient(2)])
  have "carries demo_env un_ClientAddFriendResponse (demo_packet EMsg_ClientAddFriendResponse) NewCMsgClientAddFriendResponse"
    by (rule demo_packet_carries) (simp, simp add: demo_env_def)
  then show "Social_HandlePacket demo_env (demo_packet EMsg_ClientAddFriendResponse) demo_client = Ok (Emit (Ev_FriendAdded \<lparr>
       FriendAddedEvent_Result = CMsgClientAddFriendResponse_GetEresult NewCMsgClientAddFriendResponse,
       FriendAddedEvent_SteamId = CMsgClientAddFriendResponse_GetSteamIdAdded NewCMsgClientAddFriendResponse,
       FriendAddedEvent_PersonaName = CMsgClientAddFriendResponse_GetPersonaNameAdded NewCMsgClientAddFriendResponse\<rparr>) demo_client)"
    by (simp add: Social_HandlePacket_def handleFriendResponse_def with_body_carries EMsg_defs)
qed

section \<open>What the handlers do with what they read\<close>

text \<open>The key-value object of one member of a room, as \<open>readChatMember\<close> takes it apart.\<close>

definition member_bytes :: "ChatMember \<Rightarrow> bytes" where
  "member_bytes m =
     bytes_of ''MessageObject'' @ 0 # 7 # bytes_of ''steamid'' @ 0 # le_bytes 8 (ChatMember_SteamId m) @
     2 # bytes_of ''Permissions'' @ 0 # le_bytes 4 (ChatMember_ChatPermissions m) @
     2 # bytes_of ''Details'' @ 0 # le_bytes 4 (ChatMember_ClanPermissions m)"

lemma no_zero_in_names:
  "0 \<notin> set (bytes_of ''MessageObject'')" "0 \<notin> set (bytes_of ''steamid'')"
  "0 \<notin> set (bytes_of ''Permissions'')" "0 \<notin> set (bytes_of ''Details'')"
  by (simp_all add: bytes_of_def)

lemma readChatMember_member_bytes:
  "readChatMember (member_bytes m @ r) =
     ((ChatMember_SteamId m, ChatMember_ChatPermissions m, ChatMember_ClanPermissions m), r)"
  by (simp add: readChatMember_def member_bytes_def ReadString_append [OF no_zero_in_names(1)]
      ReadString_append [OF no_zero_in_names(2)] ReadString_append [OF no_zero_in_names(3)]
      ReadString_append [OF no_zero_in_names(4)])

lemma skip_bytes_append: "length t = 6 \<Longrightarrow> skip_bytes 6 (t @ r) = r"
  by (simp add: skip_bytes_def ReadBytes_def ReadFull_def)

text \<open>
  Entering a room reads its roster: from the key-value objects of the members, each followed by six bytes the
  code skips, the loop of the handler adds exactly these members with their permissions, in order,
  whatever follows in the payload.\<close>

theorem chat_enter_roster:
  assumes "\<forall>(m, t) \<in> set ms. length t = 6"
  shows "chat_enter_loop i (length ms) (concat (map (\<lambda>(m, t). member_bytes m @ t) ms) @ r) l =
    fold (AddChatMember i) (map fst ms) l"
  using assms
proof (induction ms arbitrary: l)
  case (Cons mt ms)
  obtain m t where mt: "mt = (m, t)" by (cases mt)
  with Cons.prems have "length t = 6" by simp
  moreover have "chat_member_of (ChatMember_SteamId m) (ChatMember_ChatPermissions m) (ChatMember_ClanPermissions m) = m"
    by (simp add: chat_member_of_def)
  ultimately show ?case
    using Cons mt by (simp add: readChatMember_member_bytes skip_bytes_append)
qed simp

theorem chat_enter_roster_witness:
  "chat_enter_loop 7 1 (member_bytes (chat_member_of 5 1 2) @ [8, 8, 0, 0, 0, 0]) NewChatsList
     = AddChatMember 7 (chat_member_of 5 1 2) NewChatsList"
  using chat_enter_roster [of "[(chat_member_of 5 1 2, [8, 8, 0, 0, 0, 0])]" 7 "[]" NewChatsList] by simp

text \<open>
  the relationship of a friend who is already in the cache never changes: a friends list entry that
  reports another relationship than \<open>None\<close> leaves the cached entry as it is (although an incremental
  one is announced by an event), because \<open>Add\<close> ignores identifiers it knows.\<close>

theorem friend_relationship_is_stale:
  assumes "Mapping.lookup (Social_Friends (c_Social c)) (CMsgClientFriendsList_Friend_GetUlfriendid f) = Some v"
    and "CMsgClientFriendsList_Friend_GetEfriendrelationship f \<noteq> EFriendRelationship_None"
  shows "Mapping.lookup (Social_Friends (c_Social (friends_list_entry incremental f c)))
    (CMsgClientFriendsList_Friend_GetUlfriendid f) = Some v"
  using assms by (simp add: friends_list_entry_def Let_def upd_Friends_def upd_Groups_def upd_Social_def
      friends_cache.find_add)

lemma known_friend_fields:
  "CMsgClientFriendsList_Friend_GetUlfriendid
     (NewCMsgClientFriendsList_Friend\<lparr>CMsgClientFriendsList_Friend_Efriendrelationship := r\<rparr>) = 0"
  "CMsgClientFriendsList_Friend_GetEfriendrelationship
     (NewCMsgClientFriendsList_Friend\<lparr>CMsgClientFriendsList_Friend_Efriendrelationship := Some s\<rparr>) = s"
  by (simp_all add: CMsgClientFriendsList_Friend_GetUlfriendid_def NewCMsgClientFriendsList_Friend_def
      CMsgClientFriendsList_Friend_GetEfriendrelationship_def)

theorem friend_relationship_is_stale_witness:
  "Mapping.lookup (Social_Friends (c_Social (friends_list_entry True
      (NewCMsgClientFriendsList_Friend\<lparr>CMsgClientFriendsList_Friend_Efriendrelationship := Some 3\<rparr>)
      (friends_list_entry True
        (NewCMsgClientFriendsList_Friend\<lparr>CMsgClientFriendsList_Friend_Efriendrelationship := Some 2\<rparr>) demo_client)))) 0
   = Some (new_friend 0 2)"
proof (rule friend_relationship_is_stale [where f = "NewCMsgClientFriendsList_Friend
      \<lparr>CMsgClientFriendsList_Friend_Efriendrelationship := Some 3\<rparr>", unfolded known_friend_fields])
  show "Mapping.lookup (Social_Friends (c_Social (friends_list_entry True
        (NewCMsgClientFriendsList_Friend\<lparr>CMsgClientFriendsList_Friend_Efriendrelationship := Some 2\<rparr>) demo_client))) 0
      = Some (new_friend 0 2)"
    by (simp add: friends_list_entry_def known_friend_fields friends_cache.find_add upd_Friends_def upd_Social_def
        demo_client_def NewClient_def newSocial_def NewFriendsList_def new_friend_def
        EFriendRelationship_None_def EAccountType_Clan_def GetAccountType_def sid_get_def)
qed (simp add: EFriendRelationship_None_def)

end
