(* ===== verification/Web_Ops.thy ===== *)
theory Web_Ops
  imports Client_Env Keys Netutil Go_Crypto
begin

text \<open>
  \<open>web.go\<close>: the cookies of the Steam web site. The login key arrives by packets; \<open>LogOn\<close> starts a
  goroutine (\<open>web_logon\<close>) that posts the encrypted key and stores the cookies of the answer.

  The HTTP client and its JSON decoder are the argument \<open>post\<close>: what the post of a form returns. The
  random bytes of one attempt (session key, RSA padding seed, initialisation vector) are arguments too.
\<close>

section \<open>Logging on\<close>

datatype web_response =
    Web_failed go_err
  | Web_answered nat string "(string \<times> string) res"

record web_random =
  rnd_sessionKey :: bytes
  rnd_seed :: bytes
  rnd_iv :: bytes

definition web_form :: "web_random \<Rightarrow> Client \<Rightarrow> Values res" where
  "web_form rnd c =
     bind_res (GetPublicKey EUniverse_Public) (\<lambda>key.
     bind_res (RSAEncrypt (rnd_seed rnd) key (rnd_sessionKey rnd)) (\<lambda>cryptedSessionKey.
     case aes_NewCipher (rnd_sessionKey rnd) of
       Ok ciph \<Rightarrow>
         bind_res (SymmetricEncrypt (rnd_iv rnd) ciph (bytes_of (Web_webLoginKey (c_Web c)))) (\<lambda>cryptedLoginKey.
         Ok (Values_Add ''encrypted_loginkey'' (string_of cryptedLoginKey)
            (Values_Add ''sessionkey'' (string_of cryptedSessionKey)
            (Values_Add ''steamid'' (FormatUint (unat (ToUint64 (SteamId c))))
            (Values_Add ''format'' ''json'' (\<lambda>_. []))))))
     | _ \<Rightarrow> Panic ''nil pointer dereference''))"

definition apiLogOn :: "web_random \<Rightarrow> (Values \<Rightarrow> web_response) \<Rightarrow> Client \<Rightarrow> (go_err option \<times> Client) res" where
  "apiLogOn rnd post c =
     bind_res (web_form rnd c) (\<lambda>data.
     case post data of
       Web_failed err \<Rightarrow> Ok (Some err, c)
     | Web_answered code status body \<Rightarrow>
         if code = 401 then
           Ok (None, WriteProto EMsg_ClientRequestWebAPIAuthenticateUserNonce
             (PB_ClientRequestWebAPIAuthenticateUserNonce NewCMsgClientRequestWebAPIAuthenticateUserNonce)
             (upd_Web (\<lambda>w. w\<lparr>Web_relogOnNonce := 1\<rparr>) c))
         else if code \<noteq> 200 then
           Ok (Some (GoErr (''steam.Web.apiLogOn: request failed with status '' @ status)), c)
         else (case body of
             Ok (token, tokenSecure) \<Rightarrow>
               Ok (None, Emit Ev_WebLoggedOn
                 (upd_Web (\<lambda>w. w\<lparr>Web_SteamLogin := token, Web_SteamLoginSecure := tokenSecure\<rparr>) c))
           | Err err \<Rightarrow> Ok (Some err, c)
           | Panic p \<Rightarrow> Panic p))"

text \<open>The goroutine: at most three attempts, and an event for the last error.\<close>

definition web_logon ::
  "web_random \<times> web_random \<times> web_random \<Rightarrow> (Values \<Rightarrow> web_response) \<times> (Values \<Rightarrow> web_response) \<times> (Values \<Rightarrow> web_response)
     \<Rightarrow> Client \<Rightarrow> Client res" where
  "web_logon rnds posts c =
     (case rnds of (r1, r2, r3) \<Rightarrow> case posts of (p1, p2, p3) \<Rightarrow>
      bind_res (apiLogOn r1 p1 c) (\<lambda>(err, c).
      bind_res (if err \<noteq> None then bind_res (apiLogOn r2 p2 c) (\<lambda>(err, c).
                  if err \<noteq> None then apiLogOn r3 p3 c else Ok (err, c))
                else Ok (err, c)) (\<lambda>(err, c).
      Ok (case err of Some err \<Rightarrow> Emit (Ev_WebLogOnError err) c | None \<Rightarrow> c))))"

definition Web_LogOn :: "Client \<Rightarrow> Client res" where
  "Web_LogOn c =
     (if Web_webLoginKey (c_Web c) = [] then Panic ''Web: webLoginKey not initialized!''
      else Ok (spawn G_webLogOn c))"

section \<open>The handlers\<close>

definition handleNewLoginKey :: "Env \<Rightarrow> handler" where
  "handleNewLoginKey env packet c = with_body env un_ClientNewLoginKey packet (\<lambda>msg.
     let i = CMsgClientNewLoginKey_GetUniqueId msg;
         c = WriteProto EMsg_ClientNewLoginKeyAccepted (PB_ClientNewLoginKeyAccepted
               (NewCMsgClientNewLoginKeyAccepted\<lparr>CMsgClientNewLoginKeyAccepted_UniqueId := Some i\<rparr>)) c;
         c = upd_Web (\<lambda>w. w\<lparr>Web_SessionId := b64_encode (bytes_of (FormatUint (unat i)))\<rparr>) c
     in Ok (Emit Ev_WebSessionId c))"

definition handleAuthNonceResponse :: "Env \<Rightarrow> handler" where
  "handleAuthNonceResponse env packet c = with_body env un_WebAPINonceResponse packet (\<lambda>msg.
     let c = upd_Web (\<lambda>w. w\<lparr>Web_webLoginKey :=
           CMsgClientRequestWebAPIAuthenticateUserNonceResponse_GetWebapiAuthenticateUserNonce msg\<rparr>) c in
     if Web_relogOnNonce (c_Web c) = 1 then Web_LogOn (upd_Web (\<lambda>w. w\<lparr>Web_relogOnNonce := 0\<rparr>) c)
     else Ok c)"

definition Web_HandlePacket :: "Env \<Rightarrow> handler" where
  "Web_HandlePacket env packet c =
     (if Packet_EMsg packet = EMsg_ClientNewLoginKey then handleNewLoginKey env packet c
      else if Packet_EMsg packet = EMsg_ClientRequestWebAPIAuthenticateUserNonceResponse
      then handleAuthNonceResponse env packet c
      else Ok c)"

section \<open>The contract of a handler\<close>

lemma extends_Web_LogOn: "Web_LogOn c' = Ok c'' \<Longrightarrow> extends c c' \<Longrightarrow> extends c c''"
  by (auto simp: Web_LogOn_def split: if_splits intro!: extends_intros)

interpretation Web_handler: packet_handler "Web_HandlePacket env" for env
  by unfold_locales (auto simp: Web_HandlePacket_def handleNewLoginKey_def handleAuthNonceResponse_def Let_def
      elim!: with_body_OkE extends_Web_LogOn split: if_splits intro!: extends_intros)

section \<open>What an attempt does\<close>

text \<open>The form can always be built: the public key parses, the session key fits and is an AES key.\<close>

lemma web_form_ok:
  assumes "length (rnd_sessionKey rnd) = 32" and "length (rnd_iv rnd) = 16"
  shows "\<exists>data. web_form rnd c = Ok data"
proof -
  obtain key b where key: "GetPublicKey EUniverse_Public = Ok key" "RSAEncrypt (rnd_seed rnd) key (rnd_sessionKey rnd) = Ok b"
    using RSAEncrypt_public [of "rnd_sessionKey rnd" "rnd_seed rnd"] assms(1) by (auto simp: bind_res_Ok_iff)
  obtain ciph where ciph: "aes_NewCipher (rnd_sessionKey rnd) = Ok ciph"
    using assms(1) by (simp add: aes_NewCipher_def)
  then have "good_cipher ciph" by (rule aes_NewCipher_block_cipher)
  from SymmetricEncrypt_eq(1) [OF this assms(2)] key ciph show ?thesis
    by (simp add: web_form_def)
qed

definition good_random :: "web_random \<Rightarrow> bool" where
  "good_random rnd \<longleftrightarrow> length (rnd_sessionKey rnd) = 32 \<and> length (rnd_iv rnd) = 16"

text \<open>
  What one answer means, apart from the cryptography: an error, or an effect on the client. A status of 401
  counts as a success: a new key is requested, and its arrival logs on again.
\<close>

definition web_effect :: "web_response \<Rightarrow> go_err + (Client \<Rightarrow> Client)" where
  "web_effect r = (case r of
       Web_failed err \<Rightarrow> Inl err
     | Web_answered code status body \<Rightarrow>
         if code = 401 then Inr (\<lambda>c. WriteProto EMsg_ClientRequestWebAPIAuthenticateUserNonce
             (PB_ClientRequestWebAPIAuthenticateUserNonce NewCMsgClientRequestWebAPIAuthenticateUserNonce)
             (upd_Web (\<lambda>w. w\<lparr>Web_relogOnNonce := 1\<rparr>) c))
         else if code \<noteq> 200 then Inl (GoErr (''steam.Web.apiLogOn: request failed with status '' @ status))
         else (case body of
             Ok (t, ts) \<Rightarrow> Inr (\<lambda>c. Emit Ev_WebLoggedOn
               (upd_Web (\<lambda>w. w\<lparr>Web_SteamLogin := t, Web_SteamLoginSecure := ts\<rparr>) c))
           | Err err \<Rightarrow> Inl err
           | Panic p \<Rightarrow> Inl (GoErr p)))"

definition decodes :: "web_response \<Rightarrow> bool" where
  "decodes r = (case r of Web_failed _ \<Rightarrow> True | Web_answered _ _ body \<Rightarrow> \<not> panics body)"

lemma apiLogOn_effect:
  assumes "good_random rnd" and "decodes a"
  shows "apiLogOn rnd (\<lambda>_. a) c = Ok (case web_effect a of Inl err \<Rightarrow> (Some err, c) | Inr f \<Rightarrow> (None, f c))"
proof -
  obtain data where "web_form rnd c = Ok data"
    using web_form_ok assms(1) by (auto simp: good_random_def)
  then show ?thesis
    using assms(2) by (auto simp: apiLogOn_def web_effect_def decodes_def split: web_response.split res.split prod.split)
qed

text \<open>
  C27: the web log-on goroutine never panics on the request it builds and makes at most three attempts: the first
  one that does not fail decides (its effect is the only change of the client), and when all three
  fail there is one WebLogOnErrorEvent, for the last error, and no other change.\<close>

theorem web_logon_outcome:
  assumes "list_all good_random [r1, r2, r3]" and "list_all decodes [a1, a2, a3]"
  shows "web_logon (r1, r2, r3) (\<lambda>_. a1, \<lambda>_. a2, \<lambda>_. a3) c = Ok (
     case web_effect a1 of Inr f \<Rightarrow> f c | Inl _ \<Rightarrow>
     case web_effect a2 of Inr f \<Rightarrow> f c | Inl _ \<Rightarrow>
     case web_effect a3 of Inr f \<Rightarrow> f c | Inl err \<Rightarrow> Emit (Ev_WebLogOnError err) c)"
  using assms by (simp add: web_logon_def apiLogOn_effect split: sum.split)

theorem web_logon_outcome_witness:
  "let rnd = \<lparr>rnd_sessionKey = replicate 32 1, rnd_seed = [], rnd_iv = replicate 16 2\<rparr>;
       a = Web_answered 500 ''500'' (Err EOF); b = Web_answered 200 ''200'' (Ok (''t'', ''s'')) in
   web_logon (rnd, rnd, rnd) (\<lambda>_. a, \<lambda>_. a, \<lambda>_. b) demo_client =
     Ok (Emit Ev_WebLoggedOn (upd_Web (\<lambda>w. w\<lparr>Web_SteamLogin := ''t'', Web_SteamLoginSecure := ''s''\<rparr>) demo_client))"
  unfolding Let_def
  by (subst web_logon_outcome) (simp_all add: good_random_def decodes_def web_effect_def)

text \<open>A rejected key starts the log-on again once the new key has arrived, and only then.\<close>

lemma handleAuthNonceResponse_relogs:
  assumes "carries env un_WebAPINonceResponse p msg"
    and "CMsgClientRequestWebAPIAuthenticateUserNonceResponse_GetWebapiAuthenticateUserNonce msg = k" and "k \<noteq> []"
  shows "handleAuthNonceResponse env p c = Ok (
     if Web_relogOnNonce (c_Web c) = 1
     then spawn G_webLogOn (upd_Web (\<lambda>w. w\<lparr>Web_webLoginKey := k, Web_relogOnNonce := 0\<rparr>) c)
     else upd_Web (\<lambda>w. w\<lparr>Web_webLoginKey := k\<rparr>) c)"
  using assms by (simp add: handleAuthNonceResponse_def with_body_carries Web_LogOn_def upd_Web_def Let_def)

end
