(* ===== verification/Notifications.thy ===== *)
theory Notifications
  imports Client_Env
begin

text \<open>
  \<open>notifications.go\<close>: the counts of the user's notifications. A packet lists the current ones; the
  handler stores them, and then removes the types that the packet does not mention.

  Go ranges over a map in an unspecified order; \<open>order\<close> is the order the runtime takes for a map.
\<close>

section \<open>The handler\<close>

type_synonym map_order = "(NotificationType, u64) mapping \<Rightarrow> NotificationType list"

definition upd_notifications ::
  "((NotificationType, u64) mapping \<Rightarrow> (NotificationType, u64) mapping) \<Rightarrow> Client \<Rightarrow> Client" where
  "upd_notifications f c = c\<lparr>c_notifications := f (c_notifications c)\<rparr>"

definition notification_event :: "NotificationType \<Rightarrow> u64 \<Rightarrow> Event" where
  "notification_event typ n = Ev_Notification \<lparr>NotificationEvent_Type = typ, NotificationEvent_Count = n\<rparr>"

text \<open>The first loop: both fields are dereferenced without a check.\<close>

fun store_notifications :: "CMsgClientUserNotifications_Notification list \<Rightarrow> Client \<Rightarrow> Client res" where
  "store_notifications [] c = Ok c"
| "store_notifications (n # ns) c =
     (case CMsgClientUserNotifications_Notification_UserNotificationType n of
        None \<Rightarrow> Panic ''nil pointer dereference''
      | Some t \<Rightarrow> (case CMsgClientUserNotifications_Notification_Count n of
          None \<Rightarrow> Panic ''nil pointer dereference''
        | Some k \<Rightarrow> store_notifications ns
            (Emit (notification_event (ucast t) (ucast k))
              (upd_notifications (Mapping.update (ucast t) (ucast k)) c))))"

text \<open>Whether the packet mentions a type; the search stops at the first hit.\<close>

fun mentioned :: "NotificationType \<Rightarrow> CMsgClientUserNotifications_Notification list \<Rightarrow> bool res" where
  "mentioned typ [] = Ok False"
| "mentioned typ (n # ns) =
     (case CMsgClientUserNotifications_Notification_UserNotificationType n of
        None \<Rightarrow> Panic ''nil pointer dereference''
      | Some t \<Rightarrow> if ucast t = typ then Ok True else mentioned typ ns)"

fun drop_absent ::
  "CMsgClientUserNotifications_Notification list \<Rightarrow> NotificationType list \<Rightarrow> Client \<Rightarrow> Client res" where
  "drop_absent ns [] c = Ok c"
| "drop_absent ns (typ # typs) c =
     bind_res (mentioned typ ns) (\<lambda>exists.
       if exists then drop_absent ns typs c
       else drop_absent ns typs (Emit (notification_event typ 0) (upd_notifications (Mapping.delete typ) c)))"

definition handleClientUserNotifications :: "map_order \<Rightarrow> Env \<Rightarrow> handler" where
  "handleClientUserNotifications order env packet c = with_body env un_ClientUserNotifications packet (\<lambda>msg.
     let ns = CMsgClientUserNotifications_Notifications msg in
     bind_res (store_notifications ns c) (\<lambda>c.
     drop_absent ns (order (c_notifications c)) c))"

definition Notifications_HandlePacket :: "map_order \<Rightarrow> Env \<Rightarrow> handler" where
  "Notifications_HandlePacket order env packet c =
     (if Packet_EMsg packet = EMsg_ClientUserNotifications then handleClientUserNotifications order env packet c
      else Ok c)"

section \<open>The contract of a handler\<close>

lemma extends_upd_notificationsI [extends_intros]: "extends c c' \<Longrightarrow> extends c (upd_notifications f c')"
  by (erule extends_trans) (simp add: extends_same upd_notifications_def)

lemma store_notifications_extends: "store_notifications ns c = Ok c' \<Longrightarrow> extends c c'"
proof (induction ns arbitrary: c)
  case (Cons n ns)
  then show ?case
    by (force split: option.splits intro: extends_trans [OF _ Cons.IH] extends_intros)
qed simp

lemma drop_absent_extends: "drop_absent ns typs c = Ok c' \<Longrightarrow> extends c c'"
proof (induction typs arbitrary: c)
  case (Cons ty tys)
  then show ?case
    by (force simp: bind_res_Ok_iff split: if_splits intro: extends_trans [OF _ Cons.IH] extends_intros)
qed simp

interpretation Notifications_handler: packet_handler "Notifications_HandlePacket order env" for order env
  by unfold_locales (auto simp: Notifications_HandlePacket_def handleClientUserNotifications_def Let_def bind_res_Ok_iff
      elim!: with_body_OkE split: if_splits
      intro: extends_trans [OF store_notifications_extends drop_absent_extends])

section \<open>The map mirrors the packet\<close>

definition complete :: "CMsgClientUserNotifications_Notification \<Rightarrow> bool" where
  "complete n \<longleftrightarrow> CMsgClientUserNotifications_Notification_UserNotificationType n \<noteq> None
     \<and> CMsgClientUserNotifications_Notification_Count n \<noteq> None"

text \<open>What the packet says: the count of a type is the last one listed for it.\<close>

definition counts_of :: "CMsgClientUserNotifications_Notification list \<Rightarrow> NotificationType \<Rightarrow> u64 option" where
  "counts_of ns = map_of (rev (map (\<lambda>n.
     (ucast (the (CMsgClientUserNotifications_Notification_UserNotificationType n)),
      ucast (the (CMsgClientUserNotifications_Notification_Count n)))) ns))"

lemma c_notifications_ops [simp]:
  "c_notifications (Emit e c) = c_notifications c"
  "c_notifications (upd_notifications f c) = f (c_notifications c)"
  by (simp_all add: Emit_def upd_notifications_def)

lemma store_notifications_ok:
  "list_all complete ns \<Longrightarrow> \<exists>c'. store_notifications ns c = Ok c' \<and>
     Mapping.lookup (c_notifications c') = Mapping.lookup (c_notifications c) ++ counts_of ns"
proof (induction ns arbitrary: c)
  case (Cons n ns)
  then obtain t k where "CMsgClientUserNotifications_Notification_UserNotificationType n = Some t"
    "CMsgClientUserNotifications_Notification_Count n = Some k"
    by (auto simp: complete_def)
  with Cons show ?case
    by (fastforce simp: counts_of_def lookup_update' map_add_def split: option.splits)
qed (simp add: counts_of_def)

lemma store_notifications_panics: "\<not> list_all complete ns \<Longrightarrow> panics (store_notifications ns c)"
  by (induction ns arbitrary: c) (auto simp: complete_def split: option.splits)

lemma mentioned_ok: "list_all complete ns \<Longrightarrow> mentioned typ ns = Ok (counts_of ns typ \<noteq> None)"
  by (induction ns) (auto simp: complete_def counts_of_def map_add_def split: option.splits)

lemma drop_absent_ok:
  "list_all complete ns \<Longrightarrow> \<exists>c'. drop_absent ns tys c = Ok c' \<and> (\<forall>t. Mapping.lookup (c_notifications c') t =
     (if t \<in> set tys \<and> counts_of ns t = None then None else Mapping.lookup (c_notifications c) t))"
proof (induction tys arbitrary: c)
  case (Cons ty tys)
  show ?case
  proof (cases "counts_of ns ty = None")
    case True
    obtain c' where "drop_absent ns tys (Emit (notification_event ty 0) (upd_notifications (Mapping.delete ty) c)) = Ok c'"
      "\<forall>t. Mapping.lookup (c_notifications c') t = (if t \<in> set tys \<and> counts_of ns t = None then None
         else Mapping.lookup (Mapping.delete ty (c_notifications c)) t)"
      using Cons.IH [OF Cons.prems] by fastforce
    with True Cons.prems show ?thesis by (auto simp: mentioned_ok lookup_delete_if)
  next
    case False
    obtain c' where "drop_absent ns tys c = Ok c'" "\<forall>t. Mapping.lookup (c_notifications c') t =
        (if t \<in> set tys \<and> counts_of ns t = None then None else Mapping.lookup (c_notifications c) t)"
      using Cons.IH [OF Cons.prems] by blast
    with False Cons.prems show ?thesis by (auto simp: mentioned_ok)
  qed
qed simp

text \<open>
  After a notification packet the map of counts is what the packet says and nothing else, in whatever order
  the runtime visits the map, as long as it visits every key; the handler panics exactly on a packet
  with an entry that lacks its type or its count.\<close>

theorem notifications_mirror_packet:
  assumes "carries env un_ClientUserNotifications p msg" and "Packet_EMsg p = EMsg_ClientUserNotifications"
    and "\<And>m. set (order m) = Mapping.keys m"
  shows "case Notifications_HandlePacket order env p c of
      Ok c' \<Rightarrow> list_all complete (CMsgClientUserNotifications_Notifications msg) \<and>
        Mapping.lookup (c_notifications c') = counts_of (CMsgClientUserNotifications_Notifications msg)
    | Err _ \<Rightarrow> False
    | Panic _ \<Rightarrow> \<not> list_all complete (CMsgClientUserNotifications_Notifications msg)"
proof -
  let ?ns = "CMsgClientUserNotifications_Notifications msg"
  have handled: "Notifications_HandlePacket order env p c =
      bind_res (store_notifications ?ns c) (\<lambda>c. drop_absent ?ns (order (c_notifications c)) c)"
    using assms by (simp add: Notifications_HandlePacket_def handleClientUserNotifications_def with_body_carries Let_def)
  show ?thesis
  proof (cases "list_all complete ?ns")
    case True
    obtain c1 where 1: "store_notifications ?ns c = Ok c1"
      "Mapping.lookup (c_notifications c1) = Mapping.lookup (c_notifications c) ++ counts_of ?ns"
      using store_notifications_ok [OF True] by blast
    obtain c2 where 2: "drop_absent ?ns (order (c_notifications c1)) c1 = Ok c2"
      "\<forall>t. Mapping.lookup (c_notifications c2) t = (if t \<in> set (order (c_notifications c1)) \<and> counts_of ?ns t = None
         then None else Mapping.lookup (c_notifications c1) t)"
      using drop_absent_ok [OF True] by blast
    have "Mapping.lookup (c_notifications c2) t = counts_of ?ns t" for t
      using 1(2) 2(2) assms(3) by (auto simp: keys_dom_lookup map_add_def split: option.splits)
    then show ?thesis using handled 1(1) 2(1) True by (simp add: fun_eq_iff)
  next
    case False
    then show ?thesis using handled store_notifications_panics [OF False, of c]
      by (cases "store_notifications ?ns c") simp_all
  qed
qed

theorem notifications_mirror_packet_witness:
  "Notifications_HandlePacket (\<lambda>m. sorted_list_of_set (Mapping.keys m)) demo_env
       (demo_packet EMsg_ClientUserNotifications) (upd_notifications (Mapping.update 3 5) demo_client) \<noteq> Err EOF"
proof -
  let ?c = "upd_notifications (Mapping.update 3 5) demo_client"
  have "finite (Mapping.keys m)" for m :: "(NotificationType, u64) mapping"
    by simp
  then have "\<And>m :: (NotificationType, u64) mapping. set (sorted_list_of_set (Mapping.keys m)) = Mapping.keys m"
    by simp
  moreover have "carries demo_env un_ClientUserNotifications (demo_packet EMsg_ClientUserNotifications) NewCMsgClientUserNotifications"
    by (rule demo_packet_carries) (simp, simp add: demo_env_def)
  ultimately show ?thesis
    using notifications_mirror_packet [of demo_env "demo_packet EMsg_ClientUserNotifications"
        NewCMsgClientUserNotifications "\<lambda>m. sorted_list_of_set (Mapping.keys m)" ?c]
    by auto
qed

end
