(* ===== verification/Trading.thy ===== *)
theory Trading
  imports Client_Env
begin

text \<open>\<open>trading.go\<close>: proposing a trade, answering a proposal, and the three packets about trades.\<close>

type_synonym TradeRequestId = u32

definition RequestTrade :: "steamid \<Rightarrow> Client \<Rightarrow> Client" where
  "RequestTrade other = WriteProto EMsg_EconTrading_InitiateTradeRequest (PB_Trading_InitiateTradeRequest
     (NewCMsgTrading_InitiateTradeRequest\<lparr>CMsgTrading_InitiateTradeRequest_OtherSteamid := Some other\<rparr>))"

definition RespondRequest :: "TradeRequestId \<Rightarrow> bool \<Rightarrow> Client \<Rightarrow> Client" where
  "RespondRequest requestId accept =
     (let resp = (if accept then 0 else 1) in
      WriteProto EMsg_EconTrading_InitiateTradeResponse (PB_Trading_InitiateTradeResponse
        (NewCMsgTrading_InitiateTradeResponse\<lparr>CMsgTrading_InitiateTradeResponse_TradeRequestId := Some requestId,
           CMsgTrading_InitiateTradeResponse_Response := Some resp\<rparr>)))"

definition CancelRequest :: "steamid \<Rightarrow> Client \<Rightarrow> Client" where
  "CancelRequest other = WriteProto EMsg_EconTrading_CancelTradeRequest (PB_Trading_CancelTradeRequest
     (NewCMsgTrading_CancelTradeRequest\<lparr>CMsgTrading_CancelTradeRequest_OtherSteamid := Some other\<rparr>))"

definition Trading_HandlePacket :: "Env \<Rightarrow> handler" where
  "Trading_HandlePacket env packet c =
     (if Packet_EMsg packet = EMsg_EconTrading_InitiateTradeProposed then
        with_body env un_InitiateTradeRequest packet (\<lambda>msg.
          Ok (Emit (Ev_TradeProposed \<lparr>
            TradeProposedEvent_RequestId = CMsgTrading_InitiateTradeRequest_GetTradeRequestId msg,
            TradeProposedEvent_Other = CMsgTrading_InitiateTradeRequest_GetOtherSteamid msg\<rparr>) c))
      else if Packet_EMsg packet = EMsg_EconTrading_InitiateTradeResult then
        with_body env un_InitiateTradeResponse packet (\<lambda>msg.
          Ok (Emit (Ev_TradeResult \<lparr>
            TradeResultEvent_RequestId = CMsgTrading_InitiateTradeResponse_GetTradeRequestId msg,
            TradeResultEvent_Response = CMsgTrading_InitiateTradeResponse_GetResponse msg,
            TradeResultEvent_Other = CMsgTrading_InitiateTradeResponse_GetOtherSteamid msg,
            TradeResultEvent_NumDaysSteamGuardRequired = CMsgTrading_InitiateTradeResponse_GetSteamguardRequiredDays msg,
            TradeResultEvent_NumDaysNewDeviceCooldown = CMsgTrading_InitiateTradeResponse_GetNewDeviceCooldownDays msg,
            TradeResultEvent_DefaultNumDaysPasswordResetProbation =
              CMsgTrading_InitiateTradeResponse_GetDefaultPasswordResetProbationDays msg,
            TradeResultEvent_NumDaysPasswordResetProbation =
              CMsgTrading_InitiateTradeResponse_GetPasswordResetProbationDays msg\<rparr>) c))
      else if Packet_EMsg packet = EMsg_EconTrading_StartSession then
        with_body env un_StartSession packet (\<lambda>msg.
          Ok (Emit (Ev_TradeSessionStart \<lparr>
            TradeSessionStartEvent_Other = CMsgTrading_StartSession_GetOtherSteamid msg\<rparr>) c))
      else Ok c)"

interpretation Trading_handler: packet_handler "Trading_HandlePacket env" for env
  by unfold_locales (auto simp: Trading_HandlePacket_def elim!: with_body_OkE split: if_splits intro!: extends_intros)

text \<open>A trade packet is one event, and leaves the client alone otherwise.\<close>

lemma Trading_only_emits:
  "Trading_HandlePacket env p c = Ok c' \<Longrightarrow> c' = c \<or> (\<exists>e. c' = Emit e c)"
  by (auto simp: Trading_HandlePacket_def elim!: with_body_OkE split: if_splits)

end
