(* ===== verification/Game_Coordinator.thy ===== *)
theory Game_Coordinator
  imports Client_Env
begin

text \<open>
  The messages exchanged with a game coordinator: \<open>protocol/gamecoordinator/msg.go\<close> and \<open>packet.go\<close>, and
  \<open>gamecoordinator.go\<close>, which wraps them into \<open>CMsgGCClient\<close> envelopes and hands incoming ones to the
  registered handlers. The Go interface \<open>IGCMsg\<close> is the locale \<open>igcmsg\<close>, \<open>GCPacketHandler\<close> the locale \<open>gc_handler\<close>.
\<close>

section \<open>Messages\<close>

locale igcmsg = imsg +
  fixes is_proto :: "'a \<Rightarrow> bool" and app_id :: "'a \<Rightarrow> u32"
  assumes kept: "is_proto (set_target j m) = is_proto m" "is_proto (set_source j m) = is_proto m"
    "app_id (set_target j m) = app_id m" "app_id (set_source j m) = app_id m"
begin

lemma jobs_keep_routing:
  "is_proto (set_source s (set_target t m)) = is_proto m \<and> app_id (set_source s (set_target t m)) = app_id m"
  by (simp add: kept)

end

record 'b GCMsgProtobuf =
  GCP_AppId :: u32
  GCP_Header :: MsgGCHdrProtoBuf
  GCP_Body :: 'b

definition NewGCMsgProtobuf :: "u32 \<Rightarrow> u32 \<Rightarrow> 'b \<Rightarrow> 'b GCMsgProtobuf" where
  "NewGCMsgProtobuf appId msgType body =
     \<lparr>GCP_AppId = appId, GCP_Header = NewMsgGCHdrProtoBuf\<lparr>MsgGCHdrProtoBuf_Msg := msgType\<rparr>, GCP_Body = body\<rparr>"

definition GCP_proto :: "'b GCMsgProtobuf \<Rightarrow> CMsgProtoBufHeader" where
  "GCP_proto g = MsgGCHdrProtoBuf_Proto (GCP_Header g)"

definition GCP_upd :: "(CMsgProtoBufHeader \<Rightarrow> CMsgProtoBufHeader) \<Rightarrow> 'b GCMsgProtobuf \<Rightarrow> 'b GCMsgProtobuf" where
  "GCP_upd f g = g\<lparr>GCP_Header := (GCP_Header g)\<lparr>MsgGCHdrProtoBuf_Proto := f (GCP_proto g)\<rparr>\<rparr>"

definition GCP_IsProto :: "'b GCMsgProtobuf \<Rightarrow> bool" where "GCP_IsProto g = True"
definition GCP_GetAppId :: "'b GCMsgProtobuf \<Rightarrow> u32" where "GCP_GetAppId g = GCP_AppId g"
definition GCP_GetMsgType :: "'b GCMsgProtobuf \<Rightarrow> u32" where "GCP_GetMsgType g = MsgGCHdrProtoBuf_Msg (GCP_Header g)"

definition GCP_GetTargetJobId :: "'b GCMsgProtobuf \<Rightarrow> JobId" where
  "GCP_GetTargetJobId g = CMsgProtoBufHeader_GetJobidTarget (GCP_proto g)"

definition GCP_SetTargetJobId :: "JobId \<Rightarrow> 'b GCMsgProtobuf \<Rightarrow> 'b GCMsgProtobuf" where
  "GCP_SetTargetJobId job = GCP_upd (\<lambda>h. h\<lparr>CMsgProtoBufHeader_JobidTarget := Some job\<rparr>)"

definition GCP_GetSourceJobId :: "'b GCMsgProtobuf \<Rightarrow> JobId" where
  "GCP_GetSourceJobId g = CMsgProtoBufHeader_GetJobidSource (GCP_proto g)"

definition GCP_SetSourceJobId :: "JobId \<Rightarrow> 'b GCMsgProtobuf \<Rightarrow> 'b GCMsgProtobuf" where
  "GCP_SetSourceJobId job = GCP_upd (\<lambda>h. h\<lparr>CMsgProtoBufHeader_JobidSource := Some job\<rparr>)"

text \<open>
  \<open>Serialize\<close> writes to a buffer whose content is used even after an error: the result is what has been
  written, and the error.
\<close>

type_synonym written = "bytes \<times> go_err option"

definition GCP_Serialize :: "hdr_codec \<Rightarrow> ('b \<Rightarrow> bytes res) \<Rightarrow> 'b GCMsgProtobuf \<Rightarrow> written res" where
  "GCP_Serialize c marshal g =
     (case MsgGCHdrProtoBuf_Serialize c (GCP_Header g) of
        Err err \<Rightarrow> Ok ([], Some err)
      | Panic p \<Rightarrow> Panic p
      | Ok (_, hdr) \<Rightarrow> (case marshal (GCP_Body g) of
            Err err \<Rightarrow> Ok (hdr, Some err)
          | Panic p \<Rightarrow> Panic p
          | Ok body \<Rightarrow> Ok (hdr @ body, None)))"

record 'b GCMsg =
  GCM_AppId :: u32
  GCM_MsgType :: u32
  GCM_Header :: MsgGCHdr
  GCM_Body :: 'b

definition NewGCMsg :: "u32 \<Rightarrow> u32 \<Rightarrow> 'b \<Rightarrow> 'b GCMsg" where
  "NewGCMsg appId msgType body =
     \<lparr>GCM_AppId = appId, GCM_MsgType = msgType, GCM_Header = NewMsgGCHdr, GCM_Body = body\<rparr>"

definition GCM_GetMsgType :: "'b GCMsg \<Rightarrow> u32" where "GCM_GetMsgType g = GCM_MsgType g"
definition GCM_GetAppId :: "'b GCMsg \<Rightarrow> u32" where "GCM_GetAppId g = GCM_AppId g"
definition GCM_IsProto :: "'b GCMsg \<Rightarrow> bool" where "GCM_IsProto g = False"
definition GCM_GetTargetJobId :: "'b GCMsg \<Rightarrow> JobId" where "GCM_GetTargetJobId g = MsgGCHdr_TargetJobID (GCM_Header g)"

definition GCM_SetTargetJobId :: "JobId \<Rightarrow> 'b GCMsg \<Rightarrow> 'b GCMsg" where
  "GCM_SetTargetJobId job g = g\<lparr>GCM_Header := (GCM_Header g)\<lparr>MsgGCHdr_TargetJobID := job\<rparr>\<rparr>"

definition GCM_GetSourceJobId :: "'b GCMsg \<Rightarrow> JobId" where "GCM_GetSourceJobId g = MsgGCHdr_SourceJobID (GCM_Header g)"

definition GCM_SetSourceJobId :: "JobId \<Rightarrow> 'b GCMsg \<Rightarrow> 'b GCMsg" where
  "GCM_SetSourceJobId job g = g\<lparr>GCM_Header := (GCM_Header g)\<lparr>MsgGCHdr_SourceJobID := job\<rparr>\<rparr>"

definition GCM_Serialize :: "('b \<Rightarrow> written) \<Rightarrow> 'b GCMsg \<Rightarrow> written" where
  "GCM_Serialize ser g = (case ser (GCM_Body g) of (body, err) \<Rightarrow> (MsgGCHdr_Serialize (GCM_Header g) @ body, err))"

lemmas GCP_defs = GCP_proto_def GCP_upd_def GCP_IsProto_def GCP_GetAppId_def GCP_GetMsgType_def GCP_GetTargetJobId_def
  GCP_SetTargetJobId_def GCP_GetSourceJobId_def GCP_SetSourceJobId_def

lemmas GCM_defs = GCM_GetMsgType_def GCM_GetAppId_def GCM_IsProto_def GCM_GetTargetJobId_def GCM_SetTargetJobId_def
  GCM_GetSourceJobId_def GCM_SetSourceJobId_def

interpretation GCP_msg: igcmsg GCP_GetMsgType GCP_GetTargetJobId GCP_SetTargetJobId GCP_GetSourceJobId GCP_SetSourceJobId
  GCP_IsProto GCP_GetAppId
  by unfold_locales (simp_all add: GCP_defs pb_get)

interpretation GCM_msg: igcmsg GCM_GetMsgType GCM_GetTargetJobId GCM_SetTargetJobId GCM_GetSourceJobId GCM_SetSourceJobId
  GCM_IsProto GCM_GetAppId
  by unfold_locales (simp_all add: GCM_defs)

section \<open>Packets\<close>

record GCPacket =
  GCPacket_AppId :: u32
  GCPacket_MsgType :: u32
  GCPacket_IsProto :: bool
  GCPacket_GCName :: string
  GCPacket_Body :: bytes
  GCPacket_TargetJobId :: JobId

definition NewGCPacket :: "hdr_codec \<Rightarrow> CMsgGCClient \<Rightarrow> GCPacket res" where
  "NewGCPacket c wrapper =
     (let packet = \<lparr>GCPacket_AppId = CMsgGCClient_GetAppid wrapper, GCPacket_MsgType = CMsgGCClient_GetMsgtype wrapper,
            GCPacket_IsProto = False, GCPacket_GCName = CMsgGCClient_GetGcname wrapper,
            GCPacket_Body = [], GCPacket_TargetJobId = 0\<rparr>;
          r = CMsgGCClient_GetPayload wrapper in
      if IsProto (CMsgGCClient_GetMsgtype wrapper) then
        (case MsgGCHdrProtoBuf_Deserialize c NewMsgGCHdrProtoBuf r of
           Panic p \<Rightarrow> Panic p
         | Err err \<Rightarrow> Err err
         | Ok (header, Some err, _) \<Rightarrow> Err err
         | Ok (header, None, r) \<Rightarrow> Ok (packet\<lparr>
             GCPacket_MsgType := GCPacket_MsgType packet AND EMsgMask, GCPacket_IsProto := True,
             GCPacket_TargetJobId := CMsgProtoBufHeader_GetJobidTarget (MsgGCHdrProtoBuf_Proto header),
             GCPacket_Body := r\<rparr>))
      else (case MsgGCHdr_Deserialize NewMsgGCHdr r of
           (header, Some err, _) \<Rightarrow> Err err
         | (header, None, r) \<Rightarrow> Ok (packet\<lparr>
             GCPacket_TargetJobId := MsgGCHdr_TargetJobID header, GCPacket_Body := r\<rparr>)))"

definition GCPacket_ReadProtoMsg :: "'b decoder \<Rightarrow> GCPacket \<Rightarrow> 'b" where
  "GCPacket_ReadProtoMsg un g = fst (un (GCPacket_Body g))"

definition GCPacket_ReadMsg :: "'b step \<Rightarrow> 'b \<Rightarrow> GCPacket \<Rightarrow> 'b" where
  "GCPacket_ReadMsg des body g = fst (des body (GCPacket_Body g))"

section \<open>The coordinator component\<close>

type_synonym gc_packet_handler = "GCPacket \<Rightarrow> Client \<Rightarrow> Client res"

definition GC_RegisterPacketHandler :: "gc_packet_handler \<Rightarrow> gc_packet_handler list \<Rightarrow> gc_packet_handler list" where
  "GC_RegisterPacketHandler handler handlers = handlers @ [handler]"

fun run_gc_handlers :: "gc_packet_handler list \<Rightarrow> gc_packet_handler" where
  "run_gc_handlers [] p c = Ok c"
| "run_gc_handlers (h # hs) p c = bind_res (h p c) (run_gc_handlers hs p)"

definition GC_HandlePacket :: "gc_packet_handler list \<Rightarrow> Env \<Rightarrow> handler" where
  "GC_HandlePacket handlers env packet c =
     (if Packet_EMsg packet \<noteq> EMsg_ClientFromGC then Ok c
      else with_body env un_GCClient packet (\<lambda>msg.
        case NewGCPacket (env_hdr env) msg of
          Panic p \<Rightarrow> Panic p
        | Err err \<Rightarrow> Ok (Errorf err c)
        | Ok p \<Rightarrow> run_gc_handlers handlers p c))"

datatype ('p, 's) IGCMsg =
    IGC_Proto "'p GCMsgProtobuf"
  | IGC_Struct "'s GCMsg"

definition IGC_Serialize :: "hdr_codec \<Rightarrow> ('p \<Rightarrow> bytes res) \<Rightarrow> ('s \<Rightarrow> written) \<Rightarrow> ('p, 's) IGCMsg \<Rightarrow> written res" where
  "IGC_Serialize c marshal ser msg = (case msg of
     IGC_Proto m \<Rightarrow> GCP_Serialize c marshal m | IGC_Struct m \<Rightarrow> Ok (GCM_Serialize ser m))"

definition IGC_GetMsgType :: "('p, 's) IGCMsg \<Rightarrow> u32" where
  "IGC_GetMsgType msg = (case msg of IGC_Proto m \<Rightarrow> GCP_GetMsgType m | IGC_Struct m \<Rightarrow> GCM_GetMsgType m)"

definition IGC_IsProto :: "('p, 's) IGCMsg \<Rightarrow> bool" where
  "IGC_IsProto msg = (case msg of IGC_Proto m \<Rightarrow> GCP_IsProto m | IGC_Struct m \<Rightarrow> GCM_IsProto m)"

definition IGC_GetAppId :: "('p, 's) IGCMsg \<Rightarrow> u32" where
  "IGC_GetAppId msg = (case msg of IGC_Proto m \<Rightarrow> GCP_GetAppId m | IGC_Struct m \<Rightarrow> GCM_GetAppId m)"

definition IGC_GetTargetJobId :: "('p, 's) IGCMsg \<Rightarrow> JobId" where
  "IGC_GetTargetJobId msg = (case msg of IGC_Proto m \<Rightarrow> GCP_GetTargetJobId m | IGC_Struct m \<Rightarrow> GCM_GetTargetJobId m)"

text \<open>The envelope of a message: the error of \<open>Serialize\<close> is dropped.\<close>

definition gc_envelope :: "hdr_codec \<Rightarrow> ('p \<Rightarrow> bytes res) \<Rightarrow> ('s \<Rightarrow> written) \<Rightarrow> ('p, 's) IGCMsg \<Rightarrow> CMsgGCClient res" where
  "gc_envelope c marshal ser msg = bind_res (IGC_Serialize c marshal ser msg) (\<lambda>(buf, _).
     let msgType = IGC_GetMsgType msg;
         msgType = (if IGC_IsProto msg then msgType OR 0x80000000 else msgType)
     in Ok (NewCMsgGCClient\<lparr>CMsgGCClient_Msgtype := Some msgType, CMsgGCClient_Appid := Some (IGC_GetAppId msg),
          CMsgGCClient_Payload := Some buf\<rparr>))"

definition GC_Write :: "hdr_codec \<Rightarrow> ('p \<Rightarrow> bytes res) \<Rightarrow> ('s \<Rightarrow> written) \<Rightarrow> ('p, 's) IGCMsg \<Rightarrow> Client \<Rightarrow> Client res" where
  "GC_Write c marshal ser msg client = bind_res (gc_envelope c marshal ser msg) (\<lambda>body.
     let out = NewClientMsgProtobuf EMsg_ClientToGC (PB_GCClient body);
         out = CMP_upd (\<lambda>h. h\<lparr>CMsgProtoBufHeader_RoutingAppid := Some (IGC_GetAppId msg)\<rparr>) out
     in Ok (Write (IM_Proto out) client))"

definition SetGamesPlayed :: "u64 list \<Rightarrow> Client \<Rightarrow> Client" where
  "SetGamesPlayed appIds = WriteProto EMsg_ClientGamesPlayed (PB_ClientGamesPlayed
     (NewCMsgClientGamesPlayed\<lparr>CMsgClientGamesPlayed_GamesPlayed := map (\<lambda>appId.
        NewCMsgClientGamesPlayed_GamePlayed\<lparr>CMsgClientGamesPlayed_GamePlayed_GameId := Some appId\<rparr>) appIds\<rparr>))"

section \<open>The contract of a handler\<close>

locale gc_handler =
  fixes handle :: gc_packet_handler
  assumes gc_extends: "handle p c = Ok c' \<Longrightarrow> extends c c'"
begin

lemma gc_events_kept: "handle p c = Ok c' \<Longrightarrow> set (c_events c) \<subseteq> set (c_events c')"
  using gc_extends unfolding extends_def by fastforce

end

lemma run_gc_handlers_extends:
  "list_all gc_handler hs \<Longrightarrow> run_gc_handlers hs p c = Ok c' \<Longrightarrow> extends c c'"
proof (induction hs arbitrary: c)
  case (Cons h hs)
  then show ?case
    by (auto simp: bind_res_Ok_iff intro: extends_trans dest: gc_handler.gc_extends)
qed simp

lemma GC_HandlePacket_packet_handler: "list_all gc_handler hs \<Longrightarrow> packet_handler (GC_HandlePacket hs env)"
  by unfold_locales (auto simp: GC_HandlePacket_def elim!: with_body_OkE split: if_splits res.splits
      intro!: extends_intros intro: run_gc_handlers_extends)

lemma list_all_RegisterPacketHandler:
  "list_all gc_handler hs \<Longrightarrow> gc_handler h \<Longrightarrow> list_all gc_handler (GC_RegisterPacketHandler h hs)"
  by (simp add: GC_RegisterPacketHandler_def)

section \<open>The way through an envelope\<close>

lemma gc_mask: "(t OR 0x80000000 :: u32) = t OR ProtoMask"
  by (simp add: ProtoMask_def)

lemma GCP_roundtrip:
  assumes "pb_roundtrip c (GCP_proto m) hs" and "length hs < 2 ^ 31" and "marshal (GCP_Body m) = Ok bs"
  shows "\<exists>env. gc_envelope c marshal ser (IGC_Proto m) = Ok env \<and> NewGCPacket c env = Ok
    \<lparr>GCPacket_AppId = GCP_AppId m, GCPacket_MsgType = NewEMsg (GCP_GetMsgType m), GCPacket_IsProto = True,
     GCPacket_GCName = [], GCPacket_Body = bs, GCPacket_TargetJobId = GCP_GetTargetJobId m\<rparr>"
proof -
  let ?t = "MsgGCHdrProtoBuf_Msg (GCP_Header m)"
  have "IsProto (?t OR ProtoMask)" by (rule IsProto_flag)
  moreover have "(?t OR ProtoMask) AND EMsgMask = NewEMsg ?t"
    using NewEMsg_proto_flag [of ?t] by (simp add: NewEMsg_def)
  ultimately show ?thesis
    using assms MsgGCHdrProtoBuf_Serialize_frame [of c "GCP_Header m" hs]
      MsgGCHdrProtoBuf_Deserialize_frame [OF assms(1,2), of NewMsgGCHdrProtoBuf ?t bs]
    by (simp add: gc_envelope_def IGC_Serialize_def GCP_Serialize_def GCP_defs IGC_GetMsgType_def IGC_IsProto_def
        IGC_GetAppId_def NewGCPacket_def pb_get gc_mask NewCMsgGCClient_def)
qed

lemma GCM_roundtrip:
  assumes "\<not> IsProto (GCM_MsgType m)"
  shows "\<exists>env. gc_envelope c marshal ser (IGC_Struct m) = Ok env \<and> NewGCPacket c env = Ok
    \<lparr>GCPacket_AppId = GCM_AppId m, GCPacket_MsgType = GCM_GetMsgType m, GCPacket_IsProto = False,
     GCPacket_GCName = [], GCPacket_Body = fst (ser (GCM_Body m)), GCPacket_TargetJobId = GCM_GetTargetJobId m\<rparr>"
  using assms by (simp add: gc_envelope_def IGC_Serialize_def GCM_Serialize_def GCM_defs IGC_GetMsgType_def IGC_IsProto_def
      IGC_GetAppId_def NewGCPacket_def pb_get NewCMsgGCClient_def MsgGCHdr_codec.des_ser split: prod.split)

end
