(* ===== verification/Steam_Client.thy ===== *)
theory Steam_Client
  imports Connection Auth Authentication Social_Ops Web_Ops Notifications Trading Game_Coordinator
begin

text \<open>
  \<open>client.go\<close>: connecting, the loops, the packets the client handles itself and the dispatch to the
  components. The registered handlers are those of \<open>NewClient\<close> in its order, and \<open>cfg_extra\<close> after them.

  A packet may hold packets (\<open>EMsg_Multi\<close>), and these may again; since their payload can be compressed, nothing
  bounds the nesting. \<open>handlePacket\<close> therefore takes the allowed depth as fuel and gives \<open>None\<close> beyond it;
  \<open>handlePacket_enough\<close> shows how much is enough when nothing is compressed.
\<close>

section \<open>What the client is given\<close>

record Config =
  cfg_env :: Env
  cfg_order :: map_order
  cfg_gc :: "gc_packet_handler list"
  cfg_extra :: "handler list"
  cfg_random :: "Client \<Rightarrow> bytes \<times> bytes"

text \<open>\<open>cfg_random\<close>: the 32 bytes of the session key and the padding seed drawn in a state.\<close>

definition handlers :: "Config \<Rightarrow> handler list" where
  "handlers cfg =
     [Auth_HandlePacket (cfg_env cfg), Authentication_HandlePacket, Social_HandlePacket (cfg_env cfg),
      Web_HandlePacket (cfg_env cfg), Notifications_HandlePacket (cfg_order cfg) (cfg_env cfg),
      Trading_HandlePacket (cfg_env cfg), GC_HandlePacket (cfg_gc cfg) (cfg_env cfg)] @ cfg_extra cfg"

definition RegisterPacketHandler :: "handler \<Rightarrow> Config \<Rightarrow> Config" where
  "RegisterPacketHandler handler cfg = cfg\<lparr>cfg_extra := cfg_extra cfg @ [handler]\<rparr>"

section \<open>Packets of the client itself\<close>

definition handleChannelEncryptRequest :: "(Client \<Rightarrow> bytes \<times> bytes) \<Rightarrow> handler" where
  "handleChannelEncryptRequest random packet c =
     (let body = M_Body (ReadMsg MsgChannelEncryptRequest_Deserialize NewMsgChannelEncryptRequest packet);
          c = (if MsgChannelEncryptRequest_Universe body \<noteq> EUniverse_Public
               then Fatalf (GoErr ''Invalid univserse'') c else c);
          (key, seed) = random c;
          c = c\<lparr>c_tempSessionKey := Some key\<rparr> in
      bind_res (GetPublicKey EUniverse_Public) (\<lambda>pub.
      bind_res (RSAEncrypt seed pub key) (\<lambda>encryptedKey.
      let payload = encryptedKey @ le_bytes 4 (crc32_ChecksumIEEE encryptedKey) @ [0, 0, 0, 0]
      in Ok (Write (IM_Plain (NewMsg MB_GetEMsg (MB_ChannelEncryptResponse NewMsgChannelEncryptResponse) payload)) c))))"

text \<open>The connection may have been closed meanwhile: then \<open>c.conn\<close> is nil.\<close>

definition handleChannelEncryptResult :: "handler" where
  "handleChannelEncryptResult packet c =
     (let body = M_Body (ReadMsg MsgChannelEncryptResult_Deserialize NewMsgChannelEncryptResult packet) in
      if MsgChannelEncryptResult_Result body \<noteq> EResult_OK then Ok (Fatalf (GoErr ''Encryption failed'') c)
      else (case c_conn c of
          None \<Rightarrow> Panic ''nil pointer dereference''
        | Some conn \<Rightarrow> bind_res (conn_SetEncryptionKey (c_tempSessionKey c) conn) (\<lambda>conn.
            Ok (Emit Ev_Connected (c\<lparr>c_conn := Some conn, c_tempSessionKey := None\<rparr>)))))"

definition readIp :: "u32 \<Rightarrow> IP" where
  "readIp ip = [ucast (drop_bit 24 ip), ucast (drop_bit 16 ip), ucast (drop_bit 8 ip), ucast ip]"

text \<open>The loop indexes the ports with the position of the address.\<close>

fun cm_addresses :: "nat \<Rightarrow> u32 list \<Rightarrow> u32 list \<Rightarrow> PortAddr list res" where
  "cm_addresses i ports [] = Ok []"
| "cm_addresses i ports (ip # ips) =
     (if i < length ports then
        map_res (\<lambda>l. \<lparr>PortAddr_IP = readIp ip, PortAddr_Port = ucast (ports ! i)\<rparr> # l) (cm_addresses (Suc i) ports ips)
      else Panic ''index out of range'')"

definition handleClientCMList :: "Env \<Rightarrow> handler" where
  "handleClientCMList env packet c = with_body env un_ClientCMList packet (\<lambda>body.
     bind_res (cm_addresses 0 (CMsgClientCMList_CmPorts body) (CMsgClientCMList_CmAddresses body)) (\<lambda>l.
     Ok (Emit (Ev_ClientCMList \<lparr>ClientCMListEvent_Addresses = l\<rparr>) c)))"

section \<open>Packets within packets\<close>

lemma ReadUint32_shorter: "pr \<noteq> [] \<Longrightarrow> ReadUint32 pr = (n, e, r) \<Longrightarrow> length r < length pr"
  by (auto simp: rwu_readers read_le_def ReadFull_def split: if_splits)

text \<open>
  The pieces the loop of \<open>handleMulti\<close> cuts from the payload. The errors of its two reads are dropped: a length
  cut short is 0, and a piece cut short is filled up with zeros.
\<close>

function multi_pieces :: "bytes \<Rightarrow> bytes list" where
  "multi_pieces pr =
     (if pr = [] then []
      else (case ReadUint32 pr of (n, _, pr) \<Rightarrow>
        (take (unat n) pr @ replicate (unat n - length pr) 0) # multi_pieces (drop (unat n) pr)))"
  by pat_completeness auto
termination
proof (relation "measure length")
  fix pr n y e r
  assume "pr \<noteq> []" "(n, y) = ReadUint32 pr" "(e, r) = y"
  then have "length r < length pr" using ReadUint32_shorter [of pr n e r] by simp
  then show "(drop (unat n) r, pr) \<in> measure length" by simp
qed simp

declare multi_pieces.simps [simp del]

type_synonym fueled_handler = "Packet \<Rightarrow> Client \<Rightarrow> Client res option"

definition bind_fuel :: "'a res option \<Rightarrow> ('a \<Rightarrow> 'b res option) \<Rightarrow> 'b res option" where
  "bind_fuel m f = (case m of
     None \<Rightarrow> None | Some (Ok x) \<Rightarrow> f x | Some (Err e) \<Rightarrow> Some (Err e) | Some (Panic p) \<Rightarrow> Some (Panic p))"

fun each_piece :: "Env \<Rightarrow> fueled_handler \<Rightarrow> bytes list \<Rightarrow> Client \<Rightarrow> Client res option" where
  "each_piece env h [] c = Some (Ok c)"
| "each_piece env h (packetData # ds) c =
     (case NewPacket (env_hdr env) packetData of
        Panic p \<Rightarrow> Some (Panic p)
      | Err err \<Rightarrow> each_piece env h ds (Errorf err c)
      | Ok p \<Rightarrow> bind_fuel (h p c) (each_piece env h ds))"

definition multi_payload :: "Env \<Rightarrow> CMsgMulti \<Rightarrow> bytes res" where
  "multi_payload env body =
     (if CMsgMulti_GetSizeUnzipped body > 0 then env_gunzip env (CMsgMulti_GetMessageBody body)
      else Ok (CMsgMulti_GetMessageBody body))"

definition handleMulti :: "Env \<Rightarrow> fueled_handler \<Rightarrow> fueled_handler" where
  "handleMulti env h packet c =
     (case ReadProtoMsg (env_hdr env) (un_Multi env) packet of
        Panic p \<Rightarrow> Some (Panic p) | Err e \<Rightarrow> Some (Err e)
      | Ok msg \<Rightarrow> (case multi_payload env (CMP_Body msg) of
          Panic p \<Rightarrow> Some (Panic p)
        | Err err \<Rightarrow> Some (Ok (Errorf err c))
        | Ok payload \<Rightarrow> each_piece env h (multi_pieces payload) c))"

fun handlePacket :: "nat \<Rightarrow> Config \<Rightarrow> fueled_handler" where
  "handlePacket 0 cfg packet c = None"
| "handlePacket (Suc n) cfg packet c =
     bind_fuel
       (if Packet_EMsg packet = EMsg_ChannelEncryptRequest then Some (handleChannelEncryptRequest (cfg_random cfg) packet c)
        else if Packet_EMsg packet = EMsg_ChannelEncryptResult then Some (handleChannelEncryptResult packet c)
        else if Packet_EMsg packet = EMsg_Multi then handleMulti (cfg_env cfg) (handlePacket n cfg) packet c
        else if Packet_EMsg packet = EMsg_ClientCMList then Some (handleClientCMList (cfg_env cfg) packet c)
        else Some (Ok c))
       (\<lambda>c. Some (run_handlers (handlers cfg) packet c))"

section \<open>Connecting\<close>

text \<open>\<open>dialled\<close> is the error of the dialler, if any. A nil address is dereferenced.\<close>

definition opened :: "connection \<Rightarrow> Client \<Rightarrow> Client" where
  "opened conn c = spawn G_writeLoop (spawn G_readLoop (c\<lparr>c_conn := Some conn, c_writeChan := []\<rparr>))"

definition ConnectToBind :: "PortAddr option \<Rightarrow> go_err option \<Rightarrow> Client \<Rightarrow> (go_err option \<times> Client) res" where
  "ConnectToBind addr dialled c =
     (let c = Disconnect c in
      case map_option ToTCPAddr addr of
        None \<Rightarrow> Panic ''nil pointer dereference''
      | Some raddr \<Rightarrow> (case dialled of
          Some err \<Rightarrow> Ok (Some err, Fatalf err c)
        | None \<Rightarrow> Ok (None, opened (Conn_tcp None) c)))"

definition ConnectTo :: "PortAddr option \<Rightarrow> go_err option \<Rightarrow> Client \<Rightarrow> (go_err option \<times> Client) res" where
  "ConnectTo addr dialled c = ConnectToBind addr dialled c"

definition ConnectToWebSocket :: "go_err option \<Rightarrow> Client \<Rightarrow> go_err option \<times> Client" where
  "ConnectToWebSocket dialled c =
     (let c = Disconnect c in
      case dialled of
        Some err \<Rightarrow> (Some err, Fatalf err c)
      | None \<Rightarrow> (None, Emit Ev_Connected (opened Conn_ws c)))"

text \<open>\<open>Connect\<close>: the directory cache is asked once, and the built-in list is the fallback.\<close>

definition Connect ::
  "(DirectoryResponse, go_err) sum \<Rightarrow> nat \<Rightarrow> go_err option \<Rightarrow> steamDirectory \<Rightarrow> Client
     \<Rightarrow> (PortAddr option \<times> go_err option \<times> steamDirectory \<times> Client) res" where
  "Connect answer rng dialled sd c =
     (let sd = (if \<not> sd_IsInitialized sd then fst (sd_Initialize answer sd) else sd) in
      bind_res (if sd_IsInitialized sd then sd_GetRandomCM rng sd else map_res Some (GetRandomCM rng)) (\<lambda>server.
      bind_res (ConnectTo server dialled c) (\<lambda>(err, c). Ok (server, err, sd, c))))"

section \<open>The loops\<close>

text \<open>
  \<open>readLoop\<close> over what the network still delivers. \<open>receive\<close> is \<open>Read\<close> of the connection: \<open>tcp_net\<close> or \<open>ws_net\<close>.
  The loop ends when the connection is closed or a read fails; \<open>readLoop_enough\<close> shows that one round
  more than there is input is enough.
\<close>

definition tcp_net :: "Config \<Rightarrow> connection \<Rightarrow> bytes \<Rightarrow> Packet res \<times> bytes" where
  "tcp_net cfg conn = tcp_Read (env_hdr (cfg_env cfg)) (case conn of Conn_tcp ciph \<Rightarrow> ciph | Conn_ws \<Rightarrow> None)"

definition ws_net :: "Config \<Rightarrow> connection \<Rightarrow> ws_message list \<Rightarrow> Packet res \<times> ws_message list" where
  "ws_net cfg conn = ws_Read (env_hdr (cfg_env cfg))"

fun readLoop ::
  "nat \<Rightarrow> nat \<Rightarrow> Config \<Rightarrow> (connection \<Rightarrow> 'n list \<Rightarrow> Packet res \<times> 'n list) \<Rightarrow> 'n list \<Rightarrow> Client \<Rightarrow> Client res option" where
  "readLoop 0 depth cfg receive net c = None"
| "readLoop (Suc n) depth cfg receive net c =
     (case c_conn c of
        None \<Rightarrow> Some (Ok c)
      | Some conn \<Rightarrow> (case receive conn net of
          (Panic p, _) \<Rightarrow> Some (Panic p)
        | (Err err, _) \<Rightarrow> Some (Ok (Fatalf err c))
        | (Ok packet, net) \<Rightarrow> bind_fuel (handlePacket depth cfg packet c) (readLoop n depth cfg receive net)))"

text \<open>
  One round of \<open>writeLoop\<close> with a message in the queue: the bytes for the network, if it goes on. \<open>iv\<close> is drawn
  by the encryption; \<open>lost\<close> is the error with which the network refuses the bytes, if it does.
\<close>

definition conn_Write :: "connection \<Rightarrow> bytes \<Rightarrow> bytes \<Rightarrow> bytes res" where
  "conn_Write conn iv buf = (case conn of Conn_tcp ciph \<Rightarrow> tcp_Write ciph iv buf | Conn_ws \<Rightarrow> Ok buf)"

definition writeLoop_round :: "Env \<Rightarrow> bytes \<Rightarrow> go_err option \<Rightarrow> Client \<Rightarrow> (bytes option \<times> Client) res" where
  "writeLoop_round env iv lost c =
     (case (c_conn c, c_writeChan c) of
        (None, _) \<Rightarrow> Ok (None, c)
      | (Some conn, []) \<Rightarrow> Ok (None, c)
      | (Some conn, msg # msgs) \<Rightarrow>
          let c = c\<lparr>c_writeChan := msgs\<rparr> in
          (case IMsg_Serialize (env_hdr env) (env_Marshal env) msg of
             Panic p \<Rightarrow> Panic p
           | Err err \<Rightarrow> Ok (None, Fatalf err c)
           | Ok buf \<Rightarrow> bind_res (conn_Write conn iv buf) (\<lambda>f.
               case lost of Some err \<Rightarrow> Ok (None, Fatalf err c) | None \<Rightarrow> Ok (Some f, c))))"

text \<open>\<open>heartbeatLoop\<close>: \<open>NewTicker\<close> panics unless the interval is positive; a tick writes a heartbeat.\<close>

definition heartbeat_start :: "i32 \<Rightarrow> Client \<Rightarrow> Client res" where
  "heartbeat_start seconds c =
     (if sint seconds \<le> 0 then Panic ''non-positive interval for NewTicker'' else Ok (c\<lparr>c_heartbeat := True\<rparr>))"

definition heartbeat_tick :: "Client \<Rightarrow> Client" where
  "heartbeat_tick c = WriteProto EMsg_ClientHeartBeat (PB_ClientHeartBeat NewCMsgClientHeartBeat) c"

end
