(* ===== verification/Tf2.thy ===== *)
theory Tf2
  imports Game_Coordinator
begin

text \<open>
  \<open>tf2/tf2.go\<close> and \<open>tf2/protocol/econ.go\<close>: Team Fortress 2 as a client of the game coordinator component.
  \<open>binary.Write\<close> of a struct writes its fields one after another, and fails, writing nothing, for a struct
  with a slice in it.
\<close>

section \<open>Bodies\<close>

record MsgGCSetItemPosition =
  SetItemPosition_AssetId :: u64
  SetItemPosition_Position :: u64

definition MsgGCSetItemPosition_Serialize :: "MsgGCSetItemPosition \<Rightarrow> written" where
  "MsgGCSetItemPosition_Serialize m =
     (le_bytes 8 (SetItemPosition_AssetId m) @ le_bytes 8 (SetItemPosition_Position m), None)"

record MsgGCCraft =
  GCCraft_Recipe :: i16
  GCCraft_numItems :: i16
  GCCraft_Items :: "u64 list"

definition MsgGCCraft_Serialize :: "MsgGCCraft \<Rightarrow> written" where
  "MsgGCCraft_Serialize m =
     (let m = m\<lparr>GCCraft_numItems := word_of_nat (length (GCCraft_Items m))\<rparr>
      in ([], Some (GoErr ''binary.Write: some values are not fixed-sized in type *protocol.MsgGCCraft'')))"

record MsgGCDeleteItem =
  GCDeleteItem_ItemId :: u64

definition MsgGCDeleteItem_Serialize :: "MsgGCDeleteItem \<Rightarrow> written" where
  "MsgGCDeleteItem_Serialize m = (le_bytes 8 (GCDeleteItem_ItemId m), None)"

record MsgGCNameItem =
  GCNameItem_Tool :: u64
  GCNameItem_Target :: u64
  GCNameItem_Name :: string

definition MsgGCNameItem_Serialize :: "MsgGCNameItem \<Rightarrow> written" where
  "MsgGCNameItem_Serialize m =
     (le_bytes 8 (GCNameItem_Tool m) @ le_bytes 8 (GCNameItem_Target m) @ bytes_of (GCNameItem_Name m), None)"

datatype TF2Body =
    TF2_SetItemPosition MsgGCSetItemPosition
  | TF2_Craft MsgGCCraft
  | TF2_DeleteItem MsgGCDeleteItem
  | TF2_NameItem MsgGCNameItem

fun TF2Body_Serialize :: "TF2Body \<Rightarrow> written" where
  "TF2Body_Serialize (TF2_SetItemPosition m) = MsgGCSetItemPosition_Serialize m"
| "TF2Body_Serialize (TF2_Craft m) = MsgGCCraft_Serialize m"
| "TF2Body_Serialize (TF2_DeleteItem m) = MsgGCDeleteItem_Serialize m"
| "TF2Body_Serialize (TF2_NameItem m) = MsgGCNameItem_Serialize m"

section \<open>Operations\<close>

definition TF2_AppId :: u32 where "TF2_AppId = 440"
definition k_EMsgGCSetSingleItemPosition :: u32 where "k_EMsgGCSetSingleItemPosition = 1001"
definition k_EMsgGCCraft :: u32 where "k_EMsgGCCraft = 1002"
definition k_EMsgGCDelete :: u32 where "k_EMsgGCDelete = 1004"
definition k_EMsgGCNameItem :: u32 where "k_EMsgGCNameItem = 1006"
definition k_EMsgGCClientWelcome :: u32 where "k_EMsgGCClientWelcome = 4004"

definition SetPlaying :: "bool \<Rightarrow> Client \<Rightarrow> Client" where
  "SetPlaying playing = (if playing then SetGamesPlayed [ucast TF2_AppId] else SetGamesPlayed [])"

definition tf2_Write :: "Env \<Rightarrow> TF2Body GCMsg \<Rightarrow> Client \<Rightarrow> Client res" where
  "tf2_Write env m = GC_Write (env_hdr env) (env_Marshal env) TF2Body_Serialize (IGC_Struct m)"

definition SetItemPosition :: "Env \<Rightarrow> u64 \<Rightarrow> u64 \<Rightarrow> Client \<Rightarrow> Client res" where
  "SetItemPosition env itemId position = tf2_Write env (NewGCMsg TF2_AppId k_EMsgGCSetSingleItemPosition
     (TF2_SetItemPosition \<lparr>SetItemPosition_AssetId = itemId, SetItemPosition_Position = position\<rparr>))"

definition CraftItems :: "Env \<Rightarrow> u64 list \<Rightarrow> i16 \<Rightarrow> Client \<Rightarrow> Client res" where
  "CraftItems env items recipe = tf2_Write env (NewGCMsg TF2_AppId k_EMsgGCCraft
     (TF2_Craft \<lparr>GCCraft_Recipe = recipe, GCCraft_numItems = 0, GCCraft_Items = items\<rparr>))"

definition DeleteItem :: "Env \<Rightarrow> u64 \<Rightarrow> Client \<Rightarrow> Client res" where
  "DeleteItem env itemId = tf2_Write env (NewGCMsg TF2_AppId k_EMsgGCDelete
     (TF2_DeleteItem \<lparr>GCDeleteItem_ItemId = itemId\<rparr>))"

definition NameItem :: "Env \<Rightarrow> u64 \<Rightarrow> u64 \<Rightarrow> string \<Rightarrow> Client \<Rightarrow> Client res" where
  "NameItem env toolId target name = tf2_Write env (NewGCMsg TF2_AppId k_EMsgGCNameItem
     (TF2_NameItem \<lparr>GCNameItem_Tool = toolId, GCNameItem_Target = target, GCNameItem_Name = name\<rparr>))"

definition handleWelcome :: gc_packet_handler where
  "handleWelcome packet c = Ok (Emit Ev_GCReady c)"

definition HandleGCPacket :: gc_packet_handler where
  "HandleGCPacket packet c =
     (if GCPacket_AppId packet \<noteq> TF2_AppId then Ok c
      else if GCPacket_MsgType packet = k_EMsgGCClientWelcome then handleWelcome packet c
      else Ok c)"

text \<open>\<open>tf2.New\<close> registers the component.\<close>

definition tf2_New :: "gc_packet_handler list \<Rightarrow> gc_packet_handler list" where
  "tf2_New handlers = GC_RegisterPacketHandler HandleGCPacket handlers"

interpretation TF2_handler: gc_handler HandleGCPacket
  by unfold_locales (auto simp: HandleGCPacket_def handleWelcome_def split: if_splits)

interpretation GC_with_TF2: packet_handler "GC_HandlePacket (tf2_New []) env" for env
  by (rule GC_HandlePacket_packet_handler) (simp add: tf2_New_def GC_RegisterPacketHandler_def TF2_handler.gc_handler_axioms)

section \<open>Messages and their envelopes\<close>

lemma tf2_types_plain:
  "\<not> IsProto k_EMsgGCSetSingleItemPosition" "\<not> IsProto k_EMsgGCCraft" "\<not> IsProto k_EMsgGCDelete" "\<not> IsProto k_EMsgGCNameItem"
  by (simp_all add: IsProto_def ProtoMask_def k_EMsgGCSetSingleItemPosition_def k_EMsgGCCraft_def k_EMsgGCDelete_def
      k_EMsgGCNameItem_def)

text \<open>
  A message for a game coordinator, of either class, is found again in its envelope by \<open>NewGCPacket\<close>: the
  application, the message type without the protobuf flag, the class, the target job and the body bytes
  are those of the message. For the protobuf class this rests on the protobuf library reading back
  what it writes for the header.\<close>

theorem gc_message_roundtrip:
  assumes "pb_roundtrip c (GCP_proto m) hs" and "length hs < 2 ^ 31" and "marshal (GCP_Body m) = Ok bs"
    and "\<not> IsProto (GCM_MsgType n)"
  shows "(\<exists>e. gc_envelope c marshal ser (IGC_Proto m) = Ok e \<and> NewGCPacket c e = Ok
      \<lparr>GCPacket_AppId = GCP_AppId m, GCPacket_MsgType = NewEMsg (GCP_GetMsgType m), GCPacket_IsProto = True,
       GCPacket_GCName = [], GCPacket_Body = bs, GCPacket_TargetJobId = GCP_GetTargetJobId m\<rparr>) \<and>
    (\<exists>e. gc_envelope c marshal ser (IGC_Struct n) = Ok e \<and> NewGCPacket c e = Ok
      \<lparr>GCPacket_AppId = GCM_AppId n, GCPacket_MsgType = GCM_GetMsgType n, GCPacket_IsProto = False,
       GCPacket_GCName = [], GCPacket_Body = fst (ser (GCM_Body n)), GCPacket_TargetJobId = GCM_GetTargetJobId n\<rparr>)"
  using GCP_roundtrip [where marshal = marshal, OF assms(1-3)] GCM_roundtrip [OF assms(4)] by blast

definition demo_gc_msg :: "u32 GCMsgProtobuf" where
  "demo_gc_msg = GCP_SetSourceJobId 7 (GCP_SetTargetJobId 9 (NewGCMsgProtobuf 440 4006 42))"

definition demo_gc_delete :: "TF2Body GCMsg" where
  "demo_gc_delete = NewGCMsg TF2_AppId k_EMsgGCDelete (TF2_DeleteItem \<lparr>GCDeleteItem_ItemId = 5\<rparr>)"

theorem gc_message_roundtrip_witness:
  "(\<exists>e. gc_envelope jobs_codec (Marshal demo_codec) TF2Body_Serialize (IGC_Proto demo_gc_msg) = Ok e \<and>
      NewGCPacket jobs_codec e = Ok
      \<lparr>GCPacket_AppId = 440, GCPacket_MsgType = NewEMsg 4006, GCPacket_IsProto = True,
       GCPacket_GCName = [], GCPacket_Body = le_bytes 4 (42 :: u32), GCPacket_TargetJobId = 9\<rparr>) \<and>
   (\<exists>e. gc_envelope jobs_codec (Marshal demo_codec) TF2Body_Serialize (IGC_Struct demo_gc_delete) = Ok e \<and>
      NewGCPacket jobs_codec e = Ok
      \<lparr>GCPacket_AppId = 440, GCPacket_MsgType = 1004, GCPacket_IsProto = False,
       GCPacket_GCName = [], GCPacket_Body = le_bytes 8 (5 :: u64), GCPacket_TargetJobId = - 1\<rparr>)"
proof -
  have p: "GCP_proto demo_gc_msg = jobs_header 9 7"
    by (simp add: demo_gc_msg_def GCP_defs NewGCMsgProtobuf_def NewMsgGCHdrProtoBuf_def jobs_header_def
        NewCMsgProtoBufHeader_def)
  have f: "GCP_AppId demo_gc_msg = 440" "GCP_GetMsgType demo_gc_msg = 4006" "GCP_Body demo_gc_msg = 42"
    "GCP_GetTargetJobId demo_gc_msg = 9" "GCM_AppId demo_gc_delete = 440" "GCM_GetMsgType demo_gc_delete = 1004"
    "GCM_GetTargetJobId demo_gc_delete = - 1"
    "fst (TF2Body_Serialize (GCM_Body demo_gc_delete)) = le_bytes 8 (5 :: u64)"
    by (simp_all add: demo_gc_msg_def demo_gc_delete_def GCP_defs GCM_defs NewGCMsgProtobuf_def NewMsgGCHdrProtoBuf_def
        NewGCMsg_def NewMsgGCHdr_def TF2_AppId_def k_EMsgGCDelete_def MsgGCDeleteItem_Serialize_def pb_get)
  have "\<not> IsProto (GCM_MsgType demo_gc_delete)"
    using tf2_types_plain by (simp add: demo_gc_delete_def NewGCMsg_def)
  moreover have "pb_roundtrip jobs_codec (GCP_proto demo_gc_msg) (le_bytes 8 (9 :: u64) @ le_bytes 8 (7 :: u64))"
    unfolding p by (rule jobs_codec_roundtrip)
  moreover have "Marshal demo_codec (GCP_Body demo_gc_msg) = Ok (le_bytes 4 (42 :: u32))"
    by (simp add: demo_codec_def f)
  ultimately show ?thesis
    using gc_message_roundtrip [of jobs_codec demo_gc_msg "le_bytes 8 (9 :: u64) @ le_bytes 8 (7 :: u64)"
        "Marshal demo_codec" "le_bytes 4 (42 :: u32)" demo_gc_delete TF2Body_Serialize]
    by (simp add: f)
qed

text \<open>
  crafting sends an envelope whose payload is the 18 bytes of the plain header and nothing else, whatever the
  items and the recipe: \<open>binary.Write\<close> refuses a struct with a slice, and \<open>Write\<close> drops the error.
  Deleting, in contrast, sends the header and the eight bytes of the item.\<close>

theorem craft_request_is_empty:
  "CraftItems env items recipe c = Ok (Write (IM_Proto (CMP_upd
       (\<lambda>h. h\<lparr>CMsgProtoBufHeader_RoutingAppid := Some 440\<rparr>)
       (NewClientMsgProtobuf EMsg_ClientToGC (PB_GCClient (NewCMsgGCClient\<lparr>
          CMsgGCClient_Msgtype := Some 1002, CMsgGCClient_Appid := Some 440,
          CMsgGCClient_Payload := Some (MsgGCHdr_Serialize NewMsgGCHdr)\<rparr>))))) c)
   \<and> DeleteItem env i c = Ok (Write (IM_Proto (CMP_upd
       (\<lambda>h. h\<lparr>CMsgProtoBufHeader_RoutingAppid := Some 440\<rparr>)
       (NewClientMsgProtobuf EMsg_ClientToGC (PB_GCClient (NewCMsgGCClient\<lparr>
          CMsgGCClient_Msgtype := Some 1004, CMsgGCClient_Appid := Some 440,
          CMsgGCClient_Payload := Some (MsgGCHdr_Serialize NewMsgGCHdr @ le_bytes 8 i)\<rparr>))))) c)"
  by (simp add: CraftItems_def DeleteItem_def tf2_Write_def GC_Write_def gc_envelope_def IGC_Serialize_def GCM_Serialize_def
      MsgGCCraft_Serialize_def MsgGCDeleteItem_Serialize_def IGC_GetMsgType_def IGC_IsProto_def IGC_GetAppId_def GCM_defs NewGCMsg_def
      TF2_AppId_def k_EMsgGCCraft_def k_EMsgGCDelete_def Let_def)

end
