(* ===== verification/Client_Dispatch.thy ===== *)
theory Client_Dispatch
  imports Steam_Client Tf2
begin

text \<open>
  What holds of the dispatch of packets (theory Steam_Client) whatever they are: the client is only extended, its
  caches stay well-formed, and nested packets come to an end.
\<close>

section \<open>Dispatch only extends the client\<close>

lemma extends_tempSessionKey [extends_intros]: "extends c c' \<Longrightarrow> extends c (c'\<lparr>c_tempSessionKey := k\<rparr>)"
  by (simp add: extends_def)

lemma handleChannelEncryptRequest_extends: "handleChannelEncryptRequest random p c = Ok c' \<Longrightarrow> extends c c'"
  by (auto simp: handleChannelEncryptRequest_def Let_def bind_res_Ok_iff split: prod.splits if_splits intro!: extends_intros)

lemma extends_new_cipher:
  "c_conn c = Some conn \<Longrightarrow> extends c (c\<lparr>c_conn := Some conn', c_tempSessionKey := k\<rparr>)"
  by (simp add: extends_def)

lemma handleChannelEncryptResult_extends: "handleChannelEncryptResult p c = Ok c' \<Longrightarrow> extends c c'"
  by (auto simp: handleChannelEncryptResult_def Let_def bind_res_Ok_iff split: if_splits option.splits
      intro!: extends_EmitI extends_new_cipher extends_FatalfI)

lemma handleClientCMList_extends: "handleClientCMList env p c = Ok c' \<Longrightarrow> extends c c'"
  by (auto simp: handleClientCMList_def bind_res_Ok_iff elim!: with_body_OkE intro!: extends_intros)

interpretation EncryptRequest_handler: packet_handler "handleChannelEncryptRequest random" for random
  by unfold_locales (rule handleChannelEncryptRequest_extends)

interpretation EncryptResult_handler: packet_handler handleChannelEncryptResult
  by unfold_locales (rule handleChannelEncryptResult_extends)

interpretation CMList_handler: packet_handler "handleClientCMList env" for env
  by unfold_locales (rule handleClientCMList_extends)

lemma bind_fuel_Ok: "bind_fuel m f = Some (Ok y) \<longleftrightarrow> (\<exists>x. m = Some (Ok x) \<and> f x = Some (Ok y))"
  by (auto simp: bind_fuel_def split: option.splits res.splits)

text \<open>A property every piece keeps is kept by the packet that holds them.\<close>

lemma each_piece_keeps:
  assumes "\<And>p c c'. h p c = Some (Ok c') \<Longrightarrow> Q c \<Longrightarrow> Q c'" and "\<And>e c. Q c \<Longrightarrow> Q (Errorf e c)"
  shows "each_piece env h ds c = Some (Ok c') \<Longrightarrow> Q c \<Longrightarrow> Q c'"
  by (induction ds arbitrary: c) (auto simp: bind_fuel_Ok split: res.splits dest: assms)

lemma handleMulti_keeps:
  assumes "\<And>p c c'. h p c = Some (Ok c') \<Longrightarrow> Q c \<Longrightarrow> Q c'" and "\<And>e c. Q c \<Longrightarrow> Q (Errorf e c)"
  shows "handleMulti env h p c = Some (Ok c') \<Longrightarrow> Q c \<Longrightarrow> Q c'"
  using each_piece_keeps [of h Q, OF assms] assms(2) by (auto simp: handleMulti_def split: res.splits)

text \<open>So a property that every handler keeps is kept by \<open>handlePacket\<close>.\<close>

definition keeps :: "(Client \<Rightarrow> bool) \<Rightarrow> ('p \<Rightarrow> Client \<Rightarrow> Client res) \<Rightarrow> bool" where
  "keeps Q h \<longleftrightarrow> (\<forall>p c c'. h p c = Ok c' \<longrightarrow> Q c \<longrightarrow> Q c')"

lemma run_handlers_keeps: "list_all (keeps Q) hs \<Longrightarrow> keeps Q (run_handlers hs)"
proof (induction hs)
  case (Cons h hs)
  then have "keeps Q h" "keeps Q (run_handlers hs)" by simp_all
  then show ?case unfolding keeps_def by (simp add: bind_res_Ok_iff) blast
qed (simp add: keeps_def)

lemma handlePacket_keeps:
  assumes "keeps Q (handleChannelEncryptRequest (cfg_random cfg))" and "keeps Q handleChannelEncryptResult"
    and "keeps Q (handleClientCMList (cfg_env cfg))" and "list_all (keeps Q) (handlers cfg)"
    and "\<And>e c. Q c \<Longrightarrow> Q (Errorf e c)"
  shows "handlePacket n cfg p c = Some (Ok c') \<Longrightarrow> Q c \<Longrightarrow> Q c'"
proof (induction n arbitrary: p c c')
  case (Suc n)
  have own: "Q d" if "(if Packet_EMsg p = EMsg_ChannelEncryptRequest then Some (handleChannelEncryptRequest (cfg_random cfg) p c)
        else if Packet_EMsg p = EMsg_ChannelEncryptResult then Some (handleChannelEncryptResult p c)
        else if Packet_EMsg p = EMsg_Multi then handleMulti (cfg_env cfg) (handlePacket n cfg) p c
        else if Packet_EMsg p = EMsg_ClientCMList then Some (handleClientCMList (cfg_env cfg) p c)
        else Some (Ok c)) = Some (Ok d)" for d
    using that assms(1-3) Suc.prems(2) handleMulti_keeps [of "handlePacket n cfg" Q, OF Suc.IH assms(5)]
    by (auto simp: keeps_def split: if_splits)
  then show ?case
    using Suc.prems run_handlers_keeps [OF assms(4)] by (auto simp: bind_fuel_Ok keeps_def)
qed simp

lemma packet_handler_keeps: "packet_handler h \<Longrightarrow> keeps (extends c0) h"
  by (auto simp: keeps_def dest: packet_handler.handle_extends intro: extends_trans)

lemma handlers_packet_handler:
  "list_all packet_handler (cfg_extra cfg) \<Longrightarrow> list_all gc_handler (cfg_gc cfg) \<Longrightarrow> list_all packet_handler (handlers cfg)"
  by (simp add: handlers_def Auth_handler.packet_handler_axioms Authentication_handler.packet_handler_axioms
      Social_handler.packet_handler_axioms Web_handler.packet_handler_axioms Notifications_handler.packet_handler_axioms
      Trading_handler.packet_handler_axioms GC_HandlePacket_packet_handler)

text \<open>
  handling a packet, with whatever packets it holds inside, only appends events and only appends messages to
  the send queue; on a closed connection it opens none and queues nothing. The registered handlers of
  the user need only keep this themselves.\<close>

theorem handlePacket_extends:
  assumes "list_all packet_handler (cfg_extra cfg)" and "list_all gc_handler (cfg_gc cfg)"
    and "handlePacket n cfg p c = Some (Ok c')"
  shows "extends c c'"
proof (rule handlePacket_keeps [OF _ _ _ _ _ assms(3) extends_refl])
  show "list_all (keeps (extends c)) (handlers cfg)"
    using handlers_packet_handler [OF assms(1,2)] by (auto simp: list_all_iff intro: packet_handler_keeps)
qed (auto intro: packet_handler_keeps extends_intros EncryptRequest_handler.packet_handler_axioms
    EncryptResult_handler.packet_handler_axioms CMList_handler.packet_handler_axioms)

definition demo_config :: Config where
  "demo_config = \<lparr>cfg_env = demo_env, cfg_order = (\<lambda>m. sorted_list_of_set (Mapping.keys m)), cfg_gc = tf2_New [],
     cfg_extra = [], cfg_random = (\<lambda>_. (replicate 32 1, replicate 20 2))\<rparr>"

lemma demo_config_handlers: "list_all packet_handler (cfg_extra demo_config)" "list_all gc_handler (cfg_gc demo_config)"
  by (simp_all add: demo_config_def tf2_New_def GC_RegisterPacketHandler_def TF2_handler.gc_handler_axioms)

lemma demo_trade_packet:
  "handlePacket 1 demo_config (demo_packet EMsg_EconTrading_StartSession) demo_client =
     Some (Ok (Emit (Ev_TradeSessionStart \<lparr>TradeSessionStartEvent_Other = 0\<rparr>) demo_client))"
proof -
  let ?p = "demo_packet EMsg_EconTrading_StartSession"
  have carries: "carries demo_env un_StartSession ?p NewCMsgTrading_StartSession"
    by (rule demo_packet_carries) (simp, simp add: demo_env_def)
  have ids: "EMsg_EconTrading_StartSession \<noteq> e"
    if "e \<in> {EMsg_ChannelEncryptRequest, EMsg_ChannelEncryptResult, EMsg_Multi, EMsg_ClientCMList, EMsg_ClientLogOnResponse,
      EMsg_ClientNewLoginKey, EMsg_ClientSessionToken, EMsg_ClientLoggedOff, EMsg_ClientUpdateMachineAuth,
      EMsg_ClientAccountInfo, EMsg_ServiceMethodResponse, EMsg_ClientUserNotifications, EMsg_ClientFromGC,
      EMsg_ClientRequestWebAPIAuthenticateUserNonceResponse, EMsg_EconTrading_InitiateTradeProposed,
      EMsg_EconTrading_InitiateTradeResult}" for e
    using that by (auto simp: EMsg_defs)
  have env: "cfg_env demo_config = demo_env" "cfg_extra demo_config = []"
    by (simp_all add: demo_config_def)
  have trade: "Trading_HandlePacket demo_env ?p c = Ok (Emit (Ev_TradeSessionStart \<lparr>TradeSessionStartEvent_Other = 0\<rparr>) c)" for c
    using ids carries by (simp add: Trading_HandlePacket_def with_body_carries pb_get NewCMsgTrading_StartSession_def)
  have social: "Social_HandlePacket demo_env ?p c = Ok c" for c
    by (simp add: Social_HandlePacket_def EMsg_defs)
  have others: "Auth_HandlePacket demo_env ?p c = Ok c" "Authentication_HandlePacket ?p c = Ok c" "Web_HandlePacket demo_env ?p c = Ok c"
    "Notifications_HandlePacket order demo_env ?p c = Ok c" "GC_HandlePacket hs demo_env ?p c = Ok c" for c order hs
    using ids by (simp_all add: Auth_HandlePacket_def Authentication_HandlePacket_def Web_HandlePacket_def
        Notifications_HandlePacket_def GC_HandlePacket_def)
  show ?thesis
    using ids by (simp add: bind_fuel_def handlers_def env trade social others)
qed

theorem handlePacket_extends_witness:
  "extends demo_client (Emit (Ev_TradeSessionStart \<lparr>TradeSessionStartEvent_Other = 0\<rparr>) demo_client)"
  by (rule handlePacket_extends [OF demo_config_handlers demo_trade_packet])

section \<open>The caches stay well-formed\<close>

text \<open>Everything outside the social component leaves its state alone.\<close>

lemma c_Social_more [simp]:
  "c_Social (Disconnect c) = c_Social c" "c_Social (Fatalf e c) = c_Social c" "c_Social (Errorf e c) = c_Social c"
  "c_Social (spawn g c) = c_Social c" "c_Social (upd_Web f c) = c_Social c" "c_Social (upd_notifications g2 c) = c_Social c"
  "c_Social (upd_pending h c) = c_Social c"
  by (simp_all add: Disconnect_def Fatalf_def Errorf_def Emit_def spawn_def upd_Web_def upd_notifications_def upd_pending_def
      split: option.split)

definition leaves_social :: "('p \<Rightarrow> Client \<Rightarrow> Client res) \<Rightarrow> bool" where
  "leaves_social h \<longleftrightarrow> (\<forall>p c c'. h p c = Ok c' \<longrightarrow> c_Social c' = c_Social c)"

lemma leaves_social_keeps: "leaves_social h \<Longrightarrow> keeps client_wf h"
  by (auto simp: leaves_social_def keeps_def client_wf_def)

lemma Auth_leaves_social: "leaves_social (Auth_HandlePacket env)"
  by (auto simp: leaves_social_def Auth_HandlePacket_def handleLogOnResponse_def handleLoginKey_def handleLoggedOff_def
      handleUpdateMachineAuth_def handleAccountInfo_def Let_def bind_res_Ok_iff
      elim!: with_body_OkE read_proto_msg_OkE split: if_splits option.splits)

lemma other_components_leave_social:
  "leaves_social Authentication_HandlePacket" "leaves_social (Web_HandlePacket env)" "leaves_social (Trading_HandlePacket env)"
  by (auto simp: leaves_social_def Authentication_HandlePacket_def Web_HandlePacket_def Trading_HandlePacket_def
      handleNewLoginKey_def handleAuthNonceResponse_def Web_LogOn_def Let_def
      elim!: with_body_OkE split: if_splits option.splits)

lemma store_notifications_social: "store_notifications ns c = Ok c' \<Longrightarrow> c_Social c' = c_Social c"
  by (induction ns arbitrary: c) (auto split: option.splits)

lemma drop_absent_social: "drop_absent ns ts c = Ok c' \<Longrightarrow> c_Social c' = c_Social c"
  by (induction ts arbitrary: c) (auto simp: bind_res_Ok_iff split: if_splits)

lemma Notifications_leaves_social: "leaves_social (Notifications_HandlePacket order env)"
  by (auto simp: leaves_social_def Notifications_HandlePacket_def handleClientUserNotifications_def Let_def bind_res_Ok_iff
      elim!: with_body_OkE split: if_splits dest!: store_notifications_social drop_absent_social)

lemma run_gc_handlers_keeps: "list_all (keeps Q) hs \<Longrightarrow> run_gc_handlers hs p c = Ok c' \<Longrightarrow> Q c \<Longrightarrow> Q c'"
proof (induction hs arbitrary: c)
  case (Cons h hs)
  then show ?case by (auto simp: bind_res_Ok_iff keeps_def)
qed simp

lemma GC_keeps:
  assumes "list_all (keeps client_wf) hs"
  shows "keeps client_wf (GC_HandlePacket hs env)"
  using run_gc_handlers_keeps [OF assms]
  by (auto simp: keeps_def GC_HandlePacket_def client_wf_def elim!: with_body_OkE split: if_splits res.splits)

lemma own_handlers_leave_social:
  "leaves_social (handleChannelEncryptRequest random)" "leaves_social handleChannelEncryptResult"
  "leaves_social (handleClientCMList env)"
  by (auto simp: leaves_social_def handleChannelEncryptRequest_def handleChannelEncryptResult_def handleClientCMList_def
      Let_def bind_res_Ok_iff elim!: with_body_OkE split: if_splits option.splits prod.splits)

text \<open>
  C2: the invariant of the social caches is an invariant of the whole client: no packet, with whatever packets
  inside, breaks it, as long as the handlers the user registers do not.\<close>

theorem client_invariant:
  assumes "list_all (keeps client_wf) (cfg_extra cfg)" and "list_all (keeps client_wf) (cfg_gc cfg)"
    and "handlePacket n cfg p c = Some (Ok c')" and "client_wf c"
  shows "client_wf c'"
proof (rule handlePacket_keeps [where Q = client_wf, OF _ _ _ _ _ assms(3,4)])
  have "keeps client_wf (Social_HandlePacket (cfg_env cfg))"
    using Social_keeps_wf by (auto simp: keeps_def)
  then show "list_all (keeps client_wf) (handlers cfg)"
    using assms(1) GC_keeps [OF assms(2)]
    by (simp add: handlers_def leaves_social_keeps Auth_leaves_social other_components_leave_social Notifications_leaves_social)
qed (auto intro: leaves_social_keeps own_handlers_leave_social simp: client_wf_def)

theorem client_invariant_witness:
  "client_wf (Emit (Ev_TradeSessionStart \<lparr>TradeSessionStartEvent_Other = 0\<rparr>) demo_client)"
proof (rule client_invariant [OF _ _ demo_trade_packet])
  show "list_all (keeps client_wf) (cfg_gc demo_config)"
    by (auto simp: demo_config_def tf2_New_def GC_RegisterPacketHandler_def keeps_def HandleGCPacket_def handleWelcome_def
        client_wf_def split: if_splits)
qed (simp_all add: demo_config_def client_wf_NewClient)

end
