(* ===== verification/Client_Packets.thy ===== *)
theory Client_Packets
  imports Client_Dispatch
begin

text \<open>
  The packets the client handles itself: packed packets and how deep they can go, the encryption handshake, the
  server list, and what connecting and the loops do.
\<close>

section \<open>Packets in a packet\<close>

definition multi_frame :: "bytes \<Rightarrow> bytes" where
  "multi_frame d = le_bytes 4 (word_of_nat (length d) :: u32) @ d"

lemma multi_pieces_frame:
  assumes "length d < 2 ^ 32"
  shows "multi_pieces (multi_frame d @ r) = d # multi_pieces r"
proof -
  have "unat (word_of_nat (length d) :: u32) = length d"
    using assms by (simp add: unat_of_nat take_bit_nat_eq_self)
  moreover have "multi_frame d @ r \<noteq> []"
    by (simp add: multi_frame_def flip: length_0_conv)
  ultimately show ?thesis
    by (subst multi_pieces.simps) (simp add: multi_frame_def)
qed

lemma multi_pieces_Nil [simp]: "multi_pieces [] = []"
  by (simp add: multi_pieces.simps)

lemma multi_pieces_frames:
  "\<forall>d \<in> set ds. length d < 2 ^ 32 \<Longrightarrow> multi_pieces (concat (map multi_frame ds)) = ds"
  by (induction ds) (simp_all add: multi_pieces_frame)

lemma multi_pieces_short:
  assumes "length d < unat n"
  shows "multi_pieces (le_bytes 4 (n :: u32) @ d) = [d @ replicate (unat n - length d) 0]"
proof -
  have "le_bytes 4 n @ d \<noteq> []" by (simp flip: length_0_conv)
  then show ?thesis using assms by (subst multi_pieces.simps) simp
qed

text \<open>
  C17: a packed packet is the sequence of the packets in it: with their length in front of each, the pieces that
  \<open>handleMulti\<close> cuts are exactly the packed ones in their order, and each is handled as it would be alone; a
  last piece that is cut short is not an error but is handled filled up with zeros to its claimed length.\<close>

theorem multi_pieces_in_order:
  assumes "carries env un_Multi p body" and "multi_payload env body = Ok payload"
  shows "(payload = concat (map multi_frame ds) \<longrightarrow> (\<forall>d \<in> set ds. length d < 2 ^ 32) \<longrightarrow>
      handleMulti env h p c = each_piece env h ds c)
    \<and> (payload = le_bytes 4 n @ d \<longrightarrow> length d < unat (n :: u32) \<longrightarrow>
      handleMulti env h p c = each_piece env h [d @ replicate (unat n - length d) 0] c)"
proof -
  have "handleMulti env h p c = each_piece env h (multi_pieces payload) c"
    using assms by (auto simp: carries_def handleMulti_def)
  then show ?thesis by (auto simp: multi_pieces_frames multi_pieces_short)
qed

definition demo_multi_env :: Env where
  "demo_multi_env = demo_env\<lparr>un_Multi := (\<lambda>_. (NewCMsgMulti\<lparr>
     CMsgMulti_MessageBody := Some (multi_frame [1, 2, 3, 4] @ multi_frame [])\<rparr>, None))\<rparr>"

lemma demo_multi_env_carries:
  "carries demo_multi_env un_Multi (demo_packet EMsg_Multi)
     (NewCMsgMulti\<lparr>CMsgMulti_MessageBody := Some (multi_frame [1, 2, 3, 4] @ multi_frame [])\<rparr>)"
  by (rule demo_packet_carries) (simp_all add: demo_multi_env_def)

theorem multi_pieces_in_order_witness:
  "\<forall>h c. handleMulti demo_multi_env h (demo_packet EMsg_Multi) c = each_piece demo_multi_env h [[1, 2, 3, 4], []] c"
proof (intro allI)
  fix h c
  have "multi_payload demo_multi_env (NewCMsgMulti\<lparr>CMsgMulti_MessageBody := Some (multi_frame [1, 2, 3, 4] @ multi_frame [])\<rparr>)
      = Ok (concat (map multi_frame [[1, 2, 3, 4], []]))"
    by (simp add: multi_payload_def pb_get NewCMsgMulti_def)
  from multi_pieces_in_order [OF demo_multi_env_carries this, of "[[1, 2, 3, 4], []]"]
  show "handleMulti demo_multi_env h (demo_packet EMsg_Multi) c = each_piece demo_multi_env h [[1, 2, 3, 4], []] c"
    by simp
qed

section \<open>How deep packets can be nested\<close>

text \<open>
  A piece can be longer than the payload it comes from, but the bytes that make it so are zeros, and every
  packet of type Multi has a byte that is not zero in front of its body.
\<close>

definition weight :: "bytes \<Rightarrow> nat" where
  "weight bs = length (filter (\<lambda>b. b \<noteq> 0) bs)"

lemma weight_append [simp]: "weight (a @ b) = weight a + weight b"
  by (simp add: weight_def)

lemma weight_zeros [simp]: "weight (replicate n 0) = 0"
  by (induction n) (simp_all add: weight_def)

lemma weight_take_drop: "weight (take n bs) + weight (drop n bs) = weight bs"
  by (metis append_take_drop_id weight_append)

lemma weight_drop_le: "weight (drop n bs) \<le> weight bs"
  using weight_take_drop [of n bs] by linarith

lemma ReadUint32_suffix: "ReadUint32 r = (n, e, r') \<Longrightarrow> \<exists>k. r' = drop k r"
  by (auto simp: rwu_readers read_le_def ReadFull_def split: if_splits intro: exI [of _ 0] exI [of _ "length r"])

lemma multi_pieces_weight: "d \<in> set (multi_pieces pr) \<Longrightarrow> weight d \<le> weight pr"
proof (induction pr rule: multi_pieces.induct)
  case (1 pr)
  show ?case
  proof (cases "pr = []")
    case False
    obtain n e r where r: "ReadUint32 pr = (n, e, r)" by (cases "ReadUint32 pr") auto
    then have le: "weight r \<le> weight pr"
      using ReadUint32_suffix [OF r] weight_drop_le by auto
    have "weight (take (unat n) r) + weight (drop (unat n) r) = weight r" by (rule weight_take_drop)
    then show ?thesis
      using 1 False r le by (subst (asm) (2) multi_pieces.simps) force
  qed (use 1 in simp)
qed

text \<open>What a header leaves to read is behind the type.\<close>

lemma ReadProtoMsg_suffix:
  assumes "ReadProtoMsg c un p = Ok m" and "4 \<le> length (Packet_Data p)"
  shows "\<exists>k \<ge> 4. CMP_Body m = fst (un (drop k (Packet_Data p)))"
proof -
  obtain hdr e buf where read: "MsgHdrProtoBuf_Deserialize c NewMsgHdrProtoBuf (Packet_Data p) = Ok (hdr, e, buf)"
    and m: "CMP_Body m = fst (un buf)"
    using assms(1) by (auto simp: ReadProtoMsg_def map_res_Ok_iff)
  have "\<exists>k \<ge> 4. buf = drop k (Packet_Data p)"
  proof (cases "8 \<le> length (Packet_Data p)")
    case True
    obtain q' where "read_proto c (MsgHdrProtoBuf_Proto NewMsgHdrProtoBuf) (header_length_field (Packet_Data p))
        (drop 8 (Packet_Data p)) = Ok (q', e, buf)"
      using read True by (auto simp: MsgHdrProtoBuf_Deserialize_long map_res_Ok_iff)
    then have "\<exists>k. buf = drop k (drop 8 (Packet_Data p))"
      by (auto simp: read_proto_def ReadFull_def split: if_splits prod.splits intro: exI [of _ "length (Packet_Data p)"])
    then obtain k where "buf = drop (8 + k) (Packet_Data p)" by (auto simp: add.commute)
    then show ?thesis by (intro exI [of _ "8 + k"]) simp
  next
    case False
    then show ?thesis
      using read assms(2) by (auto simp: MsgHdrProtoBuf_Deserialize_def wire_defs read_int_long read_int_short
          intro: exI [of _ "length (Packet_Data p)"])
  qed
  with m show ?thesis by auto
qed

lemma multi_type_weighs:
  assumes "NewPacket c d = Ok p" and "Packet_EMsg p = EMsg_Multi" and "4 \<le> k"
  shows "Packet_Data p = d \<and> 4 \<le> length d \<and> weight (drop k d) < weight d"
proof -
  have len: "4 \<le> length d" by (rule NewPacket_ok_length [OF assms(1)])
  with NewPacket_ok_long [OF assms(1)] have "Packet_Data p = d" "NewEMsg (raw_emsg d) = EMsg_Multi"
    using assms(2) by simp_all
  moreover have "weight (take 4 d) \<noteq> 0"
  proof
    assume "weight (take 4 d) = 0"
    then have "\<forall>b \<in> set (take 4 d). b = 0" by (simp add: weight_def filter_empty_conv)
    then have "take 4 d = replicate 4 0"
      using len by (intro replicate_eqI) simp_all
    then have "raw_emsg d = 0" by (simp add: raw_emsg_def numeral_eq_Suc)
    with \<open>NewEMsg (raw_emsg d) = EMsg_Multi\<close> show False by (simp add: NewEMsg_def EMsg_defs)
  qed
  moreover have "weight (drop k d) \<le> weight (drop 4 d)"
    using assms(3) weight_drop_le [of "k - 4" "drop 4 d"] by simp
  ultimately show ?thesis
    using len weight_take_drop [of 4 d] by linarith
qed

text \<open>The protobuf library hands out the message body as it stands in the packet, and nothing is compressed.\<close>

definition plain_multi :: "Env \<Rightarrow> bool" where
  "plain_multi env \<longleftrightarrow> (\<forall>bs. CMsgMulti_GetSizeUnzipped (fst (un_Multi env bs)) = 0
     \<and> (\<exists>a b. bs = a @ CMsgMulti_GetMessageBody (fst (un_Multi env bs)) @ b))"

lemma each_piece_returns:
  "(\<And>d p c. d \<in> set ds \<Longrightarrow> NewPacket (env_hdr env) d = Ok p \<Longrightarrow> h p c \<noteq> None) \<Longrightarrow> each_piece env h ds c \<noteq> None"
proof (induction ds arbitrary: c)
  case (Cons d ds)
  have rest: "each_piece env h ds c \<noteq> None" for c
    by (rule Cons.IH) (rule Cons.prems, simp_all)
  have "h p c \<noteq> None" if "NewPacket (env_hdr env) d = Ok p" for p
    by (rule Cons.prems [OF _ that]) simp
  with rest show ?case
    by (cases "NewPacket (env_hdr env) d") (force simp: bind_fuel_def split: res.splits option.splits)+
qed simp

lemma handlePacket_Multi_None:
  assumes "handlePacket (Suc n) cfg p c = None"
  shows "Packet_EMsg p = EMsg_Multi \<and> handleMulti (cfg_env cfg) (handlePacket n cfg) p c = None"
  using assms by (auto simp: bind_fuel_def split: option.splits res.splits if_splits)


lemma demo_env_plain: "plain_multi demo_env"
proof -
  have "\<exists>a b. bs = a @ [] @ b" for bs :: bytes by (rule exI [of _ bs]) simp
  then show ?thesis by (simp add: plain_multi_def demo_env_def pb_get NewCMsgMulti_def)
qed

lemma demo_packet_new:
  assumes "NewEMsg e = e" and "\<not> encrypt_type e"
  shows "NewPacket jobs_codec (Packet_Data (demo_packet e)) = Ok (demo_packet e)"
  using NewPacket_proto_frame [OF jobs_codec_roundtrip [of 9 7], of e "[]"] assms
  by (simp add: demo_packet_def jobs_header_def pb_get)

lemma weight_le: "weight bs \<le> length bs"
  by (simp add: weight_def)


section \<open>The encryption handshake\<close>

text \<open>The reply to a request: the encrypted key, its checksum and four zeros.\<close>

definition handshake_reply :: "bytes \<Rightarrow> IMsg" where
  "handshake_reply enc = IM_Plain (NewMsg MB_GetEMsg (MB_ChannelEncryptResponse NewMsgChannelEncryptResponse)
     (enc @ le_bytes 4 (crc32_ChecksumIEEE enc) @ [0, 0, 0, 0]))"

lemma request_in_public_universe:
  assumes "MsgChannelEncryptRequest_Universe (M_Body (ReadMsg MsgChannelEncryptRequest_Deserialize
      NewMsgChannelEncryptRequest p)) = EUniverse_Public"
    and "random c = (key, seed)" and "length key = 32"
  shows "\<exists>pub enc. GetPublicKey EUniverse_Public = Ok pub \<and> RSAEncrypt seed pub key = Ok enc \<and> length enc = 128 \<and>
    handleChannelEncryptRequest random p c = Ok (Write (handshake_reply enc) (c\<lparr>c_tempSessionKey := Some key\<rparr>))"
proof -
  obtain pub enc where "GetPublicKey EUniverse_Public = Ok pub" "RSAEncrypt seed pub key = Ok enc" "length enc = 128"
    using RSAEncrypt_public [of key seed] assms(3) by (auto simp: bind_res_Ok_iff)
  then show ?thesis
    using assms by (simp add: handleChannelEncryptRequest_def handshake_reply_def)
qed

text \<open>
  C5: the handshake of a TCP connection. A request of the public universe is answered by one message: the session
  key under the public key (128 bytes), the CRC-32 of these bytes and four zeros. A result OK after it
  switches the connection to the AES cipher of that very key, forgets the key and announces the
  connection, so that from then on the client's end reads and writes with the cipher of the key it sent.\<close>

theorem encryption_handshake:
  assumes "c_conn c = Some (Conn_tcp ciph)" and "random c = (key, seed)" and "length key = 32"
    and "MsgChannelEncryptRequest_Universe (M_Body (ReadMsg MsgChannelEncryptRequest_Deserialize
      NewMsgChannelEncryptRequest p)) = EUniverse_Public"
    and "MsgChannelEncryptResult_Result (M_Body (ReadMsg MsgChannelEncryptResult_Deserialize
      NewMsgChannelEncryptResult q)) = EResult_OK"
  shows "\<exists>pub enc aes c1 c2. GetPublicKey EUniverse_Public = Ok pub \<and> RSAEncrypt seed pub key = Ok enc \<and> length enc = 128 \<and>
    aes_NewCipher key = Ok aes \<and>
    handleChannelEncryptRequest random p c = Ok c1 \<and> c_writeChan c1 = c_writeChan c @ [handshake_reply enc] \<and>
    handleChannelEncryptResult q c1 = Ok c2 \<and> c_conn c2 = Some (Conn_tcp (Some aes)) \<and> c_tempSessionKey c2 = None \<and>
    c_events c2 = c_events c @ [Ev_Connected] \<and> c_writeChan c2 = c_writeChan c1"
proof -
  obtain pub enc where req: "GetPublicKey EUniverse_Public = Ok pub" "RSAEncrypt seed pub key = Ok enc" "length enc = 128"
    "handleChannelEncryptRequest random p c = Ok (Write (handshake_reply enc) (c\<lparr>c_tempSessionKey := Some key\<rparr>))"
    using request_in_public_universe [where random = random, OF assms(4,2,3)] by blast
  obtain aes where aes: "aes_NewCipher key = Ok aes" using assms(3) by (simp add: aes_NewCipher_def)
  let ?c1 = "Write (handshake_reply enc) (c\<lparr>c_tempSessionKey := Some key\<rparr>)"
  have c1: "c_conn ?c1 = Some (Conn_tcp ciph)" "c_tempSessionKey ?c1 = Some key" "c_events ?c1 = c_events c"
    "c_writeChan ?c1 = c_writeChan c @ [handshake_reply enc]"
    using assms(1) by (simp_all add: Write_def send_def handshake_reply_def)
  have "handleChannelEncryptResult q ?c1 = Ok (Emit Ev_Connected (?c1\<lparr>c_conn := Some (Conn_tcp (Some aes)), c_tempSessionKey := None\<rparr>))"
    using assms(3,5) aes c1 by (simp add: handleChannelEncryptResult_def conn_SetEncryptionKey_def tcp_SetEncryptionKey_def)
  then show ?thesis
    using req aes c1 by (intro exI conjI) (assumption | simp add: Emit_def)+
qed

definition demo_request :: Packet where
  "demo_request = (demo_packet EMsg_ChannelEncryptRequest)\<lparr>Packet_Data := M_Serialize MsgChannelEncryptRequest_Serialize
     (NewMsg MsgChannelEncryptRequest_GetEMsg \<lparr>MsgChannelEncryptRequest_ProtocolVersion = 1,
        MsgChannelEncryptRequest_Universe = EUniverse_Public\<rparr> [])\<rparr>"

definition demo_accept :: Packet where
  "demo_accept = (demo_packet EMsg_ChannelEncryptResult)\<lparr>Packet_Data := M_Serialize MsgChannelEncryptResult_Serialize
     (NewMsg MsgChannelEncryptResult_GetEMsg \<lparr>MsgChannelEncryptResult_Result = EResult_OK\<rparr> [])\<rparr>"

lemma demo_handshake_reads:
  "MsgChannelEncryptRequest_Universe (M_Body (ReadMsg MsgChannelEncryptRequest_Deserialize NewMsgChannelEncryptRequest demo_request))
     = EUniverse_Public"
  "MsgChannelEncryptResult_Result (M_Body (ReadMsg MsgChannelEncryptResult_Deserialize NewMsgChannelEncryptResult demo_accept))
     = EResult_OK"
  by (simp_all add: ReadMsg_M_Serialize [OF MsgChannelEncryptRequest_codec.wire_codec_axioms]
      ReadMsg_M_Serialize [OF MsgChannelEncryptResult_codec.wire_codec_axioms] demo_request_def demo_accept_def NewMsg_def)

definition demo_tcp_client :: Client where
  "demo_tcp_client = demo_client\<lparr>c_conn := Some (Conn_tcp None)\<rparr>"

theorem encryption_handshake_witness:
  "\<exists>pub enc aes c1 c2. GetPublicKey EUniverse_Public = Ok pub \<and> RSAEncrypt [] pub (replicate 32 1) = Ok enc \<and> length enc = 128 \<and>
    aes_NewCipher (replicate 32 1) = Ok aes \<and>
    handleChannelEncryptRequest (\<lambda>_. (replicate 32 1, [])) demo_request demo_tcp_client = Ok c1 \<and>
    c_writeChan c1 = c_writeChan demo_tcp_client @ [handshake_reply enc] \<and>
    handleChannelEncryptResult demo_accept c1 = Ok c2 \<and> c_conn c2 = Some (Conn_tcp (Some aes)) \<and> c_tempSessionKey c2 = None \<and>
    c_events c2 = c_events demo_tcp_client @ [Ev_Connected] \<and> c_writeChan c2 = c_writeChan c1"
  by (rule encryption_handshake [OF _ _ _ demo_handshake_reads]) (simp_all add: demo_tcp_client_def)

text \<open>
  C26: a result OK that no request preceded is not refused: on a TCP connection it switches the encryption off,
  whatever cipher was in use, and announces the connection again; without a connection it is a nil
  dereference.\<close>

theorem unrequested_result_downgrades:
  assumes "MsgChannelEncryptResult_Result (M_Body (ReadMsg MsgChannelEncryptResult_Deserialize
      NewMsgChannelEncryptResult q)) = EResult_OK" and "c_tempSessionKey c = None"
  shows "case c_conn c of
      None \<Rightarrow> panics (handleChannelEncryptResult q c)
    | Some (Conn_tcp ciph) \<Rightarrow> handleChannelEncryptResult q c = Ok (Emit Ev_Connected (c\<lparr>c_conn := Some (Conn_tcp None)\<rparr>))
    | Some Conn_ws \<Rightarrow> handleChannelEncryptResult q c = Ok (Emit Ev_Connected c)"
  using assms by (cases c) (auto simp: handleChannelEncryptResult_def conn_SetEncryptionKey_def tcp_SetEncryptionKey_def
      split: option.split connection.split)

theorem unrequested_result_downgrades_witness:
  "handleChannelEncryptResult demo_accept (demo_client\<lparr>c_conn := Some (Conn_tcp (Some demo_cipher))\<rparr>) =
     Ok (Emit Ev_Connected (demo_client\<lparr>c_conn := Some (Conn_tcp None)\<rparr>))"
  using unrequested_result_downgrades [OF demo_handshake_reads(2), of "demo_client\<lparr>c_conn := Some (Conn_tcp (Some demo_cipher))\<rparr>"]
  by (simp add: demo_client_def NewClient_def)

section \<open>The server list\<close>

lemma cm_addresses_eq:
  "cm_addresses i ports ips =
     (if i + length ips \<le> length ports \<or> ips = []
      then Ok (map (\<lambda>(ip, port). \<lparr>PortAddr_IP = readIp ip, PortAddr_Port = ucast port\<rparr>) (zip ips (drop i ports)))
      else Panic ''index out of range'')"
proof (induction ips arbitrary: i)
  case (Cons ip ips)
  show ?case
  proof (cases "i < length ports")
    case True
    then have "drop i ports = ports ! i # drop (Suc i) ports" by (rule Cons_nth_drop_Suc [symmetric])
    with True Cons.IH [of "Suc i"] show ?thesis by auto
  qed simp
qed simp

text \<open>
  The server list becomes the list of its addresses with their ports, position by position; the handler
  panics exactly when there are fewer ports than addresses.\<close>

theorem cm_list_outcome:
  assumes "carries env un_ClientCMList p body"
  shows "handleClientCMList env p c =
    (if length (CMsgClientCMList_CmAddresses body) \<le> length (CMsgClientCMList_CmPorts body)
     then Ok (Emit (Ev_ClientCMList \<lparr>ClientCMListEvent_Addresses =
       map (\<lambda>(ip, port). \<lparr>PortAddr_IP = readIp ip, PortAddr_Port = ucast port\<rparr>)
         (zip (CMsgClientCMList_CmAddresses body) (CMsgClientCMList_CmPorts body))\<rparr>) c)
     else Panic ''index out of range'')"
  using assms by (auto simp: handleClientCMList_def with_body_carries cm_addresses_eq)

theorem cm_list_outcome_witness:
  "handleClientCMList demo_env (demo_packet EMsg_ClientCMList) demo_client =
     Ok (Emit (Ev_ClientCMList \<lparr>ClientCMListEvent_Addresses = []\<rparr>) demo_client)"
proof -
  have "carries demo_env un_ClientCMList (demo_packet EMsg_ClientCMList) NewCMsgClientCMList"
    by (rule demo_packet_carries) (simp, simp add: demo_env_def)
  from cm_list_outcome [OF this] show ?thesis by (simp add: NewCMsgClientCMList_def)
qed

section \<open>Connecting and disconnecting\<close>

text \<open>
  connecting first closes what is open, with one DisconnectedEvent if something was; a failed dial leaves
  the client disconnected with a fatal error event and its error returned, a successful one leaves it
  connected with an empty send queue, unencrypted, and the two loops started. A nil address, which the
  directory can produce, panics after the disconnection.\<close>

theorem connect_outcomes:
  "panics (ConnectTo None dialled c)
   \<and> ConnectTo (Some a) (Some err) c = Ok (Some err, Emit (Ev_FatalError err) (Disconnect c))
   \<and> c_conn (Emit (Ev_FatalError err) (Disconnect c)) = None
   \<and> ConnectTo (Some a) None c = Ok (None, opened (Conn_tcp None) (Disconnect c))
   \<and> c_conn (opened (Conn_tcp None) (Disconnect c)) = Some (Conn_tcp None)
   \<and> c_writeChan (opened (Conn_tcp None) (Disconnect c)) = []
   \<and> c_spawned (opened (Conn_tcp None) (Disconnect c)) = c_spawned c @ [G_readLoop, G_writeLoop]
   \<and> c_events (opened (Conn_tcp None) (Disconnect c)) = c_events c @ (if Connected c then [Ev_Disconnected] else [])"
  by (auto simp: ConnectTo_def ConnectToBind_def Disconnect_def Fatalf_def opened_def spawn_def Emit_def Connected_def
      split: option.split)

section \<open>The loops\<close>

text \<open>A successful read consumes input.\<close>

lemma tcp_net_consumes: "tcp_net cfg conn net = (Ok p, net') \<Longrightarrow> length net' < length net"
  by (auto simp: tcp_net_def tcp_Read_def tcp_receive_def rwu_readers read_le_def ReadFull_def
      split: prod.splits option.splits if_splits)

lemma ws_receive_consumes: "ws_receive net = (Ok m, net') \<Longrightarrow> length net' < length net"
  by (induction net rule: ws_receive.induct) auto

lemma ws_net_consumes: "ws_net cfg conn net = (Ok p, net') \<Longrightarrow> length net' < length net"
  by (auto simp: ws_net_def ws_Read_def bind_res_Ok_iff split: prod.splits dest: ws_receive_consumes)

lemma readLoop_returns:
  assumes "\<And>conn net p net'. receive conn net = (Ok p, net') \<Longrightarrow> length net' < length net"
    and "\<And>p c. handlePacket depth cfg p c \<noteq> None"
  shows "length net < n \<Longrightarrow> readLoop n depth cfg receive net c \<noteq> None"
proof (induction n arbitrary: net c)
  case (Suc n)
  have next_round: "bind_fuel (handlePacket depth cfg p c) (readLoop n depth cfg receive net') \<noteq> None"
    if "receive conn net = (Ok p, net')" for conn p net'
  proof -
    have "length net' < n" using assms(1) [OF that] Suc.prems by simp
    then have "readLoop n depth cfg receive net' c' \<noteq> None" for c' by (rule Suc.IH)
    then show ?thesis using assms(2) [of p c] by (auto simp: bind_fuel_def split: option.split res.split)
  qed
  show ?case
  proof (cases "c_conn c")
    case (Some conn)
    obtain r net' where r: "receive conn net = (r, net')" by fastforce
    show ?thesis
    proof (cases r)
      case (Ok p)
      then show ?thesis using next_round [of conn p net'] r Some by simp
    qed (use r Some in simp_all)
  qed simp
qed simp


lemma demo_config_shallow: "handlePacket 1 demo_config p c \<noteq> None"
proof
  assume "handlePacket 1 demo_config p c = None"
  then have "handlePacket (Suc 0) demo_config p c = None" by (simp only: One_nat_def)
  from conjunct2 [OF handlePacket_Multi_None [OF this]]
  have none: "handleMulti demo_env (handlePacket 0 demo_config) p c = None"
    by (simp only: demo_config_def Config.simps)
  have body: "multi_payload demo_env NewCMsgMulti = Ok []"
    by (simp add: multi_payload_def pb_get NewCMsgMulti_def)
  have "CMP_Body m = NewCMsgMulti" if "ReadProtoMsg jobs_codec (un_Multi demo_env) p = Ok m" for m
    using that by (auto simp: ReadProtoMsg_def map_res_Ok_iff demo_env_def)
  then have "handleMulti demo_env (handlePacket 0 demo_config) p c \<noteq> None"
    unfolding handleMulti_def demo_env_hdr
    by (cases "ReadProtoMsg jobs_codec (un_Multi demo_env) p") (simp_all add: body)
  with none show False by simp
qed


end
