(* ===== verification/Client_Delivery.thy ===== *)
theory Client_Delivery
  imports Client_Packets
begin

text \<open>
  The way of a message from \<open>Write\<close> through the queue, the write loop and the connection to the reader at the other
  end: the composition of theories Client_Core, Steam_Client, Connection and Protocol.
\<close>

text \<open>The write loop over a queue, with one initialisation vector per message.\<close>

fun writeLoop :: "Env \<Rightarrow> bytes list \<Rightarrow> Client \<Rightarrow> (bytes \<times> Client) res" where
  "writeLoop env [] c = Ok ([], c)"
| "writeLoop env (iv # ivs) c =
     bind_res (writeLoop_round env iv None c) (\<lambda>(f, c). case f of
       None \<Rightarrow> Ok ([], c)
     | Some f \<Rightarrow> bind_res (writeLoop env ivs c) (\<lambda>(fs, c). Ok (f @ fs, c)))"

definition serialized :: "Env \<Rightarrow> IMsg \<Rightarrow> bytes" where
  "serialized env m = (case IMsg_Serialize (env_hdr env) (env_Marshal env) m of Ok b \<Rightarrow> b | _ \<Rightarrow> [])"

text \<open>A message that can be serialized into something a frame can hold.\<close>

definition sendable :: "Env \<Rightarrow> IMsg \<Rightarrow> bool" where
  "sendable env m \<longleftrightarrow> (case IMsg_Serialize (env_hdr env) (env_Marshal env) m of
     Ok b \<Rightarrow> length b < 2 ^ 32 - 32 | _ \<Rightarrow> False)"

lemma writeLoop_frames:
  assumes "c_conn c = Some (Conn_tcp ciph)" "cipher_ok ciph" "list_all (sendable env) (c_writeChan c)"
    and "length ivs = length (c_writeChan c)" "list_all (\<lambda>iv. length iv = 16) ivs"
  shows "writeLoop env ivs c = Ok (concat (map (\<lambda>(iv, m). tcp_put ciph iv m) (zip ivs (map (serialized env) (c_writeChan c)))),
    c\<lparr>c_writeChan := []\<rparr>)"
  using assms
proof (induction ivs arbitrary: c)
  case Nil
  then show ?case by simp
next
  case (Cons iv ivs)
  obtain m ms where q: "c_writeChan c = m # ms" using Cons.prems(4) by (cases "c_writeChan c") auto
  obtain b where b: "IMsg_Serialize (env_hdr env) (env_Marshal env) m = Ok b" "length b < 2 ^ 32 - 32"
    using Cons.prems(3) by (auto simp: q sendable_def split: res.splits)
  obtain f where f: "tcp_Write ciph iv b = Ok f"
    using tcp_Write_receive [OF Cons.prems(2) _ b(2), of iv] Cons.prems(5) by auto
  have ser: "serialized env m = b" and put: "tcp_put ciph iv b = f"
    by (simp_all add: serialized_def b tcp_put_def f)
  have "writeLoop env ivs (c\<lparr>c_writeChan := ms\<rparr>) = Ok (concat (map (\<lambda>(iv, m). tcp_put ciph iv m)
      (zip ivs (map (serialized env) ms))), c\<lparr>c_writeChan := []\<rparr>)"
    using Cons.IH [of "c\<lparr>c_writeChan := ms\<rparr>"] Cons.prems by (simp add: q)
  then show ?case
    using ser put by (simp add: writeLoop_round_def conn_Write_def q b Cons.prems(1) f)
qed

text \<open>
  C1: what is queued arrives. The write loop of a connected client turns the messages of the queue into a stream from which
  the other end, with the same cipher or none, reads one packet per message, in the order in which they were
  written and each exactly as \<open>NewPacket\<close> makes it of the serialized message, and the queue is empty afterwards.
\<close>

theorem queued_messages_arrive:
  assumes "c_conn c = Some (Conn_tcp ciph)" and "cipher_ok ciph" and "list_all (sendable env) (c_writeChan c)"
    and "length ivs = length (c_writeChan c)" and "list_all (\<lambda>iv. length iv = 16) ivs"
  shows "\<exists>s. writeLoop env ivs c = Ok (s, c\<lparr>c_writeChan := []\<rparr>) \<and>
    get_all (tcp_Read (env_hdr env) ciph) (length ivs) (s @ rest) =
      (map (\<lambda>m. NewPacket (env_hdr env) (serialized env m)) (c_writeChan c), rest)"
proof -
  let ?ms = "zip ivs (map (serialized env) (c_writeChan c))"
  have *: "length (serialized env m) < 2 ^ 32 - 32" if "m \<in> set (c_writeChan c)" for m
    using assms(3) that by (auto simp: list_all_iff sendable_def serialized_def split: res.splits)
  have fits: "\<forall>(iv, m) \<in> set ?ms. tcp_fits ciph iv m"
  proof clarify
    fix iv b assume "(iv, b) \<in> set ?ms"
    then have "iv \<in> set ivs" "b \<in> set (map (serialized env) (c_writeChan c))"
      by (auto dest: set_zip_leftD set_zip_rightD)
    then show "tcp_fits ciph iv b" using * assms(2,5) by (auto simp: tcp_fits_def list_all_iff)
  qed
  have "map snd ?ms = map (serialized env) (c_writeChan c)" using assms(4) by simp
  then have "map (NewPacket (env_hdr env) \<circ> snd) ?ms = map (NewPacket (env_hdr env)) (map (serialized env) (c_writeChan c))"
    by (metis map_map)
  then have "map (\<lambda>x. NewPacket (env_hdr env) (snd x)) ?ms
      = map (\<lambda>m. NewPacket (env_hdr env) (serialized env m)) (c_writeChan c)" by (simp add: comp_def)
  moreover have "length ?ms = length ivs" using assms(4) by simp
  ultimately show ?thesis
    using writeLoop_frames [OF assms] tcp.in_order [OF fits, of rest]
    by (simp add: get_all_tcp_Read case_prod_beta comp_def)
qed

text \<open>A client with an encrypted connection and a chat request in its queue.\<close>

definition demo_sender :: Client where
  "demo_sender = Write (IM_Client (NewClientMsg MB_GetEMsg (MB_ClientJoinChat NewMsgClientJoinChat) []))
     (NewClient\<lparr>c_conn := Some (Conn_tcp (Some demo_cipher))\<rparr>)"

lemma demo_sender_queue:
  "list_all (sendable demo_env) (c_writeChan demo_sender)" "length (c_writeChan demo_sender) = 1"
  "c_conn demo_sender = Some (Conn_tcp (Some demo_cipher))"
  by (simp_all add: demo_sender_def Write_def send_def sendable_def CM_Serialize_def ExtendedClientMsgHdr_Serialize_def
    MsgClientJoinChat_Serialize_def CM_defs NewClientMsg_def NewClient_def)

theorem queued_messages_arrive_witness:
  "\<exists>s. writeLoop demo_env [replicate 16 5] demo_sender = Ok (s, demo_sender\<lparr>c_writeChan := []\<rparr>) \<and>
    get_all (tcp_Read (env_hdr demo_env) (Some demo_cipher)) (length [replicate 16 (5 :: byte)]) (s @ [1]) =
      (map (\<lambda>m. NewPacket (env_hdr demo_env) (serialized demo_env m)) (c_writeChan demo_sender), [1])"
  by (rule queued_messages_arrive)
    (simp_all add: demo_sender_queue cipher_ok_def demo_cipher_good)

end
