(* ===== verification/Client_Session.thy ===== *)
theory Client_Session
  imports Client_Packets
begin

text \<open>
  Which session the messages carry that a client sends: what every operation of a handler keeps, every handler keeps
  (\<open>client_order\<close>), and one thing they keep is that messages are stamped with the session of the client.
\<close>

section \<open>What the operations keep, the handlers keep\<close>

text \<open>
  A relation between the client before and after that is closed under the operations handlers are made of. It need not allow
  a new session, which only the answer to a log-on sets.
\<close>

definition follows :: "(Client \<Rightarrow> Client \<Rightarrow> bool) \<Rightarrow> ('p \<Rightarrow> Client \<Rightarrow> Client res) \<Rightarrow> bool" where
  "follows R h \<longleftrightarrow> (\<forall>p c c'. h p c = Ok c' \<longrightarrow> R c c')"

text \<open>A packet whose answer to a log-on succeeds, and one that holds such a packet, within the depth that is handled.\<close>

definition logs_on :: "Env \<Rightarrow> Packet \<Rightarrow> bool" where
  "logs_on env p \<longleftrightarrow> Packet_EMsg p = EMsg_ClientLogOnResponse \<and>
     (case ReadProtoMsg (env_hdr env) (un_ClientLogonResponse env) p of
        Ok m \<Rightarrow> CMsgClientLogonResponse_GetEresult (CMP_Body m) = EResult_OK
      | _ \<Rightarrow> False)"

definition packed :: "Env \<Rightarrow> Packet \<Rightarrow> Packet list" where
  "packed env p = (case ReadProtoMsg (env_hdr env) (un_Multi env) p of
       Ok msg \<Rightarrow> (case multi_payload env (CMP_Body msg) of
           Ok payload \<Rightarrow> concat (map (\<lambda>d. case NewPacket (env_hdr env) d of Ok q \<Rightarrow> [q] | _ \<Rightarrow> []) (multi_pieces payload))
         | _ \<Rightarrow> [])
     | _ \<Rightarrow> [])"

lemma in_packed:
  assumes "ReadProtoMsg (env_hdr env) (un_Multi env) p = Ok m" "multi_payload env (CMP_Body m) = Ok payload"
    and "b \<in> set (multi_pieces payload)" "NewPacket (env_hdr env) b = Ok q"
  shows "q \<in> set (packed env p)"
  using assms by (auto simp: packed_def intro!: bexI [of _ b])

fun no_logon :: "nat \<Rightarrow> Env \<Rightarrow> Packet \<Rightarrow> bool" where
  "no_logon 0 env p \<longleftrightarrow> True"
| "no_logon (Suc n) env p \<longleftrightarrow> \<not> logs_on env p \<and> (Packet_EMsg p = EMsg_Multi \<longrightarrow> list_all (no_logon n env) (packed env p))"

text \<open>The packets a run of the read loop handles.\<close>

fun read_trace ::
  "nat \<Rightarrow> nat \<Rightarrow> Config \<Rightarrow> (connection \<Rightarrow> 'n list \<Rightarrow> Packet res \<times> 'n list) \<Rightarrow> 'n list \<Rightarrow> Client \<Rightarrow> Packet list" where
  "read_trace 0 depth cfg receive net c = []"
| "read_trace (Suc n) depth cfg receive net c =
     (case c_conn c of
        None \<Rightarrow> []
      | Some conn \<Rightarrow> (case receive conn net of
          (Ok packet, net) \<Rightarrow> packet # (case handlePacket depth cfg packet c of
              Some (Ok c) \<Rightarrow> read_trace n depth cfg receive net c
            | _ \<Rightarrow> [])
        | _ \<Rightarrow> []))"

locale client_order =
  fixes R :: "Client \<Rightarrow> Client \<Rightarrow> bool"
  assumes same: "R c c"
    and trans: "R c d \<Longrightarrow> R d e \<Longrightarrow> R c e"
    and Emit: "R c (Emit event c)"
    and Write: "R c (Write msg c)"
    and Disconnect: "R c (Disconnect c)"
    and spawn: "R c (spawn g c)"
    and Social: "R c (upd_Social f c)"
    and Web: "R c (upd_Web w c)"
    and notifications: "R c (upd_notifications ns c)"
    and pending: "R c (upd_pending pc c)"
    and key: "R c (c\<lparr>c_tempSessionKey := k\<rparr>)"
    and cipher: "c_conn c = Some conn \<Longrightarrow> R c (c\<lparr>c_conn := Some conn', c_tempSessionKey := k\<rparr>)"
begin

lemma then_op:
  "R c d \<Longrightarrow> R c (Emit event d)" "R c d \<Longrightarrow> R c (Write msg d)" "R c d \<Longrightarrow> R c (Disconnect d)" "R c d \<Longrightarrow> R c (spawn g d)"
  "R c d \<Longrightarrow> R c (upd_Social f d)" "R c d \<Longrightarrow> R c (upd_Web w d)" "R c d \<Longrightarrow> R c (upd_notifications ns d)"
  "R c d \<Longrightarrow> R c (upd_pending pc d)" "R c d \<Longrightarrow> R c (d\<lparr>c_tempSessionKey := k\<rparr>)"
  by (auto intro: trans Emit Write Disconnect spawn Social Web notifications pending key)

lemma then_more:
  "R c d \<Longrightarrow> R c (Errorf e d)" "R c d \<Longrightarrow> R c (Fatalf e d)" "R c d \<Longrightarrow> R c (WriteProto m b d)" "R c d \<Longrightarrow> R c (WriteStruct s p d)"
  "R c d \<Longrightarrow> R c (upd_Friends f d)" "R c d \<Longrightarrow> R c (upd_Groups g d)" "R c d \<Longrightarrow> R c (upd_Chats h d)"
  by (simp_all add: Errorf_def Fatalf_def WriteProto_def WriteStruct_def upd_Friends_def upd_Groups_def upd_Chats_def then_op)

lemma then_fold: "(\<And>x d. R d (f x d)) \<Longrightarrow> R c d \<Longrightarrow> R c (fold f xs d)"
proof (induction xs arbitrary: d)
  case (Cons x xs)
  then show ?case using trans [of c d "f x d"] by simp
qed simp

lemmas then_intros = same then_op then_more then_fold

lemma entries: "R d (friends_list_entry i f d)" "R d (persona_entry fl g d)" "R d (history_entry s m d)"
  by (auto simp: friends_list_entry_def persona_entry_def persona_self_def history_entry_def Let_def intro!: then_intros)

lemma friend_handlers:
  "Social_handleAccountInfo p c = Ok c' \<Longrightarrow> R c c'" "handleFriendsList env p c = Ok c' \<Longrightarrow> R c c'"
  "handlePersonaState env p c = Ok c' \<Longrightarrow> R c c'" "handleFriendResponse env p c = Ok c' \<Longrightarrow> R c c'"
  "handleFriendMsg env p c = Ok c' \<Longrightarrow> R c c'" "handleProfileInfoResponse env p c = Ok c' \<Longrightarrow> R c c'"
  "handleFriendMessageHistoryResponse env p c = Ok c' \<Longrightarrow> R c c'"
  by (auto simp: Social_handleAccountInfo_def handleFriendsList_def handlePersonaState_def handleFriendResponse_def
      handleFriendMsg_def handleProfileInfoResponse_def handleFriendMessageHistoryResponse_def
      RequestFriendInfo_def RequestFriendListInfo_def Let_def
      intro!: then_intros entries elim!: with_body_OkE split: if_splits)

lemma clan_chat_handlers:
  "handleClanState env p c = Ok c' \<Longrightarrow> R c c'" "handleChatMsg p c = Ok c' \<Longrightarrow> R c c'" "handleChatEnter p c = Ok c' \<Longrightarrow> R c c'"
  "handleChatMemberInfo p c = Ok c' \<Longrightarrow> R c c'" "handleChatActionResult p c = Ok c' \<Longrightarrow> R c c'"
  "handleChatInvite env p c = Ok c' \<Longrightarrow> R c c'" "handleIgnoreFriendResponse p c = Ok c' \<Longrightarrow> R c c'"
  by (auto simp: handleClanState_def handleChatMsg_def handleChatEnter_def handleChatMemberInfo_def
      handleChatActionResult_def handleChatInvite_def handleIgnoreFriendResponse_def Let_def
      intro!: then_intros elim!: with_body_OkE split: if_splits prod.splits option.splits)

lemma Social_handler: "Social_HandlePacket env p c = Ok c' \<Longrightarrow> R c c'"
  by (auto simp: Social_HandlePacket_def Let_def intro: same dest: friend_handlers clan_chat_handlers split: if_splits)

lemma Auth_handlers:
  "handleLoginKey env p c = Ok c' \<Longrightarrow> R c c'" "handleLoggedOff env p c = Ok c' \<Longrightarrow> R c c'"
  "handleUpdateMachineAuth env p c = Ok c' \<Longrightarrow> R c c'" "handleAccountInfo env p c = Ok c' \<Longrightarrow> R c c'"
  by (auto simp: handleLoginKey_def handleLoggedOff_def handleUpdateMachineAuth_def handleAccountInfo_def
      Let_def bind_res_Ok_iff intro!: then_intros elim!: with_body_OkE split: if_splits)

lemma Auth_handler:
  assumes "\<not> logs_on env p"
  shows "Auth_HandlePacket env p c = Ok c' \<Longrightarrow> R c c'"
proof -
  have "handleLogOnResponse env p c = Ok c' \<Longrightarrow> R c c'" if "Packet_EMsg p = EMsg_ClientLogOnResponse"
    using assms that by (auto simp: handleLogOnResponse_def logs_on_def read_proto_msg_def Let_def bind_res_Ok_iff
        intro!: then_intros split: if_splits)
  then show "Auth_HandlePacket env p c = Ok c' \<Longrightarrow> R c c'"
    by (auto simp: Auth_HandlePacket_def intro: same dest: Auth_handlers split: if_splits)
qed

lemma Web_LogOn_order: "Web_LogOn c' = Ok c'' \<Longrightarrow> R c c' \<Longrightarrow> R c c''"
  by (auto simp: Web_LogOn_def split: if_splits intro!: then_intros)

lemma other_handlers:
  "Authentication_HandlePacket p c = Ok c' \<Longrightarrow> R c c'" "Web_HandlePacket env p c = Ok c' \<Longrightarrow> R c c'"
  "Trading_HandlePacket env p c = Ok c' \<Longrightarrow> R c c'"
  by (auto simp: Authentication_HandlePacket_def Web_HandlePacket_def handleNewLoginKey_def handleAuthNonceResponse_def
      Trading_HandlePacket_def Let_def intro!: then_intros elim!: with_body_OkE Web_LogOn_order split: if_splits option.splits)

lemma counted: "R c (Emit event (upd_notifications ns c))"
  by (intro then_op same)

lemma stored: "store_notifications ns c = Ok c' \<Longrightarrow> R c c'"
proof (induction ns arbitrary: c)
  case (Cons n ns)
  then obtain event f where "store_notifications ns (Emit event (upd_notifications f c)) = Ok c'"
    by (auto split: option.splits)
  from Cons.IH [OF this] show ?case by (rule trans [OF counted])
qed (simp add: same)

lemma dropped: "drop_absent ns typs c = Ok c' \<Longrightarrow> R c c'"
proof (induction typs arbitrary: c)
  case (Cons ty tys)
  then consider "drop_absent ns tys c = Ok c'" | event f where "drop_absent ns tys (Emit event (upd_notifications f c)) = Ok c'"
    by (auto simp: bind_res_Ok_iff split: if_splits)
  then show ?case
  proof cases
    case 2
    from Cons.IH [OF this] show ?thesis by (rule trans [OF counted])
  qed (rule Cons.IH)
qed (simp add: same)

lemma Notifications_handler: "Notifications_HandlePacket order env p c = Ok c' \<Longrightarrow> R c c'"
  by (auto simp: Notifications_HandlePacket_def handleClientUserNotifications_def Let_def bind_res_Ok_iff
      elim!: with_body_OkE split: if_splits intro: same trans [OF stored dropped])

lemma gc_handlers: "list_all (follows R) hs \<Longrightarrow> run_gc_handlers hs p c = Ok c' \<Longrightarrow> R c c'"
proof (induction hs arbitrary: c)
  case (Cons h hs)
  then obtain d where "h p c = Ok d" "run_gc_handlers hs p d = Ok c'" by (auto simp: bind_res_Ok_iff)
  with Cons show ?case by (auto simp: follows_def intro: trans [of c d])
qed (simp add: same)

lemma GC_handler: "list_all (follows R) hs \<Longrightarrow> GC_HandlePacket hs env p c = Ok c' \<Longrightarrow> R c c'"
  by (auto simp: GC_HandlePacket_def elim!: with_body_OkE split: if_splits res.splits intro!: then_intros intro: gc_handlers)

lemma own_handlers:
  "handleChannelEncryptRequest random p c = Ok c' \<Longrightarrow> R c c'" "handleChannelEncryptResult p c = Ok c' \<Longrightarrow> R c c'"
  "handleClientCMList env p c = Ok c' \<Longrightarrow> R c c'"
  by (auto simp: handleChannelEncryptRequest_def handleChannelEncryptResult_def handleClientCMList_def Let_def bind_res_Ok_iff
      split: prod.splits if_splits option.splits elim!: with_body_OkE intro!: then_intros cipher)

lemma run_order:
  "(\<And>h c c'. h \<in> set hs \<Longrightarrow> h p c = Ok c' \<Longrightarrow> R c c') \<Longrightarrow> run_handlers hs p c = Ok c' \<Longrightarrow> R c c'"
proof (induction hs arbitrary: c)
  case (Cons h hs)
  then obtain d where d: "h p c = Ok d" "run_handlers hs p d = Ok c'" by (auto simp: bind_res_Ok_iff)
  then have "R c d" by (intro Cons.prems(1) [of h c d]) simp_all
  moreover have "R d c'" using Cons.prems(1) d(2) by (intro Cons.IH) auto
  ultimately show ?case by (rule trans)
qed (simp add: same)

text \<open>The handlers after that of the log-on, and all of them for a packet that is no successful answer to one.\<close>

lemma later_handlers:
  assumes "list_all (follows R) (cfg_extra cfg)" "list_all (follows R) (cfg_gc cfg)" "h \<in> set (tl (handlers cfg))" "h p c = Ok c'"
  shows "R c c'"
  using assms Social_handler other_handlers Notifications_handler GC_handler [OF assms(2)]
  by (auto simp: handlers_def follows_def list_all_iff)

lemma all_handlers:
  assumes "list_all (follows R) (cfg_extra cfg)" "list_all (follows R) (cfg_gc cfg)" "\<not> logs_on (cfg_env cfg) p"
    and "h \<in> set (handlers cfg)" "h p c = Ok c'"
  shows "R c c'"
proof -
  have "h = Auth_HandlePacket (cfg_env cfg) \<or> h \<in> set (tl (handlers cfg))" using assms(4) by (auto simp: handlers_def)
  then show ?thesis using Auth_handler [OF assms(3)] later_handlers [OF assms(1,2)] assms(5) by blast
qed

lemma pieces_order:
  assumes "\<And>d q c c'. d \<in> set ds \<Longrightarrow> NewPacket (env_hdr env) d = Ok q \<Longrightarrow> h q c = Some (Ok c') \<Longrightarrow> R c c'"
  shows "each_piece env h ds c = Some (Ok c') \<Longrightarrow> R c c'"
  using assms
proof (induction ds arbitrary: c)
  case (Cons d ds)
  have rest: "each_piece env h ds c = Some (Ok c') \<Longrightarrow> R c c'" for c using Cons.prems(2) by (intro Cons.IH) auto
  show ?case
  proof (cases "NewPacket (env_hdr env) d")
    case (Ok q)
    then obtain e where "h q c = Some (Ok e)" "each_piece env h ds e = Some (Ok c')"
      using Cons.prems(1) by (auto simp: bind_fuel_Ok)
    then show ?thesis using Cons.prems(2) [of d q c e] Ok rest [of e] trans [of c e c'] by simp
  next
    case (Err err)
    then show ?thesis using Cons.prems(1) rest [of "Errorf err c"] trans [of c "Errorf err c" c'] then_more(1) [OF same] by simp
  qed (use Cons.prems(1) in simp)
qed (simp add: same)

lemma handlePacket_order:
  assumes "list_all (follows R) (cfg_extra cfg)" "list_all (follows R) (cfg_gc cfg)"
  shows "no_logon n (cfg_env cfg) p \<Longrightarrow> handlePacket n cfg p c = Some (Ok c') \<Longrightarrow> R c c'"
proof (induction n arbitrary: p c c')
  case (Suc n)
  let ?env = "cfg_env cfg"
  have multi: "R c d" if packed: "Packet_EMsg p = EMsg_Multi" and inside: "handleMulti ?env (handlePacket n cfg) p c = Some (Ok d)" for d
  proof -
    obtain m where m: "ReadProtoMsg (env_hdr ?env) (un_Multi ?env) p = Ok m"
      using inside by (auto simp: handleMulti_def split: res.splits)
    show ?thesis
    proof (cases "multi_payload ?env (CMP_Body m)")
      case (Ok payload)
      have quiet: "no_logon n ?env q" if "b \<in> set (multi_pieces payload)" "NewPacket (env_hdr ?env) b = Ok q" for b q
        using in_packed [OF m Ok that] Suc.prems(1) packed by (simp add: list_all_iff)
      have "each_piece ?env (handlePacket n cfg) (multi_pieces payload) c = Some (Ok d)"
        using inside m Ok by (simp add: handleMulti_def)
      from pieces_order [OF _ this] show ?thesis using Suc.IH [OF quiet] by blast
    next
      case (Err err)
      then have "d = Errorf err c" using inside m by (simp add: handleMulti_def)
      then show ?thesis by (simp add: then_more(1) same)
    qed (use inside m in \<open>simp add: handleMulti_def\<close>)
  qed
  obtain d where own: "(if Packet_EMsg p = EMsg_ChannelEncryptRequest then Some (handleChannelEncryptRequest (cfg_random cfg) p c)
        else if Packet_EMsg p = EMsg_ChannelEncryptResult then Some (handleChannelEncryptResult p c)
        else if Packet_EMsg p = EMsg_Multi then handleMulti ?env (handlePacket n cfg) p c
        else if Packet_EMsg p = EMsg_ClientCMList then Some (handleClientCMList ?env p c)
        else Some (Ok c)) = Some (Ok d)" and "run_handlers (handlers cfg) p d = Ok c'"
    using Suc.prems(2) by (auto simp: bind_fuel_Ok)
  have "R c d" using own own_handlers multi same by (auto split: if_splits)
  moreover have "\<not> logs_on ?env p" using Suc.prems(1) by simp
  then have "R d c'" using \<open>run_handlers (handlers cfg) p d = Ok c'\<close> all_handlers [OF assms] by (blast intro: run_order)
  ultimately show ?case by (rule trans)
qed simp

lemma readLoop_order:
  assumes "list_all (follows R) (cfg_extra cfg)" "list_all (follows R) (cfg_gc cfg)"
  shows "readLoop n depth cfg receive net c = Some (Ok c') \<Longrightarrow>
    list_all (no_logon depth (cfg_env cfg)) (read_trace n depth cfg receive net c) \<Longrightarrow> R c c'"
proof (induction n arbitrary: net c)
  case (Suc n)
  show ?case
  proof (cases "c_conn c")
    case (Some conn)
    obtain r net' where r: "receive conn net = (r, net')" by fastforce
    show ?thesis
    proof (cases r)
      case (Ok p)
      then obtain d where d: "handlePacket depth cfg p c = Some (Ok d)" "readLoop n depth cfg receive net' d = Some (Ok c')"
        using Suc.prems(1) Some r by (auto simp: bind_fuel_Ok)
      then have "R c d" "R d c'"
        using Suc.prems(2) Some r Ok Suc.IH [of net' d] handlePacket_order [OF assms] by auto
      then show ?thesis by (rule trans)
    qed (use Suc.prems(1) Some r in \<open>auto intro: then_more same\<close>)
  qed (use Suc.prems(1) in \<open>simp add: same\<close>)
qed simp

end

section \<open>The session\<close>

text \<open>A message a server can attribute: its header names this session and this account. Plain messages name none.\<close>

fun stamped :: "i32 \<Rightarrow> steamid \<Rightarrow> IMsg \<Rightarrow> bool" where
  "stamped s i (IM_Proto m) \<longleftrightarrow> CMP_GetSessionId m = s \<and> CMP_GetSteamId m = i"
| "stamped s i (IM_Client m) \<longleftrightarrow> CM_GetSessionId m = s \<and> CM_GetSteamId m = i"
| "stamped s i (IM_Plain m) \<longleftrightarrow> True"

definition in_session :: "Client \<Rightarrow> Client \<Rightarrow> bool" where
  "in_session c c' \<longleftrightarrow> c_sessionId c' = c_sessionId c \<and> c_steamId c' = c_steamId c \<and>
     (\<exists>ms. c_writeChan c' = c_writeChan c @ ms \<and> list_all (stamped (c_sessionId c) (c_steamId c)) ms)"

lemma stamp_stamped: "stamped (c_sessionId c) (c_steamId c) (stamp c m)"
  by (cases m) (simp_all add: CMP_msg.stamped CM_msg.stamped SteamId_def SessionId_def)

lemma in_session_same: "c_sessionId c' = c_sessionId c \<Longrightarrow> c_steamId c' = c_steamId c \<Longrightarrow> c_writeChan c' = c_writeChan c \<Longrightarrow>
    in_session c c'"
  by (simp add: in_session_def)

lemma in_session_trans: "in_session c d \<Longrightarrow> in_session d e \<Longrightarrow> in_session c e"
  by (fastforce simp: in_session_def)

lemma in_session_Write: "in_session c (Write msg c)"
  by (simp add: in_session_def Write_def send_def stamp_stamped split: option.splits)

interpretation session: client_order in_session
proof (unfold_locales, goal_cases)
  case (2 c d e)
  then show ?case by (rule in_session_trans)
next
  case (5 c)
  show ?case by (cases "c_conn c") (simp_all add: in_session_same Disconnect_def Emit_def)
qed (simp_all add: in_session_Write in_session_same Emit_def spawn_def upd_Social_def upd_Web_def upd_notifications_def
    upd_pending_def)

text \<open>The second relation: what the client has emitted and queued stays.\<close>

interpretation history: client_order extends
proof (unfold_locales, goal_cases)
  case (2 c d e)
  then show ?case by (rule extends_trans)
next
  case (12 c conn conn' k)
  then show ?case by (simp add: extends_def)
qed (simp_all add: extends_same extends_upd_SocialI extends_upd_WebI extends_spawnI upd_notifications_def upd_pending_def)

text \<open>The handler of the log-on comes first: it sets the session, and the handlers after it keep it.\<close>

lemma session_set:
  assumes "list_all (follows in_session) (cfg_extra cfg)" "list_all (follows in_session) (cfg_gc cfg)"
    and "Packet_EMsg p = EMsg_ClientLogOnResponse" "Packet_IsProto p"
    and "ReadProtoMsg (env_hdr (cfg_env cfg)) (un_ClientLogonResponse (cfg_env cfg)) p = Ok m"
    and "CMsgClientLogonResponse_GetEresult (CMP_Body m) = EResult_OK"
    and "handlePacket d cfg p c = Some (Ok c1)"
  shows "c_sessionId c1 = CMP_GetSessionId m \<and> c_steamId c1 = CMP_GetSteamId m"
proof -
  obtain n where "d = Suc n" using assms(7) by (cases d) auto
  then have "run_handlers (handlers cfg) p c = Ok c1" using assms(3,7)
    by (auto simp: bind_fuel_Ok EMsg_defs)
  then obtain b where b: "Auth_HandlePacket (cfg_env cfg) p c = Ok b" "run_handlers (tl (handlers cfg)) p b = Ok c1"
    by (auto simp: handlers_def bind_res_Ok_iff)
  have "in_session b c1"
    by (rule session.run_order [OF _ b(2)]) (rule session.later_handlers [OF assms(1,2)])
  moreover have "c_sessionId b = CMP_GetSessionId m \<and> c_steamId b = CMP_GetSteamId m"
    using b(1) assms(3-6)
    by (auto simp: Auth_HandlePacket_def handleLogOnResponse_def read_proto_msg_def Let_def upd_Web_def spawn_def Emit_def
        CMP_defs split: option.splits)
  ultimately show ?thesis by (simp add: in_session_def)
qed

text \<open>
  C3: a successful answer to a log-on gives the client the session and the account of its header, and from then on every
  message the client queues while it reads, whatever packets arrive and whatever is packed in them, is stamped with them, in order
  behind what was queued before, until another log-on succeeds.\<close>

theorem session_after_logon:
  assumes "list_all (follows in_session) (cfg_extra cfg)" "list_all (follows in_session) (cfg_gc cfg)"
    and "Packet_EMsg p = EMsg_ClientLogOnResponse" "Packet_IsProto p"
    and "ReadProtoMsg (env_hdr (cfg_env cfg)) (un_ClientLogonResponse (cfg_env cfg)) p = Ok m"
    and "CMsgClientLogonResponse_GetEresult (CMP_Body m) = EResult_OK"
    and "handlePacket d cfg p c = Some (Ok c1)"
    and "readLoop n depth cfg receive net c1 = Some (Ok c2)"
    and "list_all (no_logon depth (cfg_env cfg)) (read_trace n depth cfg receive net c1)"
  shows "c_sessionId c2 = CMP_GetSessionId m \<and> c_steamId c2 = CMP_GetSteamId m \<and>
    (\<exists>ms. c_writeChan c2 = c_writeChan c1 @ ms \<and> list_all (stamped (CMP_GetSessionId m) (CMP_GetSteamId m)) ms)"
  using session_set [OF assms(1-7)] session.readLoop_order [OF assms(1,2,8,9)] by (simp add: in_session_def)

section \<open>A log-on and a run after it\<close>

text \<open>The environment of the other examples, with a successful answer to the log-on.\<close>

definition session_env :: Env where
  "session_env = demo_env\<lparr>un_ClientLogonResponse :=
     (\<lambda>_. (NewCMsgClientLogonResponse\<lparr>CMsgClientLogonResponse_Eresult := Some EResult_OK\<rparr>, None))\<rparr>"

definition session_config :: Config where
  "session_config = demo_config\<lparr>cfg_env := session_env\<rparr>"

lemma session_env_hdr [simp]: "env_hdr session_env = jobs_codec"
  by (simp add: session_env_def)

lemma session_config_follows: "list_all (follows in_session) (cfg_extra session_config)" "list_all (follows in_session) (cfg_gc session_config)"
  by (auto simp: session_config_def demo_config_def tf2_New_def GC_RegisterPacketHandler_def follows_def HandleGCPacket_def
      handleWelcome_def split: if_splits intro!: session.then_intros)

lemma auth_packet:
  assumes "e = EMsg_ClientLogOnResponse \<or> e = EMsg_ClientUpdateMachineAuth"
  shows "handlePacket 1 session_config (demo_packet e) c = Some (Auth_HandlePacket session_env (demo_packet e) c)"
proof -
  let ?p = "demo_packet e"
  have ids: "e \<noteq> x"
    if "x \<in> {EMsg_ChannelEncryptRequest, EMsg_ChannelEncryptResult, EMsg_Multi, EMsg_ClientCMList, EMsg_ClientNewLoginKey,
      EMsg_ServiceMethodResponse, EMsg_ClientUserNotifications, EMsg_ClientFromGC,
      EMsg_ClientRequestWebAPIAuthenticateUserNonceResponse, EMsg_EconTrading_InitiateTradeProposed,
      EMsg_EconTrading_InitiateTradeResult, EMsg_EconTrading_StartSession}" for x
    using that assms by (auto simp: EMsg_defs)
  have social: "Social_HandlePacket session_env ?p c = Ok c" for c
    using assms by (auto simp: Social_HandlePacket_def EMsg_defs)
  have others: "Authentication_HandlePacket ?p c = Ok c" "Web_HandlePacket session_env ?p c = Ok c"
    "Notifications_HandlePacket order session_env ?p c = Ok c" "Trading_HandlePacket session_env ?p c = Ok c"
    "GC_HandlePacket hs session_env ?p c = Ok c" for c order hs
    using ids by (simp_all add: Authentication_HandlePacket_def Web_HandlePacket_def Notifications_HandlePacket_def
        Trading_HandlePacket_def GC_HandlePacket_def)
  show ?thesis
    using ids by (cases "Auth_HandlePacket session_env ?p c")
      (simp_all add: bind_fuel_def handlers_def session_config_def demo_config_def social others)
qed

lemma session_logon:
  "\<exists>c1 m. ReadProtoMsg (env_hdr session_env) (un_ClientLogonResponse session_env) (demo_packet EMsg_ClientLogOnResponse) = Ok m \<and>
    CMsgClientLogonResponse_GetEresult (CMP_Body m) = EResult_OK \<and>
    handlePacket 1 session_config (demo_packet EMsg_ClientLogOnResponse) demo_client = Some (Ok c1) \<and>
    c_conn c1 = Some Conn_ws \<and> c_writeChan c1 = []"
  unfolding auth_packet [OF disjI1 [OF refl]]
  by (simp add: Auth_HandlePacket_def handleLogOnResponse_def read_proto_msg_def demo_packet_reads session_env_def
      CMsgClientLogonResponse_GetEresult_def NewCMsgClientLogonResponse_def Let_def Emit_def spawn_def demo_client_def NewClient_def)

lemma session_run:
  assumes "c_conn c = Some Conn_ws"
  shows "\<exists>c2 msg. readLoop 2 1 session_config (ws_net session_config) [WS_Binary (Packet_Data (demo_packet EMsg_ClientUpdateMachineAuth))] c
      = Some (Ok c2) \<and> c_writeChan c2 = c_writeChan c @ [msg]"
    and "read_trace 2 1 session_config (ws_net session_config) [WS_Binary (Packet_Data (demo_packet EMsg_ClientUpdateMachineAuth))] c
      = [demo_packet EMsg_ClientUpdateMachineAuth]"
proof -
  let ?p = "demo_packet EMsg_ClientUpdateMachineAuth"
  let ?net = "[WS_Binary (Packet_Data ?p)]"
  have ids: "EMsg_ClientUpdateMachineAuth \<noteq> EMsg_ClientLogOnResponse" "EMsg_ClientUpdateMachineAuth \<noteq> EMsg_ClientNewLoginKey"
    "EMsg_ClientUpdateMachineAuth \<noteq> EMsg_ClientSessionToken" "EMsg_ClientUpdateMachineAuth \<noteq> EMsg_ClientLoggedOff"
    by (simp_all add: EMsg_defs)
  have carries: "carries session_env un_ClientUpdateMachineAuth ?p NewCMsgClientUpdateMachineAuth"
    by (rule demo_packet_carries) (simp, simp add: session_env_def demo_env_def)
  obtain d msg where d: "Auth_HandlePacket session_env ?p c = Ok d" "c_conn d = Some Conn_ws" "c_writeChan d = c_writeChan c @ [msg]"
    using ids assms
    by (auto simp: Auth_HandlePacket_def handleUpdateMachineAuth_def with_body_carries [OF carries] Let_def Write_def send_def Emit_def)
  have new: "NewPacket jobs_codec (Packet_Data ?p) = Ok ?p"
    by (rule demo_packet_new) (simp_all add: NewEMsg_def EMsgMask_def ProtoMask_def encrypt_type_def EMsg_defs)
  have first: "ws_net session_config Conn_ws ?net = (Ok ?p, [])" and last: "ws_net session_config Conn_ws [] = (Err EOF, [])"
    using new by (simp_all add: ws_net_def ws_Read_def session_config_def)
  have handled: "handlePacket 1 session_config ?p c = Some (Ok d)"
    using auth_packet [of EMsg_ClientUpdateMachineAuth c] d(1) by simp
  show "\<exists>c2 msg. readLoop 2 1 session_config (ws_net session_config) ?net c = Some (Ok c2) \<and> c_writeChan c2 = c_writeChan c @ [msg]"
    using assms first last handled d by (simp add: numeral_2_eq_2 bind_fuel_def Fatalf_def Disconnect_def Emit_def del: handlePacket.simps)
  show "read_trace 2 1 session_config (ws_net session_config) ?net c = [?p]"
    using assms first last handled d by (simp add: numeral_2_eq_2 del: handlePacket.simps)
qed

theorem session_after_logon_witness:
  "\<exists>c1 c2 m msg. handlePacket 1 session_config (demo_packet EMsg_ClientLogOnResponse) demo_client = Some (Ok c1) \<and>
    readLoop 2 1 session_config (ws_net session_config) [WS_Binary (Packet_Data (demo_packet EMsg_ClientUpdateMachineAuth))] c1 = Some (Ok c2) \<and>
    c_writeChan c2 = [msg] \<and> stamped (CMP_GetSessionId m) (CMP_GetSteamId m) msg \<and> c_sessionId c2 = CMP_GetSessionId (m :: CMsgClientLogonResponse ClientMsgProtobuf)"
proof -
  let ?net = "[WS_Binary (Packet_Data (demo_packet EMsg_ClientUpdateMachineAuth))]"
  obtain c1 m where c1: "ReadProtoMsg (env_hdr session_env) (un_ClientLogonResponse session_env) (demo_packet EMsg_ClientLogOnResponse) = Ok m"
    "CMsgClientLogonResponse_GetEresult (CMP_Body m) = EResult_OK"
    "handlePacket 1 session_config (demo_packet EMsg_ClientLogOnResponse) demo_client = Some (Ok c1)"
    "c_conn c1 = Some Conn_ws" "c_writeChan c1 = []" using session_logon by blast
  obtain c2 msg where c2: "readLoop 2 1 session_config (ws_net session_config) ?net c1 = Some (Ok c2)" "c_writeChan c2 = c_writeChan c1 @ [msg]"
    using session_run(1) [OF c1(4)] by blast
  have env: "cfg_env session_config = session_env" by (simp add: session_config_def)
  have trace: "list_all (no_logon 1 (cfg_env session_config)) (read_trace 2 1 session_config (ws_net session_config) ?net c1)"
    unfolding session_run(2) [OF c1(4)] by (simp add: logs_on_def EMsg_defs)
  from session_after_logon [OF session_config_follows _ _ c1(1) [folded env] c1(2,3) c2(1) trace] c1(3,5) c2
  show ?thesis by auto
qed

end
