(* ===== verification/Client_Concurrency.thy ===== *)
theory Client_Concurrency
  imports Main
begin

text \<open>
  The goroutines of \<open>client.go\<close> as a transition system: callers of \<open>Write\<close>, \<open>Emit\<close>, \<open>Fatalf\<close>, \<open>Disconnect\<close> and the two
  \<open>ConnectTo\<close> operations, and the write loop; a read loop is a caller of all of these. What they share is the
  mutex, \<open>c.conn\<close>, \<open>c.writeChan\<close> (channels of capacity 5, which live on after they were replaced) and the events
  channel of capacity 3, from which the user reads. A step is what runs between two points at which a
  goroutine can be interrupted or block. Messages and events are counted, not told apart; a panic ends the
  program. A nil channel blocks forever.
\<close>

section \<open>Goroutines and what they share\<close>

datatype pc =
    Unborn
  | Idle
  | Halted
  | Wr_locked
  | Wr_send "nat option"
  | Wr_unlock
  | Emitting pc
  | Disc_lock pc
  | Disc_test pc
  | Disc_close pc
  | Disc_unlock pc
  | Con_conn
  | Con_chan
  | Loop_top
  | Loop_recv "nat option"
  | Loop_msg

record sys =
  s_pc :: "nat \<Rightarrow> pc"
  s_conn :: bool
  s_cur :: "nat option"
  s_chans :: "(nat \<times> bool) list"
  s_events :: nat
  s_panicked :: bool

text \<open>Who holds the mutex for reading and who for writing.\<close>

fun holds_r :: "pc \<Rightarrow> bool" where
  "holds_r Wr_locked = True"
| "holds_r (Wr_send _) = True"
| "holds_r Wr_unlock = True"
| "holds_r _ = False"

fun holds_w :: "pc \<Rightarrow> bool" where
  "holds_w (Disc_test _) = True"
| "holds_w (Disc_close _) = True"
| "holds_w (Disc_unlock _) = True"
| "holds_w (Emitting q) = holds_w q"
| "holds_w _ = False"

definition may_read :: "sys \<Rightarrow> bool" where
  "may_read s \<longleftrightarrow> (\<forall>u. \<not> holds_w (s_pc s u))"

definition may_write :: "sys \<Rightarrow> bool" where
  "may_write s \<longleftrightarrow> (\<forall>u. \<not> holds_w (s_pc s u) \<and> \<not> holds_r (s_pc s u))"

definition goto :: "nat \<Rightarrow> pc \<Rightarrow> sys \<Rightarrow> sys" where
  "goto t q s = s\<lparr>s_pc := (s_pc s)(t := q)\<rparr>"

lemma goto_fields [simp]:
  "s_pc (goto t q s) = (s_pc s)(t := q)" "s_conn (goto t q s) = s_conn s" "s_cur (goto t q s) = s_cur s"
  "s_chans (goto t q s) = s_chans s" "s_events (goto t q s) = s_events s" "s_panicked (goto t q s) = s_panicked s"
  by (simp_all add: goto_def)

section \<open>Steps\<close>

text \<open>\<open>Write\<close>, \<open>Emit\<close>, \<open>Fatalf\<close>, \<open>Disconnect\<close>, the write loop and the reader of the events.\<close>

inductive step :: "sys \<Rightarrow> sys \<Rightarrow> bool" where
  write_start: "s_pc s t = Idle \<Longrightarrow> may_read s \<Longrightarrow> step s (goto t Wr_locked s)"
| write_off: "s_pc s t = Wr_locked \<Longrightarrow> \<not> s_conn s \<Longrightarrow> step s (goto t Wr_unlock s)"
| write_on: "s_pc s t = Wr_locked \<Longrightarrow> s_conn s \<Longrightarrow> step s (goto t (Wr_send (s_cur s)) s)"
| send: "s_pc s t = Wr_send (Some i) \<Longrightarrow> s_chans s ! i = (n, False) \<Longrightarrow> n < 5 \<Longrightarrow>
    step s (goto t Wr_unlock (s\<lparr>s_chans := (s_chans s)[i := (Suc n, False)]\<rparr>))"
| send_closed: "s_pc s t = Wr_send (Some i) \<Longrightarrow> s_chans s ! i = (n, True) \<Longrightarrow> step s (s\<lparr>s_panicked := True\<rparr>)"
| write_done: "s_pc s t = Wr_unlock \<Longrightarrow> step s (goto t Idle s)"
| emit_start: "s_pc s t = Idle \<Longrightarrow> step s (goto t (Emitting Idle) s)"
| fatal_start: "s_pc s t = Idle \<Longrightarrow> step s (goto t (Emitting (Disc_lock Idle)) s)"
| emit: "s_pc s t = Emitting q \<Longrightarrow> s_events s < 3 \<Longrightarrow> step s (goto t q (s\<lparr>s_events := Suc (s_events s)\<rparr>))"
| disc_start: "s_pc s t = Idle \<Longrightarrow> step s (goto t (Disc_lock Idle) s)"
| disc_locked: "s_pc s t = Disc_lock q \<Longrightarrow> may_write s \<Longrightarrow> step s (goto t (Disc_test q) s)"
| disc_off: "s_pc s t = Disc_test q \<Longrightarrow> \<not> s_conn s \<Longrightarrow> step s (goto t (Disc_unlock q) s)"
| disc_on: "s_pc s t = Disc_test q \<Longrightarrow> s_conn s \<Longrightarrow> step s (goto t (Disc_close q) (s\<lparr>s_conn := False\<rparr>))"
| disc_close: "s_pc s t = Disc_close q \<Longrightarrow> s_cur s = Some i \<Longrightarrow> s_chans s ! i = (n, False) \<Longrightarrow>
    step s (goto t (Emitting (Disc_unlock q)) (s\<lparr>s_chans := (s_chans s)[i := (n, True)]\<rparr>))"
| disc_close_again: "s_pc s t = Disc_close q \<Longrightarrow> (case s_cur s of None \<Rightarrow> True | Some i \<Rightarrow> snd (s_chans s ! i)) \<Longrightarrow>
    step s (s\<lparr>s_panicked := True\<rparr>)"
| disc_done: "s_pc s t = Disc_unlock q \<Longrightarrow> step s (goto t q s)"
| loop_on: "s_pc s t = Loop_top \<Longrightarrow> may_read s \<Longrightarrow> s_conn s \<Longrightarrow> step s (goto t (Loop_recv (s_cur s)) s)"
| loop_off: "s_pc s t = Loop_top \<Longrightarrow> may_read s \<Longrightarrow> \<not> s_conn s \<Longrightarrow> step s (goto t Halted s)"
| loop_recv: "s_pc s t = Loop_recv (Some i) \<Longrightarrow> s_chans s ! i = (Suc n, b) \<Longrightarrow>
    step s (goto t Loop_msg (s\<lparr>s_chans := (s_chans s)[i := (n, b)]\<rparr>))"
| loop_closed: "s_pc s t = Loop_recv (Some i) \<Longrightarrow> s_chans s ! i = (0, True) \<Longrightarrow> step s (goto t Halted s)"
| loop_wrote: "s_pc s t = Loop_msg \<Longrightarrow> step s (goto t Loop_top s)"
| loop_failed: "s_pc s t = Loop_msg \<Longrightarrow> step s (goto t (Emitting (Disc_lock Halted)) s)"
| read_event: "0 < s_events s \<Longrightarrow> step s (s\<lparr>s_events := s_events s - 1\<rparr>)"

text \<open>
  \<open>ConnectToBind\<close>: disconnect, dial, assign \<open>c.conn\<close>, assign \<open>c.writeChan\<close>, start the loops; the assignments are
  made without the mutex.
\<close>

inductive connect_step :: "sys \<Rightarrow> sys \<Rightarrow> bool" where
  connect_start: "s_pc s t = Idle \<Longrightarrow> connect_step s (goto t (Disc_lock Con_conn) s)"
| dial_failed: "s_pc s t = Con_conn \<Longrightarrow> connect_step s (goto t (Emitting (Disc_lock Idle)) s)"
| set_conn: "s_pc s t = Con_conn \<Longrightarrow> connect_step s (goto t Con_chan (s\<lparr>s_conn := True\<rparr>))"
| set_chan: "s_pc s t = Con_chan \<Longrightarrow> s_pc s r = Unborn \<Longrightarrow> s_pc s w = Unborn \<Longrightarrow> r \<noteq> w \<Longrightarrow>
    connect_step s (goto r Idle (goto w Loop_top (goto t Idle
      (s\<lparr>s_cur := Some (length (s_chans s)), s_chans := s_chans s @ [(0, False)]\<rparr>))))"

definition any_step :: "sys \<Rightarrow> sys \<Rightarrow> bool" where
  "any_step s s' \<longleftrightarrow> \<not> s_panicked s \<and> (step s s' \<or> connect_step s s')"

definition calm_step :: "sys \<Rightarrow> sys \<Rightarrow> bool" where
  "calm_step s s' \<longleftrightarrow> \<not> s_panicked s \<and> step s s'"

text \<open>Just connected: goroutine 0 is the write loop, the others are free to call anything.\<close>

definition connected :: sys where
  "connected = \<lparr>s_pc = (\<lambda>t. if t = 0 then Loop_top else if t < 100 then Idle else Unborn), s_conn = True, s_cur = Some 0,
     s_chans = [(0, False)], s_events = 0, s_panicked = False\<rparr>"

inductive_cases step_from: "step s s'"
inductive_cases connect_step_from: "connect_step s s'"

section \<open>Without a connect no interleaving panics\<close>

text \<open>A goroutine that is not connecting, now or after what it waits for.\<close>

fun settled :: "pc \<Rightarrow> bool" where
  "settled Con_conn = False"
| "settled Con_chan = False"
| "settled (Emitting q) = (q \<in> {Idle, Disc_lock Idle, Disc_lock Halted, Disc_unlock Idle, Disc_unlock Halted})"
| "settled (Disc_lock q) = (q = Idle \<or> q = Halted)"
| "settled (Disc_test q) = (q = Idle \<or> q = Halted)"
| "settled (Disc_close q) = (q = Idle \<or> q = Halted)"
| "settled (Disc_unlock q) = (q = Idle \<or> q = Halted)"
| "settled _ = True"

fun closing :: "pc \<Rightarrow> bool" where
  "closing (Disc_close _) = True"
| "closing _ = False"

definition chan_open :: "sys \<Rightarrow> nat option \<Rightarrow> bool" where
  "chan_open s x \<longleftrightarrow> (\<exists>i n. x = Some i \<and> i < length (s_chans s) \<and> s_chans s ! i = (n, False) \<and> n \<le> 5)"

definition calm :: "sys \<Rightarrow> bool" where
  "calm s \<longleftrightarrow> \<not> s_panicked s \<and> (\<forall>t. settled (s_pc s t))
     \<and> (\<forall>t u. holds_w (s_pc s t) \<longrightarrow> holds_w (s_pc s u) \<or> holds_r (s_pc s u) \<longrightarrow> t = u)
     \<and> (s_conn s \<or> (\<exists>t. closing (s_pc s t)) \<longrightarrow> chan_open s (s_cur s))
     \<and> (\<forall>t x. s_pc s t = Wr_send x \<longrightarrow> s_conn s \<and> x = s_cur s)
     \<and> (s_conn s \<longrightarrow> (\<forall>t. \<not> closing (s_pc s t)))"

lemma calm_connected: "calm connected"
  by (auto simp: calm_def connected_def chan_open_def)


lemma calm_settled: "calm s \<Longrightarrow> settled (s_pc s t)"
  by (auto simp: calm_def)

lemma calm_exclusive:
  "calm s \<Longrightarrow> holds_w (s_pc s t) \<Longrightarrow> holds_w (s_pc s u) \<or> holds_r (s_pc s u) \<Longrightarrow> u = t"
  unfolding calm_def by blast

lemma calm_send: "calm s \<Longrightarrow> s_pc s t = Wr_send x \<Longrightarrow> s_conn s \<and> x = s_cur s"
  by (auto simp: calm_def)

lemma calm_open: "calm s \<Longrightarrow> s_conn s \<or> closing (s_pc s t) \<Longrightarrow> chan_open s (s_cur s)"
  by (auto simp: calm_def)

lemma calm_closing: "calm s \<Longrightarrow> closing (s_pc s t) \<Longrightarrow> \<not> s_conn s"
  by (auto simp: calm_def)

lemma closing_holds: "closing p \<Longrightarrow> holds_w p"
  by (cases p) auto

text \<open>A goroutine that only moves between points at which it holds no more than before.\<close>

lemma calm_goto:
  assumes "calm s" "settled q" "holds_w q \<Longrightarrow> holds_w (s_pc s t)" "holds_r q \<Longrightarrow> holds_r (s_pc s t)"
    and "\<not> closing q" "\<And>x. q = Wr_send x \<Longrightarrow> s_conn s \<and> x = s_cur s"
  shows "calm (goto t q s)"
  using assms unfolding calm_def chan_open_def by (auto split: if_splits)


lemma calm_events [simp]: "calm (s\<lparr>s_events := k\<rparr>) = calm s"
  by (simp add: calm_def chan_open_def)

lemma calm_lock:
  assumes "calm s" "may_write s"
  shows "settled (Disc_test q) \<Longrightarrow> calm (goto t (Disc_test q) s)"
    and "may_read s \<Longrightarrow> calm (goto t Wr_locked s)"
  using assms unfolding calm_def chan_open_def may_read_def may_write_def by (auto split: if_splits)

lemma calm_rlock: "calm s \<Longrightarrow> may_read s \<Longrightarrow> calm (goto t Wr_locked s)"
  unfolding calm_def chan_open_def may_read_def by (auto split: if_splits)

text \<open>A change of a queue that leaves it open, or of one that is no longer in use.\<close>

lemma chan_open_queue:
  assumes "chan_open s x" "s_chans s ! i = (n, b)" "n \<le> 5 \<Longrightarrow> m \<le> 5"
  shows "chan_open (s\<lparr>s_chans := (s_chans s)[i := (m, b)]\<rparr>) x"
  using assms by (cases "x = Some i") (auto simp: chan_open_def nth_list_update)

lemma calm_queue:
  assumes "calm s" "s_chans s ! i = (n, b)" "n \<le> 5 \<Longrightarrow> m \<le> 5"
  shows "calm (s\<lparr>s_chans := (s_chans s)[i := (m, b)]\<rparr>)"
  using assms chan_open_queue [of s "s_cur s" i n b m] unfolding calm_def by auto

lemma calm_disconnects:
  assumes "calm s" "s_pc s t = Disc_test q" "s_conn s"
  shows "calm (goto t (Disc_close q) (s\<lparr>s_conn := False\<rparr>))"
proof -
  have "settled (Disc_test q)" using calm_settled [OF assms(1), of t] assms(2) by simp
  moreover have "\<not> holds_r (s_pc s u)" for u
    using calm_exclusive [OF assms(1), of t u] assms(2) by (auto elim: holds_r.elims)
  moreover have "s_pc s u \<noteq> Wr_send x" for u x
    using calculation(2) [of u] by auto
  ultimately show ?thesis
    using assms unfolding calm_def chan_open_def by (auto split: if_splits)
qed

lemma calm_closes:
  assumes "calm s" "s_pc s t = Disc_close q"
  shows "calm (goto t (Emitting (Disc_unlock q)) (s\<lparr>s_chans := (s_chans s)[i := c]\<rparr>))"
proof -
  have *: "settled (Disc_close q)" using calm_settled [OF assms(1), of t] assms(2) by simp
  have off: "\<not> s_conn s" using calm_closing [OF assms(1), of t] assms(2) by simp
  have one: "closing (s_pc s u) \<Longrightarrow> u = t" for u
    using calm_exclusive [OF assms(1), of t u] assms(2) closing_holds by auto
  show ?thesis
    using assms * off one unfolding calm_def by (auto split: if_splits)
qed

lemma calm_never_sends_closed: "calm s \<Longrightarrow> s_pc s t = Wr_send (Some i) \<Longrightarrow> s_chans s ! i \<noteq> (n, True)"
  using calm_send [of s t "Some i"] calm_open [of s t] by (auto simp: chan_open_def)

lemma calm_never_closes_twice:
  "calm s \<Longrightarrow> s_pc s t = Disc_close q \<Longrightarrow> \<not> (case s_cur s of None \<Rightarrow> True | Some i \<Rightarrow> snd (s_chans s ! i))"
  using calm_open [of s t] by (auto simp: chan_open_def)

lemma calm_keeps:
  assumes "calm s" "step s s'"
  shows "calm s'"
  using assms(2)
proof cases
  case (send t i n)
  then have "calm (s\<lparr>s_chans := (s_chans s)[i := (Suc n, False)]\<rparr>)" using assms(1) by (intro calm_queue) auto
  then show ?thesis unfolding send(1) using send(2) by (intro calm_goto) auto
next
  case (loop_recv t i n b)
  then have "calm (s\<lparr>s_chans := (s_chans s)[i := (n, b)]\<rparr>)"
    using assms(1) by (intro calm_queue [where n = "Suc n"]) auto
  then show ?thesis unfolding loop_recv(1) by (intro calm_goto) auto
next
  case (emit t q)
  have "settled (Emitting q)" using calm_settled [OF assms(1), of t] emit(2) by simp
  then show ?thesis unfolding emit(1) using assms(1) emit(2) by (intro calm_goto) auto
next
  case (disc_done t q)
  have "settled (Disc_unlock q)" using calm_settled [OF assms(1), of t] disc_done(2) by simp
  then show ?thesis unfolding disc_done(1) using assms(1) disc_done(2) by (intro calm_goto) auto
next
  case (disc_locked t q)
  have "settled (Disc_lock q)" using calm_settled [OF assms(1), of t] disc_locked(2) by simp
  then show ?thesis unfolding disc_locked(1) using assms(1) disc_locked by (intro calm_lock) auto
next
  case (disc_off t q)
  have "settled (Disc_test q)" using calm_settled [OF assms(1), of t] disc_off(2) by simp
  then show ?thesis unfolding disc_off(1) using assms(1) disc_off(2) by (intro calm_goto) auto
next
  case (disc_on t q)
  then show ?thesis using assms(1) calm_disconnects by simp
next
  case (disc_close t q i n)
  then show ?thesis using assms(1) calm_closes by simp
next
  case (send_closed t i n)
  then show ?thesis using calm_never_sends_closed [OF assms(1)] by blast
next
  case (disc_close_again t q)
  then show ?thesis using calm_never_closes_twice [OF assms(1)] by blast
qed (use assms(1) in \<open>auto intro!: calm_goto calm_rlock\<close>)



section \<open>A reconnect that panics\<close>

text \<open>The states of the runs below: what goroutines 0, 1 and 2 do, the connection, its queue and the events.\<close>

definition trio :: "pc \<Rightarrow> pc \<Rightarrow> pc \<Rightarrow> bool \<Rightarrow> nat \<times> bool \<Rightarrow> nat \<Rightarrow> sys" where
  "trio p0 p1 p2 b ch e = \<lparr>s_pc = (\<lambda>t. if t = 0 then p0 else if t = 1 then p1 else if t = 2 then p2
     else if t < 100 then Idle else Unborn), s_conn = b, s_cur = Some 0, s_chans = [ch], s_events = e, s_panicked = False\<rparr>"

lemma trio_fields [simp]:
  "s_pc (trio p0 p1 p2 b ch e) 0 = p0" "s_pc (trio p0 p1 p2 b ch e) (Suc 0) = p1" "s_pc (trio p0 p1 p2 b ch e) 2 = p2"
  "s_conn (trio p0 p1 p2 b ch e) = b" "s_cur (trio p0 p1 p2 b ch e) = Some 0" "s_chans (trio p0 p1 p2 b ch e) = [ch]"
  "s_events (trio p0 p1 p2 b ch e) = e" "\<not> s_panicked (trio p0 p1 p2 b ch e)"
  by (simp_all add: trio_def)

lemma trio_goto [simp]:
  "goto 0 q (trio p0 p1 p2 b ch e) = trio q p1 p2 b ch e"
  "goto (Suc 0) q (trio p0 p1 p2 b ch e) = trio p0 q p2 b ch e"
  "goto 2 q (trio p0 p1 p2 b ch e) = trio p0 p1 q b ch e"
  by (auto simp: trio_def goto_def)

lemma trio_update [simp]:
  "(trio p0 p1 p2 b ch e)\<lparr>s_conn := b'\<rparr> = trio p0 p1 p2 b' ch e"
  "(trio p0 p1 p2 b ch e)\<lparr>s_chans := [ch']\<rparr> = trio p0 p1 p2 b ch' e"
  "(trio p0 p1 p2 b ch e)\<lparr>s_events := e'\<rparr> = trio p0 p1 p2 b ch e'"
  by (auto simp: trio_def)

lemma trio_all:
  "(\<forall>u. P (s_pc (trio p0 p1 p2 b ch e) u)) \<longleftrightarrow> P p0 \<and> P p1 \<and> P p2 \<and> P Idle \<and> P Unborn" (is "?L \<longleftrightarrow> ?R")
proof
  assume *: ?L
  have "s_pc (trio p0 p1 p2 b ch e) 3 = Idle" "s_pc (trio p0 p1 p2 b ch e) 100 = Unborn" by (simp_all add: trio_def)
  then show ?R using *[rule_format, of 0] *[rule_format, of 1] *[rule_format, of 2] *[rule_format, of 3]
    *[rule_format, of 100] by simp
qed (auto simp: trio_def)

lemma trio_locks [simp]:
  "may_read (trio p0 p1 p2 b ch e) \<longleftrightarrow> \<not> holds_w p0 \<and> \<not> holds_w p1 \<and> \<not> holds_w p2"
  "may_write (trio p0 p1 p2 b ch e) \<longleftrightarrow>
     \<not> holds_w p0 \<and> \<not> holds_w p1 \<and> \<not> holds_w p2 \<and> \<not> holds_r p0 \<and> \<not> holds_r p1 \<and> \<not> holds_r p2"
  unfolding may_read_def may_write_def trio_all [of "\<lambda>p. \<not> holds_w p"]
    trio_all [of "\<lambda>p. \<not> holds_w p \<and> \<not> holds_r p"] by auto

lemma connected_trio: "connected = trio Loop_top Idle Idle True (0, False) 0"
  by (auto simp: connected_def trio_def)

lemma run_step: "any_step\<^sup>*\<^sup>* s s1 \<Longrightarrow> step s1 s2 \<Longrightarrow> \<not> s_panicked s1 \<Longrightarrow> s2 = s3 \<Longrightarrow> any_step\<^sup>*\<^sup>* s s3"
  by (metis any_step_def rtranclp.rtrancl_into_rtrancl)

lemma run_connect: "any_step\<^sup>*\<^sup>* s s1 \<Longrightarrow> connect_step s1 s2 \<Longrightarrow> \<not> s_panicked s1 \<Longrightarrow> s2 = s3 \<Longrightarrow> any_step\<^sup>*\<^sup>* s s3"
  by (metis any_step_def rtranclp.rtrancl_into_rtrancl)

lemma race_run: "any_step\<^sup>*\<^sup>* connected (trio Loop_top Con_chan (Wr_send (Some 0)) True (0, True) 1)"
proof -
  let ?s = "\<lambda>p1 p2 b c e. any_step\<^sup>*\<^sup>* connected (trio Loop_top p1 p2 b (0, c) e)"
  have "?s Idle Idle True False 0" by (simp add: connected_trio)
  from run_connect [OF this connect_start [where t = 1]]
  have "?s (Disc_lock Con_conn) Idle True False 0" by simp
  from run_step [OF this disc_locked [where t = 1]]
  have "?s (Disc_test Con_conn) Idle True False 0" by simp
  from run_step [OF this disc_on [where t = 1]]
  have "?s (Disc_close Con_conn) Idle False False 0" by simp
  from run_step [OF this disc_close [where t = 1 and i = 0 and n = 0]]
  have "?s (Emitting (Disc_unlock Con_conn)) Idle False True 0" by simp
  from run_step [OF this emit [where t = 1]]
  have "?s (Disc_unlock Con_conn) Idle False True 1" by simp
  from run_step [OF this disc_done [where t = 1]]
  have "?s Con_conn Idle False True 1" by simp
  from run_connect [OF this set_conn [where t = 1]]
  have "?s Con_chan Idle True True 1" by simp
  from run_step [OF this write_start [where t = 2]]
  have "?s Con_chan Wr_locked True True 1" by simp
  from run_step [OF this write_on [where t = 2]]
  show ?thesis by simp
qed



section \<open>A write loop that never ends\<close>

text \<open>One complete write of goroutine 1.\<close>

lemma run_write:
  assumes "any_step\<^sup>*\<^sup>* connected (trio p0 Idle Idle True (n, False) e)" "\<not> holds_w p0" "n < 5"
  shows "any_step\<^sup>*\<^sup>* connected (trio p0 Idle Idle True (Suc n, False) e)"
proof -
  from run_step [OF assms(1) write_start [where t = 1]]
  have "any_step\<^sup>*\<^sup>* connected (trio p0 Wr_locked Idle True (n, False) e)" using assms(2) by simp
  from run_step [OF this write_on [where t = 1]]
  have "any_step\<^sup>*\<^sup>* connected (trio p0 (Wr_send (Some 0)) Idle True (n, False) e)" by simp
  from run_step [OF this send [where t = 1 and i = 0 and n = n]]
  have "any_step\<^sup>*\<^sup>* connected (trio p0 Wr_unlock Idle True (Suc n, False) e)" using assms(3) by simp
  from run_step [OF this write_done [where t = 1]]
  show ?thesis by simp
qed

lemma deadlock_run:
  "any_step\<^sup>*\<^sup>* connected (trio (Disc_lock Halted) (Wr_send (Some 0)) Idle True (5, False) 1)"
proof -
  let ?s = "\<lambda>p0 p1 n e. any_step\<^sup>*\<^sup>* connected (trio p0 p1 Idle True (n, False) e)"
  have "?s Loop_top Idle 0 0" by (simp add: connected_trio)
  from run_step [OF this loop_on [where t = 0]]
  have "?s (Loop_recv (Some 0)) Idle 0 0" by simp
  from run_write [OF this] have "?s (Loop_recv (Some 0)) Idle (Suc 0) 0" by simp
  from run_step [OF this loop_recv [where t = 0 and i = 0 and n = 0 and b = False]]
  have "?s Loop_msg Idle 0 0" by simp
  from run_write [OF run_write [OF run_write [OF run_write [OF run_write [OF this]]]]]
  have "?s Loop_msg Idle 5 0" by (simp add: eval_nat_numeral)
  from run_step [OF this write_start [where t = 1]]
  have "?s Loop_msg Wr_locked 5 0" by simp
  from run_step [OF this write_on [where t = 1]]
  have "?s Loop_msg (Wr_send (Some 0)) 5 0" by simp
  from run_step [OF this loop_failed [where t = 0]]
  have "?s (Emitting (Disc_lock Halted)) (Wr_send (Some 0)) 5 0" by simp
  from run_step [OF this emit [where t = 0]]
  show ?thesis by simp
qed

text \<open>What a goroutine can still do while the lock is held for reading and the queue is full.\<close>

fun harmless :: "pc \<Rightarrow> bool" where
  "harmless Wr_unlock = True"
| "harmless Wr_locked = True"
| "harmless (Wr_send x) = (x = Some 0)"
| "harmless Idle = True"
| "harmless Unborn = True"
| "harmless Halted = True"
| "harmless (Disc_lock _) = True"
| "harmless (Emitting q) = (q = Idle \<or> (\<exists>k. q = Disc_lock k))"
| "harmless _ = False"

definition jammed :: "sys \<Rightarrow> bool" where
  "jammed s \<longleftrightarrow> \<not> s_panicked s \<and> s_conn s \<and> s_cur s = Some 0 \<and> s_chans s \<noteq> [] \<and> s_chans s ! 0 = (5, False)
     \<and> s_pc s 0 = Disc_lock Halted \<and> s_pc s 1 = Wr_send (Some 0) \<and> (\<forall>t. harmless (s_pc s t))"

lemma jammed_lock: "jammed s \<Longrightarrow> \<not> may_write s"
  unfolding jammed_def may_write_def by (metis holds_r.simps(2))

lemma jammed_harmless: "jammed s \<Longrightarrow> harmless (s_pc s t)"
  by (simp add: jammed_def)

lemma jammed_goto: "jammed s \<Longrightarrow> t \<noteq> 0 \<Longrightarrow> t \<noteq> 1 \<Longrightarrow> harmless q \<Longrightarrow> jammed (goto t q s)"
  by (simp add: jammed_def)

lemma jammed_events [simp]: "jammed (s\<lparr>s_events := k\<rparr>) = jammed s"
  by (simp add: jammed_def)

lemma jammed_threads: "jammed s \<Longrightarrow> s_pc s t \<noteq> Disc_lock Halted \<Longrightarrow> s_pc s t \<noteq> Wr_send (Some 0) \<Longrightarrow> t \<noteq> 0 \<and> t \<noteq> 1"
  unfolding jammed_def by metis

lemma jammed_step:
  assumes "jammed s" "step s s'"
  shows "jammed s'"
proof -
  note free = jammed_harmless [OF assms(1)] jammed_threads [OF assms(1)]
  have facts: "s_conn s" "s_cur s = Some 0" "s_chans s ! 0 = (5, False)" using assms(1) by (simp_all add: jammed_def)
  have go: "jammed (goto t q s)" if "s_pc s t = p" "p \<noteq> Disc_lock Halted" "p \<noteq> Wr_send (Some 0)" "harmless q" for t p q
    using jammed_goto [OF assms(1)] free(2) [of t] that by simp
  from assms(2) show ?thesis
  proof cases
    case (emit t q)
    have "harmless q" using emit(2) free(1) [of t] by auto
    moreover have "t \<noteq> 0 \<and> t \<noteq> 1" using free(2) [of t] emit(2) by simp
    moreover have "jammed (s\<lparr>s_events := Suc (s_events s)\<rparr>)" using assms(1) by simp
    ultimately show ?thesis unfolding emit(1) by (intro jammed_goto) auto
  next
    case (write_start t)
    then show ?thesis using go [OF write_start(2)] by simp
  next
    case (write_on t)
    then show ?thesis using go [OF write_on(2)] facts by simp
  next
    case (send t i n)
    then show ?thesis using free(1) [of t] facts by simp
  next
    case (send_closed t i n)
    then show ?thesis using free(1) [of t] facts by simp
  next
    case (write_done t)
    then show ?thesis using go [OF write_done(2)] by simp
  next
    case (emit_start t)
    then show ?thesis using go [OF emit_start(2)] by simp
  next
    case (fatal_start t)
    then show ?thesis using go [OF fatal_start(2)] by simp
  next
    case (disc_start t)
    then show ?thesis using go [OF disc_start(2)] by simp
  next
    case (disc_locked t q)
    then show ?thesis using jammed_lock [OF assms(1)] by simp
  next
    case read_event
    then show ?thesis using assms(1) by simp
  qed (use facts free(1) in \<open>metis harmless.simps\<close>)+
qed

lemma jammed_connect_step:
  assumes "jammed s" "connect_step s s'"
  shows "jammed s'"
  using assms(2)
proof cases
  case (connect_start t)
  then show ?thesis using jammed_goto [OF assms(1)] jammed_threads [OF assms(1), of t] by simp
qed (use jammed_harmless [OF assms(1)] in \<open>metis harmless.simps\<close>)+

text \<open>Goroutine \<open>t\<close> never moves again, whatever the others do.\<close>

definition stuck :: "nat \<Rightarrow> sys \<Rightarrow> bool" where
  "stuck t s \<longleftrightarrow> (\<forall>s'. any_step\<^sup>*\<^sup>* s s' \<longrightarrow> s_pc s' t = s_pc s t)"

lemma jammed_stuck: "jammed s \<Longrightarrow> stuck 0 s \<and> stuck 1 s"
proof -
  assume j: "jammed s"
  have "jammed s'" if "any_step\<^sup>*\<^sup>* s s'" for s'
    using that j by induction (auto simp: any_step_def dest: jammed_step jammed_connect_step)
  then show ?thesis using j unfolding stuck_def jammed_def by metis
qed

text \<open>
  C7: \<open>Write\<close> waits for room in the queue while it holds the mutex for reading. A failed write makes the only goroutine
  that empties the queue wait for the same mutex in \<open>Disconnect\<close>: with a full queue the writer and the write loop wait
  for each other for ever, whatever every other goroutine and the reader of the events do.
\<close>

theorem write_loop_deadlock:
  "\<exists>s. any_step\<^sup>*\<^sup>* connected s \<and> s_pc s 0 = Disc_lock Halted \<and> s_pc s 1 = Wr_send (Some 0) \<and> s_conn s
     \<and> stuck 0 s \<and> stuck 1 s"
proof -
  let ?s = "trio (Disc_lock Halted) (Wr_send (Some 0)) Idle True (5, False) 1"
  have "jammed ?s" by (simp add: jammed_def trio_def)
  then show ?thesis using deadlock_run jammed_stuck [of ?s] by (intro exI [of _ ?s]) simp
qed

text \<open>A run with one write, on which the absence of panics is applied.\<close>

lemma calm_run: "calm_step\<^sup>*\<^sup>* connected (goto 1 Wr_locked connected)"
  using step.write_start [of connected 1] by (intro r_into_rtranclp) (simp add: calm_step_def connected_trio)


end
