(* ===== verification/Client_Loops.thy ===== *)
theory Client_Loops
  imports "HOL-Library.Sublist"
begin

text \<open>
  The loops of \<open>client.go\<close> and the connections they work for. \<open>readLoop\<close> and \<open>writeLoop\<close> look at \<open>c.conn\<close> and \<open>c.writeChan\<close> anew in
  every round, so that a loop started for one connection can meet the next one. Connections and queues are numbered in the
  order in which \<open>ConnectTo\<close> opens them, and the loops by the connection they were started for. A step is what a goroutine does
  between two looks at what it shares with others; what happens with the mutex held is one step. What panics is no step here:
  theory Client_Concurrency is about panics and about the mutex.
\<close>

section \<open>The state\<close>

datatype reading = R_top | R_read nat | R_fatal | R_disc | R_done

datatype 'm writing = W_top | W_conn nat | W_recv nat nat | W_msg nat 'm | W_fatal | W_disc | W_done

datatype connecting = C_idle | C_dial | C_chan

text \<open>
  \<open>l_accepted\<close> and \<open>l_sent\<close> record what \<open>Write\<close> has put into a queue and what a connection has carried, in order; \<open>l_fatal\<close> counts
  the fatal errors the user has been told of.
\<close>

record 'm loops =
  l_conn :: "nat option"
  l_chan :: "nat option"
  l_count :: nat
  l_user :: connecting
  l_closed :: "nat \<Rightarrow> bool"
  l_queue :: "nat \<Rightarrow> 'm list"
  l_shut :: "nat \<Rightarrow> bool"
  l_reader :: "nat \<Rightarrow> reading"
  l_writer :: "nat \<Rightarrow> 'm writing"
  l_accepted :: "nat \<Rightarrow> 'm list"
  l_sent :: "nat \<Rightarrow> 'm list"
  l_fatal :: nat

definition no_loops :: "'m loops" where
  "no_loops = \<lparr>l_conn = None, l_chan = None, l_count = 0, l_user = C_idle, l_closed = (\<lambda>_. False), l_queue = (\<lambda>_. []),
     l_shut = (\<lambda>_. True), l_reader = (\<lambda>_. R_done), l_writer = (\<lambda>_. W_done), l_accepted = (\<lambda>_. []), l_sent = (\<lambda>_. []),
     l_fatal = 0\<rparr>"

section \<open>Steps\<close>

text \<open>\<open>Disconnect\<close>: closing a queue again panics.\<close>

definition l_Disconnect :: "'m loops \<Rightarrow> 'm loops option" where
  "l_Disconnect s = (case l_conn s of
       None \<Rightarrow> Some s
     | Some k \<Rightarrow> (case l_chan s of
           None \<Rightarrow> None
         | Some q \<Rightarrow>
             if l_shut s q then None
             else Some (s\<lparr>l_closed := (l_closed s)(k := True), l_conn := None, l_shut := (l_shut s)(q := True)\<rparr>)))"

text \<open>\<open>Write\<close>: a message for a client without a connection is dropped; the queue holds five.\<close>

definition l_Write :: "'m \<Rightarrow> 'm loops \<Rightarrow> 'm loops option" where
  "l_Write m s = (case l_conn s of
       None \<Rightarrow> Some s
     | Some k \<Rightarrow> (case l_chan s of
           None \<Rightarrow> None
         | Some q \<Rightarrow>
             if l_shut s q \<or> length (l_queue s q) \<ge> 5 then None
             else Some (s\<lparr>l_queue := (l_queue s)(q := l_queue s q @ [m]),
                          l_accepted := (l_accepted s)(q := l_accepted s q @ [m])\<rparr>)))"

definition l_reads :: "nat \<Rightarrow> reading \<Rightarrow> 'm loops \<Rightarrow> 'm loops" where
  "l_reads g p s = s\<lparr>l_reader := (l_reader s)(g := p)\<rparr>"

definition l_writes :: "nat \<Rightarrow> 'm writing \<Rightarrow> 'm loops \<Rightarrow> 'm loops" where
  "l_writes g p s = s\<lparr>l_writer := (l_writer s)(g := p)\<rparr>"

definition l_Emit_fatal :: "'m loops \<Rightarrow> 'm loops" where
  "l_Emit_fatal s = s\<lparr>l_fatal := Suc (l_fatal s)\<rparr>"

text \<open>\<open>readLoop\<close>: reading from a connection that was closed fails, from an open one it waits for the network.\<close>

definition l_readLoop :: "nat \<Rightarrow> 'm loops \<Rightarrow> 'm loops option" where
  "l_readLoop g s = (case l_reader s g of
       R_top \<Rightarrow> Some (l_reads g (case l_conn s of None \<Rightarrow> R_done | Some k \<Rightarrow> R_read k) s)
     | R_read k \<Rightarrow> if l_closed s k then Some (l_reads g R_fatal s) else None
     | R_fatal \<Rightarrow> Some (l_reads g R_disc (l_Emit_fatal s))
     | R_disc \<Rightarrow> map_option (l_reads g R_done) (l_Disconnect s)
     | R_done \<Rightarrow> None)"

text \<open>The network lets \<open>Read\<close> return: with a packet, which is handled before the loop goes on, or with an error.\<close>

definition l_received :: "bool \<Rightarrow> nat \<Rightarrow> 'm loops \<Rightarrow> 'm loops option" where
  "l_received ok g s = (case l_reader s g of
       R_read k \<Rightarrow> if l_closed s k then None else Some (l_reads g (if ok then R_top else R_fatal) s)
     | _ \<Rightarrow> None)"

text \<open>
  \<open>writeLoop\<close>: the connection is looked up first and the queue after that, without the mutex. A closed queue is emptied before
  its end is seen.
\<close>

definition l_writeLoop :: "nat \<Rightarrow> 'm loops \<Rightarrow> 'm loops option" where
  "l_writeLoop g s = (case l_writer s g of
       W_top \<Rightarrow> Some (l_writes g (case l_conn s of None \<Rightarrow> W_done | Some k \<Rightarrow> W_conn k) s)
     | W_conn k \<Rightarrow> (case l_chan s of None \<Rightarrow> None | Some q \<Rightarrow> Some (l_writes g (W_recv k q) s))
     | W_recv k q \<Rightarrow> (case l_queue s q of
           m # ms \<Rightarrow> Some (l_writes g (W_msg k m) (s\<lparr>l_queue := (l_queue s)(q := ms)\<rparr>))
         | [] \<Rightarrow> if l_shut s q then Some (l_writes g W_done s) else None)
     | W_msg k m \<Rightarrow>
         if l_closed s k then Some (l_writes g W_fatal s)
         else Some (l_writes g W_top (s\<lparr>l_sent := (l_sent s)(k := l_sent s k @ [m])\<rparr>))
     | W_fatal \<Rightarrow> Some (l_writes g W_disc (l_Emit_fatal s))
     | W_disc \<Rightarrow> map_option (l_writes g W_done) (l_Disconnect s)
     | W_done \<Rightarrow> None)"

text \<open>The network, or the message itself, lets \<open>Write\<close> or \<open>Serialize\<close> fail.\<close>

definition l_refused :: "nat \<Rightarrow> 'm loops \<Rightarrow> 'm loops option" where
  "l_refused g s = (case l_writer s g of W_msg k m \<Rightarrow> Some (l_writes g W_fatal s) | _ \<Rightarrow> None)"

text \<open>
  \<open>ConnectToBind\<close> and \<open>ConnectToWebSocket\<close>, called by one goroutine at a time: disconnect, dial, set \<open>c.conn\<close>, set \<open>c.writeChan\<close>, start
  the loops.
\<close>

definition l_connect :: "'m loops \<Rightarrow> 'm loops option" where
  "l_connect s = (if l_user s = C_idle then map_option (\<lambda>s. s\<lparr>l_user := C_dial\<rparr>) (l_Disconnect s) else None)"

definition l_dialled :: "'m loops \<Rightarrow> 'm loops option" where
  "l_dialled s = (if l_user s = C_dial then Some (s\<lparr>l_conn := Some (l_count s), l_user := C_chan\<rparr>) else None)"

definition l_undialled :: "'m loops \<Rightarrow> 'm loops option" where
  "l_undialled s =
     (if l_user s = C_dial then map_option (\<lambda>s. s\<lparr>l_user := C_idle\<rparr>) (l_Disconnect (l_Emit_fatal s)) else None)"

definition l_start :: "'m loops \<Rightarrow> 'm loops option" where
  "l_start s =
     (if l_user s = C_chan then Some (s\<lparr>l_chan := Some (l_count s), l_shut := (l_shut s)(l_count s := False),
        l_reader := (l_reader s)(l_count s := R_top), l_writer := (l_writer s)(l_count s := W_top),
        l_count := Suc (l_count s), l_user := C_idle\<rparr>)
      else None)"

datatype 'm loop_action =
    Do_Write 'm
  | Do_Disconnect
  | Do_connect
  | Dialled
  | Undialled
  | Started
  | Reads nat
  | Received bool nat
  | Writes nat
  | Refused nat

fun act :: "'m loop_action \<Rightarrow> 'm loops \<Rightarrow> 'm loops option" where
  "act (Do_Write m) s = l_Write m s"
| "act Do_Disconnect s = l_Disconnect s"
| "act Do_connect s = l_connect s"
| "act Dialled s = l_dialled s"
| "act Undialled s = l_undialled s"
| "act Started s = l_start s"
| "act (Reads g) s = l_readLoop g s"
| "act (Received ok g) s = l_received ok g s"
| "act (Writes g) s = l_writeLoop g s"
| "act (Refused g) s = l_refused g s"

fun acts :: "'m loop_action list \<Rightarrow> 'm loops \<Rightarrow> 'm loops option" where
  "acts [] s = Some s"
| "acts (a # as) s = (case act a s of None \<Rightarrow> None | Some s' \<Rightarrow> acts as s')"

lemmas loop_defs = l_Disconnect_def l_Write_def l_reads_def l_writes_def l_Emit_fatal_def l_readLoop_def l_received_def
  l_writeLoop_def l_refused_def l_connect_def l_dialled_def l_undialled_def l_start_def

section \<open>Reconnecting after the loops have ended\<close>

definition all_ended :: "'m loops \<Rightarrow> bool" where
  "all_ended s \<longleftrightarrow> (\<forall>g \<in> {..<l_count s}. l_reader s g = R_done \<and> l_writer s g = W_done)"

text \<open>A run in which a connection is opened only when the loops of those before it have ended.\<close>

fun orderly :: "'m loop_action list \<Rightarrow> 'm loops \<Rightarrow> bool" where
  "orderly [] s = True"
| "orderly (a # as) s \<longleftrightarrow>
     (case a of Dialled \<Rightarrow> all_ended s | _ \<Rightarrow> True) \<and> (case act a s of None \<Rightarrow> True | Some s' \<Rightarrow> orderly as s')"

fun own_read :: "nat \<Rightarrow> reading \<Rightarrow> bool" where
  "own_read g (R_read k) = (k = g)"
| "own_read g _ = True"

fun own_write :: "nat \<Rightarrow> 'm writing \<Rightarrow> bool" where
  "own_write g (W_conn k) = (k = g)"
| "own_write g (W_recv k q) = (k = g \<and> q = g)"
| "own_write g (W_msg k m) = (k = g)"
| "own_write g _ = True"

text \<open>Every loop works for its own connection, only those of the latest are left, and only its queue can be open.\<close>

definition own_loops :: "'m loops \<Rightarrow> bool" where
  "own_loops s \<longleftrightarrow>
     (\<forall>g. own_read g (l_reader s g) \<and> own_write g (l_writer s g))
   \<and> (\<forall>g. l_user s = C_chan \<or> Suc g \<noteq> l_count s \<longrightarrow> l_reader s g = R_done \<and> l_writer s g = W_done)
   \<and> l_chan s = (case l_count s of 0 \<Rightarrow> None | Suc n \<Rightarrow> Some n)
   \<and> (if l_user s = C_chan then l_conn s = Some (l_count s) else \<forall>k. l_conn s = Some k \<longrightarrow> Suc k = l_count s)
   \<and> (l_user s = C_dial \<longrightarrow> l_conn s = None)
   \<and> (\<forall>q. \<not> l_shut s q \<longrightarrow> q < l_count s \<and> l_conn s = Some q)"

fun on_way :: "'m writing \<Rightarrow> 'm list" where
  "on_way (W_msg k m) = [m]"
| "on_way _ = []"

fun given_up :: "'m writing \<Rightarrow> bool" where
  "given_up W_fatal = True"
| "given_up W_disc = True"
| "given_up W_done = True"
| "given_up _ = False"

definition in_order :: "'m loops \<Rightarrow> bool" where
  "in_order s \<longleftrightarrow> (\<forall>g. prefix (l_sent s g) (l_accepted s g)
     \<and> (given_up (l_writer s g) \<or> l_accepted s g = l_sent s g @ on_way (l_writer s g) @ l_queue s g)
     \<and> (l_count s \<le> g \<longrightarrow> l_accepted s g = [] \<and> l_queue s g = []))"

lemma own_loops_start: "own_loops no_loops"
  by (simp add: own_loops_def no_loops_def)

lemma in_order_start: "in_order no_loops"
  by (simp add: in_order_def no_loops_def)

lemma own_loops_closes:
  assumes "own_loops s" "l_Disconnect s = Some s'"
  shows "own_loops s'"
proof (cases "l_conn s")
  case None
  then show ?thesis using assms by (simp add: l_Disconnect_def)
next
  case (Some k)
  then obtain q where q: "\<not> l_shut s q"
    "s' = s\<lparr>l_closed := (l_closed s)(k := True), l_conn := None, l_shut := (l_shut s)(q := True)\<rparr>"
    using assms(2) by (auto simp: l_Disconnect_def split: option.splits if_splits)
  then have "l_shut s' q'" "l_user s \<noteq> C_chan" for q'
    using assms(1) Some by (auto simp: own_loops_def)
  then show ?thesis using assms(1) q(2) by (simp add: own_loops_def)
qed

lemma own_loops_reads:
  assumes "own_loops s" "own_read g p" "p = R_done \<or> l_reader s g \<noteq> R_done"
  shows "own_loops (l_reads g p s)"
  using assms by (auto simp: own_loops_def l_reads_def)

lemma own_loops_writes:
  assumes "own_loops s" "own_write g p" "p = W_done \<or> l_writer s g \<noteq> W_done"
  shows "own_loops (l_writes g p s)"
  using assms by (auto simp: own_loops_def l_writes_def)

lemma own_loops_same:
  assumes "own_loops s"
  shows "own_loops (s\<lparr>l_fatal := n\<rparr>)" "own_loops (s\<lparr>l_queue := b\<rparr>)" "own_loops (s\<lparr>l_accepted := b\<rparr>)"
    "own_loops (s\<lparr>l_sent := b\<rparr>)"
  using assms by (simp_all add: own_loops_def)

text \<open>A loop that runs belongs to the latest connection.\<close>

lemma own_loops_latest:
  assumes "own_loops s" "l_reader s g \<noteq> R_done \<or> l_writer s g \<noteq> W_done"
  shows "l_count s = Suc g" "l_user s \<noteq> C_chan" "l_chan s = Some g" "l_conn s = Some k \<Longrightarrow> k = g"
  using assms by (auto simp: own_loops_def split: nat.splits if_splits)

lemma own_loops_own: "own_loops s \<Longrightarrow> own_read g (l_reader s g) \<and> own_write g (l_writer s g)"
  by (simp add: own_loops_def)

lemma own_loops_ended: "own_loops s \<Longrightarrow> all_ended s \<Longrightarrow> l_reader s g = R_done \<and> l_writer s g = W_done"
  by (cases "Suc g = l_count s") (auto simp: own_loops_def all_ended_def)

lemma own_loops_Write: "own_loops s \<Longrightarrow> l_Write m s = Some s' \<Longrightarrow> own_loops s'"
  by (auto simp: l_Write_def own_loops_same split: option.splits if_splits)

lemma Disconnect_loops: "l_Disconnect s = Some s' \<Longrightarrow> l_reader s' = l_reader s \<and> l_writer s' = l_writer s"
  by (auto simp: l_Disconnect_def split: option.splits if_splits)

lemma own_loops_readLoop:
  assumes "own_loops s" "l_readLoop g s = Some s'"
  shows "own_loops s'"
proof (cases "l_reader s g")
  case R_top
  then show ?thesis
    using assms own_loops_latest [OF assms(1), of g] by (auto simp: l_readLoop_def own_loops_reads split: option.splits)
next
  case R_disc
  then obtain d where "l_Disconnect s = Some d" "s' = l_reads g R_done d" using assms(2) by (auto simp: l_readLoop_def)
  then show ?thesis using own_loops_closes [OF assms(1)] by (simp add: own_loops_reads)
qed (use assms in \<open>auto simp: l_readLoop_def own_loops_reads own_loops_same l_Emit_fatal_def split: if_splits\<close>)

lemma own_loops_received: "own_loops s \<Longrightarrow> l_received ok g s = Some s' \<Longrightarrow> own_loops s'"
  by (auto simp: l_received_def own_loops_reads split: reading.splits if_splits)

lemma own_loops_refused: "own_loops s \<Longrightarrow> l_refused g s = Some s' \<Longrightarrow> own_loops s'"
  by (auto simp: l_refused_def own_loops_writes split: writing.splits)

lemma own_loops_writeLoop:
  assumes "own_loops s" "l_writeLoop g s = Some s'"
  shows "own_loops s'"
proof (cases "l_writer s g")
  case W_disc
  then obtain d where "l_Disconnect s = Some d" "s' = l_writes g W_done d" using assms(2) by (auto simp: l_writeLoop_def)
  then show ?thesis using own_loops_closes [OF assms(1)] by (simp add: own_loops_writes)
next
  case (W_conn k)
  then have "k = g" "l_chan s = Some g"
    using own_loops_own [OF assms(1), of g] own_loops_latest [OF assms(1), of g] by simp_all
  then show ?thesis using assms W_conn by (auto simp: l_writeLoop_def own_loops_writes)
next
  case (W_recv k q)
  then have "k = g" using own_loops_own [OF assms(1), of g] by simp
  then show ?thesis using assms W_recv
    by (auto simp: l_writeLoop_def own_loops_writes own_loops_same split: list.splits if_splits)
qed (use assms own_loops_latest [OF assms(1), of g] in
      \<open>auto simp: l_writeLoop_def own_loops_writes own_loops_same l_Emit_fatal_def split: option.splits if_splits\<close>)

lemma own_loops_connecting:
  assumes "own_loops s"
  shows "l_connect s = Some s' \<Longrightarrow> own_loops s'" "l_undialled s = Some s' \<Longrightarrow> own_loops s'"
    "l_start s = Some s' \<Longrightarrow> own_loops s'" "l_dialled s = Some s' \<Longrightarrow> all_ended s \<Longrightarrow> own_loops s'"
proof -
  have user: "own_loops (d\<lparr>l_user := u\<rparr>)" if "own_loops d" "l_user d \<noteq> C_chan" "u \<noteq> C_chan" "u = C_dial \<Longrightarrow> l_conn d = None" for d u
    using that by (auto simp: own_loops_def)
  have gone: "l_conn d = None \<and> l_user d = l_user r" if "l_Disconnect r = Some d" for r d :: "'a loops"
    using that by (auto simp: l_Disconnect_def split: option.splits if_splits)
  show "l_connect s = Some s' \<Longrightarrow> own_loops s'"
    using own_loops_closes [OF assms] gone by (auto simp: l_connect_def intro!: user split: if_splits)
  show "l_undialled s = Some s' \<Longrightarrow> own_loops s'"
    using own_loops_closes [OF own_loops_same(1) [OF assms]] gone
    by (fastforce simp: l_undialled_def l_Emit_fatal_def intro!: user split: if_splits)
  show "l_start s = Some s' \<Longrightarrow> own_loops s'"
    using assms by (auto simp: l_start_def own_loops_def split: if_splits)
  show "l_dialled s = Some s' \<Longrightarrow> all_ended s \<Longrightarrow> own_loops s'"
    using assms own_loops_ended [OF assms] by (auto simp: l_dialled_def own_loops_def split: if_splits)
qed

lemma own_loops_act:
  assumes "own_loops s" "act a s = Some s'" "a = Dialled \<Longrightarrow> all_ended s"
  shows "own_loops s'"
proof (cases a)
  case (Do_Write m)
  then show ?thesis using own_loops_Write [OF assms(1)] assms(2) by simp
next
  case (Reads g)
  then show ?thesis using own_loops_readLoop [OF assms(1)] assms(2) by simp
next
  case (Writes g)
  then show ?thesis using own_loops_writeLoop [OF assms(1)] assms(2) by simp
next
  case (Received ok g)
  then show ?thesis using own_loops_received [OF assms(1)] assms(2) by simp
next
  case (Refused g)
  then show ?thesis using own_loops_refused [OF assms(1)] assms(2) by simp
qed (use own_loops_closes [OF assms(1)] own_loops_connecting [OF assms(1)] assms in simp_all)

text \<open>What no step of a kind changes of the messages.\<close>

lemma in_order_same:
  "in_order (s\<lparr>l_user := u\<rparr>) = in_order s" "in_order (s\<lparr>l_conn := c\<rparr>) = in_order s" "in_order (s\<lparr>l_closed := f\<rparr>) = in_order s"
  "in_order (s\<lparr>l_shut := f\<rparr>) = in_order s" "in_order (s\<lparr>l_fatal := n\<rparr>) = in_order s" "in_order (l_reads g p s) = in_order s"
  by (simp_all add: in_order_def l_reads_def)

lemma in_order_writes:
  assumes "in_order s" "given_up p \<or> \<not> given_up (l_writer s g) \<and> on_way p = on_way (l_writer s g)"
  shows "in_order (l_writes g p s)"
  using assms by (auto simp: in_order_def l_writes_def)

lemma in_order_closes: "in_order s \<Longrightarrow> l_Disconnect s = Some s' \<Longrightarrow> in_order s'"
  by (auto simp: l_Disconnect_def in_order_same split: option.splits if_splits)

lemma in_order_Write: "own_loops s \<Longrightarrow> in_order s \<Longrightarrow> l_Write m s = Some s' \<Longrightarrow> in_order s'"
  by (auto simp: l_Write_def in_order_def own_loops_def prefix_append split: option.splits if_splits)

lemma in_order_readLoop: "in_order s \<Longrightarrow> l_readLoop g s = Some s' \<Longrightarrow> in_order s'"
  by (auto simp: l_readLoop_def l_Emit_fatal_def in_order_same dest: in_order_closes split: reading.splits if_splits)

lemma in_order_writeLoop:
  assumes "own_loops s" "in_order s" "l_writeLoop g s = Some s'"
  shows "in_order s'"
proof (cases "l_writer s g")
  case (W_recv k q)
  then have "q = g" "k = g" "l_count s = Suc g"
    using own_loops_own [OF assms(1), of g] own_loops_latest [OF assms(1), of g] by simp_all
  then show ?thesis using assms(2,3) W_recv
    by (auto simp: l_writeLoop_def in_order_def l_writes_def split: list.splits if_splits)
next
  case (W_msg k m)
  then have "k = g" using own_loops_own [OF assms(1), of g] by simp
  moreover have "l_accepted s g = (l_sent s g @ [m]) @ l_queue s g"
    using assms(2) W_msg by (auto simp: in_order_def dest: spec [of _ g])
  then have "prefix (l_sent s g @ [m]) (l_accepted s g)" by (rule prefixI)
  ultimately show ?thesis using assms(2,3) W_msg
    by (auto simp: l_writeLoop_def in_order_def l_writes_def split: if_splits)
next
  case W_disc
  then show ?thesis using assms(2,3) by (auto simp: l_writeLoop_def intro!: in_order_writes dest: in_order_closes)
qed (use assms in \<open>auto simp: l_writeLoop_def in_order_same l_Emit_fatal_def intro!: in_order_writes split: option.splits\<close>)

lemma in_order_act:
  assumes "own_loops s" "in_order s" "act a s = Some s'"
  shows "in_order s'"
proof (cases a)
  case (Do_Write m)
  then show ?thesis using in_order_Write [OF assms(1,2)] assms(3) by simp
next
  case (Reads g)
  then show ?thesis using in_order_readLoop [OF assms(2)] assms(3) by simp
next
  case (Writes g)
  then show ?thesis using in_order_writeLoop [OF assms(1,2)] assms(3) by simp
next
  case (Received ok g)
  then show ?thesis using assms(2,3)
    by (auto simp: l_received_def in_order_same split: reading.splits if_splits)
next
  case (Refused g)
  then show ?thesis using assms(2,3) by (auto simp: l_refused_def intro: in_order_writes split: writing.splits)
next
  case Started
  then show ?thesis using assms by (auto simp: l_start_def in_order_def own_loops_def split: if_splits)
next
  case Dialled
  then show ?thesis using assms(2,3) by (auto simp: l_dialled_def in_order_same split: if_splits)
next
  case Undialled
  have "in_order (l_Emit_fatal s)" using assms(2) by (simp add: in_order_same l_Emit_fatal_def)
  with Undialled show ?thesis using assms(3) in_order_closes [of "l_Emit_fatal s"]
    by (auto simp: l_undialled_def in_order_same split: if_splits)
next
  case Do_connect
  then show ?thesis using assms(2,3)
    by (auto simp: l_connect_def in_order_same dest: in_order_closes split: if_splits)
qed (use in_order_closes [OF assms(2)] assms(3) in simp)

lemma orderly_run:
  "orderly as s \<Longrightarrow> acts as s = Some s' \<Longrightarrow> own_loops s \<Longrightarrow> in_order s \<Longrightarrow> own_loops s' \<and> in_order s'"
proof (induction as arbitrary: s)
  case (Cons a as)
  then obtain d where d: "act a s = Some d" "orderly as d" "acts as d = Some s'"
    by (auto split: option.splits)
  moreover have "a = Dialled \<Longrightarrow> all_ended s" using Cons.prems(1) by auto
  ultimately have "own_loops d" "in_order d"
    using Cons.prems own_loops_act [OF _ d(1)] in_order_act [OF _ _ d(1)] by auto
  then show ?case using Cons.IH [OF d(2,3)] by simp
qed simp

text \<open>
  C10: if the loops of a connection have ended before the next one is opened, then each connection carries the messages that were
  written while it was the client's, in that order and without gaps from the first on; every loop reads and writes only the
  connection it was started for, and those of earlier connections are gone.\<close>

theorem orderly_reconnects_keep_order:
  assumes "orderly as no_loops" "acts as no_loops = Some s"
  shows "prefix (l_sent s g) (l_accepted s g) \<and> own_read g (l_reader s g) \<and> own_write g (l_writer s g) \<and>
    (Suc g < l_count s \<longrightarrow> l_reader s g = R_done \<and> l_writer s g = W_done)"
  using orderly_run [OF assms own_loops_start in_order_start] by (simp add: own_loops_def in_order_def)

section \<open>Reconnecting before they have\<close>

definition connects :: "'m loop_action list" where
  "connects = [Do_connect, Dialled, Started]"

text \<open>One message on each of two connections, the second after the loops of the first have ended.\<close>

theorem orderly_reconnects_keep_order_witness:
  "let as = connects @ [Do_Write 1] @ replicate 4 (Writes 0) @ [Reads 0, Do_Disconnect] @ replicate 3 (Reads 0) @ [Writes 0] @
       connects @ [Do_Write 2] @ replicate 4 (Writes 1) in
     acts as no_loops \<noteq> None \<and> prefix (l_sent (the (acts as no_loops)) 1) [2 :: nat] \<and> l_sent (the (acts as no_loops)) 1 = [2]"
proof -
  let ?as = "connects @ [Do_Write 1] @ replicate 4 (Writes 0) @ [Reads 0, Do_Disconnect] @ replicate 3 (Reads 0) @ [Writes 0] @
       connects @ [Do_Write 2] @ replicate 4 (Writes (1 :: nat))"
  have o: "orderly ?as (no_loops :: nat loops)"
    by (simp add: connects_def no_loops_def loop_defs numeral_eq_Suc all_ended_def)
  obtain s :: "nat loops" where s: "acts ?as no_loops = Some s" "l_accepted s 1 = [2]" "l_sent s 1 = [2]"
    by (simp add: connects_def no_loops_def loop_defs numeral_eq_Suc)
  from orderly_reconnects_keep_order [OF o s(1), of 1] s show ?thesis by (simp add: Let_def)
qed

text \<open>
  C11: a read loop that finds its connection closed calls \<open>Disconnect\<close>, which closes whatever the client's connection is by then: a
  reconnect alone can end the new connection, and reports a fatal error, although no network fails and nobody disconnects.\<close>

theorem stale_loop_ends_the_next_connection:
  "\<exists>as (s :: nat loops). acts as no_loops = Some s \<and>
     set as \<inter> ({Do_Disconnect, Undialled} \<union> range Refused \<union> range (case_prod Received)) = {} \<and>
     l_count s = 2 \<and> l_conn s = None \<and> l_closed s 1 \<and> l_fatal s = 1 \<and> l_reader s 1 = R_read 1"
proof -
  let ?as = "connects @ [Reads 0] @ connects @ [Reads 1, Reads 0, Reads 0, Reads 0]"
  show ?thesis
    by (rule exI [of _ ?as]) (auto simp: connects_def no_loops_def loop_defs)
qed

text \<open>
  C12: a write loop that comes back to the top after a reconnect serves the new connection beside the new write loop: two goroutines
  then write to one connection at a time, and messages overtake each other.\<close>

theorem two_write_loops_overtake:
  "\<exists>as bs (s :: nat loops) s'. acts as no_loops = Some s \<and> l_writer s 0 = W_msg 1 7 \<and> l_writer s 1 = W_msg 1 8 \<and>
     acts bs s = Some s' \<and> l_accepted s' 1 = [7, 8] \<and> l_sent s' 1 = [8, 7]"
proof -
  let ?as = "connects @ connects @ [Writes 0, Writes 0, Writes 1, Writes 1, Do_Write 7, Do_Write 8, Writes 0, Writes (1 :: nat)]"
  have "\<exists>(s :: nat loops) s'. acts ?as no_loops = Some s \<and> l_writer s 0 = W_msg 1 7 \<and> l_writer s 1 = W_msg 1 8 \<and>
     acts [Writes 1, Writes 0] s = Some s' \<and> l_accepted s' 1 = [7, 8] \<and> l_sent s' 1 = [8, 7]"
    by (simp add: connects_def no_loops_def loop_defs)
  then show ?thesis by blast
qed

section \<open>Every loop ends\<close>

text \<open>How many connections there are: one more than loops have been started for, between the two assignments.\<close>

definition opened_conns :: "'m loops \<Rightarrow> nat" where
  "opened_conns s = l_count s + (if l_user s = C_chan then 1 else 0)"

fun read_bound :: "nat \<Rightarrow> reading \<Rightarrow> bool" where
  "read_bound n (R_read k) = (k < n)"
| "read_bound n _ = True"

fun write_bound :: "nat \<Rightarrow> nat \<Rightarrow> 'm writing \<Rightarrow> bool" where
  "write_bound n c (W_conn k) = (k < n)"
| "write_bound n c (W_recv k q) = (k < n \<and> q < c)"
| "write_bound n c (W_msg k m) = (k < n)"
| "write_bound n c _ = True"

text \<open>In every run at most the client's connection and its queue are open.\<close>

definition one_open :: "'m loops \<Rightarrow> bool" where
  "one_open s \<longleftrightarrow>
     (\<forall>k<opened_conns s. l_closed s k \<or> l_conn s = Some k)
   \<and> (\<forall>q. \<not> l_shut s q \<longrightarrow> q < l_count s \<and> l_conn s = Some q)
   \<and> l_chan s = (case l_count s of 0 \<Rightarrow> None | Suc n \<Rightarrow> Some n)
   \<and> (if l_user s = C_chan then l_conn s = Some (l_count s) else \<forall>k. l_conn s = Some k \<longrightarrow> Suc k = l_count s)
   \<and> (l_user s = C_dial \<longrightarrow> l_conn s = None)
   \<and> (\<forall>g\<ge>l_count s. l_reader s g = R_done \<and> l_writer s g = W_done)
   \<and> (\<forall>g. read_bound (opened_conns s) (l_reader s g) \<and> write_bound (opened_conns s) (l_count s) (l_writer s g))"

lemma one_open_start: "one_open no_loops"
  by (simp add: one_open_def no_loops_def opened_conns_def)

lemma one_open_closes:
  assumes "one_open s" "l_Disconnect s = Some s'"
  shows "one_open s'"
proof (cases "l_conn s")
  case None
  then show ?thesis using assms by (simp add: l_Disconnect_def)
next
  case (Some k)
  then obtain q where q: "\<not> l_shut s q"
    "s' = s\<lparr>l_closed := (l_closed s)(k := True), l_conn := None, l_shut := (l_shut s)(q := True)\<rparr>"
    using assms(2) by (auto simp: l_Disconnect_def split: option.splits if_splits)
  then have "l_shut s' q'" "l_user s \<noteq> C_chan" "\<And>j. j < opened_conns s \<Longrightarrow> l_closed s' j" for q'
    using assms(1) Some by (auto simp: one_open_def)
  then show ?thesis using assms(1) q(2) by (simp add: one_open_def opened_conns_def)
qed

lemma opened_conns_same [simp]:
  "opened_conns (s\<lparr>l_fatal := n\<rparr>) = opened_conns s" "opened_conns (s\<lparr>l_queue := f\<rparr>) = opened_conns s"
  "opened_conns (s\<lparr>l_sent := f\<rparr>) = opened_conns s" "opened_conns (s\<lparr>l_reader := r\<rparr>) = opened_conns s"
  "opened_conns (s\<lparr>l_writer := w\<rparr>) = opened_conns s" "opened_conns (s\<lparr>l_accepted := f\<rparr>) = opened_conns s"
  by (simp_all add: opened_conns_def)

lemma one_open_reads:
  "one_open s \<Longrightarrow> read_bound (opened_conns s) p \<Longrightarrow> g < l_count s \<Longrightarrow> one_open (l_reads g p s)"
  by (auto simp: one_open_def l_reads_def)

lemma one_open_writes:
  "one_open s \<Longrightarrow> write_bound (opened_conns s) (l_count s) p \<Longrightarrow> g < l_count s \<Longrightarrow> one_open (l_writes g p s)"
  by (auto simp: one_open_def l_writes_def)

lemma one_open_same:
  "one_open (s\<lparr>l_fatal := n\<rparr>) = one_open s" "one_open (s\<lparr>l_queue := f\<rparr>) = one_open s" "one_open (s\<lparr>l_accepted := f\<rparr>) = one_open s"
  "one_open (s\<lparr>l_sent := f\<rparr>) = one_open s"
  by (simp_all add: one_open_def)

lemma one_open_conn: "one_open s \<Longrightarrow> l_conn s = Some k \<Longrightarrow> k < opened_conns s"
  by (auto simp: one_open_def opened_conns_def split: if_splits)

lemma one_open_alive: "one_open s \<Longrightarrow> l_reader s g \<noteq> R_done \<or> l_writer s g \<noteq> W_done \<Longrightarrow> g < l_count s"
  unfolding one_open_def by (meson not_less)

lemma one_open_bounds:
  "one_open s \<Longrightarrow> read_bound (opened_conns s) (l_reader s g) \<and> write_bound (opened_conns s) (l_count s) (l_writer s g)"
  by (simp add: one_open_def)

lemma Disconnect_counts: "l_Disconnect s = Some s' \<Longrightarrow> l_count s' = l_count s \<and> opened_conns s' = opened_conns s"
  by (auto simp: l_Disconnect_def opened_conns_def split: option.splits if_splits)

lemma one_open_readLoop:
  assumes "one_open s" "l_readLoop g s = Some s'"
  shows "one_open s'"
proof -
  have g: "g < l_count s" using assms one_open_alive [OF assms(1), of g] by (auto simp: l_readLoop_def split: reading.splits)
  show ?thesis
  proof (cases "l_reader s g")
    case R_top
    then show ?thesis using assms g one_open_conn [OF assms(1)]
      by (auto simp: l_readLoop_def one_open_reads split: option.splits)
  next
    case R_disc
    then obtain d where "l_Disconnect s = Some d" "s' = l_reads g R_done d" using assms(2) by (auto simp: l_readLoop_def)
    then show ?thesis using one_open_closes [OF assms(1)] g Disconnect_counts [of s d] by (simp add: one_open_reads)
  qed (use assms g in \<open>auto simp: l_readLoop_def one_open_reads one_open_same l_Emit_fatal_def split: if_splits\<close>)
qed

lemma one_open_writeLoop:
  assumes "one_open s" "l_writeLoop g s = Some s'"
  shows "one_open s'"
proof -
  have g: "g < l_count s" using assms one_open_alive [OF assms(1), of g] by (auto simp: l_writeLoop_def split: writing.splits)
  note b = one_open_bounds [OF assms(1), of g]
  show ?thesis
  proof (cases "l_writer s g")
    case W_top
    then show ?thesis using assms g one_open_conn [OF assms(1)]
      by (auto simp: l_writeLoop_def one_open_writes split: option.splits)
  next
    case (W_conn k)
    obtain n where "l_count s = Suc n" "l_chan s = Some n"
      using g assms(1) by (cases "l_count s") (auto simp: one_open_def)
    then show ?thesis using assms g b W_conn by (auto simp: l_writeLoop_def intro!: one_open_writes)
  next
    case W_disc
    then obtain d where "l_Disconnect s = Some d" "s' = l_writes g W_done d" using assms(2) by (auto simp: l_writeLoop_def)
    then show ?thesis using one_open_closes [OF assms(1)] g Disconnect_counts [of s d] by (simp add: one_open_writes)
  qed (use assms g b in \<open>auto simp: l_writeLoop_def one_open_writes one_open_same l_Emit_fatal_def split: if_splits list.splits\<close>)
qed

lemma one_open_connecting:
  assumes "one_open s"
  shows "l_connect s = Some s' \<Longrightarrow> one_open s'" "l_undialled s = Some s' \<Longrightarrow> one_open s'"
    "l_start s = Some s' \<Longrightarrow> one_open s'" "l_dialled s = Some s' \<Longrightarrow> one_open s'"
proof -
  have user: "one_open (d\<lparr>l_user := u\<rparr>)" if "one_open d" "l_user d \<noteq> C_chan" "u \<noteq> C_chan" "u = C_dial \<Longrightarrow> l_conn d = None" for d u
    using that by (auto simp: one_open_def opened_conns_def)
  have gone: "l_conn d = None \<and> l_user d = l_user r" if "l_Disconnect r = Some d" for r d :: "'a loops"
    using that by (auto simp: l_Disconnect_def split: option.splits if_splits)
  show "l_connect s = Some s' \<Longrightarrow> one_open s'"
    using one_open_closes [OF assms] gone by (auto simp: l_connect_def intro!: user split: if_splits)
  have "one_open (l_Emit_fatal s)" using assms by (simp add: one_open_same l_Emit_fatal_def)
  then show "l_undialled s = Some s' \<Longrightarrow> one_open s'"
    using one_open_closes [of "l_Emit_fatal s"] gone
    by (fastforce simp: l_undialled_def l_Emit_fatal_def intro!: user split: if_splits)
  have more: "read_bound n p \<longrightarrow> read_bound (Suc n) p" "write_bound n c w \<longrightarrow> write_bound (Suc n) c w" for n c p and w :: "'a writing"
    by (cases p; simp) (cases w; simp)
  have queues: "write_bound n (Suc c) w" if "write_bound n c w" for n c and w :: "'a writing"
    using that by (cases w) simp_all
  show "l_start s = Some s' \<Longrightarrow> one_open s'"
    using assms queues by (auto simp: l_start_def one_open_def opened_conns_def less_Suc_eq split: if_splits)
  show "l_dialled s = Some s' \<Longrightarrow> one_open s'"
    using assms more by (auto simp: l_dialled_def one_open_def opened_conns_def less_Suc_eq split: if_splits)
qed

lemma one_open_act:
  assumes "one_open s" "act a s = Some s'"
  shows "one_open s'"
proof (cases a)
  case (Do_Write m)
  then show ?thesis using assms by (auto simp: l_Write_def one_open_same split: option.splits if_splits)
next
  case (Reads g)
  then show ?thesis using one_open_readLoop [OF assms(1)] assms(2) by simp
next
  case (Writes g)
  then show ?thesis using one_open_writeLoop [OF assms(1)] assms(2) by simp
next
  case (Received ok g)
  then show ?thesis using assms one_open_alive [OF assms(1), of g]
    by (auto simp: l_received_def intro!: one_open_reads split: reading.splits if_splits)
next
  case (Refused g)
  then show ?thesis using assms one_open_alive [OF assms(1), of g]
    by (auto simp: l_refused_def intro!: one_open_writes split: writing.splits)
qed (use one_open_closes [OF assms(1)] one_open_connecting [OF assms(1)] assms in simp_all)

lemma one_open_run: "one_open s \<Longrightarrow> acts as s = Some s' \<Longrightarrow> one_open s'"
  by (induction as arbitrary: s) (auto dest: one_open_act split: option.splits)

text \<open>How many steps a loop still takes once there is no connection.\<close>

fun read_left :: "reading \<Rightarrow> nat" where
  "read_left R_top = 1"
| "read_left (R_read k) = 3"
| "read_left R_fatal = 2"
| "read_left R_disc = 1"
| "read_left R_done = 0"

fun write_left :: "'m writing \<Rightarrow> nat" where
  "write_left W_top = 1"
| "write_left (W_conn k) = 5"
| "write_left (W_recv k q) = 4"
| "write_left (W_msg k m) = 3"
| "write_left W_fatal = 2"
| "write_left W_disc = 1"
| "write_left W_done = 0"

definition steps_left :: "'m loops \<Rightarrow> nat" where
  "steps_left s = (\<Sum>g<l_count s. read_left (l_reader s g) + write_left (l_writer s g))"

fun loop_step :: "'m loop_action \<Rightarrow> bool" where
  "loop_step (Reads g) = True"
| "loop_step (Received ok g) = True"
| "loop_step (Writes g) = True"
| "loop_step (Refused g) = True"
| "loop_step _ = False"

lemma left_less:
  assumes "g < l_count s" "l_count s' = l_count s"
    and "\<And>h. h \<noteq> g \<Longrightarrow> l_reader s' h = l_reader s h \<and> l_writer s' h = l_writer s h"
    and "read_left (l_reader s' g) + write_left (l_writer s' g) < read_left (l_reader s g) + write_left (l_writer s g)"
  shows "steps_left s' < steps_left s"
  unfolding steps_left_def assms(2)
proof (rule sum_strict_mono_ex1)
  show "\<forall>h\<in>{..<l_count s}. read_left (l_reader s' h) + write_left (l_writer s' h) \<le> read_left (l_reader s h) + write_left (l_writer s h)"
    using assms(3,4) less_imp_le by (metis order_refl)
qed (use assms(1,4) in auto)

lemma closed_all: "one_open s \<Longrightarrow> l_conn s = None \<Longrightarrow> (k < opened_conns s \<longrightarrow> l_closed s k) \<and> l_shut s q"
  by (auto simp: one_open_def)

lemma read_step_alone:
  assumes "one_open s" "l_conn s = None" "l_readLoop g s = Some s' \<or> l_received ok g s = Some s'"
  shows "l_conn s' = None \<and> steps_left s' < steps_left s"
proof -
  have "l_reader s g \<noteq> R_done" using assms(3) by (auto simp: l_readLoop_def l_received_def)
  then have g: "g < l_count s" using one_open_alive [OF assms(1)] by blast
  show ?thesis
    using assms(2,3) one_open_bounds [OF assms(1), of g] closed_all [OF assms(1,2)]
    by (cases "l_reader s g")
      (auto simp: l_readLoop_def l_received_def l_reads_def l_Emit_fatal_def l_Disconnect_def
        intro!: left_less [OF g] split: if_splits)
qed

lemma write_step_alone:
  assumes "one_open s" "l_conn s = None" "l_writeLoop g s = Some s' \<or> l_refused g s = Some s'"
  shows "l_conn s' = None \<and> steps_left s' < steps_left s"
proof -
  have "l_writer s g \<noteq> W_done" using assms(3) by (auto simp: l_writeLoop_def l_refused_def)
  then have g: "g < l_count s" using one_open_alive [OF assms(1)] by blast
  show ?thesis
    using assms(2,3) one_open_bounds [OF assms(1), of g] closed_all [OF assms(1,2)]
    by (cases "l_writer s g")
      (auto simp: l_writeLoop_def l_refused_def l_writes_def l_Emit_fatal_def l_Disconnect_def
        intro!: left_less [OF g] split: if_splits option.splits list.splits)
qed

lemma alone:
  "one_open s \<Longrightarrow> l_conn s = None \<Longrightarrow> list_all loop_step as \<Longrightarrow> acts as s = Some s' \<Longrightarrow>
    l_conn s' = None \<and> length as + steps_left s' \<le> steps_left s"
proof (induction as arbitrary: s)
  case (Cons a as)
  then obtain d where d: "act a s = Some d" "acts as d = Some s'" by (auto split: option.splits)
  note step = read_step_alone [OF Cons.prems(1,2) disjI1] read_step_alone [OF Cons.prems(1,2) disjI2]
    write_step_alone [OF Cons.prems(1,2) disjI1] write_step_alone [OF Cons.prems(1,2) disjI2]
  have "l_conn d = None \<and> steps_left d < steps_left s"
    using Cons.prems(3) d(1) by (cases a) (auto dest: step)
  moreover have "one_open d" using Cons.prems(1) d(1) by (rule one_open_act)
  ultimately have "length as + steps_left s' \<le> steps_left d \<and> l_conn s' = None" using Cons.IH [of d] Cons.prems(3) d(2) by simp
  with \<open>l_conn d = None \<and> steps_left d < steps_left s\<close> show ?case by simp
qed simp

lemma left_bound: "steps_left s \<le> 8 * l_count s"
proof -
  have "read_left (l_reader s g) + write_left (l_writer s g) \<le> 8" for g
    by (cases "l_reader s g"; cases "l_writer s g") simp_all
  then show ?thesis using sum_bounded_above [of "{..<l_count s}" "\<lambda>g. read_left (l_reader s g) + write_left (l_writer s g)" 8]
    by (simp add: steps_left_def mult.commute)
qed

lemma alone_goes_on:
  assumes "one_open s" "l_conn s = None" "\<not> all_ended s"
  shows "\<exists>a. loop_step a \<and> act a s \<noteq> None"
proof -
  from assms(3) obtain g where g: "g < l_count s" "l_reader s g \<noteq> R_done \<or> l_writer s g \<noteq> W_done" by (auto simp: all_ended_def)
  then obtain n where n: "l_chan s = Some n" using assms(1) by (cases "l_count s") (auto simp: one_open_def)
  note facts = one_open_bounds [OF assms(1), of g] closed_all [OF assms(1,2)] n assms(2)
  show ?thesis
  proof (cases "l_reader s g = R_done")
    case False
    then have "act (Reads g) s \<noteq> None" using facts
      by (cases "l_reader s g") (auto simp: l_readLoop_def l_Disconnect_def)
    then show ?thesis using loop_step.simps(1) by blast
  next
    case True
    then have "act (Writes g) s \<noteq> None" using facts g(2)
      by (cases "l_writer s g") (auto simp: l_writeLoop_def l_Disconnect_def split: list.splits)
    then show ?thesis using loop_step.simps(3) by blast
  qed
qed



end
