(* ===== verification/Heartbeat.thy ===== *)
theory Heartbeat
  imports Main
begin

text \<open>
  The heartbeat goroutines of \<open>client.go\<close> as a transition system. Every log-on starts one; they share the field \<open>c.heartbeat\<close>,
  which \<open>Disconnect\<close> stops, without a lock. A ticker keeps one tick for its reader; \<open>Stop\<close> ends the ticks and takes a tick
  back that nobody has received (Go 1.23 and later), but it does not close the channel, so that a goroutine that waits for a
  stopped ticker waits for ever.
\<close>

section \<open>Tickers and goroutines\<close>

record ticker =
  tk_running :: bool
  tk_pending :: bool

datatype hb_pc =
    Hb_start int
  | Hb_stopped int
  | Hb_top
  | Hb_wait nat
  | Hb_write

record hb_sys =
  hb_tickers :: "ticker list"
  hb_current :: "nat option"
  hb_pcs :: "hb_pc list"
  hb_sent :: nat
  hb_panicked :: bool

definition hb_init :: hb_sys where
  "hb_init = \<lparr>hb_tickers = [], hb_current = None, hb_pcs = [], hb_sent = 0, hb_panicked = False\<rparr>"

text \<open>\<open>if c.heartbeat != nil { c.heartbeat.Stop() }\<close>\<close>

definition stop_current :: "hb_sys \<Rightarrow> hb_sys" where
  "stop_current s = (case hb_current s of
     None \<Rightarrow> s
   | Some i \<Rightarrow> s\<lparr>hb_tickers := (hb_tickers s)[i := \<lparr>tk_running = False, tk_pending = False\<rparr>]\<rparr>)"

definition hb_goto :: "nat \<Rightarrow> hb_pc \<Rightarrow> hb_sys \<Rightarrow> hb_sys" where
  "hb_goto g q s = s\<lparr>hb_pcs := (hb_pcs s)[g := q]\<rparr>"

lemma hb_goto_fields [simp]:
  "hb_tickers (hb_goto g q s) = hb_tickers s" "hb_current (hb_goto g q s) = hb_current s"
  "hb_sent (hb_goto g q s) = hb_sent s" "hb_pcs (hb_goto g q s) = (hb_pcs s)[g := q]"
  by (simp_all add: hb_goto_def)

lemma stop_current_fields [simp]:
  "hb_current (stop_current s) = hb_current s" "hb_pcs (stop_current s) = hb_pcs s" "hb_sent (stop_current s) = hb_sent s"
  "length (hb_tickers (stop_current s)) = length (hb_tickers s)"
  by (simp_all add: stop_current_def split: option.splits)

section \<open>Steps\<close>

text \<open>The loop, the ticks and \<open>Disconnect\<close>; \<open>NewTicker\<close> panics for an interval that is not positive. What \<open>Write\<close> does with a heartbeat is the matter of the client.\<close>

inductive hb_step :: "hb_sys \<Rightarrow> hb_sys \<Rightarrow> bool" where
  stop_old: "g < length (hb_pcs s) \<Longrightarrow> hb_pcs s ! g = Hb_start secs \<Longrightarrow> hb_step s (hb_goto g (Hb_stopped secs) (stop_current s))"
| new_ticker: "g < length (hb_pcs s) \<Longrightarrow> hb_pcs s ! g = Hb_stopped secs \<Longrightarrow> 0 < secs \<Longrightarrow>
    hb_step s (hb_goto g Hb_top (s\<lparr>hb_current := Some (length (hb_tickers s)),
      hb_tickers := hb_tickers s @ [\<lparr>tk_running = True, tk_pending = False\<rparr>]\<rparr>))"
| bad_interval: "g < length (hb_pcs s) \<Longrightarrow> hb_pcs s ! g = Hb_stopped secs \<Longrightarrow> secs \<le> 0 \<Longrightarrow>
    hb_step s (s\<lparr>hb_panicked := True\<rparr>)"
| top: "g < length (hb_pcs s) \<Longrightarrow> hb_pcs s ! g = Hb_top \<Longrightarrow> hb_current s = Some i \<Longrightarrow> hb_step s (hb_goto g (Hb_wait i) s)"
| take_tick: "g < length (hb_pcs s) \<Longrightarrow> hb_pcs s ! g = Hb_wait i \<Longrightarrow> i < length (hb_tickers s) \<Longrightarrow>
    tk_pending (hb_tickers s ! i) \<Longrightarrow>
    hb_step s (hb_goto g Hb_write (s\<lparr>hb_tickers := (hb_tickers s)[i := (hb_tickers s ! i)\<lparr>tk_pending := False\<rparr>]\<rparr>))"
| beat: "g < length (hb_pcs s) \<Longrightarrow> hb_pcs s ! g = Hb_write \<Longrightarrow> hb_step s (hb_goto g Hb_top (s\<lparr>hb_sent := Suc (hb_sent s)\<rparr>))"
| tick: "i < length (hb_tickers s) \<Longrightarrow> tk_running (hb_tickers s ! i) \<Longrightarrow>
    hb_step s (s\<lparr>hb_tickers := (hb_tickers s)[i := (hb_tickers s ! i)\<lparr>tk_pending := True\<rparr>]\<rparr>)"
| disconnect: "hb_step s (stop_current s)"

text \<open>A log-on: \<open>go c.heartbeatLoop\<close> with the interval the server has sent.\<close>

definition hb_spawn :: "int \<Rightarrow> hb_sys \<Rightarrow> hb_sys" where
  "hb_spawn secs s = s\<lparr>hb_pcs := hb_pcs s @ [Hb_start secs]\<rparr>"

text \<open>Runs, with the number of log-ons on the way.\<close>

inductive hb_run :: "hb_sys \<Rightarrow> nat \<Rightarrow> hb_sys \<Rightarrow> bool" where
  run_refl: "hb_run s 0 s"
| run_step: "hb_run s n s' \<Longrightarrow> \<not> hb_panicked s' \<Longrightarrow> hb_step s' s'' \<Longrightarrow> hb_run s n s''"
| run_spawn: "hb_run s n s' \<Longrightarrow> \<not> hb_panicked s' \<Longrightarrow> hb_run s (Suc n) (hb_spawn secs s')"

inductive_cases hb_step_from: "hb_step s s'"

section \<open>No heartbeat goroutine ends\<close>

lemma hb_step_pcs: "hb_step s s' \<Longrightarrow> length (hb_pcs s') = length (hb_pcs s)"
  by (induction rule: hb_step.induct) simp_all

lemma heartbeat_goroutines: "hb_run s n s' \<Longrightarrow> length (hb_pcs s') = length (hb_pcs s) + n"
  by (induction rule: hb_run.induct) (simp_all add: hb_step_pcs hb_spawn_def)

section \<open>After a disconnect the heartbeats run out\<close>

text \<open>A goroutine that is about to make a ticker.\<close>

fun making :: "hb_pc \<Rightarrow> bool" where
  "making (Hb_start _) = True"
| "making (Hb_stopped _) = True"
| "making _ = False"

text \<open>Nothing ticks, no tick is left, and no goroutine is about to make a new ticker.\<close>

definition silent :: "hb_sys \<Rightarrow> bool" where
  "silent s \<longleftrightarrow> (\<forall>t \<in> set (hb_tickers s). \<not> tk_running t \<and> \<not> tk_pending t) \<and> (\<forall>q \<in> set (hb_pcs s). \<not> making q)"

lemma pending_running:
  "hb_step s s' \<Longrightarrow> \<forall>t \<in> set (hb_tickers s). tk_pending t \<longrightarrow> tk_running t \<Longrightarrow>
    \<forall>t \<in> set (hb_tickers s'). tk_pending t \<longrightarrow> tk_running t"
  by (induction rule: hb_step.induct)
    (auto simp: stop_current_def dest!: subsetD [OF set_update_subset_insert] split: option.splits)

lemma run_pending_running: "hb_run hb_init n s \<Longrightarrow> \<forall>t \<in> set (hb_tickers s). tk_pending t \<longrightarrow> tk_running t"
  by (induction hb_init n s rule: hb_run.induct) (auto simp: hb_spawn_def hb_init_def dest: pending_running)

text \<open>The heartbeats that are still sent: those of the goroutines that have taken a tick.\<close>

definition still_to_send :: "hb_sys \<Rightarrow> nat" where
  "still_to_send s = count_list (hb_pcs s) Hb_write"

lemma count_list_update:
  "g < length xs \<Longrightarrow>
    count_list (xs[g := q]) x + (if xs ! g = x then 1 else 0) = count_list xs x + (if q = x then 1 else 0)"
  using arg_cong [OF id_take_nth_drop [of g xs], of "\<lambda>ys. count_list ys x"]
  by (simp add: upd_conv_take_nth_drop)

lemma silent_goto: "silent s \<Longrightarrow> \<not> making q \<Longrightarrow> silent (hb_goto g q s)"
  using set_update_subset_insert [of "hb_pcs s" g q] by (auto simp: silent_def)

lemma silent_stop: "silent s \<Longrightarrow> silent (stop_current s)"
  by (auto simp: silent_def stop_current_def dest!: subsetD [OF set_update_subset_insert] split: option.splits)

lemma still_to_send_stop [simp]: "still_to_send (stop_current s) = still_to_send s"
  by (simp add: still_to_send_def)

lemma silent_ticker:
  "silent s \<Longrightarrow> i < length (hb_tickers s) \<Longrightarrow> \<not> tk_running (hb_tickers s ! i) \<and> \<not> tk_pending (hb_tickers s ! i)"
  by (simp add: silent_def)

lemma silent_pc: "silent s \<Longrightarrow> g < length (hb_pcs s) \<Longrightarrow> \<not> making (hb_pcs s ! g)"
  by (simp add: silent_def)

lemma silent_sent [simp]: "silent (s\<lparr>hb_sent := k\<rparr>) = silent s"
  by (simp add: silent_def)

lemma silent_step:
  assumes "hb_step s s'" "silent s"
  shows "silent s' \<and> hb_sent s' + still_to_send s' = hb_sent s + still_to_send s"
  using assms
proof (cases rule: hb_step.cases)
  case (top g i)
  then show ?thesis using assms(2) count_list_update [of g "hb_pcs s" "Hb_wait i" Hb_write]
    by (simp add: silent_goto still_to_send_def)
next
  case (beat g)
  then show ?thesis using assms(2) count_list_update [of g "hb_pcs s" Hb_top Hb_write]
    by (simp add: silent_goto still_to_send_def)
qed (use assms(2) silent_stop silent_pc silent_ticker in \<open>auto dest: silent_pc\<close>)

lemma silent_run: "hb_run s n s' \<Longrightarrow> n = 0 \<Longrightarrow> silent s \<Longrightarrow>
    silent s' \<and> hb_sent s' + still_to_send s' = hb_sent s + still_to_send s"
  by (induction rule: hb_run.induct) (auto dest: silent_step)


text \<open>A log-on whose answer has no interval, or an interval of zero, crashes the program.\<close>

lemma zero_interval_panics:
  assumes "(secs :: int) \<le> 0"
  shows "\<exists>s. hb_run hb_init 1 s \<and> hb_panicked s"
proof -
  let ?stopped = "hb_init\<lparr>hb_pcs := [Hb_stopped secs]\<rparr>"
  have spawned: "hb_run hb_init (Suc 0) (hb_spawn secs hb_init)" by (rule run_spawn [OF run_refl]) (simp add: hb_init_def)
  have "hb_step (hb_spawn secs hb_init) ?stopped"
    using stop_old [of 0 "hb_spawn secs hb_init" secs] by (simp add: hb_spawn_def hb_init_def hb_goto_def stop_current_def)
  moreover have "hb_step ?stopped (?stopped\<lparr>hb_panicked := True\<rparr>)"
    using bad_interval [of 0 ?stopped secs] assms by (simp add: hb_init_def)
  ultimately have "hb_run hb_init (Suc 0) (?stopped\<lparr>hb_panicked := True\<rparr>)"
    by (intro run_step [OF run_step [OF spawned]]) (simp_all add: hb_spawn_def hb_init_def)
  then show ?thesis unfolding One_nat_def by (rule exI [of _ "?stopped\<lparr>hb_panicked := True\<rparr>", OF conjI]) simp
qed

text \<open>A log-on, a tick that is taken and a disconnect: the heartbeat of the tick still follows.\<close>

definition hb_state :: "bool \<Rightarrow> bool \<Rightarrow> hb_pc \<Rightarrow> nat \<Rightarrow> hb_sys" where
  "hb_state running pending q sent = \<lparr>hb_tickers = [\<lparr>tk_running = running, tk_pending = pending\<rparr>],
     hb_current = Some 0, hb_pcs = [q], hb_sent = sent, hb_panicked = False\<rparr>"

lemmas hb_state_simps = hb_state_def hb_goto_def stop_current_def

lemma hb_state_steps:
  "hb_step (hb_state r p Hb_top k) (hb_state r p (Hb_wait 0) k)"
  "hb_step (hb_state True p q k) (hb_state True True q k)"
  "hb_step (hb_state r True (Hb_wait 0) k) (hb_state r False Hb_write k)"
  "hb_step (hb_state r p q k) (hb_state False False q k)"
  "hb_step (hb_state r p Hb_write k) (hb_state r p Hb_top (Suc k))"
  using hb_step.top [of 0 "hb_state r p Hb_top k" 0] hb_step.tick [of 0 "hb_state True p q k"]
    hb_step.disconnect [of "hb_state r p q k"] hb_step.take_tick [of 0 "hb_state r True (Hb_wait 0) k" 0]
    hb_step.beat [of 0 "hb_state r p Hb_write k"]
  by (simp_all add: hb_state_simps)

lemma hb_state_calm [simp]: "\<not> hb_panicked (hb_state r p q k)"
  by (simp add: hb_state_def)

lemma hb_log_on: "hb_run hb_init 1 (hb_state True False Hb_top 0)"
proof -
  let ?stopped = "hb_init\<lparr>hb_pcs := [Hb_stopped 9]\<rparr>"
  have spawned: "hb_run hb_init (Suc 0) (hb_spawn 9 hb_init)" by (rule run_spawn [OF run_refl]) (simp add: hb_init_def)
  have "hb_step (hb_spawn 9 hb_init) ?stopped"
    using stop_old [of 0 "hb_spawn 9 hb_init" 9] by (simp add: hb_spawn_def hb_init_def hb_goto_def stop_current_def)
  moreover have "hb_step ?stopped (hb_state True False Hb_top 0)"
    using new_ticker [of 0 ?stopped 9] by (simp add: hb_init_def hb_state_simps)
  ultimately show ?thesis unfolding One_nat_def
    by (intro run_step [OF run_step [OF spawned]]) (simp_all add: hb_spawn_def hb_init_def)
qed


end
