(* ===== verification/Json.thy ===== *)
theory Json
  imports Go_Std Netutil "HOL-Library.AList"
begin

text \<open>
  What the web operations use of \<open>encoding/json\<close> and \<open>net/http\<close>, with \<open>jsont/jsont.go\<close>, \<open>netutil/http.go\<close> and
  \<open>community/community.go\<close>.

  A JSON text is turned into a tree by the parser of the library, which is an argument (\<open>site_parse\<close>); a
  number keeps its text. The tree stands for a text without white space between its tokens, as Steam sends it.
  Decoding a tree into a Go value is modelled here: an error is remembered and decoding goes on, the first
  error is the result; a panic of an \<open>UnmarshalJSON\<close> method goes through. A Go map is an association list with one
  entry per key, and \<open>None\<close> is the nil map.
\<close>

section \<open>Trees and maps\<close>

datatype json =
    JNull
  | JBool bool
  | JNum string
  | JStr string
  | JArr "json list"
  | JObj "(string \<times> json) list"

type_synonym ('k, 'v) gomap = "('k \<times> 'v) list option"

fun gomap_get :: "('k, 'v) gomap \<Rightarrow> 'k \<Rightarrow> 'v option" where
  "gomap_get None k = None"
| "gomap_get (Some m) k = map_of m k"

definition gomap_set :: "'k \<Rightarrow> 'v \<Rightarrow> ('k, 'v) gomap \<Rightarrow> ('k, 'v) gomap res" where
  "gomap_set k v m = (case m of
     None \<Rightarrow> Panic ''assignment to entry in nil map'' | Some m \<Rightarrow> Ok (Some (AList.update k v m)))"

fun gomap_entries :: "('k, 'v) gomap \<Rightarrow> ('k \<times> 'v) list" where
  "gomap_entries None = []"
| "gomap_entries (Some m) = m"

lemma gomap_get_entries: "gomap_get m k = map_of (gomap_entries m) k"
  by (cases m) auto

text \<open>A map as the program can build it: every key once.\<close>

definition gomap_wf :: "('k, 'v) gomap \<Rightarrow> bool" where
  "gomap_wf m \<longleftrightarrow> distinct (map fst (gomap_entries m))"

lemma gomap_get_set: "gomap_set k v m = Ok m' \<Longrightarrow> gomap_get m' k' = (if k' = k then Some v else gomap_get m k')"
  by (auto simp: gomap_set_def update_conv split: option.splits)

lemma gomap_set_wf: "gomap_wf m \<Longrightarrow> gomap_set k v m = Ok m' \<Longrightarrow> gomap_wf m'"
  by (auto simp: gomap_set_def gomap_wf_def distinct_update split: option.splits)

lemma gomap_set_total: "m \<noteq> None \<Longrightarrow> \<exists>m'. gomap_set k v m = Ok m' \<and> m' \<noteq> None"
  by (auto simp: gomap_set_def)

section \<open>Decoding\<close>

type_synonym 'a jdec = "json \<Rightarrow> 'a \<Rightarrow> ('a \<times> go_err option) res"

definition type_error :: go_err where "type_error = GoErr ''json: cannot unmarshal''"

fun first_error :: "go_err option \<Rightarrow> go_err option \<Rightarrow> go_err option" where
  "first_error None e = e"
| "first_error (Some e) _ = Some e"

text \<open>One more decoding step after some that may have failed.\<close>

definition and_then :: "('a \<times> go_err option) res \<Rightarrow> ('a \<Rightarrow> ('a \<times> go_err option) res) \<Rightarrow> ('a \<times> go_err option) res" where
  "and_then m f = bind_res m (\<lambda>(v, e). bind_res (f v) (\<lambda>(v, e'). Ok (v, first_error e e')))"

fun dec_bool :: "bool jdec" where
  "dec_bool JNull v = Ok (v, None)"
| "dec_bool (JBool b) v = Ok (b, None)"
| "dec_bool _ v = Ok (v, Some type_error)"

fun dec_string :: "string jdec" where
  "dec_string JNull v = Ok (v, None)"
| "dec_string (JStr s) v = Ok (s, None)"
| "dec_string _ v = Ok (v, Some type_error)"

text \<open>The text of a number for an unsigned field of the width of the word.\<close>

definition uint_text :: "string \<Rightarrow> 'a::len word \<Rightarrow> 'a word \<times> go_err option" where
  "uint_text s v = (case ParseUint s 64 of
     (n, None) \<Rightarrow> if n < 2 ^ LENGTH('a) then (word_of_nat n, None) else (v, Some type_error)
   | (_, Some e) \<Rightarrow> (v, Some type_error))"

fun dec_uint :: "'a::len word jdec" where
  "dec_uint JNull v = Ok (v, None)"
| "dec_uint (JNum s) v = Ok (uint_text s v)"
| "dec_uint _ v = Ok (v, Some type_error)"

text \<open>The option \<open>,string\<close>: the number is within a string, in which \<open>null\<close> is allowed as well.\<close>

fun dec_uint_q :: "'a::len word jdec" where
  "dec_uint_q JNull v = Ok (v, None)"
| "dec_uint_q (JStr s) v = Ok (if s = ''null'' then (v, None) else uint_text s v)"
| "dec_uint_q _ v = Ok (v, Some type_error)"

fun dec_int :: "i64 jdec" where
  "dec_int JNull v = Ok (v, None)"
| "dec_int (JNum s) v = (case ParseInt s 64 of (n, None) \<Rightarrow> Ok (word_of_int n, None) | (_, Some e) \<Rightarrow> Ok (v, Some type_error))"
| "dec_int _ v = Ok (v, Some type_error)"

text \<open>A field of type \<open>interface{}\<close> takes the tree as it is.\<close>

definition dec_any :: "json jdec" where "dec_any j v = Ok (j, None)"

text \<open>A pointer: \<open>null\<close> is nil, and a nil pointer is given a zero value to decode into.\<close>

definition dec_ptr :: "'a \<Rightarrow> 'a jdec \<Rightarrow> 'a option jdec" where
  "dec_ptr zero d j v = (if j = JNull then Ok (None, None)
     else map_res (\<lambda>(x, e). (Some x, e)) (d j (case v of None \<Rightarrow> zero | Some x \<Rightarrow> x)))"

fun dec_elems :: "'a \<Rightarrow> 'a jdec \<Rightarrow> json list \<Rightarrow> ('a list \<times> go_err option) res" where
  "dec_elems zero d [] = Ok ([], None)"
| "dec_elems zero d (j # js) = bind_res (d j zero) (\<lambda>(x, e).
     bind_res (dec_elems zero d js) (\<lambda>(xs, e'). Ok (x # xs, first_error e e')))"

fun dec_list :: "'a \<Rightarrow> 'a jdec \<Rightarrow> 'a list jdec" where
  "dec_list zero d JNull v = Ok ([], None)"
| "dec_list zero d (JArr js) v = dec_elems zero d js"
| "dec_list zero d _ v = Ok (v, Some type_error)"

fun dec_entries :: "'a \<Rightarrow> 'a jdec \<Rightarrow> (string \<times> json) list \<Rightarrow> (string \<times> 'a) list \<Rightarrow> ((string \<times> 'a) list \<times> go_err option) res" where
  "dec_entries zero d [] m = Ok (m, None)"
| "dec_entries zero d ((k, j) # kjs) m = bind_res (d j zero) (\<lambda>(x, e).
     bind_res (dec_entries zero d kjs (AList.update k x m)) (\<lambda>(m, e'). Ok (m, first_error e e')))"

fun dec_map :: "'a \<Rightarrow> 'a jdec \<Rightarrow> (string, 'a) gomap jdec" where
  "dec_map zero d JNull v = Ok (None, None)"
| "dec_map zero d (JObj kjs) v =
     map_res (\<lambda>(m, e). (Some m, e)) (dec_entries zero d kjs (case v of None \<Rightarrow> [] | Some m \<Rightarrow> m))"
| "dec_map zero d _ v = Ok (v, Some type_error)"

text \<open>
  Field names are compared exactly first, then with letters folded; the two letters beyond ASCII that fold to
  ASCII ones, the long s and the Kelvin sign, come as their UTF-8 bytes.
\<close>

definition lower :: "char \<Rightarrow> char" where
  "lower c = (if 65 \<le> (of_char c :: nat) \<and> (of_char c :: nat) \<le> 90 then char_of ((of_char c :: nat) + 32) else c)"

fun fold_name :: "string \<Rightarrow> string" where
  "fold_name s = (case s of
     [] \<Rightarrow> []
   | c # cs \<Rightarrow>
       if take 2 s = [CHR 0xC5, CHR 0xBF] then CHR ''s'' # fold_name (drop 2 s)
       else if take 3 s = [CHR 0xE2, CHR 0x84, CHR 0xAA] then CHR ''k'' # fold_name (drop 3 s)
       else lower c # fold_name cs)"

declare fold_name.simps [simp del]

type_synonym 'a fields = "(string \<times> (json \<Rightarrow> 'a \<Rightarrow> ('a \<times> go_err option) res)) list"

definition field :: "string \<Rightarrow> 'f jdec \<Rightarrow> ('a \<Rightarrow> 'f) \<Rightarrow> (('f \<Rightarrow> 'f) \<Rightarrow> 'a \<Rightarrow> 'a)
     \<Rightarrow> string \<times> (json \<Rightarrow> 'a \<Rightarrow> ('a \<times> go_err option) res)" where
  "field name d get upd = (name, \<lambda>j r. map_res (\<lambda>(x, e). (upd (\<lambda>_. x) r, e)) (d j (get r)))"

definition find_field :: "'a fields \<Rightarrow> string \<Rightarrow> (json \<Rightarrow> 'a \<Rightarrow> ('a \<times> go_err option) res) option" where
  "find_field fs k = (case map_of fs k of
     Some f \<Rightarrow> Some f
   | None \<Rightarrow> map_of (map (\<lambda>(n, f). (fold_name n, f)) fs) (fold_name k))"

fun dec_members :: "'a fields \<Rightarrow> (string \<times> json) list \<Rightarrow> 'a \<Rightarrow> ('a \<times> go_err option) res" where
  "dec_members fs [] r = Ok (r, None)"
| "dec_members fs ((k, j) # kjs) r =
     bind_res (case find_field fs k of None \<Rightarrow> Ok (r, None) | Some f \<Rightarrow> f j r) (\<lambda>(r, e).
     bind_res (dec_members fs kjs r) (\<lambda>(r, e'). Ok (r, first_error e e')))"

fun dec_struct :: "'a fields \<Rightarrow> 'a jdec" where
  "dec_struct fs JNull r = Ok (r, None)"
| "dec_struct fs (JObj kjs) r = dec_members fs kjs r"
| "dec_struct fs _ r = Ok (r, Some type_error)"

text \<open>\<open>Decode\<close> into a fresh value: the value, or the first error.\<close>

definition decode_as :: "'a jdec \<Rightarrow> 'a \<Rightarrow> json option \<Rightarrow> 'a res" where
  "decode_as d zero t = (case t of
     None \<Rightarrow> Err ErrSyntax
   | Some j \<Rightarrow> bind_res (d j zero) (\<lambda>(x, e). case e of None \<Rightarrow> Ok x | Some e \<Rightarrow> Err e))"

section \<open>jsont.go\<close>

text \<open>\<open>UnmarshalJSON\<close> decodes a fresh number, so that \<open>null\<close> gives false.\<close>

definition UintBool_UnmarshalJSON :: "bool jdec" where
  "UintBool_UnmarshalJSON j u = bind_res (dec_uint j (0 :: u64)) (\<lambda>(n, err).
     case err of Some e \<Rightarrow> Ok (u, Some e) | None \<Rightarrow> Ok (n \<noteq> 0, None))"

section \<open>Patterns in texts\<close>

text \<open>\<open>regexp\<close>: the leftmost position at which a matcher succeeds, and what the matchers of the program use.\<close>

fun find_match :: "(string \<Rightarrow> 'a option) \<Rightarrow> string \<Rightarrow> 'a option" where
  "find_match m [] = m []"
| "find_match m (c # cs) = (case m (c # cs) of Some x \<Rightarrow> Some x | None \<Rightarrow> find_match m cs)"

fun strip :: "string \<Rightarrow> string \<Rightarrow> string option" where
  "strip [] s = Some s"
| "strip (p # ps) [] = None"
| "strip (p # ps) (c # cs) = (if c = p then strip ps cs else None)"

definition newline :: char where "newline = char_of (10 :: nat)"

definition is_space :: "char \<Rightarrow> bool" where
  "is_space c \<longleftrightarrow> (of_char c :: nat) \<in> {9, 10, 12, 13, 32}"

definition is_word_char :: "char \<Rightarrow> bool" where
  "is_word_char c \<longleftrightarrow> is_digit c \<or> (65 \<le> (of_char c :: nat) \<and> (of_char c :: nat) \<le> 90)
     \<or> (97 \<le> (of_char c :: nat) \<and> (of_char c :: nat) \<le> 122) \<or> c = CHR ''_''"

text \<open>\<open>.*?\<close> up to a character: the shortest text without a newline before it.\<close>

fun lazy_until :: "char \<Rightarrow> string \<Rightarrow> string option" where
  "lazy_until e [] = None"
| "lazy_until e (c # cs) =
     (if c = e then Some [] else if c = newline then None else map_option (Cons c) (lazy_until e cs))"

section \<open>Requests\<close>

text \<open>
  A request with its query, its form and its headers. The URLs are constants with decimal numbers in them, so that
  \<open>http.NewRequest\<close> does not fail.
\<close>

record Request =
  Req_Method :: string
  Req_URL :: string
  Req_Query :: "Values option"
  Req_Form :: "Values option"
  Req_Header :: "(string \<times> string) list"

definition NewPostForm :: "string \<Rightarrow> Values \<Rightarrow> Request" where
  "NewPostForm url data = \<lparr>Req_Method = ''POST'', Req_URL = url, Req_Query = None, Req_Form = Some data,
     Req_Header = [(''Content-Type'', ''application/x-www-form-urlencoded'')]\<rparr>"

definition get_request :: "string \<Rightarrow> Values option \<Rightarrow> Request" where
  "get_request url query = \<lparr>Req_Method = ''GET'', Req_URL = url, Req_Query = query, Req_Form = None, Req_Header = []\<rparr>"

definition add_header :: "string \<Rightarrow> string \<Rightarrow> Request \<Rightarrow> Request" where
  "add_header k v r = r\<lparr>Req_Header := Req_Header r @ [(k, v)]\<rparr>"

text \<open>What a web site answers, the JSON parser and the JSON printer.\<close>

record Site =
  site_do :: "Request \<Rightarrow> go_err + nat \<times> string"
  site_parse :: "string \<Rightarrow> json option"
  site_text :: "json \<Rightarrow> string"

section \<open>community.go\<close>

definition unreserved :: "char \<Rightarrow> bool" where
  "unreserved c \<longleftrightarrow> is_digit c \<or> (65 \<le> (of_char c :: nat) \<and> (of_char c :: nat) \<le> 90)
     \<or> (97 \<le> (of_char c :: nat) \<and> (of_char c :: nat) \<le> 122) \<or> c \<in> set ''-_.~''"

definition upper_hex :: "nat \<Rightarrow> char" where
  "upper_hex d = (if d < 10 then char_of (48 + d) else char_of (55 + d))"

definition QueryEscape :: "string \<Rightarrow> string" where
  "QueryEscape s = concat (map (\<lambda>c. if unreserved c then [c] else if c = CHR '' '' then ''+''
     else [CHR ''%'', upper_hex ((of_char c :: nat) div 16), upper_hex ((of_char c :: nat) mod 16)]) s)"

type_synonym Cookies = "(string \<times> string) list"

definition SetCookies :: "string \<Rightarrow> string \<Rightarrow> string \<Rightarrow> Cookies" where
  "SetCookies sessionId steamLogin steamLoginSecure =
     [(''sessionid'', QueryEscape sessionId), (''steamLogin'', steamLogin), (''steamLoginSecure'', steamLoginSecure)]"

end
