(* ===== verification/Inventory.thy ===== *)
theory Inventory
  imports Json Steam_Id
begin

text \<open>
  \<open>economy/inventory\<close>: inventories as Steam's web site sends them, in pages, with their decoders, the lookups, the
  merging of pages and the loop over the pages.
\<close>

section \<open>Records and decoders\<close>

record Item =
  Item_Id :: u64
  Item_ClassId :: u64
  Item_InstanceId :: u64
  Item_Amount :: u64
  Item_Pos :: u32

definition zero_Item :: Item where
  "zero_Item = \<lparr>Item_Id = 0, Item_ClassId = 0, Item_InstanceId = 0, Item_Amount = 0, Item_Pos = 0\<rparr>"

definition Item_fields :: "Item fields" where
  "Item_fields = [field ''Id'' dec_uint_q Item_Id Item_Id_update, field ''ClassId'' dec_uint_q Item_ClassId Item_ClassId_update,
     field ''InstanceId'' dec_uint_q Item_InstanceId Item_InstanceId_update, field ''Amount'' dec_uint_q Item_Amount Item_Amount_update,
     field ''Pos'' dec_uint Item_Pos Item_Pos_update]"

record Currency =
  Currency_Id :: u64
  Currency_ClassId :: u64
  Currency_IsCurrency :: bool
  Currency_Pos :: u32

definition zero_Currency :: Currency where
  "zero_Currency = \<lparr>Currency_Id = 0, Currency_ClassId = 0, Currency_IsCurrency = False, Currency_Pos = 0\<rparr>"

definition Currency_fields :: "Currency fields" where
  "Currency_fields = [field ''Id'' dec_uint_q Currency_Id Currency_Id_update,
     field ''ClassId'' dec_uint_q Currency_ClassId Currency_ClassId_update,
     field ''is_currency'' dec_bool Currency_IsCurrency Currency_IsCurrency_update,
     field ''Pos'' dec_uint Currency_Pos Currency_Pos_update]"

record DescriptionLine =
  Line_Value :: string
  Line_Type :: "string option"
  Line_Color :: "string option"

definition zero_DescriptionLine :: DescriptionLine where
  "zero_DescriptionLine = \<lparr>Line_Value = [], Line_Type = None, Line_Color = None\<rparr>"

definition DescriptionLine_fields :: "DescriptionLine fields" where
  "DescriptionLine_fields = [field ''Value'' dec_string Line_Value Line_Value_update,
     field ''Type'' (dec_ptr [] dec_string) Line_Type Line_Type_update,
     field ''Color'' (dec_ptr [] dec_string) Line_Color Line_Color_update]"

text \<open>The lines are an array or the empty string; \<open>null\<close> lines are nil pointers.\<close>

type_synonym DescriptionLines = "DescriptionLine option list"

definition DescriptionLines_UnmarshalJSON :: "DescriptionLines jdec" where
  "DescriptionLines_UnmarshalJSON j d =
     (if j = JStr [] then Ok (d, None)
      else dec_list None (dec_ptr zero_DescriptionLine (dec_struct DescriptionLine_fields)) j d)"

record Action =
  Action_Name :: string
  Action_Link :: string

definition zero_Action :: Action where "zero_Action = \<lparr>Action_Name = [], Action_Link = []\<rparr>"

definition Action_fields :: "Action fields" where
  "Action_fields = [field ''Name'' dec_string Action_Name Action_Name_update, field ''Link'' dec_string Action_Link Action_Link_update]"

text \<open>The tags \<open>json:internal_name\<close> and \<open>json:category_name\<close> lack their quotes and are no tags: the names of the fields count.\<close>

record Tag =
  Tag_InternalName :: string
  Tag_Name :: string
  Tag_Category :: string
  Tag_CategoryName :: string

definition zero_Tag :: Tag where
  "zero_Tag = \<lparr>Tag_InternalName = [], Tag_Name = [], Tag_Category = [], Tag_CategoryName = []\<rparr>"

definition Tag_fields :: "Tag fields" where
  "Tag_fields = [field ''InternalName'' dec_string Tag_InternalName Tag_InternalName_update,
     field ''Name'' dec_string Tag_Name Tag_Name_update, field ''Category'' dec_string Tag_Category Tag_Category_update,
     field ''CategoryName'' dec_string Tag_CategoryName Tag_CategoryName_update]"

record Description =
  Desc_AppId :: u32
  Desc_ClassId :: u64
  Desc_InstanceId :: u64
  Desc_IconUrl :: string
  Desc_IconUrlLarge :: string
  Desc_IconDragUrl :: string
  Desc_Name :: string
  Desc_MarketName :: string
  Desc_MarketHashName :: string
  Desc_NameColor :: string
  Desc_BackgroundColor :: string
  Desc_Type :: string
  Desc_Tradable :: bool
  Desc_Marketable :: bool
  Desc_Commodity :: bool
  Desc_MarketTradableRestriction :: u32
  Desc_Descriptions :: DescriptionLines
  Desc_Actions :: "Action option list"
  Desc_AppData :: "(string, string) gomap"
  Desc_Tags :: "Tag option list"

definition zero_Description :: Description where
  "zero_Description = \<lparr>Desc_AppId = 0, Desc_ClassId = 0, Desc_InstanceId = 0, Desc_IconUrl = [], Desc_IconUrlLarge = [],
     Desc_IconDragUrl = [], Desc_Name = [], Desc_MarketName = [], Desc_MarketHashName = [], Desc_NameColor = [],
     Desc_BackgroundColor = [], Desc_Type = [], Desc_Tradable = False, Desc_Marketable = False, Desc_Commodity = False,
     Desc_MarketTradableRestriction = 0, Desc_Descriptions = [], Desc_Actions = [], Desc_AppData = None, Desc_Tags = []\<rparr>"

text \<open>All fields but the application, which a struct that embeds the description may hide.\<close>

definition Description_fields :: "Description fields" where
  "Description_fields = [field ''ClassId'' dec_uint_q Desc_ClassId Desc_ClassId_update,
     field ''InstanceId'' dec_uint_q Desc_InstanceId Desc_InstanceId_update,
     field ''icon_url'' dec_string Desc_IconUrl Desc_IconUrl_update,
     field ''icon_url_large'' dec_string Desc_IconUrlLarge Desc_IconUrlLarge_update,
     field ''icon_drag_url'' dec_string Desc_IconDragUrl Desc_IconDragUrl_update,
     field ''Name'' dec_string Desc_Name Desc_Name_update,
     field ''market_name'' dec_string Desc_MarketName Desc_MarketName_update,
     field ''market_hash_name'' dec_string Desc_MarketHashName Desc_MarketHashName_update,
     field ''name_color'' dec_string Desc_NameColor Desc_NameColor_update,
     field ''background_color'' dec_string Desc_BackgroundColor Desc_BackgroundColor_update,
     field ''Type'' dec_string Desc_Type Desc_Type_update,
     field ''Tradable'' UintBool_UnmarshalJSON Desc_Tradable Desc_Tradable_update,
     field ''Marketable'' UintBool_UnmarshalJSON Desc_Marketable Desc_Marketable_update,
     field ''Commodity'' UintBool_UnmarshalJSON Desc_Commodity Desc_Commodity_update,
     field ''market_tradable_restriction'' dec_uint_q Desc_MarketTradableRestriction Desc_MarketTradableRestriction_update,
     field ''Descriptions'' DescriptionLines_UnmarshalJSON Desc_Descriptions Desc_Descriptions_update,
     field ''Actions'' (dec_list None (dec_ptr zero_Action (dec_struct Action_fields))) Desc_Actions Desc_Actions_update,
     field ''AppData'' (dec_map [] dec_string) Desc_AppData Desc_AppData_update,
     field ''Tags'' (dec_list None (dec_ptr zero_Tag (dec_struct Tag_fields))) Desc_Tags Desc_Tags_update]"

definition dec_Description :: "Description jdec" where
  "dec_Description = dec_struct (field ''AppId'' dec_uint_q Desc_AppId Desc_AppId_update # Description_fields)"

record AppInfo =
  AppInfo_AppId :: u32
  AppInfo_Name :: string
  AppInfo_Icon :: string
  AppInfo_Link :: string

definition zero_AppInfo :: AppInfo where
  "zero_AppInfo = \<lparr>AppInfo_AppId = 0, AppInfo_Name = [], AppInfo_Icon = [], AppInfo_Link = []\<rparr>"

definition AppInfo_fields :: "AppInfo fields" where
  "AppInfo_fields = [field ''AppId'' dec_uint AppInfo_AppId AppInfo_AppId_update, field ''Name'' dec_string AppInfo_Name AppInfo_Name_update,
     field ''Icon'' dec_string AppInfo_Icon AppInfo_Icon_update, field ''Link'' dec_string AppInfo_Link AppInfo_Link_update]"

text \<open>The maps are maps of pointers; the empty array stands for an empty one and leaves the map as it is.\<close>

type_synonym Items = "(string, Item option) gomap"
type_synonym Currencies = "(string, Currency option) gomap"
type_synonym Descriptions = "(string, Description option) gomap"

definition Items_UnmarshalJSON :: "Items jdec" where
  "Items_UnmarshalJSON j i = (if j = JArr [] then Ok (i, None)
     else dec_map None (dec_ptr zero_Item (dec_struct Item_fields)) j i)"

definition Currencies_UnmarshalJSON :: "Currencies jdec" where
  "Currencies_UnmarshalJSON j c = (if j = JArr [] then Ok (c, None)
     else dec_map None (dec_ptr zero_Currency (dec_struct Currency_fields)) j c)"

definition Descriptions_UnmarshalJSON :: "Descriptions jdec" where
  "Descriptions_UnmarshalJSON j d = (if j = JArr [] then Ok (d, None)
     else dec_map None (dec_ptr zero_Description dec_Description) j d)"

record Inventory =
  Inv_Items :: Items
  Inv_Currencies :: Currencies
  Inv_Descriptions :: Descriptions
  Inv_AppInfo :: "AppInfo option"

record PartialInventory = Inventory +
  Part_Success :: bool
  Part_Error :: string
  Part_More :: bool
  Part_MoreStart :: u64

definition zero_PartialInventory :: PartialInventory where
  "zero_PartialInventory = \<lparr>Inv_Items = None, Inv_Currencies = None, Inv_Descriptions = None, Inv_AppInfo = None,
     Part_Success = False, Part_Error = [], Part_More = False, Part_MoreStart = 0\<rparr>"

definition MoreStart_UnmarshalJSON :: "u64 jdec" where
  "MoreStart_UnmarshalJSON j m = (if j = JBool False then Ok (m, None) else dec_uint j m)"

definition PartialInventory_fields :: "PartialInventory fields" where
  "PartialInventory_fields = [field ''Success'' dec_bool Part_Success Part_Success_update,
     field ''Error'' dec_string Part_Error Part_Error_update,
     field ''rgInventory'' Items_UnmarshalJSON Inv_Items Inv_Items_update,
     field ''rgCurrency'' Currencies_UnmarshalJSON Inv_Currencies Inv_Currencies_update,
     field ''rgDescriptions'' Descriptions_UnmarshalJSON Inv_Descriptions Inv_Descriptions_update,
     field ''rgAppInfo'' (dec_ptr zero_AppInfo (dec_struct AppInfo_fields)) Inv_AppInfo Inv_AppInfo_update,
     field ''More'' dec_bool Part_More Part_More_update,
     field ''more_start'' MoreStart_UnmarshalJSON Part_MoreStart Part_MoreStart_update]"

definition the_inventory :: "PartialInventory \<Rightarrow> Inventory" where
  "the_inventory p = \<lparr>Inv_Items = Inv_Items p, Inv_Currencies = Inv_Currencies p,
     Inv_Descriptions = Inv_Descriptions p, Inv_AppInfo = Inv_AppInfo p\<rparr>"

section \<open>Lookups\<close>

definition Items_Get :: "u64 \<Rightarrow> Items \<Rightarrow> Item option res" where
  "Items_Get assetId i = (case gomap_get i (FormatUint (unat assetId)) of
     Some item \<Rightarrow> Ok item | None \<Rightarrow> Err (GoErr ''item not found''))"

definition Descriptions_Get :: "u64 \<Rightarrow> u64 \<Rightarrow> Descriptions \<Rightarrow> Description option res" where
  "Descriptions_Get classId instanceId d =
     (case gomap_get d (FormatUint (unat classId) @ ''_'' @ FormatUint (unat instanceId)) of
        Some desc \<Rightarrow> Ok desc | None \<Rightarrow> Err (GoErr ''description not found''))"

type_synonym GenericInventory = "(u32, (u64, Inventory) gomap) gomap"

definition NewGenericInventory :: GenericInventory where "NewGenericInventory = Some []"

definition GenericInventory_Get :: "u32 \<Rightarrow> u64 \<Rightarrow> GenericInventory \<Rightarrow> Inventory res" where
  "GenericInventory_Get appId contextId i = (case gomap_get i appId of
     None \<Rightarrow> Err (GoErr ''inventory for specified appId not found'')
   | Some iMap2 \<Rightarrow> (case gomap_get iMap2 contextId of
       None \<Rightarrow> Err (GoErr ''inventory for specified contextId not found'')
     | Some inven \<Rightarrow> Ok inven))"

text \<open>The inner map is shared with the outer one, which therefore sees the new entry.\<close>

definition GenericInventory_Add :: "u32 \<Rightarrow> u64 \<Rightarrow> Inventory \<Rightarrow> GenericInventory \<Rightarrow> GenericInventory res" where
  "GenericInventory_Add appId contextId inven i =
     bind_res (case gomap_get i appId of
         Some iMap2 \<Rightarrow> Ok (iMap2, i)
       | None \<Rightarrow> map_res (\<lambda>i. (Some [], i)) (gomap_set appId (Some []) i)) (\<lambda>(iMap2, i).
     bind_res (gomap_set contextId inven iMap2) (\<lambda>iMap2. gomap_set appId iMap2 i))"

section \<open>Pages\<close>

definition DoInventoryRequest :: "Site \<Rightarrow> Request \<Rightarrow> PartialInventory res" where
  "DoInventoryRequest site req = (case site_do site req of
     Inl err \<Rightarrow> Err err
   | Inr (code, body) \<Rightarrow> decode_as (dec_struct PartialInventory_fields) zero_PartialInventory (site_parse site body))"

text \<open>One \<open>range\<close> loop of \<open>Merge\<close>; each key occurs once, so that their order does not matter.\<close>

fun merge_entries :: "('k \<times> 'v) list \<Rightarrow> ('k, 'v) gomap \<Rightarrow> ('k, 'v) gomap res" where
  "merge_entries [] m = Ok m"
| "merge_entries ((key, value) # kvs) m = bind_res (gomap_set key value m) (merge_entries kvs)"

definition merge_one :: "Inventory \<Rightarrow> Inventory \<Rightarrow> Inventory res" where
  "merge_one inven i =
     bind_res (merge_entries (gomap_entries (Inv_Items i)) (Inv_Items inven)) (\<lambda>items.
     bind_res (merge_entries (gomap_entries (Inv_Descriptions i)) (Inv_Descriptions inven)) (\<lambda>descriptions.
     bind_res (merge_entries (gomap_entries (Inv_Currencies i)) (Inv_Currencies inven)) (\<lambda>currencies.
     Ok (inven\<lparr>Inv_Items := items, Inv_Descriptions := descriptions, Inv_Currencies := currencies\<rparr>))))"

fun merge_rest :: "Inventory list \<Rightarrow> Inventory \<Rightarrow> Inventory res" where
  "merge_rest [] inven = Ok inven"
| "merge_rest (i # is) inven = bind_res (merge_one inven i) (merge_rest is)"

definition Merge :: "Inventory list \<Rightarrow> Inventory res" where
  "Merge p = (case p of [] \<Rightarrow> Panic ''index out of range'' | inven # is \<Rightarrow> merge_rest is inven)"

text \<open>
  The loop over the pages. Within its body \<open>next\<close> is declared anew, so that the outer \<open>next\<close>, which the
  loop's post statement reads, is always nil: \<open>latest\<close> is nil in the second round.
\<close>

function page_loop :: "(u64 \<Rightarrow> PartialInventory res) \<Rightarrow> PartialInventory option \<Rightarrow> Inventory \<Rightarrow> Inventory res" where
  "page_loop getNext None result = Panic ''nil pointer dereference''"
| "page_loop getNext (Some latest) result =
     (if \<not> Part_More latest then Ok result
      else bind_res (getNext (Part_MoreStart latest)) (\<lambda>page.
        if \<not> Part_Success page then Err (GoErr (''GetFullInventory API call failed: '' @ Part_Error page))
        else bind_res (Merge [result, the_inventory page]) (\<lambda>result. page_loop getNext None result)))"
  by pat_completeness auto
termination
  by (relation "measure (\<lambda>(_, latest, _). case latest of None \<Rightarrow> 0 | Some _ \<Rightarrow> 1)") auto

definition GetFullInventory :: "PartialInventory res \<Rightarrow> (u64 \<Rightarrow> PartialInventory res) \<Rightarrow> Inventory res" where
  "GetFullInventory getFirst getNext =
     bind_res getFirst (\<lambda>first.
     if \<not> Part_Success first then Err (GoErr (''GetFullInventory API call failed: '' @ Part_Error first))
     else page_loop getNext (Some first) (the_inventory first))"

section \<open>The user's own inventory\<close>

definition GetPartialOwnInventory :: "Site \<Rightarrow> u64 \<Rightarrow> u32 \<Rightarrow> u64 option \<Rightarrow> PartialInventory res" where
  "GetPartialOwnInventory site contextId appId start =
     DoInventoryRequest site (get_request
       (''http://steamcommunity.com/my/inventory/json/'' @ FormatUint (unat appId) @ ''/'' @ FormatUint (unat contextId))
       (Some (ToUrlValues ((''trading'', ''1'') #
         (case start of None \<Rightarrow> [] | Some start \<Rightarrow> [(''start'', FormatUint (unat start))])))))"

definition GetOwnInventory :: "Site \<Rightarrow> u64 \<Rightarrow> u32 \<Rightarrow> Inventory res" where
  "GetOwnInventory site contextId appId =
     GetFullInventory (GetPartialOwnInventory site contextId appId None)
       (\<lambda>start. GetPartialOwnInventory site contextId appId (Some start))"

section \<open>The applications with an inventory\<close>

record Context =
  Context_ContextId :: u64
  Context_AssetCount :: u32
  Context_Name :: string

definition zero_Context :: Context where
  "zero_Context = \<lparr>Context_ContextId = 0, Context_AssetCount = 0, Context_Name = []\<rparr>"

definition Context_fields :: "Context fields" where
  "Context_fields = [field ''id'' dec_uint_q Context_ContextId Context_ContextId_update,
     field ''asset_count'' dec_uint Context_AssetCount Context_AssetCount_update,
     field ''Name'' dec_string Context_Name Context_Name_update]"

type_synonym Contexts = "(string, Context option) gomap"

definition Contexts_Get :: "u64 \<Rightarrow> Contexts \<Rightarrow> Context option res" where
  "Contexts_Get contextId c = (case gomap_get c (FormatUint (unat contextId)) of
     Some x \<Rightarrow> Ok x | None \<Rightarrow> Err (GoErr ''context not found''))"

record InventoryApp =
  App_AppId :: u32
  App_Name :: string
  App_Icon :: string
  App_Link :: string
  App_AssetCount :: u32
  App_InventoryLogo :: string
  App_TradePermissions :: string
  App_Contexts :: Contexts

definition zero_InventoryApp :: InventoryApp where
  "zero_InventoryApp = \<lparr>App_AppId = 0, App_Name = [], App_Icon = [], App_Link = [], App_AssetCount = 0,
     App_InventoryLogo = [], App_TradePermissions = [], App_Contexts = None\<rparr>"

definition InventoryApp_fields :: "InventoryApp fields" where
  "InventoryApp_fields = [field ''AppId'' dec_uint App_AppId App_AppId_update, field ''Name'' dec_string App_Name App_Name_update,
     field ''Icon'' dec_string App_Icon App_Icon_update, field ''Link'' dec_string App_Link App_Link_update,
     field ''asset_count'' dec_uint App_AssetCount App_AssetCount_update,
     field ''inventory_logo'' dec_string App_InventoryLogo App_InventoryLogo_update,
     field ''trade_permissions'' dec_string App_TradePermissions App_TradePermissions_update,
     field ''rgContexts'' (dec_map None (dec_ptr zero_Context (dec_struct Context_fields))) App_Contexts App_Contexts_update]"

type_synonym InventoryApps = "(string, InventoryApp option) gomap"

definition InventoryApps_Get :: "u32 \<Rightarrow> InventoryApps \<Rightarrow> InventoryApp option res" where
  "InventoryApps_Get appId i = (case gomap_get i (FormatUint (unat appId)) of
     Some x \<Rightarrow> Ok x | None \<Rightarrow> Err (GoErr ''inventory app not found''))"

definition GetInventoryApps :: "Site \<Rightarrow> steamid \<Rightarrow> InventoryApps res" where
  "GetInventoryApps site steamId =
     (case site_do site (get_request (''http://steamcommunity.com/profiles/'' @ ToString steamId @ ''/inventory/'') None) of
        Inl err \<Rightarrow> Err err
      | Inr (code, respBody) \<Rightarrow>
          (case find_match (\<lambda>s. Option.bind (strip ''var g_rgAppContextData = '' s) (lazy_until CHR '';'')) respBody of
             None \<Rightarrow> Err (GoErr ''profile inventory not found in steam response'')
           | Some m \<Rightarrow> decode_as (dec_map None (dec_ptr zero_InventoryApp (dec_struct InventoryApp_fields))) None
               (site_parse site m)))"


section \<open>What they do\<close>

lemma map_union_upd: "k \<notin> dom n \<Longrightarrow> m(k \<mapsto> v) ++ n = m ++ n(k \<mapsto> v)"
  by (auto simp: map_add_def fun_eq_iff split: option.split)

text \<open>The entries of a Go map are merged into another as by the union of maps, the second one winning.\<close>

lemma merge_entries_union:
  assumes "m \<noteq> None" "distinct (map fst kvs)"
  shows "\<exists>m'. merge_entries kvs m = Ok m' \<and> m' \<noteq> None \<and> gomap_get m' = gomap_get m ++ map_of kvs"
  using assms
proof (induction kvs arbitrary: m)
  case (Cons kv kvs)
  obtain k v where kv: "kv = (k, v)" by fastforce
  obtain m1 where m1: "gomap_set k v m = Ok m1" "m1 \<noteq> None" using gomap_set_total [OF Cons.prems(1)] by blast
  have entry: "gomap_get m1 = (gomap_get m)(k \<mapsto> v)" by (rule ext) (simp add: gomap_get_set [OF m1(1)])
  obtain m' where m': "merge_entries kvs m1 = Ok m'" "m' \<noteq> None" "gomap_get m' = gomap_get m1 ++ map_of kvs"
    using Cons.IH [OF m1(2)] Cons.prems(2) by auto
  have "k \<notin> dom (map_of kvs)" using Cons.prems(2) by (simp add: kv dom_map_of_conv_image_fst)
  then have "gomap_get m' = gomap_get m ++ map_of (kv # kvs)"
    unfolding m'(3) entry kv map_of.simps fst_conv snd_conv by (rule map_union_upd)
  moreover have "merge_entries (kv # kvs) m = Ok m'" by (simp add: kv m1(1) m'(1))
  ultimately show ?case using m'(2) by blast
qed simp

lemma merge_gomap:
  assumes "m \<noteq> None" "gomap_wf p"
  obtains m' where "merge_entries (gomap_entries p) m = Ok m'" "m' \<noteq> None" "gomap_get m' = gomap_get m ++ gomap_get p"
proof -
  have "gomap_get p = map_of (gomap_entries p)" by (rule ext) (rule gomap_get_entries)
  then show ?thesis
    using merge_entries_union [OF assms(1), of "gomap_entries p"] assms(2) that by (auto simp: gomap_wf_def)
qed

definition page_wf :: "Inventory \<Rightarrow> bool" where
  "page_wf i \<longleftrightarrow> gomap_wf (Inv_Items i) \<and> gomap_wf (Inv_Currencies i) \<and> gomap_wf (Inv_Descriptions i)"

definition has_maps :: "Inventory \<Rightarrow> bool" where
  "has_maps i \<longleftrightarrow> Inv_Items i \<noteq> None \<and> Inv_Currencies i \<noteq> None \<and> Inv_Descriptions i \<noteq> None"

text \<open>The maps an inventory stands for, and the union of two inventories.\<close>

definition inventory_maps where
  "inventory_maps i = (gomap_get (Inv_Items i), gomap_get (Inv_Currencies i), gomap_get (Inv_Descriptions i))"

fun maps_add where
  "maps_add (a, b, c) (a', b', c') = (a ++ a', b ++ b', c ++ c')"

lemma merge_one_union:
  assumes "has_maps i" "page_wf p"
  shows "\<exists>m. merge_one i p = Ok m \<and> has_maps m \<and> Inv_AppInfo m = Inv_AppInfo i \<and>
    inventory_maps m = maps_add (inventory_maps i) (inventory_maps p)"
proof -
  obtain a where "merge_entries (gomap_entries (Inv_Items p)) (Inv_Items i) = Ok a" "a \<noteq> None"
    "gomap_get a = gomap_get (Inv_Items i) ++ gomap_get (Inv_Items p)"
    using assms merge_gomap [of "Inv_Items i" "Inv_Items p"] unfolding has_maps_def page_wf_def by blast
  moreover obtain b where "merge_entries (gomap_entries (Inv_Descriptions p)) (Inv_Descriptions i) = Ok b" "b \<noteq> None"
    "gomap_get b = gomap_get (Inv_Descriptions i) ++ gomap_get (Inv_Descriptions p)"
    using assms merge_gomap [of "Inv_Descriptions i" "Inv_Descriptions p"] unfolding has_maps_def page_wf_def by blast
  moreover obtain c where "merge_entries (gomap_entries (Inv_Currencies p)) (Inv_Currencies i) = Ok c" "c \<noteq> None"
    "gomap_get c = gomap_get (Inv_Currencies i) ++ gomap_get (Inv_Currencies p)"
    using assms merge_gomap [of "Inv_Currencies i" "Inv_Currencies p"] unfolding has_maps_def page_wf_def by blast
  ultimately show ?thesis by (simp add: merge_one_def has_maps_def inventory_maps_def)
qed

lemma merge_rest_union:
  assumes "has_maps i" "list_all page_wf ps"
  shows "\<exists>m. merge_rest ps i = Ok m \<and> Inv_AppInfo m = Inv_AppInfo i \<and>
    inventory_maps m = foldl maps_add (inventory_maps i) (map inventory_maps ps)"
  using assms
proof (induction ps arbitrary: i)
  case (Cons p ps)
  then obtain m where "merge_one i p = Ok m" "has_maps m" "Inv_AppInfo m = Inv_AppInfo i"
    "inventory_maps m = maps_add (inventory_maps i) (inventory_maps p)" using merge_one_union by fastforce
  then show ?case using Cons.IH [of m] Cons.prems(2) by auto
qed simp

text \<open>
  C29: \<open>Merge\<close> implements the union of the pages: the items, currencies and descriptions of the result, as maps, are
  those of the pages added up in their order, later pages winning, and the application is that of the
  first page. It succeeds on every list of pages whose first one has its three maps.
\<close>

theorem Merge_is_union:
  assumes "has_maps i" and "list_all page_wf ps"
  shows "\<exists>m. Merge (i # ps) = Ok m \<and> Inv_AppInfo m = Inv_AppInfo i \<and>
    inventory_maps m = foldl maps_add (inventory_maps i) (map inventory_maps ps)"
  using merge_rest_union [OF assms] by (simp add: Merge_def)

definition demo_inventory :: "(string \<times> Item option) list \<Rightarrow> Inventory" where
  "demo_inventory items = \<lparr>Inv_Items = Some items, Inv_Currencies = Some [], Inv_Descriptions = Some [], Inv_AppInfo = None\<rparr>"

theorem Merge_is_union_witness:
  "\<exists>m. Merge [demo_inventory [(''1'', None)], demo_inventory [(''1'', Some zero_Item), (''2'', None)]] = Ok m
    \<and> gomap_get (Inv_Items m) ''1'' = Some (Some zero_Item) \<and> gomap_get (Inv_Items m) ''2'' = Some None"
proof -
  obtain m where "Merge [demo_inventory [(''1'', None)], demo_inventory [(''1'', Some zero_Item), (''2'', None)]] = Ok m"
    "inventory_maps m = foldl maps_add (inventory_maps (demo_inventory [(''1'', None)]))
      (map inventory_maps [demo_inventory [(''1'', Some zero_Item), (''2'', None)]])"
    using Merge_is_union [of "demo_inventory [(''1'', None)]" "[demo_inventory [(''1'', Some zero_Item), (''2'', None)]]"]
    by (auto simp: has_maps_def page_wf_def gomap_wf_def demo_inventory_def)
  then show ?thesis by (auto simp: inventory_maps_def demo_inventory_def)
qed

lemma merge_entries_not_Err: "merge_entries kvs m \<noteq> Err e"
  by (induction kvs m rule: merge_entries.induct) (auto simp: gomap_set_def split: option.split)

lemma bind_res_not_Err: "m \<noteq> Err e \<Longrightarrow> (\<And>x. f x \<noteq> Err e) \<Longrightarrow> bind_res m f \<noteq> Err e"
  by (cases m) auto

lemma Merge_not_Err:
  assumes "ps \<noteq> []"
  shows "Merge ps \<noteq> Err e"
proof -
  have one: "merge_one a b \<noteq> Err e" for a b e
    unfolding merge_one_def by (intro bind_res_not_Err merge_entries_not_Err) auto
  have "merge_rest qs a \<noteq> Err e" for qs a
  proof (induction qs arbitrary: a)
    case (Cons q qs)
    show ?case unfolding merge_rest.simps by (rule bind_res_not_Err [OF one Cons.IH])
  qed simp
  then show ?thesis using assms by (cases ps) (auto simp: Merge_def)
qed

text \<open>
  C18: \<open>GetFullInventory\<close> returns an inventory exactly when the first page is a success and the only one: as soon
  as a second page has arrived successfully it panics, because the \<open>next\<close> of the loop is never set.
\<close>

theorem full_inventory_single_page:
  "(is_Ok (GetFullInventory getFirst getNext) \<longleftrightarrow>
      (case getFirst of Ok first \<Rightarrow> Part_Success first \<and> \<not> Part_More first | _ \<Rightarrow> False))
   \<and> (panics (GetFullInventory getFirst getNext) \<longleftrightarrow>
      (case getFirst of Ok first \<Rightarrow> Part_Success first \<and> Part_More first \<and>
          (case getNext (Part_MoreStart first) of Ok page \<Rightarrow> Part_Success page | Err _ \<Rightarrow> False | Panic _ \<Rightarrow> True)
        | Err _ \<Rightarrow> False | Panic _ \<Rightarrow> True))"
proof -
  have "\<not> is_Ok (bind_res (Merge (i # ps)) (page_loop getNext None)) \<and>
    panics (bind_res (Merge (i # ps)) (page_loop getNext None))" for i ps
    using Merge_not_Err [of "i # ps"] by (cases "Merge (i # ps)") auto
  then show ?thesis
    by (auto simp: GetFullInventory_def split: res.split)
qed

end
