(* ===== verification/Trade.thy ===== *)
theory Trade
  imports Inventory "HOL-Library.Multiset"
begin

text \<open>
  \<open>trade/tradeapi\<close> and \<open>trade\<close>: a trade between two users as its web page runs it. Each operation posts a request,
  decodes the status in the answer and updates the trade: the version, who is ready, the position in the
  event log, and the queue of events for the user.

  \<open>site\<close> is what the web site answers; \<open>order\<close> is the order in which \<open>range\<close> visits the map of log events.
\<close>

section \<open>status.go\<close>

record LogEvent =
  Event_SteamId :: steamid
  Event_Action :: u64
  Event_Timestamp :: u64
  Event_AppId :: u32
  Event_ContextId :: u64
  Event_AssetId :: u64
  Event_Text :: string
  Event_CurrencyId :: u64
  Event_OldAmount :: u64
  Event_NewAmount :: u64

definition zero_LogEvent :: LogEvent where
  "zero_LogEvent = \<lparr>Event_SteamId = 0, Event_Action = 0, Event_Timestamp = 0, Event_AppId = 0, Event_ContextId = 0,
     Event_AssetId = 0, Event_Text = [], Event_CurrencyId = 0, Event_OldAmount = 0, Event_NewAmount = 0\<rparr>"

definition LogEvent_fields :: "LogEvent fields" where
  "LogEvent_fields = [field ''SteamId'' dec_uint_q Event_SteamId Event_SteamId_update,
     field ''Action'' dec_uint_q Event_Action Event_Action_update,
     field ''Timestamp'' dec_uint Event_Timestamp Event_Timestamp_update,
     field ''AppId'' dec_uint Event_AppId Event_AppId_update,
     field ''ContextId'' dec_uint_q Event_ContextId Event_ContextId_update,
     field ''AssetId'' dec_uint_q Event_AssetId Event_AssetId_update,
     field ''Text'' dec_string Event_Text Event_Text_update,
     field ''CurrencyId'' dec_uint_q Event_CurrencyId Event_CurrencyId_update,
     field ''old_amount'' dec_uint_q Event_OldAmount Event_OldAmount_update,
     field ''amount'' dec_uint_q Event_NewAmount Event_NewAmount_update]"

definition Action_AddItem :: u64 where "Action_AddItem = 0"
definition Action_RemoveItem :: u64 where "Action_RemoveItem = 1"
definition Action_Ready :: u64 where "Action_Ready = 2"
definition Action_Unready :: u64 where "Action_Unready = 3"
definition Action_Accept :: u64 where "Action_Accept = 4"
definition Action_SetCurrency :: u64 where "Action_SetCurrency = 6"
definition Action_ChatMessage :: u64 where "Action_ChatMessage = 7"

type_synonym EventList = "(u64, LogEvent option) gomap"

definition dec_event :: "LogEvent option jdec" where
  "dec_event = dec_ptr zero_LogEvent (dec_struct LogEvent_fields)"

text \<open>The keys of an object are numbers of 32 bits; another key is a panic.\<close>

fun index_events :: "(string \<times> LogEvent option) list \<Rightarrow> EventList \<Rightarrow> EventList res" where
  "index_events [] e = Ok e"
| "index_events ((s, event) # es) e = (case ParseUint s 32 of
     (i, Some err) \<Rightarrow> Panic ''strconv.ParseUint: parsing error''
   | (i, None) \<Rightarrow> bind_res (gomap_set (word_of_nat i) event e) (index_events es))"

fun number_events :: "nat \<Rightarrow> LogEvent option list \<Rightarrow> EventList \<Rightarrow> EventList res" where
  "number_events i [] e = Ok e"
| "number_events i (event # a) e = bind_res (gomap_set (word_of_nat i) event e) (number_events (Suc i) a)"

text \<open>The list is an object from numbers to events, or an array.\<close>

definition EventList_UnmarshalJSON :: "EventList jdec" where
  "EventList_UnmarshalJSON data e =
     (let e = (case e of None \<Rightarrow> Some [] | Some m \<Rightarrow> Some m) in
      bind_res (dec_map None dec_event data (Some [])) (\<lambda>(obj, err).
      if err = None then map_res (\<lambda>e. (e, None)) (index_events (gomap_entries obj) e)
      else bind_res (dec_list None dec_event data []) (\<lambda>(a, err).
        if err \<noteq> None then Ok (e, err) else map_res (\<lambda>e. (e, None)) (number_events 0 a e))))"

record User =
  User_Ready :: bool
  User_Confirmed :: bool
  User_SecSinceTouch :: i64
  User_ConnectionPending :: bool
  User_Assets :: json
  User_Currency :: json

definition zero_User :: User where
  "zero_User = \<lparr>User_Ready = False, User_Confirmed = False, User_SecSinceTouch = 0, User_ConnectionPending = False,
     User_Assets = JNull, User_Currency = JNull\<rparr>"

definition User_fields :: "User fields" where
  "User_fields = [field ''Ready'' UintBool_UnmarshalJSON User_Ready User_Ready_update,
     field ''Confirmed'' UintBool_UnmarshalJSON User_Confirmed User_Confirmed_update,
     field ''sec_since_touch'' dec_int User_SecSinceTouch User_SecSinceTouch_update,
     field ''connection_pending'' dec_bool User_ConnectionPending User_ConnectionPending_update,
     field ''Assets'' dec_any User_Assets User_Assets_update,
     field ''Currency'' dec_any User_Currency User_Currency_update]"

type_synonym TradeStatus = u64

definition TradeStatus_Open :: TradeStatus where "TradeStatus_Open = 0"
definition TradeStatus_Complete :: TradeStatus where "TradeStatus_Complete = 1"
definition TradeStatus_Empty :: TradeStatus where "TradeStatus_Empty = 2"
definition TradeStatus_Cancelled :: TradeStatus where "TradeStatus_Cancelled = 3"
definition TradeStatus_Timeout :: TradeStatus where "TradeStatus_Timeout = 4"
definition TradeStatus_Failed :: TradeStatus where "TradeStatus_Failed = 5"

record Status =
  Status_Success :: bool
  Status_Error :: string
  Status_NewVersion :: bool
  Status_TradeStatus :: TradeStatus
  Status_Version :: u64
  Status_LogPos :: i64
  Status_Me :: User
  Status_Them :: User
  Status_Events :: EventList

definition zero_Status :: Status where
  "zero_Status = \<lparr>Status_Success = False, Status_Error = [], Status_NewVersion = False, Status_TradeStatus = 0,
     Status_Version = 0, Status_LogPos = 0, Status_Me = zero_User, Status_Them = zero_User, Status_Events = None\<rparr>"

definition Status_fields :: "Status fields" where
  "Status_fields = [field ''Success'' dec_bool Status_Success Status_Success_update,
     field ''Error'' dec_string Status_Error Status_Error_update,
     field ''newversion'' dec_bool Status_NewVersion Status_NewVersion_update,
     field ''trade_status'' dec_uint Status_TradeStatus Status_TradeStatus_update,
     field ''Version'' dec_uint Status_Version Status_Version_update,
     field ''LogPos'' dec_int Status_LogPos Status_LogPos_update,
     field ''Me'' (dec_struct User_fields) Status_Me Status_Me_update,
     field ''Them'' (dec_struct User_fields) Status_Them Status_Them_update,
     field ''Events'' EventList_UnmarshalJSON Status_Events Status_Events_update]"

section \<open>tradeapi/trade.go\<close>

record TradeApi =
  api_cookies :: Cookies
  api_other :: steamid
  api_LogPos :: u64
  api_Version :: u64
  api_sessionId :: string
  api_baseUrl :: string

definition tradeapi_New :: "string \<Rightarrow> string \<Rightarrow> string \<Rightarrow> steamid \<Rightarrow> TradeApi" where
  "tradeapi_New sessionId steamLogin steamLoginSecure other =
     \<lparr>api_cookies = SetCookies sessionId steamLogin steamLoginSecure, api_other = other, api_LogPos = 0, api_Version = 1,
      api_sessionId = sessionId,
      api_baseUrl = ''https://steamcommunity.com/trade/'' @ FormatUint (unat other) @ ''/''\<rparr>"

definition probation_match :: "string \<Rightarrow> string option" where
  "probation_match s = (case strip ''var g_bTradePartnerProbation = '' s of
     None \<Rightarrow> None
   | Some s \<Rightarrow> (let w = takeWhile is_word_char s in
       if w \<noteq> [] \<and> take 1 (drop (length w) s) = '';'' then Some w else None))"

text \<open>\<open>GetMain\<close>: whether the partner is on probation.\<close>

definition api_GetMain :: "Site \<Rightarrow> TradeApi \<Rightarrow> bool res" where
  "api_GetMain site t = (case site_do site (get_request (api_baseUrl t) None) of
     Inl err \<Rightarrow> Err err
   | Inr (code, body) \<Rightarrow> (case find_match probation_match body of
       None \<Rightarrow> Err (GoErr ''tradeapi.GetMain: Could not find probation info'')
     | Some w \<Rightarrow> Ok (w = ''true'')))"

definition postWithStatus :: "Site \<Rightarrow> TradeApi \<Rightarrow> string \<Rightarrow> (string \<times> string) list \<Rightarrow> Status res" where
  "postWithStatus site t url data =
     (case site_do site (add_header ''Referer'' (api_baseUrl t) (NewPostForm url (ToUrlValues data))) of
        Inl err \<Rightarrow> Err err
      | Inr (code, body) \<Rightarrow> decode_as (dec_struct Status_fields) zero_Status (site_parse site body))"

definition api_GetStatus :: "Site \<Rightarrow> TradeApi \<Rightarrow> Status res" where
  "api_GetStatus site t = postWithStatus site t (api_baseUrl t @ ''tradestatus/'')
     [(''sessionid'', api_sessionId t), (''logpos'', FormatUint (unat (api_LogPos t))), (''version'', FormatUint (unat (api_Version t)))]"

definition api_GetForeignInventory :: "Site \<Rightarrow> TradeApi \<Rightarrow> u64 \<Rightarrow> u32 \<Rightarrow> u64 option \<Rightarrow> PartialInventory res" where
  "api_GetForeignInventory site t contextId appId start =
     DoInventoryRequest site (add_header ''Referer'' (api_baseUrl t)
       (get_request (api_baseUrl t @ ''foreigninventory'') (Some (ToUrlValues (
         [(''sessionid'', api_sessionId t), (''steamid'', FormatUint (unat (api_other t))),
          (''contextid'', FormatUint (unat contextId)), (''appid'', FormatUint (unat appId))] @
         (case start of None \<Rightarrow> [] | Some start \<Rightarrow> [(''start'', FormatUint (unat start))]))))))"

definition api_GetOwnInventory :: "Site \<Rightarrow> TradeApi \<Rightarrow> u64 \<Rightarrow> u32 \<Rightarrow> Inventory res" where
  "api_GetOwnInventory site t contextId appId = GetOwnInventory site contextId appId"

definition api_Chat :: "Site \<Rightarrow> string \<Rightarrow> TradeApi \<Rightarrow> Status res" where
  "api_Chat site message t = postWithStatus site t (api_baseUrl t @ ''chat'')
     [(''sessionid'', api_sessionId t), (''logpos'', FormatUint (unat (api_LogPos t))),
      (''version'', FormatUint (unat (api_Version t))), (''message'', message)]"

definition api_AddItem :: "Site \<Rightarrow> u64 \<Rightarrow> u64 \<Rightarrow> u64 \<Rightarrow> u32 \<Rightarrow> TradeApi \<Rightarrow> Status res" where
  "api_AddItem site slot itemId contextId appId t = postWithStatus site t (api_baseUrl t @ ''additem'')
     [(''sessionid'', api_sessionId t), (''slot'', FormatUint (unat slot)), (''itemid'', FormatUint (unat itemId)),
      (''contextid'', FormatUint (unat contextId)), (''appid'', FormatUint (unat appId))]"

definition api_RemoveItem :: "Site \<Rightarrow> u64 \<Rightarrow> u64 \<Rightarrow> u64 \<Rightarrow> u32 \<Rightarrow> TradeApi \<Rightarrow> Status res" where
  "api_RemoveItem site slot itemId contextId appId t = postWithStatus site t (api_baseUrl t @ ''removeitem'')
     [(''sessionid'', api_sessionId t), (''slot'', FormatUint (unat slot)), (''itemid'', FormatUint (unat itemId)),
      (''contextid'', FormatUint (unat contextId)), (''appid'', FormatUint (unat appId))]"

definition api_SetCurrency :: "Site \<Rightarrow> u64 \<Rightarrow> u64 \<Rightarrow> u64 \<Rightarrow> u32 \<Rightarrow> TradeApi \<Rightarrow> Status res" where
  "api_SetCurrency site amount currencyId contextId appId t = postWithStatus site t (api_baseUrl t @ ''setcurrency'')
     [(''sessionid'', api_sessionId t), (''amount'', FormatUint (unat amount)), (''currencyid'', FormatUint (unat currencyId)),
      (''contextid'', FormatUint (unat contextId)), (''appid'', FormatUint (unat appId))]"

definition api_SetReady :: "Site \<Rightarrow> bool \<Rightarrow> TradeApi \<Rightarrow> Status res" where
  "api_SetReady site ready t = postWithStatus site t (api_baseUrl t @ ''toggleready'')
     [(''sessionid'', api_sessionId t), (''version'', FormatUint (unat (api_Version t))),
      (''ready'', if ready then ''true'' else ''false'')]"

definition api_Confirm :: "Site \<Rightarrow> TradeApi \<Rightarrow> Status res" where
  "api_Confirm site t = postWithStatus site t (api_baseUrl t @ ''confirm'')
     [(''sessionid'', api_sessionId t), (''version'', FormatUint (unat (api_Version t)))]"

definition api_Cancel :: "Site \<Rightarrow> TradeApi \<Rightarrow> Status res" where
  "api_Cancel site t = postWithStatus site t (api_baseUrl t @ ''cancel'') [(''sessionid'', api_sessionId t)]"

section \<open>types.go\<close>

record TradedItem =
  Traded_AppId :: u32
  Traded_ContextId :: u64
  Traded_AssetId :: u64

record TradedCurrency =
  TradedC_AppId :: u32
  TradedC_ContextId :: u64
  TradedC_CurrencyId :: u64

definition newItem :: "LogEvent \<Rightarrow> TradedItem" where
  "newItem event = \<lparr>Traded_AppId = Event_AppId event, Traded_ContextId = Event_ContextId event,
     Traded_AssetId = Event_AssetId event\<rparr>"

definition newCurrency :: "LogEvent \<Rightarrow> TradedCurrency" where
  "newCurrency event = \<lparr>TradedC_AppId = Event_AppId event, TradedC_ContextId = Event_ContextId event,
     TradedC_CurrencyId = Event_CurrencyId event\<rparr>"

datatype TradeEndReason = Reason_Complete | Reason_Cancelled | Reason_Timeout | Reason_Failed

datatype TradeEvent =
    TradeEndedEvent TradeEndReason
  | ItemAddedEvent TradedItem
  | ItemRemovedEvent TradedItem
  | ReadyEvent
  | UnreadyEvent
  | SetCurrencyEvent TradedCurrency u64 u64
  | ChatEvent string

section \<open>trade.go\<close>

text \<open>\<open>queuedEvents\<close> is nil when it is empty. Times are in nanoseconds.\<close>

record Trade =
  T_ThemId :: steamid
  T_MeReady :: bool
  T_ThemReady :: bool
  T_lastPoll :: int
  T_queuedEvents :: "TradeEvent list"
  T_api :: TradeApi

definition trade_New :: "string \<Rightarrow> string \<Rightarrow> string \<Rightarrow> steamid \<Rightarrow> Trade" where
  "trade_New sessionId steamLogin steamLoginSecure other =
     \<lparr>T_ThemId = other, T_MeReady = False, T_ThemReady = False, T_lastPoll = 0, T_queuedEvents = [],
      T_api = tradeapi_New sessionId steamLogin steamLoginSecure other\<rparr>"

definition trade_Version :: "Trade \<Rightarrow> u64" where
  "trade_Version t = api_Version (T_api t)"

definition trade_Events :: "Trade \<Rightarrow> TradeEvent list \<times> Trade" where
  "trade_Events t = (T_queuedEvents t, t\<lparr>T_queuedEvents := []\<rparr>)"

definition addEvent :: "TradeEvent \<Rightarrow> Trade \<Rightarrow> Trade" where
  "addEvent event t = t\<lparr>T_queuedEvents := T_queuedEvents t @ [event]\<rparr>"

text \<open>The \<open>switch\<close> over the action of one event of the partner.\<close>

definition apply_event :: "LogEvent \<Rightarrow> Trade \<Rightarrow> Trade" where
  "apply_event event t =
     (if Event_Action event = Action_AddItem then addEvent (ItemAddedEvent (newItem event)) t
      else if Event_Action event = Action_RemoveItem then addEvent (ItemRemovedEvent (newItem event)) t
      else if Event_Action event = Action_Ready then addEvent ReadyEvent (t\<lparr>T_ThemReady := True\<rparr>)
      else if Event_Action event = Action_Unready then addEvent UnreadyEvent (t\<lparr>T_ThemReady := False\<rparr>)
      else if Event_Action event = Action_SetCurrency then
        addEvent (SetCurrencyEvent (newCurrency event) (Event_OldAmount event) (Event_NewAmount event)) t
      else if Event_Action event = Action_ChatMessage then addEvent (ChatEvent (Event_Text event)) t
      else t)"

fun event_loop :: "(u64 \<times> LogEvent option) list \<Rightarrow> u64 \<Rightarrow> Trade \<Rightarrow> (u64 \<times> Trade) res" where
  "event_loop [] lastLogPos t = Ok (lastLogPos, t)"
| "event_loop ((i, event) # es) lastLogPos t =
     (if i < api_LogPos (T_api t) then event_loop es lastLogPos t
      else (case event of
          None \<Rightarrow> Panic ''nil pointer dereference''
        | Some event \<Rightarrow>
            if Event_SteamId event \<noteq> T_ThemId t then event_loop es lastLogPos t
            else event_loop es (if lastLogPos < i then i else lastLogPos) (apply_event event t)))"

type_synonym log_order = "(u64 \<times> LogEvent option) list \<Rightarrow> (u64 \<times> LogEvent option) list"

definition set_LogPos :: "u64 \<Rightarrow> Trade \<Rightarrow> Trade" where
  "set_LogPos n t = t\<lparr>T_api := (T_api t)\<lparr>api_LogPos := n\<rparr>\<rparr>"

definition updateEvents :: "log_order \<Rightarrow> EventList \<Rightarrow> Trade \<Rightarrow> Trade res" where
  "updateEvents order events t =
     (if gomap_entries events = [] then Ok t
      else bind_res (event_loop (order (gomap_entries events)) 0 t) (\<lambda>(lastLogPos, t). Ok (set_LogPos (lastLogPos + 1) t)))"

definition end_event :: "TradeStatus \<Rightarrow> Trade \<Rightarrow> Trade" where
  "end_event s t =
     (if s = TradeStatus_Complete then addEvent (TradeEndedEvent Reason_Complete) t
      else if s = TradeStatus_Cancelled then addEvent (TradeEndedEvent Reason_Cancelled) t
      else if s = TradeStatus_Timeout then addEvent (TradeEndedEvent Reason_Timeout) t
      else if s = TradeStatus_Failed then addEvent (TradeEndedEvent Reason_Failed) t
      else t)"

definition onStatus :: "log_order \<Rightarrow> Status \<Rightarrow> Trade \<Rightarrow> (go_err option \<times> Trade) res" where
  "onStatus order status t =
     (if \<not> Status_Success status then
        Ok (Some (GoErr (''trade: returned status not successful! error message: '' @ Status_Error status)), t)
      else
        let t = (if Status_NewVersion status then
                   t\<lparr>T_api := (T_api t)\<lparr>api_Version := Status_Version status\<rparr>,
                     T_MeReady := User_Ready (Status_Me status), T_ThemReady := User_Ready (Status_Them status)\<rparr>
                 else t);
            t = end_event (Status_TradeStatus status) t
        in map_res (\<lambda>t. (None, t)) (updateEvents order (Status_Events status) t))"

section \<open>actions.go\<close>

text \<open>The error of \<open>onStatus\<close> is dropped.\<close>

definition action :: "log_order \<Rightarrow> Status res \<Rightarrow> Trade \<Rightarrow> (go_err option \<times> Trade) res" where
  "action order r t = (case r of
     Panic p \<Rightarrow> Panic p
   | Err err \<Rightarrow> Ok (Some err, t)
   | Ok status \<Rightarrow> map_res (\<lambda>(_, t). (None, t)) (onStatus order status t))"

definition pollTimeout :: int where "pollTimeout = 1000000000"

text \<open>\<open>Poll\<close> at the time \<open>now\<close>; \<open>later\<close> is the time after the sleep, whose length is the third result.\<close>

definition Poll ::
  "Site \<Rightarrow> log_order \<Rightarrow> int \<Rightarrow> int \<Rightarrow> Trade \<Rightarrow> (TradeEvent list \<times> go_err option \<times> int \<times> Trade) res" where
  "Poll site order now later t =
     (if T_queuedEvents t \<noteq> [] then (case trade_Events t of (es, t) \<Rightarrow> Ok (es, None, 0, t))
      else
        let d = now - T_lastPoll t;
            slept = (if d < pollTimeout then pollTimeout - d else 0);
            t = t\<lparr>T_lastPoll := later\<rparr>
        in bind_res (action order (api_GetStatus site (T_api t)) t) (\<lambda>(err, t).
           if err \<noteq> None then Ok ([], err, slept, t)
           else (case trade_Events t of (es, t) \<Rightarrow> Ok (es, None, slept, t))))"

definition GetTheirInventory :: "Site \<Rightarrow> u64 \<Rightarrow> u32 \<Rightarrow> Trade \<Rightarrow> Inventory res" where
  "GetTheirInventory site contextId appId t =
     GetFullInventory (api_GetForeignInventory site (T_api t) contextId appId None)
       (\<lambda>start. api_GetForeignInventory site (T_api t) contextId appId (Some start))"

definition trade_GetOwnInventory :: "Site \<Rightarrow> u64 \<Rightarrow> u32 \<Rightarrow> Trade \<Rightarrow> Inventory res" where
  "trade_GetOwnInventory site contextId appId t = api_GetOwnInventory site (T_api t) contextId appId"

definition trade_GetMain :: "Site \<Rightarrow> Trade \<Rightarrow> bool res" where
  "trade_GetMain site t = api_GetMain site (T_api t)"

definition AddItem :: "Site \<Rightarrow> log_order \<Rightarrow> u64 \<Rightarrow> TradedItem \<Rightarrow> Trade \<Rightarrow> (go_err option \<times> Trade) res" where
  "AddItem site order slot item t = action order
     (api_AddItem site slot (Traded_AssetId item) (Traded_ContextId item) (Traded_AppId item) (T_api t)) t"

definition RemoveItem :: "Site \<Rightarrow> log_order \<Rightarrow> u64 \<Rightarrow> TradedItem \<Rightarrow> Trade \<Rightarrow> (go_err option \<times> Trade) res" where
  "RemoveItem site order slot item t = action order
     (api_RemoveItem site slot (Traded_AssetId item) (Traded_ContextId item) (Traded_AppId item) (T_api t)) t"

definition trade_Chat :: "Site \<Rightarrow> log_order \<Rightarrow> string \<Rightarrow> Trade \<Rightarrow> (go_err option \<times> Trade) res" where
  "trade_Chat site order message t = action order (api_Chat site message (T_api t)) t"

definition SetCurrency :: "Site \<Rightarrow> log_order \<Rightarrow> u64 \<Rightarrow> TradedCurrency \<Rightarrow> Trade \<Rightarrow> (go_err option \<times> Trade) res" where
  "SetCurrency site order amount currency t = action order
     (api_SetCurrency site amount (TradedC_CurrencyId currency) (TradedC_ContextId currency) (TradedC_AppId currency) (T_api t)) t"

definition SetReady :: "Site \<Rightarrow> log_order \<Rightarrow> bool \<Rightarrow> Trade \<Rightarrow> (go_err option \<times> Trade) res" where
  "SetReady site order ready t = action order (api_SetReady site ready (T_api t)) t"

definition Confirm :: "Site \<Rightarrow> log_order \<Rightarrow> Trade \<Rightarrow> (go_err option \<times> Trade) res" where
  "Confirm site order t = action order (api_Confirm site (T_api t)) t"

definition Cancel :: "Site \<Rightarrow> log_order \<Rightarrow> Trade \<Rightarrow> (go_err option \<times> Trade) res" where
  "Cancel site order t = action order (api_Cancel site (T_api t)) t"

end
