(* ===== verification/Trade_Facts.thy ===== *)
theory Trade_Facts
  imports Trade
begin

text \<open>What the operations of theory Trade do with the event log and with the answers of the web site.\<close>

section \<open>The event log\<close>

definition partner_events :: "Trade \<Rightarrow> (u64 \<times> LogEvent option) list \<Rightarrow> (u64 \<times> LogEvent) list" where
  "partner_events t es = map (\<lambda>(i, e). (i, the e)) (filter (\<lambda>(i, e). \<not> i < api_LogPos (T_api t) \<and>
     (case e of None \<Rightarrow> False | Some e \<Rightarrow> Event_SteamId e = T_ThemId t)) es)"

text \<open>No event at or after the log position is nil.\<close>

definition no_nil_events :: "Trade \<Rightarrow> (u64 \<times> LogEvent option) list \<Rightarrow> bool" where
  "no_nil_events t es \<longleftrightarrow> list_all (\<lambda>(i, e). i < api_LogPos (T_api t) \<or> e \<noteq> None) es"

text \<open>What the user is told of an event.\<close>

definition event_of :: "LogEvent \<Rightarrow> TradeEvent list" where
  "event_of e =
     (if Event_Action e = Action_AddItem then [ItemAddedEvent (newItem e)]
      else if Event_Action e = Action_RemoveItem then [ItemRemovedEvent (newItem e)]
      else if Event_Action e = Action_Ready then [ReadyEvent]
      else if Event_Action e = Action_Unready then [UnreadyEvent]
      else if Event_Action e = Action_SetCurrency then [SetCurrencyEvent (newCurrency e) (Event_OldAmount e) (Event_NewAmount e)]
      else if Event_Action e = Action_ChatMessage then [ChatEvent (Event_Text e)]
      else [])"

lemma apply_event_fields [simp]:
  "T_queuedEvents (apply_event e t) = T_queuedEvents t @ event_of e"
  "T_api (apply_event e t) = T_api t" "T_ThemId (apply_event e t) = T_ThemId t"
  "T_MeReady (apply_event e t) = T_MeReady t" "T_lastPoll (apply_event e t) = T_lastPoll t"
  unfolding apply_event_def event_of_def by (auto simp: addEvent_def)

lemma partner_events_apply [simp]: "partner_events (apply_event e t) es = partner_events t es"
  by (simp add: partner_events_def cong: option.case_cong)

lemma no_nil_events_apply [simp]: "no_nil_events (apply_event e t) es = no_nil_events t es"
  by (simp add: no_nil_events_def)

lemma step_max: "(if n < i then i else n) = max n (i :: u64)"
  by (auto simp: max_def)

lemma event_loop_result:
  assumes "no_nil_events t es"
  shows "event_loop es n t = Ok (foldl max n (map fst (partner_events t es)), fold apply_event (map snd (partner_events t es)) t)"
  using assms
proof (induction es arbitrary: n t)
  case (Cons p es)
  obtain i e where p: "p = (i, e)" by fastforce
  have rest: "no_nil_events t es" using Cons.prems by (simp add: no_nil_events_def)
  consider "i < api_LogPos (T_api t)" | x where "\<not> i < api_LogPos (T_api t)" "e = Some x"
    using Cons.prems by (auto simp: p no_nil_events_def)
  then show ?case
  proof cases
    case 1
    then show ?thesis using Cons.IH [OF rest] by (simp add: p partner_events_def)
  next
    case 2
    show ?thesis
    proof (cases "Event_SteamId x = T_ThemId t")
      case True
      have "partner_events t (p # es) = (i, x) # partner_events t es"
        using 2 True by (simp add: p partner_events_def)
      then show ?thesis
        using Cons.IH [of "apply_event x t" "if n < i then i else n"] rest 2 True
        by (simp add: p step_max)
    next
      case False
      then show ?thesis using Cons.IH [OF rest] 2 by (simp add: p partner_events_def)
    qed
  qed
qed (simp add: partner_events_def)

lemma fold_apply_event [simp]:
  "T_queuedEvents (fold apply_event es t) = T_queuedEvents t @ concat (map event_of es)"
  "T_api (fold apply_event es t) = T_api t" "T_ThemId (fold apply_event es t) = T_ThemId t"
  by (induction es arbitrary: t) simp_all

lemma foldl_max: "foldl max (n :: u64) xs = Max (insert n (set xs))"
proof (induction xs arbitrary: n)
  case (Cons x xs)
  show ?case by (cases "xs = []") (simp_all add: Cons.IH max.assoc insert_commute)
qed simp

lemma set_LogPos_fields [simp]:
  "T_queuedEvents (set_LogPos n t) = T_queuedEvents t" "api_LogPos (T_api (set_LogPos n t)) = n"
  "api_Version (T_api (set_LogPos n t)) = api_Version (T_api t)" "T_ThemId (set_LogPos n t) = T_ThemId t"
  by (simp_all add: set_LogPos_def)

lemma partner_events_mset: "mset (order es) = mset es \<Longrightarrow> mset (partner_events t (order es)) = mset (partner_events t es)"
  by (simp add: partner_events_def)

lemma mset_concat_map: "mset xs = mset ys \<Longrightarrow> mset (concat (map f xs)) = mset (concat (map f ys))"
  by (metis (no_types, lifting) mset_concat mset_map sum_mset_sum_list map_map)

lemma no_nil_events_mset: "mset (order es) = mset es \<Longrightarrow> no_nil_events t (order es) = no_nil_events t es"
  unfolding no_nil_events_def list_all_iff by (metis set_mset_mset)

text \<open>
  C23: whatever the order in which the log of a status is visited, exactly the partner's events at or after the
  log position are queued for the user, and the position becomes one more than the last of them. Since the
  order of \<open>range\<close> is arbitrary, the queue is determined only as a multiset.
\<close>

theorem log_events_are_queued:
  assumes "\<And>es. mset (order es) = mset es" and "gomap_entries events \<noteq> []" and "no_nil_events t (gomap_entries events)"
  shows "\<exists>t'. updateEvents order events t = Ok t' \<and>
    mset (T_queuedEvents t') = mset (T_queuedEvents t) + mset (concat (map (event_of \<circ> snd) (partner_events t (gomap_entries events)))) \<and>
    api_LogPos (T_api t') = Max (insert 0 (set (map fst (partner_events t (gomap_entries events))))) + 1 \<and>
    api_Version (T_api t') = api_Version (T_api t)"
proof -
  let ?es = "gomap_entries events" let ?ps = "partner_events t ?es" let ?qs = "partner_events t (order ?es)"
  have qs: "mset ?qs = mset ?ps" by (rule partner_events_mset) (rule assms(1))
  then have "set (map fst ?qs) = set (map fst ?ps)" by (metis mset_eq_setD set_map)
  moreover have "mset (concat (map (event_of \<circ> snd) ?qs)) = mset (concat (map (event_of \<circ> snd) ?ps))"
    by (rule mset_concat_map [OF qs])
  moreover have "event_loop (order ?es) 0 t = Ok (foldl max 0 (map fst ?qs), fold apply_event (map snd ?qs) t)"
    by (rule event_loop_result) (use assms no_nil_events_mset in blast)
  ultimately show ?thesis
    using assms(2) by (simp add: updateEvents_def foldl_max comp_def)
qed

definition demo_trade :: Trade where
  "demo_trade = trade_New ''s'' ''l'' ''ls'' 7"

definition demo_chat :: "steamid \<Rightarrow> string \<Rightarrow> LogEvent" where
  "demo_chat who text = zero_LogEvent\<lparr>Event_SteamId := who, Event_Action := Action_ChatMessage, Event_Text := text\<rparr>"

theorem log_events_are_queued_witness:
  "\<exists>t'. updateEvents rev (Some [(3, Some (demo_chat 7 ''hi'')), (4, Some (demo_chat 9 ''me''))]) demo_trade = Ok t' \<and>
    T_queuedEvents t' = [ChatEvent ''hi''] \<and> api_LogPos (T_api t') = 4"
proof -
  let ?e = "Some [(3 :: u64, Some (demo_chat 7 ''hi'')), (4, Some (demo_chat 9 ''me''))]"
  have p: "partner_events demo_trade [(3, Some (demo_chat 7 ''hi'')), (4, Some (demo_chat 9 ''me''))] = [(3, demo_chat 7 ''hi'')]"
    by (simp add: partner_events_def demo_trade_def trade_New_def tradeapi_New_def demo_chat_def)
  have n: "no_nil_events demo_trade (gomap_entries ?e)" by (simp add: no_nil_events_def)
  obtain t' where "updateEvents rev ?e demo_trade = Ok t'"
    "mset (T_queuedEvents t') = mset (T_queuedEvents demo_trade) + mset (event_of (demo_chat 7 ''hi''))"
    "api_LogPos (T_api t') = Max {0, 3} + 1"
    using log_events_are_queued [of rev ?e demo_trade] n by (auto simp: p)
  moreover have "T_queuedEvents demo_trade = []" by (simp add: demo_trade_def trade_New_def)
  moreover have "event_of (demo_chat 7 ''hi'') = [ChatEvent ''hi'']" by code_simp
  ultimately show ?thesis by (simp add: max_def)
qed


lemma updateEvents_single:
  "updateEvents (\<lambda>es. es) (Some [(i, Some e)]) t = Ok
     (if i < api_LogPos (T_api t) \<or> Event_SteamId e \<noteq> T_ThemId t then set_LogPos 1 t
      else set_LogPos (i + 1) (apply_event e t))"
  by (auto simp: updateEvents_def word_gt_0)



section \<open>Answers\<close>

text \<open>
  C33: an answer that is not a success is not an error for the user: every operation drops the error of \<open>onStatus\<close>,
  reports none, and leaves the trade as it was; \<open>Poll\<close> then returns no events and no error. Only a request that
  fails or an answer that cannot be decoded is reported.
\<close>

theorem unsuccessful_status_is_silent:
  assumes "\<not> Status_Success status"
  shows "action order (Ok status) t = Ok (None, t) \<and> action order (Err err) t = Ok (Some err, t) \<and>
    (T_queuedEvents t = [] \<longrightarrow> api_GetStatus site (T_api t) = Ok status \<longrightarrow>
      (\<exists>slept. Poll site order now later t = Ok ([], None, slept, t\<lparr>T_lastPoll := later\<rparr>)))"
  using assms by (auto simp: action_def onStatus_def Poll_def trade_Events_def Let_def)

theorem unsuccessful_status_is_silent_witness:
  "action rev (Ok zero_Status) demo_trade = Ok (None, demo_trade)"
  using unsuccessful_status_is_silent [of zero_Status rev demo_trade] by (simp add: zero_Status_def)

section \<open>The two forms of the event list\<close>

lemma FormatUint_inj: "FormatUint a = FormatUint b \<Longrightarrow> a = b"
  by (metis parse_FormatUint max.cobounded1 max.cobounded2 prod.inject)

lemma first_error_None: "first_error a b = None \<longleftrightarrow> a = None \<and> b = None"
  by (cases a) auto

lemma update_new: "k \<notin> fst ` set m \<Longrightarrow> AList.update k v m = m @ [(k, v)]"
  by (induction m) auto

lemma dec_entries_zip:
  assumes "dec_elems zero d js = Ok (xs, None)" "length ks = length js" "distinct (map fst m @ ks)"
  shows "dec_entries zero d (zip ks js) m = Ok (m @ zip ks xs, None)"
  using assms
proof (induction js arbitrary: ks xs m)
  case (Cons j js)
  obtain k ks' where ks: "ks = k # ks'" using Cons.prems(2) by (cases ks) auto
  obtain x e where x: "d j zero = Ok (x, e)" using Cons.prems(1) by (auto simp: bind_res_Ok_iff)
  obtain xs' where xs: "dec_elems zero d js = Ok (xs', None)" "xs = x # xs'" "e = None"
    using Cons.prems(1) x by (cases e) (auto simp: bind_res_Ok_iff)
  have "AList.update k x m = m @ [(k, x)]" using Cons.prems(3) by (intro update_new) (auto simp: ks)
  then show ?case
    using Cons.IH [OF xs(1), of ks' "m @ [(k, x)]"] Cons.prems(2,3) by (simp add: ks xs x)
qed simp

lemma index_numbers:
  "i + length xs \<le> 2 ^ 32 \<Longrightarrow> index_events (zip (map FormatUint [i..<i + length xs]) xs) e = number_events i xs e"
proof (induction xs arbitrary: i e)
  case (Cons x xs)
  have "[i..<i + length (x # xs)] = i # [Suc i..<Suc i + length xs]" using upt_conv_Cons [of i "i + length (x # xs)"] by (simp del: upt_Suc)
  moreover have "i < 2 ^ 32" using Cons.prems by simp
  moreover have "index_events (zip (map FormatUint [Suc i..<Suc i + length xs]) xs) = number_events (Suc i) xs"
    using Cons.prems by (intro ext Cons.IH) simp
  ultimately show ?case by (simp del: upt_Suc)
qed simp

lemma number_events_Ok: "m \<noteq> None \<Longrightarrow> \<exists>m'. number_events i xs m = Ok m' \<and> m' \<noteq> None"
proof (induction xs arbitrary: i m)
  case (Cons x xs)
  then show ?case using gomap_set_total [OF Cons.prems, of "word_of_nat i" x] by auto
qed simp

text \<open>
  C30: the two forms in which Steam sends the events are equivalent: an array, and the object that has each element
  under the decimal text of its index, decode to the same list of events, without an error.
\<close>

theorem event_list_forms:
  assumes "dec_elems None dec_event js = Ok (xs, None)" and "length js \<le> 2 ^ 32"
  shows "EventList_UnmarshalJSON (JObj (zip (map FormatUint [0..<length js]) js)) e = EventList_UnmarshalJSON (JArr js) e \<and>
    (\<exists>m. EventList_UnmarshalJSON (JArr js) e = Ok (m, None))"
proof -
  have len: "length xs = length js"
    using assms(1) by (induction js arbitrary: xs) (auto simp: bind_res_Ok_iff first_error_None)
  have "distinct (map FormatUint [0..<length js])"
    using FormatUint_inj by (simp add: distinct_map inj_on_def)
  then have obj: "dec_entries None dec_event (zip (map FormatUint [0..<length js]) js) [] =
      Ok (zip (map FormatUint [0..<length js]) xs, None)"
    using dec_entries_zip [OF assms(1), of "map FormatUint [0..<length js]" "[]"] by simp
  let ?e = "case e of None \<Rightarrow> Some [] | Some m \<Rightarrow> Some m"
  have "?e \<noteq> None" by (cases e) auto
  then obtain m where m: "number_events 0 xs ?e = Ok m" using number_events_Ok by blast
  have "EventList_UnmarshalJSON (JArr js) e = Ok (m, None)"
    using m assms(1) by (simp add: EventList_UnmarshalJSON_def type_error_def)
  moreover have "EventList_UnmarshalJSON (JObj (zip (map FormatUint [0..<length js]) js)) e = Ok (m, None)"
    using m obj index_numbers [of 0 xs ?e] assms(2) by (simp add: EventList_UnmarshalJSON_def len)
  ultimately show ?thesis by simp
qed


theorem event_list_forms_witness:
  "EventList_UnmarshalJSON (JObj [(''0'', JNull), (''1'', JNull)]) None = EventList_UnmarshalJSON (JArr [JNull, JNull]) None"
proof -
  have "dec_elems None dec_event [JNull, JNull] = Ok ([None, None], None)" by (simp add: dec_event_def dec_ptr_def)
  moreover have "zip (map FormatUint [0..<length [JNull, JNull]]) [JNull, JNull] = [(''0'', JNull), (''1'', JNull)]"
    by (simp add: upt_rec FormatUint.simps [of 0] FormatUint.simps [of "Suc 0"])
  ultimately show ?thesis using event_list_forms [of "[JNull, JNull]" "[None, None]" None] by simp
qed

end
