(* ===== verification/Tradeoffer.thy ===== *)
theory Tradeoffer
  imports Inventory
begin

text \<open>
  \<open>tradeoffer\<close>: the web interface of trade offers. Every operation makes one request and decodes the answer; the
  \<open>WithRetry\<close> operations repeat it. \<open>site\<close> is what the web site answers; where an operation is repeated, \<open>sites i\<close>
  is what it answers at the \<open>i\<close>-th attempt.
\<close>

section \<open>error.go\<close>

text \<open>A \<open>SteamError\<close> is an answer of Steam, any other error a failure on the way.\<close>

datatype offer_err =
    SteamError string
  | OtherError go_err

datatype 'a offer_res =
    Got 'a
  | Failed offer_err
  | Panicked string

definition other_errors :: "'a res \<Rightarrow> 'a offer_res" where
  "other_errors r = (case r of Ok x \<Rightarrow> Got x | Err e \<Rightarrow> Failed (OtherError e) | Panic p \<Rightarrow> Panicked p)"

fun bind_offer :: "'a offer_res \<Rightarrow> ('a \<Rightarrow> 'b offer_res) \<Rightarrow> 'b offer_res" where
  "bind_offer (Got x) f = f x"
| "bind_offer (Failed e) f = Failed e"
| "bind_offer (Panicked p) f = Panicked p"

section \<open>tradeoffer.go\<close>

record Asset =
  Asset_AppId :: u32
  Asset_ContextId :: u64
  Asset_AssetId :: u64
  Asset_CurrencyId :: u64
  Asset_ClassId :: u64
  Asset_InstanceId :: u64
  Asset_Amount :: u64
  Asset_Missing :: bool

definition zero_Asset :: Asset where
  "zero_Asset = \<lparr>Asset_AppId = 0, Asset_ContextId = 0, Asset_AssetId = 0, Asset_CurrencyId = 0, Asset_ClassId = 0,
     Asset_InstanceId = 0, Asset_Amount = 0, Asset_Missing = False\<rparr>"

text \<open>The application carries the tag \<open>json:"-"\<close> and is never read.\<close>

definition Asset_fields :: "Asset fields" where
  "Asset_fields = [field ''ContextId'' dec_uint_q Asset_ContextId Asset_ContextId_update,
     field ''AssetId'' dec_uint_q Asset_AssetId Asset_AssetId_update,
     field ''CurrencyId'' dec_uint_q Asset_CurrencyId Asset_CurrencyId_update,
     field ''ClassId'' dec_uint_q Asset_ClassId Asset_ClassId_update,
     field ''InstanceId'' dec_uint_q Asset_InstanceId Asset_InstanceId_update,
     field ''Amount'' dec_uint_q Asset_Amount Asset_Amount_update,
     field ''Missing'' dec_bool Asset_Missing Asset_Missing_update]"

type_synonym TradeOfferState = u64
type_synonym TradeOfferConfirmationMethod = u64

record TradeOffer =
  Offer_TradeOfferId :: u64
  Offer_TradeId :: u64
  Offer_OtherAccountId :: u32
  Offer_OtherSteamId :: steamid
  Offer_Message :: string
  Offer_ExpirationTime :: u32
  Offer_State :: TradeOfferState
  Offer_ToGive :: "Asset option list"
  Offer_ToReceive :: "Asset option list"
  Offer_IsOurOffer :: bool
  Offer_TimeCreated :: u32
  Offer_TimeUpdated :: u32
  Offer_EscrowEndDate :: u32
  Offer_ConfirmationMethod :: TradeOfferConfirmationMethod

definition zero_TradeOffer :: TradeOffer where
  "zero_TradeOffer = \<lparr>Offer_TradeOfferId = 0, Offer_TradeId = 0, Offer_OtherAccountId = 0, Offer_OtherSteamId = 0,
     Offer_Message = [], Offer_ExpirationTime = 0, Offer_State = 0, Offer_ToGive = [], Offer_ToReceive = [],
     Offer_IsOurOffer = False, Offer_TimeCreated = 0, Offer_TimeUpdated = 0, Offer_EscrowEndDate = 0, Offer_ConfirmationMethod = 0\<rparr>"

definition TradeOffer_fields :: "TradeOffer fields" where
  "TradeOffer_fields = [field ''TradeOfferId'' dec_uint_q Offer_TradeOfferId Offer_TradeOfferId_update,
     field ''TradeId'' dec_uint_q Offer_TradeId Offer_TradeId_update,
     field ''accountid_other'' dec_uint Offer_OtherAccountId Offer_OtherAccountId_update,
     field ''message'' dec_string Offer_Message Offer_Message_update,
     field ''expiraton_time'' dec_uint Offer_ExpirationTime Offer_ExpirationTime_update,
     field ''trade_offer_state'' dec_uint Offer_State Offer_State_update,
     field ''items_to_give'' (dec_list None (dec_ptr zero_Asset (dec_struct Asset_fields))) Offer_ToGive Offer_ToGive_update,
     field ''items_to_receive'' (dec_list None (dec_ptr zero_Asset (dec_struct Asset_fields))) Offer_ToReceive Offer_ToReceive_update,
     field ''is_our_offer'' dec_bool Offer_IsOurOffer Offer_IsOurOffer_update,
     field ''time_created'' dec_uint Offer_TimeCreated Offer_TimeCreated_update,
     field ''time_updated'' dec_uint Offer_TimeUpdated Offer_TimeUpdated_update,
     field ''escrow_end_date'' dec_uint Offer_EscrowEndDate Offer_EscrowEndDate_update,
     field ''confirmation_method'' dec_uint Offer_ConfirmationMethod Offer_ConfirmationMethod_update]"

text \<open>The other party's Steam identifier is computed from the account number.\<close>

definition set_other_steamid :: "TradeOffer \<Rightarrow> TradeOffer" where
  "set_other_steamid t =
     (if Offer_OtherAccountId t = 0 then t\<lparr>Offer_OtherSteamId := 0\<rparr>
      else t\<lparr>Offer_OtherSteamId := ucast (Offer_OtherAccountId t) + 76561197960265728\<rparr>)"

definition TradeOffer_UnmarshalJSON :: "TradeOffer jdec" where
  "TradeOffer_UnmarshalJSON data t =
     bind_res (dec_struct TradeOffer_fields data t) (\<lambda>(t, err).
     if err \<noteq> None then Ok (t, err) else Ok (set_other_steamid t, None))"

record OfferDescription =
  OD_AppId :: u32
  OD_ClassId :: u64
  OD_InstanceId :: u64
  OD_IconUrl :: string
  OD_IconUrlLarge :: string
  OD_Name :: string
  OD_MarketName :: string
  OD_MarketHashName :: string
  OD_NameColor :: string
  OD_BackgroundColor :: string
  OD_Type :: string
  OD_Tradable :: bool
  OD_Commodity :: bool
  OD_MarketTradableRestriction :: u32
  OD_Descriptions :: DescriptionLines
  OD_Actions :: "Action option list"

definition zero_OfferDescription :: OfferDescription where
  "zero_OfferDescription = \<lparr>OD_AppId = 0, OD_ClassId = 0, OD_InstanceId = 0, OD_IconUrl = [], OD_IconUrlLarge = [],
     OD_Name = [], OD_MarketName = [], OD_MarketHashName = [], OD_NameColor = [], OD_BackgroundColor = [], OD_Type = [],
     OD_Tradable = False, OD_Commodity = False, OD_MarketTradableRestriction = 0, OD_Descriptions = [], OD_Actions = []\<rparr>"

definition OfferDescription_fields :: "OfferDescription fields" where
  "OfferDescription_fields = [field ''appid'' dec_uint OD_AppId OD_AppId_update,
     field ''classid'' dec_uint_q OD_ClassId OD_ClassId_update,
     field ''instanceid'' dec_uint_q OD_InstanceId OD_InstanceId_update,
     field ''icon_url'' dec_string OD_IconUrl OD_IconUrl_update,
     field ''icon_url_large'' dec_string OD_IconUrlLarge OD_IconUrlLarge_update,
     field ''Name'' dec_string OD_Name OD_Name_update,
     field ''market_name'' dec_string OD_MarketName OD_MarketName_update,
     field ''market_hash_name'' dec_string OD_MarketHashName OD_MarketHashName_update,
     field ''name_color'' dec_string OD_NameColor OD_NameColor_update,
     field ''background_color'' dec_string OD_BackgroundColor OD_BackgroundColor_update,
     field ''Type'' dec_string OD_Type OD_Type_update,
     field ''tradable'' dec_bool OD_Tradable OD_Tradable_update,
     field ''commodity'' dec_bool OD_Commodity OD_Commodity_update,
     field ''market_tradable_restriction'' dec_uint OD_MarketTradableRestriction OD_MarketTradableRestriction_update,
     field ''descriptions'' DescriptionLines_UnmarshalJSON OD_Descriptions OD_Descriptions_update,
     field ''actions'' (dec_list None (dec_ptr zero_Action (dec_struct Action_fields))) OD_Actions OD_Actions_update]"

definition dec_descriptions :: "OfferDescription option list jdec" where
  "dec_descriptions = dec_list None (dec_ptr zero_OfferDescription (dec_struct OfferDescription_fields))"

record TradeOffersResult =
  Offers_Sent :: "TradeOffer option list"
  Offers_Received :: "TradeOffer option list"
  Offers_Descriptions :: "OfferDescription option list"

definition TradeOffersResult_fields :: "TradeOffersResult fields" where
  "TradeOffersResult_fields =
    [field ''trade_offers_sent'' (dec_list None (dec_ptr zero_TradeOffer TradeOffer_UnmarshalJSON)) Offers_Sent Offers_Sent_update,
     field ''trade_offers_received'' (dec_list None (dec_ptr zero_TradeOffer TradeOffer_UnmarshalJSON)) Offers_Received Offers_Received_update,
     field ''Descriptions'' dec_descriptions Offers_Descriptions Offers_Descriptions_update]"

record TradeOfferResult =
  Result_Offer :: "TradeOffer option"
  Result_Descriptions :: "OfferDescription option list"

definition TradeOfferResult_fields :: "TradeOfferResult fields" where
  "TradeOfferResult_fields =
    [field ''Offer'' (dec_ptr zero_TradeOffer TradeOffer_UnmarshalJSON) Result_Offer Result_Offer_update,
     field ''Descriptions'' dec_descriptions Result_Descriptions Result_Descriptions_update]"

section \<open>The client\<close>

record OfferClient =
  oc_cookies :: Cookies
  oc_key :: string
  oc_sessionId :: string

definition offer_NewClient :: "string \<Rightarrow> string \<Rightarrow> string \<Rightarrow> string \<Rightarrow> OfferClient" where
  "offer_NewClient key sessionId steamLogin steamLoginSecure =
     \<lparr>oc_cookies = SetCookies sessionId steamLogin steamLoginSecure, oc_key = key, oc_sessionId = sessionId\<rparr>"

definition apiUrl :: "string \<Rightarrow> nat \<Rightarrow> string" where
  "apiUrl name v = ''https://api.steampowered.com/IEconService/'' @ name @ ''/v'' @ FormatUint v"

definition number :: "'a::len word \<Rightarrow> string" where
  "number n = FormatUint (unat n)"

text \<open>\<open>Do\<close> or \<open>Get\<close>: the status code and the body.\<close>

definition exchange :: "Site \<Rightarrow> Request \<Rightarrow> (nat \<times> string) offer_res" where
  "exchange site req = (case site_do site req of Inl err \<Rightarrow> Failed (OtherError err) | Inr answer \<Rightarrow> Got answer)"

text \<open>\<open>Decode\<close> into a struct whose only field \<open>Response\<close> is a pointer.\<close>

definition decode_response :: "Site \<Rightarrow> 'a \<Rightarrow> 'a fields \<Rightarrow> string \<Rightarrow> 'a option offer_res" where
  "decode_response site zero fs body = other_errors (decode_as
     (dec_struct [field ''Response'' (dec_ptr zero (dec_struct fs)) (\<lambda>x. x) (\<lambda>f. f)]) None (site_parse site body))"

definition GetOffer :: "Site \<Rightarrow> OfferClient \<Rightarrow> u64 \<Rightarrow> TradeOfferResult offer_res" where
  "GetOffer site c offerId =
     bind_offer (exchange site (get_request (apiUrl ''GetTradeOffer'' 1) (Some (ToUrlValues
        [(''key'', oc_key c), (''tradeofferid'', number offerId), (''language'', ''en_us'')])))) (\<lambda>(code, body).
     bind_offer (decode_response site \<lparr>Result_Offer = None, Result_Descriptions = []\<rparr> TradeOfferResult_fields body) (\<lambda>t.
     case t of
       Some r \<Rightarrow> if Result_Offer r = None then Failed (SteamError ''steam returned empty offer result'') else Got r
     | None \<Rightarrow> Failed (SteamError ''steam returned empty offer result'')))"

definition GetOffers :: "Site \<Rightarrow> OfferClient \<Rightarrow> bool \<Rightarrow> bool \<Rightarrow> bool \<Rightarrow> bool \<Rightarrow> bool \<Rightarrow> u32 option \<Rightarrow> TradeOffersResult offer_res" where
  "GetOffers site c getSent getReceived getDescriptions activeOnly historicalOnly timeHistoricalCutoff =
     (if \<not> getSent \<and> \<not> getReceived then Failed (OtherError (GoErr ''getSent and getReceived can't be both false''))
      else
        let params = [(''key'', oc_key c)]
              @ (if getSent then [(''get_sent_offers'', ''1'')] else [])
              @ (if getReceived then [(''get_received_offers'', ''1'')] else [])
              @ (if getDescriptions then [(''get_descriptions'', ''1''), (''language'', ''en_us'')] else [])
              @ (if activeOnly then [(''active_only'', ''1'')] else [])
              @ (if historicalOnly then [(''historical_only'', ''1'')] else [])
              @ (case timeHistoricalCutoff of None \<Rightarrow> [] | Some n \<Rightarrow> [(''time_historical_cutoff'', number n)])
        in bind_offer (exchange site (get_request (apiUrl ''GetTradeOffers'' 1) (Some (ToUrlValues params)))) (\<lambda>(code, body).
           bind_offer (decode_response site \<lparr>Offers_Sent = [], Offers_Received = [], Offers_Descriptions = []\<rparr>
             TradeOffersResult_fields body) (\<lambda>t.
           case t of Some r \<Rightarrow> Got r | None \<Rightarrow> Failed (SteamError ''steam returned empty offers result''))))"

definition offer_action :: "Site \<Rightarrow> OfferClient \<Rightarrow> string \<Rightarrow> nat \<Rightarrow> u64 \<Rightarrow> unit offer_res" where
  "offer_action site c name version offerId =
     bind_offer (exchange site (NewPostForm (apiUrl name version) (ToUrlValues
        [(''key'', oc_key c), (''tradeofferid'', number offerId)]))) (\<lambda>(code, body).
     if code \<noteq> 200 then Failed (OtherError (GoErr (name @ '' error: status code '' @ FormatUint code))) else Got ())"

definition Decline :: "Site \<Rightarrow> OfferClient \<Rightarrow> u64 \<Rightarrow> unit offer_res" where
  "Decline site c offerId = offer_action site c ''DeclineTradeOffer'' 1 offerId"

definition offer_Cancel :: "Site \<Rightarrow> OfferClient \<Rightarrow> u64 \<Rightarrow> unit offer_res" where
  "offer_Cancel site c offerId = offer_action site c ''CancelTradeOffer'' 1 offerId"

definition Accept :: "Site \<Rightarrow> OfferClient \<Rightarrow> u64 \<Rightarrow> unit offer_res" where
  "Accept site c offerId =
     (let baseurl = ''https://steamcommunity.com/tradeoffer/'' @ number offerId @ ''/'' in
      bind_offer (exchange site (add_header ''Referer'' baseurl (NewPostForm (baseurl @ ''accept'') (ToUrlValues
         [(''sessionid'', oc_sessionId c), (''serverid'', ''1''), (''tradeofferid'', number offerId)])))) (\<lambda>(code, body).
      bind_offer (other_errors (decode_as (dec_struct [field ''strError'' dec_string (\<lambda>x. x) (\<lambda>f. f)]) [] (site_parse site body))) (\<lambda>strError.
      if strError \<noteq> [] then Failed (SteamError (''accept error: '' @ strError))
      else if code \<noteq> 200 then Failed (OtherError (GoErr (''accept error: status code '' @ FormatUint code)))
      else Got ())))"

record TradeItem =
  TI_AppId :: u32
  TI_ContextId :: u64
  TI_Amount :: u64
  TI_AssetId :: u64
  TI_CurrencyId :: u64

text \<open>\<open>json.Marshal\<close> of an item: the options \<open>,string\<close> and \<open>,omitempty\<close>.\<close>

definition TradeItem_json :: "TradeItem \<Rightarrow> json" where
  "TradeItem_json i = JObj ([(''appid'', JNum (number (TI_AppId i))), (''contextid'', JStr (number (TI_ContextId i))),
     (''amount'', JNum (number (TI_Amount i)))]
     @ (if TI_AssetId i = 0 then [] else [(''assetid'', JStr (number (TI_AssetId i)))])
     @ (if TI_CurrencyId i = 0 then [] else [(''currencyid'', JStr (number (TI_CurrencyId i)))]))"

text \<open>A nil slice is printed as \<open>null\<close>; the keys of a map come in alphabetical order.\<close>

definition party_json :: "TradeItem list option \<Rightarrow> json" where
  "party_json items = JObj [(''assets'', case items of None \<Rightarrow> JNull | Some is \<Rightarrow> JArr (map TradeItem_json is)),
     (''currency'', JArr []), (''ready'', JBool False)]"

definition offer_json :: "TradeItem list option \<Rightarrow> TradeItem list option \<Rightarrow> json" where
  "offer_json myItems theirItems = JObj [(''me'', party_json myItems), (''newversion'', JBool True),
     (''them'', party_json theirItems), (''version'', JNum ''3'')]"

definition create_request ::
  "Site \<Rightarrow> OfferClient \<Rightarrow> steamid \<Rightarrow> string option \<Rightarrow> TradeItem list option \<Rightarrow> TradeItem list option \<Rightarrow> u64 option \<Rightarrow> string \<Rightarrow> Request" where
  "create_request site c other accessToken myItems theirItems counteredOfferId message =
     (let data = [(''sessionid'', oc_sessionId c), (''serverid'', ''1''), (''partner'', ToString other),
            (''tradeoffermessage'', message), (''json_tradeoffer'', site_text site (offer_json myItems theirItems))];
          profile = ''https://steamcommunity.com/tradeoffer/new/?partner='' @ number (GetAccountId other);
          (data, referer) = (case counteredOfferId of
              Some n \<Rightarrow> (data @ [(''tradeofferid_countered'', number n)], ''https://steamcommunity.com/tradeoffer/'' @ number n @ ''/'')
            | None \<Rightarrow> (case accessToken of
                Some token \<Rightarrow>
                  (data @ [(''trade_offer_create_params'', site_text site (JObj [(''trade_offer_access_token'', JStr token)]))],
                   profile @ ''&token='' @ token)
              | None \<Rightarrow> (data, profile)))
      in add_header ''Referer'' referer (NewPostForm ''https://steamcommunity.com/tradeoffer/new/send'' (ToUrlValues data)))"

definition Create ::
  "Site \<Rightarrow> OfferClient \<Rightarrow> steamid \<Rightarrow> string option \<Rightarrow> TradeItem list option \<Rightarrow> TradeItem list option \<Rightarrow> u64 option \<Rightarrow> string
     \<Rightarrow> u64 offer_res" where
  "Create site c other accessToken myItems theirItems counteredOfferId message =
     bind_offer (exchange site (create_request site c other accessToken myItems theirItems counteredOfferId message)) (\<lambda>(code, body).
     bind_offer (other_errors (decode_as (dec_struct
        [field ''strError'' dec_string fst (\<lambda>f (s, n). (f s, n)), field ''tradeofferid'' dec_uint_q snd (\<lambda>f (s, n). (s, f n))])
        ([], 0) (site_parse site body))) (\<lambda>(strError, tradeOfferId).
     if strError \<noteq> [] then Failed (SteamError (''create error: '' @ strError))
     else if code \<noteq> 200 then Failed (OtherError (GoErr (''create error: status code '' @ FormatUint code)))
     else if tradeOfferId = 0 then Failed (SteamError ''create error: steam returned 0 for trade offer id'')
     else Got tradeOfferId))"

definition offer_GetOwnInventory :: "Site \<Rightarrow> OfferClient \<Rightarrow> u64 \<Rightarrow> u32 \<Rightarrow> Inventory offer_res" where
  "offer_GetOwnInventory site c contextId appId = other_errors (GetOwnInventory site contextId appId)"

definition getPartialPartnerInventory ::
  "Site \<Rightarrow> OfferClient \<Rightarrow> steamid \<Rightarrow> u64 \<Rightarrow> u32 \<Rightarrow> u64 option \<Rightarrow> u64 option \<Rightarrow> PartialInventory res" where
  "getPartialPartnerInventory site c other contextId appId offerId start =
     (let data = [(''sessionid'', oc_sessionId c), (''partner'', ToString other), (''contextid'', number contextId),
            (''appid'', number appId)] @ (case start of None \<Rightarrow> [] | Some n \<Rightarrow> [(''start'', number n)]);
          baseUrl = ''https://steamcommunity.com/tradeoffer/'' @ (case offerId of Some n \<Rightarrow> number n | None \<Rightarrow> ''new'') @ ''/''
      in DoInventoryRequest site (add_header ''Referer'' (baseUrl @ ''?partner='' @ number (GetAccountId other))
           (get_request (baseUrl @ ''partnerinventory/'') (Some (ToUrlValues data)))))"

definition GetPartnerInventory :: "Site \<Rightarrow> OfferClient \<Rightarrow> steamid \<Rightarrow> u64 \<Rightarrow> u32 \<Rightarrow> u64 option \<Rightarrow> Inventory offer_res" where
  "GetPartnerInventory site c other contextId appId offerId = other_errors (GetFullInventory
     (getPartialPartnerInventory site c other contextId appId offerId None)
     (\<lambda>start. getPartialPartnerInventory site c other contextId appId offerId (Some start)))"


section \<open>receipt.go\<close>

text \<open>The embedded description shares its fields, but its \<open>AppId\<close> is hidden by the one of the item.\<close>

record TradeReceiptItem =
  Receipt_AssetId :: u64
  Receipt_AppId :: u32
  Receipt_ContextId :: u64
  Receipt_Owner :: u64
  Receipt_Pos :: u32
  Receipt_Description :: Description

definition zero_TradeReceiptItem :: TradeReceiptItem where
  "zero_TradeReceiptItem = \<lparr>Receipt_AssetId = 0, Receipt_AppId = 0, Receipt_ContextId = 0, Receipt_Owner = 0, Receipt_Pos = 0,
     Receipt_Description = zero_Description\<rparr>"

definition TradeReceiptItem_fields :: "TradeReceiptItem fields" where
  "TradeReceiptItem_fields = [field ''id'' dec_uint_q Receipt_AssetId Receipt_AssetId_update,
     field ''AppId'' dec_uint Receipt_AppId Receipt_AppId_update,
     field ''ContextId'' dec_uint Receipt_ContextId Receipt_ContextId_update,
     field ''Owner'' dec_uint_q Receipt_Owner Receipt_Owner_update,
     field ''Pos'' dec_uint Receipt_Pos Receipt_Pos_update]
     @ map (\<lambda>(n, f). field n f Receipt_Description Receipt_Description_update) Description_fields"

text \<open>
  The pattern \<^verbatim>\<open>oItem =\s+(.+?});\<close>: after the white space, at least one character, the first closing brace before a
  semicolon, no newline. If there is none after all of the white space, less of it is tried.
\<close>

fun brace_end :: "string \<Rightarrow> (string \<times> string) option" where
  "brace_end [] = None"
| "brace_end (c # cs) =
     (if c = newline then None
      else if take 2 cs = ''};'' then Some ([c, CHR ''}''], drop 2 cs)
      else map_option (\<lambda>(m, r). (c # m, r)) (brace_end cs))"

fun after_spaces :: "nat \<Rightarrow> string \<Rightarrow> (string \<times> string) option" where
  "after_spaces 0 s = None"
| "after_spaces (Suc n) s = (case brace_end (drop (Suc n) s) of Some m \<Rightarrow> Some m | None \<Rightarrow> after_spaces n s)"

definition item_match :: "string \<Rightarrow> (string \<times> string) option" where
  "item_match s = Option.bind (strip ''oItem ='' s) (\<lambda>s. after_spaces (length (takeWhile is_space s)) s)"

lemma brace_end_shorter: "brace_end s = Some (m, r) \<Longrightarrow> length r < length s"
  by (induction s arbitrary: m) (auto split: if_splits)

lemma after_spaces_shorter: "after_spaces n s = Some (m, r) \<Longrightarrow> length r < length s"
proof (induction n)
  case (Suc n)
  then show ?case
    using brace_end_shorter [of "drop (Suc n) s" m r] by (auto split: option.splits)
qed simp

lemma strip_length: "strip p s = Some r \<Longrightarrow> length r \<le> length s"
  by (induction p s rule: strip.induct) (auto split: if_splits)

lemma item_match_shorter: "item_match s = Some (m, r) \<Longrightarrow> length r < length s"
  by (auto simp: item_match_def bind_eq_Some_conv dest!: strip_length after_spaces_shorter)

text \<open>\<open>FindAllSubmatch\<close>: from the left, without overlaps.\<close>

function find_all :: "string \<Rightarrow> string list" where
  "find_all s = (case item_match s of
     Some (m, r) \<Rightarrow> m # find_all r
   | None \<Rightarrow> (case s of [] \<Rightarrow> [] | c # cs \<Rightarrow> find_all cs))"
  by pat_completeness auto
termination
  by (relation "measure length") (auto dest: item_match_shorter)

declare find_all.simps [simp del]

fun parse_items :: "Site \<Rightarrow> string list \<Rightarrow> TradeReceiptItem list res" where
  "parse_items site [] = Ok []"
| "parse_items site (m # ms) =
     bind_res (decode_as (dec_struct TradeReceiptItem_fields) zero_TradeReceiptItem (site_parse site m)) (\<lambda>item.
     map_res (Cons item) (parse_items site ms))"

definition parseTradeReceipt :: "Site \<Rightarrow> string \<Rightarrow> TradeReceiptItem list res" where
  "parseTradeReceipt site data =
     (if find_all data = [] then Err (GoErr ''items not found'') else parse_items site (find_all data))"

definition steam_errors :: "string \<Rightarrow> 'a res \<Rightarrow> 'a offer_res" where
  "steam_errors what r = (case r of Ok x \<Rightarrow> Got x | Err e \<Rightarrow> Failed (SteamError what) | Panic p \<Rightarrow> Panicked p)"

definition GetTradeReceipt :: "Site \<Rightarrow> OfferClient \<Rightarrow> u64 \<Rightarrow> TradeReceiptItem list offer_res" where
  "GetTradeReceipt site c tradeId =
     bind_offer (exchange site (get_request (''https://steamcommunity.com/trade/'' @ number tradeId @ ''/receipt'') None)) (\<lambda>(code, body).
     steam_errors ''failed to parse trade receipt'' (parseTradeReceipt site body))"

section \<open>escrow.go\<close>

record EscrowDuration =
  DaysMyEscrow :: u32
  DaysTheirEscrow :: u32

text \<open>A literal matched with letters folded: the long s and the Kelvin sign match as well.\<close>

fun strip_ci :: "string \<Rightarrow> string \<Rightarrow> string option" where
  "strip_ci [] s = Some s"
| "strip_ci (p # ps) s = (case s of
     [] \<Rightarrow> None
   | c # cs \<Rightarrow>
       if lower c = lower p then strip_ci ps cs
       else if lower p = CHR ''s'' \<and> take 2 s = [CHR 0xC5, CHR 0xBF] then strip_ci ps (drop 2 s)
       else if lower p = CHR ''k'' \<and> take 3 s = [CHR 0xE2, CHR 0x84, CHR 0xAA] then strip_ci ps (drop 3 s)
       else None)"

definition days_match :: "string \<Rightarrow> string \<Rightarrow> string option" where
  "days_match name s = Option.bind (strip_ci name s) (\<lambda>s.
     let sep = takeWhile (\<lambda>c. is_space c \<or> c = CHR ''='') s;
         s = drop (length sep) s;
         ds = takeWhile is_digit s
     in if sep \<noteq> [] \<and> ds \<noteq> [] \<and> take 1 (drop (length ds) s) = '';'' then Some ds else None)"

definition not_friends :: "string \<Rightarrow> bool" where
  "not_friends data \<longleftrightarrow> find_match (strip ''>You are not friends with this user<'') data \<noteq> None"

definition parseEscrowDuration :: "string \<Rightarrow> EscrowDuration res" where
  "parseEscrowDuration data =
     (case (find_match (days_match ''g_daysMyEscrow'') data, find_match (days_match ''g_daysTheirEscrow'') data) of
        (Some myM, Some theirM) \<Rightarrow>
          (case ParseUint myM 32 of
             (_, Some err) \<Rightarrow> Err (GoErr ''failed to parse my duration into uint'')
           | (my, None) \<Rightarrow> (case ParseUint theirM 32 of
               (_, Some err) \<Rightarrow> Err (GoErr ''failed to parse their duration into uint'')
             | (their, None) \<Rightarrow> Ok \<lparr>DaysMyEscrow = word_of_nat my, DaysTheirEscrow = word_of_nat their\<rparr>))
      | _ \<Rightarrow> if not_friends data then Err (GoErr ''you are not friends with this user'')
             else Err (GoErr ''regexp does not match''))"

definition getEscrowDuration :: "Site \<Rightarrow> Request \<Rightarrow> EscrowDuration offer_res" where
  "getEscrowDuration site query =
     bind_offer (exchange site query) (\<lambda>(code, body). steam_errors ''failed to parse escrow duration'' (parseEscrowDuration body))"

definition GetPartnerEscrowDuration :: "Site \<Rightarrow> OfferClient \<Rightarrow> steamid \<Rightarrow> string option \<Rightarrow> EscrowDuration offer_res" where
  "GetPartnerEscrowDuration site c other accessToken = getEscrowDuration site
     (get_request ''https://steamcommunity.com/tradeoffer/new/'' (Some (ToUrlValues
        ((''partner'', number (GetAccountId other)) # (case accessToken of None \<Rightarrow> [] | Some token \<Rightarrow> [(''token'', token)])))))"

definition GetOfferEscrowDuration :: "Site \<Rightarrow> OfferClient \<Rightarrow> u64 \<Rightarrow> EscrowDuration offer_res" where
  "GetOfferEscrowDuration site c offerId = getEscrowDuration site
     (get_request (''http://steamcommunity.com/tradeoffer/'' @ number offerId) None)"

section \<open>Repetition\<close>

text \<open>\<open>retry_loop f i n\<close> is attempt \<open>i\<close>, after which at most \<open>n\<close> may follow.\<close>

fun retry_loop :: "(nat \<Rightarrow> 'a offer_res) \<Rightarrow> nat \<Rightarrow> nat \<Rightarrow> 'a offer_res" where
  "retry_loop f i 0 = f i"
| "retry_loop f i (Suc n) = (case f i of Failed (OtherError _) \<Rightarrow> retry_loop f (Suc i) n | r \<Rightarrow> r)"

definition withRetry :: "(nat \<Rightarrow> 'a offer_res) \<Rightarrow> int \<Rightarrow> 'a offer_res" where
  "withRetry f retryCount =
     (if retryCount \<le> 0 then Panicked ''retry count must be more than 0'' else retry_loop f 1 (nat retryCount - 1))"

definition GetOfferWithRetry :: "(nat \<Rightarrow> Site) \<Rightarrow> OfferClient \<Rightarrow> u64 \<Rightarrow> int \<Rightarrow> TradeOfferResult offer_res" where
  "GetOfferWithRetry sites c offerId = withRetry (\<lambda>i. GetOffer (sites i) c offerId)"

definition GetOffersWithRetry ::
  "(nat \<Rightarrow> Site) \<Rightarrow> OfferClient \<Rightarrow> bool \<Rightarrow> bool \<Rightarrow> bool \<Rightarrow> bool \<Rightarrow> bool \<Rightarrow> u32 option \<Rightarrow> int \<Rightarrow> TradeOffersResult offer_res" where
  "GetOffersWithRetry sites c getSent getReceived getDescriptions activeOnly historicalOnly timeHistoricalCutoff =
     withRetry (\<lambda>i. GetOffers (sites i) c getSent getReceived getDescriptions activeOnly historicalOnly timeHistoricalCutoff)"

definition DeclineWithRetry :: "(nat \<Rightarrow> Site) \<Rightarrow> OfferClient \<Rightarrow> u64 \<Rightarrow> int \<Rightarrow> unit offer_res" where
  "DeclineWithRetry sites c offerId = withRetry (\<lambda>i. Decline (sites i) c offerId)"

definition CancelWithRetry :: "(nat \<Rightarrow> Site) \<Rightarrow> OfferClient \<Rightarrow> u64 \<Rightarrow> int \<Rightarrow> unit offer_res" where
  "CancelWithRetry sites c offerId = withRetry (\<lambda>i. offer_Cancel (sites i) c offerId)"

definition AcceptWithRetry :: "(nat \<Rightarrow> Site) \<Rightarrow> OfferClient \<Rightarrow> u64 \<Rightarrow> int \<Rightarrow> unit offer_res" where
  "AcceptWithRetry sites c offerId = withRetry (\<lambda>i. Accept (sites i) c offerId)"

definition CreateWithRetry ::
  "(nat \<Rightarrow> Site) \<Rightarrow> OfferClient \<Rightarrow> steamid \<Rightarrow> string option \<Rightarrow> TradeItem list option \<Rightarrow> TradeItem list option \<Rightarrow> u64 option
     \<Rightarrow> string \<Rightarrow> int \<Rightarrow> u64 offer_res" where
  "CreateWithRetry sites c other accessToken myItems theirItems counteredOfferId message =
     withRetry (\<lambda>i. Create (sites i) c other accessToken myItems theirItems counteredOfferId message)"

definition GetOwnInventoryWithRetry :: "(nat \<Rightarrow> Site) \<Rightarrow> OfferClient \<Rightarrow> u64 \<Rightarrow> u32 \<Rightarrow> int \<Rightarrow> Inventory offer_res" where
  "GetOwnInventoryWithRetry sites c contextId appId = withRetry (\<lambda>i. offer_GetOwnInventory (sites i) c contextId appId)"

definition GetPartnerInventoryWithRetry ::
  "(nat \<Rightarrow> Site) \<Rightarrow> OfferClient \<Rightarrow> steamid \<Rightarrow> u64 \<Rightarrow> u32 \<Rightarrow> u64 option \<Rightarrow> int \<Rightarrow> Inventory offer_res" where
  "GetPartnerInventoryWithRetry sites c other contextId appId offerId =
     withRetry (\<lambda>i. GetPartnerInventory (sites i) c other contextId appId offerId)"

definition GetTradeReceiptWithRetry :: "(nat \<Rightarrow> Site) \<Rightarrow> OfferClient \<Rightarrow> u64 \<Rightarrow> int \<Rightarrow> TradeReceiptItem list offer_res" where
  "GetTradeReceiptWithRetry sites c tradeId = withRetry (\<lambda>i. GetTradeReceipt (sites i) c tradeId)"

end
