(* ===== verification/Tradeoffer_Facts.thy ===== *)
theory Tradeoffer_Facts
  imports Tradeoffer
begin

text \<open>What the operations of theory Tradeoffer do: the identifier of the other party, the repetition, the escrow page.\<close>

section \<open>The other party\<close>

lemma individual_base: "(76561197960265728 :: u64) = push_bit 32 1 OR push_bit 52 1 OR push_bit 56 1"
  by simp

lemma bit_NewIdAdv:
  assumes "k < LENGTH(64)"
  shows "bit (NewIdAdv a i u t) k \<longleftrightarrow>
    (if k < 32 then bit a k else if k < 52 then bit i (k - 32) else if k < 56 then bit t (k - 52)
     else k < 60 \<and> bit u (k - 56))"
  using assms by (auto simp: NewIdAdv_def Let_def field_defs field_bits)

lemma individual_steamid: "ucast (a :: u32) + 76561197960265728 = NewIdAdv a 1 1 1"
proof -
  have bits: "bit (76561197960265728 :: u64) k \<longleftrightarrow> k = 32 \<or> k = 52 \<or> k = 56" for k
    unfolding individual_base bit_or_iff bit_push_bit_iff bit_1_iff by auto
  have "ucast a AND (76561197960265728 :: u64) = 0"
  proof (rule bit_word_eqI)
    fix k
    show "bit (ucast a AND (76561197960265728 :: u64)) k = bit (0 :: u64) k"
      unfolding bit_and_iff bits using bit_imp_le_length [of a k] by (auto simp: bit_ucast_iff)
  qed
  then have "ucast a + 76561197960265728 = (ucast a OR 76561197960265728 :: u64)"
    using word_plus_and_or [of "ucast a" "76561197960265728 :: u64"] by (simp only: add_0)
  also have "\<dots> = NewIdAdv a 1 1 1"
  proof (rule bit_word_eqI)
    fix k assume k: "k < LENGTH(64)"
    show "bit (ucast a OR 76561197960265728 :: u64) k = bit (NewIdAdv a 1 1 1) k"
      unfolding bit_or_iff bits bit_NewIdAdv [OF k] bit_1_iff using bit_imp_le_length [of a k]
      by (auto simp: bit_ucast_iff)
  qed
  finally show ?thesis .
qed

text \<open>
  C32: the Steam identifier that decoding a trade offer computes for the other party by adding a constant to the account
  number is the packed identifier of an individual of the public universe with instance 1, for every account
  number, and 0 for an offer without one.
\<close>

theorem offer_partner_is_individual:
  assumes "TradeOffer_UnmarshalJSON data t = Ok (t', None)"
  shows "Offer_OtherSteamId t' = (if Offer_OtherAccountId t' = 0 then 0 else NewIdAdv (Offer_OtherAccountId t') 1 1 1)"
proof -
  obtain t0 where "t' = set_other_steamid t0"
    using assms unfolding TradeOffer_UnmarshalJSON_def bind_res_Ok_iff by (auto split: if_splits) metis
  then show ?thesis by (simp add: set_other_steamid_def individual_steamid)
qed

theorem offer_partner_is_individual_witness:
  "\<exists>t'. TradeOffer_UnmarshalJSON (JObj [(''accountid_other'', JNum ''5'')]) zero_TradeOffer = Ok (t', None) \<and>
    Offer_OtherSteamId t' = NewIdAdv 5 1 1 1"
proof -
  have "dec_struct TradeOffer_fields (JObj [(''accountid_other'', JNum ''5'')]) zero_TradeOffer
      = Ok (zero_TradeOffer\<lparr>Offer_OtherAccountId := 5\<rparr>, None)"
    by (simp add: TradeOffer_fields_def find_field_def field_def uint_text_def ParseUint_def is_digit_def digit_val_def)
  then have "TradeOffer_UnmarshalJSON (JObj [(''accountid_other'', JNum ''5'')]) zero_TradeOffer
      = Ok (set_other_steamid (zero_TradeOffer\<lparr>Offer_OtherAccountId := 5\<rparr>), None)"
    by (simp add: TradeOffer_UnmarshalJSON_def)
  then show ?thesis
    using offer_partner_is_individual [of "JObj [(''accountid_other'', JNum ''5'')]" zero_TradeOffer
        "set_other_steamid (zero_TradeOffer\<lparr>Offer_OtherAccountId := 5\<rparr>)"]
    by (simp add: set_other_steamid_def)
qed

section \<open>Repetition\<close>

text \<open>Only a failure that is not an answer of Steam is tried again.\<close>

fun again :: "'a offer_res \<Rightarrow> bool" where
  "again (Failed (OtherError _)) = True"
| "again _ = False"

lemma retry_loop_find:
  "retry_loop f i n = f (case find (\<lambda>k. \<not> again (f k)) [i..<i + n] of Some k \<Rightarrow> k | None \<Rightarrow> i + n)"
proof (induction f i n rule: retry_loop.induct)
  case (2 f i n)
  have "[i..<i + Suc n] = i # [Suc i..<Suc i + n]" by (simp add: upt_conv_Cons)
  then show ?case
    using 2 by (auto simp del: upt_Suc cong: option.case_cong split: offer_res.split offer_err.split)
qed simp

text \<open>
  an operation with repetition ends after at most the given number of attempts. Its result is that of the first
  attempt that succeeds or that Steam answers with a refusal, and that of the last one if there is none; a
  refusal is never tried again. A count that is not positive panics before anything is sent.
\<close>

theorem retry_outcome:
  "withRetry f n = (if n \<le> 0 then Panicked ''retry count must be more than 0''
     else f (case find (\<lambda>k. \<not> again (f k)) [1..<nat n] of Some k \<Rightarrow> k | None \<Rightarrow> nat n))"
  by (simp add: withRetry_def retry_loop_find cong: option.case_cong)

section \<open>The escrow page\<close>

lemma parse_uint_loop_error: "parse_uint_loop m a xs = (v, Some e) \<Longrightarrow> parse_uint_loop m a (xs @ ys) = (v, Some e)"
  by (induction xs arbitrary: a) (auto split: if_splits)

lemma parse_FormatUint_large: "m < n \<Longrightarrow> parse_uint_loop m 0 (FormatUint n) = (m, Some ErrRange)"
proof (induction n rule: FormatUint.induct)
  case (1 n)
  show ?case
  proof (cases "n < 10")
    case True
    with "1.prems" show ?thesis by (subst FormatUint.simps) simp
  next
    case False
    have split: "FormatUint n = FormatUint (n div 10) @ [digit_char (n mod 10)]"
      using False by (subst FormatUint.simps) simp
    show ?thesis
    proof (cases "m < n div 10")
      case True
      then show ?thesis unfolding split using "1.IH" False by (intro parse_uint_loop_error) simp
    next
      case False
      then have "parse_uint_loop m 0 (FormatUint (n div 10)) = (n div 10, None)" by (intro parse_FormatUint) simp
      then show ?thesis
        unfolding split using "1.prems" by (simp add: parse_uint_loop_append FormatUint_digits)
    qed
  qed
qed

lemma ParseUint_number:
  "ParseUint (FormatUint n) bits = (if n < 2 ^ bits then (n, None) else (2 ^ bits - 1, Some ErrRange))"
proof (cases "n < 2 ^ bits")
  case False
  have "(0 :: nat) < 2 ^ bits" by simp
  then have "2 ^ bits - 1 < n" using False by linarith
  then show ?thesis using False parse_FormatUint_large [of "2 ^ bits - 1" n] by (simp add: ParseUint_def)
qed simp

lemma find_match_skip:
  assumes "\<And>c s. c \<in> set pre \<Longrightarrow> m (c # s) = None"
  shows "find_match m (pre @ s) = find_match m s"
  using assms by (induction pre) auto

lemma strip_ci_self: "strip_ci p (p @ s) = Some s"
  by (induction p) auto


lemma days_match_line:
  "days_match name (name @ '' = '' @ FormatUint n @ '';'' @ s) = Some (FormatUint n)"
proof -
  have take: "takeWhile is_digit (FormatUint n @ CHR '';'' # s) = FormatUint n"
    using FormatUint_digits by (subst takeWhile_append2) (auto simp: is_digit_def)
  have no: "\<not> (is_space (hd (FormatUint n)) \<or> hd (FormatUint n) = CHR ''='')"
    using hd_FormatUint_digit [of n] by (auto simp: is_digit_def is_space_def)
  then have sep: "takeWhile (\<lambda>c. is_space c \<or> c = CHR ''='') ('' = '' @ FormatUint n @ CHR '';'' # s) = '' = ''"
    by (cases "FormatUint n") (auto simp: is_space_def)
  show ?thesis
    unfolding days_match_def by (simp only: strip_ci_self bind.simps Let_def append.simps) (use take sep in simp)
qed

definition quiet_text :: "string \<Rightarrow> bool" where
  "quiet_text s \<longleftrightarrow> list_all (\<lambda>c. c \<notin> set ''gG'' \<and> c \<noteq> CHR 0xC5 \<and> c \<noteq> CHR 0xE2) s"

lemma strip_ci_quiet:
  assumes "c \<notin> set ''gG''" "c \<noteq> CHR 0xC5" "c \<noteq> CHR 0xE2"
  shows "strip_ci (CHR ''g'' # ps) (c # s) = None"
proof -
  have "list_all (\<lambda>c. lower c = lower CHR ''g'' \<longrightarrow> c \<in> set ''gG'') (Enum.enum :: char list)" by code_simp
  then have "lower c \<noteq> lower CHR ''g''" using assms(1) by (auto simp: list_all_iff enum_UNIV)
  moreover have "lower CHR ''g'' = CHR ''g''" by code_simp
  ultimately show ?thesis using assms(2,3) by simp
qed


lemma days_skip:
  assumes "quiet_text pre"
  shows "find_match (days_match (CHR ''g'' # ps)) (pre @ s) = find_match (days_match (CHR ''g'' # ps)) s"
proof (rule find_match_skip)
  fix c s' assume "c \<in> set pre"
  then have "strip_ci (CHR ''g'' # ps) (c # s') = None"
    using assms by (intro strip_ci_quiet) (auto simp: quiet_text_def list_all_iff)
  then show "days_match (CHR ''g'' # ps) (c # s') = None" by (simp add: days_match_def)
qed

lemma find_match_hit: "m s = Some x \<Longrightarrow> find_match m s = Some x"
  by (cases s) auto

lemma quiet_number: "quiet_text (FormatUint n)"
  using FormatUint_digits [of _ n] by (force simp: quiet_text_def list_all_iff is_digit_def)

lemma quiet_append [simp]: "quiet_text (a @ b) \<longleftrightarrow> quiet_text a \<and> quiet_text b"
  by (simp add: quiet_text_def)

lemma not_their_line: "days_match ''g_daysTheirEscrow'' (CHR ''g'' # ''_daysMyEscrow = '' @ s) = None"
  by (simp add: days_match_def lower_def)

definition escrow_page :: "string \<Rightarrow> nat \<Rightarrow> string \<Rightarrow> nat \<Rightarrow> string \<Rightarrow> string" where
  "escrow_page pre m mid n post = pre @ ''g_daysMyEscrow = '' @ FormatUint m @ '';'' @ mid
     @ ''g_daysTheirEscrow = '' @ FormatUint n @ '';'' @ post"

text \<open>
  the two durations are read off the page of a trade offer: whatever stands before, between and after the two
  assignments (before and between them without the letter their names begin with), the numbers assigned are the result,
  and a number that does not fit into 32 bits is an error.
\<close>

theorem escrow_page_read:
  assumes "quiet_text pre" and "quiet_text mid"
  shows "parseEscrowDuration (escrow_page pre m mid n post) =
    (if 2 ^ 32 \<le> m then Err (GoErr ''failed to parse my duration into uint'')
     else if 2 ^ 32 \<le> n then Err (GoErr ''failed to parse their duration into uint'')
     else Ok \<lparr>DaysMyEscrow = word_of_nat m, DaysTheirEscrow = word_of_nat n\<rparr>)"
proof -
  let ?tail = "mid @ ''g_daysTheirEscrow = '' @ FormatUint n @ '';'' @ post"
  have my: "find_match (days_match ''g_daysMyEscrow'') (escrow_page pre m mid n post) = Some (FormatUint m)"
    unfolding escrow_page_def days_skip [OF assms(1)]
    using days_match_line [of "''g_daysMyEscrow''" m ?tail] by (intro find_match_hit) simp
  have quiet: "quiet_text (''_daysMyEscrow = '' @ FormatUint m @ '';'' @ mid)"
    using assms(2) quiet_number by (simp add: quiet_text_def)
  have "find_match (days_match ''g_daysTheirEscrow'') (escrow_page pre m mid n post)
      = find_match (days_match ''g_daysTheirEscrow'') (CHR ''g'' # (''_daysMyEscrow = '' @ FormatUint m @ '';'' @ mid)
          @ ''g_daysTheirEscrow = '' @ FormatUint n @ '';'' @ post)"
    unfolding escrow_page_def days_skip [OF assms(1)] by simp
  also have "\<dots> = find_match (days_match ''g_daysTheirEscrow'') (''g_daysTheirEscrow = '' @ FormatUint n @ '';'' @ post)"
    using days_skip [OF quiet, of "''_daysTheirEscrow''"] not_their_line [of "FormatUint m @ '';'' @ mid @ ''g_daysTheirEscrow = '' @ FormatUint n @ '';'' @ post"]
    by simp
  also have "\<dots> = Some (FormatUint n)"
    using days_match_line [of "''g_daysTheirEscrow''" n post] by (intro find_match_hit) simp
  finally show ?thesis
    using my by (simp add: parseEscrowDuration_def ParseUint_number)
qed

theorem escrow_page_read_witness:
  "parseEscrowDuration (escrow_page ''var '' 15 '' var '' 0 []) = Ok \<lparr>DaysMyEscrow = 15, DaysTheirEscrow = 0\<rparr>"
  using escrow_page_read [of "''var ''" "'' var ''" 15 0 "[]"] by (simp add: quiet_text_def)

end
