(* ===== verification/Go_Files.thy ===== *)
theory Go_Files
  imports Netutil Json
begin

text \<open>
  What the helpers of a bot and the code generator use of Go's \<open>ioutil\<close>, \<open>path\<close> and \<open>encoding/hex\<close>: files on a disk
  that is a map from paths to contents, joined paths, dumps of bytes.
\<close>

section \<open>Files\<close>

record Disk =
  disk_files :: "string \<Rightarrow> string option"
  disk_writable :: "string \<Rightarrow> bool"

definition ReadFile :: "string \<Rightarrow> Disk \<Rightarrow> string res" where
  "ReadFile path d = (case disk_files d path of Some s \<Rightarrow> Ok s | None \<Rightarrow> Err (GoErr ''open''))"

definition WriteFile :: "string \<Rightarrow> string \<Rightarrow> Disk \<Rightarrow> Disk res" where
  "WriteFile path s d =
     (if disk_writable d path then Ok (d\<lparr>disk_files := (disk_files d)(path := Some s)\<rparr>) else Err (GoErr ''open''))"

text \<open>\<open>if err != nil { panic(err) }\<close>.\<close>

fun must :: "'a res \<Rightarrow> 'a res" where
  "must (Err e) = Panic ''error''"
| "must r = r"

section \<open>Paths\<close>

text \<open>\<open>path.Join\<close>: the parts with slashes between them, without empty parts, dots and parts that are gone up from.\<close>

fun clean_parts :: "bool \<Rightarrow> string list \<Rightarrow> string list \<Rightarrow> string list" where
  "clean_parts rooted out [] = rev out"
| "clean_parts rooted out (p # ps) =
     (if p = [] \<or> p = ''.'' then clean_parts rooted out ps
      else if p = ''..'' then
        (if out \<noteq> [] \<and> hd out \<noteq> ''..'' then clean_parts rooted (tl out) ps
         else if rooted then clean_parts rooted out ps
         else clean_parts rooted (p # out) ps)
      else clean_parts rooted (p # out) ps)"

definition path_Clean :: "string \<Rightarrow> string" where
  "path_Clean p =
     (let rooted = (take 1 p = ''/''); body = join ''/'' (clean_parts rooted [] (split_on CHR ''/'' p)) in
      if rooted then CHR ''/'' # body else if body = [] then ''.'' else body)"

definition path_Join :: "string list \<Rightarrow> string" where
  "path_Join elems = (let es = filter (\<lambda>e. e \<noteq> []) elems in if es = [] then [] else path_Clean (join ''/'' es))"

lemma clean_parts_app:
  "\<lbrakk>a \<notin> {[], ''.'', ''..''}; b \<notin> {[], ''.'', ''..''}\<rbrakk> \<Longrightarrow>
    clean_parts rooted out (ps @ [a, b]) = clean_parts rooted out ps @ [a, b]"
  by (induction rooted out ps rule: clean_parts.induct) auto

lemma join_append: "join sep (xs @ [a, b]) = (if xs = [] then [] else join sep xs @ sep) @ a @ sep @ b"
  by (induction sep xs rule: join.induct) (auto simp: neq_Nil_conv)

lemma split_on_snoc: "sep \<notin> set b \<Longrightarrow> split_on sep (a @ sep # b) = split_on sep a @ [b]"
  by (induction a) (auto simp: split_on_no_sep split: list.splits)

definition dir_prefix :: "string \<Rightarrow> string" where
  "dir_prefix base = (if base = [] then [] else
     let rooted = (take 1 base = ''/''); ps = clean_parts rooted [] (split_on CHR ''/'' base) in
     (if rooted then ''/'' else []) @ (if ps = [] then [] else join ''/'' ps @ ''/''))"

lemma path_Join_file:
  assumes "CHR ''/'' \<notin> set dir" "CHR ''/'' \<notin> set f" "dir \<notin> {[], ''.'', ''..''}" "f \<notin> {[], ''.'', ''..''}"
  shows "path_Join [base, dir, f] = dir_prefix base @ dir @ ''/'' @ f"
proof (cases "base = []")
  case True
  have "split_on CHR ''/'' (dir @ CHR ''/'' # f) = [] @ [dir, f]"
    using assms by (simp add: split_on_snoc split_on_no_sep)
  moreover have "take 1 (dir @ CHR ''/'' # f) \<noteq> ''/''" using assms by (cases dir) auto
  ultimately show ?thesis
    using True assms by (simp add: path_Join_def path_Clean_def Let_def dir_prefix_def)
next
  case False
  have "split_on CHR ''/'' (base @ CHR ''/'' # dir @ CHR ''/'' # f) = split_on CHR ''/'' base @ [dir, f]"
    using assms split_on_snoc [of "CHR ''/''" f "base @ CHR ''/'' # dir"] by (simp add: split_on_snoc)
  moreover have "take 1 (base @ CHR ''/'' # dir @ CHR ''/'' # f) = take 1 base" using False by (cases base) auto
  ultimately show ?thesis
    using False assms
    by (simp add: path_Join_def path_Clean_def Let_def dir_prefix_def clean_parts_app join_append)
qed

section \<open>Dumps\<close>

text \<open>
  \<open>hex.Dump\<close>: lines of 16 bytes with their offset in front and the printable characters behind; the last line is
  filled up with blanks.
\<close>

definition dump_char :: "byte \<Rightarrow> char" where
  "dump_char b = (if b < 32 \<or> b > 126 then CHR ''.'' else char_of (unat b))"

definition dump_cell :: "bytes \<Rightarrow> nat \<Rightarrow> string" where
  "dump_cell line i = (if i < length line then hex_encode [line ! i] else ''  '') @ '' ''
     @ (if i = 7 then '' '' else if i = 15 then '' |'' else [])"

definition dump_line :: "nat \<Rightarrow> bytes \<Rightarrow> string" where
  "dump_line offset line = hex_encode (be_bytes 4 (word_of_nat offset :: u32)) @ ''  ''
     @ concat (map (dump_cell line) [0..<16]) @ map dump_char line @ ''|'' @ [newline]"

function dump_lines :: "nat \<Rightarrow> bytes \<Rightarrow> string" where
  "dump_lines offset bs = (if bs = [] then [] else dump_line offset (take 16 bs) @ dump_lines (offset + 16) (drop 16 bs))"
  by pat_completeness auto
termination by (relation "measure (\<lambda>(offset, bs). length bs)") auto

declare dump_lines.simps [simp del]

definition hex_Dump :: "bytes \<Rightarrow> string" where "hex_Dump data = dump_lines 0 data"

end
