(* ===== verification/Gsbot.thy ===== *)
theory Gsbot
  imports Steam_Client Json Go_Files
begin

text \<open>
  \<open>gsbot/gsbot.go\<close>: the modules of a bot around a client that keep something on disk: the sentry of the machine
  authorization (\<open>Auth\<close>) and the list of servers (\<open>ServerList\<close>). What they log is left out.
\<close>

section \<open>Auth\<close>

record BotAuth =
  bot_details :: LogOnDetails
  bot_sentryPath :: string
  bot_machineAuthHash :: bytes

definition NewAuth :: "LogOnDetails \<Rightarrow> string \<Rightarrow> BotAuth" where
  "NewAuth details sentryPath = \<lparr>bot_details = details, bot_sentryPath = sentryPath, bot_machineAuthHash = []\<rparr>"

definition bot_LogOn :: "Disk \<Rightarrow> BotAuth \<Rightarrow> Client \<Rightarrow> (BotAuth \<times> Client) res" where
  "bot_LogOn d a c =
     (let sentry = (case ReadFile (bot_sentryPath a) d of Ok s \<Rightarrow> Some (bytes_of s) | _ \<Rightarrow> None);
          a = a\<lparr>bot_details := (bot_details a)\<lparr>Details_SentryFileHash := sentry\<rparr>\<rparr>
      in map_res (\<lambda>c. (a, c)) (LogOn (bot_details a) c))"

definition bot_HandleEvent :: "Event \<Rightarrow> Disk \<Rightarrow> BotAuth \<Rightarrow> Client \<Rightarrow> (Disk \<times> BotAuth \<times> Client) res" where
  "bot_HandleEvent event d a c = (case event of
     Ev_Connected \<Rightarrow> map_res (\<lambda>(a, c). (d, a, c)) (bot_LogOn d a c)
   | Ev_MachineAuthUpdate e \<Rightarrow>
       (let a = a\<lparr>bot_machineAuthHash := MachineAuthUpdateEvent_Hash e\<rparr> in
        map_res (\<lambda>d. (d, a, c)) (must (WriteFile (bot_sentryPath a) (string_of (MachineAuthUpdateEvent_Hash e)) d)))
   | _ \<Rightarrow> Ok (d, a, c))"

section \<open>ServerList\<close>

text \<open>\<open>net.IP\<close> as JSON: its text; the empty text is nil. An address that is neither of 4 nor of 16 bytes has none.\<close>

definition IP_MarshalText :: "IP \<Rightarrow> string res" where
  "IP_MarshalText ip = (if ip = [] then Ok [] else if length ip = 4 \<or> length ip = 16 then Ok (IP_String ip)
     else Err (GoErr ''address: invalid IP address''))"

fun IP_UnmarshalText :: "IP jdec" where
  "IP_UnmarshalText JNull v = Ok ([], None)"
| "IP_UnmarshalText (JStr s) v = (if s = [] then Ok ([], None) else case ParseIP s of
     Some ip \<Rightarrow> Ok (ip, None) | None \<Rightarrow> Ok (v, Some (GoErr ''invalid IP address'')))"
| "IP_UnmarshalText _ v = Ok (v, Some type_error)"

fun addresses_json :: "PortAddr list \<Rightarrow> json list res" where
  "addresses_json [] = Ok []"
| "addresses_json (a # as) = bind_res (IP_MarshalText (PortAddr_IP a)) (\<lambda>ip.
     map_res (Cons (JObj [(''IP'', JStr ip), (''Port'', JNum (FormatUint (unat (PortAddr_Port a))))])) (addresses_json as))"

definition zero_PortAddr :: PortAddr where "zero_PortAddr = \<lparr>PortAddr_IP = [], PortAddr_Port = 0\<rparr>"

definition dec_addresses :: "PortAddr option list jdec" where
  "dec_addresses = dec_list None (dec_ptr zero_PortAddr (dec_struct
     [field ''IP'' IP_UnmarshalText PortAddr_IP PortAddr_IP_update, field ''Port'' dec_uint PortAddr_Port PortAddr_Port_update]))"

definition servers_HandleEvent :: "Site \<Rightarrow> string \<Rightarrow> Event \<Rightarrow> Disk \<Rightarrow> Disk res" where
  "servers_HandleEvent json listPath event d = (case event of
     Ev_ClientCMList e \<Rightarrow>
       bind_res (must (addresses_json (ClientCMListEvent_Addresses e))) (\<lambda>js.
       must (WriteFile listPath (site_text json (JArr js)) d))
   | _ \<Rightarrow> Ok d)"

text \<open>
  \<open>ConnectBind\<close>: without a file the client looks for a server itself (\<open>fallback\<close>). \<open>rng\<close> is the number drawn for
  \<open>rand.Intn\<close>, which panics on an empty range.
\<close>

definition servers_ConnectBind ::
  "Site \<Rightarrow> string \<Rightarrow> nat \<Rightarrow> go_err option \<Rightarrow> (Client \<Rightarrow> (go_err option \<times> Client) res) \<Rightarrow> Disk \<Rightarrow> Client
     \<Rightarrow> (bool \<times> go_err option \<times> Client) res" where
  "servers_ConnectBind json listPath rng dialled fallback d c = (case ReadFile listPath d of
     Err e \<Rightarrow> map_res (\<lambda>(err, c). (err = None, err, c)) (fallback c)
   | Panic p \<Rightarrow> Panic p
   | Ok text \<Rightarrow> (case decode_as dec_addresses [] (site_parse json text) of
         Err err \<Rightarrow> Ok (False, Some err, c)
       | Panic p \<Rightarrow> Panic p
       | Ok addrs \<Rightarrow>
           if addrs = [] then Panic ''invalid argument to Intn''
           else map_res (\<lambda>(err, c). (err = None, err, c)) (ConnectToBind (addrs ! (rng mod length addrs)) dialled c)))"


section \<open>What is kept\<close>

definition as_saved :: "PortAddr \<Rightarrow> PortAddr" where
  "as_saved a = a\<lparr>PortAddr_IP := v4_prefix @ PortAddr_IP a\<rparr>"

definition v4_addr :: "PortAddr \<Rightarrow> bool" where
  "v4_addr a \<longleftrightarrow> length (PortAddr_IP a) = 4"

definition address_json :: "PortAddr \<Rightarrow> json" where
  "address_json a = JObj [(''IP'', JStr (ip4_text (PortAddr_IP a))), (''Port'', JNum (FormatUint (unat (PortAddr_Port a))))]"

lemma IP_text_v4: "length ip = 4 \<Longrightarrow> IP_MarshalText ip = Ok (ip4_text ip)"
  by (auto simp: IP_MarshalText_def IP_String_def To4_def)

lemma addresses_json_v4: "list_all v4_addr as \<Longrightarrow> addresses_json as = Ok (map address_json as)"
  by (induction as) (simp_all add: v4_addr_def IP_text_v4 address_json_def)

lemma uint_text_FormatUint: "uint_text (FormatUint (unat w)) v = (w :: 'a::len word, None)" if "LENGTH('a) \<le> 64"
proof -
  have "unat w < 2 ^ LENGTH('a)" by (rule unsigned_less)
  also have "\<dots> \<le> 2 ^ 64" using power_increasing [OF that, of "2 :: nat"] by simp
  finally show ?thesis by (simp add: uint_text_def)
qed

lemma address_decodes:
  assumes "v4_addr a"
  shows "dec_ptr zero_PortAddr (dec_struct [field ''IP'' IP_UnmarshalText PortAddr_IP PortAddr_IP_update,
      field ''Port'' dec_uint PortAddr_Port PortAddr_Port_update]) (address_json a) None = Ok (Some (as_saved a), None)"
proof -
  have "ip4_text (PortAddr_IP a) \<noteq> []" by (simp add: ip4_text_def)
  then show ?thesis
    using assms ParseIP_ip4_text [of "PortAddr_IP a"]
    by (simp add: dec_ptr_def address_json_def find_field_def field_def uint_text_FormatUint zero_PortAddr_def as_saved_def v4_addr_def)
qed

lemma addresses_decode:
  assumes "list_all v4_addr as"
  shows "dec_addresses (JArr (map address_json as)) [] = Ok (map (Some \<circ> as_saved) as, None)"
  using assms unfolding dec_addresses_def dec_list.simps
  by (induction as) (simp_all add: address_decodes)

text \<open>
  The servers a bot saves are the ones it connects to the next time: after the event with a list of IPv4 servers,
  connecting picks one of exactly these, the same one for the same random number. An empty list is saved as well, and
  then connecting panics. The JSON library is assumed to read back what it has printed here.
\<close>

theorem saved_servers_are_used:
  assumes "list_all v4_addr as" and "disk_writable d path" and "site_parse json (site_text json (JArr (map address_json as))) = Some (JArr (map address_json as))"
  shows "\<exists>d'. servers_HandleEvent json path (Ev_ClientCMList \<lparr>ClientCMListEvent_Addresses = as\<rparr>) d = Ok d' \<and>
    servers_ConnectBind json path rng dialled fallback d' c =
      (if as = [] then Panic ''invalid argument to Intn''
       else map_res (\<lambda>(err, c). (err = None, err, c))
         (ConnectToBind (Some (as_saved (as ! (rng mod length as)))) dialled c))"
  using assms(2,3)
  by (simp add: servers_HandleEvent_def addresses_json_v4 [OF assms(1)] WriteFile_def servers_ConnectBind_def ReadFile_def
    decode_as_def addresses_decode [OF assms(1)])

theorem saved_servers_are_used_witness:
  "\<exists>d'. servers_HandleEvent \<lparr>site_do = \<lambda>_. Inl EOF, site_parse = \<lambda>_. Some (JArr [address_json \<lparr>PortAddr_IP = [1, 2, 3, 4], PortAddr_Port = 5\<rparr>]),
      site_text = \<lambda>_. ''servers''\<rparr> ''list'' (Ev_ClientCMList \<lparr>ClientCMListEvent_Addresses = [\<lparr>PortAddr_IP = [1, 2, 3, 4], PortAddr_Port = 5\<rparr>]\<rparr>)
      \<lparr>disk_files = \<lambda>_. None, disk_writable = \<lambda>_. True\<rparr> = Ok d' \<and>
    servers_ConnectBind \<lparr>site_do = \<lambda>_. Inl EOF, site_parse = \<lambda>_. Some (JArr [address_json \<lparr>PortAddr_IP = [1, 2, 3, 4], PortAddr_Port = 5\<rparr>]),
      site_text = \<lambda>_. ''servers''\<rparr> ''list'' 7 None (\<lambda>c. Ok (None, c)) d' NewClient =
      map_res (\<lambda>(err, c). (err = None, err, c))
        (ConnectToBind (Some \<lparr>PortAddr_IP = v4_prefix @ [1, 2, 3, 4], PortAddr_Port = 5\<rparr>) None NewClient)"
  using saved_servers_are_used [of "[\<lparr>PortAddr_IP = [1, 2, 3, 4], PortAddr_Port = 5\<rparr>]"
      "\<lparr>disk_files = \<lambda>_. None, disk_writable = \<lambda>_. True\<rparr>" "''list''"
      "\<lparr>site_do = \<lambda>_. Inl EOF, site_parse = \<lambda>_. Some (JArr [address_json \<lparr>PortAddr_IP = [1, 2, 3, 4], PortAddr_Port = 5\<rparr>]),
        site_text = \<lambda>_. ''servers''\<rparr>" 7 None "\<lambda>c. Ok (None, c)" NewClient]
  by (simp add: v4_addr_def as_saved_def)

text \<open>The sentry of the last machine authorization is the one the next log-on sends.\<close>

theorem saved_sentry_is_used:
  assumes "bot_HandleEvent (Ev_MachineAuthUpdate e) d a c = Ok (d', a', c')"
  shows "bot_HandleEvent Ev_Connected d' a' c2 = map_res (\<lambda>c. (d', a'\<lparr>bot_details := (bot_details a)
      \<lparr>Details_SentryFileHash := Some (MachineAuthUpdateEvent_Hash e)\<rparr>\<rparr>, c))
    (LogOn ((bot_details a)\<lparr>Details_SentryFileHash := Some (MachineAuthUpdateEvent_Hash e)\<rparr>) c2)"
proof -
  have "d' = d\<lparr>disk_files := (disk_files d)(bot_sentryPath a := Some (string_of (MachineAuthUpdateEvent_Hash e)))\<rparr>"
    "a' = a\<lparr>bot_machineAuthHash := MachineAuthUpdateEvent_Hash e\<rparr>"
    using assms by (auto simp: bot_HandleEvent_def WriteFile_def Let_def map_res_Ok_iff split: if_splits)
  then show ?thesis
    by (cases "LogOn ((bot_details a)\<lparr>Details_SentryFileHash := Some (MachineAuthUpdateEvent_Hash e)\<rparr>) c2")
      (simp_all add: bot_HandleEvent_def bot_LogOn_def ReadFile_def)
qed

end
