(* ===== verification/Enums.thy ===== *)
theory Enums
  imports Steamlang "HOL-Library.Char_ord" "HOL-Library.List_Lexorder"
    "HOL-Library.Multiset"
begin

text \<open>
  The \<open>String\<close> methods of the enums of \<open>protocol/steamlang/enums.go\<close> and the tables they read, all but the one of
  \<open>EMsg\<close> (\<open>Enums_EMsg\<close>). A table is a Go map from values to names; the generated method is the same for every enum and
  is written once, over the table. The map is read in a random order, so the table is a list in some order, and
  \<open>enum_String_order\<close> shows that the order does not matter.
\<close>

section \<open>The generated method\<close>

type_synonym 'a names = "('a \<times> string) list"

text \<open>\<open>%d\<close> of a signed and of an unsigned integer.\<close>

definition signed_digits :: "'a::len word \<Rightarrow> string" where
  "signed_digits e = (if sint e < 0 then CHR ''-'' # FormatUint (nat (- sint e)) else FormatUint (nat (sint e)))"

definition unsigned_digits :: "'a::len word \<Rightarrow> string" where
  "unsigned_digits e = FormatUint (unat e)"

text \<open>\<open>strings.Join\<close>.\<close>

fun Join :: "string list \<Rightarrow> string \<Rightarrow> string" where
  "Join [] sep = []"
| "Join [s] sep = s"
| "Join (s # t # ss) sep = s @ sep @ Join (t # ss) sep"

text \<open>The names of the entries that share a bit with the value, in the order in which the table is read.\<close>

fun shared_names :: "'a::len word names \<Rightarrow> 'a word \<Rightarrow> string list" where
  "shared_names [] e = []"
| "shared_names ((k, v) # t) e = (if e AND k \<noteq> 0 then v # shared_names t e else shared_names t e)"

definition enum_String :: "'a::len word names \<Rightarrow> ('a word \<Rightarrow> string) \<Rightarrow> 'a word \<Rightarrow> string" where
  "enum_String names digits e = (case map_of names e of
     Some s \<Rightarrow> s
   | None \<Rightarrow>
       let flags = shared_names names e in
       if flags = [] then digits e
       else Join (sort flags) '' | '')"

lemma shared_names_filter: "shared_names t e = map snd (filter (\<lambda>(k, _). e AND k \<noteq> 0) t)"
  by (induction t e rule: shared_names.induct) auto

text \<open>Go reads the map in a random order; any arrangement of the table gives the same text.\<close>

lemma enum_String_order:
  fixes names names' :: "'a::len word names"
  assumes "distinct (map fst names)" "mset names' = mset names"
  shows "enum_String names' digits e = enum_String names digits e"
proof -
  have d: "distinct (map fst names')"
    using assms(1) mset_eq_imp_distinct_iff [of "map fst names'" "map fst names"] assms(2) by simp
  have "map_of names' = map_of names"
    using map_of_inject_set [OF d assms(1)] mset_eq_setD [OF assms(2)] by blast
  moreover have m: "mset (shared_names names' e) = mset (shared_names names e)"
    by (simp add: shared_names_filter assms(2))
  then have "sort (shared_names names' e) = sort (shared_names names e)"
    by (intro properties_for_sort) simp_all
  moreover have "shared_names names' e = [] \<longleftrightarrow> shared_names names e = []"
    using m by (metis mset_zero_iff)
  ultimately show ?thesis by (simp add: enum_String_def Let_def cong: option.case_cong)
qed


section \<open>The enums\<close>


subsection \<open>\<open>EResult\<close>\<close>

definition EResult_name :: "i32 names" where
  "EResult_name = [
    (0, ''EResult_Invalid''),
    (1, ''EResult_OK''),
    (2, ''EResult_Fail''),
    (3, ''EResult_NoConnection''),
    (5, ''EResult_InvalidPassword''),
    (6, ''EResult_LoggedInElsewhere''),
    (7, ''EResult_InvalidProtocolVer''),
    (8, ''EResult_InvalidParam''),
    (9, ''EResult_FileNotFound''),
    (10, ''EResult_Busy''),
    (11, ''EResult_InvalidState''),
    (12, ''EResult_InvalidName''),
    (13, ''EResult_InvalidEmail''),
    (14, ''EResult_DuplicateName''),
    (15, ''EResult_AccessDenied''),
    (16, ''EResult_Timeout''),
    (17, ''EResult_Banned''),
    (18, ''EResult_AccountNotFound''),
    (19, ''EResult_InvalidSteamID''),
    (20, ''EResult_ServiceUnavailable''),
    (21, ''EResult_NotLoggedOn''),
    (22, ''EResult_Pending''),
    (23, ''EResult_EncryptionFailure''),
    (24, ''EResult_InsufficientPrivilege''),
    (25, ''EResult_LimitExceeded''),
    (26, ''EResult_Revoked''),
    (27, ''EResult_Expired''),
    (28, ''EResult_AlreadyRedeemed''),
    (29, ''EResult_DuplicateRequest''),
    (30, ''EResult_AlreadyOwned''),
    (31, ''EResult_IPNotFound''),
    (32, ''EResult_PersistFailed''),
    (33, ''EResult_LockingFailed''),
    (34, ''EResult_LogonSessionReplaced''),
    (35, ''EResult_ConnectFailed''),
    (36, ''EResult_HandshakeFailed''),
    (37, ''EResult_IOFailure''),
    (38, ''EResult_RemoteDisconnect''),
    (39, ''EResult_ShoppingCartNotFound''),
    (40, ''EResult_Blocked''),
    (41, ''EResult_Ignored''),
    (42, ''EResult_NoMatch''),
    (43, ''EResult_AccountDisabled''),
    (44, ''EResult_ServiceReadOnly''),
    (45, ''EResult_AccountNotFeatured''),
    (46, ''EResult_AdministratorOK''),
    (47, ''EResult_ContentVersion''),
    (48, ''EResult_TryAnotherCM''),
    (49, ''EResult_PasswordRequiredToKickSession''),
    (50, ''EResult_AlreadyLoggedInElsewhere''),
    (51, ''EResult_Suspended''),
    (52, ''EResult_Cancelled''),
    (53, ''EResult_DataCorruption''),
    (54, ''EResult_DiskFull''),
    (55, ''EResult_RemoteCallFailed''),
    (56, ''EResult_PasswordNotSet''),
    (57, ''EResult_ExternalAccountUnlinked''),
    (58, ''EResult_PSNTicketInvalid''),
    (59, ''EResult_ExternalAccountAlreadyLinked''),
    (60, ''EResult_RemoteFileConflict''),
    (61, ''EResult_IllegalPassword''),
    (62, ''EResult_SameAsPreviousValue''),
    (63, ''EResult_AccountLogonDenied''),
    (64, ''EResult_CannotUseOldPassword''),
    (65, ''EResult_InvalidLoginAuthCode''),
    (66, ''EResult_AccountLogonDeniedNoMailSent''),
    (67, ''EResult_HardwareNotCapableOfIPT''),
    (68, ''EResult_IPTInitError''),
    (69, ''EResult_ParentalControlRestricted''),
    (70, ''EResult_FacebookQueryError''),
    (71, ''EResult_ExpiredLoginAuthCode''),
    (72, ''EResult_IPLoginRestrictionFailed''),
    (73, ''EResult_AccountLocked''),
    (74, ''EResult_AccountLogonDeniedVerifiedEmailRequired''),
    (75, ''EResult_NoMatchingURL''),
    (76, ''EResult_BadResponse''),
    (77, ''EResult_RequirePasswordReEntry''),
    (78, ''EResult_ValueOutOfRange''),
    (79, ''EResult_UnexpectedError''),
    (80, ''EResult_Disabled''),
    (81, ''EResult_InvalidCEGSubmission''),
    (82, ''EResult_RestrictedDevice''),
    (83, ''EResult_RegionLocked''),
    (84, ''EResult_RateLimitExceeded''),
    (85, ''EResult_AccountLogonDeniedNeedTwoFactorCode''),
    (86, ''EResult_ItemOrEntryHasBeenDeleted''),
    (87, ''EResult_AccountLoginDeniedThrottle''),
    (88, ''EResult_TwoFactorCodeMismatch''),
    (89, ''EResult_TwoFactorActivationCodeMismatch''),
    (90, ''EResult_AccountAssociatedToMultiplePlayers''),
    (91, ''EResult_NotModified''),
    (92, ''EResult_NoMobileDeviceAvailable''),
    (93, ''EResult_TimeIsOutOfSync''),
    (94, ''EResult_SMSCodeFailed''),
    (95, ''EResult_TooManyAccountsAccessThisResource''),
    (96, ''EResult_AccountActivityLimitExceeded''),
    (97, ''EResult_PhoneActivityLimitExceeded''),
    (98, ''EResult_RefundToWallet''),
    (99, ''EResult_EmailSendFailure''),
    (100, ''EResult_NotSettled''),
    (101, ''EResult_NeedCaptcha''),
    (102, ''EResult_GSLTDenied''),
    (103, ''EResult_GSOwnerDenied''),
    (104, ''EResult_InvalidItemType''),
    (105, ''EResult_IPBanned''),
    (106, ''EResult_GSLTExpired''),
    (107, ''EResult_InsufficientFunds''),
    (108, ''EResult_TooManyPending''),
    (109, ''EResult_NoSiteLicensesFound''),
    (110, ''EResult_WGNetworkSendExceeded''),
    (111, ''EResult_AccountNotFriends''),
    (112, ''EResult_LimitedUserAccount''),
    (113, ''EResult_CantRemoveItem''),
    (114, ''EResult_AccountHasBeenDeleted''),
    (115, ''EResult_AccountHasAnExistingUserCancelledLicense''),
    (116, ''EResult_DeniedDueToCommunityCooldown'')]"

definition EResult_String :: "i32 \<Rightarrow> string" where
  "EResult_String = enum_String EResult_name signed_digits"


subsection \<open>\<open>EUniverse\<close>\<close>

definition EUniverse_name :: "i32 names" where
  "EUniverse_name = [
    (0, ''EUniverse_Invalid''),
    (1, ''EUniverse_Public''),
    (2, ''EUniverse_Beta''),
    (3, ''EUniverse_Internal''),
    (4, ''EUniverse_Dev'')]"

definition EUniverse_String :: "i32 \<Rightarrow> string" where
  "EUniverse_String = enum_String EUniverse_name signed_digits"


subsection \<open>\<open>EChatEntryType\<close>\<close>

definition EChatEntryType_name :: "i32 names" where
  "EChatEntryType_name = [
    (0, ''EChatEntryType_Invalid''),
    (1, ''EChatEntryType_ChatMsg''),
    (2, ''EChatEntryType_Typing''),
    (3, ''EChatEntryType_InviteGame''),
    (4, ''EChatEntryType_Emote''),
    (5, ''EChatEntryType_LobbyGameStart''),
    (6, ''EChatEntryType_LeftConversation''),
    (7, ''EChatEntryType_Entered''),
    (8, ''EChatEntryType_WasKicked''),
    (9, ''EChatEntryType_WasBanned''),
    (10, ''EChatEntryType_Disconnected''),
    (11, ''EChatEntryType_HistoricalChat''),
    (12, ''EChatEntryType_Reserved1''),
    (13, ''EChatEntryType_Reserved2''),
    (14, ''EChatEntryType_LinkBlocked'')]"

definition EChatEntryType_String :: "i32 \<Rightarrow> string" where
  "EChatEntryType_String = enum_String EChatEntryType_name signed_digits"


subsection \<open>\<open>EPersonaState\<close>\<close>

definition EPersonaState_name :: "i32 names" where
  "EPersonaState_name = [
    (0, ''EPersonaState_Offline''),
    (1, ''EPersonaState_Online''),
    (2, ''EPersonaState_Busy''),
    (3, ''EPersonaState_Away''),
    (4, ''EPersonaState_Snooze''),
    (5, ''EPersonaState_LookingToTrade''),
    (6, ''EPersonaState_LookingToPlay''),
    (7, ''EPersonaState_Invisible'')]"

definition EPersonaState_String :: "i32 \<Rightarrow> string" where
  "EPersonaState_String = enum_String EPersonaState_name signed_digits"


subsection \<open>\<open>EAccountType\<close>\<close>

definition EAccountType_name :: "i32 names" where
  "EAccountType_name = [
    (0, ''EAccountType_Invalid''),
    (1, ''EAccountType_Individual''),
    (2, ''EAccountType_Multiseat''),
    (3, ''EAccountType_GameServer''),
    (4, ''EAccountType_AnonGameServer''),
    (5, ''EAccountType_Pending''),
    (6, ''EAccountType_ContentServer''),
    (7, ''EAccountType_Clan''),
    (8, ''EAccountType_Chat''),
    (9, ''EAccountType_ConsoleUser''),
    (10, ''EAccountType_AnonUser'')]"

definition EAccountType_String :: "i32 \<Rightarrow> string" where
  "EAccountType_String = enum_String EAccountType_name signed_digits"


subsection \<open>\<open>EFriendRelationship\<close>\<close>

definition EFriendRelationship_name :: "i32 names" where
  "EFriendRelationship_name = [
    (0, ''EFriendRelationship_None''),
    (1, ''EFriendRelationship_Blocked''),
    (2, ''EFriendRelationship_RequestRecipient''),
    (3, ''EFriendRelationship_Friend''),
    (4, ''EFriendRelationship_RequestInitiator''),
    (5, ''EFriendRelationship_Ignored''),
    (6, ''EFriendRelationship_IgnoredFriend''),
    (7, ''EFriendRelationship_SuggestedFriend'')]"

definition EFriendRelationship_String :: "i32 \<Rightarrow> string" where
  "EFriendRelationship_String = enum_String EFriendRelationship_name signed_digits"


subsection \<open>\<open>EAccountFlags\<close>\<close>

definition EAccountFlags_name :: "i32 names" where
  "EAccountFlags_name = [
    (0, ''EAccountFlags_NormalUser''),
    (1, ''EAccountFlags_PersonaNameSet''),
    (2, ''EAccountFlags_Unbannable''),
    (4, ''EAccountFlags_PasswordSet''),
    (8, ''EAccountFlags_Support''),
    (16, ''EAccountFlags_Admin''),
    (32, ''EAccountFlags_Supervisor''),
    (64, ''EAccountFlags_AppEditor''),
    (128, ''EAccountFlags_HWIDSet''),
    (256, ''EAccountFlags_PersonalQASet''),
    (512, ''EAccountFlags_VacBeta''),
    (1024, ''EAccountFlags_Debug''),
    (2048, ''EAccountFlags_Disabled''),
    (4096, ''EAccountFlags_LimitedUser''),
    (8192, ''EAccountFlags_LimitedUserForce''),
    (16384, ''EAccountFlags_EmailValidated''),
    (32768, ''EAccountFlags_MarketingTreatment''),
    (65536, ''EAccountFlags_OGGInviteOptOut''),
    (131072, ''EAccountFlags_ForcePasswordChange''),
    (262144, ''EAccountFlags_ForceEmailVerification''),
    (524288, ''EAccountFlags_LogonExtraSecurity''),
    (1048576, ''EAccountFlags_LogonExtraSecurityDisabled''),
    (2097152, ''EAccountFlags_Steam2MigrationComplete''),
    (4194304, ''EAccountFlags_NeedLogs''),
    (8388608, ''EAccountFlags_Lockdown''),
    (16777216, ''EAccountFlags_MasterAppEditor''),
    (33554432, ''EAccountFlags_BannedFromWebAPI''),
    (67108864, ''EAccountFlags_ClansOnlyFromFriends''),
    (134217728, ''EAccountFlags_GlobalModerator''),
    (268435456, ''EAccountFlags_ParentalSettings''),
    (536870912, ''EAccountFlags_ThirdPartySupport''),
    (1073741824, ''EAccountFlags_NeedsSSANextSteamLogon'')]"

definition EAccountFlags_String :: "i32 \<Rightarrow> string" where
  "EAccountFlags_String = enum_String EAccountFlags_name signed_digits"


subsection \<open>\<open>EClanPermission\<close>\<close>

definition EClanPermission_name :: "i32 names" where
  "EClanPermission_name = [
    (0, ''EClanPermission_Nobody''),
    (1, ''EClanPermission_Owner''),
    (2, ''EClanPermission_Officer''),
    (3, ''EClanPermission_OwnerAndOfficer''),
    (4, ''EClanPermission_Member''),
    (8, ''EClanPermission_Moderator''),
    (11, ''EClanPermission_OwnerOfficerModerator''),
    (15, ''EClanPermission_AllMembers''),
    (16, ''EClanPermission_OGGGameOwner''),
    (128, ''EClanPermission_NonMember''),
    (132, ''EClanPermission_MemberAllowed''),
    (140, ''EClanPermission_ModeratorAllowed''),
    (142, ''EClanPermission_OfficerAllowed''),
    (143, ''EClanPermission_OwnerAllowed'')]"

definition EClanPermission_String :: "i32 \<Rightarrow> string" where
  "EClanPermission_String = enum_String EClanPermission_name signed_digits"


subsection \<open>\<open>EChatPermission\<close>\<close>

definition EChatPermission_name :: "i32 names" where
  "EChatPermission_name = [
    (1, ''EChatPermission_Close''),
    (2, ''EChatPermission_Invite''),
    (8, ''EChatPermission_Talk''),
    (16, ''EChatPermission_Kick''),
    (32, ''EChatPermission_Mute''),
    (64, ''EChatPermission_SetMetadata''),
    (128, ''EChatPermission_ChangePermissions''),
    (256, ''EChatPermission_Ban''),
    (512, ''EChatPermission_ChangeAccess''),
    (10, ''EChatPermission_EveryoneDefault''),
    (282, ''EChatPermission_MemberDefault''),
    (891, ''EChatPermission_OwnerDefault''),
    (1019, ''EChatPermission_Mask'')]"

definition EChatPermission_String :: "i32 \<Rightarrow> string" where
  "EChatPermission_String = enum_String EChatPermission_name signed_digits"


subsection \<open>\<open>EFriendFlags\<close>\<close>

definition EFriendFlags_name :: "i32 names" where
  "EFriendFlags_name = [
    (0, ''EFriendFlags_None''),
    (1, ''EFriendFlags_Blocked''),
    (2, ''EFriendFlags_FriendshipRequested''),
    (4, ''EFriendFlags_Immediate''),
    (8, ''EFriendFlags_ClanMember''),
    (16, ''EFriendFlags_OnGameServer''),
    (128, ''EFriendFlags_RequestingFriendship''),
    (256, ''EFriendFlags_RequestingInfo''),
    (512, ''EFriendFlags_Ignored''),
    (1024, ''EFriendFlags_IgnoredFriend''),
    (2048, ''EFriendFlags_Suggested''),
    (4096, ''EFriendFlags_ChatMember''),
    (65535, ''EFriendFlags_FlagAll'')]"

definition EFriendFlags_String :: "i32 \<Rightarrow> string" where
  "EFriendFlags_String = enum_String EFriendFlags_name signed_digits"


subsection \<open>\<open>EPersonaStateFlag\<close>\<close>

definition EPersonaStateFlag_name :: "i32 names" where
  "EPersonaStateFlag_name = [
    (1, ''EPersonaStateFlag_HasRichPresence''),
    (2, ''EPersonaStateFlag_InJoinableGame''),
    (4, ''EPersonaStateFlag_Golden''),
    (8, ''EPersonaStateFlag_RemotePlayTogether''),
    (256, ''EPersonaStateFlag_OnlineUsingWeb''),
    (512, ''EPersonaStateFlag_OnlineUsingMobile''),
    (1024, ''EPersonaStateFlag_OnlineUsingBigPicture''),
    (2048, ''EPersonaStateFlag_OnlineUsingVR''),
    (4096, ''EPersonaStateFlag_LaunchTypeGamepad''),
    (8192, ''EPersonaStateFlag_LaunchTypeCompatTool'')]"

definition EPersonaStateFlag_String :: "i32 \<Rightarrow> string" where
  "EPersonaStateFlag_String = enum_String EPersonaStateFlag_name signed_digits"


subsection \<open>\<open>EClientPersonaStateFlag\<close>\<close>

definition EClientPersonaStateFlag_name :: "i32 names" where
  "EClientPersonaStateFlag_name = [
    (1, ''EClientPersonaStateFlag_Status''),
    (2, ''EClientPersonaStateFlag_PlayerName''),
    (4, ''EClientPersonaStateFlag_QueryPort''),
    (8, ''EClientPersonaStateFlag_SourceID''),
    (16, ''EClientPersonaStateFlag_Presence''),
    (32, ''EClientPersonaStateFlag_Metadata''),
    (64, ''EClientPersonaStateFlag_LastSeen''),
    (128, ''EClientPersonaStateFlag_ClanInfo''),
    (256, ''EClientPersonaStateFlag_GameExtraInfo''),
    (512, ''EClientPersonaStateFlag_GameDataBlob''),
    (1024, ''EClientPersonaStateFlag_ClanTag''),
    (2048, ''EClientPersonaStateFlag_Facebook''),
    (4096, ''EClientPersonaStateFlag_RichPresence''),
    (8192, ''EClientPersonaStateFlag_Broadcast''),
    (16384, ''EClientPersonaStateFlag_Watching'')]"

definition EClientPersonaStateFlag_String :: "i32 \<Rightarrow> string" where
  "EClientPersonaStateFlag_String = enum_String EClientPersonaStateFlag_name signed_digits"


subsection \<open>\<open>EAppUsageEvent\<close>\<close>

definition EAppUsageEvent_name :: "i32 names" where
  "EAppUsageEvent_name = [
    (1, ''EAppUsageEvent_GameLaunch''),
    (2, ''EAppUsageEvent_GameLaunchTrial''),
    (3, ''EAppUsageEvent_Media''),
    (4, ''EAppUsageEvent_PreloadStart''),
    (5, ''EAppUsageEvent_PreloadFinish''),
    (6, ''EAppUsageEvent_MarketingMessageView''),
    (7, ''EAppUsageEvent_InGameAdViewed''),
    (8, ''EAppUsageEvent_GameLaunchFreeWeekend'')]"

definition EAppUsageEvent_String :: "i32 \<Rightarrow> string" where
  "EAppUsageEvent_String = enum_String EAppUsageEvent_name signed_digits"


subsection \<open>\<open>ELicenseFlags\<close>\<close>

definition ELicenseFlags_name :: "i32 names" where
  "ELicenseFlags_name = [
    (0, ''ELicenseFlags_None''),
    (1, ''ELicenseFlags_Renew''),
    (2, ''ELicenseFlags_RenewalFailed''),
    (4, ''ELicenseFlags_Pending''),
    (8, ''ELicenseFlags_Expired''),
    (16, ''ELicenseFlags_CancelledByUser''),
    (32, ''ELicenseFlags_CancelledByAdmin''),
    (64, ''ELicenseFlags_LowViolenceContent''),
    (128, ''ELicenseFlags_ImportedFromSteam2''),
    (256, ''ELicenseFlags_ForceRunRestriction''),
    (512, ''ELicenseFlags_RegionRestrictionExpired''),
    (1024, ''ELicenseFlags_CancelledByFriendlyFraudLock''),
    (2048, ''ELicenseFlags_NotActivated'')]"

definition ELicenseFlags_String :: "i32 \<Rightarrow> string" where
  "ELicenseFlags_String = enum_String ELicenseFlags_name signed_digits"


subsection \<open>\<open>ELicenseType\<close>\<close>

definition ELicenseType_name :: "i32 names" where
  "ELicenseType_name = [
    (0, ''ELicenseType_NoLicense''),
    (1, ''ELicenseType_SinglePurchase''),
    (2, ''ELicenseType_SinglePurchaseLimitedUse''),
    (3, ''ELicenseType_RecurringCharge''),
    (4, ''ELicenseType_RecurringChargeLimitedUse''),
    (5, ''ELicenseType_RecurringChargeLimitedUseWithOverages''),
    (6, ''ELicenseType_RecurringOption''),
    (7, ''ELicenseType_LimitedUseDelayedActivation'')]"

definition ELicenseType_String :: "i32 \<Rightarrow> string" where
  "ELicenseType_String = enum_String ELicenseType_name signed_digits"


subsection \<open>\<open>EPaymentMethod\<close>\<close>

definition EPaymentMethod_name :: "i32 names" where
  "EPaymentMethod_name = [
    (0, ''EPaymentMethod_None''),
    (1, ''EPaymentMethod_ActivationCode''),
    (2, ''EPaymentMethod_CreditCard''),
    (3, ''EPaymentMethod_Giropay''),
    (4, ''EPaymentMethod_PayPal''),
    (5, ''EPaymentMethod_Ideal''),
    (6, ''EPaymentMethod_PaySafeCard''),
    (7, ''EPaymentMethod_Sofort''),
    (8, ''EPaymentMethod_GuestPass''),
    (9, ''EPaymentMethod_WebMoney''),
    (10, ''EPaymentMethod_MoneyBookers''),
    (11, ''EPaymentMethod_AliPay''),
    (12, ''EPaymentMethod_Yandex''),
    (13, ''EPaymentMethod_Kiosk''),
    (14, ''EPaymentMethod_Qiwi''),
    (15, ''EPaymentMethod_GameStop''),
    (16, ''EPaymentMethod_HardwarePromo''),
    (17, ''EPaymentMethod_MoPay''),
    (18, ''EPaymentMethod_BoletoBancario''),
    (19, ''EPaymentMethod_BoaCompraGold''),
    (20, ''EPaymentMethod_BancoDoBrasilOnline''),
    (21, ''EPaymentMethod_ItauOnline''),
    (22, ''EPaymentMethod_BradescoOnline''),
    (23, ''EPaymentMethod_Pagseguro''),
    (24, ''EPaymentMethod_VisaBrazil''),
    (25, ''EPaymentMethod_AmexBrazil''),
    (26, ''EPaymentMethod_Aura''),
    (27, ''EPaymentMethod_Hipercard''),
    (28, ''EPaymentMethod_MastercardBrazil''),
    (29, ''EPaymentMethod_DinersCardBrazil''),
    (30, ''EPaymentMethod_AuthorizedDevice''),
    (31, ''EPaymentMethod_MOLPoints''),
    (32, ''EPaymentMethod_ClickAndBuy''),
    (33, ''EPaymentMethod_Beeline''),
    (34, ''EPaymentMethod_Konbini''),
    (35, ''EPaymentMethod_EClubPoints''),
    (36, ''EPaymentMethod_CreditCardJapan''),
    (37, ''EPaymentMethod_BankTransferJapan''),
    (38, ''EPaymentMethod_PayEasyJapan''),
    (39, ''EPaymentMethod_Zong''),
    (40, ''EPaymentMethod_CultureVoucher''),
    (41, ''EPaymentMethod_BookVoucher''),
    (42, ''EPaymentMethod_HappymoneyVoucher''),
    (43, ''EPaymentMethod_ConvenientStoreVoucher''),
    (44, ''EPaymentMethod_GameVoucher''),
    (45, ''EPaymentMethod_Multibanco''),
    (46, ''EPaymentMethod_Payshop''),
    (47, ''EPaymentMethod_Maestro''),
    (48, ''EPaymentMethod_OXXO''),
    (49, ''EPaymentMethod_ToditoCash''),
    (50, ''EPaymentMethod_Carnet''),
    (51, ''EPaymentMethod_SPEI''),
    (52, ''EPaymentMethod_ThreePay''),
    (53, ''EPaymentMethod_IsBank''),
    (54, ''EPaymentMethod_Garanti''),
    (55, ''EPaymentMethod_Akbank''),
    (56, ''EPaymentMethod_YapiKredi''),
    (57, ''EPaymentMethod_Halkbank''),
    (58, ''EPaymentMethod_BankAsya''),
    (59, ''EPaymentMethod_Finansbank''),
    (60, ''EPaymentMethod_DenizBank''),
    (61, ''EPaymentMethod_PTT''),
    (62, ''EPaymentMethod_CashU''),
    (64, ''EPaymentMethod_AutoGrant''),
    (65, ''EPaymentMethod_WebMoneyJapan''),
    (66, ''EPaymentMethod_OneCard''),
    (67, ''EPaymentMethod_PSE''),
    (68, ''EPaymentMethod_Exito''),
    (69, ''EPaymentMethod_Efecty''),
    (70, ''EPaymentMethod_Paloto''),
    (71, ''EPaymentMethod_PinValidda''),
    (72, ''EPaymentMethod_MangirKart''),
    (73, ''EPaymentMethod_BancoCreditoDePeru''),
    (74, ''EPaymentMethod_BBVAContinental''),
    (75, ''EPaymentMethod_SafetyPay''),
    (76, ''EPaymentMethod_PagoEfectivo''),
    (77, ''EPaymentMethod_Trustly''),
    (78, ''EPaymentMethod_UnionPay''),
    (79, ''EPaymentMethod_BitCoin''),
    (128, ''EPaymentMethod_Wallet''),
    (129, ''EPaymentMethod_Valve''),
    (130, ''EPaymentMethod_SteamPressMaster''),
    (131, ''EPaymentMethod_StorePromotion''),
    (134, ''EPaymentMethod_MasterSubscription''),
    (256, ''EPaymentMethod_OEMTicket''),
    (512, ''EPaymentMethod_Split''),
    (1024, ''EPaymentMethod_Complimentary'')]"

definition EPaymentMethod_String :: "i32 \<Rightarrow> string" where
  "EPaymentMethod_String = enum_String EPaymentMethod_name signed_digits"


subsection \<open>\<open>EPurchaseResultDetail\<close>\<close>

definition EPurchaseResultDetail_name :: "i32 names" where
  "EPurchaseResultDetail_name = [
    (0, ''EPurchaseResultDetail_NoDetail''),
    (1, ''EPurchaseResultDetail_AVSFailure''),
    (2, ''EPurchaseResultDetail_InsufficientFunds''),
    (3, ''EPurchaseResultDetail_ContactSupport''),
    (4, ''EPurchaseResultDetail_Timeout''),
    (5, ''EPurchaseResultDetail_InvalidPackage''),
    (6, ''EPurchaseResultDetail_InvalidPaymentMethod''),
    (7, ''EPurchaseResultDetail_InvalidData''),
    (8, ''EPurchaseResultDetail_OthersInProgress''),
    (9, ''EPurchaseResultDetail_AlreadyPurchased''),
    (10, ''EPurchaseResultDetail_WrongPrice''),
    (11, ''EPurchaseResultDetail_FraudCheckFailed''),
    (12, ''EPurchaseResultDetail_CancelledByUser''),
    (13, ''EPurchaseResultDetail_RestrictedCountry''),
    (14, ''EPurchaseResultDetail_BadActivationCode''),
    (15, ''EPurchaseResultDetail_DuplicateActivationCode''),
    (16, ''EPurchaseResultDetail_UseOtherPaymentMethod''),
    (17, ''EPurchaseResultDetail_UseOtherFunctionSource''),
    (18, ''EPurchaseResultDetail_InvalidShippingAddress''),
    (19, ''EPurchaseResultDetail_RegionNotSupported''),
    (20, ''EPurchaseResultDetail_AcctIsBlocked''),
    (21, ''EPurchaseResultDetail_AcctNotVerified''),
    (22, ''EPurchaseResultDetail_InvalidAccount''),
    (23, ''EPurchaseResultDetail_StoreBillingCountryMismatch''),
    (24, ''EPurchaseResultDetail_DoesNotOwnRequiredApp''),
    (25, ''EPurchaseResultDetail_CanceledByNewTransaction''),
    (26, ''EPurchaseResultDetail_ForceCanceledPending''),
    (27, ''EPurchaseResultDetail_FailCurrencyTransProvider''),
    (28, ''EPurchaseResultDetail_FailedCyberCafe''),
    (29, ''EPurchaseResultDetail_NeedsPreApproval''),
    (30, ''EPurchaseResultDetail_PreApprovalDenied''),
    (31, ''EPurchaseResultDetail_WalletCurrencyMismatch''),
    (32, ''EPurchaseResultDetail_EmailNotValidated''),
    (33, ''EPurchaseResultDetail_ExpiredCard''),
    (34, ''EPurchaseResultDetail_TransactionExpired''),
    (35, ''EPurchaseResultDetail_WouldExceedMaxWallet''),
    (36, ''EPurchaseResultDetail_MustLoginPS3AppForPurchase''),
    (37, ''EPurchaseResultDetail_CannotShipToPOBox''),
    (38, ''EPurchaseResultDetail_InsufficientInventory''),
    (39, ''EPurchaseResultDetail_CannotGiftShippedGoods''),
    (40, ''EPurchaseResultDetail_CannotShipInternationally''),
    (41, ''EPurchaseResultDetail_BillingAgreementCancelled''),
    (42, ''EPurchaseResultDetail_InvalidCoupon''),
    (43, ''EPurchaseResultDetail_ExpiredCoupon''),
    (44, ''EPurchaseResultDetail_AccountLocked''),
    (45, ''EPurchaseResultDetail_OtherAbortableInProgress''),
    (46, ''EPurchaseResultDetail_ExceededSteamLimit''),
    (47, ''EPurchaseResultDetail_OverlappingPackagesInCart''),
    (48, ''EPurchaseResultDetail_NoWallet''),
    (49, ''EPurchaseResultDetail_NoCachedPaymentMethod''),
    (50, ''EPurchaseResultDetail_CannotRedeemCodeFromClient''),
    (51, ''EPurchaseResultDetail_PurchaseAmountNoSupportedByProvider''),
    (52, ''EPurchaseResultDetail_OverlappingPackagesInPendingTransaction''),
    (53, ''EPurchaseResultDetail_RateLimited''),
    (54, ''EPurchaseResultDetail_OwnsExcludedApp''),
    (55, ''EPurchaseResultDetail_CreditCardBinMismatchesType''),
    (56, ''EPurchaseResultDetail_CartValueTooHigh''),
    (57, ''EPurchaseResultDetail_BillingAgreementAlreadyExists''),
    (58, ''EPurchaseResultDetail_POSACodeNotActivated''),
    (59, ''EPurchaseResultDetail_CannotShipToCountry''),
    (60, ''EPurchaseResultDetail_HungTransactionCancelled''),
    (61, ''EPurchaseResultDetail_PaypalInternalError''),
    (62, ''EPurchaseResultDetail_UnknownGlobalCollectError''),
    (63, ''EPurchaseResultDetail_InvalidTaxAddress''),
    (64, ''EPurchaseResultDetail_PhysicalProductLimitExceeded''),
    (65, ''EPurchaseResultDetail_PurchaseCannotBeReplayed''),
    (66, ''EPurchaseResultDetail_DelayedCompletion''),
    (67, ''EPurchaseResultDetail_BundleTypeCannotBeGifted''),
    (68, ''EPurchaseResultDetail_BlockedByUSGov''),
    (69, ''EPurchaseResultDetail_ItemsReservedForCommercialUse''),
    (70, ''EPurchaseResultDetail_GiftAlreadyOwned''),
    (71, ''EPurchaseResultDetail_GiftInvalidForRecipientRegion''),
    (72, ''EPurchaseResultDetail_GiftPricingImbalance''),
    (73, ''EPurchaseResultDetail_GiftRecipientNotSpecified''),
    (74, ''EPurchaseResultDetail_ItemsNotAllowedForCommercialUse''),
    (75, ''EPurchaseResultDetail_BusinessStoreCountryCodeMismatch''),
    (76, ''EPurchaseResultDetail_UserAssociatedWithManyCafes''),
    (77, ''EPurchaseResultDetail_UserNotAssociatedWithCafe''),
    (78, ''EPurchaseResultDetail_AddressInvalid''),
    (79, ''EPurchaseResultDetail_CreditCardNumberInvalid''),
    (80, ''EPurchaseResultDetail_CannotShipToMilitaryPostOffice''),
    (81, ''EPurchaseResultDetail_BillingNameInvalidResemblesCreditCard''),
    (82, ''EPurchaseResultDetail_PaymentMethodTemporarilyUnavailable''),
    (83, ''EPurchaseResultDetail_PaymentMethodNotSupportedForProduct'')]"

definition EPurchaseResultDetail_String :: "i32 \<Rightarrow> string" where
  "EPurchaseResultDetail_String = enum_String EPurchaseResultDetail_name signed_digits"


subsection \<open>\<open>EIntroducerRouting\<close>\<close>

definition EIntroducerRouting_name :: "i32 names" where
  "EIntroducerRouting_name = [
    (0, ''EIntroducerRouting_FileShare''),
    (1, ''EIntroducerRouting_P2PVoiceChat''),
    (2, ''EIntroducerRouting_P2PNetworking'')]"

definition EIntroducerRouting_String :: "i32 \<Rightarrow> string" where
  "EIntroducerRouting_String = enum_String EIntroducerRouting_name signed_digits"


subsection \<open>\<open>EServerFlags\<close>\<close>

definition EServerFlags_name :: "i32 names" where
  "EServerFlags_name = [
    (0, ''EServerFlags_None''),
    (1, ''EServerFlags_Active''),
    (2, ''EServerFlags_Secure''),
    (4, ''EServerFlags_Dedicated''),
    (8, ''EServerFlags_Linux''),
    (16, ''EServerFlags_Passworded''),
    (32, ''EServerFlags_Private'')]"

definition EServerFlags_String :: "i32 \<Rightarrow> string" where
  "EServerFlags_String = enum_String EServerFlags_name signed_digits"


subsection \<open>\<open>EDenyReason\<close>\<close>

definition EDenyReason_name :: "i32 names" where
  "EDenyReason_name = [
    (1, ''EDenyReason_InvalidVersion''),
    (2, ''EDenyReason_Generic''),
    (3, ''EDenyReason_NotLoggedOn''),
    (4, ''EDenyReason_NoLicense''),
    (5, ''EDenyReason_Cheater''),
    (6, ''EDenyReason_LoggedInElseWhere''),
    (7, ''EDenyReason_UnknownText''),
    (8, ''EDenyReason_IncompatibleAnticheat''),
    (9, ''EDenyReason_MemoryCorruption''),
    (10, ''EDenyReason_IncompatibleSoftware''),
    (11, ''EDenyReason_SteamConnectionLost''),
    (12, ''EDenyReason_SteamConnectionError''),
    (13, ''EDenyReason_SteamResponseTimedOut''),
    (14, ''EDenyReason_SteamValidationStalled''),
    (15, ''EDenyReason_SteamOwnerLeftGuestUser'')]"

definition EDenyReason_String :: "i32 \<Rightarrow> string" where
  "EDenyReason_String = enum_String EDenyReason_name signed_digits"


subsection \<open>\<open>EClanRank\<close>\<close>

definition EClanRank_name :: "i32 names" where
  "EClanRank_name = [
    (0, ''EClanRank_None''),
    (1, ''EClanRank_Owner''),
    (2, ''EClanRank_Officer''),
    (3, ''EClanRank_Member''),
    (4, ''EClanRank_Moderator'')]"

definition EClanRank_String :: "i32 \<Rightarrow> string" where
  "EClanRank_String = enum_String EClanRank_name signed_digits"


subsection \<open>\<open>EClanRelationship\<close>\<close>

definition EClanRelationship_name :: "i32 names" where
  "EClanRelationship_name = [
    (0, ''EClanRelationship_None''),
    (1, ''EClanRelationship_Blocked''),
    (2, ''EClanRelationship_Invited''),
    (3, ''EClanRelationship_Member''),
    (4, ''EClanRelationship_Kicked''),
    (5, ''EClanRelationship_KickAcknowledged''),
    (6, ''EClanRelationship_PendingApproval''),
    (7, ''EClanRelationship_RequestDenied'')]"

definition EClanRelationship_String :: "i32 \<Rightarrow> string" where
  "EClanRelationship_String = enum_String EClanRelationship_name signed_digits"


subsection \<open>\<open>EAuthSessionResponse\<close>\<close>

definition EAuthSessionResponse_name :: "i32 names" where
  "EAuthSessionResponse_name = [
    (0, ''EAuthSessionResponse_OK''),
    (1, ''EAuthSessionResponse_UserNotConnectedToSteam''),
    (2, ''EAuthSessionResponse_NoLicenseOrExpired''),
    (3, ''EAuthSessionResponse_VACBanned''),
    (4, ''EAuthSessionResponse_LoggedInElseWhere''),
    (5, ''EAuthSessionResponse_VACCheckTimedOut''),
    (6, ''EAuthSessionResponse_AuthTicketCanceled''),
    (7, ''EAuthSessionResponse_AuthTicketInvalidAlreadyUsed''),
    (8, ''EAuthSessionResponse_AuthTicketInvalid''),
    (9, ''EAuthSessionResponse_PublisherIssuedBan'')]"

definition EAuthSessionResponse_String :: "i32 \<Rightarrow> string" where
  "EAuthSessionResponse_String = enum_String EAuthSessionResponse_name signed_digits"


subsection \<open>\<open>EChatRoomEnterResponse\<close>\<close>

definition EChatRoomEnterResponse_name :: "i32 names" where
  "EChatRoomEnterResponse_name = [
    (1, ''EChatRoomEnterResponse_Success''),
    (2, ''EChatRoomEnterResponse_DoesntExist''),
    (3, ''EChatRoomEnterResponse_NotAllowed''),
    (4, ''EChatRoomEnterResponse_Full''),
    (5, ''EChatRoomEnterResponse_Error''),
    (6, ''EChatRoomEnterResponse_Banned''),
    (7, ''EChatRoomEnterResponse_Limited''),
    (8, ''EChatRoomEnterResponse_ClanDisabled''),
    (9, ''EChatRoomEnterResponse_CommunityBan''),
    (10, ''EChatRoomEnterResponse_MemberBlockedYou''),
    (11, ''EChatRoomEnterResponse_YouBlockedMember''),
    (12, ''EChatRoomEnterResponse_NoRankingDataLobby''),
    (13, ''EChatRoomEnterResponse_NoRankingDataUser''),
    (14, ''EChatRoomEnterResponse_RankOutOfRange'')]"

definition EChatRoomEnterResponse_String :: "i32 \<Rightarrow> string" where
  "EChatRoomEnterResponse_String = enum_String EChatRoomEnterResponse_name signed_digits"


subsection \<open>\<open>EChatRoomType\<close>\<close>

definition EChatRoomType_name :: "i32 names" where
  "EChatRoomType_name = [
    (1, ''EChatRoomType_Friend''),
    (2, ''EChatRoomType_MUC''),
    (3, ''EChatRoomType_Lobby'')]"

definition EChatRoomType_String :: "i32 \<Rightarrow> string" where
  "EChatRoomType_String = enum_String EChatRoomType_name signed_digits"


subsection \<open>\<open>EChatInfoType\<close>\<close>

definition EChatInfoType_name :: "i32 names" where
  "EChatInfoType_name = [
    (1, ''EChatInfoType_StateChange''),
    (2, ''EChatInfoType_InfoUpdate''),
    (3, ''EChatInfoType_MemberLimitChange'')]"

definition EChatInfoType_String :: "i32 \<Rightarrow> string" where
  "EChatInfoType_String = enum_String EChatInfoType_name signed_digits"


subsection \<open>\<open>EChatAction\<close>\<close>

definition EChatAction_name :: "i32 names" where
  "EChatAction_name = [
    (1, ''EChatAction_InviteChat''),
    (2, ''EChatAction_Kick''),
    (3, ''EChatAction_Ban''),
    (4, ''EChatAction_UnBan''),
    (5, ''EChatAction_StartVoiceSpeak''),
    (6, ''EChatAction_EndVoiceSpeak''),
    (7, ''EChatAction_LockChat''),
    (8, ''EChatAction_UnlockChat''),
    (9, ''EChatAction_CloseChat''),
    (10, ''EChatAction_SetJoinable''),
    (11, ''EChatAction_SetUnjoinable''),
    (12, ''EChatAction_SetOwner''),
    (13, ''EChatAction_SetInvisibleToFriends''),
    (14, ''EChatAction_SetVisibleToFriends''),
    (15, ''EChatAction_SetModerated''),
    (16, ''EChatAction_SetUnmoderated'')]"

definition EChatAction_String :: "i32 \<Rightarrow> string" where
  "EChatAction_String = enum_String EChatAction_name signed_digits"


subsection \<open>\<open>EChatActionResult\<close>\<close>

definition EChatActionResult_name :: "i32 names" where
  "EChatActionResult_name = [
    (1, ''EChatActionResult_Success''),
    (2, ''EChatActionResult_Error''),
    (3, ''EChatActionResult_NotPermitted''),
    (4, ''EChatActionResult_NotAllowedOnClanMember''),
    (5, ''EChatActionResult_NotAllowedOnBannedUser''),
    (6, ''EChatActionResult_NotAllowedOnChatOwner''),
    (7, ''EChatActionResult_NotAllowedOnSelf''),
    (8, ''EChatActionResult_ChatDoesntExist''),
    (9, ''EChatActionResult_ChatFull''),
    (10, ''EChatActionResult_VoiceSlotsFull'')]"

definition EChatActionResult_String :: "i32 \<Rightarrow> string" where
  "EChatActionResult_String = enum_String EChatActionResult_name signed_digits"


subsection \<open>\<open>EAppInfoSection\<close>\<close>

definition EAppInfoSection_name :: "i32 names" where
  "EAppInfoSection_name = [
    (0, ''EAppInfoSection_Unknown''),
    (1, ''EAppInfoSection_All''),
    (2, ''EAppInfoSection_First''),
    (3, ''EAppInfoSection_Extended''),
    (4, ''EAppInfoSection_Config''),
    (5, ''EAppInfoSection_Stats''),
    (6, ''EAppInfoSection_Install''),
    (7, ''EAppInfoSection_Depots''),
    (8, ''EAppInfoSection_VAC''),
    (9, ''EAppInfoSection_DRM''),
    (10, ''EAppInfoSection_UFS''),
    (11, ''EAppInfoSection_OGG''),
    (12, ''EAppInfoSection_Items''),
    (13, ''EAppInfoSection_Policies''),
    (14, ''EAppInfoSection_SysReqs''),
    (15, ''EAppInfoSection_Community''),
    (16, ''EAppInfoSection_Store''),
    (17, ''EAppInfoSection_Localization''),
    (18, ''EAppInfoSection_Broadcastgamedata''),
    (19, ''EAppInfoSection_Computed''),
    (20, ''EAppInfoSection_Albummetadata'')]"

definition EAppInfoSection_String :: "i32 \<Rightarrow> string" where
  "EAppInfoSection_String = enum_String EAppInfoSection_name signed_digits"


subsection \<open>\<open>EContentDownloadSourceType\<close>\<close>

definition EContentDownloadSourceType_name :: "i32 names" where
  "EContentDownloadSourceType_name = [
    (0, ''EContentDownloadSourceType_Invalid''),
    (1, ''EContentDownloadSourceType_CS''),
    (2, ''EContentDownloadSourceType_CDN''),
    (3, ''EContentDownloadSourceType_LCS''),
    (4, ''EContentDownloadSourceType_ProxyCache''),
    (5, ''EContentDownloadSourceType_LANPeer''),
    (6, ''EContentDownloadSourceType_SLS''),
    (7, ''EContentDownloadSourceType_SteamCache''),
    (8, ''EContentDownloadSourceType_OpenCache''),
    (9, ''EContentDownloadSourceType_LANCache'')]"

definition EContentDownloadSourceType_String :: "i32 \<Rightarrow> string" where
  "EContentDownloadSourceType_String = enum_String EContentDownloadSourceType_name signed_digits"


subsection \<open>\<open>EPlatformType\<close>\<close>

definition EPlatformType_name :: "i32 names" where
  "EPlatformType_name = [
    (0, ''EPlatformType_Unknown''),
    (1, ''EPlatformType_Win32''),
    (2, ''EPlatformType_Win64''),
    (3, ''EPlatformType_Linux''),
    (4, ''EPlatformType_OSX''),
    (5, ''EPlatformType_PS3''),
    (6, ''EPlatformType_Linux32'')]"

definition EPlatformType_String :: "i32 \<Rightarrow> string" where
  "EPlatformType_String = enum_String EPlatformType_name signed_digits"


subsection \<open>\<open>EOSType\<close>\<close>

definition EOSType_name :: "i32 names" where
  "EOSType_name = [
    (- 1, ''EOSType_Unknown''),
    (- 700, ''EOSType_Web''),
    (- 600, ''EOSType_IOSUnknown''),
    (- 599, ''EOSType_IOS1''),
    (- 598, ''EOSType_IOS2''),
    (- 597, ''EOSType_IOS3''),
    (- 596, ''EOSType_IOS4''),
    (- 595, ''EOSType_IOS5''),
    (- 594, ''EOSType_IOS6''),
    (- 593, ''EOSType_IOS6_1''),
    (- 592, ''EOSType_IOS7''),
    (- 591, ''EOSType_IOS7_1''),
    (- 590, ''EOSType_IOS8''),
    (- 589, ''EOSType_IOS8_1''),
    (- 588, ''EOSType_IOS8_2''),
    (- 587, ''EOSType_IOS8_3''),
    (- 586, ''EOSType_IOS8_4''),
    (- 585, ''EOSType_IOS9''),
    (- 584, ''EOSType_IOS9_1''),
    (- 583, ''EOSType_IOS9_2''),
    (- 582, ''EOSType_IOS9_3''),
    (- 581, ''EOSType_IOS10''),
    (- 580, ''EOSType_IOS10_1''),
    (- 579, ''EOSType_IOS10_2''),
    (- 578, ''EOSType_IOS10_3''),
    (- 577, ''EOSType_IOS11''),
    (- 576, ''EOSType_IOS11_1''),
    (- 575, ''EOSType_IOS11_2''),
    (- 574, ''EOSType_IOS11_3''),
    (- 573, ''EOSType_IOS11_4''),
    (- 572, ''EOSType_IOS12''),
    (- 571, ''EOSType_IOS12_1''),
    (- 500, ''EOSType_AndroidUnknown''),
    (- 499, ''EOSType_Android6''),
    (- 498, ''EOSType_Android7''),
    (- 497, ''EOSType_Android8''),
    (- 496, ''EOSType_Android9''),
    (- 400, ''EOSType_UMQ''),
    (- 300, ''EOSType_PS3''),
    (- 102, ''EOSType_MacOSUnknown''),
    (- 101, ''EOSType_MacOS104''),
    (- 100, ''EOSType_MacOS105''),
    (- 99, ''EOSType_MacOS1058''),
    (- 95, ''EOSType_MacOS106''),
    (- 94, ''EOSType_MacOS1063''),
    (- 93, ''EOSType_MacOS1064_slgu''),
    (- 92, ''EOSType_MacOS1067''),
    (- 90, ''EOSType_MacOS107''),
    (- 89, ''EOSType_MacOS108''),
    (- 88, ''EOSType_MacOS109''),
    (- 87, ''EOSType_MacOS1010''),
    (- 86, ''EOSType_MacOS1011''),
    (- 85, ''EOSType_MacOS1012''),
    (- 84, ''EOSType_Macos1013''),
    (- 83, ''EOSType_Macos1014''),
    (- 82, ''EOSType_Macos1015''),
    (- 203, ''EOSType_LinuxUnknown''),
    (- 202, ''EOSType_Linux22''),
    (- 201, ''EOSType_Linux24''),
    (- 200, ''EOSType_Linux26''),
    (- 199, ''EOSType_Linux32''),
    (- 198, ''EOSType_Linux35''),
    (- 197, ''EOSType_Linux36''),
    (- 196, ''EOSType_Linux310''),
    (- 195, ''EOSType_Linux316''),
    (- 194, ''EOSType_Linux318''),
    (- 193, ''EOSType_Linux3x''),
    (- 192, ''EOSType_Linux4x''),
    (- 191, ''EOSType_Linux41''),
    (- 190, ''EOSType_Linux44''),
    (- 189, ''EOSType_Linux49''),
    (- 188, ''EOSType_Linux414''),
    (- 187, ''EOSType_Linux419''),
    (- 186, ''EOSType_Linux5x''),
    (0, ''EOSType_WinUnknown''),
    (1, ''EOSType_Win311''),
    (2, ''EOSType_Win95''),
    (3, ''EOSType_Win98''),
    (4, ''EOSType_WinME''),
    (5, ''EOSType_WinNT''),
    (6, ''EOSType_Win200''),
    (7, ''EOSType_WinXP''),
    (8, ''EOSType_Win2003''),
    (9, ''EOSType_WinVista''),
    (10, ''EOSType_Win7''),
    (11, ''EOSType_Win2008''),
    (12, ''EOSType_Win2012''),
    (13, ''EOSType_Win8''),
    (14, ''EOSType_Win81''),
    (15, ''EOSType_Win2012R2''),
    (16, ''EOSType_Win10''),
    (17, ''EOSType_Win2016''),
    (18, ''EOSType_WinMAX'')]"

definition EOSType_String :: "i32 \<Rightarrow> string" where
  "EOSType_String = enum_String EOSType_name signed_digits"


subsection \<open>\<open>EServerType\<close>\<close>

definition EServerType_name :: "i32 names" where
  "EServerType_name = [
    (- 2, ''EServerType_Util''),
    (- 3, ''EServerType_Client''),
    (- 4, ''EServerType_CServer''),
    (- 5, ''EServerType_CEconBase''),
    (- 1, ''EServerType_Invalid''),
    (0, ''EServerType_First''),
    (1, ''EServerType_GM''),
    (2, ''EServerType_BUM''),
    (3, ''EServerType_AM''),
    (4, ''EServerType_BS''),
    (5, ''EServerType_VS''),
    (6, ''EServerType_ATS''),
    (7, ''EServerType_CM''),
    (8, ''EServerType_FBS''),
    (9, ''EServerType_FG''),
    (10, ''EServerType_SS''),
    (11, ''EServerType_DRMS''),
    (12, ''EServerType_HubOBSOLETE''),
    (13, ''EServerType_Console''),
    (14, ''EServerType_ASBOBSOLETE''),
    (15, ''EServerType_Client''),
    (16, ''EServerType_BootstrapOBSOLETE''),
    (17, ''EServerType_DP''),
    (18, ''EServerType_WG''),
    (19, ''EServerType_SM''),
    (20, ''EServerType_SLC''),
    (21, ''EServerType_UFS''),
    (23, ''EServerType_Util''),
    (24, ''EServerType_DSS''),
    (25, ''EServerType_P2PRelayOBSOLETE''),
    (26, ''EServerType_AppInformation''),
    (27, ''EServerType_Spare''),
    (28, ''EServerType_FTS''),
    (29, ''EServerType_EPM''),
    (30, ''EServerType_PS''),
    (31, ''EServerType_IS''),
    (32, ''EServerType_CCS''),
    (33, ''EServerType_DFS''),
    (34, ''EServerType_LBS''),
    (35, ''EServerType_MDS''),
    (36, ''EServerType_CS''),
    (37, ''EServerType_GC''),
    (38, ''EServerType_NS''),
    (39, ''EServerType_OGS''),
    (40, ''EServerType_WebAPI''),
    (41, ''EServerType_UDS''),
    (42, ''EServerType_MMS''),
    (43, ''EServerType_GMS''),
    (44, ''EServerType_KGS''),
    (45, ''EServerType_UCM''),
    (46, ''EServerType_RM''),
    (47, ''EServerType_FS''),
    (48, ''EServerType_Econ''),
    (49, ''EServerType_Backpack''),
    (50, ''EServerType_UGS''),
    (51, ''EServerType_Store''),
    (52, ''EServerType_MoneyStats''),
    (53, ''EServerType_CRE''),
    (54, ''EServerType_UMQ''),
    (55, ''EServerType_Workshop''),
    (56, ''EServerType_BRP''),
    (57, ''EServerType_GCH''),
    (58, ''EServerType_MPAS''),
    (59, ''EServerType_Trade''),
    (60, ''EServerType_Secrets''),
    (61, ''EServerType_Logsink''),
    (62, ''EServerType_Market''),
    (63, ''EServerType_Quest''),
    (64, ''EServerType_WDS''),
    (65, ''EServerType_ACS''),
    (66, ''EServerType_PNP''),
    (67, ''EServerType_TaxForm''),
    (68, ''EServerType_ExternalMonitor''),
    (69, ''EServerType_Parental''),
    (70, ''EServerType_PartnerUpload''),
    (71, ''EServerType_Partner''),
    (72, ''EServerType_ES''),
    (73, ''EServerType_DepotWebContent''),
    (74, ''EServerType_ExternalConfig''),
    (75, ''EServerType_GameNotifications''),
    (76, ''EServerType_MarketRepl''),
    (77, ''EServerType_MarketSearch''),
    (78, ''EServerType_Localization''),
    (79, ''EServerType_Steam2Emulator''),
    (80, ''EServerType_PublicTest''),
    (81, ''EServerType_SolrMgr''),
    (82, ''EServerType_BroadcastRelay''),
    (83, ''EServerType_BroadcastDirectory''),
    (84, ''EServerType_VideoManager''),
    (85, ''EServerType_TradeOffer''),
    (86, ''EServerType_BroadcastChat''),
    (87, ''EServerType_Phone''),
    (88, ''EServerType_AccountScore''),
    (89, ''EServerType_Support''),
    (90, ''EServerType_LogRequest''),
    (91, ''EServerType_LogWorker''),
    (92, ''EServerType_EmailDelivery''),
    (93, ''EServerType_InventoryManagement''),
    (94, ''EServerType_Auth''),
    (95, ''EServerType_StoreCatalog''),
    (96, ''EServerType_HLTVRelay''),
    (97, ''EServerType_IDLS''),
    (98, ''EServerType_Perf''),
    (99, ''EServerType_ItemInventory''),
    (100, ''EServerType_Watchdog''),
    (101, ''EServerType_AccountHistory''),
    (102, ''EServerType_Chat''),
    (103, ''EServerType_Shader''),
    (104, ''EServerType_AccountHardware''),
    (105, ''EServerType_WebRTC''),
    (106, ''EServerType_Giveaway''),
    (107, ''EServerType_ChatRoom''),
    (108, ''EServerType_VoiceChat''),
    (109, ''EServerType_QMS''),
    (110, ''EServerType_Trust''),
    (111, ''EServerType_TimeMachine''),
    (112, ''EServerType_VACDBMaster''),
    (113, ''EServerType_ContentServerConfig''),
    (114, ''EServerType_Minigame''),
    (115, ''EServerType_MLTrain''),
    (116, ''EServerType_VACTest''),
    (117, ''EServerType_TaxService''),
    (118, ''EServerType_MLInference''),
    (119, ''EServerType_UGSAggregate''),
    (120, ''EServerType_TURN''),
    (121, ''EServerType_RemoteClient''),
    (122, ''EServerType_BroadcastOrigin''),
    (123, ''EServerType_BroadcastChannel''),
    (124, ''EServerType_SteamAR''),
    (125, ''EServerType_China''),
    (126, ''EServerType_CrashDump'')]"

definition EServerType_String :: "i32 \<Rightarrow> string" where
  "EServerType_String = enum_String EServerType_name signed_digits"


subsection \<open>\<open>EBillingType\<close>\<close>

definition EBillingType_name :: "i32 names" where
  "EBillingType_name = [
    (0, ''EBillingType_NoCost''),
    (1, ''EBillingType_BillOnceOnly''),
    (2, ''EBillingType_BillMonthly''),
    (3, ''EBillingType_ProofOfPrepurchaseOnly''),
    (4, ''EBillingType_GuestPass''),
    (5, ''EBillingType_HardwarePromo''),
    (6, ''EBillingType_Gift''),
    (7, ''EBillingType_AutoGrant''),
    (8, ''EBillingType_OEMTicket''),
    (9, ''EBillingType_RecurringOption''),
    (10, ''EBillingType_BillOnceOrCDKey''),
    (11, ''EBillingType_Repurchaseable''),
    (12, ''EBillingType_FreeOnDemand''),
    (13, ''EBillingType_Rental''),
    (14, ''EBillingType_CommercialLicense''),
    (15, ''EBillingType_FreeCommercialLicense''),
    (16, ''EBillingType_NumBillingTypes'')]"

definition EBillingType_String :: "i32 \<Rightarrow> string" where
  "EBillingType_String = enum_String EBillingType_name signed_digits"


subsection \<open>\<open>EActivationCodeClass\<close>\<close>

definition EActivationCodeClass_name :: "u32 names" where
  "EActivationCodeClass_name = [
    (0, ''EActivationCodeClass_WonCDKey''),
    (1, ''EActivationCodeClass_ValveCDKey''),
    (2, ''EActivationCodeClass_Doom3CDKey''),
    (3, ''EActivationCodeClass_DBLookup''),
    (4, ''EActivationCodeClass_Steam2010Key''),
    (5, ''EActivationCodeClass_Max''),
    (2147483647, ''EActivationCodeClass_Test''),
    (4294967295, ''EActivationCodeClass_Invalid'')]"

definition EActivationCodeClass_String :: "u32 \<Rightarrow> string" where
  "EActivationCodeClass_String = enum_String EActivationCodeClass_name unsigned_digits"


subsection \<open>\<open>EChatMemberStateChange\<close>\<close>

definition EChatMemberStateChange_name :: "i32 names" where
  "EChatMemberStateChange_name = [
    (1, ''EChatMemberStateChange_Entered''),
    (2, ''EChatMemberStateChange_Left''),
    (4, ''EChatMemberStateChange_Disconnected''),
    (8, ''EChatMemberStateChange_Kicked''),
    (16, ''EChatMemberStateChange_Banned''),
    (4096, ''EChatMemberStateChange_VoiceSpeaking''),
    (8192, ''EChatMemberStateChange_VoiceDoneSpeaking'')]"

definition EChatMemberStateChange_String :: "i32 \<Rightarrow> string" where
  "EChatMemberStateChange_String = enum_String EChatMemberStateChange_name signed_digits"


subsection \<open>\<open>ERegionCode\<close>\<close>

definition ERegionCode_name :: "u8 names" where
  "ERegionCode_name = [
    (0, ''ERegionCode_USEast''),
    (1, ''ERegionCode_USWest''),
    (2, ''ERegionCode_SouthAmerica''),
    (3, ''ERegionCode_Europe''),
    (4, ''ERegionCode_Asia''),
    (5, ''ERegionCode_Australia''),
    (6, ''ERegionCode_MiddleEast''),
    (7, ''ERegionCode_Africa''),
    (255, ''ERegionCode_World'')]"

definition ERegionCode_String :: "u8 \<Rightarrow> string" where
  "ERegionCode_String = enum_String ERegionCode_name unsigned_digits"


subsection \<open>\<open>ECurrencyCode\<close>\<close>

definition ECurrencyCode_name :: "i32 names" where
  "ECurrencyCode_name = [
    (0, ''ECurrencyCode_Invalid''),
    (1, ''ECurrencyCode_USD''),
    (2, ''ECurrencyCode_GBP''),
    (3, ''ECurrencyCode_EUR''),
    (4, ''ECurrencyCode_CHF''),
    (5, ''ECurrencyCode_RUB''),
    (6, ''ECurrencyCode_PLN''),
    (7, ''ECurrencyCode_BRL''),
    (8, ''ECurrencyCode_JPY''),
    (9, ''ECurrencyCode_NOK''),
    (10, ''ECurrencyCode_IDR''),
    (11, ''ECurrencyCode_MYR''),
    (12, ''ECurrencyCode_PHP''),
    (13, ''ECurrencyCode_SGD''),
    (14, ''ECurrencyCode_THB''),
    (15, ''ECurrencyCode_VND''),
    (16, ''ECurrencyCode_KRW''),
    (17, ''ECurrencyCode_TRY''),
    (18, ''ECurrencyCode_UAH''),
    (19, ''ECurrencyCode_MXN''),
    (20, ''ECurrencyCode_CAD''),
    (21, ''ECurrencyCode_AUD''),
    (22, ''ECurrencyCode_NZD''),
    (23, ''ECurrencyCode_CNY''),
    (24, ''ECurrencyCode_INR''),
    (25, ''ECurrencyCode_CLP''),
    (26, ''ECurrencyCode_PEN''),
    (27, ''ECurrencyCode_COP''),
    (28, ''ECurrencyCode_ZAR''),
    (29, ''ECurrencyCode_HKD''),
    (30, ''ECurrencyCode_TWD''),
    (31, ''ECurrencyCode_SAR''),
    (32, ''ECurrencyCode_AED''),
    (34, ''ECurrencyCode_ARS''),
    (35, ''ECurrencyCode_ILS''),
    (36, ''ECurrencyCode_BYN''),
    (37, ''ECurrencyCode_KZT''),
    (38, ''ECurrencyCode_KWD''),
    (39, ''ECurrencyCode_QAR''),
    (40, ''ECurrencyCode_CRC''),
    (41, ''ECurrencyCode_UYU'')]"

definition ECurrencyCode_String :: "i32 \<Rightarrow> string" where
  "ECurrencyCode_String = enum_String ECurrencyCode_name signed_digits"


subsection \<open>\<open>EDepotFileFlag\<close>\<close>

definition EDepotFileFlag_name :: "i32 names" where
  "EDepotFileFlag_name = [
    (1, ''EDepotFileFlag_UserConfig''),
    (2, ''EDepotFileFlag_VersionedUserConfig''),
    (4, ''EDepotFileFlag_Encrypted''),
    (8, ''EDepotFileFlag_ReadOnly''),
    (16, ''EDepotFileFlag_Hidden''),
    (32, ''EDepotFileFlag_Executable''),
    (64, ''EDepotFileFlag_Directory''),
    (128, ''EDepotFileFlag_CustomExecutable''),
    (256, ''EDepotFileFlag_InstallScript''),
    (512, ''EDepotFileFlag_Symlink'')]"

definition EDepotFileFlag_String :: "i32 \<Rightarrow> string" where
  "EDepotFileFlag_String = enum_String EDepotFileFlag_name signed_digits"


subsection \<open>\<open>EWorkshopEnumerationType\<close>\<close>

definition EWorkshopEnumerationType_name :: "i32 names" where
  "EWorkshopEnumerationType_name = [
    (0, ''EWorkshopEnumerationType_RankedByVote''),
    (1, ''EWorkshopEnumerationType_Recent''),
    (2, ''EWorkshopEnumerationType_Trending''),
    (3, ''EWorkshopEnumerationType_FavoriteOfFriends''),
    (4, ''EWorkshopEnumerationType_VotedByFriends''),
    (5, ''EWorkshopEnumerationType_ContentByFriends''),
    (6, ''EWorkshopEnumerationType_RecentFromFollowedUsers'')]"

definition EWorkshopEnumerationType_String :: "i32 \<Rightarrow> string" where
  "EWorkshopEnumerationType_String = enum_String EWorkshopEnumerationType_name signed_digits"


subsection \<open>\<open>EPublishedFileVisibility\<close>\<close>

definition EPublishedFileVisibility_name :: "i32 names" where
  "EPublishedFileVisibility_name = [
    (0, ''EPublishedFileVisibility_Public''),
    (1, ''EPublishedFileVisibility_FriendsOnly''),
    (2, ''EPublishedFileVisibility_Private'')]"

definition EPublishedFileVisibility_String :: "i32 \<Rightarrow> string" where
  "EPublishedFileVisibility_String = enum_String EPublishedFileVisibility_name signed_digits"


subsection \<open>\<open>EWorkshopFileType\<close>\<close>

definition EWorkshopFileType_name :: "i32 names" where
  "EWorkshopFileType_name = [
    (0, ''EWorkshopFileType_First''),
    (1, ''EWorkshopFileType_Microtransaction''),
    (2, ''EWorkshopFileType_Collection''),
    (3, ''EWorkshopFileType_Art''),
    (4, ''EWorkshopFileType_Video''),
    (5, ''EWorkshopFileType_Screenshot''),
    (6, ''EWorkshopFileType_Game''),
    (7, ''EWorkshopFileType_Software''),
    (8, ''EWorkshopFileType_Concept''),
    (9, ''EWorkshopFileType_WebGuide''),
    (10, ''EWorkshopFileType_IntegratedGuide''),
    (11, ''EWorkshopFileType_Merch''),
    (12, ''EWorkshopFileType_ControllerBinding''),
    (13, ''EWorkshopFileType_SteamworksAccessInvite''),
    (14, ''EWorkshopFileType_SteamVideo''),
    (15, ''EWorkshopFileType_GameManagedItem'')]"

definition EWorkshopFileType_String :: "i32 \<Rightarrow> string" where
  "EWorkshopFileType_String = enum_String EWorkshopFileType_name signed_digits"


subsection \<open>\<open>EWorkshopFileAction\<close>\<close>

definition EWorkshopFileAction_name :: "i32 names" where
  "EWorkshopFileAction_name = [
    (0, ''EWorkshopFileAction_Played''),
    (1, ''EWorkshopFileAction_Completed'')]"

definition EWorkshopFileAction_String :: "i32 \<Rightarrow> string" where
  "EWorkshopFileAction_String = enum_String EWorkshopFileAction_name signed_digits"


subsection \<open>\<open>EEconTradeResponse\<close>\<close>

definition EEconTradeResponse_name :: "i32 names" where
  "EEconTradeResponse_name = [
    (0, ''EEconTradeResponse_Accepted''),
    (1, ''EEconTradeResponse_Declined''),
    (2, ''EEconTradeResponse_TradeBannedInitiator''),
    (3, ''EEconTradeResponse_TradeBannedTarget''),
    (4, ''EEconTradeResponse_TargetAlreadyTrading''),
    (5, ''EEconTradeResponse_Disabled''),
    (6, ''EEconTradeResponse_NotLoggedIn''),
    (7, ''EEconTradeResponse_Cancel''),
    (8, ''EEconTradeResponse_TooSoon''),
    (9, ''EEconTradeResponse_TooSoonPenalty''),
    (10, ''EEconTradeResponse_ConnectionFailed''),
    (11, ''EEconTradeResponse_AlreadyTrading''),
    (12, ''EEconTradeResponse_AlreadyHasTradeRequest''),
    (13, ''EEconTradeResponse_NoResponse''),
    (14, ''EEconTradeResponse_CyberCafeInitiator''),
    (15, ''EEconTradeResponse_CyberCafeTarget''),
    (16, ''EEconTradeResponse_SchoolLabInitiator''),
    (18, ''EEconTradeResponse_InitiatorBlockedTarget''),
    (20, ''EEconTradeResponse_InitiatorNeedsVerifiedEmail''),
    (21, ''EEconTradeResponse_InitiatorNeedsSteamGuard''),
    (22, ''EEconTradeResponse_TargetAccountCannotTrade''),
    (23, ''EEconTradeResponse_InitiatorSteamGuardDuration''),
    (24, ''EEconTradeResponse_InitiatorPasswordResetProbation''),
    (25, ''EEconTradeResponse_InitiatorNewDeviceCooldown''),
    (26, ''EEconTradeResponse_InitiatorSentInvalidCookie''),
    (27, ''EEconTradeResponse_NeedsEmailConfirmation''),
    (28, ''EEconTradeResponse_InitiatorRecentEmailChange''),
    (29, ''EEconTradeResponse_NeedsMobileConfirmation''),
    (30, ''EEconTradeResponse_TradingHoldForClearedTradeOffersInitiator''),
    (31, ''EEconTradeResponse_WouldExceedMaxAssetCount''),
    (32, ''EEconTradeResponse_DisabledInRegion''),
    (33, ''EEconTradeResponse_DisabledInPartnerRegion''),
    (50, ''EEconTradeResponse_OKToDeliver'')]"

definition EEconTradeResponse_String :: "i32 \<Rightarrow> string" where
  "EEconTradeResponse_String = enum_String EEconTradeResponse_name signed_digits"


subsection \<open>\<open>EMarketingMessageFlags\<close>\<close>

definition EMarketingMessageFlags_name :: "i32 names" where
  "EMarketingMessageFlags_name = [
    (0, ''EMarketingMessageFlags_None''),
    (1, ''EMarketingMessageFlags_HighPriority''),
    (2, ''EMarketingMessageFlags_PlatformWindows''),
    (4, ''EMarketingMessageFlags_PlatformMac''),
    (8, ''EMarketingMessageFlags_PlatformLinux''),
    (14, ''EMarketingMessageFlags_PlatformRestrictions'')]"

definition EMarketingMessageFlags_String :: "i32 \<Rightarrow> string" where
  "EMarketingMessageFlags_String = enum_String EMarketingMessageFlags_name signed_digits"


subsection \<open>\<open>ENewsUpdateType\<close>\<close>

definition ENewsUpdateType_name :: "i32 names" where
  "ENewsUpdateType_name = [
    (0, ''ENewsUpdateType_AppNews''),
    (1, ''ENewsUpdateType_SteamAds''),
    (2, ''ENewsUpdateType_SteamNews''),
    (3, ''ENewsUpdateType_CDDBUpdate''),
    (4, ''ENewsUpdateType_ClientUpdate'')]"

definition ENewsUpdateType_String :: "i32 \<Rightarrow> string" where
  "ENewsUpdateType_String = enum_String ENewsUpdateType_name signed_digits"


subsection \<open>\<open>ESystemIMType\<close>\<close>

definition ESystemIMType_name :: "i32 names" where
  "ESystemIMType_name = [
    (0, ''ESystemIMType_RawText''),
    (1, ''ESystemIMType_InvalidCard''),
    (2, ''ESystemIMType_RecurringPurchaseFailed''),
    (3, ''ESystemIMType_CardWillExpire''),
    (4, ''ESystemIMType_SubscriptionExpired''),
    (5, ''ESystemIMType_GuestPassReceived''),
    (6, ''ESystemIMType_GuestPassGranted''),
    (7, ''ESystemIMType_GiftRevoked''),
    (8, ''ESystemIMType_SupportMessage''),
    (9, ''ESystemIMType_SupportMessageClearAlert'')]"

definition ESystemIMType_String :: "i32 \<Rightarrow> string" where
  "ESystemIMType_String = enum_String ESystemIMType_name signed_digits"


subsection \<open>\<open>EChatFlags\<close>\<close>

definition EChatFlags_name :: "i32 names" where
  "EChatFlags_name = [
    (1, ''EChatFlags_Locked''),
    (2, ''EChatFlags_InvisibleToFriends''),
    (4, ''EChatFlags_Moderated''),
    (8, ''EChatFlags_Unjoinable'')]"

definition EChatFlags_String :: "i32 \<Rightarrow> string" where
  "EChatFlags_String = enum_String EChatFlags_name signed_digits"


subsection \<open>\<open>ERemoteStoragePlatform\<close>\<close>

definition ERemoteStoragePlatform_name :: "i32 names" where
  "ERemoteStoragePlatform_name = [
    (0, ''ERemoteStoragePlatform_None''),
    (1, ''ERemoteStoragePlatform_Windows''),
    (2, ''ERemoteStoragePlatform_OSX''),
    (4, ''ERemoteStoragePlatform_PS3''),
    (8, ''ERemoteStoragePlatform_Linux''),
    (16, ''ERemoteStoragePlatform_Switch''),
    (32, ''ERemoteStoragePlatform_Android''),
    (64, ''ERemoteStoragePlatform_IPhoneOS''),
    (- 1, ''ERemoteStoragePlatform_All'')]"

definition ERemoteStoragePlatform_String :: "i32 \<Rightarrow> string" where
  "ERemoteStoragePlatform_String = enum_String ERemoteStoragePlatform_name signed_digits"


subsection \<open>\<open>EDRMBlobDownloadType\<close>\<close>

definition EDRMBlobDownloadType_name :: "i32 names" where
  "EDRMBlobDownloadType_name = [
    (0, ''EDRMBlobDownloadType_Error''),
    (1, ''EDRMBlobDownloadType_File''),
    (2, ''EDRMBlobDownloadType_Parts''),
    (4, ''EDRMBlobDownloadType_Compressed''),
    (7, ''EDRMBlobDownloadType_AllMask''),
    (8, ''EDRMBlobDownloadType_IsJob''),
    (16, ''EDRMBlobDownloadType_HighPriority''),
    (32, ''EDRMBlobDownloadType_AddTimestamp''),
    (64, ''EDRMBlobDownloadType_LowPriority'')]"

definition EDRMBlobDownloadType_String :: "i32 \<Rightarrow> string" where
  "EDRMBlobDownloadType_String = enum_String EDRMBlobDownloadType_name signed_digits"


subsection \<open>\<open>EDRMBlobDownloadErrorDetail\<close>\<close>

definition EDRMBlobDownloadErrorDetail_name :: "i32 names" where
  "EDRMBlobDownloadErrorDetail_name = [
    (0, ''EDRMBlobDownloadErrorDetail_None''),
    (1, ''EDRMBlobDownloadErrorDetail_DownloadFailed''),
    (2, ''EDRMBlobDownloadErrorDetail_TargetLocked''),
    (3, ''EDRMBlobDownloadErrorDetail_OpenZip''),
    (4, ''EDRMBlobDownloadErrorDetail_ReadZipDirectory''),
    (5, ''EDRMBlobDownloadErrorDetail_UnexpectedZipEntry''),
    (6, ''EDRMBlobDownloadErrorDetail_UnzipFullFile''),
    (7, ''EDRMBlobDownloadErrorDetail_UnknownBlobType''),
    (8, ''EDRMBlobDownloadErrorDetail_UnzipStrips''),
    (9, ''EDRMBlobDownloadErrorDetail_UnzipMergeGuid''),
    (10, ''EDRMBlobDownloadErrorDetail_UnzipSignature''),
    (11, ''EDRMBlobDownloadErrorDetail_ApplyStrips''),
    (12, ''EDRMBlobDownloadErrorDetail_ApplyMergeGuid''),
    (13, ''EDRMBlobDownloadErrorDetail_ApplySignature''),
    (14, ''EDRMBlobDownloadErrorDetail_AppIdMismatch''),
    (15, ''EDRMBlobDownloadErrorDetail_AppIdUnexpected''),
    (16, ''EDRMBlobDownloadErrorDetail_AppliedSignatureCorrupt''),
    (17, ''EDRMBlobDownloadErrorDetail_ApplyValveSignatureHeader''),
    (18, ''EDRMBlobDownloadErrorDetail_UnzipValveSignatureHeader''),
    (19, ''EDRMBlobDownloadErrorDetail_PathManipulationError''),
    (65536, ''EDRMBlobDownloadErrorDetail_TargetLocked_Base''),
    (131071, ''EDRMBlobDownloadErrorDetail_TargetLocked_Max''),
    (131072, ''EDRMBlobDownloadErrorDetail_NextBase'')]"

definition EDRMBlobDownloadErrorDetail_String :: "i32 \<Rightarrow> string" where
  "EDRMBlobDownloadErrorDetail_String = enum_String EDRMBlobDownloadErrorDetail_name signed_digits"


subsection \<open>\<open>EClientStat\<close>\<close>

definition EClientStat_name :: "i32 names" where
  "EClientStat_name = [
    (0, ''EClientStat_P2PConnectionsUDP''),
    (1, ''EClientStat_P2PConnectionsRelay''),
    (2, ''EClientStat_P2PGameConnections''),
    (3, ''EClientStat_P2PVoiceConnections''),
    (4, ''EClientStat_BytesDownloaded'')]"

definition EClientStat_String :: "i32 \<Rightarrow> string" where
  "EClientStat_String = enum_String EClientStat_name signed_digits"


subsection \<open>\<open>EClientStatAggregateMethod\<close>\<close>

definition EClientStatAggregateMethod_name :: "i32 names" where
  "EClientStatAggregateMethod_name = [
    (0, ''EClientStatAggregateMethod_LatestOnly''),
    (1, ''EClientStatAggregateMethod_Sum''),
    (2, ''EClientStatAggregateMethod_Event''),
    (3, ''EClientStatAggregateMethod_Scalar'')]"

definition EClientStatAggregateMethod_String :: "i32 \<Rightarrow> string" where
  "EClientStatAggregateMethod_String = enum_String EClientStatAggregateMethod_name signed_digits"


subsection \<open>\<open>ELeaderboardDataRequest\<close>\<close>

definition ELeaderboardDataRequest_name :: "i32 names" where
  "ELeaderboardDataRequest_name = [
    (0, ''ELeaderboardDataRequest_Global''),
    (1, ''ELeaderboardDataRequest_GlobalAroundUser''),
    (2, ''ELeaderboardDataRequest_Friends''),
    (3, ''ELeaderboardDataRequest_Users'')]"

definition ELeaderboardDataRequest_String :: "i32 \<Rightarrow> string" where
  "ELeaderboardDataRequest_String = enum_String ELeaderboardDataRequest_name signed_digits"


subsection \<open>\<open>ELeaderboardSortMethod\<close>\<close>

definition ELeaderboardSortMethod_name :: "i32 names" where
  "ELeaderboardSortMethod_name = [
    (0, ''ELeaderboardSortMethod_None''),
    (1, ''ELeaderboardSortMethod_Ascending''),
    (2, ''ELeaderboardSortMethod_Descending'')]"

definition ELeaderboardSortMethod_String :: "i32 \<Rightarrow> string" where
  "ELeaderboardSortMethod_String = enum_String ELeaderboardSortMethod_name signed_digits"


subsection \<open>\<open>ELeaderboardDisplayType\<close>\<close>

definition ELeaderboardDisplayType_name :: "i32 names" where
  "ELeaderboardDisplayType_name = [
    (0, ''ELeaderboardDisplayType_None''),
    (1, ''ELeaderboardDisplayType_Numeric''),
    (2, ''ELeaderboardDisplayType_TimeSeconds''),
    (3, ''ELeaderboardDisplayType_TimeMilliSeconds'')]"

definition ELeaderboardDisplayType_String :: "i32 \<Rightarrow> string" where
  "ELeaderboardDisplayType_String = enum_String ELeaderboardDisplayType_name signed_digits"


subsection \<open>\<open>ELeaderboardUploadScoreMethod\<close>\<close>

definition ELeaderboardUploadScoreMethod_name :: "i32 names" where
  "ELeaderboardUploadScoreMethod_name = [
    (0, ''ELeaderboardUploadScoreMethod_None''),
    (1, ''ELeaderboardUploadScoreMethod_KeepBest''),
    (2, ''ELeaderboardUploadScoreMethod_ForceUpdate'')]"

definition ELeaderboardUploadScoreMethod_String :: "i32 \<Rightarrow> string" where
  "ELeaderboardUploadScoreMethod_String = enum_String ELeaderboardUploadScoreMethod_name signed_digits"


subsection \<open>\<open>EUCMFilePrivacyState\<close>\<close>

definition EUCMFilePrivacyState_name :: "i32 names" where
  "EUCMFilePrivacyState_name = [
    (- 1, ''EUCMFilePrivacyState_Invalid''),
    (2, ''EUCMFilePrivacyState_Private''),
    (4, ''EUCMFilePrivacyState_FriendsOnly''),
    (8, ''EUCMFilePrivacyState_Public''),
    (14, ''EUCMFilePrivacyState_All'')]"

definition EUCMFilePrivacyState_String :: "i32 \<Rightarrow> string" where
  "EUCMFilePrivacyState_String = enum_String EUCMFilePrivacyState_name signed_digits"


subsection \<open>\<open>EPublishedFileQueryType\<close>\<close>

definition EPublishedFileQueryType_name :: "i32 names" where
  "EPublishedFileQueryType_name = [
    (0, ''EPublishedFileQueryType_RankedByVote''),
    (1, ''EPublishedFileQueryType_RankedByPublicationDate''),
    (2, ''EPublishedFileQueryType_AcceptedForGameRankedByAcceptanceDate''),
    (3, ''EPublishedFileQueryType_RankedByTrend''),
    (4, ''EPublishedFileQueryType_FavoritedByFriendsRankedByPublicationDate''),
    (5, ''EPublishedFileQueryType_CreatedByFriendsRankedByPublicationDate''),
    (6, ''EPublishedFileQueryType_RankedByNumTimesReported''),
    (7, ''EPublishedFileQueryType_CreatedByFollowedUsersRankedByPublicationDate''),
    (8, ''EPublishedFileQueryType_NotYetRated''),
    (9, ''EPublishedFileQueryType_RankedByTotalUniqueSubscriptions''),
    (10, ''EPublishedFileQueryType_RankedByTotalVotesAsc''),
    (11, ''EPublishedFileQueryType_RankedByVotesUp''),
    (12, ''EPublishedFileQueryType_RankedByTextSearch''),
    (13, ''EPublishedFileQueryType_RankedByPlaytimeTrend''),
    (14, ''EPublishedFileQueryType_RankedByTotalPlaytime''),
    (15, ''EPublishedFileQueryType_RankedByAveragePlaytimeTrend''),
    (16, ''EPublishedFileQueryType_RankedByLifetimeAveragePlaytime''),
    (17, ''EPublishedFileQueryType_RankedByPlaytimeSessionsTrend''),
    (18, ''EPublishedFileQueryType_RankedByLifetimePlaytimeSessions''),
    (19, ''EPublishedFileQueryType_RankedByInappropriateContentRating'')]"

definition EPublishedFileQueryType_String :: "i32 \<Rightarrow> string" where
  "EPublishedFileQueryType_String = enum_String EPublishedFileQueryType_name signed_digits"


subsection \<open>\<open>EPublishedFileInappropriateProvider\<close>\<close>

definition EPublishedFileInappropriateProvider_name :: "i32 names" where
  "EPublishedFileInappropriateProvider_name = [
    (0, ''EPublishedFileInappropriateProvider_Invalid''),
    (1, ''EPublishedFileInappropriateProvider_Google''),
    (2, ''EPublishedFileInappropriateProvider_Amazon'')]"

definition EPublishedFileInappropriateProvider_String :: "i32 \<Rightarrow> string" where
  "EPublishedFileInappropriateProvider_String = enum_String EPublishedFileInappropriateProvider_name signed_digits"


subsection \<open>\<open>EPublishedFileInappropriateResult\<close>\<close>

definition EPublishedFileInappropriateResult_name :: "i32 names" where
  "EPublishedFileInappropriateResult_name = [
    (0, ''EPublishedFileInappropriateResult_NotScanned''),
    (1, ''EPublishedFileInappropriateResult_VeryUnlikely''),
    (30, ''EPublishedFileInappropriateResult_Unlikely''),
    (50, ''EPublishedFileInappropriateResult_Possible''),
    (75, ''EPublishedFileInappropriateResult_Likely''),
    (100, ''EPublishedFileInappropriateResult_VeryLikely'')]"

definition EPublishedFileInappropriateResult_String :: "i32 \<Rightarrow> string" where
  "EPublishedFileInappropriateResult_String = enum_String EPublishedFileInappropriateResult_name signed_digits"


subsection \<open>\<open>EDisplayStatus\<close>\<close>

definition EDisplayStatus_name :: "i32 names" where
  "EDisplayStatus_name = [
    (0, ''EDisplayStatus_Invalid''),
    (1, ''EDisplayStatus_Launching''),
    (2, ''EDisplayStatus_Uninstalling''),
    (3, ''EDisplayStatus_Installing''),
    (4, ''EDisplayStatus_Running''),
    (5, ''EDisplayStatus_Validating''),
    (6, ''EDisplayStatus_Updating''),
    (7, ''EDisplayStatus_Downloading''),
    (8, ''EDisplayStatus_Synchronizing''),
    (9, ''EDisplayStatus_ReadyToInstall''),
    (10, ''EDisplayStatus_ReadyToPreload''),
    (11, ''EDisplayStatus_ReadyToLaunch''),
    (12, ''EDisplayStatus_RegionRestricted''),
    (13, ''EDisplayStatus_PresaleOnly''),
    (14, ''EDisplayStatus_InvalidPlatform''),
    (15, ''EDisplayStatus_ParentalBlocked''),
    (16, ''EDisplayStatus_PreloadOnly''),
    (17, ''EDisplayStatus_BorrowerLocked''),
    (18, ''EDisplayStatus_UpdatePaused''),
    (19, ''EDisplayStatus_UpdateQueued''),
    (20, ''EDisplayStatus_UpdateRequired''),
    (21, ''EDisplayStatus_UpdateDisabled''),
    (22, ''EDisplayStatus_DownloadPaused''),
    (23, ''EDisplayStatus_DownloadQueued''),
    (24, ''EDisplayStatus_DownloadRequired''),
    (25, ''EDisplayStatus_DownloadDisabled''),
    (26, ''EDisplayStatus_LicensePending''),
    (27, ''EDisplayStatus_LicenseExpired''),
    (28, ''EDisplayStatus_AvailForFree''),
    (29, ''EDisplayStatus_AvailToBorrow''),
    (30, ''EDisplayStatus_AvailGuestPass''),
    (31, ''EDisplayStatus_Purchase'')]"

definition EDisplayStatus_String :: "i32 \<Rightarrow> string" where
  "EDisplayStatus_String = enum_String EDisplayStatus_name signed_digits"


subsection \<open>\<open>EAppType\<close>\<close>

definition EAppType_name :: "i32 names" where
  "EAppType_name = [
    (0, ''EAppType_Invalid''),
    (1, ''EAppType_Game''),
    (2, ''EAppType_Application''),
    (4, ''EAppType_Tool''),
    (8, ''EAppType_Demo''),
    (16, ''EAppType_Deprected''),
    (32, ''EAppType_DLC''),
    (64, ''EAppType_Guide''),
    (128, ''EAppType_Driver''),
    (256, ''EAppType_Config''),
    (512, ''EAppType_Hardware''),
    (1024, ''EAppType_Franchise''),
    (2048, ''EAppType_Video''),
    (4096, ''EAppType_Plugin''),
    (8192, ''EAppType_Music''),
    (16384, ''EAppType_Series''),
    (32768, ''EAppType_Comic''),
    (65536, ''EAppType_Beta''),
    (1073741824, ''EAppType_Shortcut''),
    (- 2147483648, ''EAppType_DepotOnly'')]"

definition EAppType_String :: "i32 \<Rightarrow> string" where
  "EAppType_String = enum_String EAppType_name signed_digits"


subsection \<open>\<open>EChatRoomGroupType\<close>\<close>

definition EChatRoomGroupType_name :: "i32 names" where
  "EChatRoomGroupType_name = [
    (0, ''EChatRoomGroupType_Default''),
    (1, ''EChatRoomGroupType_Unmoderated'')]"

definition EChatRoomGroupType_String :: "i32 \<Rightarrow> string" where
  "EChatRoomGroupType_String = enum_String EChatRoomGroupType_name signed_digits"


subsection \<open>\<open>EChatroomNotificationLevel\<close>\<close>

definition EChatroomNotificationLevel_name :: "i32 names" where
  "EChatroomNotificationLevel_name = [
    (0, ''EChatroomNotificationLevel_Invalid''),
    (1, ''EChatroomNotificationLevel_None''),
    (2, ''EChatroomNotificationLevel_MentionMe''),
    (3, ''EChatroomNotificationLevel_MentionAll''),
    (4, ''EChatroomNotificationLevel_AllMessages'')]"

definition EChatroomNotificationLevel_String :: "i32 \<Rightarrow> string" where
  "EChatroomNotificationLevel_String = enum_String EChatroomNotificationLevel_name signed_digits"


subsection \<open>\<open>EChatRoomMemberStateChange\<close>\<close>

definition EChatRoomMemberStateChange_name :: "i32 names" where
  "EChatRoomMemberStateChange_name = [
    (0, ''EChatRoomMemberStateChange_Invalid''),
    (1, ''EChatRoomMemberStateChange_Joined''),
    (2, ''EChatRoomMemberStateChange_Parted''),
    (3, ''EChatRoomMemberStateChange_Kicked''),
    (4, ''EChatRoomMemberStateChange_Invited''),
    (7, ''EChatRoomMemberStateChange_RankChanged''),
    (8, ''EChatRoomMemberStateChange_InviteDismissed''),
    (9, ''EChatRoomMemberStateChange_Muted''),
    (10, ''EChatRoomMemberStateChange_Banned''),
    (12, ''EChatRoomMemberStateChange_RolesChanged'')]"

definition EChatRoomMemberStateChange_String :: "i32 \<Rightarrow> string" where
  "EChatRoomMemberStateChange_String = enum_String EChatRoomMemberStateChange_name signed_digits"


subsection \<open>\<open>EChatRoomServerMsg\<close>\<close>

definition EChatRoomServerMsg_name :: "i32 names" where
  "EChatRoomServerMsg_name = [
    (0, ''EChatRoomServerMsg_Invalid''),
    (1, ''EChatRoomServerMsg_RenameChatRoom''),
    (2, ''EChatRoomServerMsg_Joined''),
    (3, ''EChatRoomServerMsg_Parted''),
    (4, ''EChatRoomServerMsg_Kicked''),
    (5, ''EChatRoomServerMsg_Invited''),
    (8, ''EChatRoomServerMsg_InviteDismissed''),
    (9, ''EChatRoomServerMsg_ChatRoomTaglineChanged''),
    (10, ''EChatRoomServerMsg_ChatRoomAvatarChanged''),
    (11, ''EChatRoomServerMsg_AppCustom'')]"

definition EChatRoomServerMsg_String :: "i32 \<Rightarrow> string" where
  "EChatRoomServerMsg_String = enum_String EChatRoomServerMsg_name signed_digits"


subsection \<open>\<open>EChatRoomGroupRank\<close>\<close>

definition EChatRoomGroupRank_name :: "i32 names" where
  "EChatRoomGroupRank_name = [
    (0, ''EChatRoomGroupRank_Default''),
    (10, ''EChatRoomGroupRank_Viewer''),
    (15, ''EChatRoomGroupRank_Guest''),
    (20, ''EChatRoomGroupRank_Member''),
    (30, ''EChatRoomGroupRank_Moderator''),
    (40, ''EChatRoomGroupRank_Officer''),
    (50, ''EChatRoomGroupRank_Owner'')]"

definition EChatRoomGroupRank_String :: "i32 \<Rightarrow> string" where
  "EChatRoomGroupRank_String = enum_String EChatRoomGroupRank_name signed_digits"


subsection \<open>\<open>EChatRoomGroupPermissions\<close>\<close>

definition EChatRoomGroupPermissions_name :: "i32 names" where
  "EChatRoomGroupPermissions_name = [
    (0, ''EChatRoomGroupPermissions_Default''),
    (1, ''EChatRoomGroupPermissions_Valid''),
    (2, ''EChatRoomGroupPermissions_CanInvite''),
    (4, ''EChatRoomGroupPermissions_CanKick''),
    (8, ''EChatRoomGroupPermissions_CanBan''),
    (16, ''EChatRoomGroupPermissions_CanAdminChannel'')]"

definition EChatRoomGroupPermissions_String :: "i32 \<Rightarrow> string" where
  "EChatRoomGroupPermissions_String = enum_String EChatRoomGroupPermissions_name signed_digits"


subsection \<open>\<open>EChatRoomGroupAction\<close>\<close>

definition EChatRoomGroupAction_name :: "i32 names" where
  "EChatRoomGroupAction_name = [
    (0, ''EChatRoomGroupAction_Default''),
    (1, ''EChatRoomGroupAction_CreateRenameDeleteChannel''),
    (2, ''EChatRoomGroupAction_Kick''),
    (3, ''EChatRoomGroupAction_Ban''),
    (4, ''EChatRoomGroupAction_Invite''),
    (5, ''EChatRoomGroupAction_ChangeTaglineAvatarName''),
    (6, ''EChatRoomGroupAction_Chat''),
    (7, ''EChatRoomGroupAction_ViewHistory''),
    (8, ''EChatRoomGroupAction_ChangeGroupRoles''),
    (9, ''EChatRoomGroupAction_ChangeUserRoles''),
    (10, ''EChatRoomGroupAction_MentionAll''),
    (11, ''EChatRoomGroupAction_SetWatchingBroadcast'')]"

definition EChatRoomGroupAction_String :: "i32 \<Rightarrow> string" where
  "EChatRoomGroupAction_String = enum_String EChatRoomGroupAction_name signed_digits"


subsection \<open>\<open>EChatRoomJoinState\<close>\<close>

definition EChatRoomJoinState_name :: "i32 names" where
  "EChatRoomJoinState_name = [
    (0, ''EChatRoomJoinState_Default''),
    (1, ''EChatRoomJoinState_None''),
    (2, ''EChatRoomJoinState_Joined'')]"

definition EChatRoomJoinState_String :: "i32 \<Rightarrow> string" where
  "EChatRoomJoinState_String = enum_String EChatRoomJoinState_name signed_digits"


subsection \<open>\<open>EVoiceCallState\<close>\<close>

definition EVoiceCallState_name :: "i32 names" where
  "EVoiceCallState_name = [
    (0, ''EVoiceCallState_None''),
    (1, ''EVoiceCallState_ScheduledInitiate''),
    (2, ''EVoiceCallState_RequestedMicAccess''),
    (3, ''EVoiceCallState_LocalMicOnly''),
    (4, ''EVoiceCallState_CreatePeerConnection''),
    (5, ''EVoiceCallState_InitatedWebRTCSession''),
    (6, ''EVoiceCallState_WebRTCConnectedWaitingOnIceConnected''),
    (7, ''EVoiceCallState_RequestedPermission''),
    (8, ''EVoiceCallState_NotifyingVoiceChatOfWebRTCSession''),
    (9, ''EVoiceCallState_Connected'')]"

definition EVoiceCallState_String :: "i32 \<Rightarrow> string" where
  "EVoiceCallState_String = enum_String EVoiceCallState_name signed_digits"


subsection \<open>\<open>ETradeOfferState\<close>\<close>

definition ETradeOfferState_name :: "i32 names" where
  "ETradeOfferState_name = [
    (1, ''ETradeOfferState_Invalid''),
    (2, ''ETradeOfferState_Active''),
    (3, ''ETradeOfferState_Accepted''),
    (4, ''ETradeOfferState_Countered''),
    (5, ''ETradeOfferState_Expired''),
    (6, ''ETradeOfferState_Canceled''),
    (7, ''ETradeOfferState_Declined''),
    (8, ''ETradeOfferState_InvalidItems''),
    (9, ''ETradeOfferState_CreatedNeedsConfirmation''),
    (10, ''ETradeOfferState_CanceledBySecondFactor''),
    (11, ''ETradeOfferState_InEscrow'')]"

definition ETradeOfferState_String :: "i32 \<Rightarrow> string" where
  "ETradeOfferState_String = enum_String ETradeOfferState_name signed_digits"


subsection \<open>\<open>ETradeOfferConfirmationMethod\<close>\<close>

definition ETradeOfferConfirmationMethod_name :: "i32 names" where
  "ETradeOfferConfirmationMethod_name = [
    (0, ''ETradeOfferConfirmationMethod_Invalid''),
    (1, ''ETradeOfferConfirmationMethod_Email''),
    (2, ''ETradeOfferConfirmationMethod_MobileApp'')]"

definition ETradeOfferConfirmationMethod_String :: "i32 \<Rightarrow> string" where
  "ETradeOfferConfirmationMethod_String = enum_String ETradeOfferConfirmationMethod_name signed_digits"


subsection \<open>\<open>ELobbyType\<close>\<close>

definition ELobbyType_name :: "i32 names" where
  "ELobbyType_name = [
    (0, ''ELobbyType_Private''),
    (1, ''ELobbyType_FriendsOnly''),
    (2, ''ELobbyType_Public''),
    (3, ''ELobbyType_Invisible''),
    (4, ''ELobbyType_PrivateUnique'')]"

definition ELobbyType_String :: "i32 \<Rightarrow> string" where
  "ELobbyType_String = enum_String ELobbyType_name signed_digits"


subsection \<open>\<open>ELobbyFilterType\<close>\<close>

definition ELobbyFilterType_name :: "i32 names" where
  "ELobbyFilterType_name = [
    (0, ''ELobbyFilterType_String''),
    (1, ''ELobbyFilterType_Numerical''),
    (2, ''ELobbyFilterType_SlotsAvailable''),
    (3, ''ELobbyFilterType_NearValue''),
    (4, ''ELobbyFilterType_Distance'')]"

definition ELobbyFilterType_String :: "i32 \<Rightarrow> string" where
  "ELobbyFilterType_String = enum_String ELobbyFilterType_name signed_digits"


subsection \<open>\<open>ELobbyComparison\<close>\<close>

definition ELobbyComparison_name :: "i32 names" where
  "ELobbyComparison_name = [
    (- 2, ''ELobbyComparison_EqualToOrLessThan''),
    (- 1, ''ELobbyComparison_LessThan''),
    (0, ''ELobbyComparison_Equal''),
    (1, ''ELobbyComparison_GreaterThan''),
    (2, ''ELobbyComparison_EqualToOrGreaterThan''),
    (3, ''ELobbyComparison_NotEqual'')]"

definition ELobbyComparison_String :: "i32 \<Rightarrow> string" where
  "ELobbyComparison_String = enum_String ELobbyComparison_name signed_digits"


subsection \<open>\<open>ELobbyDistanceFilter\<close>\<close>

definition ELobbyDistanceFilter_name :: "i32 names" where
  "ELobbyDistanceFilter_name = [
    (0, ''ELobbyDistanceFilter_Close''),
    (1, ''ELobbyDistanceFilter_Default''),
    (2, ''ELobbyDistanceFilter_Far''),
    (3, ''ELobbyDistanceFilter_Worldwide'')]"

definition ELobbyDistanceFilter_String :: "i32 \<Rightarrow> string" where
  "ELobbyDistanceFilter_String = enum_String ELobbyDistanceFilter_name signed_digits"


subsection \<open>\<open>ESteamIPv6ConnectivityProtocol\<close>\<close>

definition ESteamIPv6ConnectivityProtocol_name :: "i32 names" where
  "ESteamIPv6ConnectivityProtocol_name = [
    (0, ''ESteamIPv6ConnectivityProtocol_Invalid''),
    (1, ''ESteamIPv6ConnectivityProtocol_Http''),
    (2, ''ESteamIPv6ConnectivityProtocol_Udp'')]"

definition ESteamIPv6ConnectivityProtocol_String :: "i32 \<Rightarrow> string" where
  "ESteamIPv6ConnectivityProtocol_String = enum_String ESteamIPv6ConnectivityProtocol_name signed_digits"


subsection \<open>\<open>ESteamIPv6ConnectivityState\<close>\<close>

definition ESteamIPv6ConnectivityState_name :: "i32 names" where
  "ESteamIPv6ConnectivityState_name = [
    (0, ''ESteamIPv6ConnectivityState_Unknown''),
    (1, ''ESteamIPv6ConnectivityState_Good''),
    (2, ''ESteamIPv6ConnectivityState_Bad'')]"

definition ESteamIPv6ConnectivityState_String :: "i32 \<Rightarrow> string" where
  "ESteamIPv6ConnectivityState_String = enum_String ESteamIPv6ConnectivityState_name signed_digits"


subsection \<open>\<open>ESteamRealm\<close>\<close>

definition ESteamRealm_name :: "i32 names" where
  "ESteamRealm_name = [
    (0, ''ESteamRealm_Unknown''),
    (1, ''ESteamRealm_SteamGlobal''),
    (2, ''ESteamRealm_SteamChina'')]"

definition ESteamRealm_String :: "i32 \<Rightarrow> string" where
  "ESteamRealm_String = enum_String ESteamRealm_name signed_digits"


subsection \<open>\<open>ELauncherType\<close>\<close>

definition ELauncherType_name :: "i32 names" where
  "ELauncherType_name = [
    (0, ''ELauncherType_Default''),
    (1, ''ELauncherType_PerfectWorld''),
    (2, ''ELauncherType_Nexon''),
    (3, ''ELauncherType_CmdLine''),
    (4, ''ELauncherType_CSGO''),
    (5, ''ELauncherType_ClientUI''),
    (6, ''ELauncherType_Headless''),
    (7, ''ELauncherType_SteamChina''),
    (8, ''ELauncherType_SingleApp'')]"

definition ELauncherType_String :: "i32 \<Rightarrow> string" where
  "ELauncherType_String = enum_String ELauncherType_name signed_digits"


subsection \<open>\<open>EUdpPacketType\<close>\<close>

definition EUdpPacketType_name :: "u8 names" where
  "EUdpPacketType_name = [
    (0, ''EUdpPacketType_Invalid''),
    (1, ''EUdpPacketType_ChallengeReq''),
    (2, ''EUdpPacketType_Challenge''),
    (3, ''EUdpPacketType_Connect''),
    (4, ''EUdpPacketType_Accept''),
    (5, ''EUdpPacketType_Disconnect''),
    (6, ''EUdpPacketType_Data''),
    (7, ''EUdpPacketType_Datagram''),
    (8, ''EUdpPacketType_Max'')]"

definition EUdpPacketType_String :: "u8 \<Rightarrow> string" where
  "EUdpPacketType_String = enum_String EUdpPacketType_name unsigned_digits"


section \<open>What the text says\<close>

lemma enum_String_named: "map_of t e = Some s \<Longrightarrow> enum_String t digits e = s"
  by (simp add: enum_String_def)

text \<open>A number that is no value of a plain enum prints as if it were a set of flags.\<close>

lemma EUniverse_String_unknown: "EUniverse_String 6 = ''EUniverse_Beta | EUniverse_Dev | EUniverse_Internal''"
  by (simp add: EUniverse_String_def enum_String_def EUniverse_name_def Let_def)

end
