(* ===== verification/Gsbot_Debug.thy ===== *)
theory Gsbot_Debug
  imports Gsbot Enums_EMsg
begin

text \<open>
  \<open>gsbot/gsbot.go\<close>: the module that writes every packet and every event to a file of its own (\<open>Debug\<close>), and
  \<open>gsbot/gsbot/gsbot.go\<close>, the program that puts the modules together.
\<close>

section \<open>Debug\<close>

text \<open>\<open>Packet.String\<close> of \<open>protocol/packet.go\<close>.\<close>

definition bool_text :: "bool \<Rightarrow> string" where "bool_text b = (if b then ''true'' else ''false'')"

definition Packet_String :: "Packet \<Rightarrow> string" where
  "Packet_String p = ''Packet{EMsg = '' @ EMsg_String (Packet_EMsg p) @ '', Proto = '' @ bool_text (Packet_IsProto p)
     @ '', Len = '' @ FormatUint (length (Packet_Data p)) @ '', TargetJobId = '' @ JobId_String (Packet_TargetJobId p)
     @ '', SourceJobId = '' @ JobId_String (Packet_SourceJobId p) @ ''}''"

record Debug =
  dbg_packetId :: u64
  dbg_eventId :: u64
  dbg_base :: string

text \<open>\<open>os.MkdirAll\<close> of the two directories either succeeds or fails; \<open>now\<close> is the Unix time.\<close>

definition NewDebug :: "i64 \<Rightarrow> (string \<Rightarrow> go_err option) \<Rightarrow> string \<Rightarrow> Debug res" where
  "NewDebug now MkdirAll base =
     (let base = path_Join [base, signed_digits now] in
      case MkdirAll (path_Join [base, ''events'']) of
        Some err \<Rightarrow> Err err
      | None \<Rightarrow> (case MkdirAll (path_Join [base, ''packets'']) of
            Some err \<Rightarrow> Err err
          | None \<Rightarrow> Ok \<lparr>dbg_packetId = 0, dbg_eventId = 0, dbg_base = base\<rparr>))"

text \<open>\<open>%d_%d_%s\<close>\<close>

definition numbered_name :: "i64 \<Rightarrow> u64 \<Rightarrow> string \<Rightarrow> string" where
  "numbered_name now n s = signed_digits now @ ''_'' @ FormatUint (unat n) @ ''_'' @ s"

definition packet_file :: "string \<Rightarrow> i64 \<Rightarrow> u64 \<Rightarrow> Packet \<Rightarrow> string" where
  "packet_file base now n p = path_Join [base, ''packets'', numbered_name now n (EMsg_String (Packet_EMsg p))]"

definition Debug_HandlePacket :: "i64 \<Rightarrow> Packet \<Rightarrow> Debug \<Rightarrow> Disk \<Rightarrow> (Debug \<times> Disk) res" where
  "Debug_HandlePacket now packet dbg d =
     (let dbg = dbg\<lparr>dbg_packetId := dbg_packetId dbg + 1\<rparr>;
          name = packet_file (dbg_base dbg) now (dbg_packetId dbg) packet;
          text = Packet_String packet @ [newline, newline] @ hex_Dump (Packet_Data packet)
      in bind_res (must (WriteFile (name @ ''.txt'') text d)) (\<lambda>d.
         bind_res (must (WriteFile (name @ ''.bin'') (string_of (Packet_Data packet)) d)) (\<lambda>d. Ok (dbg, d))))"

text \<open>
  \<open>name(event)\<close>, the name of the type of an event. The types \<open>FatalErrorEvent\<close> and \<open>WebLogOnErrorEvent\<close> are
  interfaces, so that what an event holds is the error itself; \<open>err_type\<close> gives the name of its type.
\<close>

fun event_name :: "(go_err \<Rightarrow> string) \<Rightarrow> Event \<Rightarrow> string" where
  "event_name err_type (Ev_Error e) = err_type e"
| "event_name err_type (Ev_FatalError e) = err_type e"
| "event_name err_type (Ev_WebLogOnError e) = err_type e"
| "event_name err_type (Ev_LoggedOn _) = ''LoggedOnEvent''"
| "event_name err_type (Ev_LogOnFailed _) = ''LogOnFailedEvent''"
| "event_name err_type (Ev_LoginKey _) = ''LoginKeyEvent''"
| "event_name err_type (Ev_LoggedOff _) = ''LoggedOffEvent''"
| "event_name err_type (Ev_MachineAuthUpdate _) = ''MachineAuthUpdateEvent''"
| "event_name err_type (Ev_AccountInfo _) = ''AccountInfoEvent''"
| "event_name err_type Ev_Connected = ''ConnectedEvent''"
| "event_name err_type Ev_Disconnected = ''DisconnectedEvent''"
| "event_name err_type (Ev_ClientCMList _) = ''ClientCMListEvent''"
| "event_name err_type (Ev_Notification _) = ''NotificationEvent''"
| "event_name err_type Ev_FriendsList = ''FriendsListEvent''"
| "event_name err_type (Ev_FriendState _) = ''FriendStateEvent''"
| "event_name err_type (Ev_GroupState _) = ''GroupStateEvent''"
| "event_name err_type (Ev_PersonaState _) = ''PersonaStateEvent''"
| "event_name err_type (Ev_ClanState _) = ''ClanStateEvent''"
| "event_name err_type (Ev_FriendAdded _) = ''FriendAddedEvent''"
| "event_name err_type (Ev_ChatMsg _) = ''ChatMsgEvent''"
| "event_name err_type (Ev_ChatEnter _) = ''ChatEnterEvent''"
| "event_name err_type (Ev_ChatMemberInfo _) = ''ChatMemberInfoEvent''"
| "event_name err_type (Ev_ChatActionResult _) = ''ChatActionResultEvent''"
| "event_name err_type (Ev_ChatInvite _) = ''ChatInviteEvent''"
| "event_name err_type (Ev_IgnoreFriend _) = ''IgnoreFriendEvent''"
| "event_name err_type (Ev_ProfileInfo _) = ''ProfileInfoEvent''"
| "event_name err_type (Ev_TradeProposed _) = ''TradeProposedEvent''"
| "event_name err_type (Ev_TradeResult _) = ''TradeResultEvent''"
| "event_name err_type (Ev_TradeSessionStart _) = ''TradeSessionStartEvent''"
| "event_name err_type Ev_WebLoggedOn = ''WebLoggedOnEvent''"
| "event_name err_type Ev_WebSessionId = ''WebSessionIdEvent''"
| "event_name err_type Ev_GCReady = ''GCReadyEvent''"

text \<open>\<open>sdump\<close> prints a value, \<open>spew.Sdump\<close>.\<close>

definition Debug_HandleEvent ::
  "i64 \<Rightarrow> (go_err \<Rightarrow> string) \<Rightarrow> (Event \<Rightarrow> string) \<Rightarrow> Event \<Rightarrow> Debug \<Rightarrow> Disk \<Rightarrow> (Debug \<times> Disk) res" where
  "Debug_HandleEvent now err_type sdump event dbg d =
     (let dbg = dbg\<lparr>dbg_eventId := dbg_eventId dbg + 1\<rparr>;
          name = numbered_name now (dbg_eventId dbg) (event_name err_type event) @ ''.txt''
      in map_res (Pair dbg) (must (WriteFile (path_Join [dbg_base dbg, ''events'', name]) (sdump event) d)))"

section \<open>The program\<close>

text \<open>The options after the user name, in pairs; anything else prints the usage and ends (\<open>None\<close>).\<close>

fun bot_options :: "string list \<Rightarrow> LogOnDetails \<Rightarrow> LogOnDetails option" where
  "bot_options (opt # v # args) d =
     (if opt = ''-p'' then bot_options args (d\<lparr>Details_Password := v\<rparr>)
      else if opt = ''-a'' then bot_options args (d\<lparr>Details_AuthCode := v\<rparr>)
      else if opt = ''-t'' then bot_options args (d\<lparr>Details_TwoFactorCode := v\<rparr>)
      else if opt = ''-l'' then bot_options args (d\<lparr>Details_LoginKey := v\<rparr>)
      else None)"
| "bot_options _ d = Some d"

definition bot_arguments :: "string list \<Rightarrow> LogOnDetails option" where
  "bot_arguments args =
     (if length args < 3 \<or> length args mod 2 \<noteq> 0 then None
      else bot_options (drop 2 args) \<lparr>Details_Username = args ! 1, Details_Password = [], Details_AuthCode = [],
        Details_TwoFactorCode = [], Details_SentryFileHash = None, Details_LoginKey = [],
        Details_ShouldRememberPassword = True, Details_MachineID = None, Details_AccessToken = []\<rparr>)"

record Bot =
  bot_auth :: BotAuth
  bot_debug :: Debug
  bot_disk :: Disk
  bot_client :: Client

text \<open>One round of the loop over the events.\<close>

definition bot_main_event ::
  "i64 \<Rightarrow> (go_err \<Rightarrow> string) \<Rightarrow> (Event \<Rightarrow> string) \<Rightarrow> Site \<Rightarrow> Event \<Rightarrow> Bot \<Rightarrow> Bot res" where
  "bot_main_event now err_type sdump json event b =
     bind_res (bot_HandleEvent event (bot_disk b) (bot_auth b) (bot_client b)) (\<lambda>(d, a, c).
     bind_res (Debug_HandleEvent now err_type sdump event (bot_debug b) d) (\<lambda>(dbg, d).
     bind_res (servers_HandleEvent json ''serverlist.json'' event d) (\<lambda>d.
     Ok \<lparr>bot_auth = a, bot_debug = dbg, bot_disk = d,
       bot_client = (case event of Ev_LoggedOn _ \<Rightarrow> SetPersonaState EPersonaState_Online c | _ \<Rightarrow> c)\<rparr>)))"

lemma all_less_Suc_hd: "(\<forall>i < Suc n. P i) \<longleftrightarrow> P 0 \<and> (\<forall>i < n. P (Suc i))"
  by (metis gr0_implies_Suc less_Suc_eq_0_disj not_less_eq zero_less_Suc)

lemma bot_options_pairs:
  "bot_options args d \<noteq> None \<longleftrightarrow> (\<forall>i < length args div 2. args ! (2 * i) \<in> {''-p'', ''-a'', ''-t'', ''-l''})"
proof (induction args d rule: bot_options.induct)
  case (1 opt v args d)
  then show ?case by (simp add: all_less_Suc_hd)
qed simp_all

section \<open>Every packet has a file of its own\<close>

text \<open>Neither a name nor a number nor a list of names has a slash in it.\<close>

text \<open>Letters, digits and the underscore are told from a slash by two bits.\<close>

fun plain_char :: "char \<Rightarrow> bool" where
  "plain_char (Char b0 b1 b2 b3 b4 b5 b6 b7) \<longleftrightarrow> b6 \<or> b4"

fun plain_names :: "'a names \<Rightarrow> bool" where
  "plain_names [] = True"
| "plain_names ((k, v) # t) = (list_all plain_char v \<and> plain_names t)"

lemma plain_names_append: "plain_names (s @ t) = (plain_names s \<and> plain_names t)"
  by (induction s rule: plain_names.induct) auto

lemma plain_no_slash: "list_all plain_char v \<Longrightarrow> CHR ''/'' \<notin> set v"
  by (auto simp: list_all_iff)

lemma plain_names_no_slash: "plain_names t \<Longrightarrow> list_all (\<lambda>(k, v). CHR ''/'' \<notin> set v) t"
  by (induction t rule: plain_names.induct) (auto simp: plain_no_slash)

lemma list_all_Nil: "list_all P [] = True"
  by simp

lemmas plain_eval = plain_names.simps plain_char.simps list.pred_inject(2) list_all_Nil simp_thms

lemma EMsg_parts_plain:
  "plain_names EMsg_name_1"
  "plain_names EMsg_name_2"
  "plain_names EMsg_name_3"
  "plain_names EMsg_name_4"
  "plain_names EMsg_name_5"
  "plain_names EMsg_name_6"
  "plain_names EMsg_name_7"
  "plain_names EMsg_name_8"
  "plain_names EMsg_name_9"
  "plain_names EMsg_name_10"
  "plain_names EMsg_name_11"
  "plain_names EMsg_name_12"
  "plain_names EMsg_name_13"
  by (simp_all only: plain_eval
    EMsg_name_1_def EMsg_name_2_def EMsg_name_3_def EMsg_name_4_def EMsg_name_5_def EMsg_name_6_def EMsg_name_7_def
    EMsg_name_8_def EMsg_name_9_def EMsg_name_10_def EMsg_name_11_def EMsg_name_12_def EMsg_name_13_def)

lemma EMsg_names_plain: "list_all (\<lambda>(k, v). CHR ''/'' \<notin> set v) EMsg_name"
  by (rule plain_names_no_slash) (simp only: EMsg_name_def plain_names_append EMsg_parts_plain simp_thms)

lemma signed_digits_plain: "c \<in> set (signed_digits e) \<Longrightarrow> is_digit c \<or> c = CHR ''-''"
  by (auto simp: signed_digits_def split: if_splits dest: FormatUint_digits)

lemma Join_plain: "c \<notin> set sep \<Longrightarrow> c \<notin> set (Join ss sep) \<longleftrightarrow> (\<forall>s \<in> set ss. c \<notin> set s)"
  by (induction ss sep rule: Join.induct) auto

lemma enum_String_plain:
  assumes "list_all (\<lambda>(k, v). c \<notin> set v) names" "c \<notin> {CHR ''-'', CHR '' '', CHR ''|''}" "\<not> is_digit c"
  shows "c \<notin> set (enum_String names signed_digits e)"
proof (cases "map_of names e")
  case None
  have "\<forall>s \<in> set (shared_names names e). c \<notin> set s"
    using assms(1) by (auto simp: shared_names_filter list_all_iff)
  moreover have "c \<notin> set (signed_digits e)" using assms(2,3) signed_digits_plain by blast
  ultimately show ?thesis using None assms(2) by (simp add: enum_String_def Let_def Join_plain)
next
  case (Some s)
  then show ?thesis using assms(1) by (auto simp: enum_String_def list_all_iff dest: map_of_SomeD)
qed

lemma EMsg_String_plain: "CHR ''/'' \<notin> set (EMsg_String e)"
  unfolding EMsg_String_def by (rule enum_String_plain [OF EMsg_names_plain]) (simp_all add: is_digit_def)

lemma split_at_first: "\<lbrakk>c \<notin> set a; c \<notin> set a'; a @ c # b = a' @ c # b'\<rbrakk> \<Longrightarrow> a = a' \<and> b = b'"
proof (induction a arbitrary: a')
  case Nil
  then show ?case by (cases a') auto
next
  case (Cons x a)
  then show ?case by (cases a') auto
qed

lemma FormatUint_u64_inj: "FormatUint (unat i) = FormatUint (unat j) \<Longrightarrow> i = (j :: u64)"
  using u64_decimal.enc_inj [of i j] by (simp add: u64_text_def)

lemma numbered_name_inj:
  assumes "numbered_name t i s @ ext = numbered_name t' j s' @ ext"
  shows "i = j"
proof -
  have no: "CHR ''_'' \<notin> set (signed_digits e)" for e :: i64
    using signed_digits_plain [of "CHR ''_''" e] by (auto simp: is_digit_def)
  have "signed_digits t @ CHR ''_'' # FormatUint (unat i) @ CHR ''_'' # s @ ext
      = signed_digits t' @ CHR ''_'' # FormatUint (unat j) @ CHR ''_'' # s' @ ext"
    using assms by (simp add: numbered_name_def)
  then have "FormatUint (unat i) @ CHR ''_'' # s @ ext = FormatUint (unat j) @ CHR ''_'' # s' @ ext"
    using split_at_first [OF no no] by blast
  moreover have "CHR ''_'' \<notin> set (FormatUint n)" for n
    by (rule digit_not_in_FormatUint) (simp add: is_digit_def)
  ultimately have "FormatUint (unat i) = FormatUint (unat j)" using split_at_first by meson
  then show ?thesis by (rule FormatUint_u64_inj)
qed

lemma numbered_name_component:
  assumes "CHR ''/'' \<notin> set s"
  shows "CHR ''/'' \<notin> set (numbered_name t n s)" "numbered_name t n s \<notin> {[], ''.'', ''..''}"
proof -
  have "CHR ''/'' \<notin> set (signed_digits t)" using signed_digits_plain [of "CHR ''/''" t] by (auto simp: is_digit_def)
  moreover have "CHR ''/'' \<notin> set (FormatUint (unat n))" by (rule digit_not_in_FormatUint) (simp add: is_digit_def)
  ultimately show "CHR ''/'' \<notin> set (numbered_name t n s)" using assms by (simp add: numbered_name_def)
  have "CHR ''_'' \<in> set (numbered_name t n s)" by (simp add: numbered_name_def)
  then show "numbered_name t n s \<notin> {[], ''.'', ''..''}" by auto
qed

lemma packet_file_path:
  "packet_file base now n p = dir_prefix base @ ''packets'' @ ''/'' @ numbered_name now n (EMsg_String (Packet_EMsg p))"
  unfolding packet_file_def using numbered_name_component [OF EMsg_String_plain]
  by (intro path_Join_file) auto

lemma packet_file_inj: "packet_file base t i p @ ext = packet_file base t' j q @ ext \<Longrightarrow> i = j"
  unfolding packet_file_path using numbered_name_inj by simp

text \<open>What a run of the module leaves on the disk.\<close>

fun dump_all :: "(i64 \<times> Packet) list \<Rightarrow> Debug \<Rightarrow> Disk \<Rightarrow> (Debug \<times> Disk) res" where
  "dump_all [] dbg d = Ok (dbg, d)"
| "dump_all ((now, p) # ps) dbg d = bind_res (Debug_HandlePacket now p dbg d) (\<lambda>(dbg, d). dump_all ps dbg d)"

lemma dump_all_append:
  "dump_all (ps @ qs) dbg d = bind_res (dump_all ps dbg d) (\<lambda>(dbg, d). dump_all qs dbg d)"
  by (induction ps dbg d rule: dump_all.induct) (simp_all add: case_prod_unfold)

definition bin_file :: "string \<Rightarrow> nat \<Rightarrow> i64 \<times> Packet \<Rightarrow> string" where
  "bin_file base n tp = packet_file base (fst tp) (word_of_nat n) (snd tp) @ ''.bin''"

lemma Debug_HandlePacket_writable:
  assumes "\<forall>f. disk_writable d f"
  shows "Debug_HandlePacket now p dbg d = Ok (dbg\<lparr>dbg_packetId := dbg_packetId dbg + 1\<rparr>,
    d\<lparr>disk_files := (disk_files d)
      (packet_file (dbg_base dbg) now (dbg_packetId dbg + 1) p @ ''.txt'' \<mapsto>
         Packet_String p @ [newline, newline] @ hex_Dump (Packet_Data p),
       packet_file (dbg_base dbg) now (dbg_packetId dbg + 1) p @ ''.bin'' \<mapsto> string_of (Packet_Data p))\<rparr>)"
  using assms by (simp add: Debug_HandlePacket_def WriteFile_def Let_def)

lemma bin_not_txt: "a @ ''.bin'' \<noteq> b @ ''.txt''"
proof
  assume "a @ ''.bin'' = b @ ''.txt''"
  then have "rev (a @ ''.bin'') = rev (b @ ''.txt'')" by (rule arg_cong)
  then show False by simp
qed

lemma dump_all_files:
  assumes "\<forall>f. disk_writable d f" "dbg_packetId dbg = 0" "length ps < 2 ^ 64"
  shows "\<exists>files. dump_all ps dbg d = Ok (dbg\<lparr>dbg_packetId := word_of_nat (length ps)\<rparr>, d\<lparr>disk_files := files\<rparr>) \<and>
    (\<forall>i < length ps. files (bin_file (dbg_base dbg) (Suc i) (ps ! i)) = Some (string_of (Packet_Data (snd (ps ! i)))))"
  using assms(3)
proof (induction ps rule: rev_induct)
  case Nil
  have "dbg = dbg\<lparr>dbg_packetId := 0\<rparr>" using assms(2) by simp
  then show ?case by (intro exI [of _ "disk_files d"]) simp
next
  case (snoc tp ps)
  obtain now p where tp: "tp = (now, p)" by (cases tp)
  from snoc obtain files where run: "dump_all ps dbg d = Ok (dbg\<lparr>dbg_packetId := word_of_nat (length ps)\<rparr>, d\<lparr>disk_files := files\<rparr>)"
    and kept: "\<forall>i < length ps. files (bin_file (dbg_base dbg) (Suc i) (ps ! i)) = Some (string_of (Packet_Data (snd (ps ! i))))"
    by auto
  let ?n = "word_of_nat (length ps) + 1 :: u64"
  let ?f = "packet_file (dbg_base dbg) now ?n p"
  let ?files = "files(?f @ ''.txt'' \<mapsto> Packet_String p @ [newline, newline] @ hex_Dump (Packet_Data p),
     ?f @ ''.bin'' \<mapsto> string_of (Packet_Data p))"
  have number: "bin_file (dbg_base dbg) (Suc i) tq \<noteq> ?f @ ''.bin''" if "i < length ps" for i tq
  proof
    assume "bin_file (dbg_base dbg) (Suc i) tq = ?f @ ''.bin''"
    then have "word_of_nat (Suc i) = ?n" unfolding bin_file_def by (rule packet_file_inj)
    then have "(word_of_nat (Suc i) :: u64) = word_of_nat (Suc (length ps))" by (simp add: add.commute)
    then show False using that snoc.prems by (simp add: word_of_nat_eq_iff take_bit_nat_eq_self del: of_nat_Suc)
  qed
  have "dump_all (ps @ [tp]) dbg d = Ok (dbg\<lparr>dbg_packetId := word_of_nat (length (ps @ [tp]))\<rparr>, d\<lparr>disk_files := ?files\<rparr>)"
    using assms(1) by (simp add: dump_all_append run tp Debug_HandlePacket_writable add.commute)
  moreover have "?files (bin_file (dbg_base dbg) (Suc i) ((ps @ [tp]) ! i)) = Some (string_of (Packet_Data (snd ((ps @ [tp]) ! i))))"
    if "i < length (ps @ [tp])" for i
  proof (cases "i = length ps")
    case True
    then show ?thesis by (simp add: bin_file_def tp add.commute)
  next
    case False
    then show ?thesis using that kept number [of i]
      by (simp add: nth_append bin_file_def bin_not_txt)
  qed
  ultimately show ?case by blast
qed

text \<open>
  C38: every packet the debugging module is given stays on the disk: after any number of packets below the range of the
  counter, whatever their times and types, the file of each of them holds exactly its bytes, because no two packets
  share a file name. This needs that no name of a message type has a slash in it, which \<open>path.Join\<close> would take apart.
\<close>

theorem dumped_packets_stay:
  assumes "\<forall>f. disk_writable d f" "NewDebug now MkdirAll base = Ok dbg" "length ps < 2 ^ 64" "i < length ps"
  shows "\<exists>dbg' d'. dump_all ps dbg d = Ok (dbg', d') \<and>
    disk_files d' (bin_file (dbg_base dbg) (Suc i) (ps ! i)) = Some (string_of (Packet_Data (snd (ps ! i))))"
proof -
  have "dbg_packetId dbg = 0" using assms(2) by (auto simp: NewDebug_def Let_def split: option.splits)
  from dump_all_files [OF assms(1) this assms(3)] assms(4) show ?thesis by fastforce
qed

theorem dumped_packets_stay_witness:
  "\<exists>dbg dbg' d'. NewDebug 7 (\<lambda>_. None) ''debug'' = Ok dbg \<and>
    dump_all [(8, demo_packet EMsg_Multi), (8, demo_packet EMsg_ClientLogOnResponse)] dbg
      \<lparr>disk_files = \<lambda>_. None, disk_writable = \<lambda>_. True\<rparr> = Ok (dbg', d') \<and>
    disk_files d' (bin_file (dbg_base dbg) 2 (8, demo_packet EMsg_ClientLogOnResponse)) =
      Some (string_of (Packet_Data (demo_packet EMsg_ClientLogOnResponse)))"
proof -
  obtain dbg where dbg: "NewDebug 7 (\<lambda>_. None) ''debug'' = Ok dbg" by (simp add: NewDebug_def Let_def)
  let ?ps = "[(8 :: i64, demo_packet EMsg_Multi), (8, demo_packet EMsg_ClientLogOnResponse)]"
  have "\<exists>dbg' d'. dump_all ?ps dbg \<lparr>disk_files = \<lambda>_. None, disk_writable = \<lambda>_. True\<rparr> = Ok (dbg', d') \<and>
    disk_files d' (bin_file (dbg_base dbg) (Suc 1) (?ps ! 1)) = Some (string_of (Packet_Data (snd (?ps ! 1))))"
    by (rule dumped_packets_stay [OF _ dbg]) simp_all
  with dbg show ?thesis by (simp add: numeral_2_eq_2)
qed

end
