(* ===== verification/Enum_Facts.thy ===== *)
theory Enum_Facts
  imports Enums
begin

text \<open>
  That the texts of the enums do not depend on the order in which Go walks through the tables of their names.
\<close>

text \<open>The tables of all the enums that are 32-bit signed integers, without \<open>EMsg\<close>.\<close>

definition int32_tables :: "i32 names list" where
  "int32_tables = [
     EResult_name, EUniverse_name, EChatEntryType_name, EPersonaState_name, EAccountType_name,
     EFriendRelationship_name, EAccountFlags_name, EClanPermission_name, EChatPermission_name, EFriendFlags_name,
     EPersonaStateFlag_name, EClientPersonaStateFlag_name, EAppUsageEvent_name, ELicenseFlags_name, ELicenseType_name,
     EPaymentMethod_name, EPurchaseResultDetail_name, EIntroducerRouting_name, EServerFlags_name, EDenyReason_name,
     EClanRank_name, EClanRelationship_name, EAuthSessionResponse_name, EChatRoomEnterResponse_name,
     EChatRoomType_name, EChatInfoType_name, EChatAction_name, EChatActionResult_name, EAppInfoSection_name,
     EContentDownloadSourceType_name, EPlatformType_name, EOSType_name, EServerType_name, EBillingType_name,
     EChatMemberStateChange_name, ECurrencyCode_name, EDepotFileFlag_name, EWorkshopEnumerationType_name,
     EPublishedFileVisibility_name, EWorkshopFileType_name, EWorkshopFileAction_name, EEconTradeResponse_name,
     EMarketingMessageFlags_name, ENewsUpdateType_name, ESystemIMType_name, EChatFlags_name,
     ERemoteStoragePlatform_name, EDRMBlobDownloadType_name, EDRMBlobDownloadErrorDetail_name, EClientStat_name,
     EClientStatAggregateMethod_name, ELeaderboardDataRequest_name, ELeaderboardSortMethod_name,
     ELeaderboardDisplayType_name, ELeaderboardUploadScoreMethod_name, EUCMFilePrivacyState_name,
     EPublishedFileQueryType_name, EPublishedFileInappropriateProvider_name, EPublishedFileInappropriateResult_name,
     EDisplayStatus_name, EAppType_name, EChatRoomGroupType_name, EChatroomNotificationLevel_name,
     EChatRoomMemberStateChange_name, EChatRoomServerMsg_name, EChatRoomGroupRank_name,
     EChatRoomGroupPermissions_name, EChatRoomGroupAction_name, EChatRoomJoinState_name, EVoiceCallState_name,
     ETradeOfferState_name, ETradeOfferConfirmationMethod_name, ELobbyType_name, ELobbyFilterType_name,
     ELobbyComparison_name, ELobbyDistanceFilter_name, ESteamIPv6ConnectivityProtocol_name,
     ESteamIPv6ConnectivityState_name, ESteamRealm_name, ELauncherType_name]"

text \<open>Go refuses a map literal with a key that occurs twice, and indeed none does.\<close>

fun ascending :: "'a::linorder list \<Rightarrow> bool" where
  "ascending (x # y # xs) \<longleftrightarrow> x < y \<and> ascending (y # xs)"
| "ascending _ \<longleftrightarrow> True"

lemma ascending_sorted_distinct: "ascending xs \<Longrightarrow> sorted xs \<and> distinct xs"
  by (induction xs rule: ascending.induct) auto

text \<open>It is enough that the keys ascend after a renumbering.\<close>

lemma ascending_distinct: "ascending (map f xs) \<Longrightarrow> distinct xs"
  by (auto dest: ascending_sorted_distinct simp: distinct_map)

lemma EOSType_distinct: "distinct (map fst EOSType_name)"
  by (rule ascending_distinct [of "\<lambda>k. if k = - 1 then 0 else if k < 100 then k + 3000
    else if - 204 < k \<and> k < - 185 then k + 2300 else k + 1000"]) (simp add: EOSType_name_def)

lemma EServerType_distinct: "distinct (map fst EServerType_name)"
  by (rule ascending_distinct [of "\<lambda>k. if k < 1000 then k + 10 else if k = - 1 then 9 else - k"])
    (simp add: EServerType_name_def)

text \<open>Two values of \<open>EServerType\<close> share each of the names \<open>EServerType_Client\<close> and \<open>EServerType_Util\<close>.\<close>

lemma EServerType_String_in: "(k, v) \<in> set EServerType_name \<Longrightarrow> EServerType_String k = v"
  unfolding EServerType_String_def by (rule enum_String_named) (rule map_of_is_SomeI [OF EServerType_distinct])

lemma EServerType_String_ambiguous:
  "EServerType_String 15 = ''EServerType_Client''" "EServerType_String (- 3) = ''EServerType_Client''"
  "EServerType_String 23 = ''EServerType_Util''" "EServerType_String (- 2) = ''EServerType_Util''"
  by (rule EServerType_String_in, unfold EServerType_name_def list.set, (rule insertI1 | rule insertI2)+)+

lemmas int32_table_defs =
      EResult_name_def EUniverse_name_def EChatEntryType_name_def EPersonaState_name_def EAccountType_name_def
      EFriendRelationship_name_def EAccountFlags_name_def EClanPermission_name_def EChatPermission_name_def
      EFriendFlags_name_def EPersonaStateFlag_name_def EClientPersonaStateFlag_name_def EAppUsageEvent_name_def
      ELicenseFlags_name_def ELicenseType_name_def EPaymentMethod_name_def EPurchaseResultDetail_name_def
      EIntroducerRouting_name_def EServerFlags_name_def EDenyReason_name_def EClanRank_name_def
      EClanRelationship_name_def EAuthSessionResponse_name_def EChatRoomEnterResponse_name_def EChatRoomType_name_def
      EChatInfoType_name_def EChatAction_name_def EChatActionResult_name_def EAppInfoSection_name_def
      EContentDownloadSourceType_name_def EPlatformType_name_def EBillingType_name_def
      EChatMemberStateChange_name_def ECurrencyCode_name_def EDepotFileFlag_name_def
      EWorkshopEnumerationType_name_def EPublishedFileVisibility_name_def EWorkshopFileType_name_def
      EWorkshopFileAction_name_def EEconTradeResponse_name_def EMarketingMessageFlags_name_def
      ENewsUpdateType_name_def ESystemIMType_name_def EChatFlags_name_def ERemoteStoragePlatform_name_def
      EDRMBlobDownloadType_name_def EDRMBlobDownloadErrorDetail_name_def EClientStat_name_def
      EClientStatAggregateMethod_name_def ELeaderboardDataRequest_name_def ELeaderboardSortMethod_name_def
      ELeaderboardDisplayType_name_def ELeaderboardUploadScoreMethod_name_def EUCMFilePrivacyState_name_def
      EPublishedFileQueryType_name_def EPublishedFileInappropriateProvider_name_def
      EPublishedFileInappropriateResult_name_def EDisplayStatus_name_def EAppType_name_def
      EChatRoomGroupType_name_def EChatroomNotificationLevel_name_def EChatRoomMemberStateChange_name_def
      EChatRoomServerMsg_name_def EChatRoomGroupRank_name_def EChatRoomGroupPermissions_name_def
      EChatRoomGroupAction_name_def EChatRoomJoinState_name_def EVoiceCallState_name_def ETradeOfferState_name_def
      ETradeOfferConfirmationMethod_name_def ELobbyType_name_def ELobbyFilterType_name_def ELobbyComparison_name_def
      ELobbyDistanceFilter_name_def ESteamIPv6ConnectivityProtocol_name_def ESteamIPv6ConnectivityState_name_def
      ESteamRealm_name_def ELauncherType_name_def

lemma int32_tables_distinct: "list_all (\<lambda>t. distinct (map fst t)) int32_tables"
  unfolding int32_tables_def list.pred_inject
  by (intro conjI; (rule list.pred_inject(1) EOSType_distinct EServerType_distinct | simp only: int32_table_defs list.map fst_conv);
    (rule ascending_distinct [of "\<lambda>k :: i32. k"], simp; fail | simp))

text \<open>
  the text of an enum value is one string, though Go walks through the table of its names in a random order: for each
  of the signed enums every arrangement of the table gives the same text for every number, named or not.
\<close>

theorem enum_texts_ignore_order:
  assumes "t \<in> set int32_tables" "mset t' = mset t"
  shows "enum_String t' signed_digits e = enum_String t signed_digits e"
  using enum_String_order [OF _ assms(2)] int32_tables_distinct assms(1) by (auto simp: list_all_iff)

theorem enum_texts_ignore_order_witness: "enum_String (rev EUniverse_name) signed_digits 6 = EUniverse_String 6"
  unfolding EUniverse_String_def
proof (rule enum_texts_ignore_order)
  show "EUniverse_name \<in> set int32_tables" unfolding int32_tables_def list.set by blast
qed simp

end
