(* ===== verification/Enum_Constants.thy ===== *)
theory Enum_Constants
  imports Enum_Facts
begin

text \<open>
  The constants of the enums of \<open>protocol/steamlang/enums.go\<close> with their values, in the order of the file, without those
  of \<open>EMsg\<close> (\<open>EMsg_Constants\<close>). The models of the handlers name the few they use (\<open>Steamlang\<close>); here they stand as tables,
  to be compared with the tables of the \<open>String\<close> methods.
\<close>

type_synonym 'a constants = "(string \<times> 'a) list"

section \<open>The tables\<close>

subsection \<open>\<open>EResult\<close>\<close>

definition EResult_constants :: "i32 constants" where
  "EResult_constants = [
    (''EResult_Invalid'', 0),
    (''EResult_OK'', 1),
    (''EResult_Fail'', 2),
    (''EResult_NoConnection'', 3),
    (''EResult_InvalidPassword'', 5),
    (''EResult_LoggedInElsewhere'', 6),
    (''EResult_InvalidProtocolVer'', 7),
    (''EResult_InvalidParam'', 8),
    (''EResult_FileNotFound'', 9),
    (''EResult_Busy'', 10),
    (''EResult_InvalidState'', 11),
    (''EResult_InvalidName'', 12),
    (''EResult_InvalidEmail'', 13),
    (''EResult_DuplicateName'', 14),
    (''EResult_AccessDenied'', 15),
    (''EResult_Timeout'', 16),
    (''EResult_Banned'', 17),
    (''EResult_AccountNotFound'', 18),
    (''EResult_InvalidSteamID'', 19),
    (''EResult_ServiceUnavailable'', 20),
    (''EResult_NotLoggedOn'', 21),
    (''EResult_Pending'', 22),
    (''EResult_EncryptionFailure'', 23),
    (''EResult_InsufficientPrivilege'', 24),
    (''EResult_LimitExceeded'', 25),
    (''EResult_Revoked'', 26),
    (''EResult_Expired'', 27),
    (''EResult_AlreadyRedeemed'', 28),
    (''EResult_DuplicateRequest'', 29),
    (''EResult_AlreadyOwned'', 30),
    (''EResult_IPNotFound'', 31),
    (''EResult_PersistFailed'', 32),
    (''EResult_LockingFailed'', 33),
    (''EResult_LogonSessionReplaced'', 34),
    (''EResult_ConnectFailed'', 35),
    (''EResult_HandshakeFailed'', 36),
    (''EResult_IOFailure'', 37),
    (''EResult_RemoteDisconnect'', 38),
    (''EResult_ShoppingCartNotFound'', 39),
    (''EResult_Blocked'', 40),
    (''EResult_Ignored'', 41),
    (''EResult_NoMatch'', 42),
    (''EResult_AccountDisabled'', 43),
    (''EResult_ServiceReadOnly'', 44),
    (''EResult_AccountNotFeatured'', 45),
    (''EResult_AdministratorOK'', 46),
    (''EResult_ContentVersion'', 47),
    (''EResult_TryAnotherCM'', 48),
    (''EResult_PasswordRequiredToKickSession'', 49),
    (''EResult_AlreadyLoggedInElsewhere'', 50),
    (''EResult_Suspended'', 51),
    (''EResult_Cancelled'', 52),
    (''EResult_DataCorruption'', 53),
    (''EResult_DiskFull'', 54),
    (''EResult_RemoteCallFailed'', 55),
    (''EResult_PasswordUnset'', 56),
    (''EResult_ExternalAccountUnlinked'', 57),
    (''EResult_PSNTicketInvalid'', 58),
    (''EResult_ExternalAccountAlreadyLinked'', 59),
    (''EResult_RemoteFileConflict'', 60),
    (''EResult_IllegalPassword'', 61),
    (''EResult_SameAsPreviousValue'', 62),
    (''EResult_AccountLogonDenied'', 63),
    (''EResult_CannotUseOldPassword'', 64),
    (''EResult_InvalidLoginAuthCode'', 65),
    (''EResult_AccountLogonDeniedNoMail'', 66),
    (''EResult_HardwareNotCapableOfIPT'', 67),
    (''EResult_IPTInitError'', 68),
    (''EResult_ParentalControlRestricted'', 69),
    (''EResult_FacebookQueryError'', 70),
    (''EResult_ExpiredLoginAuthCode'', 71),
    (''EResult_IPLoginRestrictionFailed'', 72),
    (''EResult_AccountLockedDown'', 73),
    (''EResult_AccountLogonDeniedVerifiedEmailRequired'', 74),
    (''EResult_NoMatchingURL'', 75),
    (''EResult_BadResponse'', 76),
    (''EResult_RequirePasswordReEntry'', 77),
    (''EResult_ValueOutOfRange'', 78),
    (''EResult_UnexpectedError'', 79),
    (''EResult_Disabled'', 80),
    (''EResult_InvalidCEGSubmission'', 81),
    (''EResult_RestrictedDevice'', 82),
    (''EResult_RegionLocked'', 83),
    (''EResult_RateLimitExceeded'', 84),
    (''EResult_AccountLoginDeniedNeedTwoFactor'', 85),
    (''EResult_ItemDeleted'', 86),
    (''EResult_AccountLoginDeniedThrottle'', 87),
    (''EResult_TwoFactorCodeMismatch'', 88),
    (''EResult_TwoFactorActivationCodeMismatch'', 89),
    (''EResult_AccountAssociatedToMultiplePartners'', 90),
    (''EResult_NotModified'', 91),
    (''EResult_NoMobileDevice'', 92),
    (''EResult_TimeNotSynced'', 93),
    (''EResult_SMSCodeFailed'', 94),
    (''EResult_AccountLimitExceeded'', 95),
    (''EResult_AccountActivityLimitExceeded'', 96),
    (''EResult_PhoneActivityLimitExceeded'', 97),
    (''EResult_RefundToWallet'', 98),
    (''EResult_EmailSendFailure'', 99),
    (''EResult_NotSettled'', 100),
    (''EResult_NeedCaptcha'', 101),
    (''EResult_GSLTDenied'', 102),
    (''EResult_GSOwnerDenied'', 103),
    (''EResult_InvalidItemType'', 104),
    (''EResult_IPBanned'', 105),
    (''EResult_GSLTExpired'', 106),
    (''EResult_InsufficientFunds'', 107),
    (''EResult_TooManyPending'', 108),
    (''EResult_NoSiteLicensesFound'', 109),
    (''EResult_WGNetworkSendExceeded'', 110),
    (''EResult_AccountNotFriends'', 111),
    (''EResult_LimitedUserAccount'', 112),
    (''EResult_CantRemoveItem'', 113),
    (''EResult_AccountHasBeenDeleted'', 114),
    (''EResult_AccountHasAnExistingUserCancelledLicense'', 115),
    (''EResult_DeniedDueToCommunityCooldown'', 116)]"

subsection \<open>\<open>EUniverse\<close>\<close>

definition EUniverse_constants :: "i32 constants" where
  "EUniverse_constants = [
    (''EUniverse_Invalid'', 0),
    (''EUniverse_Public'', 1),
    (''EUniverse_Beta'', 2),
    (''EUniverse_Internal'', 3),
    (''EUniverse_Dev'', 4)]"

subsection \<open>\<open>EChatEntryType\<close>\<close>

definition EChatEntryType_constants :: "i32 constants" where
  "EChatEntryType_constants = [
    (''EChatEntryType_Invalid'', 0),
    (''EChatEntryType_ChatMsg'', 1),
    (''EChatEntryType_Typing'', 2),
    (''EChatEntryType_InviteGame'', 3),
    (''EChatEntryType_LeftConversation'', 6),
    (''EChatEntryType_Entered'', 7),
    (''EChatEntryType_WasKicked'', 8),
    (''EChatEntryType_WasBanned'', 9),
    (''EChatEntryType_Disconnected'', 10),
    (''EChatEntryType_HistoricalChat'', 11),
    (''EChatEntryType_Reserved1'', 12),
    (''EChatEntryType_Reserved2'', 13),
    (''EChatEntryType_LinkBlocked'', 14)]"

subsection \<open>\<open>EPersonaState\<close>\<close>

definition EPersonaState_constants :: "i32 constants" where
  "EPersonaState_constants = [
    (''EPersonaState_Offline'', 0),
    (''EPersonaState_Online'', 1),
    (''EPersonaState_Busy'', 2),
    (''EPersonaState_Away'', 3),
    (''EPersonaState_Snooze'', 4),
    (''EPersonaState_LookingToTrade'', 5),
    (''EPersonaState_LookingToPlay'', 6),
    (''EPersonaState_Invisible'', 7)]"

subsection \<open>\<open>EAccountType\<close>\<close>

definition EAccountType_constants :: "i32 constants" where
  "EAccountType_constants = [
    (''EAccountType_Invalid'', 0),
    (''EAccountType_Individual'', 1),
    (''EAccountType_Multiseat'', 2),
    (''EAccountType_GameServer'', 3),
    (''EAccountType_AnonGameServer'', 4),
    (''EAccountType_Pending'', 5),
    (''EAccountType_ContentServer'', 6),
    (''EAccountType_Clan'', 7),
    (''EAccountType_Chat'', 8),
    (''EAccountType_ConsoleUser'', 9),
    (''EAccountType_AnonUser'', 10)]"

subsection \<open>\<open>EFriendRelationship\<close>\<close>

definition EFriendRelationship_constants :: "i32 constants" where
  "EFriendRelationship_constants = [
    (''EFriendRelationship_None'', 0),
    (''EFriendRelationship_Blocked'', 1),
    (''EFriendRelationship_RequestRecipient'', 2),
    (''EFriendRelationship_Friend'', 3),
    (''EFriendRelationship_RequestInitiator'', 4),
    (''EFriendRelationship_Ignored'', 5),
    (''EFriendRelationship_IgnoredFriend'', 6)]"

subsection \<open>\<open>EAccountFlags\<close>\<close>

definition EAccountFlags_constants :: "i32 constants" where
  "EAccountFlags_constants = [
    (''EAccountFlags_NormalUser'', 0),
    (''EAccountFlags_PersonaNameSet'', 1),
    (''EAccountFlags_Unbannable'', 2),
    (''EAccountFlags_PasswordSet'', 4),
    (''EAccountFlags_Support'', 8),
    (''EAccountFlags_Admin'', 16),
    (''EAccountFlags_Supervisor'', 32),
    (''EAccountFlags_AppEditor'', 64),
    (''EAccountFlags_HWIDSet'', 128),
    (''EAccountFlags_PersonalQASet'', 256),
    (''EAccountFlags_VacBeta'', 512),
    (''EAccountFlags_Debug'', 1024),
    (''EAccountFlags_Disabled'', 2048),
    (''EAccountFlags_LimitedUser'', 4096),
    (''EAccountFlags_LimitedUserForce'', 8192),
    (''EAccountFlags_EmailValidated'', 16384),
    (''EAccountFlags_MarketingTreatment'', 32768),
    (''EAccountFlags_OGGInviteOptOut'', 65536),
    (''EAccountFlags_ForcePasswordChange'', 131072),
    (''EAccountFlags_ForceEmailVerification'', 262144),
    (''EAccountFlags_LogonExtraSecurity'', 524288),
    (''EAccountFlags_LogonExtraSecurityDisabled'', 1048576),
    (''EAccountFlags_Steam2MigrationComplete'', 2097152),
    (''EAccountFlags_NeedLogs'', 4194304),
    (''EAccountFlags_Lockdown'', 8388608),
    (''EAccountFlags_MasterAppEditor'', 16777216),
    (''EAccountFlags_BannedFromWebAPI'', 33554432),
    (''EAccountFlags_ClansOnlyFromFriends'', 67108864),
    (''EAccountFlags_GlobalModerator'', 134217728),
    (''EAccountFlags_ParentalSettings'', 268435456),
    (''EAccountFlags_ThirdPartySupport'', 536870912),
    (''EAccountFlags_NeedsSSANextSteamLogon'', 1073741824)]"

subsection \<open>\<open>EClanPermission\<close>\<close>

definition EClanPermission_constants :: "i32 constants" where
  "EClanPermission_constants = [
    (''EClanPermission_Nobody'', 0),
    (''EClanPermission_Owner'', 1),
    (''EClanPermission_Officer'', 2),
    (''EClanPermission_OwnerAndOfficer'', 3),
    (''EClanPermission_Member'', 4),
    (''EClanPermission_Moderator'', 8),
    (''EClanPermission_OwnerOfficerModerator'', 1 OR 2 OR 8),
    (''EClanPermission_AllMembers'', 1 OR 2 OR 8 OR 4),
    (''EClanPermission_OGGGameOwner'', 16),
    (''EClanPermission_NonMember'', 128),
    (''EClanPermission_MemberAllowed'', 128 OR 4),
    (''EClanPermission_ModeratorAllowed'', 128 OR 4 OR 8),
    (''EClanPermission_OfficerAllowed'', 128 OR 4 OR 8 OR 2),
    (''EClanPermission_OwnerAllowed'', 128 OR 4 OR 8 OR 2 OR 1),
    (''EClanPermission_Anybody'', 128 OR 4 OR 8 OR 2 OR 1)]"

subsection \<open>\<open>EChatPermission\<close>\<close>

definition EChatPermission_constants :: "i32 constants" where
  "EChatPermission_constants = [
    (''EChatPermission_Close'', 1),
    (''EChatPermission_Invite'', 2),
    (''EChatPermission_Talk'', 8),
    (''EChatPermission_Kick'', 16),
    (''EChatPermission_Mute'', 32),
    (''EChatPermission_SetMetadata'', 64),
    (''EChatPermission_ChangePermissions'', 128),
    (''EChatPermission_Ban'', 256),
    (''EChatPermission_ChangeAccess'', 512),
    (''EChatPermission_EveryoneNotInClanDefault'', 8),
    (''EChatPermission_EveryoneDefault'', 8 OR 2),
    (''EChatPermission_MemberDefault'', 256 OR 16 OR 8 OR 2),
    (''EChatPermission_OfficerDefault'', 256 OR 16 OR 8 OR 2),
    (''EChatPermission_OwnerDefault'', 512 OR 256 OR 64 OR 32 OR 16 OR 8 OR 2 OR 1),
    (''EChatPermission_Mask'', 1019)]"

subsection \<open>\<open>EFriendFlags\<close>\<close>

definition EFriendFlags_constants :: "i32 constants" where
  "EFriendFlags_constants = [
    (''EFriendFlags_None'', 0),
    (''EFriendFlags_Blocked'', 1),
    (''EFriendFlags_FriendshipRequested'', 2),
    (''EFriendFlags_Immediate'', 4),
    (''EFriendFlags_ClanMember'', 8),
    (''EFriendFlags_OnGameServer'', 16),
    (''EFriendFlags_RequestingFriendship'', 128),
    (''EFriendFlags_RequestingInfo'', 256),
    (''EFriendFlags_Ignored'', 512),
    (''EFriendFlags_IgnoredFriend'', 1024),
    (''EFriendFlags_Suggested'', 2048),
    (''EFriendFlags_ChatMember'', 4096),
    (''EFriendFlags_FlagAll'', 65535)]"

subsection \<open>\<open>EPersonaStateFlag\<close>\<close>

definition EPersonaStateFlag_constants :: "i32 constants" where
  "EPersonaStateFlag_constants = [
    (''EPersonaStateFlag_HasRichPresence'', 1),
    (''EPersonaStateFlag_InJoinableGame'', 2),
    (''EPersonaStateFlag_Golden'', 4),
    (''EPersonaStateFlag_RemotePlayTogether'', 8),
    (''EPersonaStateFlag_ClientTypeWeb'', 256),
    (''EPersonaStateFlag_ClientTypeMobile'', 512),
    (''EPersonaStateFlag_ClientTypeTenfoot'', 1024),
    (''EPersonaStateFlag_ClientTypeVR'', 2048),
    (''EPersonaStateFlag_LaunchTypeGamepad'', 4096),
    (''EPersonaStateFlag_LaunchTypeCompatTool'', 8192)]"

subsection \<open>\<open>EClientPersonaStateFlag\<close>\<close>

definition EClientPersonaStateFlag_constants :: "i32 constants" where
  "EClientPersonaStateFlag_constants = [
    (''EClientPersonaStateFlag_Status'', 1),
    (''EClientPersonaStateFlag_PlayerName'', 2),
    (''EClientPersonaStateFlag_QueryPort'', 4),
    (''EClientPersonaStateFlag_SourceID'', 8),
    (''EClientPersonaStateFlag_Presence'', 16),
    (''EClientPersonaStateFlag_LastSeen'', 64),
    (''EClientPersonaStateFlag_ClanInfo'', 128),
    (''EClientPersonaStateFlag_UserClanRank'', 128),
    (''EClientPersonaStateFlag_GameExtraInfo'', 256),
    (''EClientPersonaStateFlag_GameDataBlob'', 512),
    (''EClientPersonaStateFlag_ClanTag'', 1024),
    (''EClientPersonaStateFlag_ClanData'', 1024),
    (''EClientPersonaStateFlag_Facebook'', 2048),
    (''EClientPersonaStateFlag_RichPresence'', 4096),
    (''EClientPersonaStateFlag_Broadcast'', 8192),
    (''EClientPersonaStateFlag_Watching'', 16384)]"

subsection \<open>\<open>EAppUsageEvent\<close>\<close>

definition EAppUsageEvent_constants :: "i32 constants" where
  "EAppUsageEvent_constants = [
    (''EAppUsageEvent_GameLaunch'', 1),
    (''EAppUsageEvent_GameLaunchTrial'', 2),
    (''EAppUsageEvent_Media'', 3),
    (''EAppUsageEvent_PreloadStart'', 4),
    (''EAppUsageEvent_PreloadFinish'', 5),
    (''EAppUsageEvent_MarketingMessageView'', 6),
    (''EAppUsageEvent_InGameAdViewed'', 7),
    (''EAppUsageEvent_GameLaunchFreeWeekend'', 8)]"

subsection \<open>\<open>ELicenseFlags\<close>\<close>

definition ELicenseFlags_constants :: "i32 constants" where
  "ELicenseFlags_constants = [
    (''ELicenseFlags_None'', 0),
    (''ELicenseFlags_Renew'', 1),
    (''ELicenseFlags_RenewalFailed'', 2),
    (''ELicenseFlags_Pending'', 4),
    (''ELicenseFlags_Expired'', 8),
    (''ELicenseFlags_CancelledByUser'', 16),
    (''ELicenseFlags_CancelledByAdmin'', 32),
    (''ELicenseFlags_LowViolenceContent'', 64),
    (''ELicenseFlags_ImportedFromSteam2'', 128),
    (''ELicenseFlags_ForceRunRestriction'', 256),
    (''ELicenseFlags_RegionRestrictionExpired'', 512),
    (''ELicenseFlags_CancelledByFriendlyFraudLock'', 1024),
    (''ELicenseFlags_NotActivated'', 2048)]"

subsection \<open>\<open>ELicenseType\<close>\<close>

definition ELicenseType_constants :: "i32 constants" where
  "ELicenseType_constants = [
    (''ELicenseType_NoLicense'', 0),
    (''ELicenseType_SinglePurchase'', 1),
    (''ELicenseType_SinglePurchaseLimitedUse'', 2),
    (''ELicenseType_RecurringCharge'', 3),
    (''ELicenseType_RecurringChargeLimitedUse'', 4),
    (''ELicenseType_RecurringChargeLimitedUseWithOverages'', 5),
    (''ELicenseType_RecurringOption'', 6),
    (''ELicenseType_LimitedUseDelayedActivation'', 7)]"

subsection \<open>\<open>EPaymentMethod\<close>\<close>

definition EPaymentMethod_constants :: "i32 constants" where
  "EPaymentMethod_constants = [
    (''EPaymentMethod_None'', 0),
    (''EPaymentMethod_ActivationCode'', 1),
    (''EPaymentMethod_CreditCard'', 2),
    (''EPaymentMethod_Giropay'', 3),
    (''EPaymentMethod_PayPal'', 4),
    (''EPaymentMethod_Ideal'', 5),
    (''EPaymentMethod_PaySafeCard'', 6),
    (''EPaymentMethod_Sofort'', 7),
    (''EPaymentMethod_GuestPass'', 8),
    (''EPaymentMethod_WebMoney'', 9),
    (''EPaymentMethod_MoneyBookers'', 10),
    (''EPaymentMethod_AliPay'', 11),
    (''EPaymentMethod_Yandex'', 12),
    (''EPaymentMethod_Kiosk'', 13),
    (''EPaymentMethod_Qiwi'', 14),
    (''EPaymentMethod_GameStop'', 15),
    (''EPaymentMethod_HardwarePromo'', 16),
    (''EPaymentMethod_MoPay'', 17),
    (''EPaymentMethod_BoletoBancario'', 18),
    (''EPaymentMethod_BoaCompraGold'', 19),
    (''EPaymentMethod_BancoDoBrasilOnline'', 20),
    (''EPaymentMethod_ItauOnline'', 21),
    (''EPaymentMethod_BradescoOnline'', 22),
    (''EPaymentMethod_Pagseguro'', 23),
    (''EPaymentMethod_VisaBrazil'', 24),
    (''EPaymentMethod_AmexBrazil'', 25),
    (''EPaymentMethod_Aura'', 26),
    (''EPaymentMethod_Hipercard'', 27),
    (''EPaymentMethod_MastercardBrazil'', 28),
    (''EPaymentMethod_DinersCardBrazil'', 29),
    (''EPaymentMethod_AuthorizedDevice'', 30),
    (''EPaymentMethod_MOLPoints'', 31),
    (''EPaymentMethod_ClickAndBuy'', 32),
    (''EPaymentMethod_Beeline'', 33),
    (''EPaymentMethod_Konbini'', 34),
    (''EPaymentMethod_EClubPoints'', 35),
    (''EPaymentMethod_CreditCardJapan'', 36),
    (''EPaymentMethod_BankTransferJapan'', 37),
    (''EPaymentMethod_PayEasy'', 38),
    (''EPaymentMethod_Zong'', 39),
    (''EPaymentMethod_CultureVoucher'', 40),
    (''EPaymentMethod_BookVoucher'', 41),
    (''EPaymentMethod_HappymoneyVoucher'', 42),
    (''EPaymentMethod_ConvenientStoreVoucher'', 43),
    (''EPaymentMethod_GameVoucher'', 44),
    (''EPaymentMethod_Multibanco'', 45),
    (''EPaymentMethod_Payshop'', 46),
    (''EPaymentMethod_MaestroBoaCompra'', 47),
    (''EPaymentMethod_OXXO'', 48),
    (''EPaymentMethod_ToditoCash'', 49),
    (''EPaymentMethod_Carnet'', 50),
    (''EPaymentMethod_SPEI'', 51),
    (''EPaymentMethod_ThreePay'', 52),
    (''EPaymentMethod_IsBank'', 53),
    (''EPaymentMethod_Garanti'', 54),
    (''EPaymentMethod_Akbank'', 55),
    (''EPaymentMethod_YapiKredi'', 56),
    (''EPaymentMethod_Halkbank'', 57),
    (''EPaymentMethod_BankAsya'', 58),
    (''EPaymentMethod_Finansbank'', 59),
    (''EPaymentMethod_DenizBank'', 60),
    (''EPaymentMethod_PTT'', 61),
    (''EPaymentMethod_CashU'', 62),
    (''EPaymentMethod_AutoGrant'', 64),
    (''EPaymentMethod_WebMoneyJapan'', 65),
    (''EPaymentMethod_OneCard'', 66),
    (''EPaymentMethod_PSE'', 67),
    (''EPaymentMethod_Exito'', 68),
    (''EPaymentMethod_Efecty'', 69),
    (''EPaymentMethod_Paloto'', 70),
    (''EPaymentMethod_PinValidda'', 71),
    (''EPaymentMethod_MangirKart'', 72),
    (''EPaymentMethod_BancoCreditoDePeru'', 73),
    (''EPaymentMethod_BBVAContinental'', 74),
    (''EPaymentMethod_SafetyPay'', 75),
    (''EPaymentMethod_PagoEfectivo'', 76),
    (''EPaymentMethod_Trustly'', 77),
    (''EPaymentMethod_UnionPay'', 78),
    (''EPaymentMethod_BitCoin'', 79),
    (''EPaymentMethod_Wallet'', 128),
    (''EPaymentMethod_Valve'', 129),
    (''EPaymentMethod_MasterComp'', 130),
    (''EPaymentMethod_Promotional'', 131),
    (''EPaymentMethod_MasterSubscription'', 134),
    (''EPaymentMethod_OEMTicket'', 256),
    (''EPaymentMethod_Split'', 512),
    (''EPaymentMethod_Complimentary'', 1024)]"

subsection \<open>\<open>EPurchaseResultDetail\<close>\<close>

definition EPurchaseResultDetail_constants :: "i32 constants" where
  "EPurchaseResultDetail_constants = [
    (''EPurchaseResultDetail_NoDetail'', 0),
    (''EPurchaseResultDetail_AVSFailure'', 1),
    (''EPurchaseResultDetail_InsufficientFunds'', 2),
    (''EPurchaseResultDetail_ContactSupport'', 3),
    (''EPurchaseResultDetail_Timeout'', 4),
    (''EPurchaseResultDetail_InvalidPackage'', 5),
    (''EPurchaseResultDetail_InvalidPaymentMethod'', 6),
    (''EPurchaseResultDetail_InvalidData'', 7),
    (''EPurchaseResultDetail_OthersInProgress'', 8),
    (''EPurchaseResultDetail_AlreadyPurchased'', 9),
    (''EPurchaseResultDetail_WrongPrice'', 10),
    (''EPurchaseResultDetail_FraudCheckFailed'', 11),
    (''EPurchaseResultDetail_CancelledByUser'', 12),
    (''EPurchaseResultDetail_RestrictedCountry'', 13),
    (''EPurchaseResultDetail_BadActivationCode'', 14),
    (''EPurchaseResultDetail_DuplicateActivationCode'', 15),
    (''EPurchaseResultDetail_UseOtherPaymentMethod'', 16),
    (''EPurchaseResultDetail_UseOtherFunctionSource'', 17),
    (''EPurchaseResultDetail_InvalidShippingAddress'', 18),
    (''EPurchaseResultDetail_RegionNotSupported'', 19),
    (''EPurchaseResultDetail_AcctIsBlocked'', 20),
    (''EPurchaseResultDetail_AcctNotVerified'', 21),
    (''EPurchaseResultDetail_InvalidAccount'', 22),
    (''EPurchaseResultDetail_StoreBillingCountryMismatch'', 23),
    (''EPurchaseResultDetail_DoesNotOwnRequiredApp'', 24),
    (''EPurchaseResultDetail_CanceledByNewTransaction'', 25),
    (''EPurchaseResultDetail_ForceCanceledPending'', 26),
    (''EPurchaseResultDetail_FailCurrencyTransProvider'', 27),
    (''EPurchaseResultDetail_FailedCyberCafe'', 28),
    (''EPurchaseResultDetail_NeedsPreApproval'', 29),
    (''EPurchaseResultDetail_PreApprovalDenied'', 30),
    (''EPurchaseResultDetail_WalletCurrencyMismatch'', 31),
    (''EPurchaseResultDetail_EmailNotValidated'', 32),
    (''EPurchaseResultDetail_ExpiredCard'', 33),
    (''EPurchaseResultDetail_TransactionExpired'', 34),
    (''EPurchaseResultDetail_WouldExceedMaxWallet'', 35),
    (''EPurchaseResultDetail_MustLoginPS3AppForPurchase'', 36),
    (''EPurchaseResultDetail_CannotShipToPOBox'', 37),
    (''EPurchaseResultDetail_InsufficientInventory'', 38),
    (''EPurchaseResultDetail_CannotGiftShippedGoods'', 39),
    (''EPurchaseResultDetail_CannotShipInternationally'', 40),
    (''EPurchaseResultDetail_BillingAgreementCancelled'', 41),
    (''EPurchaseResultDetail_InvalidCoupon'', 42),
    (''EPurchaseResultDetail_ExpiredCoupon'', 43),
    (''EPurchaseResultDetail_AccountLocked'', 44),
    (''EPurchaseResultDetail_OtherAbortableInProgress'', 45),
    (''EPurchaseResultDetail_ExceededSteamLimit'', 46),
    (''EPurchaseResultDetail_OverlappingPackagesInCart'', 47),
    (''EPurchaseResultDetail_NoWallet'', 48),
    (''EPurchaseResultDetail_NoCachedPaymentMethod'', 49),
    (''EPurchaseResultDetail_CannotRedeemCodeFromClient'', 50),
    (''EPurchaseResultDetail_PurchaseAmountNoSupportedByProvider'', 51),
    (''EPurchaseResultDetail_OverlappingPackagesInPendingTransaction'', 52),
    (''EPurchaseResultDetail_RateLimited'', 53),
    (''EPurchaseResultDetail_OwnsExcludedApp'', 54),
    (''EPurchaseResultDetail_CreditCardBinMismatchesType'', 55),
    (''EPurchaseResultDetail_CartValueTooHigh'', 56),
    (''EPurchaseResultDetail_BillingAgreementAlreadyExists'', 57),
    (''EPurchaseResultDetail_POSACodeNotActivated'', 58),
    (''EPurchaseResultDetail_CannotShipToCountry'', 59),
    (''EPurchaseResultDetail_HungTransactionCancelled'', 60),
    (''EPurchaseResultDetail_PaypalInternalError'', 61),
    (''EPurchaseResultDetail_UnknownGlobalCollectError'', 62),
    (''EPurchaseResultDetail_InvalidTaxAddress'', 63),
    (''EPurchaseResultDetail_PhysicalProductLimitExceeded'', 64),
    (''EPurchaseResultDetail_PurchaseCannotBeReplayed'', 65),
    (''EPurchaseResultDetail_DelayedCompletion'', 66),
    (''EPurchaseResultDetail_BundleTypeCannotBeGifted'', 67),
    (''EPurchaseResultDetail_BlockedByUSGov'', 68),
    (''EPurchaseResultDetail_ItemsReservedForCommercialUse'', 69),
    (''EPurchaseResultDetail_GiftAlreadyOwned'', 70),
    (''EPurchaseResultDetail_GiftInvalidForRecipientRegion'', 71),
    (''EPurchaseResultDetail_GiftPricingImbalance'', 72),
    (''EPurchaseResultDetail_GiftRecipientNotSpecified'', 73),
    (''EPurchaseResultDetail_ItemsNotAllowedForCommercialUse'', 74),
    (''EPurchaseResultDetail_BusinessStoreCountryCodeMismatch'', 75),
    (''EPurchaseResultDetail_UserAssociatedWithManyCafes'', 76),
    (''EPurchaseResultDetail_UserNotAssociatedWithCafe'', 77),
    (''EPurchaseResultDetail_AddressInvalid'', 78),
    (''EPurchaseResultDetail_CreditCardNumberInvalid'', 79),
    (''EPurchaseResultDetail_CannotShipToMilitaryPostOffice'', 80),
    (''EPurchaseResultDetail_BillingNameInvalidResemblesCreditCard'', 81),
    (''EPurchaseResultDetail_PaymentMethodTemporarilyUnavailable'', 82),
    (''EPurchaseResultDetail_PaymentMethodNotSupportedForProduct'', 83)]"

subsection \<open>\<open>EIntroducerRouting\<close>\<close>

definition EIntroducerRouting_constants :: "i32 constants" where
  "EIntroducerRouting_constants = [
    (''EIntroducerRouting_P2PVoiceChat'', 1),
    (''EIntroducerRouting_P2PNetworking'', 2)]"

subsection \<open>\<open>EServerFlags\<close>\<close>

definition EServerFlags_constants :: "i32 constants" where
  "EServerFlags_constants = [
    (''EServerFlags_None'', 0),
    (''EServerFlags_Active'', 1),
    (''EServerFlags_Secure'', 2),
    (''EServerFlags_Dedicated'', 4),
    (''EServerFlags_Linux'', 8),
    (''EServerFlags_Passworded'', 16),
    (''EServerFlags_Private'', 32)]"

subsection \<open>\<open>EDenyReason\<close>\<close>

definition EDenyReason_constants :: "i32 constants" where
  "EDenyReason_constants = [
    (''EDenyReason_InvalidVersion'', 1),
    (''EDenyReason_Generic'', 2),
    (''EDenyReason_NotLoggedOn'', 3),
    (''EDenyReason_NoLicense'', 4),
    (''EDenyReason_Cheater'', 5),
    (''EDenyReason_LoggedInElseWhere'', 6),
    (''EDenyReason_UnknownText'', 7),
    (''EDenyReason_IncompatibleAnticheat'', 8),
    (''EDenyReason_MemoryCorruption'', 9),
    (''EDenyReason_IncompatibleSoftware'', 10),
    (''EDenyReason_SteamConnectionLost'', 11),
    (''EDenyReason_SteamConnectionError'', 12),
    (''EDenyReason_SteamResponseTimedOut'', 13),
    (''EDenyReason_SteamValidationStalled'', 14),
    (''EDenyReason_SteamOwnerLeftGuestUser'', 15)]"

subsection \<open>\<open>EClanRank\<close>\<close>

definition EClanRank_constants :: "i32 constants" where
  "EClanRank_constants = [
    (''EClanRank_None'', 0),
    (''EClanRank_Owner'', 1),
    (''EClanRank_Officer'', 2),
    (''EClanRank_Member'', 3),
    (''EClanRank_Moderator'', 4)]"

subsection \<open>\<open>EClanRelationship\<close>\<close>

definition EClanRelationship_constants :: "i32 constants" where
  "EClanRelationship_constants = [
    (''EClanRelationship_None'', 0),
    (''EClanRelationship_Blocked'', 1),
    (''EClanRelationship_Invited'', 2),
    (''EClanRelationship_Member'', 3),
    (''EClanRelationship_Kicked'', 4),
    (''EClanRelationship_KickAcknowledged'', 5),
    (''EClanRelationship_PendingApproval'', 6),
    (''EClanRelationship_RequestDenied'', 7)]"

subsection \<open>\<open>EAuthSessionResponse\<close>\<close>

definition EAuthSessionResponse_constants :: "i32 constants" where
  "EAuthSessionResponse_constants = [
    (''EAuthSessionResponse_OK'', 0),
    (''EAuthSessionResponse_UserNotConnectedToSteam'', 1),
    (''EAuthSessionResponse_NoLicenseOrExpired'', 2),
    (''EAuthSessionResponse_VACBanned'', 3),
    (''EAuthSessionResponse_LoggedInElseWhere'', 4),
    (''EAuthSessionResponse_VACCheckTimedOut'', 5),
    (''EAuthSessionResponse_AuthTicketCanceled'', 6),
    (''EAuthSessionResponse_AuthTicketInvalidAlreadyUsed'', 7),
    (''EAuthSessionResponse_AuthTicketInvalid'', 8),
    (''EAuthSessionResponse_PublisherIssuedBan'', 9)]"

subsection \<open>\<open>EChatRoomEnterResponse\<close>\<close>

definition EChatRoomEnterResponse_constants :: "i32 constants" where
  "EChatRoomEnterResponse_constants = [
    (''EChatRoomEnterResponse_Success'', 1),
    (''EChatRoomEnterResponse_DoesntExist'', 2),
    (''EChatRoomEnterResponse_NotAllowed'', 3),
    (''EChatRoomEnterResponse_Full'', 4),
    (''EChatRoomEnterResponse_Error'', 5),
    (''EChatRoomEnterResponse_Banned'', 6),
    (''EChatRoomEnterResponse_Limited'', 7),
    (''EChatRoomEnterResponse_ClanDisabled'', 8),
    (''EChatRoomEnterResponse_CommunityBan'', 9),
    (''EChatRoomEnterResponse_MemberBlockedYou'', 10),
    (''EChatRoomEnterResponse_YouBlockedMember'', 11)]"

subsection \<open>\<open>EChatRoomType\<close>\<close>

definition EChatRoomType_constants :: "i32 constants" where
  "EChatRoomType_constants = [
    (''EChatRoomType_Friend'', 1),
    (''EChatRoomType_MUC'', 2),
    (''EChatRoomType_Lobby'', 3)]"

subsection \<open>\<open>EChatInfoType\<close>\<close>

definition EChatInfoType_constants :: "i32 constants" where
  "EChatInfoType_constants = [
    (''EChatInfoType_StateChange'', 1),
    (''EChatInfoType_InfoUpdate'', 2),
    (''EChatInfoType_MemberLimitChange'', 3)]"

subsection \<open>\<open>EChatAction\<close>\<close>

definition EChatAction_constants :: "i32 constants" where
  "EChatAction_constants = [
    (''EChatAction_InviteChat'', 1),
    (''EChatAction_Kick'', 2),
    (''EChatAction_Ban'', 3),
    (''EChatAction_UnBan'', 4),
    (''EChatAction_StartVoiceSpeak'', 5),
    (''EChatAction_EndVoiceSpeak'', 6),
    (''EChatAction_LockChat'', 7),
    (''EChatAction_UnlockChat'', 8),
    (''EChatAction_CloseChat'', 9),
    (''EChatAction_SetJoinable'', 10),
    (''EChatAction_SetUnjoinable'', 11),
    (''EChatAction_SetOwner'', 12),
    (''EChatAction_SetInvisibleToFriends'', 13),
    (''EChatAction_SetVisibleToFriends'', 14),
    (''EChatAction_SetModerated'', 15),
    (''EChatAction_SetUnmoderated'', 16)]"

subsection \<open>\<open>EChatActionResult\<close>\<close>

definition EChatActionResult_constants :: "i32 constants" where
  "EChatActionResult_constants = [
    (''EChatActionResult_Success'', 1),
    (''EChatActionResult_Error'', 2),
    (''EChatActionResult_NotPermitted'', 3),
    (''EChatActionResult_NotAllowedOnClanMember'', 4),
    (''EChatActionResult_NotAllowedOnBannedUser'', 5),
    (''EChatActionResult_NotAllowedOnChatOwner'', 6),
    (''EChatActionResult_NotAllowedOnSelf'', 7),
    (''EChatActionResult_ChatDoesntExist'', 8),
    (''EChatActionResult_ChatFull'', 9),
    (''EChatActionResult_VoiceSlotsFull'', 10)]"

subsection \<open>\<open>EAppInfoSection\<close>\<close>

definition EAppInfoSection_constants :: "i32 constants" where
  "EAppInfoSection_constants = [
    (''EAppInfoSection_Unknown'', 0),
    (''EAppInfoSection_All'', 1),
    (''EAppInfoSection_First'', 2),
    (''EAppInfoSection_Common'', 2),
    (''EAppInfoSection_Extended'', 3),
    (''EAppInfoSection_Config'', 4),
    (''EAppInfoSection_Stats'', 5),
    (''EAppInfoSection_Install'', 6),
    (''EAppInfoSection_Depots'', 7),
    (''EAppInfoSection_UFS'', 10),
    (''EAppInfoSection_OGG'', 11),
    (''EAppInfoSection_Policies'', 13),
    (''EAppInfoSection_SysReqs'', 14),
    (''EAppInfoSection_Community'', 15),
    (''EAppInfoSection_Store'', 16),
    (''EAppInfoSection_Localization'', 17),
    (''EAppInfoSection_Broadcastgamedata'', 18),
    (''EAppInfoSection_Computed'', 19),
    (''EAppInfoSection_Albummetadata'', 20)]"

subsection \<open>\<open>EContentDownloadSourceType\<close>\<close>

definition EContentDownloadSourceType_constants :: "i32 constants" where
  "EContentDownloadSourceType_constants = [
    (''EContentDownloadSourceType_Invalid'', 0),
    (''EContentDownloadSourceType_CS'', 1),
    (''EContentDownloadSourceType_CDN'', 2),
    (''EContentDownloadSourceType_LCS'', 3),
    (''EContentDownloadSourceType_ProxyCache'', 4),
    (''EContentDownloadSourceType_LANPeer'', 5),
    (''EContentDownloadSourceType_SLS'', 6),
    (''EContentDownloadSourceType_SteamCache'', 7),
    (''EContentDownloadSourceType_OpenCache'', 8),
    (''EContentDownloadSourceType_LANCache'', 9)]"

subsection \<open>\<open>EPlatformType\<close>\<close>

definition EPlatformType_constants :: "i32 constants" where
  "EPlatformType_constants = [
    (''EPlatformType_Unknown'', 0),
    (''EPlatformType_Win32'', 1),
    (''EPlatformType_Win64'', 2),
    (''EPlatformType_Linux64'', 3),
    (''EPlatformType_OSX'', 4),
    (''EPlatformType_PS3'', 5),
    (''EPlatformType_Linux32'', 6)]"

subsection \<open>\<open>EOSType\<close>\<close>

definition EOSType_constants :: "i32 constants" where
  "EOSType_constants = [
    (''EOSType_Unknown'', - 1),
    (''EOSType_Web'', - 700),
    (''EOSType_IOSUnknown'', - 600),
    (''EOSType_IOS1'', - 599),
    (''EOSType_IOS2'', - 598),
    (''EOSType_IOS3'', - 597),
    (''EOSType_IOS4'', - 596),
    (''EOSType_IOS5'', - 595),
    (''EOSType_IOS6'', - 594),
    (''EOSType_IOS6_1'', - 593),
    (''EOSType_IOS7'', - 592),
    (''EOSType_IOS7_1'', - 591),
    (''EOSType_IOS8'', - 590),
    (''EOSType_IOS8_1'', - 589),
    (''EOSType_IOS8_2'', - 588),
    (''EOSType_IOS8_3'', - 587),
    (''EOSType_IOS8_4'', - 586),
    (''EOSType_IOS9'', - 585),
    (''EOSType_IOS9_1'', - 584),
    (''EOSType_IOS9_2'', - 583),
    (''EOSType_IOS9_3'', - 582),
    (''EOSType_IOS10'', - 581),
    (''EOSType_IOS10_1'', - 580),
    (''EOSType_IOS10_2'', - 579),
    (''EOSType_IOS10_3'', - 578),
    (''EOSType_IOS11'', - 577),
    (''EOSType_IOS11_1'', - 576),
    (''EOSType_IOS11_2'', - 575),
    (''EOSType_IOS11_3'', - 574),
    (''EOSType_IOS11_4'', - 573),
    (''EOSType_IOS12'', - 572),
    (''EOSType_IOS12_1'', - 571),
    (''EOSType_AndroidUnknown'', - 500),
    (''EOSType_Android6'', - 499),
    (''EOSType_Android7'', - 498),
    (''EOSType_Android8'', - 497),
    (''EOSType_Android9'', - 496),
    (''EOSType_UMQ'', - 400),
    (''EOSType_PS3'', - 300),
    (''EOSType_MacOSUnknown'', - 102),
    (''EOSType_MacOS104'', - 101),
    (''EOSType_MacOS105'', - 100),
    (''EOSType_MacOS1058'', - 99),
    (''EOSType_MacOS106'', - 95),
    (''EOSType_MacOS1063'', - 94),
    (''EOSType_MacOS1064_slgu'', - 93),
    (''EOSType_MacOS1067'', - 92),
    (''EOSType_MacOS107'', - 90),
    (''EOSType_MacOS108'', - 89),
    (''EOSType_MacOS109'', - 88),
    (''EOSType_MacOS1010'', - 87),
    (''EOSType_MacOS1011'', - 86),
    (''EOSType_MacOS1012'', - 85),
    (''EOSType_Macos1013'', - 84),
    (''EOSType_Macos1014'', - 83),
    (''EOSType_Macos1015'', - 82),
    (''EOSType_MacOSMax'', - 1),
    (''EOSType_LinuxUnknown'', - 203),
    (''EOSType_Linux22'', - 202),
    (''EOSType_Linux24'', - 201),
    (''EOSType_Linux26'', - 200),
    (''EOSType_Linux32'', - 199),
    (''EOSType_Linux35'', - 198),
    (''EOSType_Linux36'', - 197),
    (''EOSType_Linux310'', - 196),
    (''EOSType_Linux316'', - 195),
    (''EOSType_Linux318'', - 194),
    (''EOSType_Linux3x'', - 193),
    (''EOSType_Linux4x'', - 192),
    (''EOSType_Linux41'', - 191),
    (''EOSType_Linux44'', - 190),
    (''EOSType_Linux49'', - 189),
    (''EOSType_Linux414'', - 188),
    (''EOSType_Linux419'', - 187),
    (''EOSType_Linux5x'', - 186),
    (''EOSType_LinuxMax'', - 101),
    (''EOSType_WinUnknown'', 0),
    (''EOSType_Win311'', 1),
    (''EOSType_Win95'', 2),
    (''EOSType_Win98'', 3),
    (''EOSType_WinME'', 4),
    (''EOSType_WinNT'', 5),
    (''EOSType_Win2000'', 6),
    (''EOSType_WinXP'', 7),
    (''EOSType_Win2003'', 8),
    (''EOSType_WinVista'', 9),
    (''EOSType_Windows7'', 10),
    (''EOSType_Win2008'', 11),
    (''EOSType_Win2012'', 12),
    (''EOSType_Windows8'', 13),
    (''EOSType_Windows81'', 14),
    (''EOSType_Win2012R2'', 15),
    (''EOSType_Windows10'', 16),
    (''EOSType_Win2016'', 17),
    (''EOSType_WinMAX'', 18)]"

subsection \<open>\<open>EServerType\<close>\<close>

definition EServerType_constants :: "i32 constants" where
  "EServerType_constants = [
    (''EServerType_Util'', - 2),
    (''EServerType_Client'', - 3),
    (''EServerType_CServer'', - 4),
    (''EServerType_CEconBase'', - 5),
    (''EServerType_Invalid'', - 1),
    (''EServerType_First'', 0),
    (''EServerType_Shell'', 0),
    (''EServerType_GM'', 1),
    (''EServerType_AM'', 3),
    (''EServerType_BS'', 4),
    (''EServerType_VS'', 5),
    (''EServerType_ATS'', 6),
    (''EServerType_CM'', 7),
    (''EServerType_FBS'', 8),
    (''EServerType_BoxMonitor'', 9),
    (''EServerType_SS'', 10),
    (''EServerType_DRMS'', 11),
    (''EServerType_Console'', 13),
    (''EServerType_PICS'', 14),
    (''EServerType_ContentStats'', 16),
    (''EServerType_DP'', 17),
    (''EServerType_WG'', 18),
    (''EServerType_SM'', 19),
    (''EServerType_SLC'', 20),
    (''EServerType_UFS'', 21),
    (''EServerType_Community'', 24),
    (''EServerType_AppInformation'', 26),
    (''EServerType_Spare'', 27),
    (''EServerType_FTS'', 28),
    (''EServerType_SiteLicense'', 29),
    (''EServerType_PS'', 30),
    (''EServerType_IS'', 31),
    (''EServerType_CCS'', 32),
    (''EServerType_DFS'', 33),
    (''EServerType_LBS'', 34),
    (''EServerType_MDS'', 35),
    (''EServerType_CS'', 36),
    (''EServerType_GC'', 37),
    (''EServerType_NS'', 38),
    (''EServerType_OGS'', 39),
    (''EServerType_WebAPI'', 40),
    (''EServerType_UDS'', 41),
    (''EServerType_MMS'', 42),
    (''EServerType_GMS'', 43),
    (''EServerType_KGS'', 44),
    (''EServerType_UCM'', 45),
    (''EServerType_RM'', 46),
    (''EServerType_FS'', 47),
    (''EServerType_Econ'', 48),
    (''EServerType_Backpack'', 49),
    (''EServerType_UGS'', 50),
    (''EServerType_StoreFeature'', 51),
    (''EServerType_MoneyStats'', 52),
    (''EServerType_CRE'', 53),
    (''EServerType_UMQ'', 54),
    (''EServerType_Workshop'', 55),
    (''EServerType_BRP'', 56),
    (''EServerType_GCH'', 57),
    (''EServerType_MPAS'', 58),
    (''EServerType_Trade'', 59),
    (''EServerType_Secrets'', 60),
    (''EServerType_Logsink'', 61),
    (''EServerType_Market'', 62),
    (''EServerType_Quest'', 63),
    (''EServerType_WDS'', 64),
    (''EServerType_ACS'', 65),
    (''EServerType_PNP'', 66),
    (''EServerType_TaxForm'', 67),
    (''EServerType_ExternalMonitor'', 68),
    (''EServerType_Parental'', 69),
    (''EServerType_PartnerUpload'', 70),
    (''EServerType_Partner'', 71),
    (''EServerType_ES'', 72),
    (''EServerType_DepotWebContent'', 73),
    (''EServerType_ExternalConfig'', 74),
    (''EServerType_GameNotifications'', 75),
    (''EServerType_MarketRepl'', 76),
    (''EServerType_MarketSearch'', 77),
    (''EServerType_Localization'', 78),
    (''EServerType_Steam2Emulator'', 79),
    (''EServerType_PublicTest'', 80),
    (''EServerType_SolrMgr'', 81),
    (''EServerType_BroadcastRelay'', 82),
    (''EServerType_BroadcastDirectory'', 83),
    (''EServerType_VideoManager'', 84),
    (''EServerType_TradeOffer'', 85),
    (''EServerType_BroadcastChat'', 86),
    (''EServerType_Phone'', 87),
    (''EServerType_AccountScore'', 88),
    (''EServerType_Support'', 89),
    (''EServerType_LogRequest'', 90),
    (''EServerType_LogWorker'', 91),
    (''EServerType_EmailDelivery'', 92),
    (''EServerType_InventoryManagement'', 93),
    (''EServerType_Auth'', 94),
    (''EServerType_StoreCatalog'', 95),
    (''EServerType_HLTVRelay'', 96),
    (''EServerType_IDLS'', 97),
    (''EServerType_Perf'', 98),
    (''EServerType_ItemInventory'', 99),
    (''EServerType_Watchdog'', 100),
    (''EServerType_AccountHistory'', 101),
    (''EServerType_Chat'', 102),
    (''EServerType_Shader'', 103),
    (''EServerType_AccountHardware'', 104),
    (''EServerType_WebRTC'', 105),
    (''EServerType_Giveaway'', 106),
    (''EServerType_ChatRoom'', 107),
    (''EServerType_VoiceChat'', 108),
    (''EServerType_QMS'', 109),
    (''EServerType_Trust'', 110),
    (''EServerType_TimeMachine'', 111),
    (''EServerType_VACDBMaster'', 112),
    (''EServerType_ContentServerConfig'', 113),
    (''EServerType_Minigame'', 114),
    (''EServerType_MLTrain'', 115),
    (''EServerType_VACTest'', 116),
    (''EServerType_TaxService'', 117),
    (''EServerType_MLInference'', 118),
    (''EServerType_UGSAggregate'', 119),
    (''EServerType_TURN'', 120),
    (''EServerType_RemoteClient'', 121),
    (''EServerType_BroadcastOrigin'', 122),
    (''EServerType_BroadcastChannel'', 123),
    (''EServerType_SteamAR'', 124),
    (''EServerType_China'', 125),
    (''EServerType_CrashDump'', 126)]"

subsection \<open>\<open>EBillingType\<close>\<close>

definition EBillingType_constants :: "i32 constants" where
  "EBillingType_constants = [
    (''EBillingType_NoCost'', 0),
    (''EBillingType_BillOnceOnly'', 1),
    (''EBillingType_BillMonthly'', 2),
    (''EBillingType_ProofOfPrepurchaseOnly'', 3),
    (''EBillingType_GuestPass'', 4),
    (''EBillingType_HardwarePromo'', 5),
    (''EBillingType_Gift'', 6),
    (''EBillingType_AutoGrant'', 7),
    (''EBillingType_OEMTicket'', 8),
    (''EBillingType_RecurringOption'', 9),
    (''EBillingType_BillOnceOrCDKey'', 10),
    (''EBillingType_Repurchaseable'', 11),
    (''EBillingType_FreeOnDemand'', 12),
    (''EBillingType_Rental'', 13),
    (''EBillingType_CommercialLicense'', 14),
    (''EBillingType_FreeCommercialLicense'', 15),
    (''EBillingType_NumBillingTypes'', 16)]"

subsection \<open>\<open>EActivationCodeClass\<close>\<close>

definition EActivationCodeClass_constants :: "u32 constants" where
  "EActivationCodeClass_constants = [
    (''EActivationCodeClass_WonCDKey'', 0),
    (''EActivationCodeClass_ValveCDKey'', 1),
    (''EActivationCodeClass_Doom3CDKey'', 2),
    (''EActivationCodeClass_DBLookup'', 3),
    (''EActivationCodeClass_Steam2010Key'', 4),
    (''EActivationCodeClass_Max'', 5),
    (''EActivationCodeClass_Test'', 2147483647),
    (''EActivationCodeClass_Invalid'', 4294967295)]"

subsection \<open>\<open>EChatMemberStateChange\<close>\<close>

definition EChatMemberStateChange_constants :: "i32 constants" where
  "EChatMemberStateChange_constants = [
    (''EChatMemberStateChange_Entered'', 1),
    (''EChatMemberStateChange_Left'', 2),
    (''EChatMemberStateChange_Disconnected'', 4),
    (''EChatMemberStateChange_Kicked'', 8),
    (''EChatMemberStateChange_Banned'', 16),
    (''EChatMemberStateChange_VoiceSpeaking'', 4096),
    (''EChatMemberStateChange_VoiceDoneSpeaking'', 8192)]"

subsection \<open>\<open>ERegionCode\<close>\<close>

definition ERegionCode_constants :: "u8 constants" where
  "ERegionCode_constants = [
    (''ERegionCode_USEast'', 0),
    (''ERegionCode_USWest'', 1),
    (''ERegionCode_SouthAmerica'', 2),
    (''ERegionCode_Europe'', 3),
    (''ERegionCode_Asia'', 4),
    (''ERegionCode_Australia'', 5),
    (''ERegionCode_MiddleEast'', 6),
    (''ERegionCode_Africa'', 7),
    (''ERegionCode_World'', 255)]"

subsection \<open>\<open>ECurrencyCode\<close>\<close>

definition ECurrencyCode_constants :: "i32 constants" where
  "ECurrencyCode_constants = [
    (''ECurrencyCode_Invalid'', 0),
    (''ECurrencyCode_USD'', 1),
    (''ECurrencyCode_GBP'', 2),
    (''ECurrencyCode_EUR'', 3),
    (''ECurrencyCode_CHF'', 4),
    (''ECurrencyCode_RUB'', 5),
    (''ECurrencyCode_PLN'', 6),
    (''ECurrencyCode_BRL'', 7),
    (''ECurrencyCode_JPY'', 8),
    (''ECurrencyCode_NOK'', 9),
    (''ECurrencyCode_IDR'', 10),
    (''ECurrencyCode_MYR'', 11),
    (''ECurrencyCode_PHP'', 12),
    (''ECurrencyCode_SGD'', 13),
    (''ECurrencyCode_THB'', 14),
    (''ECurrencyCode_VND'', 15),
    (''ECurrencyCode_KRW'', 16),
    (''ECurrencyCode_TRY'', 17),
    (''ECurrencyCode_UAH'', 18),
    (''ECurrencyCode_MXN'', 19),
    (''ECurrencyCode_CAD'', 20),
    (''ECurrencyCode_AUD'', 21),
    (''ECurrencyCode_NZD'', 22),
    (''ECurrencyCode_CNY'', 23),
    (''ECurrencyCode_INR'', 24),
    (''ECurrencyCode_CLP'', 25),
    (''ECurrencyCode_PEN'', 26),
    (''ECurrencyCode_COP'', 27),
    (''ECurrencyCode_ZAR'', 28),
    (''ECurrencyCode_HKD'', 29),
    (''ECurrencyCode_TWD'', 30),
    (''ECurrencyCode_SAR'', 31),
    (''ECurrencyCode_AED'', 32),
    (''ECurrencyCode_ARS'', 34),
    (''ECurrencyCode_ILS'', 35),
    (''ECurrencyCode_BYN'', 36),
    (''ECurrencyCode_KZT'', 37),
    (''ECurrencyCode_KWD'', 38),
    (''ECurrencyCode_QAR'', 39),
    (''ECurrencyCode_CRC'', 40),
    (''ECurrencyCode_UYU'', 41)]"

subsection \<open>\<open>EDepotFileFlag\<close>\<close>

definition EDepotFileFlag_constants :: "i32 constants" where
  "EDepotFileFlag_constants = [
    (''EDepotFileFlag_UserConfig'', 1),
    (''EDepotFileFlag_VersionedUserConfig'', 2),
    (''EDepotFileFlag_Encrypted'', 4),
    (''EDepotFileFlag_ReadOnly'', 8),
    (''EDepotFileFlag_Hidden'', 16),
    (''EDepotFileFlag_Executable'', 32),
    (''EDepotFileFlag_Directory'', 64),
    (''EDepotFileFlag_CustomExecutable'', 128),
    (''EDepotFileFlag_InstallScript'', 256),
    (''EDepotFileFlag_Symlink'', 512)]"

subsection \<open>\<open>EWorkshopEnumerationType\<close>\<close>

definition EWorkshopEnumerationType_constants :: "i32 constants" where
  "EWorkshopEnumerationType_constants = [
    (''EWorkshopEnumerationType_RankedByVote'', 0),
    (''EWorkshopEnumerationType_Recent'', 1),
    (''EWorkshopEnumerationType_Trending'', 2),
    (''EWorkshopEnumerationType_FavoriteOfFriends'', 3),
    (''EWorkshopEnumerationType_VotedByFriends'', 4),
    (''EWorkshopEnumerationType_ContentByFriends'', 5),
    (''EWorkshopEnumerationType_RecentFromFollowedUsers'', 6)]"

subsection \<open>\<open>EPublishedFileVisibility\<close>\<close>

definition EPublishedFileVisibility_constants :: "i32 constants" where
  "EPublishedFileVisibility_constants = [
    (''EPublishedFileVisibility_Public'', 0),
    (''EPublishedFileVisibility_FriendsOnly'', 1),
    (''EPublishedFileVisibility_Private'', 2)]"

subsection \<open>\<open>EWorkshopFileType\<close>\<close>

definition EWorkshopFileType_constants :: "i32 constants" where
  "EWorkshopFileType_constants = [
    (''EWorkshopFileType_First'', 0),
    (''EWorkshopFileType_Community'', 0),
    (''EWorkshopFileType_Microtransaction'', 1),
    (''EWorkshopFileType_Collection'', 2),
    (''EWorkshopFileType_Art'', 3),
    (''EWorkshopFileType_Video'', 4),
    (''EWorkshopFileType_Screenshot'', 5),
    (''EWorkshopFileType_Game'', 6),
    (''EWorkshopFileType_Software'', 7),
    (''EWorkshopFileType_Concept'', 8),
    (''EWorkshopFileType_WebGuide'', 9),
    (''EWorkshopFileType_IntegratedGuide'', 10),
    (''EWorkshopFileType_Merch'', 11),
    (''EWorkshopFileType_ControllerBinding'', 12),
    (''EWorkshopFileType_SteamworksAccessInvite'', 13),
    (''EWorkshopFileType_SteamVideo'', 14),
    (''EWorkshopFileType_GameManagedItem'', 15)]"

subsection \<open>\<open>EWorkshopFileAction\<close>\<close>

definition EWorkshopFileAction_constants :: "i32 constants" where
  "EWorkshopFileAction_constants = [
    (''EWorkshopFileAction_Played'', 0),
    (''EWorkshopFileAction_Completed'', 1)]"

subsection \<open>\<open>EEconTradeResponse\<close>\<close>

definition EEconTradeResponse_constants :: "i32 constants" where
  "EEconTradeResponse_constants = [
    (''EEconTradeResponse_Accepted'', 0),
    (''EEconTradeResponse_Declined'', 1),
    (''EEconTradeResponse_TradeBannedInitiator'', 2),
    (''EEconTradeResponse_TradeBannedTarget'', 3),
    (''EEconTradeResponse_TargetAlreadyTrading'', 4),
    (''EEconTradeResponse_Disabled'', 5),
    (''EEconTradeResponse_NotLoggedIn'', 6),
    (''EEconTradeResponse_Cancel'', 7),
    (''EEconTradeResponse_TooSoon'', 8),
    (''EEconTradeResponse_TooSoonPenalty'', 9),
    (''EEconTradeResponse_ConnectionFailed'', 10),
    (''EEconTradeResponse_AlreadyTrading'', 11),
    (''EEconTradeResponse_AlreadyHasTradeRequest'', 12),
    (''EEconTradeResponse_NoResponse'', 13),
    (''EEconTradeResponse_CyberCafeInitiator'', 14),
    (''EEconTradeResponse_CyberCafeTarget'', 15),
    (''EEconTradeResponse_SchoolLabInitiator'', 16),
    (''EEconTradeResponse_SchoolLabTarget'', 16),
    (''EEconTradeResponse_InitiatorBlockedTarget'', 18),
    (''EEconTradeResponse_InitiatorNeedsVerifiedEmail'', 20),
    (''EEconTradeResponse_InitiatorNeedsSteamGuard'', 21),
    (''EEconTradeResponse_TargetAccountCannotTrade'', 22),
    (''EEconTradeResponse_InitiatorSteamGuardDuration'', 23),
    (''EEconTradeResponse_InitiatorPasswordResetProbation'', 24),
    (''EEconTradeResponse_InitiatorNewDeviceCooldown'', 25),
    (''EEconTradeResponse_InitiatorSentInvalidCookie'', 26),
    (''EEconTradeResponse_NeedsEmailConfirmation'', 27),
    (''EEconTradeResponse_InitiatorRecentEmailChange'', 28),
    (''EEconTradeResponse_NeedsMobileConfirmation'', 29),
    (''EEconTradeResponse_TradingHoldForClearedTradeOffersInitiator'', 30),
    (''EEconTradeResponse_WouldExceedMaxAssetCount'', 31),
    (''EEconTradeResponse_DisabledInRegion'', 32),
    (''EEconTradeResponse_DisabledInPartnerRegion'', 33),
    (''EEconTradeResponse_OKToDeliver'', 50)]"

subsection \<open>\<open>EMarketingMessageFlags\<close>\<close>

definition EMarketingMessageFlags_constants :: "i32 constants" where
  "EMarketingMessageFlags_constants = [
    (''EMarketingMessageFlags_None'', 0),
    (''EMarketingMessageFlags_HighPriority'', 1),
    (''EMarketingMessageFlags_PlatformWindows'', 2),
    (''EMarketingMessageFlags_PlatformMac'', 4),
    (''EMarketingMessageFlags_PlatformLinux'', 8),
    (''EMarketingMessageFlags_PlatformRestrictions'', 2 OR 4 OR 8)]"

subsection \<open>\<open>ENewsUpdateType\<close>\<close>

definition ENewsUpdateType_constants :: "i32 constants" where
  "ENewsUpdateType_constants = [
    (''ENewsUpdateType_AppNews'', 0),
    (''ENewsUpdateType_SteamAds'', 1),
    (''ENewsUpdateType_SteamNews'', 2),
    (''ENewsUpdateType_CDDBUpdate'', 3),
    (''ENewsUpdateType_ClientUpdate'', 4)]"

subsection \<open>\<open>ESystemIMType\<close>\<close>

definition ESystemIMType_constants :: "i32 constants" where
  "ESystemIMType_constants = [
    (''ESystemIMType_RawText'', 0),
    (''ESystemIMType_InvalidCard'', 1),
    (''ESystemIMType_RecurringPurchaseFailed'', 2),
    (''ESystemIMType_CardWillExpire'', 3),
    (''ESystemIMType_SubscriptionExpired'', 4),
    (''ESystemIMType_GuestPassReceived'', 5),
    (''ESystemIMType_GuestPassGranted'', 6),
    (''ESystemIMType_GiftRevoked'', 7),
    (''ESystemIMType_SupportMessage'', 8),
    (''ESystemIMType_SupportMessageClearAlert'', 9)]"

subsection \<open>\<open>EChatFlags\<close>\<close>

definition EChatFlags_constants :: "i32 constants" where
  "EChatFlags_constants = [
    (''EChatFlags_Locked'', 1),
    (''EChatFlags_InvisibleToFriends'', 2),
    (''EChatFlags_Moderated'', 4),
    (''EChatFlags_Unjoinable'', 8)]"

subsection \<open>\<open>ERemoteStoragePlatform\<close>\<close>

definition ERemoteStoragePlatform_constants :: "i32 constants" where
  "ERemoteStoragePlatform_constants = [
    (''ERemoteStoragePlatform_None'', 0),
    (''ERemoteStoragePlatform_Windows'', 1),
    (''ERemoteStoragePlatform_OSX'', 2),
    (''ERemoteStoragePlatform_PS3'', 4),
    (''ERemoteStoragePlatform_Linux'', 8),
    (''ERemoteStoragePlatform_Switch'', 16),
    (''ERemoteStoragePlatform_Android'', 32),
    (''ERemoteStoragePlatform_IPhoneOS'', 64),
    (''ERemoteStoragePlatform_All'', - 1)]"

subsection \<open>\<open>EDRMBlobDownloadType\<close>\<close>

definition EDRMBlobDownloadType_constants :: "i32 constants" where
  "EDRMBlobDownloadType_constants = [
    (''EDRMBlobDownloadType_Error'', 0),
    (''EDRMBlobDownloadType_File'', 1),
    (''EDRMBlobDownloadType_Parts'', 2),
    (''EDRMBlobDownloadType_Compressed'', 4),
    (''EDRMBlobDownloadType_AllMask'', 7),
    (''EDRMBlobDownloadType_IsJob'', 8),
    (''EDRMBlobDownloadType_HighPriority'', 16),
    (''EDRMBlobDownloadType_AddTimestamp'', 32),
    (''EDRMBlobDownloadType_LowPriority'', 64)]"

subsection \<open>\<open>EDRMBlobDownloadErrorDetail\<close>\<close>

definition EDRMBlobDownloadErrorDetail_constants :: "i32 constants" where
  "EDRMBlobDownloadErrorDetail_constants = [
    (''EDRMBlobDownloadErrorDetail_None'', 0),
    (''EDRMBlobDownloadErrorDetail_DownloadFailed'', 1),
    (''EDRMBlobDownloadErrorDetail_TargetLocked'', 2),
    (''EDRMBlobDownloadErrorDetail_OpenZip'', 3),
    (''EDRMBlobDownloadErrorDetail_ReadZipDirectory'', 4),
    (''EDRMBlobDownloadErrorDetail_UnexpectedZipEntry'', 5),
    (''EDRMBlobDownloadErrorDetail_UnzipFullFile'', 6),
    (''EDRMBlobDownloadErrorDetail_UnknownBlobType'', 7),
    (''EDRMBlobDownloadErrorDetail_UnzipStrips'', 8),
    (''EDRMBlobDownloadErrorDetail_UnzipMergeGuid'', 9),
    (''EDRMBlobDownloadErrorDetail_UnzipSignature'', 10),
    (''EDRMBlobDownloadErrorDetail_ApplyStrips'', 11),
    (''EDRMBlobDownloadErrorDetail_ApplyMergeGuid'', 12),
    (''EDRMBlobDownloadErrorDetail_ApplySignature'', 13),
    (''EDRMBlobDownloadErrorDetail_AppIdMismatch'', 14),
    (''EDRMBlobDownloadErrorDetail_AppIdUnexpected'', 15),
    (''EDRMBlobDownloadErrorDetail_AppliedSignatureCorrupt'', 16),
    (''EDRMBlobDownloadErrorDetail_ApplyValveSignatureHeader'', 17),
    (''EDRMBlobDownloadErrorDetail_UnzipValveSignatureHeader'', 18),
    (''EDRMBlobDownloadErrorDetail_PathManipulationError'', 19),
    (''EDRMBlobDownloadErrorDetail_TargetLocked_Base'', 65536),
    (''EDRMBlobDownloadErrorDetail_TargetLocked_Max'', 131071),
    (''EDRMBlobDownloadErrorDetail_NextBase'', 131072)]"

subsection \<open>\<open>EClientStat\<close>\<close>

definition EClientStat_constants :: "i32 constants" where
  "EClientStat_constants = [
    (''EClientStat_P2PConnectionsUDP'', 0),
    (''EClientStat_P2PConnectionsRelay'', 1),
    (''EClientStat_P2PGameConnections'', 2),
    (''EClientStat_P2PVoiceConnections'', 3),
    (''EClientStat_BytesDownloaded'', 4)]"

subsection \<open>\<open>EClientStatAggregateMethod\<close>\<close>

definition EClientStatAggregateMethod_constants :: "i32 constants" where
  "EClientStatAggregateMethod_constants = [
    (''EClientStatAggregateMethod_LatestOnly'', 0),
    (''EClientStatAggregateMethod_Sum'', 1),
    (''EClientStatAggregateMethod_Event'', 2),
    (''EClientStatAggregateMethod_Scalar'', 3)]"

subsection \<open>\<open>ELeaderboardDataRequest\<close>\<close>

definition ELeaderboardDataRequest_constants :: "i32 constants" where
  "ELeaderboardDataRequest_constants = [
    (''ELeaderboardDataRequest_Global'', 0),
    (''ELeaderboardDataRequest_GlobalAroundUser'', 1),
    (''ELeaderboardDataRequest_Friends'', 2),
    (''ELeaderboardDataRequest_Users'', 3)]"

subsection \<open>\<open>ELeaderboardSortMethod\<close>\<close>

definition ELeaderboardSortMethod_constants :: "i32 constants" where
  "ELeaderboardSortMethod_constants = [
    (''ELeaderboardSortMethod_None'', 0),
    (''ELeaderboardSortMethod_Ascending'', 1),
    (''ELeaderboardSortMethod_Descending'', 2)]"

subsection \<open>\<open>ELeaderboardDisplayType\<close>\<close>

definition ELeaderboardDisplayType_constants :: "i32 constants" where
  "ELeaderboardDisplayType_constants = [
    (''ELeaderboardDisplayType_None'', 0),
    (''ELeaderboardDisplayType_Numeric'', 1),
    (''ELeaderboardDisplayType_TimeSeconds'', 2),
    (''ELeaderboardDisplayType_TimeMilliSeconds'', 3)]"

subsection \<open>\<open>ELeaderboardUploadScoreMethod\<close>\<close>

definition ELeaderboardUploadScoreMethod_constants :: "i32 constants" where
  "ELeaderboardUploadScoreMethod_constants = [
    (''ELeaderboardUploadScoreMethod_None'', 0),
    (''ELeaderboardUploadScoreMethod_KeepBest'', 1),
    (''ELeaderboardUploadScoreMethod_ForceUpdate'', 2)]"

subsection \<open>\<open>EUCMFilePrivacyState\<close>\<close>

definition EUCMFilePrivacyState_constants :: "i32 constants" where
  "EUCMFilePrivacyState_constants = [
    (''EUCMFilePrivacyState_Invalid'', - 1),
    (''EUCMFilePrivacyState_Private'', 2),
    (''EUCMFilePrivacyState_FriendsOnly'', 4),
    (''EUCMFilePrivacyState_Public'', 8),
    (''EUCMFilePrivacyState_All'', 8 OR 4 OR 2)]"

subsection \<open>\<open>EPublishedFileQueryType\<close>\<close>

definition EPublishedFileQueryType_constants :: "i32 constants" where
  "EPublishedFileQueryType_constants = [
    (''EPublishedFileQueryType_RankedByVote'', 0),
    (''EPublishedFileQueryType_RankedByPublicationDate'', 1),
    (''EPublishedFileQueryType_AcceptedForGameRankedByAcceptanceDate'', 2),
    (''EPublishedFileQueryType_RankedByTrend'', 3),
    (''EPublishedFileQueryType_FavoritedByFriendsRankedByPublicationDate'', 4),
    (''EPublishedFileQueryType_CreatedByFriendsRankedByPublicationDate'', 5),
    (''EPublishedFileQueryType_RankedByNumTimesReported'', 6),
    (''EPublishedFileQueryType_CreatedByFollowedUsersRankedByPublicationDate'', 7),
    (''EPublishedFileQueryType_NotYetRated'', 8),
    (''EPublishedFileQueryType_RankedByTotalUniqueSubscriptions'', 9),
    (''EPublishedFileQueryType_RankedByTotalVotesAsc'', 10),
    (''EPublishedFileQueryType_RankedByVotesUp'', 11),
    (''EPublishedFileQueryType_RankedByTextSearch'', 12),
    (''EPublishedFileQueryType_RankedByPlaytimeTrend'', 13),
    (''EPublishedFileQueryType_RankedByTotalPlaytime'', 14),
    (''EPublishedFileQueryType_RankedByAveragePlaytimeTrend'', 15),
    (''EPublishedFileQueryType_RankedByLifetimeAveragePlaytime'', 16),
    (''EPublishedFileQueryType_RankedByPlaytimeSessionsTrend'', 17),
    (''EPublishedFileQueryType_RankedByLifetimePlaytimeSessions'', 18),
    (''EPublishedFileQueryType_RankedByInappropriateContentRating'', 19)]"

subsection \<open>\<open>EPublishedFileInappropriateProvider\<close>\<close>

definition EPublishedFileInappropriateProvider_constants :: "i32 constants" where
  "EPublishedFileInappropriateProvider_constants = [
    (''EPublishedFileInappropriateProvider_Invalid'', 0),
    (''EPublishedFileInappropriateProvider_Google'', 1),
    (''EPublishedFileInappropriateProvider_Amazon'', 2)]"

subsection \<open>\<open>EPublishedFileInappropriateResult\<close>\<close>

definition EPublishedFileInappropriateResult_constants :: "i32 constants" where
  "EPublishedFileInappropriateResult_constants = [
    (''EPublishedFileInappropriateResult_NotScanned'', 0),
    (''EPublishedFileInappropriateResult_VeryUnlikely'', 1),
    (''EPublishedFileInappropriateResult_Unlikely'', 30),
    (''EPublishedFileInappropriateResult_Possible'', 50),
    (''EPublishedFileInappropriateResult_Likely'', 75),
    (''EPublishedFileInappropriateResult_VeryLikely'', 100)]"

subsection \<open>\<open>EDisplayStatus\<close>\<close>

definition EDisplayStatus_constants :: "i32 constants" where
  "EDisplayStatus_constants = [
    (''EDisplayStatus_Invalid'', 0),
    (''EDisplayStatus_Launching'', 1),
    (''EDisplayStatus_Uninstalling'', 2),
    (''EDisplayStatus_Installing'', 3),
    (''EDisplayStatus_Running'', 4),
    (''EDisplayStatus_Validating'', 5),
    (''EDisplayStatus_Updating'', 6),
    (''EDisplayStatus_Downloading'', 7),
    (''EDisplayStatus_Synchronizing'', 8),
    (''EDisplayStatus_ReadyToInstall'', 9),
    (''EDisplayStatus_ReadyToPreload'', 10),
    (''EDisplayStatus_ReadyToLaunch'', 11),
    (''EDisplayStatus_RegionRestricted'', 12),
    (''EDisplayStatus_PresaleOnly'', 13),
    (''EDisplayStatus_InvalidPlatform'', 14),
    (''EDisplayStatus_ParentalBlocked'', 15),
    (''EDisplayStatus_PreloadOnly'', 16),
    (''EDisplayStatus_BorrowerLocked'', 17),
    (''EDisplayStatus_UpdatePaused'', 18),
    (''EDisplayStatus_UpdateQueued'', 19),
    (''EDisplayStatus_UpdateRequired'', 20),
    (''EDisplayStatus_UpdateDisabled'', 21),
    (''EDisplayStatus_DownloadPaused'', 22),
    (''EDisplayStatus_DownloadQueued'', 23),
    (''EDisplayStatus_DownloadRequired'', 24),
    (''EDisplayStatus_DownloadDisabled'', 25),
    (''EDisplayStatus_LicensePending'', 26),
    (''EDisplayStatus_LicenseExpired'', 27),
    (''EDisplayStatus_AvailForFree'', 28),
    (''EDisplayStatus_AvailToBorrow'', 29),
    (''EDisplayStatus_AvailGuestPass'', 30),
    (''EDisplayStatus_Purchase'', 31)]"

subsection \<open>\<open>EAppType\<close>\<close>

definition EAppType_constants :: "i32 constants" where
  "EAppType_constants = [
    (''EAppType_Invalid'', 0),
    (''EAppType_Game'', 1),
    (''EAppType_Application'', 2),
    (''EAppType_Tool'', 4),
    (''EAppType_Demo'', 8),
    (''EAppType_Deprected'', 16),
    (''EAppType_DLC'', 32),
    (''EAppType_Guide'', 64),
    (''EAppType_Driver'', 128),
    (''EAppType_Config'', 256),
    (''EAppType_Hardware'', 512),
    (''EAppType_Franchise'', 1024),
    (''EAppType_Video'', 2048),
    (''EAppType_Plugin'', 4096),
    (''EAppType_Music'', 8192),
    (''EAppType_Series'', 16384),
    (''EAppType_Comic'', 32768),
    (''EAppType_Beta'', 65536),
    (''EAppType_Shortcut'', 1073741824),
    (''EAppType_DepotOnly'', - 2147483648)]"

subsection \<open>\<open>EChatRoomGroupType\<close>\<close>

definition EChatRoomGroupType_constants :: "i32 constants" where
  "EChatRoomGroupType_constants = [
    (''EChatRoomGroupType_Default'', 0),
    (''EChatRoomGroupType_Unmoderated'', 1)]"

subsection \<open>\<open>EChatroomNotificationLevel\<close>\<close>

definition EChatroomNotificationLevel_constants :: "i32 constants" where
  "EChatroomNotificationLevel_constants = [
    (''EChatroomNotificationLevel_Invalid'', 0),
    (''EChatroomNotificationLevel_None'', 1),
    (''EChatroomNotificationLevel_MentionMe'', 2),
    (''EChatroomNotificationLevel_MentionAll'', 3),
    (''EChatroomNotificationLevel_AllMessages'', 4)]"

subsection \<open>\<open>EChatRoomMemberStateChange\<close>\<close>

definition EChatRoomMemberStateChange_constants :: "i32 constants" where
  "EChatRoomMemberStateChange_constants = [
    (''EChatRoomMemberStateChange_Invalid'', 0),
    (''EChatRoomMemberStateChange_Joined'', 1),
    (''EChatRoomMemberStateChange_Parted'', 2),
    (''EChatRoomMemberStateChange_Kicked'', 3),
    (''EChatRoomMemberStateChange_Invited'', 4),
    (''EChatRoomMemberStateChange_RankChanged'', 7),
    (''EChatRoomMemberStateChange_InviteDismissed'', 8),
    (''EChatRoomMemberStateChange_Muted'', 9),
    (''EChatRoomMemberStateChange_Banned'', 10),
    (''EChatRoomMemberStateChange_RolesChanged'', 12)]"

subsection \<open>\<open>EChatRoomServerMsg\<close>\<close>

definition EChatRoomServerMsg_constants :: "i32 constants" where
  "EChatRoomServerMsg_constants = [
    (''EChatRoomServerMsg_Invalid'', 0),
    (''EChatRoomServerMsg_RenameChatRoom'', 1),
    (''EChatRoomServerMsg_Joined'', 2),
    (''EChatRoomServerMsg_Parted'', 3),
    (''EChatRoomServerMsg_Kicked'', 4),
    (''EChatRoomServerMsg_Invited'', 5),
    (''EChatRoomServerMsg_InviteDismissed'', 8),
    (''EChatRoomServerMsg_ChatRoomTaglineChanged'', 9),
    (''EChatRoomServerMsg_ChatRoomAvatarChanged'', 10),
    (''EChatRoomServerMsg_AppCustom'', 11)]"

subsection \<open>\<open>EChatRoomGroupRank\<close>\<close>

definition EChatRoomGroupRank_constants :: "i32 constants" where
  "EChatRoomGroupRank_constants = [
    (''EChatRoomGroupRank_Default'', 0),
    (''EChatRoomGroupRank_Viewer'', 10),
    (''EChatRoomGroupRank_Guest'', 15),
    (''EChatRoomGroupRank_Member'', 20),
    (''EChatRoomGroupRank_Moderator'', 30),
    (''EChatRoomGroupRank_Officer'', 40),
    (''EChatRoomGroupRank_Owner'', 50)]"

subsection \<open>\<open>EChatRoomGroupPermissions\<close>\<close>

definition EChatRoomGroupPermissions_constants :: "i32 constants" where
  "EChatRoomGroupPermissions_constants = [
    (''EChatRoomGroupPermissions_Default'', 0),
    (''EChatRoomGroupPermissions_Valid'', 1),
    (''EChatRoomGroupPermissions_CanInvite'', 2),
    (''EChatRoomGroupPermissions_CanKick'', 4),
    (''EChatRoomGroupPermissions_CanBan'', 8),
    (''EChatRoomGroupPermissions_CanAdminChannel'', 16)]"

subsection \<open>\<open>EChatRoomGroupAction\<close>\<close>

definition EChatRoomGroupAction_constants :: "i32 constants" where
  "EChatRoomGroupAction_constants = [
    (''EChatRoomGroupAction_Default'', 0),
    (''EChatRoomGroupAction_CreateRenameDeleteChannel'', 1),
    (''EChatRoomGroupAction_Kick'', 2),
    (''EChatRoomGroupAction_Ban'', 3),
    (''EChatRoomGroupAction_Invite'', 4),
    (''EChatRoomGroupAction_ChangeTaglineAvatarName'', 5),
    (''EChatRoomGroupAction_Chat'', 6),
    (''EChatRoomGroupAction_ViewHistory'', 7),
    (''EChatRoomGroupAction_ChangeGroupRoles'', 8),
    (''EChatRoomGroupAction_ChangeUserRoles'', 9),
    (''EChatRoomGroupAction_MentionAll'', 10),
    (''EChatRoomGroupAction_SetWatchingBroadcast'', 11)]"

subsection \<open>\<open>EChatRoomJoinState\<close>\<close>

definition EChatRoomJoinState_constants :: "i32 constants" where
  "EChatRoomJoinState_constants = [
    (''EChatRoomJoinState_Default'', 0),
    (''EChatRoomJoinState_None'', 1),
    (''EChatRoomJoinState_Joined'', 2)]"

subsection \<open>\<open>EVoiceCallState\<close>\<close>

definition EVoiceCallState_constants :: "i32 constants" where
  "EVoiceCallState_constants = [
    (''EVoiceCallState_None'', 0),
    (''EVoiceCallState_ScheduledInitiate'', 1),
    (''EVoiceCallState_RequestedMicAccess'', 2),
    (''EVoiceCallState_LocalMicOnly'', 3),
    (''EVoiceCallState_CreatePeerConnection'', 4),
    (''EVoiceCallState_InitatedWebRTCSession'', 5),
    (''EVoiceCallState_WebRTCConnectedWaitingOnIceConnected'', 6),
    (''EVoiceCallState_RequestedPermission'', 7),
    (''EVoiceCallState_NotifyingVoiceChatOfWebRTCSession'', 8),
    (''EVoiceCallState_Connected'', 9)]"

subsection \<open>\<open>ETradeOfferState\<close>\<close>

definition ETradeOfferState_constants :: "i32 constants" where
  "ETradeOfferState_constants = [
    (''ETradeOfferState_Invalid'', 1),
    (''ETradeOfferState_Active'', 2),
    (''ETradeOfferState_Accepted'', 3),
    (''ETradeOfferState_Countered'', 4),
    (''ETradeOfferState_Expired'', 5),
    (''ETradeOfferState_Canceled'', 6),
    (''ETradeOfferState_Declined'', 7),
    (''ETradeOfferState_InvalidItems'', 8),
    (''ETradeOfferState_CreatedNeedsConfirmation'', 9),
    (''ETradeOfferState_CanceledBySecondFactor'', 10),
    (''ETradeOfferState_InEscrow'', 11)]"

subsection \<open>\<open>ETradeOfferConfirmationMethod\<close>\<close>

definition ETradeOfferConfirmationMethod_constants :: "i32 constants" where
  "ETradeOfferConfirmationMethod_constants = [
    (''ETradeOfferConfirmationMethod_Invalid'', 0),
    (''ETradeOfferConfirmationMethod_Email'', 1),
    (''ETradeOfferConfirmationMethod_MobileApp'', 2)]"

subsection \<open>\<open>ELobbyType\<close>\<close>

definition ELobbyType_constants :: "i32 constants" where
  "ELobbyType_constants = [
    (''ELobbyType_Private'', 0),
    (''ELobbyType_FriendsOnly'', 1),
    (''ELobbyType_Public'', 2),
    (''ELobbyType_Invisible'', 3),
    (''ELobbyType_PrivateUnique'', 4)]"

subsection \<open>\<open>ELobbyFilterType\<close>\<close>

definition ELobbyFilterType_constants :: "i32 constants" where
  "ELobbyFilterType_constants = [
    (''ELobbyFilterType_String'', 0),
    (''ELobbyFilterType_Numerical'', 1),
    (''ELobbyFilterType_SlotsAvailable'', 2),
    (''ELobbyFilterType_NearValue'', 3),
    (''ELobbyFilterType_Distance'', 4)]"

subsection \<open>\<open>ELobbyComparison\<close>\<close>

definition ELobbyComparison_constants :: "i32 constants" where
  "ELobbyComparison_constants = [
    (''ELobbyComparison_EqualToOrLessThan'', - 2),
    (''ELobbyComparison_LessThan'', - 1),
    (''ELobbyComparison_Equal'', 0),
    (''ELobbyComparison_GreaterThan'', 1),
    (''ELobbyComparison_EqualToOrGreaterThan'', 2),
    (''ELobbyComparison_NotEqual'', 3)]"

subsection \<open>\<open>ELobbyDistanceFilter\<close>\<close>

definition ELobbyDistanceFilter_constants :: "i32 constants" where
  "ELobbyDistanceFilter_constants = [
    (''ELobbyDistanceFilter_Close'', 0),
    (''ELobbyDistanceFilter_Default'', 1),
    (''ELobbyDistanceFilter_Far'', 2),
    (''ELobbyDistanceFilter_Worldwide'', 3)]"

subsection \<open>\<open>ESteamIPv6ConnectivityProtocol\<close>\<close>

definition ESteamIPv6ConnectivityProtocol_constants :: "i32 constants" where
  "ESteamIPv6ConnectivityProtocol_constants = [
    (''ESteamIPv6ConnectivityProtocol_Invalid'', 0),
    (''ESteamIPv6ConnectivityProtocol_Http'', 1),
    (''ESteamIPv6ConnectivityProtocol_Udp'', 2)]"

subsection \<open>\<open>ESteamIPv6ConnectivityState\<close>\<close>

definition ESteamIPv6ConnectivityState_constants :: "i32 constants" where
  "ESteamIPv6ConnectivityState_constants = [
    (''ESteamIPv6ConnectivityState_Unknown'', 0),
    (''ESteamIPv6ConnectivityState_Good'', 1),
    (''ESteamIPv6ConnectivityState_Bad'', 2)]"

subsection \<open>\<open>ESteamRealm\<close>\<close>

definition ESteamRealm_constants :: "i32 constants" where
  "ESteamRealm_constants = [
    (''ESteamRealm_Unknown'', 0),
    (''ESteamRealm_SteamGlobal'', 1),
    (''ESteamRealm_SteamChina'', 2)]"

subsection \<open>\<open>ELauncherType\<close>\<close>

definition ELauncherType_constants :: "i32 constants" where
  "ELauncherType_constants = [
    (''ELauncherType_Default'', 0),
    (''ELauncherType_PerfectWorld'', 1),
    (''ELauncherType_Nexon'', 2),
    (''ELauncherType_CmdLine'', 3),
    (''ELauncherType_CSGO'', 4),
    (''ELauncherType_ClientUI'', 5),
    (''ELauncherType_Headless'', 6),
    (''ELauncherType_SteamChina'', 7),
    (''ELauncherType_SingleApp'', 8)]"

subsection \<open>\<open>EUdpPacketType\<close>\<close>

definition EUdpPacketType_constants :: "u8 constants" where
  "EUdpPacketType_constants = [
    (''EUdpPacketType_Invalid'', 0),
    (''EUdpPacketType_ChallengeReq'', 1),
    (''EUdpPacketType_Challenge'', 2),
    (''EUdpPacketType_Connect'', 3),
    (''EUdpPacketType_Accept'', 4),
    (''EUdpPacketType_Disconnect'', 5),
    (''EUdpPacketType_Data'', 6),
    (''EUdpPacketType_Datagram'', 7),
    (''EUdpPacketType_Max'', 8)]"

section \<open>Constants and names\<close>

text \<open>
  The signed enums whose constants all print as themselves: every constant stands in the table of names, which has some names
  without a constant as well.
\<close>

definition plain_enums :: "(i32 names \<times> i32 constants) list" where
  "plain_enums = [
     (EUniverse_name, EUniverse_constants), (EChatEntryType_name, EChatEntryType_constants),
     (EPersonaState_name, EPersonaState_constants), (EAccountType_name, EAccountType_constants),
     (EFriendRelationship_name, EFriendRelationship_constants), (EAccountFlags_name, EAccountFlags_constants),
     (EFriendFlags_name, EFriendFlags_constants), (EAppUsageEvent_name, EAppUsageEvent_constants),
     (ELicenseFlags_name, ELicenseFlags_constants), (ELicenseType_name, ELicenseType_constants),
     (EPurchaseResultDetail_name, EPurchaseResultDetail_constants),
     (EIntroducerRouting_name, EIntroducerRouting_constants), (EServerFlags_name, EServerFlags_constants),
     (EDenyReason_name, EDenyReason_constants), (EClanRank_name, EClanRank_constants),
     (EClanRelationship_name, EClanRelationship_constants),
     (EAuthSessionResponse_name, EAuthSessionResponse_constants),
     (EChatRoomEnterResponse_name, EChatRoomEnterResponse_constants), (EChatRoomType_name, EChatRoomType_constants),
     (EChatInfoType_name, EChatInfoType_constants), (EChatAction_name, EChatAction_constants),
     (EChatActionResult_name, EChatActionResult_constants),
     (EContentDownloadSourceType_name, EContentDownloadSourceType_constants),
     (EBillingType_name, EBillingType_constants), (EChatMemberStateChange_name, EChatMemberStateChange_constants),
     (ECurrencyCode_name, ECurrencyCode_constants), (EDepotFileFlag_name, EDepotFileFlag_constants),
     (EWorkshopEnumerationType_name, EWorkshopEnumerationType_constants),
     (EPublishedFileVisibility_name, EPublishedFileVisibility_constants),
     (EWorkshopFileAction_name, EWorkshopFileAction_constants), (ENewsUpdateType_name, ENewsUpdateType_constants),
     (ESystemIMType_name, ESystemIMType_constants), (EChatFlags_name, EChatFlags_constants),
     (ERemoteStoragePlatform_name, ERemoteStoragePlatform_constants),
     (EDRMBlobDownloadType_name, EDRMBlobDownloadType_constants),
     (EDRMBlobDownloadErrorDetail_name, EDRMBlobDownloadErrorDetail_constants),
     (EClientStat_name, EClientStat_constants),
     (EClientStatAggregateMethod_name, EClientStatAggregateMethod_constants),
     (ELeaderboardDataRequest_name, ELeaderboardDataRequest_constants),
     (ELeaderboardSortMethod_name, ELeaderboardSortMethod_constants),
     (ELeaderboardDisplayType_name, ELeaderboardDisplayType_constants),
     (ELeaderboardUploadScoreMethod_name, ELeaderboardUploadScoreMethod_constants),
     (EPublishedFileQueryType_name, EPublishedFileQueryType_constants),
     (EPublishedFileInappropriateProvider_name, EPublishedFileInappropriateProvider_constants),
     (EPublishedFileInappropriateResult_name, EPublishedFileInappropriateResult_constants),
     (EDisplayStatus_name, EDisplayStatus_constants), (EAppType_name, EAppType_constants),
     (EChatRoomGroupType_name, EChatRoomGroupType_constants),
     (EChatroomNotificationLevel_name, EChatroomNotificationLevel_constants),
     (EChatRoomMemberStateChange_name, EChatRoomMemberStateChange_constants),
     (EChatRoomServerMsg_name, EChatRoomServerMsg_constants), (EChatRoomGroupRank_name, EChatRoomGroupRank_constants),
     (EChatRoomGroupPermissions_name, EChatRoomGroupPermissions_constants),
     (EChatRoomGroupAction_name, EChatRoomGroupAction_constants),
     (EChatRoomJoinState_name, EChatRoomJoinState_constants), (EVoiceCallState_name, EVoiceCallState_constants),
     (ETradeOfferState_name, ETradeOfferState_constants),
     (ETradeOfferConfirmationMethod_name, ETradeOfferConfirmationMethod_constants),
     (ELobbyType_name, ELobbyType_constants), (ELobbyFilterType_name, ELobbyFilterType_constants),
     (ELobbyComparison_name, ELobbyComparison_constants), (ELobbyDistanceFilter_name, ELobbyDistanceFilter_constants),
     (ESteamIPv6ConnectivityProtocol_name, ESteamIPv6ConnectivityProtocol_constants),
     (ESteamIPv6ConnectivityState_name, ESteamIPv6ConnectivityState_constants),
     (ESteamRealm_name, ESteamRealm_constants), (ELauncherType_name, ELauncherType_constants)]"

lemmas plain_enum_defs =
  EUniverse_name_def EUniverse_constants_def EChatEntryType_name_def EChatEntryType_constants_def
  EPersonaState_name_def EPersonaState_constants_def EAccountType_name_def EAccountType_constants_def
  EFriendRelationship_name_def EFriendRelationship_constants_def EAccountFlags_name_def EAccountFlags_constants_def
  EFriendFlags_name_def EFriendFlags_constants_def EAppUsageEvent_name_def EAppUsageEvent_constants_def
  ELicenseFlags_name_def ELicenseFlags_constants_def ELicenseType_name_def ELicenseType_constants_def
  EPurchaseResultDetail_name_def EPurchaseResultDetail_constants_def
  EIntroducerRouting_name_def EIntroducerRouting_constants_def EServerFlags_name_def EServerFlags_constants_def
  EDenyReason_name_def EDenyReason_constants_def EClanRank_name_def EClanRank_constants_def
  EClanRelationship_name_def EClanRelationship_constants_def
  EAuthSessionResponse_name_def EAuthSessionResponse_constants_def
  EChatRoomEnterResponse_name_def EChatRoomEnterResponse_constants_def
  EChatRoomType_name_def EChatRoomType_constants_def EChatInfoType_name_def EChatInfoType_constants_def
  EChatAction_name_def EChatAction_constants_def EChatActionResult_name_def EChatActionResult_constants_def
  EContentDownloadSourceType_name_def EContentDownloadSourceType_constants_def
  EBillingType_name_def EBillingType_constants_def
  EChatMemberStateChange_name_def EChatMemberStateChange_constants_def
  ECurrencyCode_name_def ECurrencyCode_constants_def EDepotFileFlag_name_def EDepotFileFlag_constants_def
  EWorkshopEnumerationType_name_def EWorkshopEnumerationType_constants_def
  EPublishedFileVisibility_name_def EPublishedFileVisibility_constants_def
  EWorkshopFileAction_name_def EWorkshopFileAction_constants_def
  ENewsUpdateType_name_def ENewsUpdateType_constants_def ESystemIMType_name_def ESystemIMType_constants_def
  EChatFlags_name_def EChatFlags_constants_def ERemoteStoragePlatform_name_def ERemoteStoragePlatform_constants_def
  EDRMBlobDownloadType_name_def EDRMBlobDownloadType_constants_def
  EDRMBlobDownloadErrorDetail_name_def EDRMBlobDownloadErrorDetail_constants_def
  EClientStat_name_def EClientStat_constants_def
  EClientStatAggregateMethod_name_def EClientStatAggregateMethod_constants_def
  ELeaderboardDataRequest_name_def ELeaderboardDataRequest_constants_def
  ELeaderboardSortMethod_name_def ELeaderboardSortMethod_constants_def
  ELeaderboardDisplayType_name_def ELeaderboardDisplayType_constants_def
  ELeaderboardUploadScoreMethod_name_def ELeaderboardUploadScoreMethod_constants_def
  EPublishedFileQueryType_name_def EPublishedFileQueryType_constants_def
  EPublishedFileInappropriateProvider_name_def EPublishedFileInappropriateProvider_constants_def
  EPublishedFileInappropriateResult_name_def EPublishedFileInappropriateResult_constants_def
  EDisplayStatus_name_def EDisplayStatus_constants_def EAppType_name_def EAppType_constants_def
  EChatRoomGroupType_name_def EChatRoomGroupType_constants_def
  EChatroomNotificationLevel_name_def EChatroomNotificationLevel_constants_def
  EChatRoomMemberStateChange_name_def EChatRoomMemberStateChange_constants_def
  EChatRoomServerMsg_name_def EChatRoomServerMsg_constants_def
  EChatRoomGroupRank_name_def EChatRoomGroupRank_constants_def
  EChatRoomGroupPermissions_name_def EChatRoomGroupPermissions_constants_def
  EChatRoomGroupAction_name_def EChatRoomGroupAction_constants_def
  EChatRoomJoinState_name_def EChatRoomJoinState_constants_def EVoiceCallState_name_def EVoiceCallState_constants_def
  ETradeOfferState_name_def ETradeOfferState_constants_def
  ETradeOfferConfirmationMethod_name_def ETradeOfferConfirmationMethod_constants_def
  ELobbyType_name_def ELobbyType_constants_def ELobbyFilterType_name_def ELobbyFilterType_constants_def
  ELobbyComparison_name_def ELobbyComparison_constants_def
  ELobbyDistanceFilter_name_def ELobbyDistanceFilter_constants_def
  ESteamIPv6ConnectivityProtocol_name_def ESteamIPv6ConnectivityProtocol_constants_def
  ESteamIPv6ConnectivityState_name_def ESteamIPv6ConnectivityState_constants_def
  ESteamRealm_name_def ESteamRealm_constants_def ELauncherType_name_def ELauncherType_constants_def

lemma plain_enums_agree: "list_all (\<lambda>(t, cs). t \<in> set int32_tables \<and> set cs \<subseteq> set (map (\<lambda>(k, n). (n, k)) t)) plain_enums"
  unfolding plain_enums_def list.pred_inject prod.case
  by (intro conjI; (rule list.pred_inject(1) | (unfold int32_tables_def list.set, (rule insertI1 | rule insertI2)+)
    | (unfold plain_enum_defs list.map list.set prod.case, (rule insert_subsetI | rule empty_subsetI | rule insertI1 | rule insertI2)+)))



end
