(* ===== verification/EMsg_Constants.thy ===== *)
theory EMsg_Constants
  imports Enum_Constants
begin

text \<open>
  The message types, the constants of \<open>EMsg\<close> of \<open>protocol/steamlang/enums.go\<close>, in parts in the order of the file.
\<close>

definition EMsg_constants_1 :: "i32 constants" where
  "EMsg_constants_1 = [
    (''EMsg_Invalid'', 0),
    (''EMsg_Multi'', 1),
    (''EMsg_ProtobufWrapped'', 2),
    (''EMsg_BaseGeneral'', 100),
    (''EMsg_GenericReply'', 100),
    (''EMsg_DestJobFailed'', 113),
    (''EMsg_Alert'', 115),
    (''EMsg_SCIDRequest'', 120),
    (''EMsg_SCIDResponse'', 121),
    (''EMsg_JobHeartbeat'', 123),
    (''EMsg_HubConnect'', 124),
    (''EMsg_Subscribe'', 126),
    (''EMsg_RouteMessage'', 127),
    (''EMsg_AMCreateAccountResponse'', 129),
    (''EMsg_WGRequest'', 130),
    (''EMsg_WGResponse'', 131),
    (''EMsg_KeepAlive'', 132),
    (''EMsg_WebAPIJobRequest'', 133),
    (''EMsg_WebAPIJobResponse'', 134),
    (''EMsg_ClientSessionStart'', 135),
    (''EMsg_ClientSessionEnd'', 136),
    (''EMsg_ClientSessionUpdate'', 137),
    (''EMsg_Ping'', 139),
    (''EMsg_PingResponse'', 140),
    (''EMsg_Stats'', 141),
    (''EMsg_RequestFullStatsBlock'', 142),
    (''EMsg_LoadDBOCacheItem'', 143),
    (''EMsg_LoadDBOCacheItemResponse'', 144),
    (''EMsg_InvalidateDBOCacheItems'', 145),
    (''EMsg_ServiceMethod'', 146),
    (''EMsg_ServiceMethodResponse'', 147),
    (''EMsg_ClientPackageVersions'', 148),
    (''EMsg_TimestampRequest'', 149),
    (''EMsg_TimestampResponse'', 150),
    (''EMsg_ServiceMethodCallFromClient'', 151),
    (''EMsg_ServiceMethodSendToClient'', 152),
    (''EMsg_BaseShell'', 200),
    (''EMsg_AssignSysID'', 200),
    (''EMsg_Exit'', 201),
    (''EMsg_DirRequest'', 202),
    (''EMsg_DirResponse'', 203),
    (''EMsg_ZipRequest'', 204),
    (''EMsg_ZipResponse'', 205),
    (''EMsg_UpdateRecordResponse'', 215),
    (''EMsg_UpdateCreditCardRequest'', 221),
    (''EMsg_UpdateUserBanResponse'', 225),
    (''EMsg_PrepareToExit'', 226),
    (''EMsg_ContentDescriptionUpdate'', 227),
    (''EMsg_TestResetServer'', 228),
    (''EMsg_UniverseChanged'', 229),
    (''EMsg_ShellConfigInfoUpdate'', 230),
    (''EMsg_RequestWindowsEventLogEntries'', 233),
    (''EMsg_ProvideWindowsEventLogEntries'', 234),
    (''EMsg_ShellSearchLogs'', 235),
    (''EMsg_ShellSearchLogsResponse'', 236),
    (''EMsg_ShellCheckWindowsUpdates'', 237),
    (''EMsg_ShellCheckWindowsUpdatesResponse'', 238),
    (''EMsg_TestFlushDelayedSQL'', 240),
    (''EMsg_TestFlushDelayedSQLResponse'', 241),
    (''EMsg_EnsureExecuteScheduledTask_TEST'', 242),
    (''EMsg_EnsureExecuteScheduledTaskResponse_TEST'', 243),
    (''EMsg_UpdateScheduledTaskEnableState_TEST'', 244),
    (''EMsg_UpdateScheduledTaskEnableStateResponse_TEST'', 245),
    (''EMsg_ContentDescriptionDeltaUpdate'', 246),
    (''EMsg_BaseGM'', 300),
    (''EMsg_Heartbeat'', 300),
    (''EMsg_ShellFailed'', 301),
    (''EMsg_ExitShells'', 307),
    (''EMsg_ExitShell'', 308),
    (''EMsg_GracefulExitShell'', 309),
    (''EMsg_LicenseProcessingComplete'', 316),
    (''EMsg_SetTestFlag'', 317),
    (''EMsg_QueuedEmailsComplete'', 318),
    (''EMsg_GMReportPHPError'', 319),
    (''EMsg_GMDRMSync'', 320),
    (''EMsg_PhysicalBoxInventory'', 321),
    (''EMsg_UpdateConfigFile'', 322),
    (''EMsg_TestInitDB'', 323),
    (''EMsg_GMWriteConfigToSQL'', 324),
    (''EMsg_GMLoadActivationCodes'', 325),
    (''EMsg_GMQueueForFBS'', 326),
    (''EMsg_GMSchemaConversionResults'', 327),
    (''EMsg_GMWriteShellFailureToSQL'', 329),
    (''EMsg_GMWriteStatsToSOS'', 330),
    (''EMsg_GMGetServiceMethodRouting'', 331),
    (''EMsg_GMGetServiceMethodRoutingResponse'', 332),
    (''EMsg_GMConvertUserWallets'', 333),
    (''EMsg_GMTestNextBuildSchemaConversion'', 334),
    (''EMsg_GMTestNextBuildSchemaConversionResponse'', 335),
    (''EMsg_ExpectShellRestart'', 336),
    (''EMsg_HotFixProgress'', 337),
    (''EMsg_BaseAIS'', 400),
    (''EMsg_AISRequestContentDescription'', 402),
    (''EMsg_AISUpdateAppInfo'', 403),
    (''EMsg_AISUpdatePackageCosts'', 404),
    (''EMsg_AISGetPackageChangeNumber'', 405),
    (''EMsg_AISGetPackageChangeNumberResponse'', 406),
    (''EMsg_AISUpdatePackageCostsResponse'', 408),
    (''EMsg_AISCreateMarketingMessage'', 409),
    (''EMsg_AISCreateMarketingMessageResponse'', 410),
    (''EMsg_AISGetMarketingMessage'', 411),
    (''EMsg_AISGetMarketingMessageResponse'', 412),
    (''EMsg_AISUpdateMarketingMessage'', 413),
    (''EMsg_AISUpdateMarketingMessageResponse'', 414),
    (''EMsg_AISRequestMarketingMessageUpdate'', 415),
    (''EMsg_AISDeleteMarketingMessage'', 416),
    (''EMsg_AIGetAppGCFlags'', 423),
    (''EMsg_AIGetAppGCFlagsResponse'', 424),
    (''EMsg_AIGetAppList'', 425),
    (''EMsg_AIGetAppListResponse'', 426),
    (''EMsg_AISGetCouponDefinition'', 429),
    (''EMsg_AISGetCouponDefinitionResponse'', 430),
    (''EMsg_AISUpdateSlaveContentDescription'', 431),
    (''EMsg_AISUpdateSlaveContentDescriptionResponse'', 432),
    (''EMsg_AISTestEnableGC'', 433),
    (''EMsg_BaseAM'', 500),
    (''EMsg_AMUpdateUserBanRequest'', 504),
    (''EMsg_AMAddLicense'', 505),
    (''EMsg_AMSendSystemIMToUser'', 508),
    (''EMsg_AMExtendLicense'', 509),
    (''EMsg_AMAddMinutesToLicense'', 510),
    (''EMsg_AMCancelLicense'', 511),
    (''EMsg_AMInitPurchase'', 512),
    (''EMsg_AMPurchaseResponse'', 513),
    (''EMsg_AMGetFinalPrice'', 514),
    (''EMsg_AMGetFinalPriceResponse'', 515),
    (''EMsg_AMGetLegacyGameKey'', 516),
    (''EMsg_AMGetLegacyGameKeyResponse'', 517),
    (''EMsg_AMFindHungTransactions'', 518),
    (''EMsg_AMSetAccountTrustedRequest'', 519),
    (''EMsg_AMCompletePurchase'', 521),
    (''EMsg_AMCancelPurchase'', 522),
    (''EMsg_AMNewChallenge'', 523),
    (''EMsg_AMLoadOEMTickets'', 524),
    (''EMsg_AMFixPendingPurchase'', 525),
    (''EMsg_AMFixPendingPurchaseResponse'', 526),
    (''EMsg_AMIsUserBanned'', 527),
    (''EMsg_AMRegisterKey'', 528),
    (''EMsg_AMLoadActivationCodes'', 529),
    (''EMsg_AMLoadActivationCodesResponse'', 530),
    (''EMsg_AMLookupKeyResponse'', 531),
    (''EMsg_AMLookupKey'', 532),
    (''EMsg_AMChatCleanup'', 533),
    (''EMsg_AMClanCleanup'', 534),
    (''EMsg_AMFixPendingRefund'', 535)]"

definition EMsg_constants_2 :: "i32 constants" where
  "EMsg_constants_2 = [
    (''EMsg_AMReverseChargeback'', 536),
    (''EMsg_AMReverseChargebackResponse'', 537),
    (''EMsg_AMClanCleanupList'', 538),
    (''EMsg_AMGetLicenses'', 539),
    (''EMsg_AMGetLicensesResponse'', 540),
    (''EMsg_AMSendCartRepurchase'', 541),
    (''EMsg_AMSendCartRepurchaseResponse'', 542),
    (''EMsg_AllowUserToPlayQuery'', 550),
    (''EMsg_AllowUserToPlayResponse'', 551),
    (''EMsg_AMVerfiyUser'', 552),
    (''EMsg_AMClientNotPlaying'', 553),
    (''EMsg_ClientRequestFriendship'', 554),
    (''EMsg_AMClientRequestFriendship'', 554),
    (''EMsg_AMRelayPublishStatus'', 555),
    (''EMsg_AMInitPurchaseResponse'', 560),
    (''EMsg_AMRevokePurchaseResponse'', 561),
    (''EMsg_AMRefreshGuestPasses'', 563),
    (''EMsg_AMInviteUserToClan'', 564),
    (''EMsg_AMAcknowledgeClanInvite'', 565),
    (''EMsg_AMGrantGuestPasses'', 566),
    (''EMsg_AMClanDataUpdated'', 567),
    (''EMsg_AMReloadAccount'', 568),
    (''EMsg_AMClientChatMsgRelay'', 569),
    (''EMsg_AMChatMulti'', 570),
    (''EMsg_AMClientChatInviteRelay'', 571),
    (''EMsg_AMChatInvite'', 572),
    (''EMsg_AMClientJoinChatRelay'', 573),
    (''EMsg_AMClientChatMemberInfoRelay'', 574),
    (''EMsg_AMPublishChatMemberInfo'', 575),
    (''EMsg_AMClientAcceptFriendInvite'', 576),
    (''EMsg_AMChatEnter'', 577),
    (''EMsg_AMClientPublishRemovalFromSource'', 578),
    (''EMsg_AMChatActionResult'', 579),
    (''EMsg_AMFindAccounts'', 580),
    (''EMsg_AMFindAccountsResponse'', 581),
    (''EMsg_AMRequestAccountData'', 582),
    (''EMsg_AMRequestAccountDataResponse'', 583),
    (''EMsg_AMSetAccountFlags'', 584),
    (''EMsg_AMCreateClan'', 586),
    (''EMsg_AMCreateClanResponse'', 587),
    (''EMsg_AMGetClanDetails'', 588),
    (''EMsg_AMGetClanDetailsResponse'', 589),
    (''EMsg_AMSetPersonaName'', 590),
    (''EMsg_AMSetAvatar'', 591),
    (''EMsg_AMAuthenticateUser'', 592),
    (''EMsg_AMAuthenticateUserResponse'', 593),
    (''EMsg_AMP2PIntroducerMessage'', 596),
    (''EMsg_ClientChatAction'', 597),
    (''EMsg_AMClientChatActionRelay'', 598),
    (''EMsg_BaseVS'', 600),
    (''EMsg_ReqChallenge'', 600),
    (''EMsg_VACResponse'', 601),
    (''EMsg_ReqChallengeTest'', 602),
    (''EMsg_VSMarkCheat'', 604),
    (''EMsg_VSAddCheat'', 605),
    (''EMsg_VSPurgeCodeModDB'', 606),
    (''EMsg_VSGetChallengeResults'', 607),
    (''EMsg_VSChallengeResultText'', 608),
    (''EMsg_VSReportLingerer'', 609),
    (''EMsg_VSRequestManagedChallenge'', 610),
    (''EMsg_VSLoadDBFinished'', 611),
    (''EMsg_BaseDRMS'', 625),
    (''EMsg_DRMBuildBlobRequest'', 628),
    (''EMsg_DRMBuildBlobResponse'', 629),
    (''EMsg_DRMResolveGuidRequest'', 630),
    (''EMsg_DRMResolveGuidResponse'', 631),
    (''EMsg_DRMVariabilityReport'', 633),
    (''EMsg_DRMVariabilityReportResponse'', 634),
    (''EMsg_DRMStabilityReport'', 635),
    (''EMsg_DRMStabilityReportResponse'', 636),
    (''EMsg_DRMDetailsReportRequest'', 637),
    (''EMsg_DRMDetailsReportResponse'', 638),
    (''EMsg_DRMProcessFile'', 639),
    (''EMsg_DRMAdminUpdate'', 640),
    (''EMsg_DRMAdminUpdateResponse'', 641),
    (''EMsg_DRMSync'', 642),
    (''EMsg_DRMSyncResponse'', 643),
    (''EMsg_DRMProcessFileResponse'', 644),
    (''EMsg_DRMEmptyGuidCache'', 645),
    (''EMsg_DRMEmptyGuidCacheResponse'', 646),
    (''EMsg_BaseCS'', 650),
    (''EMsg_BaseClient'', 700),
    (''EMsg_ClientHeartBeat'', 703),
    (''EMsg_ClientVACResponse'', 704),
    (''EMsg_ClientLogOff'', 706),
    (''EMsg_ClientNoUDPConnectivity'', 707),
    (''EMsg_ClientInformOfCreateAccount'', 708),
    (''EMsg_ClientConnectionStats'', 710),
    (''EMsg_ClientPingResponse'', 712),
    (''EMsg_ClientRemoveFriend'', 714),
    (''EMsg_ClientGamesPlayedNoDataBlob'', 715),
    (''EMsg_ClientChangeStatus'', 716),
    (''EMsg_ClientVacStatusResponse'', 717),
    (''EMsg_ClientFriendMsg'', 718),
    (''EMsg_ClientSystemIM'', 726),
    (''EMsg_ClientSystemIMAck'', 727),
    (''EMsg_ClientGetLicenses'', 728),
    (''EMsg_ClientGetLegacyGameKey'', 730),
    (''EMsg_ClientAckVACBan2'', 732),
    (''EMsg_ClientGetPurchaseReceipts'', 736),
    (''EMsg_ClientAckGuestPass'', 740),
    (''EMsg_ClientRedeemGuestPass'', 741),
    (''EMsg_ClientGamesPlayed'', 742),
    (''EMsg_ClientRegisterKey'', 743),
    (''EMsg_ClientInviteUserToClan'', 744),
    (''EMsg_ClientAcknowledgeClanInvite'', 745),
    (''EMsg_ClientPurchaseWithMachineID'', 746),
    (''EMsg_ClientAppUsageEvent'', 747),
    (''EMsg_ClientLogOnResponse'', 751),
    (''EMsg_ClientSetHeartbeatRate'', 755),
    (''EMsg_ClientLoggedOff'', 757),
    (''EMsg_GSApprove'', 758),
    (''EMsg_GSDeny'', 759),
    (''EMsg_GSKick'', 760),
    (''EMsg_ClientCreateAcctResponse'', 761),
    (''EMsg_ClientPurchaseResponse'', 763),
    (''EMsg_ClientPing'', 764),
    (''EMsg_ClientNOP'', 765),
    (''EMsg_ClientPersonaState'', 766),
    (''EMsg_ClientFriendsList'', 767),
    (''EMsg_ClientAccountInfo'', 768),
    (''EMsg_ClientNewsUpdate'', 771),
    (''EMsg_ClientGameConnectDeny'', 773),
    (''EMsg_GSStatusReply'', 774),
    (''EMsg_ClientGameConnectTokens'', 779),
    (''EMsg_ClientLicenseList'', 780),
    (''EMsg_ClientVACBanStatus'', 782),
    (''EMsg_ClientCMList'', 783),
    (''EMsg_ClientEncryptPct'', 784),
    (''EMsg_ClientGetLegacyGameKeyResponse'', 785),
    (''EMsg_ClientAddFriend'', 791),
    (''EMsg_ClientAddFriendResponse'', 792),
    (''EMsg_ClientAckGuestPassResponse'', 796),
    (''EMsg_ClientRedeemGuestPassResponse'', 797),
    (''EMsg_ClientUpdateGuestPassesList'', 798),
    (''EMsg_ClientChatMsg'', 799),
    (''EMsg_ClientChatInvite'', 800),
    (''EMsg_ClientJoinChat'', 801),
    (''EMsg_ClientChatMemberInfo'', 802),
    (''EMsg_ClientPasswordChangeResponse'', 805),
    (''EMsg_ClientChatEnter'', 807),
    (''EMsg_ClientFriendRemovedFromSource'', 808),
    (''EMsg_ClientCreateChat'', 809),
    (''EMsg_ClientCreateChatResponse'', 810),
    (''EMsg_ClientP2PIntroducerMessage'', 813)]"

definition EMsg_constants_3 :: "i32 constants" where
  "EMsg_constants_3 = [
    (''EMsg_ClientChatActionResult'', 814),
    (''EMsg_ClientRequestFriendData'', 815),
    (''EMsg_ClientGetUserStats'', 818),
    (''EMsg_ClientGetUserStatsResponse'', 819),
    (''EMsg_ClientStoreUserStats'', 820),
    (''EMsg_ClientStoreUserStatsResponse'', 821),
    (''EMsg_ClientClanState'', 822),
    (''EMsg_ClientServiceModule'', 830),
    (''EMsg_ClientServiceCall'', 831),
    (''EMsg_ClientServiceCallResponse'', 832),
    (''EMsg_ClientNatTraversalStatEvent'', 839),
    (''EMsg_ClientSteamUsageEvent'', 842),
    (''EMsg_ClientCheckPassword'', 845),
    (''EMsg_ClientResetPassword'', 846),
    (''EMsg_ClientCheckPasswordResponse'', 848),
    (''EMsg_ClientResetPasswordResponse'', 849),
    (''EMsg_ClientSessionToken'', 850),
    (''EMsg_ClientDRMProblemReport'', 851),
    (''EMsg_ClientSetIgnoreFriend'', 855),
    (''EMsg_ClientSetIgnoreFriendResponse'', 856),
    (''EMsg_ClientGetAppOwnershipTicket'', 857),
    (''EMsg_ClientGetAppOwnershipTicketResponse'', 858),
    (''EMsg_ClientGetLobbyListResponse'', 860),
    (''EMsg_ClientServerList'', 880),
    (''EMsg_ClientEmailChangeResponse'', 891),
    (''EMsg_ClientSecretQAChangeResponse'', 892),
    (''EMsg_ClientDRMBlobRequest'', 896),
    (''EMsg_ClientDRMBlobResponse'', 897),
    (''EMsg_BaseGameServer'', 900),
    (''EMsg_GSDisconnectNotice'', 901),
    (''EMsg_GSStatus'', 903),
    (''EMsg_GSUserPlaying'', 905),
    (''EMsg_GSStatus2'', 906),
    (''EMsg_GSStatusUpdate_Unused'', 907),
    (''EMsg_GSServerType'', 908),
    (''EMsg_GSPlayerList'', 909),
    (''EMsg_GSGetUserAchievementStatus'', 910),
    (''EMsg_GSGetUserAchievementStatusResponse'', 911),
    (''EMsg_GSGetPlayStats'', 918),
    (''EMsg_GSGetPlayStatsResponse'', 919),
    (''EMsg_GSGetUserGroupStatus'', 920),
    (''EMsg_AMGetUserGroupStatus'', 921),
    (''EMsg_AMGetUserGroupStatusResponse'', 922),
    (''EMsg_GSGetUserGroupStatusResponse'', 923),
    (''EMsg_GSGetReputation'', 936),
    (''EMsg_GSGetReputationResponse'', 937),
    (''EMsg_GSAssociateWithClan'', 938),
    (''EMsg_GSAssociateWithClanResponse'', 939),
    (''EMsg_GSComputeNewPlayerCompatibility'', 940),
    (''EMsg_GSComputeNewPlayerCompatibilityResponse'', 941),
    (''EMsg_BaseAdmin'', 1000),
    (''EMsg_AdminCmd'', 1000),
    (''EMsg_AdminCmdResponse'', 1004),
    (''EMsg_AdminLogListenRequest'', 1005),
    (''EMsg_AdminLogEvent'', 1006),
    (''EMsg_UniverseData'', 1010),
    (''EMsg_AdminSpew'', 1019),
    (''EMsg_AdminConsoleTitle'', 1020),
    (''EMsg_AdminGCSpew'', 1023),
    (''EMsg_AdminGCCommand'', 1024),
    (''EMsg_AdminGCGetCommandList'', 1025),
    (''EMsg_AdminGCGetCommandListResponse'', 1026),
    (''EMsg_FBSConnectionData'', 1027),
    (''EMsg_AdminMsgSpew'', 1028),
    (''EMsg_BaseFBS'', 1100),
    (''EMsg_FBSReqVersion'', 1100),
    (''EMsg_FBSVersionInfo'', 1101),
    (''EMsg_FBSForceRefresh'', 1102),
    (''EMsg_FBSForceBounce'', 1103),
    (''EMsg_FBSDeployPackage'', 1104),
    (''EMsg_FBSDeployResponse'', 1105),
    (''EMsg_FBSUpdateBootstrapper'', 1106),
    (''EMsg_FBSSetState'', 1107),
    (''EMsg_FBSApplyOSUpdates'', 1108),
    (''EMsg_FBSRunCMDScript'', 1109),
    (''EMsg_FBSRebootBox'', 1110),
    (''EMsg_FBSSetBigBrotherMode'', 1111),
    (''EMsg_FBSMinidumpServer'', 1112),
    (''EMsg_FBSDeployHotFixPackage'', 1114),
    (''EMsg_FBSDeployHotFixResponse'', 1115),
    (''EMsg_FBSDownloadHotFix'', 1116),
    (''EMsg_FBSDownloadHotFixResponse'', 1117),
    (''EMsg_FBSUpdateTargetConfigFile'', 1118),
    (''EMsg_FBSApplyAccountCred'', 1119),
    (''EMsg_FBSApplyAccountCredResponse'', 1120),
    (''EMsg_FBSSetShellCount'', 1121),
    (''EMsg_FBSTerminateShell'', 1122),
    (''EMsg_FBSQueryGMForRequest'', 1123),
    (''EMsg_FBSQueryGMResponse'', 1124),
    (''EMsg_FBSTerminateZombies'', 1125),
    (''EMsg_FBSInfoFromBootstrapper'', 1126),
    (''EMsg_FBSRebootBoxResponse'', 1127),
    (''EMsg_FBSBootstrapperPackageRequest'', 1128),
    (''EMsg_FBSBootstrapperPackageResponse'', 1129),
    (''EMsg_FBSBootstrapperGetPackageChunk'', 1130),
    (''EMsg_FBSBootstrapperGetPackageChunkResponse'', 1131),
    (''EMsg_FBSBootstrapperPackageTransferProgress'', 1132),
    (''EMsg_FBSRestartBootstrapper'', 1133),
    (''EMsg_FBSPauseFrozenDumps'', 1134),
    (''EMsg_BaseFileXfer'', 1200),
    (''EMsg_FileXferRequest'', 1200),
    (''EMsg_FileXferResponse'', 1201),
    (''EMsg_FileXferData'', 1202),
    (''EMsg_FileXferEnd'', 1203),
    (''EMsg_FileXferDataAck'', 1204),
    (''EMsg_BaseChannelAuth'', 1300),
    (''EMsg_ChannelAuthChallenge'', 1300),
    (''EMsg_ChannelAuthResponse'', 1301),
    (''EMsg_ChannelAuthResult'', 1302),
    (''EMsg_ChannelEncryptRequest'', 1303),
    (''EMsg_ChannelEncryptResponse'', 1304),
    (''EMsg_ChannelEncryptResult'', 1305),
    (''EMsg_BaseBS'', 1400),
    (''EMsg_BSPurchaseStart'', 1401),
    (''EMsg_BSPurchaseResponse'', 1402),
    (''EMsg_BSAuthenticateCCTrans'', 1403),
    (''EMsg_BSAuthenticateCCTransResponse'', 1404),
    (''EMsg_BSSettleComplete'', 1406),
    (''EMsg_BSInitPayPalTxn'', 1408),
    (''EMsg_BSInitPayPalTxnResponse'', 1409),
    (''EMsg_BSGetPayPalUserInfo'', 1410),
    (''EMsg_BSGetPayPalUserInfoResponse'', 1411),
    (''EMsg_BSPaymentInstrBan'', 1417),
    (''EMsg_BSPaymentInstrBanResponse'', 1418),
    (''EMsg_BSInitGCBankXferTxn'', 1421),
    (''EMsg_BSInitGCBankXferTxnResponse'', 1422),
    (''EMsg_BSCommitGCTxn'', 1425),
    (''EMsg_BSQueryTransactionStatus'', 1426),
    (''EMsg_BSQueryTransactionStatusResponse'', 1427),
    (''EMsg_BSQueryPaymentInstUsage'', 1431),
    (''EMsg_BSQueryPaymentInstResponse'', 1432),
    (''EMsg_BSQueryTxnExtendedInfo'', 1433),
    (''EMsg_BSQueryTxnExtendedInfoResponse'', 1434),
    (''EMsg_BSUpdateConversionRates'', 1435),
    (''EMsg_BSPurchaseRunFraudChecks'', 1437),
    (''EMsg_BSPurchaseRunFraudChecksResponse'', 1438),
    (''EMsg_BSQueryBankInformation'', 1440),
    (''EMsg_BSQueryBankInformationResponse'', 1441),
    (''EMsg_BSValidateXsollaSignature'', 1445),
    (''EMsg_BSValidateXsollaSignatureResponse'', 1446),
    (''EMsg_BSQiwiWalletInvoice'', 1448),
    (''EMsg_BSQiwiWalletInvoiceResponse'', 1449),
    (''EMsg_BSUpdateInventoryFromProPack'', 1450),
    (''EMsg_BSUpdateInventoryFromProPackResponse'', 1451),
    (''EMsg_BSSendShippingRequest'', 1452)]"

definition EMsg_constants_4 :: "i32 constants" where
  "EMsg_constants_4 = [
    (''EMsg_BSSendShippingRequestResponse'', 1453),
    (''EMsg_BSGetProPackOrderStatus'', 1454),
    (''EMsg_BSGetProPackOrderStatusResponse'', 1455),
    (''EMsg_BSCheckJobRunning'', 1456),
    (''EMsg_BSCheckJobRunningResponse'', 1457),
    (''EMsg_BSResetPackagePurchaseRateLimit'', 1458),
    (''EMsg_BSResetPackagePurchaseRateLimitResponse'', 1459),
    (''EMsg_BSUpdatePaymentData'', 1460),
    (''EMsg_BSUpdatePaymentDataResponse'', 1461),
    (''EMsg_BSGetBillingAddress'', 1462),
    (''EMsg_BSGetBillingAddressResponse'', 1463),
    (''EMsg_BSGetCreditCardInfo'', 1464),
    (''EMsg_BSGetCreditCardInfoResponse'', 1465),
    (''EMsg_BSRemoveExpiredPaymentData'', 1468),
    (''EMsg_BSRemoveExpiredPaymentDataResponse'', 1469),
    (''EMsg_BSConvertToCurrentKeys'', 1470),
    (''EMsg_BSConvertToCurrentKeysResponse'', 1471),
    (''EMsg_BSInitPurchase'', 1472),
    (''EMsg_BSInitPurchaseResponse'', 1473),
    (''EMsg_BSCompletePurchase'', 1474),
    (''EMsg_BSCompletePurchaseResponse'', 1475),
    (''EMsg_BSPruneCardUsageStats'', 1476),
    (''EMsg_BSPruneCardUsageStatsResponse'', 1477),
    (''EMsg_BSStoreBankInformation'', 1478),
    (''EMsg_BSStoreBankInformationResponse'', 1479),
    (''EMsg_BSVerifyPOSAKey'', 1480),
    (''EMsg_BSVerifyPOSAKeyResponse'', 1481),
    (''EMsg_BSReverseRedeemPOSAKey'', 1482),
    (''EMsg_BSReverseRedeemPOSAKeyResponse'', 1483),
    (''EMsg_BSQueryFindCreditCard'', 1484),
    (''EMsg_BSQueryFindCreditCardResponse'', 1485),
    (''EMsg_BSStatusInquiryPOSAKey'', 1486),
    (''EMsg_BSStatusInquiryPOSAKeyResponse'', 1487),
    (''EMsg_BSValidateMoPaySignature'', 1488),
    (''EMsg_BSValidateMoPaySignatureResponse'', 1489),
    (''EMsg_BSMoPayConfirmProductDelivery'', 1490),
    (''EMsg_BSMoPayConfirmProductDeliveryResponse'', 1491),
    (''EMsg_BSGenerateMoPayMD5'', 1492),
    (''EMsg_BSGenerateMoPayMD5Response'', 1493),
    (''EMsg_BSBoaCompraConfirmProductDelivery'', 1494),
    (''EMsg_BSBoaCompraConfirmProductDeliveryResponse'', 1495),
    (''EMsg_BSGenerateBoaCompraMD5'', 1496),
    (''EMsg_BSGenerateBoaCompraMD5Response'', 1497),
    (''EMsg_BSCommitWPTxn'', 1498),
    (''EMsg_BSCommitAdyenTxn'', 1499),
    (''EMsg_BaseATS'', 1500),
    (''EMsg_ATSStartStressTest'', 1501),
    (''EMsg_ATSStopStressTest'', 1502),
    (''EMsg_ATSRunFailServerTest'', 1503),
    (''EMsg_ATSUFSPerfTestTask'', 1504),
    (''EMsg_ATSUFSPerfTestResponse'', 1505),
    (''EMsg_ATSCycleTCM'', 1506),
    (''EMsg_ATSInitDRMSStressTest'', 1507),
    (''EMsg_ATSCallTest'', 1508),
    (''EMsg_ATSCallTestReply'', 1509),
    (''EMsg_ATSStartExternalStress'', 1510),
    (''EMsg_ATSExternalStressJobStart'', 1511),
    (''EMsg_ATSExternalStressJobQueued'', 1512),
    (''EMsg_ATSExternalStressJobRunning'', 1513),
    (''EMsg_ATSExternalStressJobStopped'', 1514),
    (''EMsg_ATSExternalStressJobStopAll'', 1515),
    (''EMsg_ATSExternalStressActionResult'', 1516),
    (''EMsg_ATSStarted'', 1517),
    (''EMsg_ATSCSPerfTestTask'', 1518),
    (''EMsg_ATSCSPerfTestResponse'', 1519),
    (''EMsg_BaseDP'', 1600),
    (''EMsg_DPSetPublishingState'', 1601),
    (''EMsg_DPUniquePlayersStat'', 1603),
    (''EMsg_DPStreamingUniquePlayersStat'', 1604),
    (''EMsg_DPVacInfractionStats'', 1605),
    (''EMsg_DPVacBanStats'', 1606),
    (''EMsg_DPBlockingStats'', 1607),
    (''EMsg_DPNatTraversalStats'', 1608),
    (''EMsg_DPVacCertBanStats'', 1610),
    (''EMsg_DPVacCafeBanStats'', 1611),
    (''EMsg_DPCloudStats'', 1612),
    (''EMsg_DPAchievementStats'', 1613),
    (''EMsg_DPAccountCreationStats'', 1614),
    (''EMsg_DPGetPlayerCount'', 1615),
    (''EMsg_DPGetPlayerCountResponse'', 1616),
    (''EMsg_DPGameServersPlayersStats'', 1617),
    (''EMsg_DPFacebookStatistics'', 1619),
    (''EMsg_ClientDPCheckSpecialSurvey'', 1620),
    (''EMsg_ClientDPCheckSpecialSurveyResponse'', 1621),
    (''EMsg_ClientDPSendSpecialSurveyResponse'', 1622),
    (''EMsg_ClientDPSendSpecialSurveyResponseReply'', 1623),
    (''EMsg_DPStoreSaleStatistics'', 1624),
    (''EMsg_ClientDPUpdateAppJobReport'', 1625),
    (''EMsg_DPUpdateContentEvent'', 1626),
    (''EMsg_ClientDPUnsignedInstallScript'', 1627),
    (''EMsg_DPPartnerMicroTxns'', 1628),
    (''EMsg_DPPartnerMicroTxnsResponse'', 1629),
    (''EMsg_ClientDPContentStatsReport'', 1630),
    (''EMsg_DPVRUniquePlayersStat'', 1631),
    (''EMsg_BaseCM'', 1700),
    (''EMsg_CMSetAllowState'', 1701),
    (''EMsg_CMSpewAllowState'', 1702),
    (''EMsg_CMSessionRejected'', 1703),
    (''EMsg_CMSetSecrets'', 1704),
    (''EMsg_CMGetSecrets'', 1705),
    (''EMsg_BaseGC'', 2200),
    (''EMsg_GCCmdRevive'', 2203),
    (''EMsg_GCCmdDown'', 2206),
    (''EMsg_GCCmdDeploy'', 2207),
    (''EMsg_GCCmdDeployResponse'', 2208),
    (''EMsg_GCCmdSwitch'', 2209),
    (''EMsg_AMRefreshSessions'', 2210),
    (''EMsg_GCAchievementAwarded'', 2212),
    (''EMsg_GCSystemMessage'', 2213),
    (''EMsg_GCCmdStatus'', 2216),
    (''EMsg_GCInterAppMessage'', 2219),
    (''EMsg_GCGetEmailTemplate'', 2220),
    (''EMsg_GCGetEmailTemplateResponse'', 2221),
    (''EMsg_GCHRelay'', 2222),
    (''EMsg_GCHRelayToClient'', 2223),
    (''EMsg_GCHUpdateSession'', 2224),
    (''EMsg_GCHRequestUpdateSession'', 2225),
    (''EMsg_GCHRequestStatus'', 2226),
    (''EMsg_GCHRequestStatusResponse'', 2227),
    (''EMsg_GCHAccountVacStatusChange'', 2228),
    (''EMsg_GCHSpawnGC'', 2229),
    (''EMsg_GCHSpawnGCResponse'', 2230),
    (''EMsg_GCHKillGC'', 2231),
    (''EMsg_GCHKillGCResponse'', 2232),
    (''EMsg_GCHAccountTradeBanStatusChange'', 2233),
    (''EMsg_GCHAccountLockStatusChange'', 2234),
    (''EMsg_GCHVacVerificationChange'', 2235),
    (''EMsg_GCHAccountPhoneNumberChange'', 2236),
    (''EMsg_GCHAccountTwoFactorChange'', 2237),
    (''EMsg_GCHInviteUserToLobby'', 2238),
    (''EMsg_BaseP2P'', 2500),
    (''EMsg_P2PIntroducerMessage'', 2502),
    (''EMsg_BaseSM'', 2900),
    (''EMsg_SMExpensiveReport'', 2902),
    (''EMsg_SMHourlyReport'', 2903),
    (''EMsg_SMFishingReport'', 2904),
    (''EMsg_SMPartitionRenames'', 2905),
    (''EMsg_SMMonitorSpace'', 2906),
    (''EMsg_SMTestNextBuildSchemaConversion'', 2907),
    (''EMsg_SMTestNextBuildSchemaConversionResponse'', 2908),
    (''EMsg_BaseTest'', 3000),
    (''EMsg_FailServer'', 3000),
    (''EMsg_JobHeartbeatTest'', 3001),
    (''EMsg_JobHeartbeatTestResponse'', 3002),
    (''EMsg_BaseFTSRange'', 3100)]"

definition EMsg_constants_5 :: "i32 constants" where
  "EMsg_constants_5 = [
    (''EMsg_BaseCCSRange'', 3150),
    (''EMsg_CCSDeleteAllCommentsByAuthor'', 3161),
    (''EMsg_CCSDeleteAllCommentsByAuthorResponse'', 3162),
    (''EMsg_BaseLBSRange'', 3200),
    (''EMsg_LBSSetScore'', 3201),
    (''EMsg_LBSSetScoreResponse'', 3202),
    (''EMsg_LBSFindOrCreateLB'', 3203),
    (''EMsg_LBSFindOrCreateLBResponse'', 3204),
    (''EMsg_LBSGetLBEntries'', 3205),
    (''EMsg_LBSGetLBEntriesResponse'', 3206),
    (''EMsg_LBSGetLBList'', 3207),
    (''EMsg_LBSGetLBListResponse'', 3208),
    (''EMsg_LBSSetLBDetails'', 3209),
    (''EMsg_LBSDeleteLB'', 3210),
    (''EMsg_LBSDeleteLBEntry'', 3211),
    (''EMsg_LBSResetLB'', 3212),
    (''EMsg_LBSResetLBResponse'', 3213),
    (''EMsg_LBSDeleteLBResponse'', 3214),
    (''EMsg_BaseOGS'', 3400),
    (''EMsg_OGSBeginSession'', 3401),
    (''EMsg_OGSBeginSessionResponse'', 3402),
    (''EMsg_OGSEndSession'', 3403),
    (''EMsg_OGSEndSessionResponse'', 3404),
    (''EMsg_OGSWriteAppSessionRow'', 3406),
    (''EMsg_BaseBRP'', 3600),
    (''EMsg_BRPStartShippingJobs'', 3601),
    (''EMsg_BRPProcessUSBankReports'', 3602),
    (''EMsg_BRPProcessGCReports'', 3603),
    (''EMsg_BRPProcessPPReports'', 3604),
    (''EMsg_BRPCommitGC'', 3607),
    (''EMsg_BRPCommitGCResponse'', 3608),
    (''EMsg_BRPFindHungTransactions'', 3609),
    (''EMsg_BRPCheckFinanceCloseOutDate'', 3610),
    (''EMsg_BRPProcessLicenses'', 3611),
    (''EMsg_BRPProcessLicensesResponse'', 3612),
    (''EMsg_BRPRemoveExpiredPaymentData'', 3613),
    (''EMsg_BRPRemoveExpiredPaymentDataResponse'', 3614),
    (''EMsg_BRPConvertToCurrentKeys'', 3615),
    (''EMsg_BRPConvertToCurrentKeysResponse'', 3616),
    (''EMsg_BRPPruneCardUsageStats'', 3617),
    (''EMsg_BRPPruneCardUsageStatsResponse'', 3618),
    (''EMsg_BRPCheckActivationCodes'', 3619),
    (''EMsg_BRPCheckActivationCodesResponse'', 3620),
    (''EMsg_BRPCommitWP'', 3621),
    (''EMsg_BRPCommitWPResponse'', 3622),
    (''EMsg_BRPProcessWPReports'', 3623),
    (''EMsg_BRPProcessPaymentRules'', 3624),
    (''EMsg_BRPProcessPartnerPayments'', 3625),
    (''EMsg_BRPCheckSettlementReports'', 3626),
    (''EMsg_BRPPostTaxToAvalara'', 3628),
    (''EMsg_BRPPostTransactionTax'', 3629),
    (''EMsg_BRPPostTransactionTaxResponse'', 3630),
    (''EMsg_BRPProcessIMReports'', 3631),
    (''EMsg_BaseAMRange2'', 4000),
    (''EMsg_AMCreateChat'', 4001),
    (''EMsg_AMCreateChatResponse'', 4002),
    (''EMsg_AMSetProfileURL'', 4005),
    (''EMsg_AMGetAccountEmailAddress'', 4006),
    (''EMsg_AMGetAccountEmailAddressResponse'', 4007),
    (''EMsg_AMRequestClanData'', 4008),
    (''EMsg_AMRouteToClients'', 4009),
    (''EMsg_AMLeaveClan'', 4010),
    (''EMsg_AMClanPermissions'', 4011),
    (''EMsg_AMClanPermissionsResponse'', 4012),
    (''EMsg_AMCreateClanEvent'', 4013),
    (''EMsg_AMCreateClanEventDummyForRateLimiting'', 4013),
    (''EMsg_AMCreateClanEventResponse'', 4014),
    (''EMsg_AMUpdateClanEvent'', 4015),
    (''EMsg_AMUpdateClanEventDummyForRateLimiting'', 4015),
    (''EMsg_AMUpdateClanEventResponse'', 4016),
    (''EMsg_AMGetClanEvents'', 4017),
    (''EMsg_AMGetClanEventsResponse'', 4018),
    (''EMsg_AMDeleteClanEvent'', 4019),
    (''EMsg_AMDeleteClanEventResponse'', 4020),
    (''EMsg_AMSetClanPermissionSettings'', 4021),
    (''EMsg_AMSetClanPermissionSettingsResponse'', 4022),
    (''EMsg_AMGetClanPermissionSettings'', 4023),
    (''EMsg_AMGetClanPermissionSettingsResponse'', 4024),
    (''EMsg_AMPublishChatRoomInfo'', 4025),
    (''EMsg_ClientChatRoomInfo'', 4026),
    (''EMsg_AMGetClanHistory'', 4039),
    (''EMsg_AMGetClanHistoryResponse'', 4040),
    (''EMsg_AMGetClanPermissionBits'', 4041),
    (''EMsg_AMGetClanPermissionBitsResponse'', 4042),
    (''EMsg_AMSetClanPermissionBits'', 4043),
    (''EMsg_AMSetClanPermissionBitsResponse'', 4044),
    (''EMsg_AMSessionInfoRequest'', 4045),
    (''EMsg_AMSessionInfoResponse'', 4046),
    (''EMsg_AMValidateWGToken'', 4047),
    (''EMsg_AMGetSingleClanEvent'', 4048),
    (''EMsg_AMGetSingleClanEventResponse'', 4049),
    (''EMsg_AMGetClanRank'', 4050),
    (''EMsg_AMGetClanRankResponse'', 4051),
    (''EMsg_AMSetClanRank'', 4052),
    (''EMsg_AMSetClanRankResponse'', 4053),
    (''EMsg_AMGetClanPOTW'', 4054),
    (''EMsg_AMGetClanPOTWResponse'', 4055),
    (''EMsg_AMSetClanPOTW'', 4056),
    (''EMsg_AMSetClanPOTWResponse'', 4057),
    (''EMsg_AMDumpUser'', 4059),
    (''EMsg_AMKickUserFromClan'', 4060),
    (''EMsg_AMAddFounderToClan'', 4061),
    (''EMsg_AMValidateWGTokenResponse'', 4062),
    (''EMsg_AMSetCommunityState'', 4063),
    (''EMsg_AMSetAccountDetails'', 4064),
    (''EMsg_AMGetChatBanList'', 4065),
    (''EMsg_AMGetChatBanListResponse'', 4066),
    (''EMsg_AMUnBanFromChat'', 4067),
    (''EMsg_AMSetClanDetails'', 4068),
    (''EMsg_AMGetAccountLinks'', 4069),
    (''EMsg_AMGetAccountLinksResponse'', 4070),
    (''EMsg_AMSetAccountLinks'', 4071),
    (''EMsg_AMSetAccountLinksResponse'', 4072),
    (''EMsg_AMGetUserGameStats'', 4073),
    (''EMsg_UGSGetUserGameStats'', 4073),
    (''EMsg_AMGetUserGameStatsResponse'', 4074),
    (''EMsg_UGSGetUserGameStatsResponse'', 4074),
    (''EMsg_AMCheckClanMembership'', 4075),
    (''EMsg_AMGetClanMembers'', 4076),
    (''EMsg_AMGetClanMembersResponse'', 4077),
    (''EMsg_AMJoinPublicClan'', 4078),
    (''EMsg_AMNotifyChatOfClanChange'', 4079),
    (''EMsg_AMResubmitPurchase'', 4080),
    (''EMsg_AMAddFriend'', 4081),
    (''EMsg_AMAddFriendResponse'', 4082),
    (''EMsg_AMRemoveFriend'', 4083),
    (''EMsg_AMDumpClan'', 4084),
    (''EMsg_AMChangeClanOwner'', 4085),
    (''EMsg_AMCancelEasyCollect'', 4086),
    (''EMsg_AMCancelEasyCollectResponse'', 4087),
    (''EMsg_AMClansInCommon'', 4090),
    (''EMsg_AMClansInCommonResponse'', 4091),
    (''EMsg_AMIsValidAccountID'', 4092),
    (''EMsg_AMConvertClan'', 4093),
    (''EMsg_AMWipeFriendsList'', 4095),
    (''EMsg_AMSetIgnored'', 4096),
    (''EMsg_AMClansInCommonCountResponse'', 4097),
    (''EMsg_AMFriendsList'', 4098),
    (''EMsg_AMFriendsListResponse'', 4099),
    (''EMsg_AMFriendsInCommon'', 4100),
    (''EMsg_AMFriendsInCommonResponse'', 4101),
    (''EMsg_AMFriendsInCommonCountResponse'', 4102),
    (''EMsg_AMClansInCommonCount'', 4103),
    (''EMsg_AMChallengeVerdict'', 4104),
    (''EMsg_AMChallengeNotification'', 4105)]"

definition EMsg_constants_6 :: "i32 constants" where
  "EMsg_constants_6 = [
    (''EMsg_AMFindGSByIP'', 4106),
    (''EMsg_AMFoundGSByIP'', 4107),
    (''EMsg_AMGiftRevoked'', 4108),
    (''EMsg_AMCreateAccountRecord'', 4109),
    (''EMsg_AMUserClanList'', 4110),
    (''EMsg_AMUserClanListResponse'', 4111),
    (''EMsg_AMGetAccountDetails2'', 4112),
    (''EMsg_AMGetAccountDetailsResponse2'', 4113),
    (''EMsg_AMSetCommunityProfileSettings'', 4114),
    (''EMsg_AMSetCommunityProfileSettingsResponse'', 4115),
    (''EMsg_AMGetCommunityPrivacyState'', 4116),
    (''EMsg_AMGetCommunityPrivacyStateResponse'', 4117),
    (''EMsg_AMCheckClanInviteRateLimiting'', 4118),
    (''EMsg_AMGetUserAchievementStatus'', 4119),
    (''EMsg_UGSGetUserAchievementStatus'', 4119),
    (''EMsg_AMGetIgnored'', 4120),
    (''EMsg_AMGetIgnoredResponse'', 4121),
    (''EMsg_AMSetIgnoredResponse'', 4122),
    (''EMsg_AMSetFriendRelationshipNone'', 4123),
    (''EMsg_AMGetFriendRelationship'', 4124),
    (''EMsg_AMGetFriendRelationshipResponse'', 4125),
    (''EMsg_AMServiceModulesCache'', 4126),
    (''EMsg_AMServiceModulesCall'', 4127),
    (''EMsg_AMServiceModulesCallResponse'', 4128),
    (''EMsg_AMGetCaptchaDataForIP'', 4129),
    (''EMsg_AMGetCaptchaDataForIPResponse'', 4130),
    (''EMsg_AMValidateCaptchaDataForIP'', 4131),
    (''EMsg_AMValidateCaptchaDataForIPResponse'', 4132),
    (''EMsg_AMTrackFailedAuthByIP'', 4133),
    (''EMsg_AMGetCaptchaDataByGID'', 4134),
    (''EMsg_AMGetCaptchaDataByGIDResponse'', 4135),
    (''EMsg_CommunityAddFriendNews'', 4140),
    (''EMsg_AMFindClanUser'', 4143),
    (''EMsg_AMFindClanUserResponse'', 4144),
    (''EMsg_AMBanFromChat'', 4145),
    (''EMsg_AMGetUserNewsSubscriptions'', 4147),
    (''EMsg_AMGetUserNewsSubscriptionsResponse'', 4148),
    (''EMsg_AMSetUserNewsSubscriptions'', 4149),
    (''EMsg_AMSendQueuedEmails'', 4152),
    (''EMsg_AMSetLicenseFlags'', 4153),
    (''EMsg_CommunityDeleteUserNews'', 4155),
    (''EMsg_AMAllowUserFilesRequest'', 4156),
    (''EMsg_AMAllowUserFilesResponse'', 4157),
    (''EMsg_AMGetAccountStatus'', 4158),
    (''EMsg_AMGetAccountStatusResponse'', 4159),
    (''EMsg_AMEditBanReason'', 4160),
    (''EMsg_AMCheckClanMembershipResponse'', 4161),
    (''EMsg_AMProbeClanMembershipList'', 4162),
    (''EMsg_AMProbeClanMembershipListResponse'', 4163),
    (''EMsg_UGSGetUserAchievementStatusResponse'', 4164),
    (''EMsg_AMGetFriendsLobbies'', 4165),
    (''EMsg_AMGetFriendsLobbiesResponse'', 4166),
    (''EMsg_AMGetUserFriendNewsResponse'', 4172),
    (''EMsg_CommunityGetUserFriendNews'', 4173),
    (''EMsg_AMGetUserClansNewsResponse'', 4174),
    (''EMsg_AMGetUserClansNews'', 4175),
    (''EMsg_AMGetPreviousCBAccount'', 4184),
    (''EMsg_AMGetPreviousCBAccountResponse'', 4185),
    (''EMsg_AMGetUserLicenseHistory'', 4190),
    (''EMsg_AMGetUserLicenseHistoryResponse'', 4191),
    (''EMsg_AMSupportChangePassword'', 4194),
    (''EMsg_AMSupportChangeEmail'', 4195),
    (''EMsg_AMResetUserVerificationGSByIP'', 4197),
    (''EMsg_AMUpdateGSPlayStats'', 4198),
    (''EMsg_AMSupportEnableOrDisable'', 4199),
    (''EMsg_AMGetPurchaseStatus'', 4206),
    (''EMsg_AMSupportIsAccountEnabled'', 4209),
    (''EMsg_AMSupportIsAccountEnabledResponse'', 4210),
    (''EMsg_AMGetUserStats'', 4211),
    (''EMsg_UGSGetUserStats'', 4211),
    (''EMsg_AMSupportKickSession'', 4212),
    (''EMsg_AMGSSearch'', 4213),
    (''EMsg_MarketingMessageUpdate'', 4216),
    (''EMsg_AMRouteFriendMsg'', 4219),
    (''EMsg_ChatServerRouteFriendMsg'', 4219),
    (''EMsg_AMTicketAuthRequestOrResponse'', 4220),
    (''EMsg_AMVerifyDepotManagementRights'', 4222),
    (''EMsg_AMVerifyDepotManagementRightsResponse'', 4223),
    (''EMsg_AMAddFreeLicense'', 4224),
    (''EMsg_AMValidateEmailLink'', 4231),
    (''EMsg_AMValidateEmailLinkResponse'', 4232),
    (''EMsg_AMStoreUserStats'', 4236),
    (''EMsg_UGSStoreUserStats'', 4236),
    (''EMsg_AMDeleteStoredCard'', 4241),
    (''EMsg_AMRevokeLegacyGameKeys'', 4242),
    (''EMsg_AMGetWalletDetails'', 4244),
    (''EMsg_AMGetWalletDetailsResponse'', 4245),
    (''EMsg_AMDeleteStoredPaymentInfo'', 4246),
    (''EMsg_AMGetStoredPaymentSummary'', 4247),
    (''EMsg_AMGetStoredPaymentSummaryResponse'', 4248),
    (''EMsg_AMGetWalletConversionRate'', 4249),
    (''EMsg_AMGetWalletConversionRateResponse'', 4250),
    (''EMsg_AMConvertWallet'', 4251),
    (''EMsg_AMConvertWalletResponse'', 4252),
    (''EMsg_AMSetPreApproval'', 4255),
    (''EMsg_AMSetPreApprovalResponse'', 4256),
    (''EMsg_AMCreateRefund'', 4258),
    (''EMsg_AMCreateRefundResponse'', 4259),
    (''EMsg_AMCreateChargeback'', 4260),
    (''EMsg_AMCreateChargebackResponse'', 4261),
    (''EMsg_AMCreateDispute'', 4262),
    (''EMsg_AMCreateDisputeResponse'', 4263),
    (''EMsg_AMClearDispute'', 4264),
    (''EMsg_AMClearDisputeResponse'', 4265),
    (''EMsg_AMCreateFinancialAdjustment'', 4265),
    (''EMsg_AMPlayerNicknameList'', 4266),
    (''EMsg_AMPlayerNicknameListResponse'', 4267),
    (''EMsg_AMSetDRMTestConfig'', 4268),
    (''EMsg_AMGetUserCurrentGameInfo'', 4269),
    (''EMsg_AMGetUserCurrentGameInfoResponse'', 4270),
    (''EMsg_AMGetGSPlayerList'', 4271),
    (''EMsg_AMGetGSPlayerListResponse'', 4272),
    (''EMsg_AMGetGameMembers'', 4276),
    (''EMsg_AMGetGameMembersResponse'', 4277),
    (''EMsg_AMGetSteamIDForMicroTxn'', 4278),
    (''EMsg_AMGetSteamIDForMicroTxnResponse'', 4279),
    (''EMsg_AMAddPublisherUser'', 4280),
    (''EMsg_AMSetPartnerMember'', 4280),
    (''EMsg_AMRemovePublisherUser'', 4281),
    (''EMsg_AMGetUserLicenseList'', 4282),
    (''EMsg_AMGetUserLicenseListResponse'', 4283),
    (''EMsg_AMReloadGameGroupPolicy'', 4284),
    (''EMsg_AMAddFreeLicenseResponse'', 4285),
    (''EMsg_AMVACStatusUpdate'', 4286),
    (''EMsg_AMGetAccountDetails'', 4287),
    (''EMsg_AMGetAccountDetailsResponse'', 4288),
    (''EMsg_AMGetPlayerLinkDetails'', 4289),
    (''EMsg_AMGetPlayerLinkDetailsResponse'', 4290),
    (''EMsg_AMGetAccountFlagsForWGSpoofing'', 4294),
    (''EMsg_AMGetAccountFlagsForWGSpoofingResponse'', 4295),
    (''EMsg_AMGetClanOfficers'', 4298),
    (''EMsg_AMGetClanOfficersResponse'', 4299),
    (''EMsg_AMNameChange'', 4300),
    (''EMsg_AMGetNameHistory'', 4301),
    (''EMsg_AMGetNameHistoryResponse'', 4302),
    (''EMsg_AMUpdateProviderStatus'', 4305),
    (''EMsg_AMSupportRemoveAccountSecurity'', 4307),
    (''EMsg_AMIsAccountInCaptchaGracePeriod'', 4308),
    (''EMsg_AMIsAccountInCaptchaGracePeriodResponse'', 4309),
    (''EMsg_AMAccountPS3Unlink'', 4310),
    (''EMsg_AMAccountPS3UnlinkResponse'', 4311),
    (''EMsg_AMStoreUserStatsResponse'', 4312),
    (''EMsg_UGSStoreUserStatsResponse'', 4312),
    (''EMsg_AMGetAccountPSNInfo'', 4313),
    (''EMsg_AMGetAccountPSNInfoResponse'', 4314)]"

definition EMsg_constants_7 :: "i32 constants" where
  "EMsg_constants_7 = [
    (''EMsg_AMAuthenticatedPlayerList'', 4315),
    (''EMsg_AMGetUserGifts'', 4316),
    (''EMsg_AMGetUserGiftsResponse'', 4317),
    (''EMsg_AMTransferLockedGifts'', 4320),
    (''EMsg_AMTransferLockedGiftsResponse'', 4321),
    (''EMsg_AMPlayerHostedOnGameServer'', 4322),
    (''EMsg_AMGetAccountBanInfo'', 4323),
    (''EMsg_AMGetAccountBanInfoResponse'', 4324),
    (''EMsg_AMRecordBanEnforcement'', 4325),
    (''EMsg_AMRollbackGiftTransfer'', 4326),
    (''EMsg_AMRollbackGiftTransferResponse'', 4327),
    (''EMsg_AMHandlePendingTransaction'', 4328),
    (''EMsg_AMRequestClanDetails'', 4329),
    (''EMsg_AMDeleteStoredPaypalAgreement'', 4330),
    (''EMsg_AMGameServerUpdate'', 4331),
    (''EMsg_AMGameServerRemove'', 4332),
    (''EMsg_AMGetPaypalAgreements'', 4333),
    (''EMsg_AMGetPaypalAgreementsResponse'', 4334),
    (''EMsg_AMGameServerPlayerCompatibilityCheck'', 4335),
    (''EMsg_AMGameServerPlayerCompatibilityCheckResponse'', 4336),
    (''EMsg_AMRenewLicense'', 4337),
    (''EMsg_AMGetAccountCommunityBanInfo'', 4338),
    (''EMsg_AMGetAccountCommunityBanInfoResponse'', 4339),
    (''EMsg_AMGameServerAccountChangePassword'', 4340),
    (''EMsg_AMGameServerAccountDeleteAccount'', 4341),
    (''EMsg_AMRenewAgreement'', 4342),
    (''EMsg_AMXsollaPayment'', 4344),
    (''EMsg_AMXsollaPaymentResponse'', 4345),
    (''EMsg_AMAcctAllowedToPurchase'', 4346),
    (''EMsg_AMAcctAllowedToPurchaseResponse'', 4347),
    (''EMsg_AMSwapKioskDeposit'', 4348),
    (''EMsg_AMSwapKioskDepositResponse'', 4349),
    (''EMsg_AMSetUserGiftUnowned'', 4350),
    (''EMsg_AMSetUserGiftUnownedResponse'', 4351),
    (''EMsg_AMClaimUnownedUserGift'', 4352),
    (''EMsg_AMClaimUnownedUserGiftResponse'', 4353),
    (''EMsg_AMSetClanName'', 4354),
    (''EMsg_AMSetClanNameResponse'', 4355),
    (''EMsg_AMGrantCoupon'', 4356),
    (''EMsg_AMGrantCouponResponse'', 4357),
    (''EMsg_AMIsPackageRestrictedInUserCountry'', 4358),
    (''EMsg_AMIsPackageRestrictedInUserCountryResponse'', 4359),
    (''EMsg_AMHandlePendingTransactionResponse'', 4360),
    (''EMsg_AMGrantGuestPasses2'', 4361),
    (''EMsg_AMGrantGuestPasses2Response'', 4362),
    (''EMsg_AMSessionQuery'', 4363),
    (''EMsg_AMSessionQueryResponse'', 4364),
    (''EMsg_AMGetPlayerBanDetails'', 4365),
    (''EMsg_AMGetPlayerBanDetailsResponse'', 4366),
    (''EMsg_AMFinalizePurchase'', 4367),
    (''EMsg_AMFinalizePurchaseResponse'', 4368),
    (''EMsg_AMPersonaChangeResponse'', 4372),
    (''EMsg_AMGetClanDetailsForForumCreation'', 4373),
    (''EMsg_AMGetClanDetailsForForumCreationResponse'', 4374),
    (''EMsg_AMGetPendingNotificationCount'', 4375),
    (''EMsg_AMGetPendingNotificationCountResponse'', 4376),
    (''EMsg_AMPasswordHashUpgrade'', 4377),
    (''EMsg_AMMoPayPayment'', 4378),
    (''EMsg_AMMoPayPaymentResponse'', 4379),
    (''EMsg_AMBoaCompraPayment'', 4380),
    (''EMsg_AMBoaCompraPaymentResponse'', 4381),
    (''EMsg_AMExpireCaptchaByGID'', 4382),
    (''EMsg_AMCompleteExternalPurchase'', 4383),
    (''EMsg_AMCompleteExternalPurchaseResponse'', 4384),
    (''EMsg_AMResolveNegativeWalletCredits'', 4385),
    (''EMsg_AMResolveNegativeWalletCreditsResponse'', 4386),
    (''EMsg_AMPayelpPayment'', 4387),
    (''EMsg_AMPayelpPaymentResponse'', 4388),
    (''EMsg_AMPlayerGetClanBasicDetails'', 4389),
    (''EMsg_AMPlayerGetClanBasicDetailsResponse'', 4390),
    (''EMsg_AMMOLPayment'', 4391),
    (''EMsg_AMMOLPaymentResponse'', 4392),
    (''EMsg_GetUserIPCountry'', 4393),
    (''EMsg_GetUserIPCountryResponse'', 4394),
    (''EMsg_NotificationOfSuspiciousActivity'', 4395),
    (''EMsg_AMDegicaPayment'', 4396),
    (''EMsg_AMDegicaPaymentResponse'', 4397),
    (''EMsg_AMEClubPayment'', 4398),
    (''EMsg_AMEClubPaymentResponse'', 4399),
    (''EMsg_AMPayPalPaymentsHubPayment'', 4400),
    (''EMsg_AMPayPalPaymentsHubPaymentResponse'', 4401),
    (''EMsg_AMTwoFactorRecoverAuthenticatorRequest'', 4402),
    (''EMsg_AMTwoFactorRecoverAuthenticatorResponse'', 4403),
    (''EMsg_AMSmart2PayPayment'', 4404),
    (''EMsg_AMSmart2PayPaymentResponse'', 4405),
    (''EMsg_AMValidatePasswordResetCodeAndSendSmsRequest'', 4406),
    (''EMsg_AMValidatePasswordResetCodeAndSendSmsResponse'', 4407),
    (''EMsg_AMGetAccountResetDetailsRequest'', 4408),
    (''EMsg_AMGetAccountResetDetailsResponse'', 4409),
    (''EMsg_AMBitPayPayment'', 4410),
    (''EMsg_AMBitPayPaymentResponse'', 4411),
    (''EMsg_AMSendAccountInfoUpdate'', 4412),
    (''EMsg_AMSendScheduledGift'', 4413),
    (''EMsg_AMNodwinPayment'', 4414),
    (''EMsg_AMNodwinPaymentResponse'', 4415),
    (''EMsg_AMResolveWalletRevoke'', 4416),
    (''EMsg_AMResolveWalletReverseRevoke'', 4417),
    (''EMsg_AMFundedPayment'', 4418),
    (''EMsg_AMFundedPaymentResponse'', 4419),
    (''EMsg_AMRequestPersonaUpdateForChatServer'', 4420),
    (''EMsg_AMPerfectWorldPayment'', 4421),
    (''EMsg_AMPerfectWorldPaymentResponse'', 4422),
    (''EMsg_BasePSRange'', 5000),
    (''EMsg_PSCreateShoppingCart'', 5001),
    (''EMsg_PSCreateShoppingCartResponse'', 5002),
    (''EMsg_PSIsValidShoppingCart'', 5003),
    (''EMsg_PSIsValidShoppingCartResponse'', 5004),
    (''EMsg_PSAddPackageToShoppingCart'', 5005),
    (''EMsg_PSAddPackageToShoppingCartResponse'', 5006),
    (''EMsg_PSRemoveLineItemFromShoppingCart'', 5007),
    (''EMsg_PSRemoveLineItemFromShoppingCartResponse'', 5008),
    (''EMsg_PSGetShoppingCartContents'', 5009),
    (''EMsg_PSGetShoppingCartContentsResponse'', 5010),
    (''EMsg_PSAddWalletCreditToShoppingCart'', 5011),
    (''EMsg_PSAddWalletCreditToShoppingCartResponse'', 5012),
    (''EMsg_BaseUFSRange'', 5200),
    (''EMsg_ClientUFSUploadFileRequest'', 5202),
    (''EMsg_ClientUFSUploadFileResponse'', 5203),
    (''EMsg_ClientUFSUploadFileChunk'', 5204),
    (''EMsg_ClientUFSUploadFileFinished'', 5205),
    (''EMsg_ClientUFSGetFileListForApp'', 5206),
    (''EMsg_ClientUFSGetFileListForAppResponse'', 5207),
    (''EMsg_ClientUFSDownloadRequest'', 5210),
    (''EMsg_ClientUFSDownloadResponse'', 5211),
    (''EMsg_ClientUFSDownloadChunk'', 5212),
    (''EMsg_ClientUFSLoginRequest'', 5213),
    (''EMsg_ClientUFSLoginResponse'', 5214),
    (''EMsg_UFSReloadPartitionInfo'', 5215),
    (''EMsg_ClientUFSTransferHeartbeat'', 5216),
    (''EMsg_UFSSynchronizeFile'', 5217),
    (''EMsg_UFSSynchronizeFileResponse'', 5218),
    (''EMsg_ClientUFSDeleteFileRequest'', 5219),
    (''EMsg_ClientUFSDeleteFileResponse'', 5220),
    (''EMsg_ClientUFSGetUGCDetails'', 5226),
    (''EMsg_ClientUFSGetUGCDetailsResponse'', 5227),
    (''EMsg_UFSUpdateFileFlags'', 5228),
    (''EMsg_UFSUpdateFileFlagsResponse'', 5229),
    (''EMsg_ClientUFSGetSingleFileInfo'', 5230),
    (''EMsg_ClientUFSGetSingleFileInfoResponse'', 5231),
    (''EMsg_ClientUFSShareFile'', 5232),
    (''EMsg_ClientUFSShareFileResponse'', 5233),
    (''EMsg_UFSReloadAccount'', 5234),
    (''EMsg_UFSReloadAccountResponse'', 5235),
    (''EMsg_UFSUpdateRecordBatched'', 5236),
    (''EMsg_UFSUpdateRecordBatchedResponse'', 5237)]"

definition EMsg_constants_8 :: "i32 constants" where
  "EMsg_constants_8 = [
    (''EMsg_UFSMigrateFile'', 5238),
    (''EMsg_UFSMigrateFileResponse'', 5239),
    (''EMsg_UFSGetUGCURLs'', 5240),
    (''EMsg_UFSGetUGCURLsResponse'', 5241),
    (''EMsg_UFSHttpUploadFileFinishRequest'', 5242),
    (''EMsg_UFSHttpUploadFileFinishResponse'', 5243),
    (''EMsg_UFSDownloadStartRequest'', 5244),
    (''EMsg_UFSDownloadStartResponse'', 5245),
    (''EMsg_UFSDownloadChunkRequest'', 5246),
    (''EMsg_UFSDownloadChunkResponse'', 5247),
    (''EMsg_UFSDownloadFinishRequest'', 5248),
    (''EMsg_UFSDownloadFinishResponse'', 5249),
    (''EMsg_UFSFlushURLCache'', 5250),
    (''EMsg_UFSUploadCommit'', 5251),
    (''EMsg_ClientUFSUploadCommit'', 5251),
    (''EMsg_UFSUploadCommitResponse'', 5252),
    (''EMsg_ClientUFSUploadCommitResponse'', 5252),
    (''EMsg_UFSMigrateFileAppID'', 5253),
    (''EMsg_UFSMigrateFileAppIDResponse'', 5254),
    (''EMsg_BaseClient2'', 5400),
    (''EMsg_ClientRequestForgottenPasswordEmail'', 5401),
    (''EMsg_ClientRequestForgottenPasswordEmailResponse'', 5402),
    (''EMsg_ClientCreateAccountResponse'', 5403),
    (''EMsg_ClientResetForgottenPassword'', 5404),
    (''EMsg_ClientResetForgottenPasswordResponse'', 5405),
    (''EMsg_ClientCreateAccount2'', 5406),
    (''EMsg_ClientInformOfResetForgottenPassword'', 5407),
    (''EMsg_ClientInformOfResetForgottenPasswordResponse'', 5408),
    (''EMsg_ClientGamesPlayedWithDataBlob'', 5410),
    (''EMsg_ClientUpdateUserGameInfo'', 5411),
    (''EMsg_ClientFileToDownload'', 5412),
    (''EMsg_ClientFileToDownloadResponse'', 5413),
    (''EMsg_ClientLBSSetScore'', 5414),
    (''EMsg_ClientLBSSetScoreResponse'', 5415),
    (''EMsg_ClientLBSFindOrCreateLB'', 5416),
    (''EMsg_ClientLBSFindOrCreateLBResponse'', 5417),
    (''EMsg_ClientLBSGetLBEntries'', 5418),
    (''EMsg_ClientLBSGetLBEntriesResponse'', 5419),
    (''EMsg_ClientChatDeclined'', 5426),
    (''EMsg_ClientFriendMsgIncoming'', 5427),
    (''EMsg_ClientTicketAuthComplete'', 5429),
    (''EMsg_ClientIsLimitedAccount'', 5430),
    (''EMsg_ClientRequestAuthList'', 5431),
    (''EMsg_ClientAuthList'', 5432),
    (''EMsg_ClientStat'', 5433),
    (''EMsg_ClientP2PConnectionInfo'', 5434),
    (''EMsg_ClientP2PConnectionFailInfo'', 5435),
    (''EMsg_ClientGetDepotDecryptionKey'', 5438),
    (''EMsg_ClientGetDepotDecryptionKeyResponse'', 5439),
    (''EMsg_GSPerformHardwareSurvey'', 5440),
    (''EMsg_ClientEnableTestLicense'', 5443),
    (''EMsg_ClientEnableTestLicenseResponse'', 5444),
    (''EMsg_ClientDisableTestLicense'', 5445),
    (''EMsg_ClientDisableTestLicenseResponse'', 5446),
    (''EMsg_ClientRequestValidationMail'', 5448),
    (''EMsg_ClientRequestValidationMailResponse'', 5449),
    (''EMsg_ClientCheckAppBetaPassword'', 5450),
    (''EMsg_ClientCheckAppBetaPasswordResponse'', 5451),
    (''EMsg_ClientToGC'', 5452),
    (''EMsg_ClientFromGC'', 5453),
    (''EMsg_ClientRequestChangeMail'', 5454),
    (''EMsg_ClientRequestChangeMailResponse'', 5455),
    (''EMsg_ClientEmailAddrInfo'', 5456),
    (''EMsg_ClientPasswordChange3'', 5457),
    (''EMsg_ClientEmailChange3'', 5458),
    (''EMsg_ClientPersonalQAChange3'', 5459),
    (''EMsg_ClientResetForgottenPassword3'', 5460),
    (''EMsg_ClientRequestForgottenPasswordEmail3'', 5461),
    (''EMsg_ClientNewLoginKey'', 5463),
    (''EMsg_ClientNewLoginKeyAccepted'', 5464),
    (''EMsg_ClientStoreUserStats2'', 5466),
    (''EMsg_ClientStatsUpdated'', 5467),
    (''EMsg_ClientActivateOEMLicense'', 5468),
    (''EMsg_ClientRegisterOEMMachine'', 5469),
    (''EMsg_ClientRegisterOEMMachineResponse'', 5470),
    (''EMsg_ClientRequestedClientStats'', 5480),
    (''EMsg_ClientStat2Int32'', 5481),
    (''EMsg_ClientStat2'', 5482),
    (''EMsg_ClientVerifyPassword'', 5483),
    (''EMsg_ClientVerifyPasswordResponse'', 5484),
    (''EMsg_ClientDRMDownloadRequest'', 5485),
    (''EMsg_ClientDRMDownloadResponse'', 5486),
    (''EMsg_ClientDRMFinalResult'', 5487),
    (''EMsg_ClientGetFriendsWhoPlayGame'', 5488),
    (''EMsg_ClientGetFriendsWhoPlayGameResponse'', 5489),
    (''EMsg_ClientOGSBeginSession'', 5490),
    (''EMsg_ClientOGSBeginSessionResponse'', 5491),
    (''EMsg_ClientOGSEndSession'', 5492),
    (''EMsg_ClientOGSEndSessionResponse'', 5493),
    (''EMsg_ClientOGSWriteRow'', 5494),
    (''EMsg_ClientDRMTest'', 5495),
    (''EMsg_ClientDRMTestResult'', 5496),
    (''EMsg_ClientServerUnavailable'', 5500),
    (''EMsg_ClientServersAvailable'', 5501),
    (''EMsg_ClientRegisterAuthTicketWithCM'', 5502),
    (''EMsg_ClientGCMsgFailed'', 5503),
    (''EMsg_ClientMicroTxnAuthRequest'', 5504),
    (''EMsg_ClientMicroTxnAuthorize'', 5505),
    (''EMsg_ClientMicroTxnAuthorizeResponse'', 5506),
    (''EMsg_ClientAppMinutesPlayedData'', 5507),
    (''EMsg_ClientGetMicroTxnInfo'', 5508),
    (''EMsg_ClientGetMicroTxnInfoResponse'', 5509),
    (''EMsg_ClientMarketingMessageUpdate2'', 5510),
    (''EMsg_ClientDeregisterWithServer'', 5511),
    (''EMsg_ClientSubscribeToPersonaFeed'', 5512),
    (''EMsg_ClientLogon'', 5514),
    (''EMsg_ClientGetClientDetails'', 5515),
    (''EMsg_ClientGetClientDetailsResponse'', 5516),
    (''EMsg_ClientReportOverlayDetourFailure'', 5517),
    (''EMsg_ClientGetClientAppList'', 5518),
    (''EMsg_ClientGetClientAppListResponse'', 5519),
    (''EMsg_ClientInstallClientApp'', 5520),
    (''EMsg_ClientInstallClientAppResponse'', 5521),
    (''EMsg_ClientUninstallClientApp'', 5522),
    (''EMsg_ClientUninstallClientAppResponse'', 5523),
    (''EMsg_ClientSetClientAppUpdateState'', 5524),
    (''EMsg_ClientSetClientAppUpdateStateResponse'', 5525),
    (''EMsg_ClientRequestEncryptedAppTicket'', 5526),
    (''EMsg_ClientRequestEncryptedAppTicketResponse'', 5527),
    (''EMsg_ClientWalletInfoUpdate'', 5528),
    (''EMsg_ClientLBSSetUGC'', 5529),
    (''EMsg_ClientLBSSetUGCResponse'', 5530),
    (''EMsg_ClientAMGetClanOfficers'', 5531),
    (''EMsg_ClientAMGetClanOfficersResponse'', 5532),
    (''EMsg_ClientFriendProfileInfo'', 5535),
    (''EMsg_ClientFriendProfileInfoResponse'', 5536),
    (''EMsg_ClientUpdateMachineAuth'', 5537),
    (''EMsg_ClientUpdateMachineAuthResponse'', 5538),
    (''EMsg_ClientReadMachineAuth'', 5539),
    (''EMsg_ClientReadMachineAuthResponse'', 5540),
    (''EMsg_ClientRequestMachineAuth'', 5541),
    (''EMsg_ClientRequestMachineAuthResponse'', 5542),
    (''EMsg_ClientScreenshotsChanged'', 5543),
    (''EMsg_ClientEmailChange4'', 5544),
    (''EMsg_ClientEmailChangeResponse4'', 5545),
    (''EMsg_ClientGetCDNAuthToken'', 5546),
    (''EMsg_ClientGetCDNAuthTokenResponse'', 5547),
    (''EMsg_ClientDownloadRateStatistics'', 5548),
    (''EMsg_ClientRequestAccountData'', 5549),
    (''EMsg_ClientRequestAccountDataResponse'', 5550),
    (''EMsg_ClientResetForgottenPassword4'', 5551),
    (''EMsg_ClientHideFriend'', 5552),
    (''EMsg_ClientFriendsGroupsList'', 5553),
    (''EMsg_ClientGetClanActivityCounts'', 5554),
    (''EMsg_ClientGetClanActivityCountsResponse'', 5555)]"

definition EMsg_constants_9 :: "i32 constants" where
  "EMsg_constants_9 = [
    (''EMsg_ClientOGSReportString'', 5556),
    (''EMsg_ClientOGSReportBug'', 5557),
    (''EMsg_ClientSentLogs'', 5558),
    (''EMsg_ClientLogonGameServer'', 5559),
    (''EMsg_AMClientCreateFriendsGroup'', 5560),
    (''EMsg_AMClientCreateFriendsGroupResponse'', 5561),
    (''EMsg_AMClientDeleteFriendsGroup'', 5562),
    (''EMsg_AMClientDeleteFriendsGroupResponse'', 5563),
    (''EMsg_AMClientRenameFriendsGroup'', 5564),
    (''EMsg_AMClientManageFriendsGroup'', 5564),
    (''EMsg_AMClientRenameFriendsGroupResponse'', 5565),
    (''EMsg_AMClientManageFriendsGroupResponse'', 5565),
    (''EMsg_AMClientAddFriendToGroup'', 5566),
    (''EMsg_AMClientAddFriendToGroupResponse'', 5567),
    (''EMsg_AMClientRemoveFriendFromGroup'', 5568),
    (''EMsg_AMClientRemoveFriendFromGroupResponse'', 5569),
    (''EMsg_ClientAMGetPersonaNameHistory'', 5570),
    (''EMsg_ClientAMGetPersonaNameHistoryResponse'', 5571),
    (''EMsg_ClientRequestFreeLicense'', 5572),
    (''EMsg_ClientRequestFreeLicenseResponse'', 5573),
    (''EMsg_ClientDRMDownloadRequestWithCrashData'', 5574),
    (''EMsg_ClientAuthListAck'', 5575),
    (''EMsg_ClientItemAnnouncements'', 5576),
    (''EMsg_ClientRequestItemAnnouncements'', 5577),
    (''EMsg_ClientFriendMsgEchoToSender'', 5578),
    (''EMsg_ClientOGSGameServerPingSample'', 5581),
    (''EMsg_ClientCommentNotifications'', 5582),
    (''EMsg_ClientRequestCommentNotifications'', 5583),
    (''EMsg_ClientPersonaChangeResponse'', 5584),
    (''EMsg_ClientRequestWebAPIAuthenticateUserNonce'', 5585),
    (''EMsg_ClientRequestWebAPIAuthenticateUserNonceResponse'', 5586),
    (''EMsg_ClientPlayerNicknameList'', 5587),
    (''EMsg_AMClientSetPlayerNickname'', 5588),
    (''EMsg_AMClientSetPlayerNicknameResponse'', 5589),
    (''EMsg_ClientCreateAccountProto'', 5590),
    (''EMsg_ClientCreateAccountProtoResponse'', 5591),
    (''EMsg_ClientGetNumberOfCurrentPlayersDP'', 5592),
    (''EMsg_ClientGetNumberOfCurrentPlayersDPResponse'', 5593),
    (''EMsg_ClientServiceMethod'', 5594),
    (''EMsg_ClientServiceMethodLegacy'', 5594),
    (''EMsg_ClientServiceMethodResponse'', 5595),
    (''EMsg_ClientServiceMethodLegacyResponse'', 5595),
    (''EMsg_ClientFriendUserStatusPublished'', 5596),
    (''EMsg_ClientCurrentUIMode'', 5597),
    (''EMsg_ClientVanityURLChangedNotification'', 5598),
    (''EMsg_ClientUserNotifications'', 5599),
    (''EMsg_BaseDFS'', 5600),
    (''EMsg_DFSGetFile'', 5601),
    (''EMsg_DFSInstallLocalFile'', 5602),
    (''EMsg_DFSConnection'', 5603),
    (''EMsg_DFSConnectionReply'', 5604),
    (''EMsg_ClientDFSAuthenticateRequest'', 5605),
    (''EMsg_ClientDFSAuthenticateResponse'', 5606),
    (''EMsg_ClientDFSEndSession'', 5607),
    (''EMsg_DFSPurgeFile'', 5608),
    (''EMsg_DFSRouteFile'', 5609),
    (''EMsg_DFSGetFileFromServer'', 5610),
    (''EMsg_DFSAcceptedResponse'', 5611),
    (''EMsg_DFSRequestPingback'', 5612),
    (''EMsg_DFSRecvTransmitFile'', 5613),
    (''EMsg_DFSSendTransmitFile'', 5614),
    (''EMsg_DFSRequestPingback2'', 5615),
    (''EMsg_DFSResponsePingback2'', 5616),
    (''EMsg_ClientDFSDownloadStatus'', 5617),
    (''EMsg_DFSStartTransfer'', 5618),
    (''EMsg_DFSTransferComplete'', 5619),
    (''EMsg_DFSRouteFileResponse'', 5620),
    (''EMsg_ClientNetworkingCertRequest'', 5621),
    (''EMsg_ClientNetworkingCertRequestResponse'', 5622),
    (''EMsg_ClientChallengeRequest'', 5623),
    (''EMsg_ClientChallengeResponse'', 5624),
    (''EMsg_BadgeCraftedNotification'', 5625),
    (''EMsg_ClientNetworkingMobileCertRequest'', 5626),
    (''EMsg_ClientNetworkingMobileCertRequestResponse'', 5627),
    (''EMsg_BaseMDS'', 5800),
    (''EMsg_AMToMDSGetDepotDecryptionKey'', 5812),
    (''EMsg_MDSToAMGetDepotDecryptionKeyResponse'', 5813),
    (''EMsg_MDSContentServerConfigRequest'', 5827),
    (''EMsg_MDSContentServerConfig'', 5828),
    (''EMsg_MDSGetDepotManifest'', 5829),
    (''EMsg_MDSGetDepotManifestResponse'', 5830),
    (''EMsg_MDSGetDepotManifestChunk'', 5831),
    (''EMsg_MDSGetDepotChunk'', 5832),
    (''EMsg_MDSGetDepotChunkResponse'', 5833),
    (''EMsg_MDSGetDepotChunkChunk'', 5834),
    (''EMsg_MDSGetServerListForUser'', 5836),
    (''EMsg_MDSGetServerListForUserResponse'', 5837),
    (''EMsg_MDSToCSFlushChunk'', 5844),
    (''EMsg_MDSMigrateChunk'', 5847),
    (''EMsg_MDSMigrateChunkResponse'', 5848),
    (''EMsg_MDSToCSFlushManifest'', 5849),
    (''EMsg_CSBase'', 6200),
    (''EMsg_CSPing'', 6201),
    (''EMsg_CSPingResponse'', 6202),
    (''EMsg_GMSBase'', 6400),
    (''EMsg_GMSGameServerReplicate'', 6401),
    (''EMsg_ClientGMSServerQuery'', 6403),
    (''EMsg_GMSClientServerQueryResponse'', 6404),
    (''EMsg_AMGMSGameServerUpdate'', 6405),
    (''EMsg_AMGMSGameServerRemove'', 6406),
    (''EMsg_GameServerOutOfDate'', 6407),
    (''EMsg_DeviceAuthorizationBase'', 6500),
    (''EMsg_ClientAuthorizeLocalDeviceRequest'', 6501),
    (''EMsg_ClientAuthorizeLocalDeviceResponse'', 6502),
    (''EMsg_ClientDeauthorizeDeviceRequest'', 6503),
    (''EMsg_ClientDeauthorizeDevice'', 6504),
    (''EMsg_ClientUseLocalDeviceAuthorizations'', 6505),
    (''EMsg_ClientGetAuthorizedDevices'', 6506),
    (''EMsg_ClientGetAuthorizedDevicesResponse'', 6507),
    (''EMsg_AMNotifySessionDeviceAuthorized'', 6508),
    (''EMsg_ClientAuthorizeLocalDeviceNotification'', 6509),
    (''EMsg_MMSBase'', 6600),
    (''EMsg_ClientMMSCreateLobby'', 6601),
    (''EMsg_ClientMMSCreateLobbyResponse'', 6602),
    (''EMsg_ClientMMSJoinLobby'', 6603),
    (''EMsg_ClientMMSJoinLobbyResponse'', 6604),
    (''EMsg_ClientMMSLeaveLobby'', 6605),
    (''EMsg_ClientMMSLeaveLobbyResponse'', 6606),
    (''EMsg_ClientMMSGetLobbyList'', 6607),
    (''EMsg_ClientMMSGetLobbyListResponse'', 6608),
    (''EMsg_ClientMMSSetLobbyData'', 6609),
    (''EMsg_ClientMMSSetLobbyDataResponse'', 6610),
    (''EMsg_ClientMMSGetLobbyData'', 6611),
    (''EMsg_ClientMMSLobbyData'', 6612),
    (''EMsg_ClientMMSSendLobbyChatMsg'', 6613),
    (''EMsg_ClientMMSLobbyChatMsg'', 6614),
    (''EMsg_ClientMMSSetLobbyOwner'', 6615),
    (''EMsg_ClientMMSSetLobbyOwnerResponse'', 6616),
    (''EMsg_ClientMMSSetLobbyGameServer'', 6617),
    (''EMsg_ClientMMSLobbyGameServerSet'', 6618),
    (''EMsg_ClientMMSUserJoinedLobby'', 6619),
    (''EMsg_ClientMMSUserLeftLobby'', 6620),
    (''EMsg_ClientMMSInviteToLobby'', 6621),
    (''EMsg_ClientMMSFlushFrenemyListCache'', 6622),
    (''EMsg_ClientMMSFlushFrenemyListCacheResponse'', 6623),
    (''EMsg_ClientMMSSetLobbyLinked'', 6624),
    (''EMsg_ClientMMSSetRatelimitPolicyOnClient'', 6625),
    (''EMsg_ClientMMSGetLobbyStatus'', 6626),
    (''EMsg_ClientMMSGetLobbyStatusResponse'', 6627),
    (''EMsg_MMSGetLobbyList'', 6628),
    (''EMsg_MMSGetLobbyListResponse'', 6629),
    (''EMsg_NonStdMsgBase'', 6800),
    (''EMsg_NonStdMsgMemcached'', 6801),
    (''EMsg_NonStdMsgHTTPServer'', 6802),
    (''EMsg_NonStdMsgHTTPClient'', 6803)]"

definition EMsg_constants_10 :: "i32 constants" where
  "EMsg_constants_10 = [
    (''EMsg_NonStdMsgWGResponse'', 6804),
    (''EMsg_NonStdMsgPHPSimulator'', 6805),
    (''EMsg_NonStdMsgChase'', 6806),
    (''EMsg_NonStdMsgDFSTransfer'', 6807),
    (''EMsg_NonStdMsgTests'', 6808),
    (''EMsg_NonStdMsgUMQpipeAAPL'', 6809),
    (''EMsg_NonStdMsgSyslog'', 6810),
    (''EMsg_NonStdMsgLogsink'', 6811),
    (''EMsg_NonStdMsgSteam2Emulator'', 6812),
    (''EMsg_NonStdMsgRTMPServer'', 6813),
    (''EMsg_NonStdMsgWebSocket'', 6814),
    (''EMsg_NonStdMsgRedis'', 6815),
    (''EMsg_UDSBase'', 7000),
    (''EMsg_ClientUDSP2PSessionStarted'', 7001),
    (''EMsg_ClientUDSP2PSessionEnded'', 7002),
    (''EMsg_UDSRenderUserAuth'', 7003),
    (''EMsg_UDSRenderUserAuthResponse'', 7004),
    (''EMsg_ClientUDSInviteToGame'', 7005),
    (''EMsg_ClientInviteToGame'', 7005),
    (''EMsg_UDSHasSession'', 7006),
    (''EMsg_UDSHasSessionResponse'', 7007),
    (''EMsg_MPASBase'', 7100),
    (''EMsg_MPASVacBanReset'', 7101),
    (''EMsg_KGSBase'', 7200),
    (''EMsg_UCMBase'', 7300),
    (''EMsg_ClientUCMAddScreenshot'', 7301),
    (''EMsg_ClientUCMAddScreenshotResponse'', 7302),
    (''EMsg_UCMResetCommunityContent'', 7307),
    (''EMsg_UCMResetCommunityContentResponse'', 7308),
    (''EMsg_ClientUCMDeleteScreenshot'', 7309),
    (''EMsg_ClientUCMDeleteScreenshotResponse'', 7310),
    (''EMsg_ClientUCMPublishFile'', 7311),
    (''EMsg_ClientUCMPublishFileResponse'', 7312),
    (''EMsg_ClientUCMDeletePublishedFile'', 7315),
    (''EMsg_ClientUCMDeletePublishedFileResponse'', 7316),
    (''EMsg_ClientUCMEnumerateUserPublishedFiles'', 7317),
    (''EMsg_ClientUCMEnumerateUserPublishedFilesResponse'', 7318),
    (''EMsg_ClientUCMEnumerateUserSubscribedFiles'', 7321),
    (''EMsg_ClientUCMEnumerateUserSubscribedFilesResponse'', 7322),
    (''EMsg_ClientUCMUpdatePublishedFile'', 7325),
    (''EMsg_ClientUCMUpdatePublishedFileResponse'', 7326),
    (''EMsg_UCMUpdatePublishedFile'', 7327),
    (''EMsg_UCMUpdatePublishedFileResponse'', 7328),
    (''EMsg_UCMDeletePublishedFile'', 7329),
    (''EMsg_UCMDeletePublishedFileResponse'', 7330),
    (''EMsg_UCMUpdatePublishedFileStat'', 7331),
    (''EMsg_UCMUpdatePublishedFileBan'', 7332),
    (''EMsg_UCMUpdatePublishedFileBanResponse'', 7333),
    (''EMsg_UCMReloadPublishedFile'', 7337),
    (''EMsg_UCMReloadUserFileListCaches'', 7338),
    (''EMsg_UCMPublishedFileReported'', 7339),
    (''EMsg_UCMUpdatePublishedFileIncompatibleStatus'', 7340),
    (''EMsg_UCMPublishedFilePreviewAdd'', 7341),
    (''EMsg_UCMPublishedFilePreviewAddResponse'', 7342),
    (''EMsg_UCMPublishedFilePreviewRemove'', 7343),
    (''EMsg_UCMPublishedFilePreviewRemoveResponse'', 7344),
    (''EMsg_ClientUCMPublishedFileSubscribed'', 7347),
    (''EMsg_ClientUCMPublishedFileUnsubscribed'', 7348),
    (''EMsg_UCMPublishedFileSubscribed'', 7349),
    (''EMsg_UCMPublishedFileUnsubscribed'', 7350),
    (''EMsg_UCMPublishFile'', 7351),
    (''EMsg_UCMPublishFileResponse'', 7352),
    (''EMsg_UCMPublishedFileChildAdd'', 7353),
    (''EMsg_UCMPublishedFileChildAddResponse'', 7354),
    (''EMsg_UCMPublishedFileChildRemove'', 7355),
    (''EMsg_UCMPublishedFileChildRemoveResponse'', 7356),
    (''EMsg_UCMPublishedFileParentChanged'', 7359),
    (''EMsg_ClientUCMGetPublishedFilesForUser'', 7360),
    (''EMsg_ClientUCMGetPublishedFilesForUserResponse'', 7361),
    (''EMsg_ClientUCMSetUserPublishedFileAction'', 7364),
    (''EMsg_ClientUCMSetUserPublishedFileActionResponse'', 7365),
    (''EMsg_ClientUCMEnumeratePublishedFilesByUserAction'', 7366),
    (''EMsg_ClientUCMEnumeratePublishedFilesByUserActionResponse'', 7367),
    (''EMsg_ClientUCMPublishedFileDeleted'', 7368),
    (''EMsg_UCMGetUserSubscribedFiles'', 7369),
    (''EMsg_UCMGetUserSubscribedFilesResponse'', 7370),
    (''EMsg_UCMFixStatsPublishedFile'', 7371),
    (''EMsg_ClientUCMEnumerateUserSubscribedFilesWithUpdates'', 7378),
    (''EMsg_ClientUCMEnumerateUserSubscribedFilesWithUpdatesResponse'', 7379),
    (''EMsg_UCMPublishedFileContentUpdated'', 7380),
    (''EMsg_UCMPublishedFileUpdated'', 7381),
    (''EMsg_ClientUCMPublishedFileUpdated'', 7381),
    (''EMsg_ClientWorkshopItemChangesRequest'', 7382),
    (''EMsg_ClientWorkshopItemChangesResponse'', 7383),
    (''EMsg_ClientWorkshopItemInfoRequest'', 7384),
    (''EMsg_ClientWorkshopItemInfoResponse'', 7385),
    (''EMsg_FSBase'', 7500),
    (''EMsg_ClientRichPresenceUpload'', 7501),
    (''EMsg_ClientRichPresenceRequest'', 7502),
    (''EMsg_ClientRichPresenceInfo'', 7503),
    (''EMsg_FSRichPresenceRequest'', 7504),
    (''EMsg_FSRichPresenceResponse'', 7505),
    (''EMsg_FSComputeFrenematrix'', 7506),
    (''EMsg_FSComputeFrenematrixResponse'', 7507),
    (''EMsg_FSPlayStatusNotification'', 7508),
    (''EMsg_FSPublishPersonaStatus'', 7509),
    (''EMsg_FSAddOrRemoveFollower'', 7510),
    (''EMsg_FSAddOrRemoveFollowerResponse'', 7511),
    (''EMsg_FSUpdateFollowingList'', 7512),
    (''EMsg_FSCommentNotification'', 7513),
    (''EMsg_FSCommentNotificationViewed'', 7514),
    (''EMsg_ClientFSGetFollowerCount'', 7515),
    (''EMsg_ClientFSGetFollowerCountResponse'', 7516),
    (''EMsg_ClientFSGetIsFollowing'', 7517),
    (''EMsg_ClientFSGetIsFollowingResponse'', 7518),
    (''EMsg_ClientFSEnumerateFollowingList'', 7519),
    (''EMsg_ClientFSEnumerateFollowingListResponse'', 7520),
    (''EMsg_FSGetPendingNotificationCount'', 7521),
    (''EMsg_FSGetPendingNotificationCountResponse'', 7522),
    (''EMsg_ClientFSOfflineMessageNotification'', 7523),
    (''EMsg_ClientFSRequestOfflineMessageCount'', 7524),
    (''EMsg_ClientFSGetFriendMessageHistory'', 7525),
    (''EMsg_ClientFSGetFriendMessageHistoryResponse'', 7526),
    (''EMsg_ClientFSGetFriendMessageHistoryForOfflineMessages'', 7527),
    (''EMsg_ClientChatOfflineMessageNotification'', 7523),
    (''EMsg_ClientChatRequestOfflineMessageCount'', 7524),
    (''EMsg_ClientChatGetFriendMessageHistory'', 7525),
    (''EMsg_ClientChatGetFriendMessageHistoryResponse'', 7526),
    (''EMsg_ClientChatGetFriendMessageHistoryForOfflineMessages'', 7527),
    (''EMsg_ClientFSGetFriendsSteamLevels'', 7528),
    (''EMsg_ClientFSGetFriendsSteamLevelsResponse'', 7529),
    (''EMsg_FSRequestFriendData'', 7530),
    (''EMsg_AMRequestFriendData'', 7530),
    (''EMsg_DRMRange2'', 7600),
    (''EMsg_CEGVersionSetEnableDisableRequest'', 7600),
    (''EMsg_CEGVersionSetEnableDisableResponse'', 7601),
    (''EMsg_CEGPropStatusDRMSRequest'', 7602),
    (''EMsg_CEGPropStatusDRMSResponse'', 7603),
    (''EMsg_CEGWhackFailureReportRequest'', 7604),
    (''EMsg_CEGWhackFailureReportResponse'', 7605),
    (''EMsg_DRMSFetchVersionSet'', 7606),
    (''EMsg_DRMSFetchVersionSetResponse'', 7607),
    (''EMsg_EconBase'', 7700),
    (''EMsg_EconTrading_InitiateTradeRequest'', 7701),
    (''EMsg_EconTrading_InitiateTradeProposed'', 7702),
    (''EMsg_EconTrading_InitiateTradeResponse'', 7703),
    (''EMsg_EconTrading_InitiateTradeResult'', 7704),
    (''EMsg_EconTrading_StartSession'', 7705),
    (''EMsg_EconTrading_CancelTradeRequest'', 7706),
    (''EMsg_EconFlushInventoryCache'', 7707),
    (''EMsg_EconFlushInventoryCacheResponse'', 7708),
    (''EMsg_EconCDKeyProcessTransaction'', 7711),
    (''EMsg_EconCDKeyProcessTransactionResponse'', 7712),
    (''EMsg_EconGetErrorLogs'', 7713),
    (''EMsg_EconGetErrorLogsResponse'', 7714)]"

definition EMsg_constants_11 :: "i32 constants" where
  "EMsg_constants_11 = [
    (''EMsg_RMRange'', 7800),
    (''EMsg_RMTestVerisignOTP'', 7800),
    (''EMsg_RMTestVerisignOTPResponse'', 7801),
    (''EMsg_RMDeleteMemcachedKeys'', 7803),
    (''EMsg_RMRemoteInvoke'', 7804),
    (''EMsg_BadLoginIPList'', 7805),
    (''EMsg_RMMsgTraceAddTrigger'', 7806),
    (''EMsg_RMMsgTraceRemoveTrigger'', 7807),
    (''EMsg_RMMsgTraceEvent'', 7808),
    (''EMsg_UGSBase'', 7900),
    (''EMsg_UGSUpdateGlobalStats'', 7900),
    (''EMsg_ClientUGSGetGlobalStats'', 7901),
    (''EMsg_ClientUGSGetGlobalStatsResponse'', 7902),
    (''EMsg_StoreBase'', 8000),
    (''EMsg_UMQBase'', 8100),
    (''EMsg_UMQLogonRequest'', 8100),
    (''EMsg_UMQLogonResponse'', 8101),
    (''EMsg_UMQLogoffRequest'', 8102),
    (''EMsg_UMQLogoffResponse'', 8103),
    (''EMsg_UMQSendChatMessage'', 8104),
    (''EMsg_UMQIncomingChatMessage'', 8105),
    (''EMsg_UMQPoll'', 8106),
    (''EMsg_UMQPollResults'', 8107),
    (''EMsg_UMQ2AM_ClientMsgBatch'', 8108),
    (''EMsg_WorkshopBase'', 8200),
    (''EMsg_WebAPIBase'', 8300),
    (''EMsg_WebAPIValidateOAuth2Token'', 8300),
    (''EMsg_WebAPIValidateOAuth2TokenResponse'', 8301),
    (''EMsg_WebAPIRegisterGCInterfaces'', 8303),
    (''EMsg_WebAPIInvalidateOAuthClientCache'', 8304),
    (''EMsg_WebAPIInvalidateOAuthTokenCache'', 8305),
    (''EMsg_WebAPISetSecrets'', 8306),
    (''EMsg_BackpackBase'', 8400),
    (''EMsg_BackpackAddToCurrency'', 8401),
    (''EMsg_BackpackAddToCurrencyResponse'', 8402),
    (''EMsg_CREBase'', 8500),
    (''EMsg_CREItemVoteSummary'', 8503),
    (''EMsg_CREItemVoteSummaryResponse'', 8504),
    (''EMsg_CREUpdateUserPublishedItemVote'', 8507),
    (''EMsg_CREUpdateUserPublishedItemVoteResponse'', 8508),
    (''EMsg_CREGetUserPublishedItemVoteDetails'', 8509),
    (''EMsg_CREGetUserPublishedItemVoteDetailsResponse'', 8510),
    (''EMsg_CREEnumeratePublishedFiles'', 8511),
    (''EMsg_CREEnumeratePublishedFilesResponse'', 8512),
    (''EMsg_CREPublishedFileVoteAdded'', 8513),
    (''EMsg_SecretsBase'', 8600),
    (''EMsg_SecretsRequestCredentialPair'', 8600),
    (''EMsg_SecretsCredentialPairResponse'', 8601),
    (''EMsg_BoxMonitorBase'', 8700),
    (''EMsg_BoxMonitorReportRequest'', 8700),
    (''EMsg_BoxMonitorReportResponse'', 8701),
    (''EMsg_LogsinkBase'', 8800),
    (''EMsg_LogsinkWriteReport'', 8800),
    (''EMsg_PICSBase'', 8900),
    (''EMsg_ClientPICSChangesSinceRequest'', 8901),
    (''EMsg_ClientPICSChangesSinceResponse'', 8902),
    (''EMsg_ClientPICSProductInfoRequest'', 8903),
    (''EMsg_ClientPICSProductInfoResponse'', 8904),
    (''EMsg_ClientPICSAccessTokenRequest'', 8905),
    (''EMsg_ClientPICSAccessTokenResponse'', 8906),
    (''EMsg_WorkerProcess'', 9000),
    (''EMsg_WorkerProcessPingRequest'', 9000),
    (''EMsg_WorkerProcessPingResponse'', 9001),
    (''EMsg_WorkerProcessShutdown'', 9002),
    (''EMsg_DRMWorkerProcess'', 9100),
    (''EMsg_DRMWorkerProcessDRMAndSign'', 9100),
    (''EMsg_DRMWorkerProcessDRMAndSignResponse'', 9101),
    (''EMsg_DRMWorkerProcessSteamworksInfoRequest'', 9102),
    (''EMsg_DRMWorkerProcessSteamworksInfoResponse'', 9103),
    (''EMsg_DRMWorkerProcessInstallDRMDLLRequest'', 9104),
    (''EMsg_DRMWorkerProcessInstallDRMDLLResponse'', 9105),
    (''EMsg_DRMWorkerProcessSecretIdStringRequest'', 9106),
    (''EMsg_DRMWorkerProcessSecretIdStringResponse'', 9107),
    (''EMsg_DRMWorkerProcessInstallProcessedFilesRequest'', 9110),
    (''EMsg_DRMWorkerProcessInstallProcessedFilesResponse'', 9111),
    (''EMsg_DRMWorkerProcessExamineBlobRequest'', 9112),
    (''EMsg_DRMWorkerProcessExamineBlobResponse'', 9113),
    (''EMsg_DRMWorkerProcessDescribeSecretRequest'', 9114),
    (''EMsg_DRMWorkerProcessDescribeSecretResponse'', 9115),
    (''EMsg_DRMWorkerProcessBackfillOriginalRequest'', 9116),
    (''EMsg_DRMWorkerProcessBackfillOriginalResponse'', 9117),
    (''EMsg_DRMWorkerProcessValidateDRMDLLRequest'', 9118),
    (''EMsg_DRMWorkerProcessValidateDRMDLLResponse'', 9119),
    (''EMsg_DRMWorkerProcessValidateFileRequest'', 9120),
    (''EMsg_DRMWorkerProcessValidateFileResponse'', 9121),
    (''EMsg_DRMWorkerProcessSplitAndInstallRequest'', 9122),
    (''EMsg_DRMWorkerProcessSplitAndInstallResponse'', 9123),
    (''EMsg_DRMWorkerProcessGetBlobRequest'', 9124),
    (''EMsg_DRMWorkerProcessGetBlobResponse'', 9125),
    (''EMsg_DRMWorkerProcessEvaluateCrashRequest'', 9126),
    (''EMsg_DRMWorkerProcessEvaluateCrashResponse'', 9127),
    (''EMsg_DRMWorkerProcessAnalyzeFileRequest'', 9128),
    (''EMsg_DRMWorkerProcessAnalyzeFileResponse'', 9129),
    (''EMsg_DRMWorkerProcessUnpackBlobRequest'', 9130),
    (''EMsg_DRMWorkerProcessUnpackBlobResponse'', 9131),
    (''EMsg_DRMWorkerProcessInstallAllRequest'', 9132),
    (''EMsg_DRMWorkerProcessInstallAllResponse'', 9133),
    (''EMsg_TestWorkerProcess'', 9200),
    (''EMsg_TestWorkerProcessLoadUnloadModuleRequest'', 9200),
    (''EMsg_TestWorkerProcessLoadUnloadModuleResponse'', 9201),
    (''EMsg_TestWorkerProcessServiceModuleCallRequest'', 9202),
    (''EMsg_TestWorkerProcessServiceModuleCallResponse'', 9203),
    (''EMsg_QuestServerBase'', 9300),
    (''EMsg_ClientGetEmoticonList'', 9330),
    (''EMsg_ClientEmoticonList'', 9331),
    (''EMsg_SLCBase'', 9400),
    (''EMsg_SLCUserSessionStatus'', 9400),
    (''EMsg_SLCRequestUserSessionStatus'', 9401),
    (''EMsg_SLCSharedLicensesLockStatus'', 9402),
    (''EMsg_ClientSharedLibraryLockStatus'', 9405),
    (''EMsg_ClientSharedLibraryStopPlaying'', 9406),
    (''EMsg_SLCOwnerLibraryChanged'', 9407),
    (''EMsg_SLCSharedLibraryChanged'', 9408),
    (''EMsg_RemoteClientBase'', 9500),
    (''EMsg_RemoteClientAuth'', 9500),
    (''EMsg_RemoteClientAuthResponse'', 9501),
    (''EMsg_RemoteClientAppStatus'', 9502),
    (''EMsg_RemoteClientStartStream'', 9503),
    (''EMsg_RemoteClientStartStreamResponse'', 9504),
    (''EMsg_RemoteClientPing'', 9505),
    (''EMsg_RemoteClientPingResponse'', 9506),
    (''EMsg_ClientUnlockStreaming'', 9507),
    (''EMsg_ClientUnlockStreamingResponse'', 9508),
    (''EMsg_RemoteClientAcceptEULA'', 9509),
    (''EMsg_RemoteClientGetControllerConfig'', 9510),
    (''EMsg_RemoteClientGetControllerConfigResposne'', 9511),
    (''EMsg_RemoteClientGetControllerConfigResponse'', 9511),
    (''EMsg_RemoteClientStreamingEnabled'', 9512),
    (''EMsg_ClientUnlockHEVC'', 9513),
    (''EMsg_ClientUnlockHEVCResponse'', 9514),
    (''EMsg_RemoteClientStatusRequest'', 9515),
    (''EMsg_RemoteClientStatusResponse'', 9516),
    (''EMsg_ClientConcurrentSessionsBase'', 9600),
    (''EMsg_ClientPlayingSessionState'', 9600),
    (''EMsg_ClientKickPlayingSession'', 9601),
    (''EMsg_ClientBroadcastBase'', 9700),
    (''EMsg_ClientBroadcastInit'', 9700),
    (''EMsg_ClientBroadcastFrames'', 9701),
    (''EMsg_ClientBroadcastDisconnect'', 9702),
    (''EMsg_ClientBroadcastScreenshot'', 9703),
    (''EMsg_ClientBroadcastUploadConfig'', 9704),
    (''EMsg_BaseClient3'', 9800),
    (''EMsg_ClientVoiceCallPreAuthorize'', 9800),
    (''EMsg_ClientVoiceCallPreAuthorizeResponse'', 9801),
    (''EMsg_ClientServerTimestampRequest'', 9802)]"

definition EMsg_constants_12 :: "i32 constants" where
  "EMsg_constants_12 = [
    (''EMsg_ClientServerTimestampResponse'', 9803),
    (''EMsg_ClientLANP2PBase'', 9900),
    (''EMsg_ClientLANP2PRequestChunk'', 9900),
    (''EMsg_ClientLANP2PRequestChunkResponse'', 9901),
    (''EMsg_ClientLANP2PMax'', 9999),
    (''EMsg_BaseWatchdogServer'', 10000),
    (''EMsg_NotifyWatchdog'', 10000),
    (''EMsg_ClientSiteLicenseBase'', 10100),
    (''EMsg_ClientSiteLicenseSiteInfoNotification'', 10100),
    (''EMsg_ClientSiteLicenseCheckout'', 10101),
    (''EMsg_ClientSiteLicenseCheckoutResponse'', 10102),
    (''EMsg_ClientSiteLicenseGetAvailableSeats'', 10103),
    (''EMsg_ClientSiteLicenseGetAvailableSeatsResponse'', 10104),
    (''EMsg_ClientSiteLicenseGetContentCacheInfo'', 10105),
    (''EMsg_ClientSiteLicenseGetContentCacheInfoResponse'', 10106),
    (''EMsg_BaseChatServer'', 12000),
    (''EMsg_ChatServerGetPendingNotificationCount'', 12000),
    (''EMsg_ChatServerGetPendingNotificationCountResponse'', 12001),
    (''EMsg_BaseSecretServer'', 12100),
    (''EMsg_ServerSecretChanged'', 12100)]"

definition EMsg_constants :: "i32 constants" where
  "EMsg_constants = EMsg_constants_1 @
    EMsg_constants_2 @
    EMsg_constants_3 @
    EMsg_constants_4 @
    EMsg_constants_5 @
    EMsg_constants_6 @
    EMsg_constants_7 @
    EMsg_constants_8 @
    EMsg_constants_9 @
    EMsg_constants_10 @
    EMsg_constants_11 @
    EMsg_constants_12"

end
