(* ===== verification/Generator.thy ===== *)
theory Generator
  imports Go_Files
begin

text \<open>
  \<open>generator/generator.go\<close>: the program that produces the protobuf and enum files of the repository. The disk, the
  listing of a directory tree, the compilers that are started and the parser of Go's import lists are a \<open>Host\<close>; the
  order in which Go walks through the tables of files is an argument.
\<close>

section \<open>Quoted output\<close>

text \<open>
  \<open>quotedWriter\<close>: a writer puts a text to its state and returns how much it has taken and an error. \<open>n\<close> counts what has
  been taken of \<open>p\<close>, without the quotes; a slice \<open>p[n:i+1]\<close> with \<open>n > i + 1\<close> panics.
\<close>

type_synonym 's writer = "string \<Rightarrow> 's \<Rightarrow> nat \<times> go_err option \<times> 's"

definition quote_mark :: string where "quote_mark = ''> ''"

definition qw_rest :: "'s writer \<Rightarrow> string \<Rightarrow> nat \<Rightarrow> 's \<Rightarrow> (nat \<times> go_err option \<times> 's) res" where
  "qw_rest w p n s =
     (if n = length p then Ok (n, None, s)
      else if n > length p then Panic ''slice bounds out of range''
      else case w (drop n p) s of (nw, err, s) \<Rightarrow> Ok (n + nw, err, s))"

function qw_loop :: "'s writer \<Rightarrow> string \<Rightarrow> nat \<Rightarrow> nat \<Rightarrow> 's \<Rightarrow> (nat \<times> go_err option \<times> 's) res" where
  "qw_loop w p i n s =
     (if i \<ge> length p then qw_rest w p n s
      else if p ! i \<noteq> newline then qw_loop w p (i + 1) n s
      else if n > i + 1 then Panic ''slice bounds out of range''
      else (case w (take (i + 1 - n) (drop n p)) s of
          (nw, Some err, s) \<Rightarrow> Ok (n + nw, Some err, s)
        | (nw, None, s) \<Rightarrow> (case w quote_mark s of
              (_, Some err, s) \<Rightarrow> Ok (n + nw, Some err, s)
            | (_, None, s) \<Rightarrow> qw_loop w p (i + 1) (n + nw) s)))"
  by pat_completeness auto
termination by (relation "measure (\<lambda>(w, p, i, n, s). length p - i)") auto

declare qw_loop.simps [simp del]

text \<open>The flag says whether the writer has started.\<close>

definition qw_Write :: "'s writer \<Rightarrow> string \<Rightarrow> bool \<Rightarrow> 's \<Rightarrow> ((nat \<times> go_err option) \<times> bool \<times> 's) res" where
  "qw_Write w p started s =
     (if started then map_res (\<lambda>(n, err, s). ((n, err), True, s)) (qw_loop w p 0 0 s)
      else (case w quote_mark s of
          (_, Some err, s) \<Rightarrow> Ok ((0, Some err), False, s)
        | (_, None, s) \<Rightarrow> map_res (\<lambda>(n, err, s). ((n, err), True, s)) (qw_loop w p 0 0 s)))"

text \<open>A command writes its output in pieces; \<open>io.Copy\<close> gives up at the first error.\<close>

fun qw_all :: "'s writer \<Rightarrow> string list \<Rightarrow> bool \<Rightarrow> 's \<Rightarrow> (go_err option \<times> bool \<times> 's) res" where
  "qw_all w [] started s = Ok (None, started, s)"
| "qw_all w (p # ps) started s = bind_res (qw_Write w p started s) (\<lambda>((n, err), started, s).
     case err of Some e \<Rightarrow> Ok (Some e, started, s) | None \<Rightarrow> qw_all w ps started s)"

definition append_writer :: "string writer" where "append_writer p s = (length p, None, s @ p)"

section \<open>Files by pattern\<close>

text \<open>\<open>filepath.Match\<close> for patterns of plain characters and \<open>*\<close>, which stands for any characters but a slash.\<close>

fun path_match :: "string \<Rightarrow> string \<Rightarrow> bool" where
  "path_match [] s = (s = [])"
| "path_match (p # ps) [] = (p = CHR ''*'' \<and> path_match ps [])"
| "path_match (p # ps) (c # cs) =
     (if p = CHR ''*'' then path_match ps (c # cs) \<or> c \<noteq> CHR ''/'' \<and> path_match (p # ps) cs
      else c = p \<and> path_match ps cs)"

definition RemoveFile :: "string \<Rightarrow> Disk \<Rightarrow> Disk res" where
  "RemoveFile path d = (if disk_files d path = None then Err (GoErr ''remove'') else Ok (d\<lparr>disk_files := (disk_files d)(path := None)\<rparr>))"

definition remove_quietly :: "string \<Rightarrow> Disk \<Rightarrow> Disk" where
  "remove_quietly path d = d\<lparr>disk_files := (disk_files d)(path := None)\<rparr>"

fun remove_each :: "string list \<Rightarrow> Disk \<Rightarrow> Disk res" where
  "remove_each [] d = Ok d"
| "remove_each (p # ps) d = bind_res (must (RemoveFile p d)) (remove_each ps)"

section \<open>The host\<close>

record Host =
  host_paths :: "Disk \<Rightarrow> string list"
  host_dirExists :: "string \<Rightarrow> bool"
  host_MkdirAll :: "string \<Rightarrow> go_err option"
  host_tool :: "string \<Rightarrow> string list \<Rightarrow> Disk \<Rightarrow> Disk \<times> string list \<times> string list \<times> go_err option"
  host_imports :: "string \<Rightarrow> ((string option \<times> string) list, go_err) sum"

record World =
  w_disk :: Disk
  w_stdout :: string
  w_stderr :: string

definition gen_print :: "string \<Rightarrow> World \<Rightarrow> World" where
  "gen_print text w = w\<lparr>w_stdout := w_stdout w @ text @ [newline]\<rparr>"

text \<open>\<open>os.Exit(1)\<close> ends the program, whatever called it.\<close>

definition exit1 :: go_err where "exit1 = GoErr ''exit status 1''"

text \<open>\<open>printCommands\<close> is false and never set. The message before the exit is left out.\<close>

definition execute :: "Host \<Rightarrow> string \<Rightarrow> string list \<Rightarrow> World \<Rightarrow> World res" where
  "execute h command args w = (case host_tool h command args (w_disk w) of (d, outs, errs, err) \<Rightarrow>
     bind_res (qw_all append_writer outs False (w_stdout w)) (\<lambda>(_, _, out).
     bind_res (qw_all append_writer errs False (w_stderr w)) (\<lambda>(_, _, eout).
     let w = \<lparr>w_disk = d, w_stdout = out, w_stderr = eout\<rparr> in
     if err = None then Ok w else Err exit1)))"

definition cleanGlob :: "Host \<Rightarrow> string \<Rightarrow> World \<Rightarrow> World res" where
  "cleanGlob h pattern w =
     map_res (\<lambda>d. w\<lparr>w_disk := d\<rparr>) (remove_each (filter (path_match pattern) (host_paths h (w_disk w))) (w_disk w))"

definition clean :: "Host \<Rightarrow> World \<Rightarrow> World res" where
  "clean h w =
     bind_res (cleanGlob h ''../protocol/**/*.pb.go'' (gen_print ''# Cleaning'' w)) (\<lambda>w.
     bind_res (cleanGlob h ''../tf2/protocol/**/*.pb.go'' w) (\<lambda>w.
     bind_res (cleanGlob h ''../dota/protocol/**/*.pb.go'' w) (\<lambda>w.
     bind_res (cleanGlob h ''../csgo/protocol/**/*.pb.go'' w) (\<lambda>w.
     Ok (w\<lparr>w_disk := remove_quietly ''../protocol/steamlang/messages.go''
       (remove_quietly ''../protocol/steamlang/enums.go'' (w_disk w))\<rparr>)))))"

definition buildSteamLanguage :: "Host \<Rightarrow> World \<Rightarrow> World res" where
  "buildSteamLanguage h w =
     bind_res (execute h ''dotnet'' [''run'', ''-c'', ''release'', ''-p'', ''./GoSteamLanguageGenerator'', ''./SteamKit'',
       ''../protocol/steamlang''] (gen_print ''# Building Steam Language'' w))
     (execute h ''gofmt'' [''-w'', ''../protocol/steamlang/enums.go'', ''../protocol/steamlang/messages.go''])"

section \<open>Protobuf files\<close>

definition clientProtoFiles :: "(string \<times> string) list" where
  "clientProtoFiles = [
    (''steammessages_base.proto'', ''base.pb.go''),
    (''encrypted_app_ticket.proto'', ''app_ticket.pb.go''),
    (''steammessages_clientserver.proto'', ''client_server.pb.go''),
    (''steammessages_clientserver_2.proto'', ''client_server_2.pb.go''),
    (''steammessages_clientserver_friends.proto'', ''client_server_friends.pb.go''),
    (''steammessages_clientserver_login.proto'', ''client_server_login.pb.go''),
    (''steammessages_sitelicenseclient.proto'', ''client_site_license.pb.go''),
    (''content_manifest.proto'', ''content_manifest.pb.go''),
    (''steammessages_unified_base.steamclient.proto'', ''unified/base.pb.go''),
    (''steammessages_cloud.steamclient.proto'', ''unified/cloud.pb.go''),
    (''steammessages_credentials.steamclient.proto'', ''unified/credentials.pb.go''),
    (''steammessages_deviceauth.steamclient.proto'', ''unified/deviceauth.pb.go''),
    (''steammessages_gamenotifications.steamclient.proto'', ''unified/gamenotifications.pb.go''),
    (''steammessages_offline.steamclient.proto'', ''unified/offline.pb.go''),
    (''steammessages_parental.steamclient.proto'', ''unified/parental.pb.go''),
    (''steammessages_partnerapps.steamclient.proto'', ''unified/partnerapps.pb.go''),
    (''steammessages_player.steamclient.proto'', ''unified/player.pb.go''),
    (''steammessages_publishedfile.steamclient.proto'', ''unified/publishedfile.pb.go'')]"

definition tf2ProtoFiles :: "(string \<times> string) list" where
  "tf2ProtoFiles = [
    (''base_gcmessages.proto'', ''base.pb.go''),
    (''econ_gcmessages.proto'', ''econ.pb.go''),
    (''gcsdk_gcmessages.proto'', ''gcsdk.pb.go''),
    (''tf_gcmessages.proto'', ''tf.pb.go''),
    (''gcsystemmsgs.proto'', ''system.pb.go'')]"

definition dotaProtoFiles :: "(string \<times> string) list" where
  "dotaProtoFiles = [
    (''base_gcmessages.proto'', ''base.pb.go''),
    (''econ_shared_enums.proto'', ''econ_shared_enum.pb.go''),
    (''econ_gcmessages.proto'', ''econ.pb.go''),
    (''gcsdk_gcmessages.proto'', ''gcsdk.pb.go''),
    (''gcsystemmsgs.proto'', ''system.pb.go''),
    (''steammessages.proto'', ''steam.pb.go'')]"

definition csgoProtoFiles :: "(string \<times> string) list" where
  "csgoProtoFiles = [
    (''base_gcmessages.proto'', ''base.pb.go''),
    (''cstrike15_gcmessages.proto'', ''cstrike15gc.pb.go''),
    (''cstrike15_usermessages.proto'', ''cstrike15user.pb.go''),
    (''econ_gcmessages.proto'', ''econ.pb.go''),
    (''engine_gcmessages.proto'', ''enginegc.pb.go''),
    (''fatdemo.proto'', ''fatdemo.pb.go''),
    (''gcsdk_gcmessages.proto'', ''gcsdk.pb.go''),
    (''gcsystemmsgs.proto'', ''system.pb.go''),
    (''netmessages.proto'', ''net.pb.go''),
    (''network_connection.proto'', ''networkconnection.pb.go''),
    (''steammessages.proto'', ''steam.pb.go''),
    (''uifontfile_format.proto'', ''uifontfile.pb.go'')]"

definition proto_options :: "string \<Rightarrow> (string \<times> string) list \<Rightarrow> string list" where
  "proto_options srcSubdir files =
     [''--go_opt=Mgoogle/protobuf/descriptor.proto=google/protobuf/descriptor.proto'']
     @ concat (map (\<lambda>(proto, out).
         [''--go_opt=Msteammessages.proto=Protobufs/'' @ srcSubdir @ ''/steammessages.proto'',
          ''--go_opt=M'' @ proto @ ''=Protobufs/'' @ srcSubdir @ ''/'' @ proto]) files)
     @ (if srcSubdir = ''dota2''
        then [''--go_opt=Mecon_shared_enums.proto=Protobufs/'' @ srcSubdir @ ''/econ_shared_enums.proto''] else [])"

text \<open>The directory part of \<open>filepath.Split\<close>, with its slash, and \<open>filepath.Base\<close>.\<close>

definition Split_dir :: "string \<Rightarrow> string" where
  "Split_dir path = rev (dropWhile (\<lambda>c. c \<noteq> CHR ''/'') (rev path))"

definition Base :: "string \<Rightarrow> string" where
  "Base path =
     (let p = rev (dropWhile (\<lambda>c. c = CHR ''/'') (rev path)) in
      if path = [] then ''.'' else if p = [] then ''/'' else rev (takeWhile (\<lambda>c. c \<noteq> CHR ''/'') (rev p)))"

text \<open>\<open>strings.Replace\<close> of the first occurrence and of all.\<close>

fun replace_first :: "string \<Rightarrow> string \<Rightarrow> string \<Rightarrow> string" where
  "replace_first old new [] = []"
| "replace_first old new (c # cs) =
     (case strip old (c # cs) of Some rest \<Rightarrow> new @ rest | None \<Rightarrow> c # replace_first old new cs)"

text \<open>Every match, from the left and without overlaps: \<open>m\<close> gives what stands for a match and the text behind it.\<close>

function replace_matches :: "(string \<Rightarrow> (string \<times> string) option) \<Rightarrow> string \<Rightarrow> string" where
  "replace_matches m s = (case s of [] \<Rightarrow> [] | c # cs \<Rightarrow>
     (case m s of
        Some (new, rest) \<Rightarrow> if length rest < length s then new @ replace_matches m rest else c # replace_matches m cs
      | None \<Rightarrow> c # replace_matches m cs))"
  by pat_completeness auto
termination by (relation "measure (\<lambda>(m, s). length s)") auto

declare replace_matches.simps [simp del]

definition bytes_Replace :: "string \<Rightarrow> string \<Rightarrow> string \<Rightarrow> string" where
  "bytes_Replace old new = replace_matches (\<lambda>s. map_option (Pair new) (strip old s))"

text \<open>The regular expressions of \<open>fixProto\<close>.\<close>

definition unused_import :: "string \<Rightarrow> (string \<times> string) option" where
  "unused_import s = (case strip ''// discarding unused import '' s of
     Some rest \<Rightarrow> (case dropWhile (\<lambda>c. c \<noteq> newline) rest of [] \<Rightarrow> None | _ # rest \<Rightarrow> Some ([], rest))
   | None \<Rightarrow> None)"

definition package_clause :: "string \<Rightarrow> string \<Rightarrow> (string \<times> string) option" where
  "package_clause name s = (case strip ''package '' s of
     Some rest \<Rightarrow> if takeWhile is_word_char rest = [] then None
       else Some (''package '' @ name, dropWhile is_word_char rest)
   | None \<Rightarrow> None)"

definition descriptor_var :: "string \<Rightarrow> string \<Rightarrow> (string \<times> string) option" where
  "descriptor_var filename s = (case strip ''fileDescriptor'' s of
     Some rest \<Rightarrow> if takeWhile is_digit rest = [] then None
       else Some (filename @ ''_fileDescriptor'' @ takeWhile is_digit rest, dropWhile is_digit rest)
   | None \<Rightarrow> None)"

definition contains :: "string \<Rightarrow> string \<Rightarrow> bool" where
  "contains s sub = search (\<lambda>t. strip sub t \<noteq> None) s"

definition inferPackageName :: "string \<Rightarrow> string res" where
  "inferPackageName path =
     (let pieces = split_on CHR ''/'' path in
      if length pieces < 2 then Panic ''index out of range'' else Ok (pieces ! (length pieces - 2)))"

text \<open>The local imports, and taking one of them away; an import without a name is a nil dereference.\<close>

definition local_imports :: "(string option \<times> string) list \<Rightarrow> (string option \<times> string) list" where
  "local_imports imports =
     filter (\<lambda>(name, path). \<not> contains path ''google/protobuf/descriptor.proto'' \<and> contains path ''.proto'') imports"

fun remove_imports :: "(string option \<times> string) list \<Rightarrow> string \<Rightarrow> string res" where
  "remove_imports [] file = Ok file"
| "remove_imports ((None, path) # itrs) file = Panic ''nil dereference''"
| "remove_imports ((Some name, path) # itrs) file =
     remove_imports itrs (bytes_Replace (name @ '' '' @ path) [] (bytes_Replace (name @ ''.'') [] file))"

definition fixProto :: "Host \<Rightarrow> string \<Rightarrow> Disk \<Rightarrow> Disk res" where
  "fixProto h path d =
     bind_res (must (ReadFile path d)) (\<lambda>file.
     case host_imports h file of
       Inr err \<Rightarrow> Panic ''Error parsing''
     | Inl imports \<Rightarrow>
         bind_res (remove_imports (local_imports imports) file) (\<lambda>file.
         bind_res (inferPackageName path) (\<lambda>package.
         let file = replace_matches unused_import file;
             file = replace_matches (package_clause package) file;
             file = bytes_Replace ''google/protobuf/descriptor.proto'' ''google.golang.org/protobuf/types/descriptorpb'' file;
             filename = hd (split_on CHR ''.'' (Base path));
             file = replace_matches (descriptor_var filename) file
         in must (WriteFile path file d))))"

definition forceRename :: "string \<Rightarrow> string \<Rightarrow> Disk \<Rightarrow> Disk res" where
  "forceRename from to d =
     (let d = (if from \<noteq> to then remove_quietly to d else d) in
      case disk_files d from of
        None \<Rightarrow> Err (GoErr ''rename'')
      | Some s \<Rightarrow> Ok (d\<lparr>disk_files := (disk_files d)(from := None, to := Some s)\<rparr>))"

text \<open>\<open>os.RemoveAll\<close>: the file and everything below it.\<close>

definition RemoveAll :: "string \<Rightarrow> Disk \<Rightarrow> Disk" where
  "RemoveAll path d =
     (let p = path_Clean path in
      d\<lparr>disk_files := (\<lambda>f. if f = p \<or> strip (p @ ''/'') f \<noteq> None then None else disk_files d f)\<rparr>)"

definition compile_args :: "Host \<Rightarrow> string \<Rightarrow> string \<Rightarrow> string \<Rightarrow> string \<Rightarrow> string list \<Rightarrow> string list" where
  "compile_args h srcBase srcSubdir proto outDir opts =
     (let local = ''local-protos/'' @ srcSubdir in
      (if host_dirExists h local then [''-I='' @ local] else [])
      @ [''-I='' @ srcBase, ''-I='' @ srcBase @ ''/google'', ''-I='' @ srcBase @ ''/'' @ srcSubdir, ''--go_out='' @ outDir]
      @ opts @ [proto])"

definition compileProto ::
  "Host \<Rightarrow> string \<Rightarrow> string \<Rightarrow> string \<Rightarrow> string \<Rightarrow> string list \<Rightarrow> World \<Rightarrow> World res" where
  "compileProto h srcBase srcSubdir proto target opts w =
     (let outDir = Split_dir target in
      if host_MkdirAll h outDir \<noteq> None then Panic ''error''
      else bind_res (execute h ''protoc'' (compile_args h srcBase srcSubdir proto outDir opts) w) (\<lambda>w.
        let dir = outDir @ ''Protobufs/'' @ srcSubdir @ ''/'' @ proto;
            file = path_Join [dir, replace_first ''.proto'' ''.pb.go'' proto]
        in map_res (\<lambda>d. w\<lparr>w_disk := RemoveAll (outDir @ ''/Protobufs'') d\<rparr>) (must (forceRename file target (w_disk w)))))"

fun build_each :: "Host \<Rightarrow> string \<Rightarrow> string \<Rightarrow> string list \<Rightarrow> (string \<times> string) list \<Rightarrow> World \<Rightarrow> World res" where
  "build_each h srcSubdir outDir opts [] w = Ok w"
| "build_each h srcSubdir outDir opts ((proto, out) # files) w =
     (let full = path_Join [outDir, out] in
      bind_res (compileProto h ''Protobufs'' srcSubdir proto full opts (gen_print (''# Building: '' @ full) w)) (\<lambda>w.
      bind_res (fixProto h full (w_disk w)) (\<lambda>d.
      build_each h srcSubdir outDir opts files (w\<lparr>w_disk := d\<rparr>))))"

text \<open>\<open>order\<close> is the order of each of the two walks through the table.\<close>

definition buildProtoMap ::
  "(nat \<Rightarrow> (string \<times> string) list \<Rightarrow> (string \<times> string) list) \<Rightarrow> Host \<Rightarrow> string \<Rightarrow> (string \<times> string) list \<Rightarrow> string
     \<Rightarrow> World \<Rightarrow> World res" where
  "buildProtoMap order h srcSubdir files outDir w =
     build_each h srcSubdir outDir (proto_options srcSubdir (order 0 files)) (order 1 files) w"

definition buildProto ::
  "(nat \<Rightarrow> (string \<times> string) list \<Rightarrow> (string \<times> string) list) \<Rightarrow> Host \<Rightarrow> World \<Rightarrow> World res" where
  "buildProto order h w =
     bind_res (buildProtoMap order h ''steam'' clientProtoFiles ''../protocol/protobuf'' (gen_print ''# Building Protobufs'' w)) (\<lambda>w.
     bind_res (buildProtoMap order h ''tf2'' tf2ProtoFiles ''../tf2/protocol/protobuf'' w) (\<lambda>w.
     bind_res (buildProtoMap order h ''dota2'' dotaProtoFiles ''../dota/protocol/protobuf'' w)
     (buildProtoMap order h ''csgo'' csgoProtoFiles ''../csgo/protocol/protobuf'')))"

section \<open>The targets\<close>

definition gen_main ::
  "(nat \<Rightarrow> (string \<times> string) list \<Rightarrow> (string \<times> string) list) \<Rightarrow> Host \<Rightarrow> string list \<Rightarrow> World \<Rightarrow> World res" where
  "gen_main order h args w =
     (let args = join '' '' (drop 1 args) in
      if contains args ''clean'' \<or> contains args ''steamlang'' \<or> contains args ''proto'' then
        bind_res (if contains args ''clean'' then clean h w else Ok w) (\<lambda>w.
        bind_res (if contains args ''steamlang'' then buildSteamLanguage h w else Ok w) (\<lambda>w.
        if contains args ''proto'' then buildProto order h w else Ok w))
      else Err exit1)"

section \<open>What the output looks like\<close>

definition quote_char :: "char \<Rightarrow> string" where
  "quote_char c = c # (if c = newline then quote_mark else [])"

lemma qw_loop_append:
  assumes "n \<le> i" "i \<le> length p"
  shows "qw_loop append_writer p i n s =
    Ok (length p, None, s @ take (i - n) (drop n p) @ concat (map quote_char (drop i p)))"
  using assms
proof (induction "length p - i" arbitrary: i n s)
  case 0
  then have "i = length p" by simp
  with 0 show ?case by (subst qw_loop.simps) (simp add: qw_rest_def append_writer_def)
next
  case (Suc k)
  then have i: "i < length p" by simp
  then have d: "drop i p = p ! i # drop (i + 1) p" by (simp add: Cons_nth_drop_Suc)
  have t: "take (Suc i - n) (drop n p) = take (i - n) (drop n p) @ [p ! i]"
    using i Suc.prems by (simp add: Suc_diff_le take_Suc_conv_app_nth)
  show ?case
  proof (cases "p ! i = newline")
    case True
    have "qw_loop append_writer p i n s = qw_loop append_writer p (i + 1) (i + 1)
        ((s @ take (i + 1 - n) (drop n p)) @ quote_mark)"
      using True i Suc.prems by (subst qw_loop.simps) (simp add: append_writer_def)
    also have "\<dots> = Ok (length p, None, ((s @ take (i + 1 - n) (drop n p)) @ quote_mark)
        @ concat (map quote_char (drop (i + 1) p)))"
      using Suc.hyps i by (subst Suc.hyps(1)) simp_all
    finally show ?thesis using True by (simp add: d t quote_char_def)
  next
    case False
    have "qw_loop append_writer p i n s = qw_loop append_writer p (i + 1) n s"
      using False i by (subst qw_loop.simps) simp
    also have "\<dots> = Ok (length p, None, s @ take (i + 1 - n) (drop n p) @ concat (map quote_char (drop (i + 1) p)))"
      using Suc.hyps Suc.prems i by (subst Suc.hyps(1)) simp_all
    finally show ?thesis using False by (simp add: d t quote_char_def)
  qed
qed

lemma qw_Write_append:
  "qw_Write append_writer p started s =
     Ok ((length p, None), True, s @ (if started then [] else quote_mark) @ concat (map quote_char p))"
  by (simp add: qw_Write_def qw_loop_append) (simp add: append_writer_def qw_loop_append)

lemma qw_all_started: "qw_all append_writer ps True s = Ok (None, True, s @ concat (map quote_char (concat ps)))"
  by (induction ps arbitrary: s) (simp_all add: qw_Write_append)

text \<open>
  The quoted output of a command does not depend on the pieces in which the command writes it: it is a quote mark,
  then the whole text with a quote mark behind every line break, and nothing is reported as missing.
\<close>

lemma quoted_output:
  "qw_all append_writer (p # ps) False s = Ok (None, True, s @ quote_mark @ concat (map quote_char (concat (p # ps))))"
  by (simp add: qw_Write_append qw_all_started)

section \<open>What is removed and replaced\<close>

text \<open>A file that a pattern matches lies as deep as the pattern.\<close>

lemma path_match_depth: "path_match ps s \<Longrightarrow> count_list s CHR ''/'' = count_list ps CHR ''/''"
  by (induction ps s rule: path_match.induct) (auto split: if_splits)

text \<open>So \<open>clean\<close>, whose pattern has three slashes, leaves the generated files of \<open>protocol/protobuf/unified\<close>.\<close>

lemma clean_leaves_unified: "\<not> path_match ''../protocol/**/*.pb.go'' (''../protocol/protobuf/unified/'' @ f)"
  by (auto dest: path_match_depth)

text \<open>Every \<open>package\<close> followed by a word is rewritten, not only the clause of the file.\<close>

lemma package_in_comment:
  "replace_matches (package_clause ''unified'') ''// see package foo; package bar''
     = ''// see package unified; package unified''"
  by (simp add: replace_matches.simps package_clause_def is_word_char_def is_digit_def)

text \<open>The name of an import is removed with its dot wherever it ends a longer name.\<close>

lemma import_name_inside_name:
  "remove_imports [(Some ''base'', ''x.proto'')] ''database.Open'' = Ok ''dataOpen''"
  by (simp add: bytes_Replace_def replace_matches.simps)

end
