(* ===== verification/Wsclient.thy ===== *)
theory Wsclient
  imports Steam_Client Json Go_Crypto
begin

text \<open>
  \<open>examples/wsclient/main.go\<close>: a program that logs on over a WebSocket or TCP, through a proxy if asked. Modelled are how it
  chooses a server, what it does with each event, and the proxy dialler; the flags are given as a record, and what
  only prints is left out. An exit of the program is a value: \<open>log.Fatal\<close> ends with status 1.
\<close>

section \<open>Flags\<close>

record Flags =
  flag_user :: string
  flag_pass :: string
  flag_proxy :: string
  flag_cm :: string
  flag_list :: bool
  flag_only443 :: bool
  flag_newauth :: bool
  flag_tcp :: bool
  flag_token :: string

datatype 'a prog =
    Exit nat
  | Continue 'a

section \<open>Choosing a server\<close>

definition has_suffix :: "string \<Rightarrow> string \<Rightarrow> bool" where
  "has_suffix s suffix \<longleftrightarrow> length suffix \<le> length s \<and> drop (length s - length suffix) s = suffix"

fun keep_443 :: "CMServer list \<Rightarrow> CMServer list" where
  "keep_443 [] = []"
| "keep_443 (cm # cms) = (if has_suffix (CMServer_Endpoint cm) '':443'' then cm # keep_443 cms else keep_443 cms)"

definition choose_endpoint :: "Flags \<Rightarrow> CMServer list res \<Rightarrow> nat \<Rightarrow> string prog" where
  "choose_endpoint f fetched rng =
     (if flag_tcp f then Continue []
      else if flag_cm f \<noteq> [] then Continue (flag_cm f)
      else (case fetched of
          Ok cms \<Rightarrow>
            (let ws = FilterByType cms ''websockets'';
                 ws = (if flag_only443 f then keep_443 ws else ws) in
             if flag_list f then Exit 0
             else if length ws = 0 then Exit 1
             else Continue (CMServer_Endpoint (PickRandom rng ws)))
        | _ \<Rightarrow> Exit 1))"

definition check_credentials :: "Flags \<Rightarrow> unit prog" where
  "check_credentials f =
     (if flag_user f = [] \<or> flag_pass f = [] \<and> flag_token f = [] then Exit 1 else Continue ())"

section \<open>Events\<close>

text \<open>
  The library declares \<open>FatalErrorEvent\<close> and \<open>WebLogOnErrorEvent\<close> as \<open>type FatalErrorEvent error\<close>: both are interface types
  with the method of \<open>error\<close>. An emitted event holds the error alone, so that a case for one of these types matches every
  error, whatever it was emitted as.
\<close>

fun is_error :: "Event \<Rightarrow> bool" where
  "is_error (Ev_Error e) = True"
| "is_error (Ev_FatalError e) = True"
| "is_error (Ev_WebLogOnError e) = True"
| "is_error _ = False"

definition password_details :: "string \<Rightarrow> string \<Rightarrow> string \<Rightarrow> LogOnDetails" where
  "password_details user pass token = \<lparr>Details_Username = user, Details_Password = pass, Details_AuthCode = [],
     Details_TwoFactorCode = [], Details_SentryFileHash = None, Details_LoginKey = [],
     Details_ShouldRememberPassword = False, Details_MachineID = None, Details_AccessToken = token\<rparr>"

text \<open>
  The loop over the events, without the deadline: \<open>mint\<close> starts the goroutine that asks for a token. The case for
  \<open>FatalErrorEvent\<close> stands before the one for \<open>error\<close>.
\<close>

datatype round =
    Stop nat
  | Next Client
  | Mint Client

definition ws_event :: "Flags \<Rightarrow> Event \<Rightarrow> Client \<Rightarrow> round res" where
  "ws_event f event c = (case event of
     Ev_Connected \<Rightarrow>
       if flag_token f \<noteq> [] then map_res Next (LogOn (password_details (flag_user f) [] (flag_token f)) c)
       else if flag_newauth f then Ok (Mint c)
       else map_res Next (LogOn (password_details (flag_user f) (flag_pass f) []) c)
   | Ev_LoggedOn e \<Rightarrow> Ok (Stop (if LoggedOnEvent_Result e = EResult_OK then 0 else 1))
   | Ev_LogOnFailed e \<Rightarrow> Ok (Stop 1)
   | Ev_LoggedOff e \<Rightarrow> Ok (Stop 1)
   | Ev_Disconnected \<Rightarrow> Ok (Stop 1)
   | _ \<Rightarrow> if is_error event then Ok (Stop 1) else Ok (Next c))"

text \<open>The goroutine, from the answer of the credential log-on.\<close>

definition mint_done :: "Flags \<Rightarrow> go_err + CredentialsAuthResult \<Rightarrow> Client \<Rightarrow> round res" where
  "mint_done f answer c = (case answer of
     Inl err \<Rightarrow> Ok (Stop 1)
   | Inr r \<Rightarrow> map_res Next (LogOn (password_details (flag_user f) [] (Result_RefreshToken r)) c))"

section \<open>Proxies\<close>

text \<open>What \<open>url.Parse\<close> finds in the text; a password may be missing.\<close>

record URL =
  url_Scheme :: string
  url_Host :: string
  url_User :: "(string \<times> string option) option"

datatype proxy_dialer =
    No_proxy
  | Socks5 string "(string \<times> string) option"
  | Http_connect string string

definition to_lower :: "string \<Rightarrow> string" where
  "to_lower s = map lower s"

definition user_pair :: "URL \<Rightarrow> (string \<times> string) option" where
  "user_pair u = map_option (\<lambda>(user, pass). (user, case pass of Some p \<Rightarrow> p | None \<Rightarrow> [])) (url_User u)"

definition httpConnectDialer :: "URL \<Rightarrow> proxy_dialer" where
  "httpConnectDialer u = Http_connect (url_Host u) (case user_pair u of
     None \<Rightarrow> []
   | Some (user, pass) \<Rightarrow> ''Basic '' @ b64_encode (bytes_of (user @ '':'' @ pass)))"

definition makeDialer :: "(string \<Rightarrow> URL res) \<Rightarrow> (string \<Rightarrow> go_err option) \<Rightarrow> string \<Rightarrow> proxy_dialer res" where
  "makeDialer url_Parse socks_setup proxyURL =
     (if proxyURL = [] then Ok No_proxy
      else bind_res (url_Parse proxyURL) (\<lambda>u.
        let scheme = to_lower (url_Scheme u) in
        if url_Host u = [] then Err (GoErr ''proxy_url has no host'')
        else if scheme = ''socks5'' \<or> scheme = ''socks5h'' then
          (case socks_setup (url_Host u) of Some err \<Rightarrow> Err err | None \<Rightarrow> Ok (Socks5 (url_Host u) (user_pair u)))
        else if scheme = ''http'' \<or> scheme = ''https'' then Ok (httpConnectDialer u)
        else Err (GoErr ''unsupported proxy scheme'')))"

definition crlf :: string where "crlf = [CHR 0x0D, CHR 0x0A]"

definition connect_request :: "string \<Rightarrow> string \<Rightarrow> string" where
  "connect_request addr authHeader =
     ''CONNECT '' @ addr @ '' HTTP/1.1'' @ crlf @ ''Host: '' @ addr @ crlf
     @ (if authHeader \<noteq> [] then ''Proxy-Authorization: '' @ authHeader @ crlf else [])
     @ crlf"

text \<open>
  The tunnel: \<open>reply\<close> is what \<open>http.ReadResponse\<close> makes of the answer, the status code with what its buffered reader has
  read beyond the answer, and \<open>rest\<close> what the connection still delivers. The result is what a reader of the tunnel gets.
\<close>

definition http_tunnel ::
  "go_err option \<Rightarrow> go_err option \<Rightarrow> (go_err + nat \<times> bytes) \<Rightarrow> bytes \<Rightarrow> bytes res" where
  "http_tunnel dialled written reply rest =
     (case dialled of Some err \<Rightarrow> Err err | None \<Rightarrow>
      case written of Some err \<Rightarrow> Err err | None \<Rightarrow>
      case reply of
        Inl err \<Rightarrow> Err err
      | Inr (status, buffered) \<Rightarrow>
          if status \<noteq> 200 then Err (GoErr ''proxy CONNECT failed'')
          else if length buffered > 0 then Ok (buffered @ rest)
          else Ok rest)"

section \<open>The loop and the program\<close>

text \<open>
  What the loop is woken by: an event, with what the goroutines of the client have done to it since; the answer of a
  goroutine that asks for a token, of which each comes after the event that started it; the deadline.
\<close>

datatype ws_input =
    In_event "Client \<Rightarrow> Client" Event
  | In_minted "Client \<Rightarrow> Client" "go_err + CredentialsAuthResult"
  | In_deadline

datatype ws_state =
    Ended nat
  | Waiting Client

definition ws_input_step :: "Flags \<Rightarrow> ws_input \<Rightarrow> Client \<Rightarrow> round res" where
  "ws_input_step f i c = (case i of
     In_event others event \<Rightarrow> ws_event f event (others c)
   | In_minted others answer \<Rightarrow> mint_done f answer (others c)
   | In_deadline \<Rightarrow> Ok (Stop 1))"

fun ws_loop :: "Flags \<Rightarrow> ws_input list \<Rightarrow> Client \<Rightarrow> ws_state res" where
  "ws_loop f [] c = Ok (Waiting c)"
| "ws_loop f (i # ins) c = bind_res (ws_input_step f i c) (\<lambda>r. case r of
       Stop n \<Rightarrow> Ok (Ended n)
     | Next c \<Rightarrow> ws_loop f ins c
     | Mint c \<Rightarrow> ws_loop f ins c)"

text \<open>
  The program up to the loop. \<open>listed\<close> answers the request for the server list, \<open>directory\<close> the one of the directory, \<open>dialled\<close>
  is what dialling with a proxy dialler ends in.
\<close>

definition ws_connect ::
  "Flags \<Rightarrow> string \<Rightarrow> (DirectoryResponse, go_err) sum \<Rightarrow> nat \<Rightarrow> go_err option \<Rightarrow> (go_err option \<times> Client) res" where
  "ws_connect f cmEndpoint directory rng dialled =
     (if flag_tcp f then
        map_res (\<lambda>(server, err, sd, c). (err, c))
          (Connect directory rng dialled (fst (sd_Initialize directory new_steamDirectory)) NewClient)
      else Ok (ConnectToWebSocket dialled NewClient))"

definition ws_main ::
  "(string \<Rightarrow> URL res) \<Rightarrow> (string \<Rightarrow> go_err option) \<Rightarrow> (proxy_dialer \<Rightarrow> go_err option) \<Rightarrow> (ListedServer list, go_err) sum
     \<Rightarrow> (DirectoryResponse, go_err) sum \<Rightarrow> nat \<Rightarrow> Flags \<Rightarrow> ws_input list \<Rightarrow> ws_state res" where
  "ws_main url_Parse socks_setup dialled listed directory rng f inputs =
     (case choose_endpoint f (FetchCMListForConnect listed) rng of
        Exit n \<Rightarrow> Ok (Ended n)
      | Continue cmEndpoint \<Rightarrow> (case check_credentials f of
          Exit n \<Rightarrow> Ok (Ended n)
        | Continue _ \<Rightarrow> (case makeDialer url_Parse socks_setup (flag_proxy f) of
            Err err \<Rightarrow> Ok (Ended 1)
          | Panic p \<Rightarrow> Panic p
          | Ok dialer \<Rightarrow> bind_res (ws_connect f cmEndpoint directory rng (dialled dialer)) (\<lambda>(err, c).
              if err \<noteq> None then Ok (Ended 1) else ws_loop f inputs c))))"

section \<open>What the program does\<close>

lemma keep_443_filter: "keep_443 cms = filter (\<lambda>cm. has_suffix (CMServer_Endpoint cm) '':443'') cms"
  by (induction cms) auto

lemma PickRandom_in: "cms \<noteq> [] \<Longrightarrow> PickRandom rng cms \<in> set cms"
  by (simp add: PickRandom_def)

lemma chosen_endpoint:
  assumes "choose_endpoint f (Ok cms) rng = Continue e" "\<not> flag_tcp f" "flag_cm f = []"
  shows "\<exists>cm \<in> set cms. e = CMServer_Endpoint cm \<and> CMServer_Type cm = ''websockets'' \<and>
    (flag_only443 f \<longrightarrow> has_suffix e '':443'')"
proof -
  let ?ws = "FilterByType cms ''websockets''"
  let ?out = "if flag_only443 f then keep_443 ?ws else ?ws"
  have e: "?out \<noteq> []" "e = CMServer_Endpoint (PickRandom rng ?out)"
    using assms by (auto simp: choose_endpoint_def Let_def split: if_splits)
  then have "PickRandom rng ?out \<in> set ?out" by (intro PickRandom_in)
  with e(2) show ?thesis by (auto simp: keep_443_filter FilterByType_eq split: if_splits)
qed

lemma tunnel_loses_nothing:
  "http_tunnel None None (Inr (200, buffered)) rest = Ok (buffered @ rest)"
  by (simp add: http_tunnel_def)

lemma proxy_credentials:
  assumes "url_User u = Some (user, Some pass)"
  shows "\<exists>text. httpConnectDialer u = Http_connect (url_Host u) (''Basic '' @ text) \<and>
    b64_decode text = Ok (bytes_of (user @ '':'' @ pass))"
  using assms by (simp add: httpConnectDialer_def user_pair_def b64_decode_def b64_encode_no_break b64_quads_encode)

text \<open>
  The example ends with an error on every error the client reports, although it means to go on after errors that are
  not fatal: a case for \<open>FatalErrorEvent\<close> matches any error. Besides errors it ends exactly on the events that decide the
  log-on, and a log-on that succeeds is the only way to end with status 0.
\<close>

theorem any_error_ends_the_example:
  "(ws_event f (Ev_Error e) c = ws_event f (Ev_FatalError e) c \<and> ws_event f (Ev_Error e) c = Ok (Stop 1)) \<and>
   ((\<exists>n. ws_event f event c = Ok (Stop n)) =
     (is_error event \<or> (\<exists>e. event = Ev_LoggedOn e) \<or> (\<exists>e. event = Ev_LogOnFailed e) \<or> (\<exists>e. event = Ev_LoggedOff e)
       \<or> event = Ev_Disconnected)) \<and>
   (ws_event f event c = Ok (Stop 0)) = (\<exists>e. event = Ev_LoggedOn e \<and> LoggedOnEvent_Result e = EResult_OK)"
proof -
  have n: "map_res Next r \<noteq> Ok (Stop k)" for r k by (cases r) auto
  show ?thesis by (cases event) (simp_all add: ws_event_def n)
qed

text \<open>Which inputs decide, and with which status.\<close>

fun decides :: "ws_input \<Rightarrow> bool" where
  "decides (In_event others event) \<longleftrightarrow> is_error event \<or> (case event of
     Ev_LoggedOn e \<Rightarrow> True | Ev_LogOnFailed e \<Rightarrow> True | Ev_LoggedOff e \<Rightarrow> True | Ev_Disconnected \<Rightarrow> True | _ \<Rightarrow> False)"
| "decides (In_minted others answer) \<longleftrightarrow> (\<exists>err. answer = Inl err)"
| "decides In_deadline \<longleftrightarrow> True"

fun decided_status :: "ws_input \<Rightarrow> nat" where
  "decided_status (In_event others (Ev_LoggedOn e)) = (if LoggedOnEvent_Result e = EResult_OK then 0 else 1)"
| "decided_status _ = 1"

fun token_given :: "ws_input \<Rightarrow> bool" where
  "token_given (In_minted others (Inr r)) \<longleftrightarrow> Result_RefreshToken r \<noteq> []"
| "token_given _ \<longleftrightarrow> True"

lemma checked_LogOn:
  assumes "check_credentials f = Continue ()"
  shows "flag_token f \<noteq> [] \<Longrightarrow> \<exists>d. LogOn (password_details (flag_user f) [] (flag_token f)) c = Ok d"
    and "flag_token f = [] \<Longrightarrow> \<exists>d. LogOn (password_details (flag_user f) (flag_pass f) []) c = Ok d"
    and "token \<noteq> [] \<Longrightarrow> \<exists>d. LogOn (password_details (flag_user f) [] token) c = Ok d"
  using assms by (auto simp: check_credentials_def LogOn_def password_details_def Let_def split: if_splits)

lemma input_step:
  assumes "check_credentials f = Continue ()" "token_given i"
  shows "if decides i then ws_input_step f i c = Ok (Stop (decided_status i))
    else \<exists>d. ws_input_step f i c = Ok (Next d) \<or> ws_input_step f i c = Ok (Mint d)"
proof (cases i)
  case (In_event others event)
  show ?thesis
  proof (cases "event = Ev_Connected")
    case True
    obtain d d' where "flag_token f \<noteq> [] \<longrightarrow> LogOn (password_details (flag_user f) [] (flag_token f)) (others c) = Ok d"
      "flag_token f = [] \<longrightarrow> LogOn (password_details (flag_user f) (flag_pass f) []) (others c) = Ok d'"
      using checked_LogOn(1,2) [OF assms(1), where c = "others c"] by blast
    then show ?thesis using In_event True by (simp add: ws_input_step_def ws_event_def)
  next
    case False
    then show ?thesis using In_event by (cases event) (simp_all add: ws_input_step_def ws_event_def)
  qed
next
  case (In_minted others answer)
  show ?thesis
  proof (cases answer)
    case (Inr r)
    then obtain d where "LogOn (password_details (flag_user f) [] (Result_RefreshToken r)) (others c) = Ok d"
      using In_minted assms(2) checked_LogOn(3) [OF assms(1), of "Result_RefreshToken r" "others c"] by auto
    then show ?thesis using In_minted Inr by (simp add: ws_input_step_def mint_done_def)
  qed (simp add: In_minted ws_input_step_def mint_done_def)
qed (simp add: ws_input_step_def)

definition loop_outcome :: "ws_input list \<Rightarrow> ws_state res \<Rightarrow> bool" where
  "loop_outcome ins r = (case dropWhile (\<lambda>i. \<not> decides i) ins of
     [] \<Rightarrow> \<exists>d. r = Ok (Waiting d) | i # _ \<Rightarrow> r = Ok (Ended (decided_status i)))"

lemma ws_loop_outcome:
  assumes "check_credentials f = Continue ()" "list_all token_given ins"
  shows "loop_outcome ins (ws_loop f ins c)"
  using assms(2)
proof (induction ins arbitrary: c)
  case (Cons i ins)
  note step = input_step [OF assms(1), of i c]
  show ?case
  proof (cases "decides i")
    case True
    then show ?thesis using step Cons.prems by (simp add: loop_outcome_def)
  next
    case False
    then obtain d where "ws_loop f (i # ins) c = ws_loop f ins d" using step Cons.prems by auto
    then show ?thesis using False Cons.IH [of d] Cons.prems by (simp add: loop_outcome_def)
  qed
qed (simp add: loop_outcome_def)

lemma decided_0:
  assumes "decided_status i = 0"
  shows "\<exists>others e. i = In_event others (Ev_LoggedOn e) \<and> LoggedOnEvent_Result e = EResult_OK"
proof (cases i)
  case (In_event others event)
  then show ?thesis using assms by (cases event) (simp_all split: if_splits)
qed (use assms in simp_all)

lemma listing_exit: "choose_endpoint f fetched rng = Exit 0 \<Longrightarrow> flag_list f"
  by (auto simp: choose_endpoint_def Let_def split: if_splits res.splits)

lemma checked_exit: "check_credentials f \<noteq> Exit 0"
  by (simp add: check_credentials_def)

text \<open>
  C39: once it is connected, the example never panics on events and tokens that are not empty: it ends at the first input that decides, with
  the status of that input. It ends with status 0 only after listing the servers or when that input is a log-on that succeeded.\<close>

theorem example_outcome:
  assumes "list_all token_given ins"
  shows "(choose_endpoint f (FetchCMListForConnect listed) rng = Continue ep \<and> check_credentials f = Continue () \<and>
      makeDialer url_Parse socks (flag_proxy f) = Ok dialer \<and> ws_connect f ep directory rng (dialled dialer) = Ok (None, c)
      \<longrightarrow> loop_outcome ins (ws_main url_Parse socks dialled listed directory rng f ins)) \<and>
    (ws_main url_Parse socks dialled listed directory rng f ins = Ok (Ended 0) \<longrightarrow>
      flag_list f \<or> (\<exists>pre others e post. ins = pre @ In_event others (Ev_LoggedOn e) # post \<and>
        list_all (\<lambda>i. \<not> decides i) pre \<and> LoggedOnEvent_Result e = EResult_OK))"
    (is "?connected \<and> (?ended \<longrightarrow> ?why)")
proof (rule conjI)
  show ?connected using ws_loop_outcome [OF _ assms, of f c] by (auto simp: ws_main_def)
  have "?why" if e: ?ended
  proof -
    consider "flag_list f" | c' where "check_credentials f = Continue ()" "ws_loop f ins c' = Ok (Ended 0)"
      using e listing_exit checked_exit
      by (auto simp: ws_main_def bind_res_Ok_iff split: if_splits prog.splits res.splits)
    then show ?why
    proof cases
      case 2
      then obtain i rest where i: "dropWhile (\<lambda>i. \<not> decides i) ins = i # rest" "decided_status i = 0"
        using ws_loop_outcome [OF _ assms, of f c'] by (auto simp: loop_outcome_def split: list.splits)
      then obtain others e where "i = In_event others (Ev_LoggedOn e)" "LoggedOnEvent_Result e = EResult_OK"
        using decided_0 by blast
      moreover have "ins = takeWhile (\<lambda>i. \<not> decides i) ins @ i # rest" using i(1) by (metis takeWhile_dropWhile_id)
      moreover have "list_all (\<lambda>i. \<not> decides i) (takeWhile (\<lambda>i. \<not> decides i) ins)" by (auto simp: list_all_iff dest: set_takeWhileD)
      ultimately show ?thesis by blast
    qed simp
  qed
  then show "?ended \<longrightarrow> ?why" by simp
qed

definition demo_flags :: Flags where
  "demo_flags = \<lparr>flag_user = ''user'', flag_pass = [], flag_proxy = [], flag_cm = ''cm.example:443'', flag_list = False,
     flag_only443 = False, flag_newauth = False, flag_tcp = False, flag_token = ''token''\<rparr>"

theorem example_outcome_witness:
  "ws_main (\<lambda>_. Err EOF) (\<lambda>_. None) (\<lambda>_. None) (Inr EOF) (Inr EOF) 0 demo_flags
     [In_event (\<lambda>c. c) Ev_Connected, In_event (\<lambda>c. c) Ev_Disconnected, In_deadline] = Ok (Ended 1)"
proof -
  let ?ins = "[In_event (\<lambda>c. c) Ev_Connected, In_event (\<lambda>c. c) Ev_Disconnected, In_deadline]"
  let ?c = "snd (ConnectToWebSocket None NewClient)"
  have "list_all token_given ?ins" by simp
  from example_outcome [OF this, of demo_flags "Inr EOF" 0 "flag_cm demo_flags" "\<lambda>_. Err EOF" "\<lambda>_. None" No_proxy "Inr EOF"
      "\<lambda>_. None" ?c]
  show ?thesis
    by (simp add: demo_flags_def choose_endpoint_def check_credentials_def makeDialer_def ws_connect_def ConnectToWebSocket_def
        Let_def loop_outcome_def)
qed

end
