(* ===== verification/Connection_Net.thy ===== *)
theory Connection_Net
  imports Connection Json
begin

text \<open>
  The network below the transports of \<open>connection.go\<close> and \<open>websocket_connection.go\<close>: how a connection is dialled and closed, and
  what \<open>Write\<close> puts on a network that can fail at any byte. What the dialler, Go's \<open>net\<close> and the WebSocket library answer are
  arguments.
\<close>

section \<open>Dialling\<close>

type_synonym 'k Dialer = "string \<Rightarrow> string \<Rightarrow> go_err + 'k"

text \<open>\<open>net.JoinHostPort\<close> and the text of a TCP address: an IPv6 address stands in brackets.\<close>

definition JoinHostPort :: "string \<Rightarrow> string \<Rightarrow> string" where
  "JoinHostPort host port =
     (if CHR '':'' \<in> set host then ''['' @ host @ '']:'' @ port else host @ '':'' @ port)"

definition Itoa :: "int \<Rightarrow> string" where
  "Itoa i = (if i < 0 then ''-'' @ FormatUint (nat (- i)) else FormatUint (nat i))"

definition TCPAddr_String :: "TCPAddr \<Rightarrow> string" where
  "TCPAddr_String a =
     (let ip = (if TCPAddr_IP a = [] then [] else IP_String (TCPAddr_IP a)) in
      JoinHostPort (if TCPAddr_Zone a \<noteq> [] then ip @ ''%'' @ TCPAddr_Zone a else ip) (Itoa (TCPAddr_Port a)))"

text \<open>What the package \<open>net\<close> offers: \<open>Dial\<close> and \<open>DialTCP\<close>, which binds a local address.\<close>

record 'k net =
  net_Dial :: "'k Dialer"
  net_DialTCP :: "TCPAddr \<Rightarrow> TCPAddr \<Rightarrow> go_err + 'k"

definition dialTCP :: "'k net \<Rightarrow> TCPAddr option \<Rightarrow> TCPAddr \<Rightarrow> 'k Dialer option \<Rightarrow> go_err + 'k" where
  "dialTCP net laddr raddr dialer = (case dialer of
       Some d \<Rightarrow> d ''tcp'' (TCPAddr_String raddr)
     | None \<Rightarrow> (case laddr of
           Some l \<Rightarrow> net_DialTCP net l raddr
         | None \<Rightarrow> net_Dial net ''tcp'' (TCPAddr_String raddr)))"

text \<open>
  \<open>url.URL.String\<close> escapes the host: letters, digits, the marks of a host and sub-delimiters stay, anything else becomes its
  hexadecimal code.
\<close>

definition host_char :: "char \<Rightarrow> bool" where
  "host_char c \<longleftrightarrow> unreserved c \<or> c \<in> set ''!$&()*+,;=:[]<>'' \<or> c = CHR 0x27 \<or> c = CHR 0x22"

definition escape_host :: "string \<Rightarrow> string" where
  "escape_host s = concat (map (\<lambda>c. if host_char c then [c]
     else [CHR ''%'', upper_hex ((of_char c :: nat) div 16), upper_hex ((of_char c :: nat) mod 16)]) s)"

definition ws_url :: "string \<Rightarrow> string" where
  "ws_url host = ''wss://'' @ escape_host host @ ''/cmsocket/''"

text \<open>The dialler handed to the WebSocket library; \<open>None\<close> is its own.\<close>

record 'k ws_Dialer =
  wsd_HandshakeTimeout :: int
  wsd_ReadBufferSize :: nat
  wsd_WriteBufferSize :: nat
  wsd_NetDial :: "'k Dialer option"

definition second :: int where "second = 1000000000"

text \<open>
  \<open>ws_Dial\<close> is \<open>Dialer.Dial\<close> of the library: an error comes with the status of the answer, if there was one. Both errors
  of \<open>dialWebSocket\<close> wrap the library's, which the text of the second does without the status.
\<close>

definition dialWebSocket ::
  "('k ws_Dialer \<Rightarrow> string \<Rightarrow> (string \<times> string) list \<Rightarrow> go_err \<times> string option + 'w) \<Rightarrow> string \<Rightarrow> 'k Dialer option \<Rightarrow> int
     \<Rightarrow> go_err \<times> string option + 'w" where
  "dialWebSocket ws_Dial host dialer handshakeTimeout =
     (let handshakeTimeout = (if handshakeTimeout \<le> 0 then 45 * second else handshakeTimeout);
          d = \<lparr>wsd_HandshakeTimeout = handshakeTimeout, wsd_ReadBufferSize = 64 * 1024, wsd_WriteBufferSize = 64 * 1024,
            wsd_NetDial = dialer\<rparr> in
      case ws_Dial d (ws_url host) [(''User-Agent'', ''Valve/Steam HTTP Client 1.0'')] of
        Inl (err, resp) \<Rightarrow> Inl (err, resp)
      | Inr ws \<Rightarrow> Inr ws)"

section \<open>A network that can fail\<close>

text \<open>What was sent, how many more bytes are accepted (\<open>None\<close>: any number), and whether this side was closed.\<close>

record sock =
  sock_sent :: bytes
  sock_room :: "nat option"
  sock_closed :: bool

definition net_Write :: "bytes \<Rightarrow> sock \<Rightarrow> go_err option \<times> sock" where
  "net_Write bs k =
     (if sock_closed k then (Some (GoErr ''use of closed network connection''), k)
      else (case sock_room k of
          None \<Rightarrow> (None, k\<lparr>sock_sent := sock_sent k @ bs\<rparr>)
        | Some n \<Rightarrow>
            if length bs \<le> n then (None, k\<lparr>sock_sent := sock_sent k @ bs, sock_room := Some (n - length bs)\<rparr>)
            else (Some (GoErr ''write''), k\<lparr>sock_sent := sock_sent k @ take n bs, sock_room := Some 0\<rparr>)))"

text \<open>\<open>Write\<close>: the length, the magic number and the message are written one after the other.\<close>

definition sock_Write :: "Block option \<Rightarrow> bytes \<Rightarrow> bytes \<Rightarrow> sock \<Rightarrow> (go_err option \<times> sock) res" where
  "sock_Write ciph iv message k =
     bind_res (case ciph of Some ciph \<Rightarrow> SymmetricEncrypt iv ciph message | None \<Rightarrow> Ok message) (\<lambda>message.
     Ok (case net_Write (le_bytes 4 (word_of_nat (length message) :: u32)) k of
         (Some err, k) \<Rightarrow> (Some err, k)
       | (None, k) \<Rightarrow> (case net_Write (le_bytes 4 tcpConnectionMagic) k of
             (Some err, k) \<Rightarrow> (Some err, k)
           | (None, k) \<Rightarrow> net_Write message k)))"

definition sock_Close :: "sock \<Rightarrow> sock" where
  "sock_Close k = k\<lparr>sock_closed := True\<rparr>"

text \<open>The messages of a write loop, up to the first error.\<close>

fun sock_write_all :: "Block option \<Rightarrow> (bytes \<times> bytes) list \<Rightarrow> sock \<Rightarrow> (go_err option \<times> sock) res" where
  "sock_write_all ciph [] k = Ok (None, k)"
| "sock_write_all ciph ((iv, m) # ms) k =
     bind_res (sock_Write ciph iv m k) (\<lambda>(e, k). case e of
         Some err \<Rightarrow> Ok (Some err, k)
       | None \<Rightarrow> sock_write_all ciph ms k)"

section \<open>The WebSocket library\<close>

text \<open>The kinds of messages have their numbers from the protocol; deadlines are left out.\<close>

record 'w ws_lib =
  wsl_WriteMessage :: "nat \<Rightarrow> bytes \<Rightarrow> 'w \<Rightarrow> go_err option \<times> 'w"
  wsl_WriteControl :: "nat \<Rightarrow> bytes \<Rightarrow> 'w \<Rightarrow> go_err option \<times> 'w"
  wsl_FormatCloseMessage :: "nat \<Rightarrow> string \<Rightarrow> bytes"
  wsl_Close :: "'w \<Rightarrow> go_err option \<times> 'w"

definition BinaryMessage :: nat where "BinaryMessage = 2"
definition CloseMessage :: nat where "CloseMessage = 8"
definition CloseNormalClosure :: nat where "CloseNormalClosure = 1000"

definition wsConnection_Write :: "'w ws_lib \<Rightarrow> bytes \<Rightarrow> 'w \<Rightarrow> go_err option \<times> 'w" where
  "wsConnection_Write lib message ws = wsl_WriteMessage lib BinaryMessage message ws"

definition wsConnection_Close :: "'w ws_lib \<Rightarrow> 'w \<Rightarrow> go_err option \<times> 'w" where
  "wsConnection_Close lib ws =
     (case wsl_WriteControl lib CloseMessage (wsl_FormatCloseMessage lib CloseNormalClosure []) ws of
        (_, ws) \<Rightarrow> wsl_Close lib ws)"

section \<open>What arrives of a stream that is cut\<close>

lemma net_Write_takes:
  assumes "net_Write bs k = (e, k')" "\<not> sock_closed k"
  shows "\<exists>n. sock_sent k' = sock_sent k @ take n bs \<and> (e = None \<longrightarrow> length bs \<le> n) \<and> (e \<noteq> None \<longrightarrow> n < length bs)
    \<and> \<not> sock_closed k'"
proof (cases "sock_room k")
  case None
  then show ?thesis using assms by (auto simp: net_Write_def intro!: exI [of _ "length bs"])
next
  case (Some n)
  then show ?thesis using assms
    by (cases "length bs \<le> n") (auto simp: net_Write_def intro!: exI [of _ n])
qed

text \<open>\<open>Write\<close> sends a frame as \<open>tcp_Write\<close> builds it, or the beginning of one.\<close>

lemma sock_Write_takes:
  assumes "tcp_Write ciph iv m = Ok f" "\<not> sock_closed k"
  shows "\<exists>e k' n. sock_Write ciph iv m k = Ok (e, k') \<and> sock_sent k' = sock_sent k @ take n f \<and>
    (e = None \<longrightarrow> length f \<le> n) \<and> (e \<noteq> None \<longrightarrow> n < length f) \<and> \<not> sock_closed k'"
proof -
  obtain x where x: "(case ciph of Some ciph \<Rightarrow> SymmetricEncrypt iv ciph m | None \<Rightarrow> Ok m) = Ok x"
    using assms(1) by (cases "case ciph of Some ciph \<Rightarrow> SymmetricEncrypt iv ciph m | None \<Rightarrow> Ok m") (auto simp: tcp_Write_def)
  let ?a = "le_bytes 4 (word_of_nat (length x) :: u32)" and ?b = "le_bytes 4 tcpConnectionMagic"
  have f: "f = ?a @ ?b @ x" using assms(1) x by (simp add: tcp_Write_def)
  obtain e1 k1 where w1: "net_Write ?a k = (e1, k1)" by fastforce
  obtain e2 k2 where w2: "net_Write ?b k1 = (e2, k2)" by fastforce
  obtain e3 k3 where w3: "net_Write x k2 = (e3, k3)" by fastforce
  from net_Write_takes [OF w1 assms(2)] obtain n1 where n1: "sock_sent k1 = sock_sent k @ take n1 ?a"
    "e1 = None \<longrightarrow> length ?a \<le> n1" "e1 \<noteq> None \<longrightarrow> n1 < length ?a" "\<not> sock_closed k1" by blast
  from net_Write_takes [OF w2 n1(4)] obtain n2 where n2: "sock_sent k2 = sock_sent k1 @ take n2 ?b"
    "e2 = None \<longrightarrow> length ?b \<le> n2" "e2 \<noteq> None \<longrightarrow> n2 < length ?b" "\<not> sock_closed k2" by blast
  from net_Write_takes [OF w3 n2(4)] obtain n3 where n3: "sock_sent k3 = sock_sent k2 @ take n3 x"
    "e3 = None \<longrightarrow> length x \<le> n3" "e3 \<noteq> None \<longrightarrow> n3 < length x" "\<not> sock_closed k3" by blast
  show ?thesis
  proof (cases "e1 = None")
    case False
    then show ?thesis using n1 w1 x f by (auto simp: sock_Write_def intro!: exI [of _ n1])
  next
    case one: True
    show ?thesis
    proof (cases "e2 = None")
      case False
      then show ?thesis using one n1 n2 w1 w2 x f by (auto simp: sock_Write_def intro!: exI [of _ "4 + n2"])
    next
      case True
      then show ?thesis using one n1 n2 n3 w1 w2 w3 x f
        by (auto simp: sock_Write_def intro!: exI [of _ "8 + n3"])
    qed
  qed
qed

text \<open>A frame that ends too early is an error of the reader, never a message.\<close>

lemma cut_frame:
  assumes "tcp_fits ciph iv m" "tcp_Write ciph iv m = Ok f" "n < length f"
  shows "\<exists>err rest. tcp_receive ciph (take n f) = (Err err, rest) \<and> (err = EOF \<or> err = UnexpectedEOF)"
proof -
  obtain x where x: "(case ciph of Some ciph \<Rightarrow> SymmetricEncrypt iv ciph m | None \<Rightarrow> Ok m) = Ok x"
    using assms(2) by (cases "case ciph of Some ciph \<Rightarrow> SymmetricEncrypt iv ciph m | None \<Rightarrow> Ok m") (auto simp: tcp_Write_def)
  have "length x < 2 ^ 32"
  proof (cases ciph)
    case (Some b)
    then have "good_cipher b" "length iv = 16" using assms(1) by (simp_all add: tcp_fits_def cipher_ok_def)
    from decrypt_encrypt [OF this, of m] Some x have "length x \<le> length m + 32" by auto
    then show ?thesis using assms(1) by (simp add: tcp_fits_def)
  qed (use x assms(1) in \<open>simp add: tcp_fits_def\<close>)
  then have len: "unat (word_of_nat (length x) :: u32) = length x" by (simp add: unat_of_nat take_bit_nat_eq_self)
  have f: "f = le_bytes 4 (word_of_nat (length x) :: u32) @ le_bytes 4 tcpConnectionMagic @ x"
    using assms(2) x by (simp add: tcp_Write_def)
  consider "n < 4" | "4 \<le> n" "n < 8" | "8 \<le> n" by linarith
  then show ?thesis
  proof cases
    case 1
    then show ?thesis using f by (auto simp: tcp_receive_def rwu_readers read_le_def ReadFull_def)
  next
    case 2
    then have "take n f = le_bytes 4 (word_of_nat (length x) :: u32) @ take (n - 4) (le_bytes 4 tcpConnectionMagic)"
      using f by simp
    with 2 show ?thesis by (auto simp: tcp_receive_def) (auto simp: rwu_readers read_le_def ReadFull_def)
  next
    case 3
    then have "take n f = le_bytes 4 (word_of_nat (length x) :: u32) @ le_bytes 4 tcpConnectionMagic @ take (n - 8) x"
      using f by simp
    with 3 assms(3) f len show ?thesis by (auto simp: tcp_receive_def ReadFull_def)
  qed
qed

lemma cut_stream_receive:
  assumes "\<forall>(iv, m) \<in> set ms. tcp_fits ciph iv m" "\<not> sock_closed k"
  shows "\<exists>e k' j s r. sock_write_all ciph ms k = Ok (e, k') \<and> sock_sent k' = sock_sent k @ s \<and> j \<le> length ms \<and>
    (e = None) = (j = length ms) \<and> get_all (tcp_receive ciph) j s = (map (\<lambda>(iv, m). Ok m) (take j ms), r) \<and>
    fst (tcp_receive ciph r) \<in> {Err EOF, Err UnexpectedEOF}"
  using assms
proof (induction ms arbitrary: k)
  case Nil
  have "fst (tcp_receive ciph []) = Err EOF" by (simp add: tcp_receive_def rwu_readers read_le_def ReadFull_def)
  then show ?case by (auto intro!: exI [of _ "[]"])
next
  case (Cons im ms)
  obtain iv m where im: "im = (iv, m)" by fastforce
  then have fits: "tcp_fits ciph iv m" using Cons.prems(1) by simp
  then obtain f where f: "tcp_Write ciph iv m = Ok f" "\<And>rest. tcp_receive ciph (f @ rest) = (Ok m, rest)"
    using tcp_Write_receive [of ciph iv m] unfolding tcp_fits_def by blast
  obtain e1 k1 n where w: "sock_Write ciph iv m k = Ok (e1, k1)" "sock_sent k1 = sock_sent k @ take n f"
    "e1 = None \<longrightarrow> length f \<le> n" "e1 \<noteq> None \<longrightarrow> n < length f" "\<not> sock_closed k1"
    using sock_Write_takes [OF f(1) Cons.prems(2)] by blast
  show ?case
  proof (cases e1)
    case None
    from Cons.IH [OF _ w(5)] Cons.prems(1) obtain e k' j s r where *:
      "sock_write_all ciph ms k1 = Ok (e, k')" "sock_sent k' = sock_sent k1 @ s" "j \<le> length ms" "(e = None) = (j = length ms)"
      "get_all (tcp_receive ciph) j s = (map (\<lambda>(iv, m). Ok m) (take j ms), r)"
      "fst (tcp_receive ciph r) \<in> {Err EOF, Err UnexpectedEOF}" by force
    show ?thesis
      by (rule exI [of _ e], rule exI [of _ k'], rule exI [of _ "Suc j"], rule exI [of _ "f @ s"])
        (use None w * im f in auto)
  next
    case (Some err)
    then obtain err' r where "tcp_receive ciph (take n f) = (Err err', r)" "err' = EOF \<or> err' = UnexpectedEOF"
      using cut_frame [OF fits f(1), of n] w(4) by blast
    then show ?thesis
      by (intro exI [of _ e1] exI [of _ k1] exI [of _ 0] exI [of _ "take n f"]) (use Some w im in auto)
  qed
qed

text \<open>
  C4: however the network fails while messages are written, after whichever byte: the other end reads the messages whose frames
  have left completely, in order, and then an end of the stream, never a message that was not written; all of them have left exactly
  when no write reported an error.\<close>

theorem cut_stream_delivers_a_prefix:
  assumes "\<forall>(iv, m) \<in> set ms. tcp_fits ciph iv m" "sock_sent k = []" "\<not> sock_closed k"
  shows "\<exists>e k' j s. sock_write_all ciph ms k = Ok (e, k') \<and> j \<le> length ms \<and> (e = None) = (j = length ms) \<and>
    get_all (tcp_Read c ciph) j (sock_sent k') = (map (\<lambda>(iv, m). NewPacket c m) (take j ms), s) \<and>
    fst (tcp_Read c ciph s) \<in> {Err EOF, Err UnexpectedEOF}"
proof -
  from cut_stream_receive [OF assms(1,3)] assms(2) obtain e k' j r where *:
    "sock_write_all ciph ms k = Ok (e, k')" "j \<le> length ms" "(e = None) = (j = length ms)"
    "get_all (tcp_receive ciph) j (sock_sent k') = (map (\<lambda>(iv, m). Ok m) (take j ms), r)"
    "fst (tcp_receive ciph r) \<in> {Err EOF, Err UnexpectedEOF}" by auto
  show ?thesis
    by (rule exI [of _ e], rule exI [of _ k'], rule exI [of _ j], rule exI [of _ r])
      (use * in \<open>auto simp: get_all_tcp_Read tcp_Read_def split: prod.splits\<close>)
qed

text \<open>A network that accepts 15 bytes: the ten of the first frame and five of the second.\<close>

theorem cut_stream_delivers_a_prefix_witness:
  "\<exists>e k' j s. sock_write_all None [(replicate 16 0, [1, 2]), (replicate 16 0, [3])]
      \<lparr>sock_sent = [], sock_room = Some 15, sock_closed = False\<rparr> = Ok (e, k') \<and> j < 2 \<and>
    get_all (tcp_Read jobs_codec None) j (sock_sent k') =
      (map (\<lambda>(iv, m). NewPacket jobs_codec m) (take j [(replicate 16 (0 :: byte), [1, 2]), (replicate 16 0, [3])]), s) \<and>
    fst (tcp_Read jobs_codec None s) \<in> {Err EOF, Err UnexpectedEOF}"
proof -
  let ?ms = "[(replicate 16 (0 :: byte), [1, 2 :: byte]), (replicate 16 0, [3])]"
  let ?k = "\<lparr>sock_sent = [], sock_room = Some 15, sock_closed = False\<rparr>"
  have "\<forall>(iv, m) \<in> set ?ms. tcp_fits None iv m" by (simp add: tcp_fits_def cipher_ok_def)
  from cut_stream_delivers_a_prefix [OF this, of ?k jobs_codec] obtain e k' j s where *:
    "sock_write_all None ?ms ?k = Ok (e, k')" "j \<le> length ?ms" "(e = None) = (j = length ?ms)"
    "get_all (tcp_Read jobs_codec None) j (sock_sent k') = (map (\<lambda>(iv, m). NewPacket jobs_codec m) (take j ?ms), s)"
    "fst (tcp_Read jobs_codec None s) \<in> {Err EOF, Err UnexpectedEOF}" by auto
  have "fst (case sock_write_all None ?ms ?k of Ok x \<Rightarrow> x | _ \<Rightarrow> (None, ?k)) = Some (GoErr ''write'')"
    by (simp add: sock_Write_def net_Write_def)
  then have "e \<noteq> None" using *(1) by simp
  then have "j < 2" using *(2,3) by auto
  then show ?thesis using *(1,4,5) by blast
qed

end
